(* ===== verification/Prelude.thy ===== *)
theory Prelude
  imports Complex_Main "HOL-Library.Product_Lexorder" "HOL-Library.Option_ord"
begin

text \<open>
  Shared vocabulary of the development: the value types of the Python code, the small part of
  Python's string and integer library the services use (\<open>str.strip\<close>, \<open>str.lower\<close>, slicing,
  \<open>int(text)\<close>, \<open>max(..., key=...)\<close>), and the generic lemmas on lists and options that the
  component theories share.

  Conventions. A UUID is its 128-bit integer (\<open>uuid.UUID.int\<close>), so the order of \<open>uuid\<close> is the
  order \<open>UUID.int\<close> gives. A \<open>datetime\<close> is the number of microseconds since the epoch in UTC.
  Text is a list of code points below 256 (HOL's \<open>char\<close>), which is what \<open>length\<close> counts, as
  Python's \<open>len\<close> counts code points. Floating-point scores are exact rationals.
\<close>

type_synonym uuid = nat
type_synonym time = int
type_synonym text_value = string

named_theorems frame_simps \<open>fields an operation leaves alone\<close>
named_theorems row_simps \<open>what an operation writes into the row it owns\<close>

section \<open>Python text\<close>

definition is_py_space :: "char \<Rightarrow> bool" where
  "is_py_space c =
     (let n = (of_char c :: nat)
      in (9 \<le> n \<and> n \<le> 13) \<or> (28 \<le> n \<and> n \<le> 32) \<or> n = 133 \<or> n = 160)"

definition py_lstrip :: "text_value \<Rightarrow> text_value" where
  "py_lstrip s = dropWhile is_py_space s"

definition py_rstrip :: "text_value \<Rightarrow> text_value" where
  "py_rstrip s = rev (dropWhile is_py_space (rev s))"

definition py_strip :: "text_value \<Rightarrow> text_value" where
  "py_strip s = py_rstrip (py_lstrip s)"

definition py_lower_char :: "char \<Rightarrow> char" where
  "py_lower_char c =
     (let n = (of_char c :: nat)
      in if (65 \<le> n \<and> n \<le> 90) \<or> (192 \<le> n \<and> n \<le> 222 \<and> n \<noteq> 215) then char_of (n + 32) else c)"

definition py_lower :: "text_value \<Rightarrow> text_value" where
  "py_lower s = map py_lower_char s"

definition opt_text :: "text_value \<Rightarrow> text_value option" where
  "opt_text s = (if s = [] then None else Some s)"

lemma length_dropWhile_le2: "length (dropWhile P xs) \<le> length xs"
  by (rule length_dropWhile_le)

lemma py_strip_length: "length (py_strip s) \<le> length s"
  unfolding py_strip_def py_rstrip_def py_lstrip_def
  using length_dropWhile_le [of is_py_space "rev (dropWhile is_py_space s)"]
    length_dropWhile_le [of is_py_space s]
  by simp

lemma py_rstrip_last: "py_rstrip s \<noteq> [] \<Longrightarrow> \<not> is_py_space (last (py_rstrip s))"
  unfolding py_rstrip_def by (metis hd_dropWhile last_rev rev_is_Nil_conv)

lemma py_rstrip_id: "s = [] \<or> \<not> is_py_space (last s) \<Longrightarrow> py_rstrip s = s"
  unfolding py_rstrip_def by (cases s rule: rev_cases) auto

lemma py_lstrip_id: "s = [] \<or> \<not> is_py_space (hd s) \<Longrightarrow> py_lstrip s = s"
  unfolding py_lstrip_def by (cases s) auto

lemma py_rstrip_prefix: "\<exists>t. s = py_rstrip s @ t"
  unfolding py_rstrip_def
  by (metis rev_append rev_rev_ident takeWhile_dropWhile_id)

lemma py_strip_hd: "py_strip s \<noteq> [] \<Longrightarrow> \<not> is_py_space (hd (py_strip s))"
proof -
  assume ne: "py_strip s \<noteq> []"
  obtain t where t: "py_lstrip s = py_rstrip (py_lstrip s) @ t"
    using py_rstrip_prefix by blast
  have "hd (py_lstrip s) = hd (py_strip s)"
    using ne t unfolding py_strip_def by (metis hd_append2)
  moreover have "py_lstrip s \<noteq> []"
    using ne unfolding py_strip_def py_rstrip_def by auto
  ultimately show ?thesis
    unfolding py_lstrip_def by (metis hd_dropWhile)
qed

lemma py_strip_idem [simp]: "py_strip (py_strip s) = py_strip s"
proof (cases "py_strip s = []")
  case True
  have "py_strip [] = []" by (simp add: py_strip_def py_lstrip_def py_rstrip_def)
  then show ?thesis by (simp only: True)
next
  case False
  then have "py_lstrip (py_strip s) = py_strip s"
    by (simp add: py_lstrip_id py_strip_hd)
  moreover have "py_rstrip (py_strip s) = py_strip s"
    using False py_rstrip_last [of "py_lstrip s"]
    by (intro py_rstrip_id) (simp add: py_strip_def)
  ultimately show ?thesis by (simp add: py_strip_def [of "py_strip s"])
qed

section \<open>\<open>int(text)\<close>\<close>

text \<open>
  Python's \<open>int(text)\<close> for base 10: surrounding blanks, one optional sign, digits, with single
  underscores allowed between digits. \<open>None\<close> is \<open>ValueError\<close>.
\<close>

definition digit_value :: "char \<Rightarrow> int option" where
  "digit_value c =
     (let n = (of_char c :: nat) in if 48 \<le> n \<and> n \<le> 57 then Some (int n - 48) else None)"

fun py_digits :: "bool \<Rightarrow> int \<Rightarrow> text_value \<Rightarrow> int option" where
  "py_digits seen acc [] = (if seen then Some acc else None)"
| "py_digits seen acc (c # cs) =
     (case digit_value c of
        Some d \<Rightarrow> py_digits True (10 * acc + d) cs
      | None \<Rightarrow>
          if seen \<and> c = CHR ''_'' \<and> cs \<noteq> [] then py_digits False acc cs else None)"

definition py_int :: "text_value \<Rightarrow> int option" where
  "py_int s =
     (case py_strip s of
        [] \<Rightarrow> None
      | c # cs \<Rightarrow>
          if c = CHR ''-'' then map_option uminus (py_digits False 0 cs)
          else if c = CHR ''+'' then py_digits False 0 cs
          else py_digits False 0 (c # cs))"

section \<open>\<open>str(uuid)\<close>\<close>

text \<open>
  The canonical text of a UUID: 32 lower-case hexadecimal digits in groups of 8, 4, 4, 4 and 12. The
  reader takes a text of hexadecimal digits and dashes, as \<open>uuid.UUID\<close> does on such texts: the
  dashes go, 32 digits must remain.
\<close>

definition hex_digit :: "nat \<Rightarrow> char" where
  "hex_digit n = (if n < 10 then char_of (48 + n) else char_of (87 + n))"

definition hex_value :: "char \<Rightarrow> nat option" where
  "hex_value c =
     (let n = (of_char c :: nat)
      in if 48 \<le> n \<and> n \<le> 57 then Some (n - 48)
         else if 97 \<le> n \<and> n \<le> 102 then Some (n - 87)
         else if 65 \<le> n \<and> n \<le> 70 then Some (n - 55)
         else None)"

fun hex_text :: "nat \<Rightarrow> nat \<Rightarrow> text_value" where
  "hex_text 0 u = []"
| "hex_text (Suc k) u = hex_text k (u div 16) @ [hex_digit (u mod 16)]"

fun hex_read :: "nat \<Rightarrow> text_value \<Rightarrow> nat option" where
  "hex_read acc [] = Some acc"
| "hex_read acc (c # cs) =
     (case hex_value c of None \<Rightarrow> None | Some d \<Rightarrow> hex_read (16 * acc + d) cs)"

definition uuid_text :: "uuid \<Rightarrow> text_value" where
  "uuid_text u =
     (let h = hex_text 32 u
      in take 8 h @ ''-'' @ take 4 (drop 8 h) @ ''-'' @ take 4 (drop 12 h) @ ''-'' @
         take 4 (drop 16 h) @ ''-'' @ drop 20 h)"

definition uuid_read :: "text_value \<Rightarrow> uuid option" where
  "uuid_read s =
     (let digits = filter (\<lambda>c. c \<noteq> CHR ''-'') s
      in if length digits \<noteq> 32 then None else hex_read 0 digits)"

lemma length_hex_text [simp]: "length (hex_text k u) = k"
  by (induction k arbitrary: u) auto

lemma less_16_cases: "n < (16::nat) \<Longrightarrow> n \<in> set [0,1,2,3,4,5,6,7,8,9,10,11,12,13,14,15]"
  by (simp only: list.set insert_iff empty_iff) presburger

lemma hex_value_digit: "n < 16 \<Longrightarrow> hex_value (hex_digit n) = Some n"
  by (drule less_16_cases) (auto simp: hex_value_def hex_digit_def)

lemma hex_digit_not_dash: "n < 16 \<Longrightarrow> hex_digit n \<noteq> CHR ''-''"
  using hex_value_digit [of n] by (auto simp: hex_value_def)

lemma hex_digit_charset: "n < 16 \<Longrightarrow> hex_value (hex_digit n) \<noteq> None"
  by (simp add: hex_value_digit)

lemma hex_text_hex: "c \<in> set (hex_text k u) \<Longrightarrow> hex_value c \<noteq> None \<and> c \<noteq> CHR ''-''"
  by (induction k arbitrary: u) (auto simp: hex_value_digit hex_digit_not_dash)

lemma hex_read_append:
  "hex_read acc (xs @ ys) = (case hex_read acc xs of None \<Rightarrow> None | Some a \<Rightarrow> hex_read a ys)"
  by (induction xs arbitrary: acc) (auto split: option.splits)

lemma hex_read_text: "u < 16 ^ k \<Longrightarrow> hex_read 0 (hex_text k u) = Some u"
proof (induction k arbitrary: u)
  case 0
  then show ?case by simp
next
  case (Suc k)
  then have "u div 16 < 16 ^ k" by (simp add: less_mult_imp_div_less mult.commute)
  with Suc.IH show ?case
    by (simp add: hex_read_append hex_value_digit)
qed

lemma uuid_text_digits: "filter (\<lambda>c. c \<noteq> CHR ''-'') (uuid_text u) = hex_text 32 u"
proof -
  let ?h = "hex_text 32 u"
  have f: "filter (\<lambda>c. c \<noteq> CHR ''-'') xs = xs" if "set xs \<subseteq> set ?h" for xs
    using that hex_text_hex by (intro filter_True) blast
  have d: "take 4 (drop 16 ?h) @ drop 20 ?h = drop 16 ?h" "take 4 (drop 12 ?h) @ drop 16 ?h = drop 12 ?h"
    "take 4 (drop 8 ?h) @ drop 12 ?h = drop 8 ?h"
    using append_take_drop_id [of 4 "drop 16 ?h"] append_take_drop_id [of 4 "drop 12 ?h"]
      append_take_drop_id [of 4 "drop 8 ?h"]
    by (simp_all del: append_take_drop_id)
  have parts: "take 8 ?h @ take 4 (drop 8 ?h) @ take 4 (drop 12 ?h) @ take 4 (drop 16 ?h) @ drop 20 ?h = ?h"
    by (simp only: d append_take_drop_id)
  have sub: "set (take a (drop b ?h)) \<subseteq> set ?h" "set (take a ?h) \<subseteq> set ?h" "set (drop b ?h) \<subseteq> set ?h" for a b
    using set_take_subset set_drop_subset by (metis order_trans)+
  have "filter (\<lambda>c. c \<noteq> CHR ''-'') (uuid_text u) =
      take 8 ?h @ take 4 (drop 8 ?h) @ take 4 (drop 12 ?h) @ take 4 (drop 16 ?h) @ drop 20 ?h"
    unfolding uuid_text_def Let_def filter_append by (simp only: f sub) simp
  with parts show ?thesis by simp
qed

lemma uuid_text_length: "length (uuid_text u) = 36"
  by (simp add: uuid_text_def Let_def)

lemma uuid_text_chars: "c \<in> set (uuid_text u) \<Longrightarrow> hex_value c \<noteq> None \<or> c = CHR ''-''"
  unfolding uuid_text_def Let_def
  by (auto dest!: in_set_takeD in_set_dropD dest: hex_text_hex)

lemma uuid_read_text: "u < 16 ^ 32 \<Longrightarrow> uuid_read (uuid_text u) = Some u"
  by (simp add: uuid_read_def uuid_text_digits hex_read_text)

section \<open>The element with the greatest key\<close>

text \<open>
  \<open>max(xs, key=k)\<close>, and the SQL \<open>ORDER BY k DESC LIMIT 1\<close>: the first element whose key no later
  element exceeds; \<open>None\<close> for no element.
\<close>

fun max_by :: "('a \<Rightarrow> 'k::linorder) \<Rightarrow> 'a list \<Rightarrow> 'a option" where
  "max_by k [] = None"
| "max_by k (x # xs) =
     (case max_by k xs of None \<Rightarrow> Some x | Some y \<Rightarrow> if k x < k y then Some y else Some x)"

lemma max_by_None [simp]: "max_by k xs = None \<longleftrightarrow> xs = []"
  by (cases xs) (auto split: option.splits)

lemma max_by_mem: "max_by k xs = Some x \<Longrightarrow> x \<in> set xs"
  by (induction xs arbitrary: x) (auto split: option.splits if_splits)

lemma max_by_ge: "max_by k xs = Some x \<Longrightarrow> y \<in> set xs \<Longrightarrow> k y \<le> k x"
proof (induction xs arbitrary: x y)
  case Nil
  then show ?case by simp
next
  case (Cons a xs)
  show ?case
  proof (cases "max_by k xs")
    case None
    with Cons.prems show ?thesis by simp
  next
    case (Some z)
    with Cons.IH have ge: "\<And>w. w \<in> set xs \<Longrightarrow> k w \<le> k z" by blast
    show ?thesis
    proof (cases "k a < k z")
      case True
      with Some Cons.prems ge show ?thesis by (auto intro: less_imp_le)
    next
      case False
      with Some Cons.prems have "x = a" by simp
      with Cons.prems(2) ge False show ?thesis by (auto simp: not_less intro: order_trans)
    qed
  qed
qed

lemma max_by_exists: "xs \<noteq> [] \<Longrightarrow> \<exists>x. max_by k xs = Some x"
  by (cases "max_by k xs") auto

section \<open>Lists\<close>

text \<open>\<open>tuple(dict.fromkeys(xs))\<close>: the first occurrences, in order.\<close>

fun dedup :: "'a list \<Rightarrow> 'a list" where
  "dedup [] = []"
| "dedup (x # xs) = x # filter (\<lambda>y. y \<noteq> x) (dedup xs)"

lemma set_dedup [simp]: "set (dedup xs) = set xs"
  by (induction xs) auto

lemma distinct_dedup [simp]: "distinct (dedup xs)"
  by (induction xs) auto

lemma find_SomeD: "find P xs = Some x \<Longrightarrow> x \<in> set xs \<and> P x"
  by (metis find_Some_iff nth_mem)

lemma find_map_same:
  "(\<And>x. x \<in> set xs \<Longrightarrow> P (f x) = P x) \<Longrightarrow> find P (map f xs) = map_option f (find P xs)"
  by (induction xs) auto

text \<open>\<open>update_first\<close> writes the first row a lookup finds; the other rows keep their places.\<close>

fun update_first :: "('a \<Rightarrow> bool) \<Rightarrow> ('a \<Rightarrow> 'a) \<Rightarrow> 'a list \<Rightarrow> 'a list" where
  "update_first P f [] = []"
| "update_first P f (x # xs) = (if P x then f x # xs else x # update_first P f xs)"

lemma length_update_first [simp]: "length (update_first P f xs) = length xs"
  by (induction xs) auto

lemma map_update_first:
  "(\<And>x. g (f x) = g x) \<Longrightarrow> map g (update_first P f xs) = map g xs"
  by (induction xs) auto

lemma find_update_first:
  "(\<And>x. P x \<Longrightarrow> P (f x)) \<Longrightarrow> find P (update_first P f xs) = map_option f (find P xs)"
  by (induction xs) auto

lemma update_first_None: "find P xs = None \<Longrightarrow> update_first P f xs = xs"
  by (induction xs) (auto split: if_splits)

section \<open>Tables\<close>

text \<open>
  A database table scanned by queries is the list of its rows, in the order the rows were inserted;
  \<open>key\<close> reads a row's primary key. \<open>row_put\<close> writes a row back in its place, or inserts it.
\<close>

definition row_get :: "('r \<Rightarrow> 'k) \<Rightarrow> 'k \<Rightarrow> 'r list \<Rightarrow> 'r option" where
  "row_get key k rows = find (\<lambda>r. key r = k) rows"

fun row_put :: "('r \<Rightarrow> 'k) \<Rightarrow> 'r \<Rightarrow> 'r list \<Rightarrow> 'r list" where
  "row_put key r [] = [r]"
| "row_put key r (x # xs) = (if key x = key r then r # xs else x # row_put key r xs)"

lemma row_get_Nil [simp]: "row_get key k [] = None"
  by (simp add: row_get_def)

lemma row_get_Cons [simp]:
  "row_get key k (x # xs) = (if key x = k then Some x else row_get key k xs)"
  by (simp add: row_get_def)

lemma row_get_put [simp]:
  "row_get key k (row_put key r rows) = (if key r = k then Some r else row_get key k rows)"
  by (induction rows) auto

lemma row_get_key: "row_get key k rows = Some r \<Longrightarrow> key r = k"
  unfolding row_get_def by (auto dest: find_SomeD)

lemma row_get_mem: "row_get key k rows = Some r \<Longrightarrow> r \<in> set rows"
  unfolding row_get_def by (auto dest: find_SomeD)

lemma row_put_keys:
  "row_get key (key r) rows \<noteq> None \<Longrightarrow> map key (row_put key r rows) = map key rows"
  by (induction rows) auto

lemma row_put_new:
  "row_get key (key r) rows = None \<Longrightarrow> row_put key r rows = rows @ [r]"
  by (induction rows) (auto split: if_splits)

lemma row_get_None_iff: "row_get key k rows = None \<longleftrightarrow> k \<notin> key ` set rows"
  by (induction rows) auto

lemma row_put_distinct:
  "distinct (map key rows) \<Longrightarrow> distinct (map key (row_put key r rows))"
proof (cases "row_get key (key r) rows = None")
  case True
  assume "distinct (map key rows)"
  with True show ?thesis by (auto simp: row_put_new row_get_None_iff)
next
  case False
  assume "distinct (map key rows)"
  with False show ?thesis by (simp add: row_put_keys)
qed

lemma row_put_same:
  "row_get key (key r) rows = Some r \<Longrightarrow> row_put key r rows = rows"
  by (induction rows) (auto split: if_splits)

lemma row_put_set_subset: "set (row_put key r rows) \<subseteq> insert r (set rows)"
  by (induction rows) auto

lemma row_get_iff_mem:
  "distinct (map key rows) \<Longrightarrow> row_get key (key r) rows = Some r \<longleftrightarrow> r \<in> set rows"
  by (induction rows) (auto simp: image_iff)

lemma row_put_set:
  "distinct (map key rows) \<Longrightarrow>
     set (row_put key r rows) = insert r {x \<in> set rows. key x \<noteq> key r}"
  by (induction rows) (auto simp: image_iff)

lemma row_get_append [simp]:
  "row_get key k (xs @ ys) = (case row_get key k xs of Some r \<Rightarrow> Some r | None \<Rightarrow> row_get key k ys)"
  by (induction xs) auto

lemma row_get_map_if:
  "(\<And>m. key (g m) = key m) \<Longrightarrow>
     row_get key i (map (\<lambda>m. if P m then g m else m) xs) =
       map_option (\<lambda>m. if P m then g m else m) (row_get key i xs)"
  by (induction xs) auto

lemma max_by_map: "max_by key (map f xs) = map_option f (max_by (\<lambda>x. key (f x)) xs)"
  by (induction xs) (auto split: option.splits)

lemma map_row_put_same:
  "row_get key (key r) rows = Some r0 \<Longrightarrow> f r = f r0 \<Longrightarrow> map f (row_put key r rows) = map f rows"
  by (induction rows) (auto split: if_splits)

end
