(* ===== verification/Enums.thy ===== *)
theory Enums
  imports Prelude
begin

text \<open>
  The enumerations of \<open>models/enums.py\<close> and \<open>schemas/pipeline_base.py\<close> the modelled services branch
  on, and the stage tables of \<open>pipeline/constants.py\<close>: stage order, successor stages, the event type
  each hand-over carries, the pairing of sync targets with sync stages, and the normalized reasons.
  A constructor keeps the name of its Python member, with a prefix where two enumerations share one.
\<close>

section \<open>Enumerations\<close>

datatype stage = INGEST | TRANSCODE | OCR | EMBED | CLASSIFY | SYNC_QDRANT | SYNC_MEILI

datatype stage_status =
  STAGE_PENDING | STAGE_PROCESSING | STAGE_SUCCEEDED | STAGE_FAILED | STAGE_DUPLICATE

datatype processing_status = FILE_FAILED | FILE_PENDING | FILE_PROCESSING | FILE_READY

datatype content_language = LANG_EN | LANG_MIXED | LANG_NONE | LANG_RU

datatype ingest_source_kind = USER_UPLOAD | PUBLIC_CRAWLER | OPERATOR_UPLOAD

datatype visibility_mode = AUTO | FORCE_PUBLIC | FORCE_PRIVATE

datatype attach_reason =
    NEW_FILE | SHA256_EXACT_EXISTING_FILE | PHASH_EXACT_NEW_FILE
  | BLOCKED_SHA256_EXISTING_FILE | BLOCKED_PERCEPTUAL_HASH_NEW_FILE

datatype outbox_status = OUTBOX_PENDING | OUTBOX_PUBLISHING | OUTBOX_PUBLISHED | OUTBOX_FAILED

datatype sync_target = QDRANT | MEILISEARCH

datatype sync_status = SYNC_PENDING | SYNC_PROCESSING | SYNC_SYNCED | SYNC_FAILED

datatype recovery_capability =
    RESUME_BACKFILL | REPLAY_SOURCE_POST | REINSPECT_INGEST | RETRY_STAGE | REPLAY_STAGE
  | REGENERATE_DERIVATIVES | RESYNC_TARGET | REBUILD_OUTBOX | RECOVER_DEAD_LETTER
  | ARCHIVE_DEAD_LETTER

datatype recovery_item_status =
    ITEM_QUEUED | ITEM_WAITING_DEPENDENCY | ITEM_WAITING_CAPACITY | ITEM_DISPATCHED
  | ITEM_SUCCEEDED | ITEM_FAILED | ITEM_SKIPPED_STALE | ITEM_SKIPPED_DEPENDENCY | ITEM_CANCELLED

datatype recovery_work_kind =
    WORK_BACKFILL | WORK_SOURCE_POST | WORK_INGEST_REQUEST | WORK_PIPELINE_STAGE
  | WORK_SYNC_TARGET | WORK_OUTBOX | WORK_DEAD_LETTER

datatype generation_status =
  GENERATING | VERIFIED | UPLOADED | ACTIVE | SUPERSEDED | GEN_FAILED | STALE

datatype cleanup_status =
  NOT_ELIGIBLE | CLEANUP_PENDING | CLEANUP_DELETED | RETAINED_REFERENCED | CLEANUP_FAILED

datatype attempt_outcome =
    ATTEMPT_PROCESSING | ATTEMPT_SUCCEEDED | ATTEMPT_FAILED_RETRYABLE | ATTEMPT_FAILED_TERMINAL
  | ATTEMPT_SKIPPED

datatype content_source_kind = EXTERNAL_SITE | MANUAL_UPLOAD | SOURCE_TELEGRAM | WEB_CRAWL

datatype event_type =
    MEME_CREATED | MEME_TRANSCODED | MEME_OCR_DONE | MEME_EMBEDDED | MEME_READY
  | MEME_QDRANT_SYNCED | MEME_MEILI_SYNCED | STAGE_REPLAY_REQUESTED

datatype item_filter = FILTER_ALL | FILTER_DUPLICATE | FILTER_FAILED | FILTER_STUCK

fun stage_status_value :: "stage_status \<Rightarrow> text_value" where
  "stage_status_value STAGE_PENDING = ''pending''"
| "stage_status_value STAGE_PROCESSING = ''processing''"
| "stage_status_value STAGE_SUCCEEDED = ''succeeded''"
| "stage_status_value STAGE_FAILED = ''failed''"
| "stage_status_value STAGE_DUPLICATE = ''duplicate''"

text \<open>\<open>ContentPipelineStageStatus(text)\<close>; \<open>None\<close> is \<open>ValueError\<close>.\<close>

definition stage_status_of_text :: "text_value \<Rightarrow> stage_status option" where
  "stage_status_of_text t =
     find (\<lambda>s. stage_status_value s = t)
       [STAGE_PENDING, STAGE_PROCESSING, STAGE_SUCCEEDED, STAGE_FAILED, STAGE_DUPLICATE]"

lemma stage_status_of_value [simp]: "stage_status_of_text (stage_status_value s) = Some s"
  by (cases s) (simp_all add: stage_status_of_text_def)

fun file_status_value :: "processing_status \<Rightarrow> text_value" where
  "file_status_value FILE_FAILED = ''failed''"
| "file_status_value FILE_PENDING = ''pending''"
| "file_status_value FILE_PROCESSING = ''processing''"
| "file_status_value FILE_READY = ''ready''"

section \<open>Stage tables\<close>

fun STAGE_ORDER :: "stage \<Rightarrow> nat" where
  "STAGE_ORDER INGEST = 0"
| "STAGE_ORDER TRANSCODE = 1"
| "STAGE_ORDER OCR = 2"
| "STAGE_ORDER EMBED = 3"
| "STAGE_ORDER CLASSIFY = 4"
| "STAGE_ORDER SYNC_QDRANT = 5"
| "STAGE_ORDER SYNC_MEILI = 6"

definition ACTIVE_STAGE_STATUSES :: "stage_status list" where
  "ACTIVE_STAGE_STATUSES = [STAGE_PENDING, STAGE_PROCESSING, STAGE_FAILED, STAGE_DUPLICATE]"

definition DEFAULT_PIPELINE_ITEMS_LIMIT :: int where "DEFAULT_PIPELINE_ITEMS_LIMIT = 50"
definition MAX_PIPELINE_ITEMS_LIMIT :: int where "MAX_PIPELINE_ITEMS_LIMIT = 200"
definition SYNC_REPLAY_BATCH_MAX :: nat where "SYNC_REPLAY_BATCH_MAX = 10"

definition PIPELINE_REASON_REPLAY_REQUESTED :: text_value where
  "PIPELINE_REASON_REPLAY_REQUESTED = ''replay_requested''"

definition PIPELINE_REASON_SYNC_REPLAY_REQUESTED :: text_value where
  "PIPELINE_REASON_SYNC_REPLAY_REQUESTED = ''sync_replay_requested''"

fun DOWNSTREAM_STAGE_EVENT_TYPES :: "stage \<Rightarrow> event_type option" where
  "DOWNSTREAM_STAGE_EVENT_TYPES TRANSCODE = Some MEME_TRANSCODED"
| "DOWNSTREAM_STAGE_EVENT_TYPES OCR = Some MEME_OCR_DONE"
| "DOWNSTREAM_STAGE_EVENT_TYPES EMBED = Some MEME_EMBEDDED"
| "DOWNSTREAM_STAGE_EVENT_TYPES CLASSIFY = Some MEME_READY"
| "DOWNSTREAM_STAGE_EVENT_TYPES _ = None"

fun NEXT_STAGE_BY_STAGE :: "stage \<Rightarrow> stage option" where
  "NEXT_STAGE_BY_STAGE TRANSCODE = Some OCR"
| "NEXT_STAGE_BY_STAGE OCR = Some EMBED"
| "NEXT_STAGE_BY_STAGE EMBED = Some CLASSIFY"
| "NEXT_STAGE_BY_STAGE _ = None"

definition CLASSIFY_FAN_OUT_STAGES :: "stage list" where
  "CLASSIFY_FAN_OUT_STAGES = [SYNC_QDRANT, SYNC_MEILI]"

fun SYNC_STAGE_BY_TARGET :: "sync_target \<Rightarrow> stage" where
  "SYNC_STAGE_BY_TARGET QDRANT = SYNC_QDRANT"
| "SYNC_STAGE_BY_TARGET MEILISEARCH = SYNC_MEILI"

definition SYNC_STAGES :: "stage list" where
  "SYNC_STAGES = map SYNC_STAGE_BY_TARGET [QDRANT, MEILISEARCH]"

fun SYNC_SUCCESS_EVENT_TYPE_BY_TARGET :: "sync_target \<Rightarrow> event_type" where
  "SYNC_SUCCESS_EVENT_TYPE_BY_TARGET QDRANT = MEME_QDRANT_SYNCED"
| "SYNC_SUCCESS_EVENT_TYPE_BY_TARGET MEILISEARCH = MEME_MEILI_SYNCED"

fun SYNC_MALFORMED_REASON_BY_TARGET :: "sync_target \<Rightarrow> text_value" where
  "SYNC_MALFORMED_REASON_BY_TARGET QDRANT = ''sync_qdrant_malformed_payload''"
| "SYNC_MALFORMED_REASON_BY_TARGET MEILISEARCH = ''sync_meili_malformed_payload''"

text \<open>\<open>_PIPELINE_EVENT_ALLOWED_STAGES\<close>: the stages an event of each type may name.\<close>

fun PIPELINE_EVENT_ALLOWED_STAGES :: "event_type \<Rightarrow> stage list" where
  "PIPELINE_EVENT_ALLOWED_STAGES MEME_CREATED = [TRANSCODE]"
| "PIPELINE_EVENT_ALLOWED_STAGES MEME_TRANSCODED = [OCR]"
| "PIPELINE_EVENT_ALLOWED_STAGES MEME_OCR_DONE = [EMBED]"
| "PIPELINE_EVENT_ALLOWED_STAGES MEME_EMBEDDED = [CLASSIFY]"
| "PIPELINE_EVENT_ALLOWED_STAGES MEME_READY = [SYNC_QDRANT, SYNC_MEILI]"
| "PIPELINE_EVENT_ALLOWED_STAGES MEME_QDRANT_SYNCED = [SYNC_QDRANT]"
| "PIPELINE_EVENT_ALLOWED_STAGES MEME_MEILI_SYNCED = [SYNC_MEILI]"
| "PIPELINE_EVENT_ALLOWED_STAGES STAGE_REPLAY_REQUESTED =
     [TRANSCODE, OCR, EMBED, CLASSIFY, SYNC_QDRANT, SYNC_MEILI]"

section \<open>The order of the stages\<close>

lemma STAGE_ORDER_inj: "STAGE_ORDER a = STAGE_ORDER b \<Longrightarrow> a = b"
  by (cases a; cases b) simp_all

text \<open>The stages are ordered as \<open>STAGE_ORDER\<close> ranks them.\<close>

instantiation stage :: linorder
begin

definition less_eq_stage :: "stage \<Rightarrow> stage \<Rightarrow> bool" where
  "less_eq_stage a b = (STAGE_ORDER a \<le> STAGE_ORDER b)"

definition less_stage :: "stage \<Rightarrow> stage \<Rightarrow> bool" where
  "less_stage a b = (STAGE_ORDER a < STAGE_ORDER b)"

instance
  by standard (auto simp: less_eq_stage_def less_stage_def intro: STAGE_ORDER_inj)

end

text \<open>Every stage, in the order of the enumeration.\<close>

definition all_stages :: "stage list" where
  "all_stages = [INGEST, TRANSCODE, OCR, EMBED, CLASSIFY, SYNC_QDRANT, SYNC_MEILI]"

lemma mem_all_stages [simp]: "s \<in> set all_stages"
  by (cases s) (simp_all add: all_stages_def)

lemma sync_stage_mem [simp]: "SYNC_STAGE_BY_TARGET t \<in> set SYNC_STAGES"
  by (cases t) (simp_all add: SYNC_STAGES_def)

lemma mem_SYNC_STAGES: "s \<in> set SYNC_STAGES \<longleftrightarrow> s = SYNC_QDRANT \<or> s = SYNC_MEILI"
  by (auto simp: SYNC_STAGES_def)

lemma mem_ACTIVE: "s \<in> set ACTIVE_STAGE_STATUSES \<longleftrightarrow> s \<noteq> STAGE_SUCCEEDED"
  by (cases s) (simp_all add: ACTIVE_STAGE_STATUSES_def)

lemma SYNC_STAGE_BY_TARGET_inj: "SYNC_STAGE_BY_TARGET a = SYNC_STAGE_BY_TARGET b \<longleftrightarrow> a = b"
  by (cases a; cases b) simp_all

lemma next_stage_increases: "NEXT_STAGE_BY_STAGE s = Some t \<Longrightarrow> s < t"
  by (cases s) (auto simp: less_stage_def)

lemma next_stage_event_allowed:
  "NEXT_STAGE_BY_STAGE s = Some t \<Longrightarrow>
     \<exists>e. DOWNSTREAM_STAGE_EVENT_TYPES s = Some e \<and> t \<in> set (PIPELINE_EVENT_ALLOWED_STAGES e)"
  by (cases s) auto

end
