(* ===== verification/Pipeline_State.thy ===== *)
theory Pipeline_State
  imports Enums
begin

text \<open>
  The database rows the content pipeline reads and writes, the database as one record of tables,
  the environment of a handler, and the shared helpers of \<open>pipeline/helpers.py\<close> and
  \<open>pipeline/state.py\<close>.

  A handler is a function from the environment, its arguments and the database to an outcome and the
  database it leaves committed: \<open>Inl e\<close> is the exception that leaves the handler, and the database
  beside it is what the handler had committed before it raised (the original one, when it raised
  before any commit: the session is then rolled back by its owner). A handler reads the clock more
  than once; the model reads it once, \<open>env_now\<close>. The \<open>n\<close>-th \<open>uuid.uuid7()\<close> of a handler is
  \<open>env_fresh n\<close>.
\<close>

section \<open>Rows\<close>

text \<open>
  A JSON value. \<open>JUuid u\<close> and \<open>JTime t\<close> are the texts \<open>str(u)\<close> and \<open>t.isoformat()\<close>; \<open>JText\<close> is any
  other text.
\<close>

datatype jval = JNull | JBool bool | JInt int | JText text_value | JUuid uuid | JTime time

type_synonym json_object = "text_value \<Rightarrow> jval option"

record meme =
  me_id :: uuid
  me_created_at :: time
  me_primary_file :: uuid
  me_ocr_text :: "text_value option"
  me_language :: content_language
  me_is_nsfw :: bool
  me_like_count :: int
  me_visibility_mode :: visibility_mode
  me_is_public :: bool

record meme_file =
  mf_id :: uuid
  mf_created_at :: time
  mf_meme_id :: uuid
  mf_status :: processing_status
  mf_mime_type :: "text_value option"
  mf_s3_original_key :: text_value
  mf_s3_web_video_key :: "text_value option"
  mf_active_generation :: "uuid option"
  mf_source_has_audio :: "bool option"
  mf_web_video_has_audio :: "bool option"
  mf_web_video_profile :: "text_value option"
  mf_web_video_verified_at :: "time option"
  mf_sha256_hex :: "text_value option"
  mf_quality_score :: rat
  mf_blur_hash :: "text_value option"

record stage_journal =
  sj_id :: uuid
  sj_file :: uuid
  sj_stage :: stage
  sj_status :: stage_status
  sj_attempt_count :: int
  sj_last_event_id :: "uuid option"
  sj_normalized_reason :: "text_value option"
  sj_last_error_text :: "text_value option"
  sj_is_retryable :: bool
  sj_retry_after :: "time option"
  sj_started_at :: "time option"
  sj_finished_at :: "time option"
  sj_updated_at :: time

record stage_attempt =
  at_recovery_item :: "uuid option"
  at_outcome :: attempt_outcome
  at_worker_role :: "text_value option"
  at_worker_instance :: "text_value option"
  at_normalized_reason :: "text_value option"
  at_safe_error_text :: "text_value option"
  at_started_at :: time
  at_finished_at :: "time option"

text \<open>\<open>work_id\<close> is \<open>str(row id)\<close>, \<open>f"{file id}:{suffix}"\<close>, or another text.\<close>

datatype work_id = WorkRow uuid | WorkFileSuffix uuid text_value | WorkText text_value

text \<open>
  A version fence: \<open>f"{updated_at.isoformat()}:{event id}"\<close>, with either part possibly empty, the fence of a row
  with a dead letter \<open>f"{version}:dead-letter:{updated_at}:"\<close>, or another text.
\<close>

datatype version = RowVersion "time option" "uuid option" | LinkedVersion version "time option" | VersionText text_value

record recovery_item =
  ri_id :: uuid
  ri_created_at :: time
  ri_file :: "uuid option"
  ri_stage :: "stage option"
  ri_work_kind :: recovery_work_kind
  ri_work_id :: work_id
  ri_action :: recovery_capability
  ri_retry_limit :: int
  ri_attempt_budget_start :: "int option"
  ri_failures_consumed :: int
  ri_preserve_ready :: bool
  ri_suppress_fanout :: bool
  ri_terminal_override :: bool
  ri_previous_stage_state :: json_object
  ri_reservation_active :: bool
  ri_status :: recovery_item_status
  ri_dispatch_event_id :: "uuid option"
  ri_canonical_version :: "version option"
  ri_normalized_reason :: "text_value option"
  ri_safe_error_text :: "text_value option"
  ri_dispatched_at :: "time option"
  ri_finished_at :: "time option"
  ri_job :: uuid
  ri_parent :: "uuid option"
  ri_expected_version :: version
  ri_is_root :: bool
  ri_source_item :: "uuid option"

record sync_snapshot =
  sn_id :: uuid
  sn_status :: sync_status
  sn_last_event_id :: "uuid option"
  sn_normalized_reason :: "text_value option"
  sn_last_error_text :: "text_value option"
  sn_preview :: "(text_value \<times> jval) list"
  sn_preview_fetched_at :: "time option"
  sn_last_success_at :: "time option"
  sn_last_attempt_at :: "time option"
  sn_attempt_count :: int

record ocr_result =
  oc_engine :: text_value
  oc_fallback_engine :: "text_value option"
  oc_fallback_used :: bool
  oc_low_confidence :: bool
  oc_confidence :: "rat option"
  oc_language :: content_language
  oc_extracted_text :: "text_value option"
  oc_source_object_key :: "text_value option"
  oc_last_event_id :: "uuid option"

text \<open>What FFprobe observed (\<open>media/contracts.py\<close>), as far as the services read it.\<close>

record video_stream =
  vs_codec_name :: "text_value option"
  vs_width :: "int option"
  vs_height :: "int option"
  vs_average_frame_rate :: "(int \<times> int) option"
  vs_real_frame_rate :: "(int \<times> int) option"
  vs_duration :: "rat option"
  vs_bit_rate :: "int option"
  vs_rotation_degrees :: int

record media_probe =
  mp_duration :: "rat option"
  mp_byte_size :: int
  mp_video_streams :: "video_stream list"
  mp_audio_codecs :: "text_value option list"

text \<open>The durable metrics of a verified derivative, columns of \<open>media_generations\<close>.\<close>

record generation_metrics =
  go_source_observations :: media_probe
  go_output_observations :: media_probe
  go_source_size :: "int option \<times> int option"
  go_source_rate :: "(int \<times> int) option"
  go_source_duration :: "rat option"
  go_source_has_audio :: "bool option"
  go_output_size :: "int option \<times> int option"
  go_output_rate :: "(int \<times> int) option"
  go_output_duration :: "rat option"
  go_output_video_bitrate :: "int option"
  go_output_byte_size :: int
  go_output_video_codec :: "text_value option"
  go_output_audio_codec :: "text_value option"
  go_output_has_audio :: "bool option"

record media_generation =
  mg_id :: uuid
  mg_created_at :: time
  mg_file :: "uuid option"
  mg_recovery_item :: "uuid option"
  mg_expected_key :: "text_value option"
  mg_web_video_key :: text_value
  mg_preview_key :: text_value
  mg_profile :: text_value
  mg_retry_limit :: int
  mg_attempt_count :: int
  mg_status :: generation_status
  mg_previous_file_status :: "text_value option"
  mg_previous_stage_status :: "text_value option"
  mg_previous_observations :: json_object
  mg_metrics :: "generation_metrics option"
  mg_failure_reason :: "text_value option"
  mg_failure_text :: "text_value option"
  mg_verified_at :: "time option"
  mg_uploaded_at :: "time option"
  mg_activated_at :: "time option"
  mg_superseded_at :: "time option"
  mg_cleanup_status :: cleanup_status
  mg_cleanup_attempts :: int
  mg_cleanup_error :: "text_value option"
  mg_cleanup_at :: "time option"

record meme_source =
  ms_id :: uuid
  ms_created_at :: time
  ms_file :: uuid
  ms_source_kind :: ingest_source_kind
  ms_uploader :: "uuid option"
  ms_attach_reason :: "attach_reason option"
  ms_matched_file :: "uuid option"

record pin =
  pn_user :: uuid
  pn_meme :: uuid
  pn_position :: int

record merge_log =
  ml_source_meme :: uuid
  ml_source_file :: "uuid option"
  ml_target_meme :: uuid
  ml_target_primary :: uuid
  ml_similarity :: "rat option"
  ml_reason :: text_value
  ml_moved_files :: "uuid list"

section \<open>Events and messages\<close>

record dispatch_event =
  ev_id :: uuid
  ev_type :: event_type
  ev_meme :: uuid
  ev_file :: uuid
  ev_stage :: stage
  ev_source_kind :: content_source_kind
  ev_original_key :: text_value
  ev_attempt :: int
  ev_created_at :: time

text \<open>
  A message id is the text \<open>str(uuid)\<close> or a text \<open>uuid.UUID\<close> rejects; a payload is a dispatch event or a
  media-inspect request in JSON form, or the JSON of another producer, kept as text.
\<close>

datatype message_id = MsgUuid uuid | MsgText text_value

record inspect_event =
  ie_id :: uuid
  ie_request :: uuid
  ie_platform :: text_value
  ie_sha256 :: text_value
  ie_created_at :: time

datatype payload = DispatchPayload dispatch_event | InspectPayload inspect_event | OtherPayload text_value

record outbox_message =
  ob_id :: uuid
  ob_exchange :: text_value
  ob_routing_key :: text_value
  ob_payload :: payload
  ob_headers :: "(text_value \<times> text_value) list"
  ob_content_type :: text_value
  ob_message_id :: message_id
  ob_event_type :: text_value
  ob_aggregate_type :: text_value
  ob_aggregate_id :: text_value
  ob_ordering_key :: "text_value option"
  ob_status :: outbox_status
  ob_attempt_count :: int
  ob_next_retry_at :: "time option"
  ob_locked_at :: "time option"
  ob_lock_owner :: "text_value option"
  ob_published_at :: "time option"
  ob_last_error :: "text_value option"
  ob_created_at :: time

section \<open>The database\<close>

text \<open>
  Tables that queries scan are row lists; tables that are only ever read by their unique key are
  maps. The keys of the maps are the unique constraints of \<open>models/content.py\<close> and
  \<open>models/operations.py\<close>: a journal row per file and stage, an attempt row per file, stage, event and
  attempt number, a snapshot per file and target, an OCR row per file. A cached embedding maps the
  input hash and model version to the stored bytes and the source file.
\<close>

record db =
  db_memes :: "meme list"
  db_files :: "meme_file list"
  db_sources :: "meme_source list"
  db_journal :: "uuid \<times> stage \<Rightarrow> stage_journal option"
  db_attempts :: "uuid \<times> stage \<times> uuid \<times> int \<Rightarrow> stage_attempt option"
  db_recovery :: "recovery_item list"
  db_snapshots :: "uuid \<times> sync_target \<Rightarrow> sync_snapshot option"
  db_ocr :: "uuid \<Rightarrow> ocr_result option"
  db_embeddings :: "text_value \<times> text_value \<Rightarrow> (rat list \<times> uuid) option"
  db_generations :: "media_generation list"
  db_outbox :: "outbox_message list"
  db_collection_memes :: "(uuid \<times> uuid) list"
  db_pins :: "pin list"
  db_merge_log :: "merge_log list"

section \<open>Errors and outcomes\<close>

text \<open>The exception classes a handler may raise, with the raise site.\<close>

datatype ingest_cause =
    NoJournalState | MissingCanonicalMeme | MissingJournalState | StaleTransition
  | CommitFailed text_value | SnapshotDisappeared | BadDimensions | BadVectorLength
  | MemeDisappeared | NoFilesForPrimary | RestoreRowDisappeared
  | MediaTypeMissing | CanonicalStateUnreadable | StageNotExecutable

datatype replay_cause =
    MissingOriginalKey | NoStageRow | NotRetryableFailed | NoRetryableStage | IngestNotReplayable
  | ReservationWithoutEvent | StageNotReplayable stage_status | TerminalNeedsAcknowledgement
  | ClassifyNotSucceeded | BatchTooLarge

datatype conflict_cause =
    FileMissing | PointerChangedBeforeReserve | TranscodeRowMissing | RecoveryAlreadyActive
  | PriorGenerationForeign | GenerationMissing | NotGenerating | ForeignOutput | KeysMismatch
  | ProfileMismatch | MissingObservations | MissingVideoStream | NotVerified
  | NeedsGenerationAndArtifacts | GenerationNotOwned | GenerationNotUploaded
  | PointerChangedBeforeActivation | OutputKeysMismatch

datatype validation_cause = EventStagePairing | BlankObjectKey | ObjectKeyTooLong | AttemptBelowOne

datatype pipeline_error =
    PipelineIngestError ingest_cause
  | PipelineItemNotFoundError uuid
  | PipelineReplayNotAllowedError replay_cause
  | PipelineMergeTransactionError
  | MediaGenerationConflictError conflict_cause
  | ValidationError validation_cause
  | RabbitOutboxError text_value
  | SQLAlchemyError

type_synonym 'a outcome = "(pipeline_error + 'a) \<times> db"

record env =
  env_now :: time
  env_fresh :: "nat \<Rightarrow> uuid"
  env_commit_ok :: bool
  env_worker_role :: "text_value option"
  env_worker_instance :: "text_value option"
  env_retry_backoff :: int
  env_retry_max_attempts :: int
  env_exchange :: text_value
  env_routing_key_prefix :: text_value
  env_derivative_prefix :: text_value
  env_broker_up :: bool
  env_broker :: "outbox_message \<Rightarrow> text_value option"
  env_lock_owner :: text_value
  env_flush_ok :: bool
  env_claim_ok :: bool
  env_row_locked :: "uuid \<Rightarrow> bool"
  env_mark_ok :: "uuid \<Rightarrow> bool"
  env_similarity_threshold :: rat
  env_embedding_dimensions :: nat

definition outcome_db :: "'a outcome \<Rightarrow> db" where
  "outcome_db r = snd r"

text \<open>\<open>_commit_stage_mutation\<close>: commit the pending changes \<open>d\<close>, or roll back to \<open>d0\<close> and raise.\<close>

definition commit_stage_mutation :: "env \<Rightarrow> text_value \<Rightarrow> db \<Rightarrow> db \<Rightarrow> unit outcome" where
  "commit_stage_mutation env failure_message d0 d =
     (if env_commit_ok env then (Inr (), d)
      else (Inl (PipelineIngestError (CommitFailed failure_message)), d0))"

section \<open>Row access\<close>

definition get_file :: "db \<Rightarrow> uuid \<Rightarrow> meme_file option" where
  "get_file d f = row_get mf_id f (db_files d)"

definition put_file :: "meme_file \<Rightarrow> db \<Rightarrow> db" where
  "put_file r d = d\<lparr>db_files := row_put mf_id r (db_files d)\<rparr>"

definition get_meme :: "db \<Rightarrow> uuid \<Rightarrow> meme option" where
  "get_meme d m = row_get me_id m (db_memes d)"

definition put_meme :: "meme \<Rightarrow> db \<Rightarrow> db" where
  "put_meme r d = d\<lparr>db_memes := row_put me_id r (db_memes d)\<rparr>"

definition get_generation :: "db \<Rightarrow> uuid \<Rightarrow> media_generation option" where
  "get_generation d g = row_get mg_id g (db_generations d)"

definition put_generation :: "media_generation \<Rightarrow> db \<Rightarrow> db" where
  "put_generation r d = d\<lparr>db_generations := row_put mg_id r (db_generations d)\<rparr>"

definition get_recovery :: "db \<Rightarrow> uuid \<Rightarrow> recovery_item option" where
  "get_recovery d i = row_get ri_id i (db_recovery d)"

definition put_recovery :: "recovery_item \<Rightarrow> db \<Rightarrow> db" where
  "put_recovery r d = d\<lparr>db_recovery := row_put ri_id r (db_recovery d)\<rparr>"

definition get_journal :: "db \<Rightarrow> uuid \<Rightarrow> stage \<Rightarrow> stage_journal option" where
  "get_journal d f s = db_journal d (f, s)"

text \<open>A flushed journal row is stamped with the time of the update.\<close>

definition put_journal :: "env \<Rightarrow> stage_journal \<Rightarrow> db \<Rightarrow> db" where
  "put_journal env r d =
     d\<lparr>db_journal := (db_journal d)((sj_file r, sj_stage r) \<mapsto> r\<lparr>sj_updated_at := env_now env\<rparr>)\<rparr>"

text \<open>The first recovery item dispatched under an event (\<open>_load_recovery_item\<close>).\<close>

definition load_recovery_item :: "db \<Rightarrow> uuid \<Rightarrow> recovery_item option" where
  "load_recovery_item d ev = find (\<lambda>i. ri_dispatch_event_id i = Some ev) (db_recovery d)"

text \<open>\<open>meme_file.pipeline_stage_journal_entries\<close>.\<close>

definition journal_entries :: "db \<Rightarrow> uuid \<Rightarrow> stage_journal list" where
  "journal_entries d f = List.map_filter (\<lambda>s. get_journal d f s) all_stages"

text \<open>Every journal row is stored under its own file and stage.\<close>

definition journal_keyed :: "db \<Rightarrow> bool" where
  "journal_keyed d \<longleftrightarrow> (\<forall>f s e. get_journal d f s = Some e \<longrightarrow> sj_file e = f \<and> sj_stage e = s)"

section \<open>Loading (\<open>pipeline/state.py\<close>)\<close>

definition get_meme_file :: "db \<Rightarrow> uuid \<Rightarrow> pipeline_error + meme_file" where
  "get_meme_file d f =
     (case get_file d f of None \<Rightarrow> Inl (PipelineItemNotFoundError f) | Some r \<Rightarrow> Inr r)"

definition get_meme_file_and_stage_entry ::
  "db \<Rightarrow> uuid \<Rightarrow> stage \<Rightarrow> pipeline_error + (meme_file \<times> stage_journal)" where
  "get_meme_file_and_stage_entry d f s =
     (case get_meme_file d f of
        Inl e \<Rightarrow> Inl e
      | Inr file \<Rightarrow>
          (case get_journal d f s of
             None \<Rightarrow> Inl (PipelineIngestError NoJournalState)
           | Some entry \<Rightarrow> Inr (file, entry)))"

definition get_canonical_meme :: "db \<Rightarrow> uuid \<Rightarrow> pipeline_error + meme" where
  "get_canonical_meme d m =
     (case get_meme d m of
        None \<Rightarrow> Inl (PipelineIngestError MissingCanonicalMeme) | Some r \<Rightarrow> Inr r)"

definition apply_canonical_primary_truth :: "meme \<Rightarrow> db \<Rightarrow> meme" where
  "apply_canonical_primary_truth m d =
     (case db_ocr d (me_primary_file m) of
        None \<Rightarrow> m\<lparr>me_ocr_text := None, me_language := LANG_NONE\<rparr>
      | Some row \<Rightarrow> m\<lparr>me_ocr_text := oc_extracted_text row, me_language := oc_language row\<rparr>)"

section \<open>Helpers (\<open>pipeline/helpers.py\<close>)\<close>

definition MAX_PIPELINE_REASON_LENGTH :: nat where "MAX_PIPELINE_REASON_LENGTH = 128"
definition MAX_PIPELINE_ERROR_LENGTH :: nat where "MAX_PIPELINE_ERROR_LENGTH = 4000"
definition MAX_OBJECT_KEY_LENGTH :: nat where "MAX_OBJECT_KEY_LENGTH = 1024"

definition trim_reason :: "text_value \<Rightarrow> text_value" where
  "trim_reason r = take MAX_PIPELINE_REASON_LENGTH (py_strip r)"

definition trim_error_text :: "text_value \<Rightarrow> text_value" where
  "trim_error_text t = take MAX_PIPELINE_ERROR_LENGTH (py_strip t)"

definition compare_telegram_post_ids :: "text_value \<Rightarrow> text_value option \<Rightarrow> int" where
  "compare_telegram_post_ids candidate current =
     (case current of
        None \<Rightarrow> 1
      | Some cur \<Rightarrow>
          (case (py_int candidate, py_int cur) of
             (Some a, Some b) \<Rightarrow> if a = b then 0 else if a > b then 1 else -1
           | _ \<Rightarrow>
               if candidate = cur then 0
               else if lexordp (\<lambda>x y. (of_char x :: nat) < of_char y) cur candidate then 1
               else -1))"

definition sorted_stage_entries :: "stage_journal list \<Rightarrow> stage_journal list" where
  "sorted_stage_entries es = sort_key (\<lambda>e. STAGE_ORDER (sj_stage e)) es"

text \<open>\<open>None\<close> is the \<open>IndexError\<close> of an empty tuple.\<close>

definition resolve_current_stage :: "stage_journal list \<Rightarrow> stage_journal option" where
  "resolve_current_stage es =
     (case find (\<lambda>e. sj_status e \<in> set ACTIVE_STAGE_STATUSES) es of
        Some e \<Rightarrow> Some e
      | None \<Rightarrow> if es = [] then None else Some (last es))"

definition is_replay_reserved :: "stage_journal \<Rightarrow> bool" where
  "is_replay_reserved e \<longleftrightarrow>
     sj_status e \<in> {STAGE_PENDING, STAGE_PROCESSING} \<and>
     sj_normalized_reason e = Some PIPELINE_REASON_REPLAY_REQUESTED \<and>
     sj_last_event_id e \<noteq> None"

definition reserve_replay :: "dispatch_event \<Rightarrow> stage_journal \<Rightarrow> stage_journal" where
  "reserve_replay event e =
     e\<lparr>sj_status := STAGE_PENDING,
       sj_attempt_count := ev_attempt event,
       sj_last_event_id := Some (ev_id event),
       sj_normalized_reason := Some PIPELINE_REASON_REPLAY_REQUESTED,
       sj_last_error_text := None,
       sj_is_retryable := True,
       sj_retry_after := None,
       sj_started_at := None,
       sj_finished_at := None\<rparr>"

definition ensure_stage_attempt_is_current :: "stage_journal \<Rightarrow> int \<Rightarrow> pipeline_error + unit" where
  "ensure_stage_attempt_is_current e attempt =
     (if attempt < sj_attempt_count e then Inl (PipelineIngestError StaleTransition) else Inr ())"

definition matches_list_filter :: "time \<Rightarrow> stage_journal \<Rightarrow> item_filter \<Rightarrow> time \<Rightarrow> bool" where
  "matches_list_filter now e filter_by stale_before =
     (case filter_by of
        FILTER_ALL \<Rightarrow> True
      | FILTER_DUPLICATE \<Rightarrow> sj_status e = STAGE_DUPLICATE
      | FILTER_FAILED \<Rightarrow> sj_status e = STAGE_FAILED
      | FILTER_STUCK \<Rightarrow>
          if sj_status e \<notin> {STAGE_PENDING, STAGE_PROCESSING} then False
          else (case sj_retry_after e of
                  Some t \<Rightarrow> t \<le> now
                | None \<Rightarrow> sj_updated_at e \<le> stale_before))"

text \<open>\<open>PipelineItemReadService.list_items\<close>: the current stage row of each listed item.\<close>

fun take_matching :: "('a \<Rightarrow> 'b option) \<Rightarrow> nat \<Rightarrow> 'a list \<Rightarrow> 'b list" where
  "take_matching f n [] = []"
| "take_matching f n (x # xs) =
     (case f x of
        None \<Rightarrow> take_matching f n xs
      | Some y \<Rightarrow> if n \<le> 1 then [y] else y # take_matching f (n - 1) xs)"

definition list_items ::
  "env \<Rightarrow> db \<Rightarrow> item_filter \<Rightarrow> int \<Rightarrow> int \<Rightarrow> (uuid \<times> stage_journal) list" where
  "list_items env d filter_by limit stuck_after_seconds =
     (let resolved_limit = max 1 (min limit MAX_PIPELINE_ITEMS_LIMIT);
          stale_before = env_now env - max stuck_after_seconds 1 * 1000000;
          files = rev (sort_key mf_created_at (rev (db_files d)))
      in take_matching
           (\<lambda>file.
              let entries = sorted_stage_entries (journal_entries d (mf_id file))
              in case resolve_current_stage entries of
                   None \<Rightarrow> None
                 | Some e \<Rightarrow>
                     if matches_list_filter (env_now env) e filter_by stale_before
                     then Some (mf_id file, e) else None)
           (nat resolved_limit) files)"

text \<open>
  Pydantic's construction of a \<open>ContentPipelineDispatchEvent\<close>: bounds, key normalisation, and the
  pairing of event type and stage.
\<close>

definition make_dispatch_event :: "dispatch_event \<Rightarrow> pipeline_error + dispatch_event" where
  "make_dispatch_event e =
     (let key = dropWhile (\<lambda>c. c = CHR ''/'') (py_strip (ev_original_key e))
      in if ev_original_key e = [] \<or> key = [] then Inl (ValidationError BlankObjectKey)
         else if length (ev_original_key e) > MAX_OBJECT_KEY_LENGTH
           then Inl (ValidationError ObjectKeyTooLong)
         else if ev_attempt e < 1 then Inl (ValidationError AttemptBelowOne)
         else if ev_stage e \<notin> set (PIPELINE_EVENT_ALLOWED_STAGES (ev_type e))
           then Inl (ValidationError EventStagePairing)
         else Inr (e\<lparr>ev_original_key := key\<rparr>))"

section \<open>Reading back what was written\<close>

lemma get_put_same_table [row_simps]:
  "get_file (put_file r d) f = (if mf_id r = f then Some r else get_file d f)"
  "get_meme (put_meme m d) k = (if me_id m = k then Some m else get_meme d k)"
  "get_generation (put_generation g d) j = (if mg_id g = j then Some g else get_generation d j)"
  "get_recovery (put_recovery i d) l = (if ri_id i = l then Some i else get_recovery d l)"
  "get_journal (put_journal env e d) f s =
     (if sj_file e = f \<and> sj_stage e = s then Some (e\<lparr>sj_updated_at := env_now env\<rparr>)
      else get_journal d f s)"
  by (auto simp: get_file_def put_file_def get_meme_def put_meme_def get_generation_def
      put_generation_def get_recovery_def put_recovery_def get_journal_def put_journal_def)

lemma put_journal_frame [frame_simps]:
  "get_file (put_journal env e d) f = get_file d f"
  "get_meme (put_journal env e d) m = get_meme d m"
  "get_generation (put_journal env e d) g = get_generation d g"
  "get_recovery (put_journal env e d) i = get_recovery d i"
  "db_files (put_journal env e d) = db_files d"
  "db_recovery (put_journal env e d) = db_recovery d"
  "db_attempts (put_journal env e d) = db_attempts d"
  "db_snapshots (put_journal env e d) = db_snapshots d"
  "db_outbox (put_journal env e d) = db_outbox d"
  "db_generations (put_journal env e d) = db_generations d"
  "db_ocr (put_journal env e d) = db_ocr d"
  "db_memes (put_journal env e d) = db_memes d"
  by (simp_all add: put_journal_def get_file_def get_meme_def get_generation_def get_recovery_def)

lemma put_file_frame [frame_simps]:
  "get_journal (put_file r d) f s = get_journal d f s"
  "get_meme (put_file r d) m = get_meme d m"
  "get_generation (put_file r d) g = get_generation d g"
  "get_recovery (put_file r d) i = get_recovery d i"
  "db_journal (put_file r d) = db_journal d"
  "db_recovery (put_file r d) = db_recovery d"
  "db_attempts (put_file r d) = db_attempts d"
  "db_snapshots (put_file r d) = db_snapshots d"
  "db_outbox (put_file r d) = db_outbox d"
  "db_generations (put_file r d) = db_generations d"
  "db_ocr (put_file r d) = db_ocr d"
  "db_memes (put_file r d) = db_memes d"
  by (simp_all add: put_file_def get_journal_def get_meme_def get_generation_def get_recovery_def)

lemma put_meme_frame [frame_simps]:
  "get_journal (put_meme r d) f s = get_journal d f s"
  "get_file (put_meme r d) f = get_file d f"
  "get_generation (put_meme r d) g = get_generation d g"
  "get_recovery (put_meme r d) i = get_recovery d i"
  "db_journal (put_meme r d) = db_journal d"
  "db_files (put_meme r d) = db_files d"
  "db_recovery (put_meme r d) = db_recovery d"
  "db_attempts (put_meme r d) = db_attempts d"
  "db_snapshots (put_meme r d) = db_snapshots d"
  "db_outbox (put_meme r d) = db_outbox d"
  "db_generations (put_meme r d) = db_generations d"
  by (simp_all add: put_meme_def get_journal_def get_file_def get_generation_def get_recovery_def)

lemma put_generation_frame [frame_simps]:
  "get_journal (put_generation r d) f s = get_journal d f s"
  "get_file (put_generation r d) f = get_file d f"
  "get_meme (put_generation r d) g = get_meme d g"
  "get_recovery (put_generation r d) i = get_recovery d i"
  "db_journal (put_generation r d) = db_journal d"
  "db_files (put_generation r d) = db_files d"
  "db_recovery (put_generation r d) = db_recovery d"
  "db_attempts (put_generation r d) = db_attempts d"
  "db_snapshots (put_generation r d) = db_snapshots d"
  "db_outbox (put_generation r d) = db_outbox d"
  by (simp_all add: put_generation_def get_journal_def get_file_def get_meme_def get_recovery_def)

lemma put_recovery_frame [frame_simps]:
  "get_journal (put_recovery r d) f s = get_journal d f s"
  "get_file (put_recovery r d) f = get_file d f"
  "get_meme (put_recovery r d) g = get_meme d g"
  "get_generation (put_recovery r d) i = get_generation d i"
  "db_journal (put_recovery r d) = db_journal d"
  "db_files (put_recovery r d) = db_files d"
  "db_attempts (put_recovery r d) = db_attempts d"
  "db_snapshots (put_recovery r d) = db_snapshots d"
  "db_outbox (put_recovery r d) = db_outbox d"
  "db_generations (put_recovery r d) = db_generations d"
  by (simp_all add: put_recovery_def get_journal_def get_file_def get_meme_def get_generation_def)

lemma load_recovery_frame [frame_simps]:
  "load_recovery_item (put_journal env e d) ev = load_recovery_item d ev"
  "load_recovery_item (put_file f d) ev = load_recovery_item d ev"
  "load_recovery_item (put_meme m d) ev = load_recovery_item d ev"
  "load_recovery_item (put_generation g d) ev = load_recovery_item d ev"
  by (simp_all add: load_recovery_item_def put_journal_def put_file_def put_meme_def put_generation_def)

section \<open>Sample values\<close>

text \<open>A database without rows and a calm environment, for the concrete instances of the theorems.\<close>

definition empty_db :: db where
  "empty_db =
     \<lparr>db_memes = [], db_files = [], db_sources = [], db_journal = (\<lambda>_. None),
      db_attempts = (\<lambda>_. None), db_recovery = [], db_snapshots = (\<lambda>_. None), db_ocr = (\<lambda>_. None),
      db_embeddings = (\<lambda>_. None), db_generations = [], db_outbox = [], db_collection_memes = [],
      db_pins = [], db_merge_log = []\<rparr>"

definition sample_env :: env where
  "sample_env =
     \<lparr>env_now = 1000, env_fresh = (\<lambda>n. 900 + n), env_commit_ok = True, env_worker_role = None,
      env_worker_instance = None, env_retry_backoff = 5000000, env_retry_max_attempts = 5,
      env_exchange = ''pipeline'', env_routing_key_prefix = ''pipeline'',
      env_derivative_prefix = ''derived'', env_broker_up = True,
      env_broker = (\<lambda>_. None), env_lock_owner = ''relay'', env_flush_ok = True, env_claim_ok = True,
      env_row_locked = (\<lambda>_. False), env_mark_ok = (\<lambda>_. True), env_similarity_threshold = 92 / 100,
      env_embedding_dimensions = 2\<rparr>"

definition sample_file :: meme_file where
  "sample_file =
     \<lparr>mf_id = 1, mf_created_at = 10, mf_meme_id = 7, mf_status = FILE_PROCESSING,
      mf_mime_type = Some ''image/png'', mf_s3_original_key = ''originals/a.png'',
      mf_s3_web_video_key = None, mf_active_generation = None, mf_source_has_audio = None,
      mf_web_video_has_audio = None, mf_web_video_profile = None, mf_web_video_verified_at = None,
      mf_sha256_hex = None, mf_quality_score = 0, mf_blur_hash = None\<rparr>"

definition sample_journal :: "stage \<Rightarrow> stage_journal" where
  "sample_journal s =
     \<lparr>sj_id = 50, sj_file = 1, sj_stage = s, sj_status = STAGE_PENDING, sj_attempt_count = 0,
      sj_last_event_id = Some 60, sj_normalized_reason = None, sj_last_error_text = None,
      sj_is_retryable = True, sj_retry_after = None, sj_started_at = None, sj_finished_at = None,
      sj_updated_at = 20\<rparr>"

definition sample_meme :: meme where
  "sample_meme =
     \<lparr>me_id = 7, me_created_at = 10, me_primary_file = 1, me_ocr_text = None, me_language = LANG_NONE,
      me_is_nsfw = False, me_like_count = 0, me_visibility_mode = AUTO, me_is_public = False\<rparr>"

definition sample_item :: recovery_item where
  "sample_item =
     \<lparr>ri_id = 70, ri_created_at = 30, ri_file = Some 1, ri_stage = Some OCR,
      ri_work_kind = WORK_PIPELINE_STAGE, ri_work_id = WorkRow 50, ri_action = REPLAY_STAGE,
      ri_retry_limit = 3, ri_attempt_budget_start = Some 1, ri_failures_consumed = 0,
      ri_preserve_ready = False, ri_suppress_fanout = False, ri_terminal_override = False,
      ri_previous_stage_state = (\<lambda>_. None), ri_reservation_active = False,
      ri_status = ITEM_QUEUED, ri_dispatch_event_id = Some 60, ri_canonical_version = None,
      ri_normalized_reason = None, ri_safe_error_text = None, ri_dispatched_at = None,
      ri_finished_at = None, ri_job = 75, ri_parent = None, ri_expected_version = VersionText [],
      ri_is_root = True, ri_source_item = None\<rparr>"

end
