(* ===== verification/Outbox.thy ===== *)
theory Outbox
  imports Pipeline_State
begin

text \<open>
  The durable RabbitMQ outbox (\<open>messaging/rabbitmq_outbox.py\<close>). A producer inserts a pending row in the
  transaction of its business change; the relay claims due rows under a lease, publishes them, and
  marks each row published or failed in a transaction of its own. The broker is \<open>env_broker\<close>: for a
  message it confirms (\<open>None\<close>) or fails with a text. \<open>env_row_locked\<close> are the rows another session
  holds locked, which \<open>FOR UPDATE SKIP LOCKED\<close> passes over. The text of a failure is
  \<open>str(error) or error.__class__.__name__\<close>.
\<close>

section \<open>Message contracts\<close>

record message_spec =
  sp_exchange :: text_value
  sp_routing_key :: text_value
  sp_payload :: payload
  sp_message_id :: message_id
  sp_event_type :: text_value
  sp_aggregate_type :: text_value
  sp_aggregate_id :: text_value
  sp_created_at :: time
  sp_headers :: "(text_value \<times> text_value) list"
  sp_content_type :: text_value
  sp_ordering_key :: "text_value option"

definition DEFAULT_RABBITMQ_CONTENT_TYPE :: text_value where
  "DEFAULT_RABBITMQ_CONTENT_TYPE = ''application/json''"

definition MAX_OUTBOX_ERROR_TEXT_LENGTH :: nat where "MAX_OUTBOX_ERROR_TEXT_LENGTH = 2000"

definition NON_STAGE_BUDGET_BASE_KEY :: text_value where
  "NON_STAGE_BUDGET_BASE_KEY = ''non_stage_budget_consumed_at_dispatch''"

definition STAGE_DISPATCH_PUBLICATION_FAILURES_KEY :: text_value where
  "STAGE_DISPATCH_PUBLICATION_FAILURES_KEY = ''stage_dispatch_publication_failures''"

definition require_text :: "text_value \<Rightarrow> text_value \<Rightarrow> pipeline_error + text_value" where
  "require_text field_name v =
     (let normalized = py_strip v
      in if normalized = [] then Inl (RabbitOutboxError field_name) else Inr normalized)"

definition require_message_id :: "message_id \<Rightarrow> pipeline_error + message_id" where
  "require_message_id mid =
     (case mid of
        MsgUuid u \<Rightarrow> Inr (MsgUuid u)
      | MsgText t \<Rightarrow>
          (case require_text ''message_id'' t of Inl e \<Rightarrow> Inl e | Inr t' \<Rightarrow> Inr (MsgText t')))"

definition trim_outbox_error :: "text_value \<Rightarrow> text_value" where
  "trim_outbox_error v = take MAX_OUTBOX_ERROR_TEXT_LENGTH (py_strip v)"

definition outbox_message_id_from_message_id :: "uuid \<Rightarrow> message_id \<Rightarrow> uuid" where
  "outbox_message_id_from_message_id fresh mid = (case mid of MsgUuid u \<Rightarrow> u | MsgText _ \<Rightarrow> fresh)"

definition outbox_message_from_spec ::
  "uuid \<Rightarrow> message_spec \<Rightarrow> pipeline_error + outbox_message" where
  "outbox_message_from_spec fresh spec =
     (case (require_text ''exchange'' (sp_exchange spec),
            require_text ''routing_key'' (sp_routing_key spec),
            require_text ''content_type'' (sp_content_type spec),
            require_message_id (sp_message_id spec),
            require_text ''event_type'' (sp_event_type spec),
            require_text ''aggregate_type'' (sp_aggregate_type spec),
            require_text ''aggregate_id'' (sp_aggregate_id spec)) of
        (Inr exchange, Inr routing_key, Inr content_type, Inr message_id, Inr event_type,
         Inr aggregate_type, Inr aggregate_id) \<Rightarrow>
          Inr \<lparr>ob_id = outbox_message_id_from_message_id fresh (sp_message_id spec),
               ob_exchange = exchange, ob_routing_key = routing_key, ob_payload = sp_payload spec,
               ob_headers = sp_headers spec, ob_content_type = content_type,
               ob_message_id = message_id, ob_event_type = event_type,
               ob_aggregate_type = aggregate_type, ob_aggregate_id = aggregate_id,
               ob_ordering_key = sp_ordering_key spec, ob_status = OUTBOX_PENDING,
               ob_attempt_count = 0, ob_next_retry_at = Some (sp_created_at spec),
               ob_locked_at = None, ob_lock_owner = None, ob_published_at = None,
               ob_last_error = None, ob_created_at = sp_created_at spec\<rparr>
      | (Inl e, _) \<Rightarrow> Inl e
      | (_, Inl e, _) \<Rightarrow> Inl e
      | (_, _, Inl e, _) \<Rightarrow> Inl e
      | (_, _, _, Inl e, _) \<Rightarrow> Inl e
      | (_, _, _, _, Inl e, _) \<Rightarrow> Inl e
      | (_, _, _, _, _, Inl e, _) \<Rightarrow> Inl e
      | (_, _, _, _, _, _, Inl e) \<Rightarrow> Inl e)"

definition message_spec_from_outbox_message :: "outbox_message \<Rightarrow> message_spec" where
  "message_spec_from_outbox_message m =
     \<lparr>sp_exchange = ob_exchange m, sp_routing_key = ob_routing_key m, sp_payload = ob_payload m,
      sp_message_id = ob_message_id m, sp_event_type = ob_event_type m,
      sp_aggregate_type = ob_aggregate_type m, sp_aggregate_id = ob_aggregate_id m,
      sp_created_at = ob_created_at m, sp_headers = ob_headers m,
      sp_content_type = ob_content_type m, sp_ordering_key = ob_ordering_key m\<rparr>"

section \<open>The shared retry budget of recovery work\<close>

text \<open>
  \<open>previous_stage_state[key].as_integer()\<close>. The two keys read this way are only ever written with
  integers; SQL's \<open>NULL\<close> is \<open>None\<close>.
\<close>

definition json_integer :: "json_object \<Rightarrow> text_value \<Rightarrow> int option" where
  "json_integer state key = (case state key of Some (JInt n) \<Rightarrow> Some n | _ \<Rightarrow> None)"

definition recovery_stage_publication_failures :: "recovery_item \<Rightarrow> int" where
  "recovery_stage_publication_failures item =
     (case ri_previous_stage_state item STAGE_DISPATCH_PUBLICATION_FAILURES_KEY of
        Some (JInt n) \<Rightarrow> if n \<ge> 0 then n else 0
      | _ \<Rightarrow> 0)"

text \<open>\<open>None\<close> is the \<open>ValueError\<close> of an item without a budget start.\<close>

definition recovery_stage_worker_attempt_ceiling :: "recovery_item \<Rightarrow> int option" where
  "recovery_stage_worker_attempt_ceiling item =
     (case ri_attempt_budget_start item of
        None \<Rightarrow> None
      | Some start \<Rightarrow>
          (let remaining_worker_failures =
                 max (ri_retry_limit item - recovery_stage_publication_failures item) 1
           in Some (start + remaining_worker_failures - 1)))"

definition observe_recovery_stage_publication_outcome ::
  "recovery_item \<Rightarrow> outbox_message \<Rightarrow> recovery_item" where
  "observe_recovery_stage_publication_outcome item outbox =
     (let merge = (\<lambda>observed_failures.
            let previous = recovery_stage_publication_failures item;
                publication_failures = max previous observed_failures;
                worker_failures = max (ri_failures_consumed item - previous) 0
            in item\<lparr>ri_previous_stage_state :=
                      (ri_previous_stage_state item)
                        (STAGE_DISPATCH_PUBLICATION_FAILURES_KEY \<mapsto> JInt publication_failures),
                    ri_failures_consumed :=
                      max (ri_failures_consumed item) (publication_failures + worker_failures)\<rparr>)
      in if ri_stage item = None then item
         else (case ob_status outbox of
                 OUTBOX_FAILED \<Rightarrow> merge (ob_attempt_count outbox)
               | OUTBOX_PUBLISHED \<Rightarrow> merge (max (ob_attempt_count outbox - 1) 0)
               | _ \<Rightarrow> item))"

text \<open>\<open>ORDER BY dispatched_at DESC NULLS LAST, created_at DESC, id DESC LIMIT 1\<close>.\<close>

definition newest_recovery_item :: "recovery_item list \<Rightarrow> recovery_item option" where
  "newest_recovery_item items = max_by (\<lambda>i. (ri_dispatched_at i, ri_created_at i, ri_id i)) items"

definition dispatched_under :: "outbox_message \<Rightarrow> recovery_item \<Rightarrow> bool" where
  "dispatched_under m i =
     (case ob_message_id m of MsgUuid u \<Rightarrow> ri_dispatch_event_id i = Some u | MsgText _ \<Rightarrow> False)"

definition item_attempt_ceiling :: "int \<Rightarrow> recovery_item \<Rightarrow> int" where
  "item_attempt_ceiling start i =
     (let stage_publication_failures =
            (case json_integer (ri_previous_stage_state i) STAGE_DISPATCH_PUBLICATION_FAILURES_KEY of
               None \<Rightarrow> 0 | Some n \<Rightarrow> n);
          stage_worker_failures = max (ri_failures_consumed i - stage_publication_failures) 0
      in case json_integer (ri_previous_stage_state i) NON_STAGE_BUDGET_BASE_KEY of
           Some base \<Rightarrow> start + ri_retry_limit i - base - 1
         | None \<Rightarrow> max (ri_retry_limit i - stage_worker_failures) 0)"

definition recovery_attempt_ceiling :: "db \<Rightarrow> outbox_message \<Rightarrow> int option" where
  "recovery_attempt_ceiling d m =
     (case newest_recovery_item
             (filter (\<lambda>i. dispatched_under m i \<and> ri_attempt_budget_start i \<noteq> None) (db_recovery d)) of
        None \<Rightarrow> None
      | Some i \<Rightarrow> map_option (\<lambda>start. item_attempt_ceiling start i) (ri_attempt_budget_start i))"

section \<open>The producer\<close>

definition put_outbox :: "outbox_message \<Rightarrow> db \<Rightarrow> db" where
  "put_outbox m d = d\<lparr>db_outbox := row_put ob_id m (db_outbox d)\<rparr>"

definition get_outbox :: "db \<Rightarrow> uuid \<Rightarrow> outbox_message option" where
  "get_outbox d i = row_get ob_id i (db_outbox d)"

text \<open>
  \<open>RabbitPublisher.publish\<close> with \<open>outbox=True\<close>: the row joins the caller's transaction.
\<close>

definition publish_to_outbox :: "uuid \<Rightarrow> message_spec \<Rightarrow> db \<Rightarrow> pipeline_error + (uuid \<times> db)" where
  "publish_to_outbox fresh spec d =
     (case outbox_message_from_spec fresh spec of
        Inl e \<Rightarrow> Inl e
      | Inr m \<Rightarrow> Inr (ob_id m, d\<lparr>db_outbox := db_outbox d @ [m]\<rparr>))"

section \<open>The relay\<close>

record publish_batch_result =
  pb_claimed :: nat
  pb_published :: nat
  pb_failed :: nat

text \<open>The \<open>WHERE\<close> clause both claims share.\<close>

definition claim_allowed :: "env \<Rightarrow> db \<Rightarrow> outbox_message \<Rightarrow> bool" where
  "claim_allowed env d m =
     (case ob_status m of
        OUTBOX_PENDING \<Rightarrow>
          (case recovery_attempt_ceiling d m of None \<Rightarrow> True | Some c \<Rightarrow> ob_attempt_count m < c)
      | OUTBOX_FAILED \<Rightarrow>
          (case recovery_attempt_ceiling d m of
             None \<Rightarrow> ob_attempt_count m < env_retry_max_attempts env
           | Some c \<Rightarrow> ob_attempt_count m < c)
      | _ \<Rightarrow> False)"

definition claim_order :: "outbox_message list \<Rightarrow> outbox_message list" where
  "claim_order ms = sort_key (\<lambda>m. (ob_created_at m, ob_id m)) ms"

definition due_messages :: "env \<Rightarrow> db \<Rightarrow> outbox_message list" where
  "due_messages env d =
     claim_order
       (filter
         (\<lambda>m. claim_allowed env d m \<and>
              (case ob_next_retry_at m of None \<Rightarrow> True | Some t \<Rightarrow> t \<le> env_now env) \<and>
              \<not> env_row_locked env (ob_id m))
         (db_outbox d))"

definition claim_message :: "env \<Rightarrow> outbox_message \<Rightarrow> outbox_message" where
  "claim_message env m =
     m\<lparr>ob_status := OUTBOX_PUBLISHING,
       ob_attempt_count := ob_attempt_count m + 1,
       ob_next_retry_at := None,
       ob_locked_at := Some (env_now env),
       ob_lock_owner := Some (env_lock_owner env),
       ob_last_error := None\<rparr>"

definition claim_rows ::
  "env \<Rightarrow> text_value \<Rightarrow> outbox_message list \<Rightarrow> db \<Rightarrow> (outbox_message list) outcome" where
  "claim_rows env failure_message rows d =
     (if env_claim_ok env
      then (let claimed = map (claim_message env) rows
            in (Inr claimed, d\<lparr>db_outbox := fold (row_put ob_id) claimed (db_outbox d)\<rparr>))
      else (Inl (RabbitOutboxError failure_message), d))"

definition claim_due :: "env \<Rightarrow> int \<Rightarrow> db \<Rightarrow> (outbox_message list) outcome" where
  "claim_due env limit d =
     claim_rows env ''Failed to claim RabbitMQ outbox messages for publishing.''
       (take (nat (max 1 limit)) (due_messages env d)) d"

definition claim_specific :: "env \<Rightarrow> uuid list \<Rightarrow> db \<Rightarrow> (outbox_message list) outcome" where
  "claim_specific env ids d =
     claim_rows env ''Failed to claim specific RabbitMQ outbox messages for publishing.''
       (claim_order
         (filter (\<lambda>m. ob_id m \<in> set ids \<and> claim_allowed env d m \<and> \<not> env_row_locked env (ob_id m))
           (db_outbox d))) d"

definition observe_recovery_stage_publication :: "outbox_message \<Rightarrow> db \<Rightarrow> db" where
  "observe_recovery_stage_publication m d =
     (case newest_recovery_item (filter (dispatched_under m) (db_recovery d)) of
        None \<Rightarrow> d
      | Some i \<Rightarrow> put_recovery (observe_recovery_stage_publication_outcome i m) d)"

definition published_message :: "env \<Rightarrow> outbox_message \<Rightarrow> outbox_message" where
  "published_message env m =
     m\<lparr>ob_status := OUTBOX_PUBLISHED,
       ob_published_at := Some (env_now env),
       ob_next_retry_at := None,
       ob_locked_at := None,
       ob_lock_owner := None,
       ob_last_error := None\<rparr>"

text \<open>
  The relay marks the rows it holds in its session. SQLAlchemy writes the columns it assigned, and of those the ones that
  changed since they were read; \<open>m\<close> is the row in the database, which holds what the relay read unless another process took
  the lease over meanwhile.
\<close>

definition mark_published :: "env \<Rightarrow> outbox_message \<Rightarrow> db \<Rightarrow> unit outcome" where
  "mark_published env m d =
     (let m' = published_message env m;
          d1 = put_outbox m' d;
          d2 = (if ob_attempt_count m > 1 then observe_recovery_stage_publication m' d1 else d1)
      in if env_mark_ok env (ob_id m) then (Inr (), d2)
         else (Inl (RabbitOutboxError ''Failed to mark RabbitMQ outbox message as published.''), d))"

definition failed_message :: "env \<Rightarrow> text_value \<Rightarrow> outbox_message \<Rightarrow> outbox_message" where
  "failed_message env error m =
     m\<lparr>ob_status := OUTBOX_FAILED,
       ob_published_at := None,
       ob_next_retry_at := Some (env_now env + env_retry_backoff env),
       ob_locked_at := None,
       ob_lock_owner := None,
       ob_last_error := Some (trim_outbox_error error)\<rparr>"

definition mark_failed :: "env \<Rightarrow> text_value \<Rightarrow> outbox_message \<Rightarrow> db \<Rightarrow> unit outcome" where
  "mark_failed env error m d =
     (let m' = failed_message env error m;
          d1 = observe_recovery_stage_publication m' (put_outbox m' d)
      in if env_mark_ok env (ob_id m) then (Inr (), d1)
         else (Inl (RabbitOutboxError ''Failed to mark RabbitMQ outbox message publish failure.''), d))"

fun publish_claimed ::
  "env \<Rightarrow> outbox_message list \<Rightarrow> nat \<Rightarrow> nat \<Rightarrow> db \<Rightarrow> (nat \<times> nat) outcome" where
  "publish_claimed env [] published failed d = (Inr (published, failed), d)"
| "publish_claimed env (m # ms) published failed d =
     (case env_broker env m of
        None \<Rightarrow>
          (case mark_published env m d of
             (Inl e, d') \<Rightarrow> (Inl e, d')
           | (Inr _, d') \<Rightarrow> publish_claimed env ms (published + 1) failed d')
      | Some error \<Rightarrow>
          (case mark_failed env error m d of
             (Inl e, d') \<Rightarrow> (Inl e, d')
           | (Inr _, d') \<Rightarrow> publish_claimed env ms published (failed + 1) d'))"

definition publish_claimed_batch ::
  "env \<Rightarrow> outbox_message list \<Rightarrow> db \<Rightarrow> publish_batch_result outcome" where
  "publish_claimed_batch env ms d =
     (case publish_claimed env ms 0 0 d of
        (Inl e, d') \<Rightarrow> (Inl e, d')
      | (Inr (published, failed), d') \<Rightarrow>
          (Inr \<lparr>pb_claimed = length ms, pb_published = published, pb_failed = failed\<rparr>, d'))"

definition publish_ids :: "env \<Rightarrow> uuid list \<Rightarrow> db \<Rightarrow> publish_batch_result outcome" where
  "publish_ids env ids d =
     (let unique_ids = dedup ids
      in if unique_ids = [] then (Inr \<lparr>pb_claimed = 0, pb_published = 0, pb_failed = 0\<rparr>, d)
         else (case claim_specific env unique_ids d of
                 (Inl e, d') \<Rightarrow> (Inl e, d')
               | (Inr ms, d') \<Rightarrow> publish_claimed_batch env ms d'))"

definition publish_batch :: "env \<Rightarrow> int \<Rightarrow> db \<Rightarrow> publish_batch_result outcome" where
  "publish_batch env limit d =
     (case claim_due env limit d of
        (Inl e, d') \<Rightarrow> (Inl e, d')
      | (Inr ms, d') \<Rightarrow> publish_claimed_batch env ms d')"

definition stale_lease :: "env \<Rightarrow> time \<Rightarrow> outbox_message \<Rightarrow> bool" where
  "stale_lease env stale_before m \<longleftrightarrow>
     ob_status m = OUTBOX_PUBLISHING \<and>
     (case ob_locked_at m of None \<Rightarrow> True | Some t \<Rightarrow> t < stale_before) \<and>
     \<not> env_row_locked env (ob_id m)"

definition recovered_message :: "env \<Rightarrow> outbox_message \<Rightarrow> outbox_message" where
  "recovered_message env m =
     m\<lparr>ob_status := OUTBOX_FAILED,
       ob_next_retry_at := Some (env_now env),
       ob_locked_at := None,
       ob_lock_owner := None,
       ob_last_error :=
         Some ''RabbitMQ outbox message was recovered from a stale publishing lease.''\<rparr>"

definition recover_stale_publishing :: "env \<Rightarrow> time \<Rightarrow> db \<Rightarrow> nat outcome" where
  "recover_stale_publishing env stale_before d =
     (if env_claim_ok env
      then (Inr (length (filter (stale_lease env stale_before) (db_outbox d))),
            d\<lparr>db_outbox :=
                map (\<lambda>m. if stale_lease env stale_before m then recovered_message env m else m)
                  (db_outbox d)\<rparr>)
      else (Inl (RabbitOutboxError ''Failed to recover stale RabbitMQ outbox publishing leases.''), d))"

text \<open>
  \<open>relay_rabbitmq_outbox_messages_best_effort\<close>: every exception is swallowed; \<open>None\<close> reports it.
\<close>

definition relay_best_effort :: "env \<Rightarrow> uuid list \<Rightarrow> db \<Rightarrow> publish_batch_result option \<times> db" where
  "relay_best_effort env ids d =
     (let unique_ids = dedup ids
      in if unique_ids = [] then (Some \<lparr>pb_claimed = 0, pb_published = 0, pb_failed = 0\<rparr>, d)
         else if \<not> env_broker_up env then (None, d)
         else (case publish_ids env unique_ids d of
                 (Inl _, d') \<Rightarrow> (None, d')
               | (Inr r, d') \<Rightarrow> (Some r, d')))"

section \<open>What the relay leaves alone\<close>

text \<open>The content of a message: everything its producer put into the row.\<close>

definition message_contents :: "db \<Rightarrow> uuid \<Rightarrow> message_spec option" where
  "message_contents d i = map_option message_spec_from_outbox_message (get_outbox d i)"

definition outbox_wf :: "db \<Rightarrow> bool" where
  "outbox_wf d \<longleftrightarrow> distinct (map ob_id (db_outbox d))"

text \<open>What identifies the owner of a message and its budget; \<open>observe\<close> writes none of it.\<close>

definition item_claim :: "recovery_item \<Rightarrow> uuid \<times> (time option \<times> time) \<times> uuid option \<times> int option \<times> int \<times> int option" where
  "item_claim i =
     (ri_id i, (ri_dispatched_at i, ri_created_at i), ri_dispatch_event_id i,
      ri_attempt_budget_start i, ri_retry_limit i,
      json_integer (ri_previous_stage_state i) NON_STAGE_BUDGET_BASE_KEY)"

lemma keys_differ: "NON_STAGE_BUDGET_BASE_KEY \<noteq> STAGE_DISPATCH_PUBLICATION_FAILURES_KEY"
  by (simp add: NON_STAGE_BUDGET_BASE_KEY_def STAGE_DISPATCH_PUBLICATION_FAILURES_KEY_def)

lemma item_claim_observe [simp]:
  "item_claim (observe_recovery_stage_publication_outcome i m) = item_claim i"
  using keys_differ
  by (auto simp: observe_recovery_stage_publication_outcome_def item_claim_def Let_def
      json_integer_def split: outbox_status.splits)

lemma observe_id [simp]: "ri_id (observe_recovery_stage_publication_outcome i m) = ri_id i"
  by (auto simp: observe_recovery_stage_publication_outcome_def Let_def split: outbox_status.splits)

lemma row_get_fold_put:
  "distinct (map key rs) \<Longrightarrow>
     row_get key k (fold (row_put key) rs rows) =
       (case row_get key k rs of Some r \<Rightarrow> Some r | None \<Rightarrow> row_get key k rows)"
proof (induction rs arbitrary: rows)
  case Nil
  then show ?case by simp
next
  case (Cons r rs)
  then have "row_get key (key r) rs = None" by (auto simp: row_get_None_iff)
  with Cons show ?case by (auto split: option.splits)
qed

lemma fold_put_keys:
  "(\<And>r. r \<in> set rs \<Longrightarrow> row_get key (key r) rows \<noteq> None) \<Longrightarrow>
     map key (fold (row_put key) rs rows) = map key rows"
proof (induction rs arbitrary: rows)
  case Nil
  then show ?case by simp
next
  case (Cons r rs)
  have k: "map key (row_put key r rows) = map key rows"
    using Cons.prems by (intro row_put_keys) simp
  have "map key (fold (row_put key) rs (row_put key r rows)) = map key (row_put key r rows)"
    using Cons.prems by (intro Cons.IH) auto
  with k show ?case by simp
qed

lemma claim_order_set [simp]: "set (claim_order ms) = set ms"
  by (simp add: claim_order_def)

lemma claim_order_distinct [simp]:
  "distinct (map ob_id (claim_order ms)) \<longleftrightarrow> distinct (map ob_id ms)"
  by (simp add: claim_order_def distinct_map)

lemma claim_message_frame [simp]:
  "ob_id (claim_message env m) = ob_id m"
  "message_spec_from_outbox_message (claim_message env m) = message_spec_from_outbox_message m"
  by (simp_all add: claim_message_def message_spec_from_outbox_message_def)

lemma published_message_frame [simp]:
  "ob_id (published_message env m) = ob_id m"
  "ob_attempt_count (published_message env m) = ob_attempt_count m"
  "ob_status (published_message env m) = OUTBOX_PUBLISHED"
  "message_spec_from_outbox_message (published_message env m) = message_spec_from_outbox_message m"
  by (simp_all add: published_message_def message_spec_from_outbox_message_def)

lemma failed_message_frame [simp]:
  "ob_id (failed_message env e m) = ob_id m"
  "ob_attempt_count (failed_message env e m) = ob_attempt_count m"
  "ob_status (failed_message env e m) = OUTBOX_FAILED"
  "message_spec_from_outbox_message (failed_message env e m) = message_spec_from_outbox_message m"
  by (simp_all add: failed_message_def message_spec_from_outbox_message_def)

lemma get_put_outbox [simp]:
  "get_outbox (put_outbox m d) i = (if ob_id m = i then Some m else get_outbox d i)"
  by (simp add: get_outbox_def put_outbox_def)

lemma put_outbox_frame [simp]:
  "db_recovery (put_outbox m d) = db_recovery d"
  "db_journal (put_outbox m d) = db_journal d"
  "db_files (put_outbox m d) = db_files d"
  by (simp_all add: put_outbox_def)

lemma outbox_wf_put: "outbox_wf d \<Longrightarrow> outbox_wf (put_outbox m d)"
  by (simp add: outbox_wf_def put_outbox_def row_put_distinct)

lemma observe_publication_frame [simp]:
  "db_outbox (observe_recovery_stage_publication m d) = db_outbox d"
  "get_outbox (observe_recovery_stage_publication m d) i = get_outbox d i"
  "outbox_wf (observe_recovery_stage_publication m d) = outbox_wf d"
  "db_journal (observe_recovery_stage_publication m d) = db_journal d"
  "db_files (observe_recovery_stage_publication m d) = db_files d"
  by (auto simp: observe_recovery_stage_publication_def put_recovery_def get_outbox_def outbox_wf_def
      split: option.splits)

lemma outbox_wf_get: "outbox_wf d \<Longrightarrow> m \<in> set (db_outbox d) \<Longrightarrow> get_outbox d (ob_id m) = Some m"
  by (simp add: outbox_wf_def get_outbox_def row_get_iff_mem)

lemma claim_rows_outbox:
  assumes wf: "outbox_wf d" and sub: "set rows \<subseteq> set (db_outbox d)"
    and dist: "distinct (map ob_id rows)"
  shows "get_outbox (snd (claim_rows env msg rows d)) i =
      (if env_claim_ok env \<and> i \<in> ob_id ` set rows then map_option (claim_message env) (get_outbox d i)
       else get_outbox d i)"
    and "outbox_wf (snd (claim_rows env msg rows d))"
proof -
  have dist': "distinct (map ob_id (map (claim_message env) rows))"
    using dist by (simp add: comp_def)
  have rows: "row_get ob_id i (map (claim_message env) rows) =
      (if i \<in> ob_id ` set rows then map_option (claim_message env) (get_outbox d i) else None)"
  proof (cases "i \<in> ob_id ` set rows")
    case True
    then obtain m where m: "m \<in> set rows" "i = ob_id m" by auto
    then have "get_outbox d i = Some m" using wf sub by (auto intro: outbox_wf_get)
    moreover have "row_get ob_id i (map (claim_message env) rows) = Some (claim_message env m)"
      using m row_get_iff_mem [OF dist', of "claim_message env m"] by simp
    ultimately show ?thesis using True by simp
  next
    case False
    then show ?thesis by (auto simp: row_get_None_iff)
  qed
  show "get_outbox (snd (claim_rows env msg rows d)) i =
      (if env_claim_ok env \<and> i \<in> ob_id ` set rows then map_option (claim_message env) (get_outbox d i)
       else get_outbox d i)"
  proof (cases "env_claim_ok env \<and> i \<in> ob_id ` set rows")
    case True
    then obtain m where "m \<in> set rows" "i = ob_id m" by auto
    then have "get_outbox d i = Some m" using wf sub by (auto intro: outbox_wf_get)
    with True show ?thesis
      by (simp add: claim_rows_def Let_def get_outbox_def row_get_fold_put [OF dist']
          rows [unfolded get_outbox_def])
  next
    case False
    then show ?thesis
      by (simp add: claim_rows_def Let_def get_outbox_def row_get_fold_put [OF dist']
          rows [unfolded get_outbox_def])
  qed
  have "map ob_id (fold (row_put ob_id) (map (claim_message env) rows) (db_outbox d)) =
      map ob_id (db_outbox d)"
    by (rule fold_put_keys) (use sub in \<open>auto simp: row_get_None_iff\<close>)
  with wf show "outbox_wf (snd (claim_rows env msg rows d))"
    by (simp add: claim_rows_def outbox_wf_def Let_def)
qed

lemma claim_rows_recovery [simp]: "db_recovery (snd (claim_rows env msg rows d)) = db_recovery d"
  by (simp add: claim_rows_def Let_def)

lemma due_messages_sub: "set (take n (due_messages env d)) \<subseteq> set (db_outbox d)"
  using set_take_subset [of n "due_messages env d"] by (auto simp: due_messages_def)

lemma due_messages_distinct: "outbox_wf d \<Longrightarrow> distinct (map ob_id (take n (due_messages env d)))"
  unfolding take_map [symmetric]
  by (rule distinct_take) (simp add: due_messages_def outbox_wf_def distinct_map_filter)

section \<open>The relay as a transition system\<close>

text \<open>
  One committed transaction of a producer, of any relay process, or of the lease sweep. \<open>k\<close> is the
  configured retry ceiling. A row is marked by a process that once claimed it, whatever happened to
  its lease since.
\<close>

inductive outbox_step :: "int \<Rightarrow> db \<Rightarrow> db \<Rightarrow> bool" for k :: int where
  step_enqueue:
    "publish_to_outbox fresh spec d = Inr (i, d') \<Longrightarrow> get_outbox d i = None \<Longrightarrow> outbox_step k d d'"
| step_claim_due:
    "env_retry_max_attempts env = k \<Longrightarrow> outbox_step k d (snd (claim_due env limit d))"
| step_claim_specific:
    "env_retry_max_attempts env = k \<Longrightarrow> outbox_step k d (snd (claim_specific env ids d))"
| step_published:
    "get_outbox d i = Some m \<Longrightarrow> ob_attempt_count m \<ge> 1 \<Longrightarrow> outbox_step k d (snd (mark_published env m d))"
| step_failed:
    "get_outbox d i = Some m \<Longrightarrow> ob_attempt_count m \<ge> 1 \<Longrightarrow> outbox_step k d (snd (mark_failed env e m d))"
| step_recover:
    "outbox_step k d (snd (recover_stale_publishing env stale_before d))"

lemma publish_to_outbox_Inr:
  assumes "publish_to_outbox fresh spec d = Inr (i, d')"
  obtains m where "outbox_message_from_spec fresh spec = Inr m" "i = ob_id m"
    "d' = d\<lparr>db_outbox := db_outbox d @ [m]\<rparr>" "ob_status m = OUTBOX_PENDING" "ob_attempt_count m = 0"
proof -
  obtain m where m: "outbox_message_from_spec fresh spec = Inr m"
    using assms by (auto simp: publish_to_outbox_def split: sum.splits)
  moreover have "ob_status m = OUTBOX_PENDING \<and> ob_attempt_count m = 0"
    using m by (auto simp: outbox_message_from_spec_def split: sum.splits)
  ultimately show thesis using assms that by (simp add: publish_to_outbox_def)
qed

lemma recovered_message_frame [simp]:
  "ob_id (recovered_message env m) = ob_id m"
  "ob_attempt_count (recovered_message env m) = ob_attempt_count m"
  "ob_status (recovered_message env m) = OUTBOX_FAILED"
  "message_spec_from_outbox_message (recovered_message env m) = message_spec_from_outbox_message m"
  by (simp_all add: recovered_message_def message_spec_from_outbox_message_def)

lemma recover_stale_get:
  "get_outbox (snd (recover_stale_publishing env sb d)) i =
     (if env_claim_ok env
      then map_option (\<lambda>m. if stale_lease env sb m then recovered_message env m else m) (get_outbox d i)
      else get_outbox d i)"
  by (simp add: recover_stale_publishing_def get_outbox_def row_get_map_if)

lemma recover_stale_wf: "outbox_wf d \<Longrightarrow> outbox_wf (snd (recover_stale_publishing env sb d))"
proof -
  have "map (ob_id \<circ> (\<lambda>m. if stale_lease env sb m then recovered_message env m else m)) (db_outbox d)
      = map ob_id (db_outbox d)"
    by simp
  then show "outbox_wf d \<Longrightarrow> ?thesis"
    by (simp add: recover_stale_publishing_def outbox_wf_def del: map_eq_conv)
qed

lemma mark_published_get:
  "get_outbox d i = Some m \<Longrightarrow>
     get_outbox (snd (mark_published env m d)) j =
       (if env_mark_ok env (ob_id m) \<and> j = ob_id m then Some (published_message env m) else get_outbox d j)"
  by (auto simp: mark_published_def Let_def)

lemma mark_failed_get:
  "get_outbox d i = Some m \<Longrightarrow>
     get_outbox (snd (mark_failed env e m d)) j =
       (if env_mark_ok env (ob_id m) \<and> j = ob_id m then Some (failed_message env e m) else get_outbox d j)"
  by (auto simp: mark_failed_def Let_def)

lemma mark_wf:
  "outbox_wf d \<Longrightarrow> outbox_wf (snd (mark_published env m d))"
  "outbox_wf d \<Longrightarrow> outbox_wf (snd (mark_failed env e m d))"
  by (auto simp: mark_published_def mark_failed_def Let_def outbox_wf_put)

lemma get_outbox_id: "get_outbox d i = Some m \<Longrightarrow> ob_id m = i"
  unfolding get_outbox_def by (rule row_get_key)

lemma claim_due_get:
  assumes "outbox_wf d"
  shows "\<exists>P. get_outbox (snd (claim_due env limit d)) i =
      (if P then map_option (claim_message env) (get_outbox d i) else get_outbox d i) \<and>
      (P \<longrightarrow> (\<exists>m. get_outbox d i = Some m \<and> claim_allowed env d m))"
    and "outbox_wf (snd (claim_due env limit d))"
proof -
  let ?rows = "take (nat (max 1 limit)) (due_messages env d)"
  have wit: "\<exists>m. get_outbox d i = Some m \<and> claim_allowed env d m" if "i \<in> ob_id ` set ?rows"
  proof -
    from that obtain m where m: "m \<in> set ?rows" "i = ob_id m" by auto
    then have "m \<in> set (due_messages env d)" by (auto dest: in_set_takeD)
    then have "m \<in> set (db_outbox d)" "claim_allowed env d m" by (auto simp: due_messages_def)
    with m assms show ?thesis by (auto intro: outbox_wf_get)
  qed
  note c = claim_rows_outbox [OF assms due_messages_sub due_messages_distinct [OF assms]]
  show "\<exists>P. get_outbox (snd (claim_due env limit d)) i =
      (if P then map_option (claim_message env) (get_outbox d i) else get_outbox d i) \<and>
      (P \<longrightarrow> (\<exists>m. get_outbox d i = Some m \<and> claim_allowed env d m))"
    unfolding claim_due_def c(1) using wit
    by (intro exI [of _ "env_claim_ok env \<and> i \<in> ob_id ` set ?rows"]) auto
  show "outbox_wf (snd (claim_due env limit d))"
    unfolding claim_due_def by (rule c(2))
qed

lemma claim_specific_get:
  assumes "outbox_wf d"
  shows "\<exists>P. get_outbox (snd (claim_specific env ids d)) i =
      (if P then map_option (claim_message env) (get_outbox d i) else get_outbox d i) \<and>
      (P \<longrightarrow> (\<exists>m. get_outbox d i = Some m \<and> claim_allowed env d m))"
    and "outbox_wf (snd (claim_specific env ids d))"
proof -
  let ?rows = "claim_order (filter (\<lambda>m. ob_id m \<in> set ids \<and> claim_allowed env d m \<and>
      \<not> env_row_locked env (ob_id m)) (db_outbox d))"
  have sub: "set ?rows \<subseteq> set (db_outbox d)" by auto
  have dist: "distinct (map ob_id ?rows)"
    using assms by (simp add: outbox_wf_def distinct_map_filter)
  have wit: "\<exists>m. get_outbox d i = Some m \<and> claim_allowed env d m" if "i \<in> ob_id ` set ?rows"
    using that assms by (auto intro: outbox_wf_get)
  note c = claim_rows_outbox [OF assms sub dist]
  show "\<exists>P. get_outbox (snd (claim_specific env ids d)) i =
      (if P then map_option (claim_message env) (get_outbox d i) else get_outbox d i) \<and>
      (P \<longrightarrow> (\<exists>m. get_outbox d i = Some m \<and> claim_allowed env d m))"
    unfolding claim_specific_def c(1) using wit
    by (intro exI [of _ "env_claim_ok env \<and> i \<in> ob_id ` set ?rows"]) auto
  show "outbox_wf (snd (claim_specific env ids d))"
    unfolding claim_specific_def by (rule c(2))
qed

lemma outbox_step_wf: "outbox_step k d d' \<Longrightarrow> outbox_wf d \<Longrightarrow> outbox_wf d'"
proof (induction rule: outbox_step.induct)
  case (step_enqueue fresh spec d i d')
  then obtain m where "i = ob_id m" "d' = d\<lparr>db_outbox := db_outbox d @ [m]\<rparr>"
    by (elim publish_to_outbox_Inr)
  with step_enqueue show ?case
    by (auto simp: outbox_wf_def get_outbox_def row_get_None_iff)
qed (simp_all add: claim_due_get(2) claim_specific_get(2) mark_wf recover_stale_wf)

lemma outbox_step_contents:
  "outbox_step k d d' \<Longrightarrow> outbox_wf d \<Longrightarrow> message_contents d i = Some c \<Longrightarrow>
     message_contents d' i = Some c"
proof (induction rule: outbox_step.induct)
  case (step_enqueue fresh spec d j d')
  then obtain m where "j = ob_id m" "d' = d\<lparr>db_outbox := db_outbox d @ [m]\<rparr>"
    by (elim publish_to_outbox_Inr)
  with step_enqueue show ?case
    by (auto simp: message_contents_def get_outbox_def split: option.splits)
next
  case (step_claim_due env d limit)
  then show ?case
    using claim_due_get(1) [of d env limit i] by (auto simp: message_contents_def split: if_splits)
next
  case (step_claim_specific env d ids)
  then show ?case
    using claim_specific_get(1) [of d env ids i] by (auto simp: message_contents_def split: if_splits)
next
  case (step_published d j m env)
  moreover have "ob_id m = j" using step_published by (simp add: get_outbox_id)
  ultimately show ?case
    by (auto simp: message_contents_def mark_published_get)
next
  case (step_failed d j m env e)
  moreover have "ob_id m = j" using step_failed by (simp add: get_outbox_id)
  ultimately show ?case
    by (auto simp: message_contents_def mark_failed_get)
next
  case (step_recover d env sb)
  then show ?case
    by (cases "get_outbox d i") (simp_all add: message_contents_def recover_stale_get)
qed

section \<open>The contract of a durable outbox\<close>

text \<open>
  What a producer relies on: no step of the outbox machinery loses or alters the content of a stored
  message.
\<close>

locale durable_outbox =
  fixes ok :: "'s \<Rightarrow> bool"
    and contents :: "'s \<Rightarrow> 'i \<Rightarrow> 'c option"
    and step :: "'s \<Rightarrow> 's \<Rightarrow> bool"
  assumes step_ok: "step s s' \<Longrightarrow> ok s \<Longrightarrow> ok s'"
    and step_keeps: "step s s' \<Longrightarrow> ok s \<Longrightarrow> contents s i = Some c \<Longrightarrow> contents s' i = Some c"
begin

lemma run_ok: "step\<^sup>*\<^sup>* s s' \<Longrightarrow> ok s \<Longrightarrow> ok s'"
  by (induction rule: rtranclp_induct) (auto intro: step_ok)

lemma run_keeps: "step\<^sup>*\<^sup>* s s' \<Longrightarrow> ok s \<Longrightarrow> contents s i = Some c \<Longrightarrow> contents s' i = Some c"
  by (induction rule: rtranclp_induct) (auto intro: step_keeps run_ok)

lemma run_dom: "step\<^sup>*\<^sup>* s s' \<Longrightarrow> ok s \<Longrightarrow> dom (contents s) \<subseteq> dom (contents s')"
  by (auto dest: run_keeps)

end

interpretation outbox: durable_outbox outbox_wf message_contents "outbox_step k" for k
  by unfold_locales (auto intro: outbox_step_wf outbox_step_contents)

section \<open>The attempt budget\<close>

definition recovery_wf :: "db \<Rightarrow> bool" where
  "recovery_wf d \<longleftrightarrow> distinct (map ri_id (db_recovery d))"

text \<open>
  The most broker attempts a message can ever see: the configured ceiling for a message without a
  recovery owner (a fresh row is always tried once), the owner's retry limit otherwise.
\<close>

definition owner_budget :: "int \<Rightarrow> recovery_item \<Rightarrow> int" where
  "owner_budget start i =
     (case json_integer (ri_previous_stage_state i) NON_STAGE_BUDGET_BASE_KEY of
        Some base \<Rightarrow> max 0 (start + ri_retry_limit i - base - 1)
      | None \<Rightarrow> max 0 (ri_retry_limit i))"

definition message_owner :: "db \<Rightarrow> message_id \<Rightarrow> recovery_item option" where
  "message_owner d mid =
     newest_recovery_item
       (filter (\<lambda>i. (case mid of MsgUuid u \<Rightarrow> ri_dispatch_event_id i = Some u | MsgText _ \<Rightarrow> False) \<and>
                    ri_attempt_budget_start i \<noteq> None) (db_recovery d))"

definition message_budget :: "int \<Rightarrow> db \<Rightarrow> message_id \<Rightarrow> int" where
  "message_budget k d mid =
     (case message_owner d mid of
        None \<Rightarrow> max 1 k
      | Some i \<Rightarrow> (case ri_attempt_budget_start i of None \<Rightarrow> max 1 k | Some start \<Rightarrow> owner_budget start i))"

definition within_budget :: "int \<Rightarrow> db \<Rightarrow> bool" where
  "within_budget k d \<longleftrightarrow>
     outbox_wf d \<and> recovery_wf d \<and>
     (\<forall>i m. get_outbox d i = Some m \<longrightarrow>
        0 \<le> ob_attempt_count m \<and>
        (ob_status m = OUTBOX_PENDING \<longrightarrow> ob_attempt_count m = 0) \<and>
        ob_attempt_count m \<le> message_budget k d (ob_message_id m))"

lemma owner_via_claims:
  "map_option item_claim (message_owner d mid) =
     max_by (\<lambda>(i, (da, cr), rest). (da, cr, i))
       (filter (\<lambda>(i, t, ev, st, rest). (case mid of MsgUuid u \<Rightarrow> ev = Some u | MsgText _ \<Rightarrow> False) \<and>
          st \<noteq> None) (map item_claim (db_recovery d)))"
  by (simp add: message_owner_def newest_recovery_item_def filter_map max_by_map comp_def item_claim_def)

lemma budget_via_claim:
  "item_claim i = item_claim j \<Longrightarrow>
     ri_attempt_budget_start i = ri_attempt_budget_start j \<and> owner_budget s i = owner_budget s j"
  by (auto simp: item_claim_def owner_budget_def split: option.splits)

lemma message_budget_cong:
  assumes "map item_claim (db_recovery d) = map item_claim (db_recovery d')"
  shows "message_budget k d mid = message_budget k d' mid"
proof -
  have eq: "map_option item_claim (message_owner d mid) = map_option item_claim (message_owner d' mid)"
    by (simp only: owner_via_claims assms)
  show ?thesis
  proof (cases "message_owner d mid")
    case None
    with eq have "message_owner d' mid = None" by (metis map_option_is_None)
    with None show ?thesis by (simp add: message_budget_def)
  next
    case (Some i)
    with eq obtain j where j: "message_owner d' mid = Some j" "item_claim j = item_claim i"
      by (metis map_option_eq_Some option.simps(9))
    from budget_via_claim [OF j(2)] Some j(1) show ?thesis
      by (simp add: message_budget_def split: option.splits)
  qed
qed

lemma observe_publication_claims:
  assumes "recovery_wf d"
  shows "map item_claim (db_recovery (observe_recovery_stage_publication m d)) =
      map item_claim (db_recovery d)"
    and "recovery_wf (observe_recovery_stage_publication m d)"
proof -
  show "map item_claim (db_recovery (observe_recovery_stage_publication m d)) =
      map item_claim (db_recovery d)"
  proof (cases "newest_recovery_item (filter (dispatched_under m) (db_recovery d))")
    case None
    then show ?thesis by (simp add: observe_recovery_stage_publication_def)
  next
    case (Some i)
    then have "i \<in> set (db_recovery d)" by (auto simp: newest_recovery_item_def dest: max_by_mem)
    with assms have "row_get ri_id (ri_id i) (db_recovery d) = Some i"
      by (simp add: recovery_wf_def row_get_iff_mem)
    with Some show ?thesis
      by (simp add: observe_recovery_stage_publication_def put_recovery_def map_row_put_same)
  qed
  show "recovery_wf (observe_recovery_stage_publication m d)"
    using assms
    by (auto simp: recovery_wf_def observe_recovery_stage_publication_def put_recovery_def
        row_put_distinct split: option.splits)
qed

lemma outbox_step_claims:
  "outbox_step k d d' \<Longrightarrow> recovery_wf d \<Longrightarrow>
     map item_claim (db_recovery d') = map item_claim (db_recovery d) \<and> recovery_wf d'"
proof (induction rule: outbox_step.induct)
  case (step_enqueue fresh spec d i d')
  then obtain m where "d' = d\<lparr>db_outbox := db_outbox d @ [m]\<rparr>" by (elim publish_to_outbox_Inr)
  with step_enqueue show ?case by (simp add: recovery_wf_def)
next
  case (step_published d i m env)
  then have "recovery_wf (put_outbox (published_message env m) d)" by (simp add: recovery_wf_def)
  note o = observe_publication_claims [OF this]
  from step_published o show ?case
    by (auto simp: mark_published_def Let_def recovery_wf_def)
next
  case (step_failed d i m env e)
  then have "recovery_wf (put_outbox (failed_message env e m) d)" by (simp add: recovery_wf_def)
  note o = observe_publication_claims [OF this]
  from step_failed o show ?case
    by (auto simp: mark_failed_def Let_def recovery_wf_def)
qed (simp_all add: claim_due_def claim_specific_def recover_stale_publishing_def recovery_wf_def)

lemma claim_allowed_budget:
  assumes "claim_allowed env d m" "ob_status m = OUTBOX_PENDING \<longrightarrow> ob_attempt_count m = 0"
  shows "ob_attempt_count m + 1 \<le> message_budget (env_retry_max_attempts env) d (ob_message_id m)"
proof -
  have owner: "newest_recovery_item (filter (\<lambda>i. dispatched_under m i \<and> ri_attempt_budget_start i \<noteq> None)
      (db_recovery d)) = message_owner d (ob_message_id m)"
    by (simp add: message_owner_def dispatched_under_def cong: message_id.case_cong)
  show ?thesis
  proof (cases "message_owner d (ob_message_id m)")
    case None
    then have "recovery_attempt_ceiling d m = None"
      using owner by (simp add: recovery_attempt_ceiling_def)
    with assms None show ?thesis
      by (auto simp: claim_allowed_def message_budget_def split: outbox_status.splits)
  next
    case (Some i)
    then have "ri_attempt_budget_start i \<noteq> None"
      unfolding message_owner_def newest_recovery_item_def by (auto dest!: max_by_mem)
    then obtain start where start: "ri_attempt_budget_start i = Some start" by auto
    then have c: "recovery_attempt_ceiling d m = Some (item_attempt_ceiling start i)"
      using owner Some by (simp add: recovery_attempt_ceiling_def)
    have "item_attempt_ceiling start i \<le> owner_budget start i"
      by (auto simp: item_attempt_ceiling_def owner_budget_def Let_def split: option.splits)
    moreover have "ob_attempt_count m < item_attempt_ceiling start i"
      using assms(1) c by (auto simp: claim_allowed_def split: outbox_status.splits)
    ultimately show ?thesis using Some start by (simp add: message_budget_def)
  qed
qed

lemma spec_message_id:
  "message_spec_from_outbox_message m = message_spec_from_outbox_message m' \<Longrightarrow>
     ob_message_id m = ob_message_id m'"
  by (simp add: message_spec_from_outbox_message_def)

lemma claim_message_fields [simp]:
  "ob_message_id (claim_message env m) = ob_message_id m"
  "ob_attempt_count (claim_message env m) = ob_attempt_count m + 1"
  "ob_status (claim_message env m) = OUTBOX_PUBLISHING"
  by (simp_all add: claim_message_def)

lemma marked_message_id [simp]:
  "ob_message_id (published_message env m) = ob_message_id m"
  "ob_message_id (failed_message env e m) = ob_message_id m"
  "ob_message_id (recovered_message env m) = ob_message_id m"
  by (simp_all add: published_message_def failed_message_def recovered_message_def)

lemma message_budget_nonneg: "0 \<le> message_budget k d mid"
  by (auto simp: message_budget_def owner_budget_def split: option.splits)

lemma outbox_step_within_budget:
  assumes step: "outbox_step k d d'" and inv: "within_budget k d"
  shows "within_budget k d'"
proof -
  have wf: "outbox_wf d" "recovery_wf d" using inv by (simp_all add: within_budget_def)
  have rows: "0 \<le> ob_attempt_count m \<and> (ob_status m = OUTBOX_PENDING \<longrightarrow> ob_attempt_count m = 0) \<and>
      ob_attempt_count m \<le> message_budget k d (ob_message_id m)" if "get_outbox d i = Some m" for i m
    using inv that by (simp add: within_budget_def)
  have budget: "message_budget k d' mid = message_budget k d mid" for mid
    using outbox_step_claims [OF step wf(2)] by (intro message_budget_cong) simp
  have "0 \<le> ob_attempt_count m \<and> (ob_status m = OUTBOX_PENDING \<longrightarrow> ob_attempt_count m = 0) \<and>
      ob_attempt_count m \<le> message_budget k d (ob_message_id m)" if g: "get_outbox d' i = Some m" for i m
    using step g
  proof cases
    case (step_enqueue fresh spec j)
    then obtain n where n: "d' = d\<lparr>db_outbox := db_outbox d @ [n]\<rparr>" "ob_attempt_count n = 0"
      by (elim publish_to_outbox_Inr)
    with g rows [of i] show ?thesis
      by (auto simp: get_outbox_def message_budget_nonneg split: option.splits if_splits)
  next
    case (step_claim_due env limit)
    with g claim_due_get(1) [OF wf(1), of env limit i] rows [of i] show ?thesis
      by (auto split: if_splits dest: claim_allowed_budget)
  next
    case (step_claim_specific env ids)
    with g claim_specific_get(1) [OF wf(1), of env ids i] rows [of i] show ?thesis
      by (auto split: if_splits dest: claim_allowed_budget)
  next
    case (step_published j n env)
    with g rows [of i] rows [of j] show ?thesis
      by (auto simp: mark_published_get split: if_splits)
  next
    case (step_failed j n env e)
    with g rows [of i] rows [of j] show ?thesis
      by (auto simp: mark_failed_get split: if_splits)
  next
    case (step_recover env sb)
    with g rows [of i] show ?thesis
      by (auto simp: recover_stale_get split: if_splits)
  qed
  with budget outbox_step_wf [OF step wf(1)] outbox_step_claims [OF step wf(2)] show ?thesis
    by (simp add: within_budget_def)
qed

lemma outbox_run_within_budget:
  "(outbox_step k)\<^sup>*\<^sup>* d d' \<Longrightarrow> within_budget k d \<Longrightarrow> within_budget k d'"
  by (induction rule: rtranclp_induct) (auto intro: outbox_step_within_budget)

section \<open>What a relay sweep does\<close>

text \<open>A claimed message after its publication attempt.\<close>

definition settled_message :: "env \<Rightarrow> outbox_message \<Rightarrow> outbox_message" where
  "settled_message env m =
     (case env_broker env m of
        None \<Rightarrow> published_message env m | Some error \<Rightarrow> failed_message env error m)"

lemma settled_message_id [simp]: "ob_id (settled_message env m) = ob_id m"
  by (simp add: settled_message_def split: option.splits)

lemma publish_claimed_settles:
  assumes ok: "\<And>i. env_mark_ok env i"
  shows "distinct (map ob_id ms) \<Longrightarrow>
    fst (publish_claimed env ms p f d) =
      Inr (p + length (filter (\<lambda>m. env_broker env m = None) ms),
           f + length (filter (\<lambda>m. env_broker env m \<noteq> None) ms)) \<and>
    (\<forall>j. get_outbox (snd (publish_claimed env ms p f d)) j =
      (case row_get ob_id j ms of Some m \<Rightarrow> Some (settled_message env m) | None \<Rightarrow> get_outbox d j))"
proof (induction ms arbitrary: p f d)
  case Nil
  then show ?case by simp
next
  case (Cons m ms)
  have tail: "distinct (map ob_id ms)" and fresh: "row_get ob_id (ob_id m) ms = None"
    using Cons.prems by (auto simp: row_get_None_iff)
  show ?case
    using fresh
    by (auto simp: mark_published_def mark_failed_def Let_def ok settled_message_def
        Cons.IH [OF tail] split: option.splits)
qed

lemma claimed_rows_value:
  "env_claim_ok env \<Longrightarrow>
     claim_rows env msg rows d =
       (Inr (map (claim_message env) rows),
        d\<lparr>db_outbox := fold (row_put ob_id) (map (claim_message env) rows) (db_outbox d)\<rparr>)"
  by (simp add: claim_rows_def Let_def)

section \<open>The relay as a run of the transition system\<close>

text \<open>\<open>d'\<close> differs from \<open>d\<close> in the outbox and the recovery items only.\<close>

definition outbox_only :: "db \<Rightarrow> db \<Rightarrow> bool" where
  "outbox_only d d' \<longleftrightarrow> d' = d\<lparr>db_outbox := db_outbox d', db_recovery := db_recovery d'\<rparr>"

lemma outbox_only_refl [simp]: "outbox_only d d"
  by (simp add: outbox_only_def)

lemma outbox_only_trans: "outbox_only a b \<Longrightarrow> outbox_only b c \<Longrightarrow> outbox_only a c"
  unfolding outbox_only_def by (cases a; cases b; cases c) simp

lemma outbox_only_tables:
  assumes "outbox_only d d'"
  shows "db_journal d' = db_journal d" "db_files d' = db_files d" "db_memes d' = db_memes d"
    "db_generations d' = db_generations d" "db_attempts d' = db_attempts d"
    "db_snapshots d' = db_snapshots d" "db_ocr d' = db_ocr d"
    "get_journal d' f s = get_journal d f s" "get_file d' f = get_file d f"
    "get_generation d' g = get_generation d g" "get_meme d' m = get_meme d m"
proof -
  obtain o' r' where "d' = d\<lparr>db_outbox := o', db_recovery := r'\<rparr>"
    using assms unfolding outbox_only_def by blast
  then show "db_journal d' = db_journal d" "db_files d' = db_files d" "db_memes d' = db_memes d"
    "db_generations d' = db_generations d" "db_attempts d' = db_attempts d"
    "db_snapshots d' = db_snapshots d" "db_ocr d' = db_ocr d"
    "get_journal d' f s = get_journal d f s" "get_file d' f = get_file d f"
    "get_generation d' g = get_generation d g" "get_meme d' m = get_meme d m"
    by (simp_all add: get_journal_def get_file_def get_generation_def get_meme_def)
qed

lemma outbox_only_observe: "outbox_only d (observe_recovery_stage_publication m d)"
  by (auto simp: outbox_only_def observe_recovery_stage_publication_def put_recovery_def split: option.splits)

lemma outbox_only_put: "outbox_only d (put_outbox m d)"
  by (simp add: outbox_only_def put_outbox_def)

lemma outbox_only_marks:
  "outbox_only d (snd (mark_published env m d))"
  "outbox_only d (snd (mark_failed env e m d))"
  by (auto simp: mark_published_def mark_failed_def Let_def outbox_only_put
      intro: outbox_only_trans [OF outbox_only_put outbox_only_observe])

lemma outbox_only_publish_claimed: "outbox_only d (snd (publish_claimed env ms p f d))"
proof (induction ms arbitrary: p f d)
  case Nil
  then show ?case by simp
next
  case (Cons m ms)
  show ?case
  proof (cases "env_broker env m")
    case None
    obtain r d1 where m: "mark_published env m d = (r, d1)" by (cases "mark_published env m d")
    have "outbox_only d d1" using outbox_only_marks(1) [of d env m] m by simp
    with None m Cons.IH [where p = "p + 1" and f = f and d = d1] show ?thesis
      by (cases r) (auto intro: outbox_only_trans)
  next
    case (Some e)
    obtain r d1 where m: "mark_failed env e m d = (r, d1)" by (cases "mark_failed env e m d")
    have "outbox_only d d1" using outbox_only_marks(2) [of d env e m] m by simp
    with Some m Cons.IH [where p = p and f = "f + 1" and d = d1] show ?thesis
      by (cases r) (auto intro: outbox_only_trans)
  qed
qed

lemma outbox_only_claim_rows: "outbox_only d (snd (claim_rows env msg rows d))"
  by (simp add: claim_rows_def outbox_only_def Let_def)

lemma outbox_only_claim_specific: "outbox_only d (snd (claim_specific env ids d))"
  by (simp only: claim_specific_def outbox_only_claim_rows)

lemma outbox_only_publish_ids: "outbox_only d (snd (publish_ids env ids d))"
proof -
  obtain r d1 where c: "claim_specific env (dedup ids) d = (r, d1)"
    by (cases "claim_specific env (dedup ids) d")
  then have o1: "outbox_only d d1"
    using outbox_only_claim_specific [of d env "dedup ids"] by simp
  show ?thesis
  proof (cases r)
    case (Inl e)
    with c o1 show ?thesis by (simp add: publish_ids_def Let_def)
  next
    case (Inr ms)
    have "outbox_only d1 (snd (publish_claimed_batch env ms d1))"
      using outbox_only_publish_claimed [of d1 env ms 0 0]
      by (auto simp: publish_claimed_batch_def split: prod.splits sum.splits)
    with c o1 Inr show ?thesis
      by (auto simp: publish_ids_def Let_def intro: outbox_only_trans)
  qed
qed

lemma relay_best_effort_only: "outbox_only d (snd (relay_best_effort env ids d))"
proof -
  obtain r d1 where p: "publish_ids env (dedup ids) d = (r, d1)"
    by (cases "publish_ids env (dedup ids) d")
  then have "outbox_only d d1" using outbox_only_publish_ids [of d env "dedup ids"] by simp
  with p show ?thesis by (cases r) (auto simp: relay_best_effort_def Let_def)
qed

lemma publish_claimed_run:
  assumes "distinct (map ob_id ms)"
    and "\<forall>m\<in>set ms. get_outbox d (ob_id m) = Some m \<and> ob_attempt_count m \<ge> 1"
  shows "(outbox_step k)\<^sup>*\<^sup>* d (snd (publish_claimed env ms p f d))"
  using assms
proof (induction ms arbitrary: p f d)
  case Nil
  then show ?case by simp
next
  case (Cons m ms)
  have m: "get_outbox d (ob_id m) = Some m" "ob_attempt_count m \<ge> 1" using Cons.prems(2) by auto
  have keep: "\<forall>x\<in>set ms. get_outbox d1 (ob_id x) = Some x \<and> ob_attempt_count x \<ge> 1"
    if "\<And>j. j \<noteq> ob_id m \<Longrightarrow> get_outbox d1 j = get_outbox d j" for d1
  proof
    fix x assume x: "x \<in> set ms"
    then have "ob_id x \<noteq> ob_id m" using Cons.prems(1) by (metis distinct.simps(2) image_eqI list.set_map list.simps(9))
    with that x Cons.prems(2) show "get_outbox d1 (ob_id x) = Some x \<and> ob_attempt_count x \<ge> 1" by simp
  qed
  have dist: "distinct (map ob_id ms)" using Cons.prems(1) by simp
  show ?case
  proof (cases "env_broker env m")
    case None
    obtain r d1 where mp: "mark_published env m d = (r, d1)" by (cases "mark_published env m d")
    have s: "outbox_step k d d1" using step_published [OF m, of k env] mp by simp
    have "(outbox_step k)\<^sup>*\<^sup>* d1 (snd (publish_claimed env ms (p + 1) f d1))"
      by (rule Cons.IH [OF dist], rule keep) (use mark_published_get [OF m(1), of env] mp in auto)
    with None mp s show ?thesis by (cases r) (auto intro: converse_rtranclp_into_rtranclp)
  next
    case (Some e)
    obtain r d1 where mp: "mark_failed env e m d = (r, d1)" by (cases "mark_failed env e m d")
    have s: "outbox_step k d d1" using step_failed [OF m, of k env e] mp by simp
    have "(outbox_step k)\<^sup>*\<^sup>* d1 (snd (publish_claimed env ms p (f + 1) d1))"
      by (rule Cons.IH [OF dist], rule keep) (use mark_failed_get [OF m(1), of env e] mp in auto)
    with Some mp s show ?thesis by (cases r) (auto intro: converse_rtranclp_into_rtranclp)
  qed
qed

lemma claim_rows_claimed:
  assumes wf: "outbox_wf d" and sub: "set rows \<subseteq> set (db_outbox d)" and dist: "distinct (map ob_id rows)"
    and claim: "claim_rows env msg rows d = (Inr ms, d1)"
    and nonneg: "\<forall>m\<in>set (db_outbox d). 0 \<le> ob_attempt_count m"
  shows "distinct (map ob_id ms) \<and> (\<forall>m\<in>set ms. get_outbox d1 (ob_id m) = Some m \<and> ob_attempt_count m \<ge> 1)"
proof -
  have ms: "ms = map (claim_message env) rows" and ok: "env_claim_ok env"
    using claim by (auto simp: claim_rows_def Let_def split: if_splits)
  have d1: "d1 = snd (claim_rows env msg rows d)" by (simp add: claim)
  have "get_outbox d1 (ob_id r) = Some (claim_message env r)" if "r \<in> set rows" for r
    using that claim_rows_outbox(1) [OF wf sub dist, of env msg "ob_id r"] outbox_wf_get [OF wf, of r] sub ok
    by (auto simp: d1)
  then show ?thesis using dist nonneg sub by (auto simp: ms comp_def)
qed

lemma publish_ids_run:
  assumes wf: "outbox_wf d" and nonneg: "\<forall>m\<in>set (db_outbox d). 0 \<le> ob_attempt_count m"
    and k: "env_retry_max_attempts env = k"
  shows "(outbox_step k)\<^sup>*\<^sup>* d (snd (publish_ids env ids d))"
proof -
  obtain r d1 where c: "claim_specific env (dedup ids) d = (r, d1)"
    by (cases "claim_specific env (dedup ids) d")
  have s: "outbox_step k d d1" using step_claim_specific [OF k, of d "dedup ids"] c by simp
  show ?thesis
  proof (cases r)
    case (Inl e)
    with c s show ?thesis by (auto simp: publish_ids_def Let_def)
  next
    case (Inr ms)
    have "distinct (map ob_id ms) \<and> (\<forall>m\<in>set ms. get_outbox d1 (ob_id m) = Some m \<and> ob_attempt_count m \<ge> 1)"
      using claim_rows_claimed [OF wf _ _ c [unfolded claim_specific_def Inr] nonneg] wf
      by (auto simp: outbox_wf_def distinct_map_filter)
    then have "(outbox_step k)\<^sup>*\<^sup>* d1 (snd (publish_claimed env ms 0 0 d1))"
      by (intro publish_claimed_run) auto
    moreover have "snd (publish_claimed_batch env ms d1) = snd (publish_claimed env ms 0 0 d1)"
      by (auto simp: publish_claimed_batch_def split: prod.splits sum.splits)
    ultimately show ?thesis
      using c s Inr by (auto simp: publish_ids_def Let_def intro: converse_rtranclp_into_rtranclp)
  qed
qed

lemma relay_best_effort_run:
  assumes "outbox_wf d" "\<forall>m\<in>set (db_outbox d). 0 \<le> ob_attempt_count m" "env_retry_max_attempts env = k"
  shows "(outbox_step k)\<^sup>*\<^sup>* d (snd (relay_best_effort env ids d))"
  using publish_ids_run [OF assms, of "dedup ids"]
  by (auto simp: relay_best_effort_def Let_def split: prod.splits sum.splits)

lemma relay_keeps_messages:
  assumes "outbox_wf d" "\<forall>m\<in>set (db_outbox d). 0 \<le> ob_attempt_count m" "message_contents d i = Some spec"
  shows "message_contents (snd (relay_best_effort env ids d)) i = Some spec"
  using outbox.run_keeps [OF relay_best_effort_run [OF assms(1,2) refl] assms(1,3)] .

section \<open>Properties\<close>

definition sample_message :: outbox_message where
  "sample_message =
     \<lparr>ob_id = 60, ob_exchange = ''pipeline'', ob_routing_key = ''work'', ob_payload = OtherPayload ''x'',
      ob_headers = [], ob_content_type = ''application/json'', ob_message_id = MsgUuid 60,
      ob_event_type = ''meme_transcoded'', ob_aggregate_type = ''meme_file'', ob_aggregate_id = ''1'',
      ob_ordering_key = None, ob_status = OUTBOX_PENDING, ob_attempt_count = 0,
      ob_next_retry_at = Some 900, ob_locked_at = None, ob_lock_owner = None,
      ob_published_at = None, ob_last_error = None, ob_created_at = 900\<rparr>"

definition sample_outbox_db :: db where
  "sample_outbox_db = empty_db\<lparr>db_outbox := [sample_message], db_recovery := [sample_item]\<rparr>"

lemma sample_outbox_get: "get_outbox sample_outbox_db 60 = Some sample_message"
  by (simp add: get_outbox_def sample_outbox_db_def sample_message_def)

lemma sample_outbox_wf: "outbox_wf sample_outbox_db" "recovery_wf sample_outbox_db"
  by (simp_all add: outbox_wf_def recovery_wf_def sample_outbox_db_def empty_db_def)

lemma sample_outbox_run:
  "(outbox_step 5)\<^sup>*\<^sup>* sample_outbox_db (snd (claim_due sample_env 10 sample_outbox_db))"
  by (intro r_into_rtranclp step_claim_due) (simp add: sample_env_def)

text \<open>
  C6. In every state reachable by such transactions, a message has been claimed for the broker at
  most as often as its budget allows: the configured retry ceiling (one try for a ceiling below one)
  without a recovery owner, the newest owner's retry limit (or its non-stage remainder) with one.
\<close>

theorem outbox_attempts_within_budget:
  assumes "within_budget k d" "(outbox_step k)\<^sup>*\<^sup>* d d'" "get_outbox d' i = Some m"
  shows "ob_attempt_count m \<le> message_budget k d' (ob_message_id m)"
  using outbox_run_within_budget [OF assms(2,1)] assms(3) by (simp add: within_budget_def)

lemma sample_within_budget: "within_budget 5 sample_outbox_db"
proof -
  have m: "m = sample_message" if "get_outbox sample_outbox_db i = Some m" for i m
    using that by (auto simp: get_outbox_def sample_outbox_db_def split: if_splits)
  show ?thesis
    unfolding within_budget_def
    by (auto simp: sample_outbox_wf message_budget_nonneg dest!: m) (simp_all add: sample_message_def message_budget_nonneg)
qed

lemma sample_due: "due_messages sample_env sample_outbox_db = [sample_message]"
proof -
  have own: "recovery_attempt_ceiling sample_outbox_db sample_message = Some 3"
    by (simp add: recovery_attempt_ceiling_def newest_recovery_item_def dispatched_under_def
        sample_outbox_db_def sample_message_def sample_item_def item_attempt_ceiling_def json_integer_def)
  then show ?thesis
    unfolding due_messages_def claim_order_def
    by (simp add: sample_outbox_db_def claim_allowed_def sample_message_def sample_env_def)
qed

lemma sample_claimed:
  "get_outbox (snd (claim_due sample_env 10 sample_outbox_db)) 60 = Some (claim_message sample_env sample_message)"
proof -
  have "env_claim_ok sample_env" by (simp add: sample_env_def)
  then have "snd (claim_due sample_env 10 sample_outbox_db) =
      sample_outbox_db\<lparr>db_outbox := row_put ob_id (claim_message sample_env sample_message) [sample_message]\<rparr>"
    by (simp add: claim_due_def claimed_rows_value sample_due) (simp add: sample_outbox_db_def)
  moreover have "ob_id (claim_message sample_env sample_message) = 60" "ob_id sample_message = 60"
    by (simp_all add: sample_message_def claim_message_def)
  ultimately show ?thesis by (simp add: get_outbox_def)
qed

theorem outbox_attempts_within_budget_witness:
  "ob_attempt_count (claim_message sample_env sample_message) \<le>
     message_budget 5 (snd (claim_due sample_env 10 sample_outbox_db))
       (ob_message_id (claim_message sample_env sample_message))"
  by (rule outbox_attempts_within_budget [OF sample_within_budget sample_outbox_run sample_claimed])

text \<open>
  One relay sweep with working commits claims exactly the due messages, oldest first and at most
  the limit, settles every claimed row by the broker's answer (published, or failed and due again
  after the backoff), leaves every other row alone, and reports the true counts.
\<close>

theorem publish_batch_settles_due_messages:
  fixes limit :: int
  assumes "outbox_wf d" "env_claim_ok env" "\<And>i. env_mark_ok env i"
  defines "due \<equiv> take (nat (max 1 limit)) (due_messages env d)"
  defines "tried \<equiv> map (claim_message env) due"
  shows "fst (publish_batch env limit d) =
      Inr \<lparr>pb_claimed = length due,
           pb_published = length (filter (\<lambda>m. env_broker env m = None) tried),
           pb_failed = length (filter (\<lambda>m. env_broker env m \<noteq> None) tried)\<rparr> \<and>
    (\<forall>j. get_outbox (snd (publish_batch env limit d)) j =
       (case row_get ob_id j tried of
          Some m \<Rightarrow> Some (settled_message env m) | None \<Rightarrow> get_outbox d j)) \<and>
    sorted (map (\<lambda>m. (ob_created_at m, ob_id m)) due)"
proof -
  define d1 where "d1 = d\<lparr>db_outbox := fold (row_put ob_id) tried (db_outbox d)\<rparr>"
  have dist: "distinct (map ob_id tried)"
    using due_messages_distinct [OF assms(1)] by (simp add: tried_def due_def comp_def)
  have claim: "claim_due env limit d = (Inr tried, d1)"
    by (simp add: claim_due_def claimed_rows_value [OF assms(2)] tried_def due_def d1_def)
  note pc = publish_claimed_settles [OF assms(3) dist, of 0 0 d1, THEN conjunct1]
    publish_claimed_settles [OF assms(3) dist, of 0 0 d1, THEN conjunct2, rule_format]
  obtain d2 where run: "publish_claimed env tried 0 0 d1 =
      (Inr (length (filter (\<lambda>m. env_broker env m = None) tried),
            length (filter (\<lambda>m. env_broker env m \<noteq> None) tried)), d2)"
    using pc(1) by (metis add.left_neutral prod.collapse)
  have g1: "get_outbox d1 j = (case row_get ob_id j tried of Some m \<Rightarrow> Some m | None \<Rightarrow> get_outbox d j)" for j
    by (simp add: d1_def get_outbox_def row_get_fold_put [OF dist] split: option.splits)
  have "sorted (map (\<lambda>m. (ob_created_at m, ob_id m)) due)"
    unfolding due_def due_messages_def claim_order_def take_map [symmetric]
    by (intro sorted_wrt_take) (rule sorted_sort_key)
  with run pc(2) g1 show ?thesis
    by (simp add: publish_batch_def claim publish_claimed_batch_def tried_def split: option.splits)
qed

theorem publish_batch_settles_due_messages_witness:
  "get_outbox (snd (publish_batch sample_env 10 sample_outbox_db)) 60 =
     Some (published_message sample_env (claim_message sample_env sample_message))"
proof -
  have ok: "outbox_wf sample_outbox_db" "env_claim_ok sample_env" "\<And>i. env_mark_ok sample_env i"
    by (simp_all add: sample_outbox_wf sample_env_def)
  from sample_due publish_batch_settles_due_messages [OF ok, of 10] show ?thesis
    by (simp add: settled_message_def sample_env_def) (simp add: sample_message_def claim_message_def)
qed

text \<open>
  Folding one outbox outcome into a recovery item's budget is monotone in both counters and
  idempotent: observing the same outcome twice (a redelivered sweep) charges nothing more, and the
  worker's share of the budget is never lost.
\<close>

theorem observe_publication_idempotent_monotone:
  "let once = observe_recovery_stage_publication_outcome item m;
       twice = observe_recovery_stage_publication_outcome once m
   in ri_failures_consumed twice = ri_failures_consumed once \<and>
      recovery_stage_publication_failures twice = recovery_stage_publication_failures once \<and>
      ri_failures_consumed item \<le> ri_failures_consumed once \<and>
      recovery_stage_publication_failures item \<le> recovery_stage_publication_failures once \<and>
      ri_failures_consumed item - recovery_stage_publication_failures item \<le>
        ri_failures_consumed once - recovery_stage_publication_failures once"
proof -
  have nn: "0 \<le> recovery_stage_publication_failures i" for i
    by (auto simp: recovery_stage_publication_failures_def split: option.splits jval.splits)
  have stage: "ri_stage (observe_recovery_stage_publication_outcome i m) = ri_stage i" for i
    by (simp add: observe_recovery_stage_publication_outcome_def Let_def split: outbox_status.splits)
  define obs where "obs = (case ob_status m of OUTBOX_FAILED \<Rightarrow> Some (ob_attempt_count m)
      | OUTBOX_PUBLISHED \<Rightarrow> Some (max (ob_attempt_count m - 1) 0) | _ \<Rightarrow> None)"
  have pub: "recovery_stage_publication_failures (observe_recovery_stage_publication_outcome i m) =
      (case (ri_stage i, obs) of (Some _, Some n) \<Rightarrow> max (recovery_stage_publication_failures i) n
       | _ \<Rightarrow> recovery_stage_publication_failures i)" for i
    using nn [of i]
    by (auto simp: observe_recovery_stage_publication_outcome_def Let_def obs_def
        recovery_stage_publication_failures_def split: outbox_status.splits option.splits jval.splits)
  have con: "ri_failures_consumed (observe_recovery_stage_publication_outcome i m) =
      (case (ri_stage i, obs) of
         (Some _, Some n) \<Rightarrow> max (ri_failures_consumed i)
           (max (recovery_stage_publication_failures i) n +
            max (ri_failures_consumed i - recovery_stage_publication_failures i) 0)
       | _ \<Rightarrow> ri_failures_consumed i)" for i
    by (auto simp: observe_recovery_stage_publication_outcome_def Let_def obs_def
        split: outbox_status.splits option.splits)
  show ?thesis
    using nn [of item]
    by (simp add: Let_def pub con stage max_def split: option.splits)
qed

end
