(* ===== verification/Dispatch.thy ===== *)
theory Dispatch
  imports Outbox
begin

text \<open>
  Dispatch of pipeline work: routing (\<open>core/broker.py\<close>), the outbox message of a dispatch event and
  the hand-over to the next stages (\<open>pipeline/dispatch.py\<close>), and the per-target sync snapshots
  (\<open>pipeline/sync_status.py\<close>).
\<close>

section \<open>Routing\<close>

fun stage_value :: "stage \<Rightarrow> text_value" where
  "stage_value INGEST = ''ingest''"
| "stage_value TRANSCODE = ''transcode''"
| "stage_value OCR = ''ocr''"
| "stage_value EMBED = ''embed''"
| "stage_value CLASSIFY = ''classify''"
| "stage_value SYNC_QDRANT = ''sync_qdrant''"
| "stage_value SYNC_MEILI = ''sync_meili''"

fun event_type_value :: "event_type \<Rightarrow> text_value" where
  "event_type_value MEME_CREATED = ''meme_created''"
| "event_type_value MEME_TRANSCODED = ''meme_transcoded''"
| "event_type_value MEME_OCR_DONE = ''meme_ocr_done''"
| "event_type_value MEME_EMBEDDED = ''meme_embedded''"
| "event_type_value MEME_READY = ''meme_ready''"
| "event_type_value MEME_QDRANT_SYNCED = ''meme_qdrant_synced''"
| "event_type_value MEME_MEILI_SYNCED = ''meme_meili_synced''"
| "event_type_value STAGE_REPLAY_REQUESTED = ''stage_replay_requested''"

definition routing_key_for_stage :: "env \<Rightarrow> stage \<Rightarrow> text_value" where
  "routing_key_for_stage env s = env_routing_key_prefix env @ ''.'' @ stage_value s"

definition synced_routing_key :: "env \<Rightarrow> stage \<Rightarrow> text_value" where
  "synced_routing_key env s = env_routing_key_prefix env @ ''.'' @ stage_value s @ ''.succeeded''"

fun routing_key_for_event :: "env \<Rightarrow> event_type \<Rightarrow> text_value" where
  "routing_key_for_event env MEME_CREATED = routing_key_for_stage env TRANSCODE"
| "routing_key_for_event env MEME_TRANSCODED = routing_key_for_stage env OCR"
| "routing_key_for_event env MEME_OCR_DONE = routing_key_for_stage env EMBED"
| "routing_key_for_event env MEME_EMBEDDED = routing_key_for_stage env CLASSIFY"
| "routing_key_for_event env MEME_READY = routing_key_for_stage env SYNC_QDRANT"
| "routing_key_for_event env MEME_QDRANT_SYNCED = synced_routing_key env SYNC_QDRANT"
| "routing_key_for_event env MEME_MEILI_SYNCED = synced_routing_key env SYNC_MEILI"
| "routing_key_for_event env STAGE_REPLAY_REQUESTED = routing_key_for_stage env TRANSCODE"

definition resolve_routing_key_for_event :: "env \<Rightarrow> dispatch_event \<Rightarrow> text_value" where
  "resolve_routing_key_for_event env e =
     (if ev_type e \<in> {MEME_QDRANT_SYNCED, MEME_MEILI_SYNCED}
      then routing_key_for_event env (ev_type e)
      else routing_key_for_stage env (ev_stage e))"

section \<open>Enqueueing a dispatch event\<close>

definition build_pipeline_dispatch_message_spec :: "env \<Rightarrow> dispatch_event \<Rightarrow> message_spec" where
  "build_pipeline_dispatch_message_spec env e =
     \<lparr>sp_exchange = env_exchange env,
      sp_routing_key = resolve_routing_key_for_event env e,
      sp_payload = DispatchPayload e,
      sp_message_id = MsgUuid (ev_id e),
      sp_event_type = event_type_value (ev_type e),
      sp_aggregate_type = ''meme_file'',
      sp_aggregate_id = uuid_text (ev_file e),
      sp_created_at = ev_created_at e,
      sp_headers = [],
      sp_content_type = DEFAULT_RABBITMQ_CONTENT_TYPE,
      sp_ordering_key = Some (uuid_text (ev_file e))\<rparr>"

definition enqueue_dispatch_event :: "env \<Rightarrow> dispatch_event \<Rightarrow> db \<Rightarrow> pipeline_error + (uuid \<times> db)" where
  "enqueue_dispatch_event env e d =
     publish_to_outbox (ev_id e) (build_pipeline_dispatch_message_spec env e) d"

fun enqueue_dispatch_events ::
  "env \<Rightarrow> dispatch_event list \<Rightarrow> uuid list \<Rightarrow> db \<Rightarrow> pipeline_error + (uuid list \<times> db)" where
  "enqueue_dispatch_events env [] ids d = Inr (ids, d)"
| "enqueue_dispatch_events env (e # es) ids d =
     (case enqueue_dispatch_event env e d of
        Inl err \<Rightarrow> Inl err
      | Inr (i, d') \<Rightarrow> enqueue_dispatch_events env es (ids @ [i]) d')"

section \<open>Hand-over to the next stages\<close>

record stage_work_context =
  wc_meme :: uuid
  wc_file :: uuid
  wc_stage :: stage
  wc_mime_type :: "text_value option"
  wc_original_key :: text_value
  wc_web_video_key :: "text_value option"
  wc_recovery_item :: "uuid option"
  wc_preserve_ready :: bool
  wc_retry_limit :: int

text \<open>
  \<open>_build_downstream_dispatch\<close>. The \<open>n\<close>-th dispatch of a handler takes the event id \<open>env_fresh n\<close>;
  the id of its journal row, drawn when the row is flushed, is \<open>env_fresh (10 + n)\<close>.
\<close>

definition build_downstream_dispatch ::
  "env \<Rightarrow> nat \<Rightarrow> meme_file \<Rightarrow> stage \<Rightarrow> stage \<Rightarrow> time \<Rightarrow> db \<Rightarrow> pipeline_error + (dispatch_event \<times> db)" where
  "build_downstream_dispatch env n file predecessor next created_at d =
     (case DOWNSTREAM_STAGE_EVENT_TYPES predecessor of
        None \<Rightarrow> Inl (ValidationError EventStagePairing)
      | Some ty \<Rightarrow>
          (case make_dispatch_event
                  \<lparr>ev_id = env_fresh env n, ev_type = ty, ev_meme = mf_meme_id file,
                   ev_file = mf_id file, ev_stage = next, ev_source_kind = MANUAL_UPLOAD,
                   ev_original_key = mf_s3_original_key file, ev_attempt = 1,
                   ev_created_at = created_at\<rparr> of
             Inl e \<Rightarrow> Inl e
           | Inr event \<Rightarrow>
               Inr (event,
                    put_journal env
                      \<lparr>sj_id = env_fresh env (10 + n), sj_file = mf_id file, sj_stage = next,
                       sj_status = STAGE_PENDING, sj_attempt_count = 0,
                       sj_last_event_id = Some (ev_id event), sj_normalized_reason = None,
                       sj_last_error_text = None, sj_is_retryable = True, sj_retry_after = None,
                       sj_started_at = None, sj_finished_at = None, sj_updated_at = env_now env\<rparr> d)))"

text \<open>The loop of \<open>_prepare_classify_fan_out_dispatches\<close>: an existing row returns the empty tuple.\<close>

fun classify_fan_out_loop ::
  "env \<Rightarrow> nat \<Rightarrow> meme_file \<Rightarrow> time \<Rightarrow> stage list \<Rightarrow> dispatch_event list \<Rightarrow> db \<Rightarrow>
     pipeline_error + (dispatch_event list \<times> db)" where
  "classify_fan_out_loop env n file created_at [] dispatches d = Inr (dispatches, d)"
| "classify_fan_out_loop env n file created_at (next # stages) dispatches d =
     (case get_journal d (mf_id file) next of
        Some _ \<Rightarrow> Inr ([], d)
      | None \<Rightarrow>
          (case build_downstream_dispatch env n file CLASSIFY next created_at d of
             Inl e \<Rightarrow> Inl e
           | Inr (event, d') \<Rightarrow>
               classify_fan_out_loop env (n + 1) file created_at stages (dispatches @ [event]) d'))"

definition prepare_downstream_dispatches ::
  "env \<Rightarrow> nat \<Rightarrow> meme_file \<Rightarrow> stage \<Rightarrow> time \<Rightarrow> db \<Rightarrow> pipeline_error + (dispatch_event list \<times> db)" where
  "prepare_downstream_dispatches env n file s created_at d =
     (if s = CLASSIFY then classify_fan_out_loop env n file created_at CLASSIFY_FAN_OUT_STAGES [] d
      else (case NEXT_STAGE_BY_STAGE s of
              None \<Rightarrow> Inr ([], d)
            | Some next \<Rightarrow>
                (case get_journal d (mf_id file) next of
                   Some _ \<Rightarrow> Inr ([], d)
                 | None \<Rightarrow>
                     (case build_downstream_dispatch env n file s next created_at d of
                        Inl e \<Rightarrow> Inl e
                      | Inr (event, d') \<Rightarrow> Inr ([event], d')))))"

section \<open>Sync snapshots\<close>

definition put_snapshot :: "uuid \<Rightarrow> sync_target \<Rightarrow> sync_snapshot \<Rightarrow> db \<Rightarrow> db" where
  "put_snapshot f t row d = d\<lparr>db_snapshots := (db_snapshots d)((f, t) \<mapsto> row)\<rparr>"

definition upsert_sync_target_snapshot ::
  "env \<Rightarrow> uuid \<Rightarrow> sync_target \<Rightarrow> sync_status \<Rightarrow> uuid option \<Rightarrow> ((text_value \<times> jval) list \<times> time) option \<Rightarrow>
     text_value option \<Rightarrow> text_value option \<Rightarrow> bool \<Rightarrow> bool \<Rightarrow> db \<Rightarrow> db" where
  "upsert_sync_target_snapshot env f t status last_event preview reason error bump_attempt record_success d =
     (let now = env_now env;
          trimmed_reason = map_option trim_reason reason;
          trimmed_error = map_option trim_error_text error
      in case db_snapshots d (f, t) of
           None \<Rightarrow>
             put_snapshot f t
               \<lparr>sn_id = env_fresh env 20, sn_status = status, sn_last_event_id = last_event,
                sn_normalized_reason = trimmed_reason, sn_last_error_text = trimmed_error,
                sn_preview = (case preview of None \<Rightarrow> [] | Some (shown, _) \<Rightarrow> shown),
                sn_preview_fetched_at = map_option snd preview,
                sn_last_success_at = (if record_success then Some now else None),
                sn_last_attempt_at = Some now,
                sn_attempt_count = (if bump_attempt then 1 else 0)\<rparr> d
         | Some row \<Rightarrow>
             (let row1 = row\<lparr>sn_status := status, sn_last_event_id := last_event,
                             sn_normalized_reason := trimmed_reason,
                             sn_last_error_text := trimmed_error, sn_last_attempt_at := Some now\<rparr>;
                  row2 = (if bump_attempt then row1\<lparr>sn_attempt_count := sn_attempt_count row1 + 1\<rparr> else row1);
                  row3 = (if record_success then row2\<lparr>sn_last_success_at := Some now\<rparr> else row2);
                  row4 = (if record_success
                          then (case preview of
                                  None \<Rightarrow> row3
                                | Some (shown, fetched) \<Rightarrow>
                                    row3\<lparr>sn_preview := shown, sn_preview_fetched_at := Some fetched\<rparr>)
                          else row3)
              in put_snapshot f t row4 d))"

text \<open>The persisted status after a mutation; the projection drops nothing but the row key.\<close>

definition load_sync_target_status :: "db \<Rightarrow> uuid \<Rightarrow> sync_target \<Rightarrow> pipeline_error + sync_snapshot" where
  "load_sync_target_status d f t =
     (case db_snapshots d (f, t) of
        None \<Rightarrow> Inl (PipelineIngestError SnapshotDisappeared) | Some row \<Rightarrow> Inr row)"

definition get_sync_target_status :: "db \<Rightarrow> uuid \<Rightarrow> sync_target \<Rightarrow> pipeline_error + sync_snapshot" where
  "get_sync_target_status d f t =
     (case get_meme_file d f of
        Inl e \<Rightarrow> Inl e
      | Inr _ \<Rightarrow>
          (case db_snapshots d (f, t) of
             None \<Rightarrow> Inl (PipelineItemNotFoundError f) | Some row \<Rightarrow> Inr row))"

definition ensure_sync_replay_allowed :: "db \<Rightarrow> meme_file \<Rightarrow> pipeline_error + unit" where
  "ensure_sync_replay_allowed d file =
     (case get_journal d (mf_id file) CLASSIFY of
        None \<Rightarrow> Inl (PipelineReplayNotAllowedError ClassifyNotSucceeded)
      | Some e \<Rightarrow>
          if sj_status e = STAGE_SUCCEEDED then Inr ()
          else Inl (PipelineReplayNotAllowedError ClassifyNotSucceeded))"

end
