(* ===== verification/Content_Merge.thy ===== *)
theory Content_Merge
  imports Pipeline_State
begin

text \<open>
  Visibility and merge-scope policy (\<open>ingest/policy.py\<close>) and the merge of near-duplicate memes that
  follows embedding (\<open>services/content_merge.py\<close>). The joins and scans of the queries are list
  functions over the tables. Deleting a meme also removes rows of tables the model does not hold
  (reports, SEO page, daily selections); the files, memberships and pins have been moved before.
\<close>

section \<open>Visibility policy\<close>

record merge_scope =
  sc_is_public :: bool
  sc_uploader :: "uuid option"

definition can_match :: "merge_scope \<Rightarrow> bool" where
  "can_match s \<longleftrightarrow> sc_is_public s \<or> sc_uploader s \<noteq> None"

definition initial_visibility_for_source :: "ingest_source_kind \<Rightarrow> bool" where
  "initial_visibility_for_source k = (k = PUBLIC_CRAWLER)"

fun resolve_visibility_loop :: "visibility_mode \<Rightarrow> visibility_mode list \<Rightarrow> visibility_mode" where
  "resolve_visibility_loop resolved [] = resolved"
| "resolve_visibility_loop resolved (mode # modes) =
     (if mode = FORCE_PRIVATE then mode
      else resolve_visibility_loop (if mode = FORCE_PUBLIC then mode else resolved) modes)"

definition resolve_visibility_mode :: "visibility_mode list \<Rightarrow> visibility_mode" where
  "resolve_visibility_mode modes = resolve_visibility_loop AUTO modes"

definition file_of_meme :: "db \<Rightarrow> uuid \<Rightarrow> uuid \<Rightarrow> bool" where
  "file_of_meme d m f = list_ex (\<lambda>file. mf_id file = f \<and> mf_meme_id file = m) (db_files d)"

definition meme_has_public_crawler_source :: "db \<Rightarrow> uuid \<Rightarrow> bool" where
  "meme_has_public_crawler_source d m =
     list_ex (\<lambda>s. file_of_meme d m (ms_file s) \<and> ms_source_kind s = PUBLIC_CRAWLER) (db_sources d)"

definition refresh_effective_visibility :: "db \<Rightarrow> ingest_source_kind option \<Rightarrow> meme \<Rightarrow> meme" where
  "refresh_effective_visibility d incoming m =
     (if me_visibility_mode m = FORCE_PRIVATE then m\<lparr>me_is_public := False\<rparr>
      else if me_visibility_mode m = FORCE_PUBLIC \<or> incoming = Some PUBLIC_CRAWLER
        then m\<lparr>me_is_public := True\<rparr>
      else m\<lparr>me_is_public := meme_has_public_crawler_source d (me_id m)\<rparr>)"

definition load_meme_uploader_user_ids :: "db \<Rightarrow> uuid \<Rightarrow> uuid list" where
  "load_meme_uploader_user_ids d m =
     sort (remdups (List.map_filter
       (\<lambda>s. if file_of_meme d m (ms_file s) then ms_uploader s else None) (db_sources d)))"

definition load_approximate_merge_scope :: "db \<Rightarrow> meme \<Rightarrow> merge_scope" where
  "load_approximate_merge_scope d m =
     (if me_is_public m then \<lparr>sc_is_public = True, sc_uploader = None\<rparr>
      else (case load_meme_uploader_user_ids d (me_id m) of
              [u] \<Rightarrow> \<lparr>sc_is_public = False, sc_uploader = Some u\<rparr>
            | _ \<Rightarrow> \<lparr>sc_is_public = False, sc_uploader = None\<rparr>))"

definition incoming_approximate_merge_scope :: "ingest_source_kind \<Rightarrow> uuid option \<Rightarrow> merge_scope" where
  "incoming_approximate_merge_scope k uploader =
     (let is_public = initial_visibility_for_source k
      in \<lparr>sc_is_public = is_public, sc_uploader = (if is_public then None else uploader)\<rparr>)"

section \<open>Selecting the merge target\<close>

record similarity_match =
  sm_meme :: uuid
  sm_file :: uuid
  sm_score :: rat

record merge_outcome =
  mo_merged :: bool
  mo_target_meme :: uuid
  mo_source_meme :: "uuid option"
  mo_similarity :: "rat option"
  mo_primary_file :: uuid

definition auto_merge_allowed :: "db \<Rightarrow> meme \<Rightarrow> meme \<Rightarrow> bool" where
  "auto_merge_allowed d source target =
     (let source_scope = load_approximate_merge_scope d source;
          target_scope = load_approximate_merge_scope d target
      in if sc_is_public source_scope \<or> sc_is_public target_scope
         then sc_is_public source_scope \<and> sc_is_public target_scope
         else sc_uploader source_scope \<noteq> None \<and> sc_uploader source_scope = sc_uploader target_scope)"

fun first_merge_target :: "db \<Rightarrow> meme \<Rightarrow> similarity_match list \<Rightarrow> (meme \<times> rat) option" where
  "first_merge_target d current [] = None"
| "first_merge_target d current (x # xs) =
     (case get_meme d (sm_meme x) of
        None \<Rightarrow> first_merge_target d current xs
      | Some target \<Rightarrow>
          if me_created_at target \<ge> me_created_at current then first_merge_target d current xs
          else if \<not> auto_merge_allowed d current target then first_merge_target d current xs
          else Some (target, sm_score x))"

definition select_merge_target ::
  "env \<Rightarrow> db \<Rightarrow> meme_file \<Rightarrow> similarity_match list \<Rightarrow> meme \<Rightarrow> (meme \<times> rat) option" where
  "select_merge_target env d file xs current =
     first_merge_target d current
       (sort_key (\<lambda>x. - sm_score x)
         (filter (\<lambda>x. sm_score x > env_similarity_threshold env \<and> sm_meme x \<noteq> mf_meme_id file \<and>
                      sm_file x \<noteq> mf_id file) xs))"

section \<open>Applying a merge\<close>

definition move_file :: "uuid \<Rightarrow> uuid \<Rightarrow> meme_file \<Rightarrow> meme_file" where
  "move_file source target f = (if mf_meme_id f = source then f\<lparr>mf_meme_id := target\<rparr> else f)"

definition transfer_meme_files :: "uuid \<Rightarrow> uuid \<Rightarrow> db \<Rightarrow> uuid list \<times> db" where
  "transfer_meme_files source target d =
     (map mf_id (filter (\<lambda>f. mf_meme_id f = source) (db_files d)),
      d\<lparr>db_files := map (move_file source target) (db_files d)\<rparr>)"

definition transfer_collection_memberships :: "uuid \<Rightarrow> uuid \<Rightarrow> db \<Rightarrow> db" where
  "transfer_collection_memberships source target d =
     (let with_target = map fst (filter (\<lambda>(c, m). m = target) (db_collection_memes d))
      in d\<lparr>db_collection_memes :=
             List.map_filter
               (\<lambda>(c, m). if m = source
                         then (if c \<in> set with_target then None else Some (c, target))
                         else Some (c, m)) (db_collection_memes d)\<rparr>)"

definition transfer_pins :: "uuid \<Rightarrow> uuid \<Rightarrow> db \<Rightarrow> db" where
  "transfer_pins source target d =
     (let with_target = map pn_user (filter (\<lambda>p. pn_meme p = target) (db_pins d))
      in d\<lparr>db_pins :=
             List.map_filter
               (\<lambda>p. if pn_meme p = source
                    then (if pn_user p \<in> set with_target then None else Some (p\<lparr>pn_meme := target\<rparr>))
                    else Some p) (db_pins d)\<rparr>)"

definition delete_meme :: "uuid \<Rightarrow> db \<Rightarrow> db" where
  "delete_meme m d = d\<lparr>db_memes := filter (\<lambda>r. me_id r \<noteq> m) (db_memes d)\<rparr>"

definition best_file_of_meme :: "db \<Rightarrow> uuid \<Rightarrow> meme_file option" where
  "best_file_of_meme d m =
     max_by (\<lambda>f. (mf_quality_score f, mf_created_at f, mf_id f))
       (filter (\<lambda>f. mf_meme_id f = m) (db_files d))"

definition reselect_primary_file :: "uuid \<Rightarrow> db \<Rightarrow> pipeline_error + (uuid \<times> db)" where
  "reselect_primary_file m d =
     (case best_file_of_meme d m of
        None \<Rightarrow> Inl (PipelineIngestError NoFilesForPrimary)
      | Some f \<Rightarrow>
          Inr (mf_id f,
               (case get_meme d m of
                  None \<Rightarrow> d | Some row \<Rightarrow> put_meme (row\<lparr>me_primary_file := mf_id f\<rparr>) d)))"

definition apply_merge ::
  "meme \<Rightarrow> uuid option \<Rightarrow> meme \<Rightarrow> rat option \<Rightarrow> text_value \<Rightarrow> db \<Rightarrow> pipeline_error + (merge_outcome \<times> db)" where
  "apply_merge source source_file target similarity reason d =
     (let target1 = target\<lparr>me_visibility_mode :=
                       resolve_visibility_mode [me_visibility_mode target, me_visibility_mode source]\<rparr>;
          (moved, d1) = transfer_meme_files (me_id source) (me_id target) d;
          d2 = transfer_collection_memberships (me_id source) (me_id target) d1;
          d3 = transfer_pins (me_id source) (me_id target) d2;
          target2 = target1\<lparr>me_like_count := me_like_count target1 + me_like_count source\<rparr>;
          target3 = refresh_effective_visibility d3 None target2;
          d4 = delete_meme (me_id source) (put_meme target3 d3)
      in case reselect_primary_file (me_id target) d4 of
           Inl e \<Rightarrow> Inl e
         | Inr (primary, d5) \<Rightarrow>
             Inr (\<lparr>mo_merged = True, mo_target_meme = me_id target, mo_source_meme = Some (me_id source),
                   mo_similarity = similarity, mo_primary_file = primary\<rparr>,
                  d5\<lparr>db_merge_log := db_merge_log d5 @
                       [\<lparr>ml_source_meme = me_id source, ml_source_file = source_file,
                         ml_target_meme = me_id target, ml_target_primary = primary,
                         ml_similarity = similarity, ml_reason = reason,
                         ml_moved_files = moved\<rparr>]\<rparr>))"

definition maybe_merge_after_embed ::
  "env \<Rightarrow> meme_file \<Rightarrow> similarity_match list \<Rightarrow> db \<Rightarrow> pipeline_error + (merge_outcome \<times> db)" where
  "maybe_merge_after_embed env file xs d =
     (case get_meme d (mf_meme_id file) of
        None \<Rightarrow> Inl (PipelineIngestError MemeDisappeared)
      | Some initial \<Rightarrow>
          (case select_merge_target env d file xs initial of
             None \<Rightarrow>
               Inr (\<lparr>mo_merged = False, mo_target_meme = mf_meme_id file, mo_source_meme = None,
                     mo_similarity = None, mo_primary_file = me_primary_file initial\<rparr>, d)
           | Some (target, score) \<Rightarrow>
               apply_merge initial (Some (mf_id file)) target (Some score) ''high_similarity_match'' d))"

text \<open>\<open>merge_memes_for_admin\<close>; the audit details of the request join the log row in the code.\<close>

definition merge_memes_for_admin :: "meme \<Rightarrow> meme \<Rightarrow> db \<Rightarrow> pipeline_error + (merge_outcome \<times> db)" where
  "merge_memes_for_admin source target d =
     apply_merge source (Some (me_primary_file source)) target None ''admin_destructive_merge'' d"

section \<open>Lemmas\<close>

lemma resolve_visibility_loop_value:
  "resolve_visibility_loop r modes =
     (if FORCE_PRIVATE \<in> set modes then FORCE_PRIVATE
      else if FORCE_PUBLIC \<in> set modes then FORCE_PUBLIC else r)"
  by (induction modes arbitrary: r) auto

lemma first_merge_target_Some:
  assumes "first_merge_target d current xs = Some (t, sc)"
  shows "\<exists>ys x zs. xs = ys @ x # zs \<and> get_meme d (sm_meme x) = Some t \<and> sc = sm_score x \<and>
      me_created_at t < me_created_at current \<and> auto_merge_allowed d current t \<and>
      (\<forall>y\<in>set ys. \<forall>u. get_meme d (sm_meme y) = Some u \<longrightarrow>
         \<not> (me_created_at u < me_created_at current \<and> auto_merge_allowed d current u))"
  using assms
proof (induction xs)
  case Nil
  then show ?case by simp
next
  case (Cons a xs)
  show ?case
  proof (cases "first_merge_target d current (a # xs) = first_merge_target d current xs")
    case True
    with Cons.prems Cons.IH obtain ys x zs where s: "xs = ys @ x # zs"
      and x: "get_meme d (sm_meme x) = Some t \<and> sc = sm_score x \<and>
        me_created_at t < me_created_at current \<and> auto_merge_allowed d current t"
      and ys: "\<forall>y\<in>set ys. \<forall>u. get_meme d (sm_meme y) = Some u \<longrightarrow>
         \<not> (me_created_at u < me_created_at current \<and> auto_merge_allowed d current u)"
      by auto
    show ?thesis
    proof (cases "\<exists>u. get_meme d (sm_meme a) = Some u \<and> me_created_at u < me_created_at current \<and>
        auto_merge_allowed d current u")
      case True
      with Cons.prems have "get_meme d (sm_meme a) = Some t \<and> sc = sm_score a \<and>
          me_created_at t < me_created_at current \<and> auto_merge_allowed d current t"
        by (auto split: option.splits if_splits)
      then show ?thesis by (intro exI [of _ "[]"] exI [of _ a] exI [of _ xs]) simp
    next
      case False
      with s x ys show ?thesis by (intro exI [of _ "a # ys"] exI [of _ x] exI [of _ zs]) auto
    qed
  next
    case False
    with Cons.prems have "get_meme d (sm_meme a) = Some t \<and> sc = sm_score a \<and>
        me_created_at t < me_created_at current \<and> auto_merge_allowed d current t"
      by (auto split: option.splits if_splits)
    then show ?thesis by (intro exI [of _ "[]"] exI [of _ a] exI [of _ xs]) simp
  qed
qed

lemma auto_merge_allowed_scopes:
  "auto_merge_allowed d a b \<longleftrightarrow>
     (me_is_public a \<and> me_is_public b) \<or>
     (\<not> me_is_public a \<and> \<not> me_is_public b \<and>
      (\<exists>u. load_meme_uploader_user_ids d (me_id a) = [u] \<and> load_meme_uploader_user_ids d (me_id b) = [u]))"
proof -
  have sc: "load_approximate_merge_scope d m =
      \<lparr>sc_is_public = me_is_public m,
       sc_uploader = (if me_is_public m then None
         else case load_meme_uploader_user_ids d (me_id m) of [u] \<Rightarrow> Some u | _ \<Rightarrow> None)\<rparr>" for m
    by (auto simp: load_approximate_merge_scope_def split: list.splits)
  show ?thesis
    by (auto simp: auto_merge_allowed_def sc Let_def split: list.splits)
qed

lemma move_file_simps [simp]:
  "mf_id (move_file s t f) = mf_id f"
  "mf_meme_id (move_file s t f) = (if mf_meme_id f = s then t else mf_meme_id f)"
  by (simp_all add: move_file_def)


lemma transfer_meme_files_simps [simp]:
  "db_memes (snd (transfer_meme_files s t d)) = db_memes d"
  "db_sources (snd (transfer_meme_files s t d)) = db_sources d"
  "db_collection_memes (snd (transfer_meme_files s t d)) = db_collection_memes d"
  "db_pins (snd (transfer_meme_files s t d)) = db_pins d"
  "map mf_id (db_files (snd (transfer_meme_files s t d))) = map mf_id (db_files d)"
  by (simp_all add: transfer_meme_files_def)

lemma transfer_memberships_simps [simp]:
  "db_memes (transfer_collection_memberships s t d) = db_memes d"
  "db_files (transfer_collection_memberships s t d) = db_files d"
  "db_sources (transfer_collection_memberships s t d) = db_sources d"
  "db_pins (transfer_collection_memberships s t d) = db_pins d"
  by (simp_all add: transfer_collection_memberships_def Let_def)

lemma transfer_pins_simps [simp]:
  "db_memes (transfer_pins s t d) = db_memes d"
  "db_files (transfer_pins s t d) = db_files d"
  "db_sources (transfer_pins s t d) = db_sources d"
  "db_collection_memes (transfer_pins s t d) = db_collection_memes d"
  by (simp_all add: transfer_pins_def Let_def)




lemma reselect_primary_Inr:
  assumes "reselect_primary_file m d = Inr (p, d')"
  obtains f where "f \<in> set (db_files d)" "mf_meme_id f = m" "mf_id f = p"
    "\<forall>g\<in>set (db_files d). mf_meme_id g = m \<longrightarrow>
       (mf_quality_score g, mf_created_at g, mf_id g) \<le> (mf_quality_score f, mf_created_at f, mf_id f)"
    "d' = (case get_meme d m of None \<Rightarrow> d | Some row \<Rightarrow> put_meme (row\<lparr>me_primary_file := p\<rparr>) d)"
proof -
  obtain f where f: "best_file_of_meme d m = Some f" and
    r: "p = mf_id f" "d' = (case get_meme d m of None \<Rightarrow> d | Some row \<Rightarrow> put_meme (row\<lparr>me_primary_file := mf_id f\<rparr>) d)"
    using assms by (auto simp: reselect_primary_file_def split: option.splits)
  show thesis
    using max_by_mem [OF f [unfolded best_file_of_meme_def]]
      max_by_ge [OF f [unfolded best_file_of_meme_def]] r
    by (intro that [of f]) auto
qed

lemma list_ex_map: "list_ex P (map g xs) \<longleftrightarrow> list_ex (\<lambda>x. P (g x)) xs"
  by (induction xs) auto

lemma apply_merge_succeeds:
  assumes "f \<in> set (db_files d)" "mf_meme_id f = me_id target"
  shows "\<exists>out d'. apply_merge source source_file target sim reason d = Inr (out, d')"
proof -
  define d3 where "d3 = transfer_pins (me_id source) (me_id target)
        (transfer_collection_memberships (me_id source) (me_id target)
          (snd (transfer_meme_files (me_id source) (me_id target) d)))"
  define d4 where "d4 = delete_meme (me_id source) (put_meme (refresh_effective_visibility d3 None
        (target\<lparr>me_visibility_mode :=
                  resolve_visibility_mode [me_visibility_mode target, me_visibility_mode source],
                me_like_count := me_like_count target + me_like_count source\<rparr>)) d3)"
  have "move_file (me_id source) (me_id target) f \<in> set (db_files d4)"
    using assms(1)
    by (simp add: d4_def delete_meme_def put_meme_def d3_def transfer_meme_files_def)
  then have "best_file_of_meme d4 (me_id target) \<noteq> None"
    using assms(2)
    by (auto simp: best_file_of_meme_def filter_empty_conv
        intro!: bexI [of _ "move_file (me_id source) (me_id target) f"])
  then obtain p d5 where "reselect_primary_file (me_id target) d4 = Inr (p, d5)"
    by (auto simp: reselect_primary_file_def)
  then show ?thesis
    by (simp add: apply_merge_def Let_def case_prod_beta d3_def d4_def)
qed

lemma apply_merge_Inr:
  assumes merge: "apply_merge source source_file target sim reason d = Inr (out, d')"
    and ids: "me_id source \<noteq> me_id target"
  shows "\<exists>d3 t3 f. db_files d' = db_files d3 \<and> db_collection_memes d' = db_collection_memes d3 \<and>
      db_pins d' = db_pins d3 \<and>
      d3 = transfer_pins (me_id source) (me_id target)
        (transfer_collection_memberships (me_id source) (me_id target)
          (snd (transfer_meme_files (me_id source) (me_id target) d))) \<and>
      t3 = refresh_effective_visibility d3 None
        (target\<lparr>me_visibility_mode :=
                  resolve_visibility_mode [me_visibility_mode target, me_visibility_mode source],
                me_like_count := me_like_count target + me_like_count source\<rparr>) \<and>
      get_meme d' (me_id target) = Some (t3\<lparr>me_primary_file := mo_primary_file out\<rparr>) \<and>
      get_meme d' (me_id source) = None \<and>
      f \<in> set (db_files d') \<and> mf_meme_id f = me_id target \<and> mf_id f = mo_primary_file out \<and>
      (\<forall>g\<in>set (db_files d'). mf_meme_id g = me_id target \<longrightarrow>
         (mf_quality_score g, mf_created_at g, mf_id g) \<le> (mf_quality_score f, mf_created_at f, mf_id f))"
proof -
  define d3 where "d3 = transfer_pins (me_id source) (me_id target)
        (transfer_collection_memberships (me_id source) (me_id target)
          (snd (transfer_meme_files (me_id source) (me_id target) d)))"
  define t3 where "t3 = refresh_effective_visibility d3 None
        (target\<lparr>me_visibility_mode :=
                  resolve_visibility_mode [me_visibility_mode target, me_visibility_mode source],
                me_like_count := me_like_count target + me_like_count source\<rparr>)"
  have t3id: "me_id t3 = me_id target"
    by (simp add: t3_def refresh_effective_visibility_def)
  define d4 where "d4 = delete_meme (me_id source) (put_meme t3 d3)"
  obtain p d5 where sel: "reselect_primary_file (me_id target) d4 = Inr (p, d5)"
    using merge
    by (cases "reselect_primary_file (me_id target) d4")
      (auto simp: apply_merge_def Let_def case_prod_beta d3_def t3_def d4_def)
  have res: "mo_primary_file out = p" "db_files d' = db_files d5"
      "db_collection_memes d' = db_collection_memes d5" "db_pins d' = db_pins d5" "db_memes d' = db_memes d5"
    using merge sel
    by (auto simp: apply_merge_def Let_def case_prod_beta d3_def t3_def d4_def)
  have find4: "get_meme d4 k = (if k = me_id source then None else if k = me_id target then Some t3 else get_meme d k)" for k
  proof -
    have "row_get me_id k (filter (\<lambda>r. me_id r \<noteq> me_id source) ms) =
        (if k = me_id source then None else row_get me_id k ms)" for ms :: "meme list"
      by (induction ms) auto
    then show ?thesis
      using ids by (auto simp: d4_def delete_meme_def get_meme_def put_meme_def t3id d3_def)
  qed
  have same: "db_files d4 = db_files d3" "db_collection_memes d4 = db_collection_memes d3" "db_pins d4 = db_pins d3"
    by (simp_all add: d4_def delete_meme_def put_meme_def)
  from sel obtain f where f: "f \<in> set (db_files d4)" "mf_meme_id f = me_id target" "mf_id f = p"
      "\<forall>g\<in>set (db_files d4). mf_meme_id g = me_id target \<longrightarrow>
       (mf_quality_score g, mf_created_at g, mf_id g) \<le> (mf_quality_score f, mf_created_at f, mf_id f)"
    and d5: "d5 = put_meme (t3\<lparr>me_primary_file := p\<rparr>) d4"
    by (elim reselect_primary_Inr) (use ids in \<open>simp add: find4\<close>)
  have memes: "get_meme d' k = get_meme d5 k" for k
    using res by (simp add: get_meme_def)
  have "get_meme d' (me_id target) = Some (t3\<lparr>me_primary_file := p\<rparr>)"
    using memes d5 by (simp add: row_simps t3id)
  moreover have "get_meme d' (me_id source) = None"
    using memes d5 ids by (simp add: row_simps t3id find4)
  moreover have "db_files d5 = db_files d4" "db_collection_memes d5 = db_collection_memes d4" "db_pins d5 = db_pins d4"
    by (simp_all add: d5 put_meme_def)
  ultimately show ?thesis
    using f res same by (intro exI [of _ d3] exI [of _ t3] exI [of _ f]) (simp add: d3_def t3_def)
qed

section \<open>Properties\<close>

text \<open>
  The resolved visibility mode is the strongest override present, whatever the order and number
  of the modes: a private override is never weakened, a public one only yields to it.
\<close>

theorem resolve_visibility_strongest:
  "resolve_visibility_mode modes =
     (if FORCE_PRIVATE \<in> set modes then FORCE_PRIVATE
      else if FORCE_PUBLIC \<in> set modes then FORCE_PUBLIC else AUTO)"
  by (simp add: resolve_visibility_mode_def resolve_visibility_loop_value)

text \<open>
  An automatic merge target is a strictly older meme, matched above the threshold, on the same
  side of the visibility boundary (both public, or both private with the same single uploader), and
  no acceptable match has a higher score.
\<close>

theorem select_merge_target_sound:
  assumes "select_merge_target env d file xs current = Some (t, score)"
  shows "me_created_at t < me_created_at current \<and> score > env_similarity_threshold env \<and>
    (\<exists>x\<in>set xs. sm_score x = score \<and> get_meme d (sm_meme x) = Some t \<and>
       sm_meme x \<noteq> mf_meme_id file \<and> sm_file x \<noteq> mf_id file) \<and>
    (me_is_public current \<and> me_is_public t \<or>
     \<not> me_is_public current \<and> \<not> me_is_public t \<and>
       (\<exists>u. load_meme_uploader_user_ids d (me_id current) = [u] \<and>
            load_meme_uploader_user_ids d (me_id t) = [u])) \<and>
    (\<forall>y\<in>set xs. \<forall>u. sm_meme y \<noteq> mf_meme_id file \<longrightarrow> sm_file y \<noteq> mf_id file \<longrightarrow>
       get_meme d (sm_meme y) = Some u \<longrightarrow> me_created_at u < me_created_at current \<longrightarrow>
       auto_merge_allowed d current u \<longrightarrow> sm_score y \<le> max score (env_similarity_threshold env))"
proof -
  let ?P = "\<lambda>x. sm_score x > env_similarity_threshold env \<and> sm_meme x \<noteq> mf_meme_id file \<and>
      sm_file x \<noteq> mf_id file"
  let ?s = "sort_key (\<lambda>x. - sm_score x) (filter ?P xs)"
  obtain ys x zs where split: "?s = ys @ x # zs" and x: "get_meme d (sm_meme x) = Some t"
      "score = sm_score x" "me_created_at t < me_created_at current" "auto_merge_allowed d current t"
    and ys: "\<forall>y\<in>set ys. \<forall>u. get_meme d (sm_meme y) = Some u \<longrightarrow>
         \<not> (me_created_at u < me_created_at current \<and> auto_merge_allowed d current u)"
    using first_merge_target_Some [OF assms [unfolded select_merge_target_def]] by blast
  have mem: "x \<in> set (filter ?P xs)"
  proof -
    have "x \<in> set ?s" unfolding split by simp
    then show ?thesis by (simp only: set_sort)
  qed
  have "sorted (map (\<lambda>x. - sm_score x) ?s)" by simp
  then have later: "sm_score z \<le> score" if "z \<in> set zs" for z
    using that x(2) by (simp add: split sorted_append)
  have best: "sm_score y \<le> max score (env_similarity_threshold env)"
    if "y \<in> set xs" "sm_meme y \<noteq> mf_meme_id file" "sm_file y \<noteq> mf_id file"
      "get_meme d (sm_meme y) = Some u" "me_created_at u < me_created_at current"
      "auto_merge_allowed d current u" for y u
  proof (cases "?P y")
    case True
    with that have "y \<in> set ?s" by simp
    with split that ys have "y = x \<or> y \<in> set zs" by auto
    with x later have "sm_score y \<le> score" by auto
    then show ?thesis by (simp add: le_max_iff_disj)
  next
    case False
    with that show ?thesis by auto
  qed
  have match: "\<exists>x\<in>set xs. sm_score x = score \<and> get_meme d (sm_meme x) = Some t \<and>
       sm_meme x \<noteq> mf_meme_id file \<and> sm_file x \<noteq> mf_id file"
    using mem x(1,2) by (intro bexI [of _ x]) simp_all
  have above: "score > env_similarity_threshold env" using mem x(2) by simp
  show ?thesis
    using best by (intro conjI x(3) above match x(4) [unfolded auto_merge_allowed_scopes] ballI allI impI)
qed

definition sample_old_meme :: meme where
  "sample_old_meme = sample_meme\<lparr>me_id := 8, me_created_at := 5, me_primary_file := 2, me_is_public := True\<rparr>"

definition sample_new_meme :: meme where
  "sample_new_meme = sample_meme\<lparr>me_is_public := True, me_like_count := 3\<rparr>"

definition sample_merge_db :: db where
  "sample_merge_db = empty_db
     \<lparr>db_memes := [sample_old_meme, sample_new_meme],
      db_files := [sample_file, sample_file\<lparr>mf_id := 2, mf_meme_id := 8, mf_quality_score := 1\<rparr>],
      db_collection_memes := [(30, 7), (31, 7), (31, 8)]\<rparr>"

definition sample_match :: similarity_match where
  "sample_match = \<lparr>sm_meme = 8, sm_file = 2, sm_score = 95 / 100\<rparr>"

lemma sample_select:
  "select_merge_target sample_env sample_merge_db sample_file [sample_match] sample_new_meme =
     Some (sample_old_meme, 95 / 100)"
  by (simp add: select_merge_target_def sample_match_def sample_env_def sample_file_def get_meme_def
      sample_merge_db_def sample_old_meme_def sample_new_meme_def sample_meme_def auto_merge_allowed_scopes)

theorem select_merge_target_sound_witness:
  "me_created_at sample_old_meme < me_created_at sample_new_meme \<and>
     (95 / 100 :: rat) > env_similarity_threshold sample_env"
  using select_merge_target_sound [OF sample_select] by blast


lemma sample_apply:
  "\<exists>out d'. apply_merge sample_new_meme (Some 1) sample_old_meme (Some (95 / 100)) ''high_similarity_match''
     sample_merge_db = Inr (out, d')"
  by (rule apply_merge_succeeds [of "sample_file\<lparr>mf_id := 2, mf_meme_id := 8, mf_quality_score := 1\<rparr>"])
    (simp_all add: sample_merge_db_def sample_old_meme_def)

lemma sample_ids: "me_id sample_new_meme \<noteq> me_id sample_old_meme"
  by (simp add: sample_new_meme_def sample_old_meme_def sample_meme_def)


text \<open>
  The merged meme carries the sum of both like counts and the stronger visibility override; it
  is never public under a private override of either meme, and without overrides it is public exactly
  when some file of either meme has a public crawler source.
\<close>

theorem apply_merge_target_truth:
  assumes "apply_merge source source_file target sim reason d = Inr (out, d')"
    and "me_id source \<noteq> me_id target"
  shows "\<exists>t. get_meme d' (me_id target) = Some t \<and>
    me_like_count t = me_like_count target + me_like_count source \<and>
    me_visibility_mode t = resolve_visibility_mode [me_visibility_mode target, me_visibility_mode source] \<and>
    (FORCE_PRIVATE \<in> {me_visibility_mode target, me_visibility_mode source} \<longrightarrow> \<not> me_is_public t) \<and>
    (me_visibility_mode target = AUTO \<and> me_visibility_mode source = AUTO \<longrightarrow>
       (me_is_public t \<longleftrightarrow>
          meme_has_public_crawler_source d (me_id source) \<or> meme_has_public_crawler_source d (me_id target)))"
proof -
  obtain d3 t3 where d3: "d3 = transfer_pins (me_id source) (me_id target)
        (transfer_collection_memberships (me_id source) (me_id target)
          (snd (transfer_meme_files (me_id source) (me_id target) d)))"
    and t3: "t3 = refresh_effective_visibility d3 None
        (target\<lparr>me_visibility_mode :=
                  resolve_visibility_mode [me_visibility_mode target, me_visibility_mode source],
                me_like_count := me_like_count target + me_like_count source\<rparr>)"
    and get: "get_meme d' (me_id target) = Some (t3\<lparr>me_primary_file := mo_primary_file out\<rparr>)"
    using apply_merge_Inr [OF assms] by blast
  have f: "file_of_meme d3 (me_id target) x \<longleftrightarrow>
      file_of_meme d (me_id source) x \<or> file_of_meme d (me_id target) x" for x
    by (auto simp: file_of_meme_def d3 transfer_meme_files_def list_ex_map list_ex_iff)
  have crawler: "meme_has_public_crawler_source d3 (me_id target) \<longleftrightarrow>
      meme_has_public_crawler_source d (me_id source) \<or> meme_has_public_crawler_source d (me_id target)"
  proof -
    have "db_sources d3 = db_sources d" by (simp add: d3)
    then show ?thesis by (auto simp: meme_has_public_crawler_source_def f list_ex_iff)
  qed
  show ?thesis
    using get crawler
    by (auto simp: t3 refresh_effective_visibility_def resolve_visibility_mode_def resolve_visibility_loop_value)
qed

theorem apply_merge_target_truth_witness:
  "\<exists>out d' t. apply_merge sample_new_meme (Some 1) sample_old_meme (Some (95 / 100)) ''high_similarity_match''
     sample_merge_db = Inr (out, d') \<and> get_meme d' 8 = Some t \<and> me_like_count t = 3"
proof -
  obtain out d' where m: "apply_merge sample_new_meme (Some 1) sample_old_meme (Some (95 / 100))
      ''high_similarity_match'' sample_merge_db = Inr (out, d')"
    using sample_apply by blast
  with apply_merge_target_truth [OF m sample_ids] show ?thesis
    by (auto simp: sample_old_meme_def sample_new_meme_def sample_meme_def)
qed

end
