(* ===== verification/Media_Generation.thy ===== *)
theory Media_Generation
  imports Pipeline_State
begin

text \<open>
  Immutable derivative generations of moving media: their object keys (\<open>core/storage.py\<close>) and the
  durable state machine of \<open>services/media_generation.py\<close> up to activation, with the fenced cleanup
  and the garbage collector. The object store is a function that says whether deleting a key fails,
  and with which error. Between the transactions of a cleanup other sessions may commit; \<open>others\<close> is
  the database they leave.
\<close>

section \<open>Object keys\<close>

definition strip_prefix :: "text_value \<Rightarrow> text_value \<Rightarrow> text_value option" where
  "strip_prefix p s = (if take (length p) s = p then Some (drop (length p) s) else None)"

definition strip_slashes :: "text_value \<Rightarrow> text_value" where
  "strip_slashes s =
     rev (dropWhile (\<lambda>c. c = CHR ''/'') (rev (dropWhile (\<lambda>c. c = CHR ''/'') s)))"

definition build_web_video_generation_object_key :: "text_value \<Rightarrow> uuid \<Rightarrow> uuid \<Rightarrow> text_value" where
  "build_web_video_generation_object_key prefix f g =
     prefix @ ''/'' @ uuid_text f @ ''/generations/'' @ uuid_text g @ ''/web.mp4''"

definition build_preview_image_generation_object_key :: "text_value \<Rightarrow> uuid \<Rightarrow> uuid \<Rightarrow> text_value" where
  "build_preview_image_generation_object_key prefix f g =
     prefix @ ''/'' @ uuid_text f @ ''/generations/'' @ uuid_text g @ ''/preview.png''"

text \<open>A group \<open>[0-9a-fA-F-]{36}\<close> at the head of a text, and the text behind it.\<close>

definition take_uuid_group :: "text_value \<Rightarrow> (text_value \<times> text_value) option" where
  "take_uuid_group s =
     (let grp = take 36 s
      in if length grp = 36 \<and> (\<forall>c\<in>set grp. hex_value c \<noteq> None \<or> c = CHR ''-'')
         then Some (grp, drop 36 s) else None)"

definition parse_media_generation_object_key ::
  "text_value \<Rightarrow> text_value \<Rightarrow> (uuid \<times> uuid \<times> text_value) option" where
  "parse_media_generation_object_key prefix object_key =
     (case strip_prefix (prefix @ ''/'') (strip_slashes (py_strip object_key)) of
        None \<Rightarrow> None
      | Some r1 \<Rightarrow>
     (case take_uuid_group r1 of
        None \<Rightarrow> None
      | Some (file_text, r2) \<Rightarrow>
     (case strip_prefix ''/generations/'' r2 of
        None \<Rightarrow> None
      | Some r3 \<Rightarrow>
     (case take_uuid_group r3 of
        None \<Rightarrow> None
      | Some (generation_text, r4) \<Rightarrow>
     (case strip_prefix ''/'' r4 of
        None \<Rightarrow> None
      | Some artifact \<Rightarrow>
          if artifact \<notin> {''web.mp4'', ''preview.png''} then None
          else (case (uuid_read file_text, uuid_read generation_text) of
                  (Some f, Some g) \<Rightarrow> Some (f, g, artifact)
                | _ \<Rightarrow> None))))))"

section \<open>Results and snapshots\<close>

definition WEB_VIDEO_PROFILE_ID :: text_value where
  "WEB_VIDEO_PROFILE_ID = ''web-h264-aac-1080p30-v2''"

definition SUPPORTED_MOVING_MEDIA_MIME_TYPES :: "text_value list" where
  "SUPPORTED_MOVING_MEDIA_MIME_TYPES = [''image/gif'', ''video/mp4'', ''video/quicktime'', ''video/webm'']"

record normalized_media =
  nm_quality_score :: rat
  nm_blur_hash :: "text_value option"
  nm_preview_key :: "text_value option"
  nm_web_video_key :: "text_value option"
  nm_generation_id :: "uuid option"
  nm_web_video_profile :: "text_value option"
  nm_source_has_audio :: "bool option"
  nm_web_video_has_audio :: "bool option"
  nm_source_observations :: "media_probe option"
  nm_output_observations :: "media_probe option"
  nm_web_video_verified_at :: "time option"

definition display_width :: "video_stream \<Rightarrow> int option" where
  "display_width v =
     (if vs_width v = None \<or> vs_height v = None then None
      else if vs_rotation_degrees v mod 180 \<noteq> 0 then vs_height v else vs_width v)"

definition display_height :: "video_stream \<Rightarrow> int option" where
  "display_height v =
     (if vs_width v = None \<or> vs_height v = None then None
      else if vs_rotation_degrees v mod 180 \<noteq> 0 then vs_width v else vs_height v)"

definition primary_video :: "media_probe \<Rightarrow> video_stream option" where
  "primary_video p = (case mp_video_streams p of [] \<Rightarrow> None | v # _ \<Rightarrow> Some v)"

definition opt_time_json :: "time option \<Rightarrow> jval" where
  "opt_time_json t = (case t of None \<Rightarrow> JNull | Some x \<Rightarrow> JTime x)"

definition opt_text_json :: "text_value option \<Rightarrow> jval" where
  "opt_text_json t = (case t of None \<Rightarrow> JNull | Some x \<Rightarrow> JText x)"

definition stage_snapshot_json :: "stage_journal \<Rightarrow> json_object" where
  "stage_snapshot_json e = map_of
     [(''status'', JText (stage_status_value (sj_status e))),
      (''attempt_count'', JInt (sj_attempt_count e)),
      (''last_event_id'', (case sj_last_event_id e of None \<Rightarrow> JNull | Some u \<Rightarrow> JUuid u)),
      (''normalized_reason'', opt_text_json (sj_normalized_reason e)),
      (''last_error_text'', opt_text_json (sj_last_error_text e)),
      (''is_retryable'', JBool (sj_is_retryable e)),
      (''retry_after'', opt_time_json (sj_retry_after e)),
      (''started_at'', opt_time_json (sj_started_at e)),
      (''finished_at'', opt_time_json (sj_finished_at e))]"

section \<open>Reserving a generation\<close>

definition unfinished_statuses :: "generation_status list" where
  "unfinished_statuses = [GENERATING, VERIFIED, UPLOADED, GEN_FAILED, STALE]"

definition latest_generation :: "db \<Rightarrow> uuid \<Rightarrow> recovery_item option \<Rightarrow> media_generation option" where
  "latest_generation d f item =
     max_by (\<lambda>g. (mg_created_at g, mg_id g))
       (filter
         (\<lambda>g. (case item of
                 Some i \<Rightarrow> mg_recovery_item g = Some (ri_id i)
               | None \<Rightarrow> mg_file g = Some f \<and> mg_recovery_item g = None) \<and>
              mg_status g \<in> set unfinished_statuses) (db_generations d))"

definition supersede_by_retry :: "media_generation \<Rightarrow> media_generation" where
  "supersede_by_retry g =
     (if mg_status g \<in> {GENERATING, VERIFIED, UPLOADED}
      then g\<lparr>mg_status := STALE, mg_cleanup_status := CLEANUP_PENDING,
             mg_failure_reason := Some ''superseded_by_retry'',
             mg_failure_text := Some
               ''A newer delivery reserved fresh immutable object keys for this generation attempt.''\<rparr>
      else g)"

definition new_generation ::
  "env \<Rightarrow> meme_file \<Rightarrow> stage_journal \<Rightarrow> text_value option \<Rightarrow> recovery_item option \<Rightarrow> int \<Rightarrow> int \<Rightarrow> media_generation" where
  "new_generation env file entry expected item retry_limit attempts =
     (let gid = env_fresh env 0
      in \<lparr>mg_id = gid, mg_created_at = env_now env, mg_file = Some (mf_id file),
          mg_recovery_item = map_option ri_id item,
          mg_expected_key = expected,
          mg_web_video_key = build_web_video_generation_object_key (env_derivative_prefix env) (mf_id file) gid,
          mg_preview_key = build_preview_image_generation_object_key (env_derivative_prefix env) (mf_id file) gid,
          mg_profile = WEB_VIDEO_PROFILE_ID, mg_retry_limit = retry_limit,
          mg_attempt_count = attempts, mg_status = GENERATING,
          mg_previous_file_status = Some (file_status_value (mf_status file)),
          mg_previous_stage_status = Some (stage_status_value (sj_status entry)),
          mg_previous_observations =
            (case item of Some i \<Rightarrow> ri_previous_stage_state i | None \<Rightarrow> stage_snapshot_json entry),
          mg_metrics = None, mg_failure_reason = None, mg_failure_text = None,
          mg_verified_at = None, mg_uploaded_at = None, mg_activated_at = None,
          mg_superseded_at = None, mg_cleanup_status = NOT_ELIGIBLE, mg_cleanup_attempts = 0,
          mg_cleanup_error = None, mg_cleanup_at = None\<rparr>)"

definition recovery_generation_active :: "db \<Rightarrow> meme_file \<Rightarrow> recovery_item option \<Rightarrow> bool" where
  "recovery_generation_active d file item =
     (case (item, mf_active_generation file) of
        (Some i, Some g) \<Rightarrow>
          (case get_generation d g of
             Some active \<Rightarrow> mg_recovery_item active = Some (ri_id i)
           | None \<Rightarrow> False)
      | _ \<Rightarrow> False)"

definition reserve_generation ::
  "env \<Rightarrow> uuid \<Rightarrow> text_value option \<Rightarrow> uuid option \<Rightarrow> int \<Rightarrow> db \<Rightarrow> media_generation outcome" where
  "reserve_generation env file_id expected recovery_id retry_limit d =
     (case get_file d file_id of
        None \<Rightarrow> (Inl (MediaGenerationConflictError FileMissing), d)
      | Some file \<Rightarrow>
          if mf_s3_web_video_key file \<noteq> expected
          then (Inl (MediaGenerationConflictError PointerChangedBeforeReserve), d)
          else
     (case get_journal d file_id TRANSCODE of
        None \<Rightarrow> (Inl (MediaGenerationConflictError TranscodeRowMissing), d)
      | Some entry \<Rightarrow>
          (let item = Option.bind recovery_id (get_recovery d)
           in if recovery_generation_active d file item
              then (Inl (MediaGenerationConflictError RecoveryAlreadyActive), d)
              else
                (let latest = latest_generation d (mf_id file) item;
                     attempts = (case latest of None \<Rightarrow> 1 | Some g \<Rightarrow> mg_attempt_count g + 1);
                     d1 = (case latest of None \<Rightarrow> d | Some g \<Rightarrow> put_generation (supersede_by_retry g) d);
                     new = new_generation env file entry expected item retry_limit attempts
                 in if (case latest of None \<Rightarrow> False | Some g \<Rightarrow> mg_file g \<noteq> Some (mf_id file))
                    then (Inl (MediaGenerationConflictError PriorGenerationForeign), d)
                    else if env_commit_ok env
                      then (Inr new, d1\<lparr>db_generations := db_generations d1 @ [new]\<rparr>)
                      else (Inl SQLAlchemyError, d)))))"

section \<open>Recording progress\<close>

definition or_duration :: "rat option \<Rightarrow> rat option \<Rightarrow> rat option" where
  "or_duration a b = (case a of Some x \<Rightarrow> if x \<noteq> 0 then Some x else b | None \<Rightarrow> b)"

definition measured_metrics :: "normalized_media \<Rightarrow> media_probe \<Rightarrow> media_probe \<Rightarrow> video_stream \<Rightarrow> video_stream \<Rightarrow> generation_metrics" where
  "measured_metrics result source output source_video output_video =
     \<lparr>go_source_observations = source, go_output_observations = output,
      go_source_size = (display_width source_video, display_height source_video),
      go_source_rate = (case vs_average_frame_rate source_video of
                          Some r \<Rightarrow> Some r | None \<Rightarrow> vs_real_frame_rate source_video),
      go_source_duration = or_duration (vs_duration source_video) (mp_duration source),
      go_source_has_audio = nm_source_has_audio result,
      go_output_size = (display_width output_video, display_height output_video),
      go_output_rate = (case vs_average_frame_rate output_video of
                          Some r \<Rightarrow> Some r | None \<Rightarrow> vs_real_frame_rate output_video),
      go_output_duration = or_duration (vs_duration output_video) (mp_duration output),
      go_output_video_bitrate = vs_bit_rate output_video,
      go_output_byte_size = mp_byte_size output,
      go_output_video_codec = vs_codec_name output_video,
      go_output_audio_codec = (case mp_audio_codecs output of [] \<Rightarrow> None | c # _ \<Rightarrow> c),
      go_output_has_audio = nm_web_video_has_audio result\<rparr>"

definition record_verified :: "env \<Rightarrow> uuid \<Rightarrow> normalized_media \<Rightarrow> db \<Rightarrow> unit outcome" where
  "record_verified env gid result d =
     (case get_generation d gid of
        None \<Rightarrow> (Inl (MediaGenerationConflictError GenerationMissing), d)
      | Some g \<Rightarrow>
          if mg_status g \<noteq> GENERATING then (Inl (MediaGenerationConflictError NotGenerating), d)
          else if nm_generation_id result \<noteq> Some (mg_id g)
            then (Inl (MediaGenerationConflictError ForeignOutput), d)
          else if nm_web_video_key result \<noteq> Some (mg_web_video_key g) \<or>
                  nm_preview_key result \<noteq> Some (mg_preview_key g)
            then (Inl (MediaGenerationConflictError KeysMismatch), d)
          else if nm_web_video_profile result \<noteq> Some (mg_profile g) \<or>
                  nm_web_video_profile result \<noteq> Some WEB_VIDEO_PROFILE_ID
            then (Inl (MediaGenerationConflictError ProfileMismatch), d)
          else
            (case (nm_source_observations result, nm_output_observations result) of
               (Some source, Some output) \<Rightarrow>
                 (case (primary_video source, primary_video output) of
                    (Some source_video, Some output_video) \<Rightarrow>
                      if env_commit_ok env
                      then (Inr (), put_generation
                              (g\<lparr>mg_metrics := Some (measured_metrics result source output source_video output_video),
                                 mg_verified_at :=
                                   (case nm_web_video_verified_at result of
                                      Some t \<Rightarrow> Some t | None \<Rightarrow> Some (env_now env)),
                                 mg_status := VERIFIED\<rparr>) d)
                      else (Inl SQLAlchemyError, d)
                  | _ \<Rightarrow> (Inl (MediaGenerationConflictError MissingVideoStream), d))
             | _ \<Rightarrow> (Inl (MediaGenerationConflictError MissingObservations), d)))"

definition record_uploaded :: "env \<Rightarrow> uuid \<Rightarrow> db \<Rightarrow> unit outcome" where
  "record_uploaded env gid d =
     (case get_generation d gid of
        None \<Rightarrow> (Inl (MediaGenerationConflictError GenerationMissing), d)
      | Some g \<Rightarrow>
          if mg_status g \<noteq> VERIFIED then (Inl (MediaGenerationConflictError NotVerified), d)
          else if env_commit_ok env
            then (Inr (), put_generation (g\<lparr>mg_status := UPLOADED, mg_uploaded_at := Some (env_now env)\<rparr>) d)
            else (Inl SQLAlchemyError, d))"

section \<open>Cleanup\<close>

definition generation_is_referenced :: "db \<Rightarrow> media_generation \<Rightarrow> bool" where
  "generation_is_referenced d g =
     list_ex (\<lambda>f. mf_active_generation f = Some (mg_id g) \<or>
                  mf_s3_web_video_key f = Some (mg_web_video_key g)) (db_files d)"

definition recognized_generation_keys :: "text_value \<Rightarrow> media_generation \<Rightarrow> bool" where
  "recognized_generation_keys prefix g =
     (case (parse_media_generation_object_key prefix (mg_preview_key g),
            parse_media_generation_object_key prefix (mg_web_video_key g)) of
        (Some (pf, pg, pa), Some (vf, vg, va)) \<Rightarrow>
          if pa \<noteq> ''preview.png'' \<or> va \<noteq> ''web.mp4'' then False
          else if pg \<noteq> mg_id g \<or> vg \<noteq> mg_id g then False
          else if pf \<noteq> vf then False
          else mg_file g = None \<or> (mg_file g = Some pf \<and> mg_file g = Some vf)
      | _ \<Rightarrow> False)"

text \<open>A storage error: the class name and its sanitized text, when there is one.\<close>

record safe_error =
  se_type :: text_value
  se_text :: "text_value option"

definition safe_error_text :: "safe_error \<Rightarrow> text_value" where
  "safe_error_text e = (case se_text e of Some t \<Rightarrow> if t \<noteq> [] then t else se_type e | None \<Rightarrow> se_type e)"

definition record_cleanup_failure :: "env \<Rightarrow> uuid \<Rightarrow> safe_error \<Rightarrow> db \<Rightarrow> db" where
  "record_cleanup_failure env gid err d =
     (case get_generation d gid of
        None \<Rightarrow> d
      | Some g \<Rightarrow>
          put_generation (g\<lparr>mg_cleanup_status := CLEANUP_FAILED,
                            mg_cleanup_error := Some (safe_error_text err),
                            mg_cleanup_at := Some (env_now env)\<rparr>) d)"

text \<open>
  \<open>delete_object\<close> on the keys in order, stopping at the first error; the keys that were deleted.
\<close>

fun delete_objects :: "(text_value \<Rightarrow> safe_error option) \<Rightarrow> text_value list \<Rightarrow> text_value list \<times> safe_error option" where
  "delete_objects storage [] = ([], None)"
| "delete_objects storage (k # ks) =
     (case storage k of
        Some e \<Rightarrow> ([], Some e)
      | None \<Rightarrow> (let (done, e) = delete_objects storage ks in (k # done, e)))"

text \<open>The first transaction of \<open>fail_and_cleanup_unactivated_generation\<close>: fence, then go on or not.\<close>

definition fence_generation ::
  "env \<Rightarrow> uuid \<Rightarrow> safe_error \<Rightarrow> bool \<Rightarrow> db \<Rightarrow> (text_value list) option \<times> db" where
  "fence_generation env gid err is_stale d =
     (case get_generation d gid of
        None \<Rightarrow> (None, d)
      | Some g \<Rightarrow>
          if generation_is_referenced d g
          then (None, put_generation (g\<lparr>mg_cleanup_status := RETAINED_REFERENCED,
                                         mg_cleanup_at := Some (env_now env)\<rparr>) d)
          else
            (let g1 = g\<lparr>mg_status := (if is_stale then STALE else GEN_FAILED),
                        mg_failure_reason := Some (take 128 (se_type err)),
                        mg_failure_text := Some (safe_error_text err),
                        mg_cleanup_status := CLEANUP_PENDING,
                        mg_cleanup_attempts := mg_cleanup_attempts g + 1\<rparr>
             in if \<not> recognized_generation_keys (env_derivative_prefix env) g
                then (None, put_generation
                        (g1\<lparr>mg_cleanup_status := CLEANUP_FAILED,
                            mg_cleanup_error := Some
                              ''Generation object keys are not recognized; automatic deletion was refused.''\<rparr>) d)
                else (Some [mg_preview_key g, mg_web_video_key g], put_generation g1 d)))"

text \<open>The last transaction: look once more for a reference, then record the deletion.\<close>

definition finish_cleanup :: "env \<Rightarrow> uuid \<Rightarrow> db \<Rightarrow> bool \<times> db" where
  "finish_cleanup env gid d =
     (case get_generation d gid of
        None \<Rightarrow> (False, d)
      | Some g \<Rightarrow>
          if generation_is_referenced d g
          then (False, put_generation (g\<lparr>mg_cleanup_status := RETAINED_REFERENCED,
                 mg_cleanup_error := Some ''A reference appeared while cleanup was in progress.'',
                 mg_cleanup_at := Some (env_now env)\<rparr>) d)
          else (True, put_generation (g\<lparr>mg_cleanup_status := CLEANUP_DELETED,
                 mg_cleanup_error := None, mg_cleanup_at := Some (env_now env)\<rparr>) d))"

definition fail_and_cleanup_unactivated_generation ::
  "env \<Rightarrow> (text_value \<Rightarrow> safe_error option) \<Rightarrow> (db \<Rightarrow> db) \<Rightarrow> uuid \<Rightarrow> safe_error \<Rightarrow> bool \<Rightarrow> db \<Rightarrow>
     bool \<times> text_value list \<times> db" where
  "fail_and_cleanup_unactivated_generation env storage others gid err is_stale d =
     (case fence_generation env gid err is_stale d of
        (None, d1) \<Rightarrow> (False, [], d1)
      | (Some ks, d1) \<Rightarrow>
          (case delete_objects storage ks of
             (deleted, Some e) \<Rightarrow> (False, deleted, record_cleanup_failure env gid e (others d1))
           | (deleted, None) \<Rightarrow>
               (let (finished, d2) = finish_cleanup env gid (others d1) in (finished, deleted, d2))))"

section \<open>Garbage collection\<close>

record gc_result =
  gc_examined :: nat
  gc_deleted :: nat
  gc_retained :: nat
  gc_unrecognized :: nat
  gc_failed :: nat

definition gc_age :: "media_generation \<Rightarrow> time" where
  "gc_age g =
     (case mg_superseded_at g of
        Some t \<Rightarrow> t
      | None \<Rightarrow> (case mg_verified_at g of Some t \<Rightarrow> t | None \<Rightarrow> mg_created_at g))"

definition gc_candidate :: "env \<Rightarrow> time \<Rightarrow> uuid list \<Rightarrow> media_generation \<Rightarrow> bool" where
  "gc_candidate env cutoff examined g \<longleftrightarrow>
     mg_status g \<in> {SUPERSEDED, GEN_FAILED, STALE} \<and>
     mg_cleanup_status g \<notin> {CLEANUP_DELETED, RETAINED_REFERENCED} \<and>
     mg_id g \<notin> set examined \<and> gc_age g < cutoff \<and> \<not> env_row_locked env (mg_id g)"

definition next_gc_generation :: "env \<Rightarrow> time \<Rightarrow> uuid list \<Rightarrow> db \<Rightarrow> media_generation option" where
  "next_gc_generation env cutoff examined d =
     (case sort_key (\<lambda>g. (mg_created_at g, mg_id g)) (filter (gc_candidate env cutoff examined) (db_generations d)) of
        [] \<Rightarrow> None | g # _ \<Rightarrow> Some g)"

text \<open>
  One round of \<open>run_media_generation_gc_batch\<close> on a chosen generation: the deleted keys, the counter
  that moves, and the database.
\<close>

definition gc_round ::
  "env \<Rightarrow> (text_value \<Rightarrow> safe_error option) \<Rightarrow> (db \<Rightarrow> db) \<Rightarrow> media_generation \<Rightarrow> gc_result \<Rightarrow> db \<Rightarrow>
     text_value list \<times> gc_result \<times> db" where
  "gc_round env storage others g r0 d =
     (let r = r0\<lparr>gc_examined := gc_examined r0 + 1\<rparr>
      in if generation_is_referenced d g
         then ([], r\<lparr>gc_retained := gc_retained r + 1\<rparr>,
               put_generation (g\<lparr>mg_cleanup_status := RETAINED_REFERENCED,
                                 mg_cleanup_at := Some (env_now env)\<rparr>) d)
         else if \<not> recognized_generation_keys (env_derivative_prefix env) g
         then ([], r\<lparr>gc_unrecognized := gc_unrecognized r + 1\<rparr>,
               put_generation (g\<lparr>mg_cleanup_status := CLEANUP_FAILED,
                 mg_cleanup_error := Some ''Unrecognized generation key; garbage collection refused deletion.'',
                 mg_cleanup_at := Some (env_now env)\<rparr>) d)
         else
           (let d1 = others (put_generation (g\<lparr>mg_cleanup_status := CLEANUP_PENDING,
                       mg_cleanup_attempts := mg_cleanup_attempts g + 1\<rparr>) d)
            in case delete_objects storage [mg_preview_key g, mg_web_video_key g] of
                 (deleted, Some e) \<Rightarrow>
                   (deleted, r\<lparr>gc_failed := gc_failed r + 1\<rparr>, record_cleanup_failure env (mg_id g) e d1)
               | (deleted, None) \<Rightarrow>
                   (case get_generation d1 (mg_id g) of
                      None \<Rightarrow> (deleted, r, d1)
                    | Some g1 \<Rightarrow>
                        if generation_is_referenced d1 g1
                        then (deleted, r\<lparr>gc_retained := gc_retained r + 1\<rparr>,
                              put_generation (g1\<lparr>mg_cleanup_status := RETAINED_REFERENCED,
                                                 mg_cleanup_at := Some (env_now env)\<rparr>) d1)
                        else (deleted, r\<lparr>gc_deleted := gc_deleted r + 1\<rparr>,
                              put_generation (g1\<lparr>mg_cleanup_status := CLEANUP_DELETED,
                                                 mg_cleanup_error := None,
                                                 mg_cleanup_at := Some (env_now env)\<rparr>) d1))))"

fun gc_loop ::
  "nat \<Rightarrow> env \<Rightarrow> (text_value \<Rightarrow> safe_error option) \<Rightarrow> (db \<Rightarrow> db) \<Rightarrow> time \<Rightarrow> uuid list \<Rightarrow>
     text_value list \<Rightarrow> gc_result \<Rightarrow> db \<Rightarrow> text_value list \<times> gc_result \<times> db" where
  "gc_loop 0 env storage others cutoff examined deleted r d = (deleted, r, d)"
| "gc_loop (Suc n) env storage others cutoff examined deleted r d =
     (case next_gc_generation env cutoff examined d of
        None \<Rightarrow> (deleted, r, d)
      | Some g \<Rightarrow>
          (case gc_round env storage others g r d of
             (ks, r', d') \<Rightarrow>
               gc_loop n env storage others cutoff (examined @ [mg_id g]) (deleted @ ks) r' d'))"

text \<open>
  \<open>retention\<close> is the configured retention in microseconds; a week is the least.
\<close>

definition run_media_generation_gc_batch ::
  "env \<Rightarrow> (text_value \<Rightarrow> safe_error option) \<Rightarrow> (db \<Rightarrow> db) \<Rightarrow> int \<Rightarrow> int \<Rightarrow> db \<Rightarrow>
     text_value list \<times> gc_result \<times> db" where
  "run_media_generation_gc_batch env storage others retention batch_size d =
     (let cutoff = env_now env - max retention (7 * 86400 * 1000000)
      in gc_loop (nat (max 1 (min batch_size 1000))) env storage others cutoff [] []
           \<lparr>gc_examined = 0, gc_deleted = 0, gc_retained = 0, gc_unrecognized = 0, gc_failed = 0\<rparr> d)"

section \<open>Lemmas\<close>

lemma strip_prefix_append [simp]: "strip_prefix p (p @ s) = Some s"
  by (simp add: strip_prefix_def)

lemma take_uuid_group_text [simp]: "take_uuid_group (uuid_text u @ s) = Some (uuid_text u, s)"
  using uuid_text_chars [of _ u] by (auto simp: take_uuid_group_def uuid_text_length)

text \<open>A key prefix as the settings normalise it: not empty, no blank and no slash in front.\<close>

definition normal_prefix :: "text_value \<Rightarrow> bool" where
  "normal_prefix p \<longleftrightarrow> p \<noteq> [] \<and> \<not> is_py_space (hd p) \<and> hd p \<noteq> CHR ''/''"

lemma dropWhile_hd_id: "\<not> P (hd xs) \<Longrightarrow> dropWhile P xs = xs"
  by (cases xs) simp_all

lemma strip_generation_key:
  assumes "normal_prefix p" "\<not> is_py_space (last s)" "last s \<noteq> CHR ''/''" "s \<noteq> []"
  shows "strip_slashes (py_strip (p @ s)) = p @ s"
proof -
  have h: "hd (p @ s) = hd p" and l: "last (p @ s) = last s" and ne: "p @ s \<noteq> []"
    using assms by (simp_all add: normal_prefix_def)
  have "py_strip (p @ s) = p @ s"
    using assms h l ne by (simp add: py_strip_def py_lstrip_id py_rstrip_id normal_prefix_def)
  moreover have "dropWhile (\<lambda>c. c = CHR ''/'') (p @ s) = p @ s"
    using assms h ne by (cases "p @ s") (auto simp: normal_prefix_def)
  moreover have "dropWhile (\<lambda>c. c = CHR ''/'') (rev (p @ s)) = rev (p @ s)"
    by (rule dropWhile_hd_id) (use assms(3) l in \<open>simp only: hd_rev simp_thms\<close>)
  ultimately show ?thesis by (simp add: strip_slashes_def del: rev_append)
qed

lemma parse_built_key:
  assumes "normal_prefix p" "f < 16 ^ 32" "g < 16 ^ 32" "a \<in> {''web.mp4'', ''preview.png''}"
  shows "parse_media_generation_object_key p
      (p @ ''/'' @ uuid_text f @ ''/generations/'' @ uuid_text g @ ''/'' @ a) = Some (f, g, a)"
proof -
  have a: "a \<noteq> []" "\<not> is_py_space (last a)" "last a \<noteq> CHR ''/''"
    using assms(4) by (auto simp: is_py_space_def)
  let ?s = "''/'' @ uuid_text f @ ''/generations/'' @ uuid_text g @ ''/'' @ a"
  have "last ?s = last a" using a by simp
  then have "strip_slashes (py_strip (p @ ?s)) = (p @ ''/'') @ uuid_text f @ ''/generations/'' @ uuid_text g @ ''/'' @ a"
    using strip_generation_key [OF assms(1), of ?s] a by simp
  then show ?thesis
    using assms
    by (simp only: parse_media_generation_object_key_def strip_prefix_append option.case prod.case
        take_uuid_group_text uuid_read_text)
      (auto simp: strip_prefix_append)
qed

lemma new_generation_recognized:
  assumes "normal_prefix (env_derivative_prefix env)" "mf_id file < 16 ^ 32" "env_fresh env 0 < 16 ^ 32"
  shows "recognized_generation_keys (env_derivative_prefix env)
      (new_generation env file entry expected item limit n)"
  using parse_built_key [OF assms, of "''web.mp4''"] parse_built_key [OF assms, of "''preview.png''"]
  by (simp add: recognized_generation_keys_def new_generation_def Let_def
      build_web_video_generation_object_key_def build_preview_image_generation_object_key_def)

lemma generation_is_referenced_put [simp]:
  "generation_is_referenced (put_generation g d) h = generation_is_referenced d h"
  by (simp add: generation_is_referenced_def frame_simps)

lemma delete_objects_sub: "set (fst (delete_objects storage ks)) \<subseteq> set ks"
  by (induction ks) (auto simp: case_prod_beta Let_def split: option.splits)

lemma next_gc_generation_Some:
  "next_gc_generation env cutoff examined d = Some g \<Longrightarrow>
     g \<in> set (db_generations d) \<and> gc_candidate env cutoff examined g"
proof -
  assume "next_gc_generation env cutoff examined d = Some g"
  then obtain gs where "sort_key (\<lambda>g. (mg_created_at g, mg_id g))
      (filter (gc_candidate env cutoff examined) (db_generations d)) = g # gs"
    by (auto simp: next_gc_generation_def split: list.splits)
  then have "g \<in> set (sort_key (\<lambda>g. (mg_created_at g, mg_id g))
      (filter (gc_candidate env cutoff examined) (db_generations d)))"
    by simp
  then show ?thesis by simp
qed

text \<open>What identifies a generation and decides its collection, apart from the cleanup columns.\<close>

definition gc_core :: "media_generation \<Rightarrow> media_generation" where
  "gc_core g = g\<lparr>mg_cleanup_status := NOT_ELIGIBLE, mg_cleanup_attempts := 0, mg_cleanup_error := None,
     mg_cleanup_at := None\<rparr>"

lemma gc_core_same:
  assumes "gc_core g = gc_core h"
  shows "mg_id g = mg_id h" "mg_status g = mg_status h" "gc_age g = gc_age h"
    "mg_preview_key g = mg_preview_key h" "mg_web_video_key g = mg_web_video_key h"
    "mg_file g = mg_file h"
    "generation_is_referenced d g = generation_is_referenced d h"
    "recognized_generation_keys p g = recognized_generation_keys p h"
proof -
  have e: "mg_id g = mg_id h \<and> mg_status g = mg_status h \<and> mg_superseded_at g = mg_superseded_at h \<and>
      mg_verified_at g = mg_verified_at h \<and> mg_created_at g = mg_created_at h \<and>
      mg_preview_key g = mg_preview_key h \<and> mg_web_video_key g = mg_web_video_key h \<and> mg_file g = mg_file h"
    using assms by (cases g; cases h) (simp add: gc_core_def)
  then show "mg_id g = mg_id h" "mg_status g = mg_status h" "gc_age g = gc_age h"
    "mg_preview_key g = mg_preview_key h" "mg_web_video_key g = mg_web_video_key h"
    "mg_file g = mg_file h"
    "generation_is_referenced d g = generation_is_referenced d h"
    "recognized_generation_keys p g = recognized_generation_keys p h"
    by (simp_all add: gc_age_def generation_is_referenced_def recognized_generation_keys_def
        split: option.splits prod.splits)
qed

lemma gc_core_cleanup [simp]:
  "gc_core (g\<lparr>mg_cleanup_status := a\<rparr>) = gc_core g"
  "gc_core (g\<lparr>mg_cleanup_attempts := b\<rparr>) = gc_core g"
  "gc_core (g\<lparr>mg_cleanup_error := c\<rparr>) = gc_core g"
  "gc_core (g\<lparr>mg_cleanup_at := t\<rparr>) = gc_core g"
  by (simp_all add: gc_core_def)

lemma gc_core_put:
  "gc_core g' = gc_core g \<Longrightarrow> get_generation d (mg_id g) = Some g0 \<Longrightarrow> gc_core g0 = gc_core g \<Longrightarrow>
     map gc_core (db_generations (put_generation g' d)) = map gc_core (db_generations d)"
proof -
  assume c: "gc_core g' = gc_core g" "get_generation d (mg_id g) = Some g0" "gc_core g0 = gc_core g"
  have "mg_id g' = mg_id g" using gc_core_same(1) c(1) by blast
  with c show ?thesis
    by (auto simp: put_generation_def get_generation_def intro: map_row_put_same)
qed

definition generations_wf :: "db \<Rightarrow> bool" where
  "generations_wf d \<longleftrightarrow> distinct (map mg_id (db_generations d))"

lemma generations_wf_get: "generations_wf d \<Longrightarrow> g \<in> set (db_generations d) \<Longrightarrow> get_generation d (mg_id g) = Some g"
  by (simp add: generations_wf_def get_generation_def row_get_iff_mem)

lemma gc_core_map_id: "map gc_core gs = map gc_core hs \<Longrightarrow> map mg_id gs = map mg_id hs"
proof -
  assume "map gc_core gs = map gc_core hs"
  then have "map (mg_id \<circ> gc_core) gs = map (mg_id \<circ> gc_core) hs"
    by (metis list.map_comp)
  then show ?thesis by (simp add: comp_def gc_core_def)
qed

lemma gc_round_effect:
  assumes wf: "generations_wf d" and mem: "g \<in> set (db_generations d)"
    and round: "gc_round env storage id g r d = (ks, r', d')"
  shows "map gc_core (db_generations d') = map gc_core (db_generations d) \<and> db_files d' = db_files d \<and>
    (ks \<noteq> [] \<longrightarrow> \<not> generation_is_referenced d g \<and> recognized_generation_keys (env_derivative_prefix env) g) \<and>
    set ks \<subseteq> {mg_preview_key g, mg_web_video_key g}"
proof -
  have get: "get_generation d (mg_id g) = Some g" using wf mem by (rule generations_wf_get)
  define g1 where "g1 = g\<lparr>mg_cleanup_status := CLEANUP_PENDING, mg_cleanup_attempts := mg_cleanup_attempts g + 1\<rparr>"
  define d1 where "d1 = put_generation g1 d"
  have g1: "gc_core g1 = gc_core g" "mg_id g1 = mg_id g" by (simp_all add: g1_def)
  have get1: "get_generation d1 (mg_id g) = Some g1" by (simp add: d1_def row_simps g1)
  have d1: "map gc_core (db_generations d1) = map gc_core (db_generations d)" "db_files d1 = db_files d"
    using gc_core_put [OF g1(1) get] by (simp_all add: d1_def frame_simps)
  have put: "map gc_core (db_generations (put_generation h d1)) = map gc_core (db_generations d) \<and>
      db_files (put_generation h d1) = db_files d" if "gc_core h = gc_core g" for h
    using gc_core_put [OF that get1 g1(1)] d1 by (simp add: frame_simps)
  have put0: "map gc_core (db_generations (put_generation h d)) = map gc_core (db_generations d) \<and>
      db_files (put_generation h d) = db_files d" if "gc_core h = gc_core g" for h
    using gc_core_put [OF that get] by (simp add: frame_simps)
  obtain del err where del: "delete_objects storage [mg_preview_key g, mg_web_video_key g] = (del, err)"
    by (cases "delete_objects storage [mg_preview_key g, mg_web_video_key g]")
  have sub: "set del \<subseteq> {mg_preview_key g, mg_web_video_key g}"
    using delete_objects_sub [of storage "[mg_preview_key g, mg_web_video_key g]"] del by simp
  have fail: "record_cleanup_failure env (mg_id g) e d1 =
      put_generation (g1\<lparr>mg_cleanup_status := CLEANUP_FAILED, mg_cleanup_error := Some (safe_error_text e),
        mg_cleanup_at := Some (env_now env)\<rparr>) d1" for e
    by (simp add: record_cleanup_failure_def get1)
  from round show ?thesis
    unfolding gc_round_def Let_def id_apply g1_def [symmetric] d1_def [symmetric] del
    using sub
    by (auto simp: fail get1 put put0 g1 split: if_splits option.splits)
qed

text \<open>The generations whose objects a collection with this cutoff may delete.\<close>

definition collectable :: "env \<Rightarrow> time \<Rightarrow> db \<Rightarrow> media_generation \<Rightarrow> bool" where
  "collectable env cutoff d g \<longleftrightarrow>
     mg_status g \<in> {SUPERSEDED, GEN_FAILED, STALE} \<and> gc_age g < cutoff \<and>
     \<not> generation_is_referenced d g \<and> recognized_generation_keys (env_derivative_prefix env) g"

lemma collectable_core:
  assumes "gc_core h = gc_core g" "db_files d' = db_files d"
  shows "collectable env cutoff d' h = collectable env cutoff d g"
proof -
  have "generation_is_referenced d' g = generation_is_referenced d g"
    by (simp add: generation_is_referenced_def assms(2))
  then show ?thesis using gc_core_same [OF assms(1)] by (simp add: collectable_def)
qed

text \<open>
  The generations a collection chooses, each with the database it is chosen in: what \<open>others\<close> did up to then, between
  rounds and while no row was locked, is in that database.
\<close>

fun gc_choices ::
  "nat \<Rightarrow> env \<Rightarrow> (text_value \<Rightarrow> safe_error option) \<Rightarrow> (db \<Rightarrow> db) \<Rightarrow> time \<Rightarrow> uuid list \<Rightarrow> gc_result \<Rightarrow> db \<Rightarrow>
     (media_generation \<times> db) list" where
  "gc_choices 0 env storage others cutoff examined r d = []"
| "gc_choices (Suc n) env storage others cutoff examined r d =
     (case next_gc_generation env cutoff examined d of
        None \<Rightarrow> []
      | Some g \<Rightarrow>
          (g, d) # (case gc_round env storage others g r d of
             (ks, r', d') \<Rightarrow> gc_choices n env storage others cutoff (examined @ [mg_id g]) r' d'))"

lemma gc_round_keys:
  assumes "gc_round env storage others g r d = (ks, r', d')" "k \<in> set ks"
  shows "k \<in> {mg_preview_key g, mg_web_video_key g} \<and> \<not> generation_is_referenced d g \<and>
    recognized_generation_keys (env_derivative_prefix env) g"
proof -
  obtain del err where del: "delete_objects storage [mg_preview_key g, mg_web_video_key g] = (del, err)"
    by (cases "delete_objects storage [mg_preview_key g, mg_web_video_key g]")
  have sub: "set del \<subseteq> {mg_preview_key g, mg_web_video_key g}"
    using delete_objects_sub [of storage "[mg_preview_key g, mg_web_video_key g]"] del by simp
  with assms show ?thesis
    unfolding gc_round_def Let_def del by (auto split: if_splits option.splits)
qed

lemma gc_round_files:
  assumes "\<And>x. db_files (others x) = db_files x"
  shows "db_files (snd (snd (gc_round env storage others g r d))) = db_files d"
  by (auto simp: gc_round_def Let_def record_cleanup_failure_def frame_simps assms split: prod.splits option.splits)

lemma gc_loop_keys:
  assumes "k \<in> set (fst (gc_loop n env storage others cutoff examined deleted r d))" "k \<notin> set deleted"
  shows "\<exists>g d0. (g, d0) \<in> set (gc_choices n env storage others cutoff examined r d) \<and> g \<in> set (db_generations d0) \<and>
    k \<in> {mg_preview_key g, mg_web_video_key g} \<and> collectable env cutoff d0 g"
  using assms
proof (induction n arbitrary: examined deleted r d)
  case 0
  then show ?case by simp
next
  case (Suc n)
  show ?case
  proof (cases "next_gc_generation env cutoff examined d")
    case None
    with Suc.prems show ?thesis by simp
  next
    case (Some g)
    then have g: "g \<in> set (db_generations d)" "gc_candidate env cutoff examined g"
      by (auto dest: next_gc_generation_Some)
    obtain ks r' d' where round: "gc_round env storage others g r d = (ks, r', d')"
      by (cases "gc_round env storage others g r d")
    show ?thesis
    proof (cases "k \<in> set ks")
      case True
      then have "collectable env cutoff d g \<and> k \<in> {mg_preview_key g, mg_web_video_key g}"
        using gc_round_keys [OF round] g(2) by (simp add: collectable_def gc_candidate_def)
      with g(1) show ?thesis by (intro exI [of _ g] exI [of _ d]) (simp add: Some)
    next
      case False
      with Suc.prems have "k \<in> set (fst (gc_loop n env storage others cutoff (examined @ [mg_id g]) (deleted @ ks) r' d'))"
        "k \<notin> set (deleted @ ks)"
        by (simp_all add: Some round)
      from Suc.IH [OF this] show ?thesis by (auto simp: Some round)
    qed
  qed
qed

lemma gc_loop_files:
  assumes "\<And>x. db_files (others x) = db_files x"
  shows "db_files (snd (snd (gc_loop n env storage others cutoff examined deleted r d))) = db_files d \<and>
    (\<forall>(g, d0)\<in>set (gc_choices n env storage others cutoff examined r d). db_files d0 = db_files d)"
proof (induction n arbitrary: examined deleted r d)
  case (Suc n)
  show ?case
  proof (cases "next_gc_generation env cutoff examined d")
    case (Some g)
    obtain ks r' d' where round: "gc_round env storage others g r d = (ks, r', d')"
      by (cases "gc_round env storage others g r d")
    have "db_files d' = db_files d" using gc_round_files [OF assms, of env storage g r d] round by simp
    with Suc.IH [of "examined @ [mg_id g]" "deleted @ ks" r' d'] show ?thesis by (simp add: Some round)
  qed simp
qed simp

lemma gc_choices_core:
  assumes "generations_wf d" "(g, d0) \<in> set (gc_choices n env storage id cutoff examined r d)"
  shows "map gc_core (db_generations d0) = map gc_core (db_generations d)"
  using assms
proof (induction n arbitrary: examined r d)
  case (Suc n)
  then obtain h where h: "next_gc_generation env cutoff examined d = Some h"
    by (cases "next_gc_generation env cutoff examined d") simp_all
  then have mem: "h \<in> set (db_generations d)" by (auto dest: next_gc_generation_Some)
  obtain ks r' d' where round: "gc_round env storage id h r d = (ks, r', d')" by (cases "gc_round env storage id h r d")
  have core: "map gc_core (db_generations d') = map gc_core (db_generations d)"
    using gc_round_effect [OF Suc.prems(1) mem round] by simp
  have wf: "generations_wf d'" using Suc.prems(1) gc_core_map_id [OF core] by (simp add: generations_wf_def)
  show ?case
  proof (cases "(g, d0) = (h, d)")
    case False
    then have "(g, d0) \<in> set (gc_choices n env storage id cutoff (examined @ [mg_id h]) r' d')"
      using Suc.prems(2) unfolding gc_choices.simps h option.case round prod.case by auto
    from Suc.IH [OF wf this] core show ?thesis by simp
  qed simp
qed simp

section \<open>Properties\<close>

text \<open>
  An object key built for a generation parses back to exactly its file, its generation and its
  artifact name, for every normalised key prefix.
\<close>

theorem generation_key_roundtrip:
  assumes "normal_prefix p" "f < 16 ^ 32" "g < 16 ^ 32"
  shows "parse_media_generation_object_key p (build_web_video_generation_object_key p f g) =
      Some (f, g, ''web.mp4'') \<and>
    parse_media_generation_object_key p (build_preview_image_generation_object_key p f g) =
      Some (f, g, ''preview.png'')"
  using parse_built_key [OF assms, of "''web.mp4''"] parse_built_key [OF assms, of "''preview.png''"]
  by (simp add: build_web_video_generation_object_key_def build_preview_image_generation_object_key_def)

theorem generation_key_roundtrip_witness:
  "parse_media_generation_object_key ''derived'' (build_web_video_generation_object_key ''derived'' 1 900) =
     Some (1, 900, ''web.mp4'')"
  using generation_key_roundtrip [of "''derived''" 1 900]
  by (simp add: normal_prefix_def is_py_space_def)

text \<open>
  C17. Whatever other transactions do meanwhile, the garbage collector only deletes objects of generations it chose in a
  database in which they were superseded, failed or stale, older than the configured retention (and than a week),
  recognised by their own keys and referenced by no file; it writes no file row, and with no one else at work the
  generations it chose are those of the database it began with.
\<close>

theorem gc_deletes_only_collectable:
  fixes env :: env and retention :: int
  defines "cutoff \<equiv> env_now env - max retention (7 * 86400 * 1000000)"
    and "zero \<equiv> \<lparr>gc_examined = 0, gc_deleted = 0, gc_retained = 0, gc_unrecognized = 0, gc_failed = 0\<rparr>"
  assumes "k \<in> set (fst (run_media_generation_gc_batch env storage others retention batch d))"
  shows "\<exists>g d0. (g, d0) \<in> set (gc_choices (nat (max 1 (min batch 1000))) env storage others cutoff [] zero d) \<and>
      g \<in> set (db_generations d0) \<and> k \<in> {mg_preview_key g, mg_web_video_key g} \<and>
      mg_status g \<in> {SUPERSEDED, GEN_FAILED, STALE} \<and> gc_age g < cutoff \<and>
      recognized_generation_keys (env_derivative_prefix env) g \<and>
      (\<forall>f\<in>set (db_files d0). mf_active_generation f \<noteq> Some (mg_id g) \<and>
         mf_s3_web_video_key f \<noteq> Some (mg_web_video_key g)) \<and>
      ((\<forall>x. db_files (others x) = db_files x) \<longrightarrow> db_files d0 = db_files d \<and>
         db_files (snd (snd (run_media_generation_gc_batch env storage others retention batch d))) = db_files d) \<and>
      (others = id \<and> generations_wf d \<longrightarrow> gc_core g \<in> gc_core ` set (db_generations d))"
proof -
  have run: "run_media_generation_gc_batch env storage others retention batch d =
      gc_loop (nat (max 1 (min batch 1000))) env storage others cutoff [] [] zero d"
    by (simp add: run_media_generation_gc_batch_def Let_def cutoff_def zero_def)
  from assms(3) obtain g d0 where g: "(g, d0) \<in> set (gc_choices (nat (max 1 (min batch 1000))) env storage others cutoff [] zero d)"
      "g \<in> set (db_generations d0)" "k \<in> {mg_preview_key g, mg_web_video_key g}" "collectable env cutoff d0 g"
    unfolding run using gc_loop_keys [where deleted = "[]"] by fastforce
  have files: "db_files d0 = db_files d \<and>
      db_files (snd (snd (run_media_generation_gc_batch env storage others retention batch d))) = db_files d"
    if "\<forall>x. db_files (others x) = db_files x"
    unfolding run using gc_loop_files [of others] that g(1) by blast
  have core: "gc_core g \<in> gc_core ` set (db_generations d)" if "others = id" "generations_wf d"
    using gc_choices_core [of d g d0] that g(1,2) by (metis image_eqI list.set_map)
  show ?thesis
    using g files core
    by (intro exI [of _ g] exI [of _ d0]) (auto simp: collectable_def generation_is_referenced_def list_ex_iff)
qed

definition sample_generation :: media_generation where
  "sample_generation =
     (new_generation sample_env sample_file (sample_journal TRANSCODE) None None 3 1)
       \<lparr>mg_created_at := 0, mg_status := GEN_FAILED\<rparr>"

definition sample_gc_db :: db where
  "sample_gc_db = empty_db\<lparr>db_files := [sample_file], db_generations := [sample_generation]\<rparr>"

definition sample_gc_env :: env where
  "sample_gc_env = sample_env\<lparr>env_now := 10 * 86400 * 1000000\<rparr>"

lemma sample_recognized: "recognized_generation_keys ''derived'' sample_generation"
proof -
  have "recognized_generation_keys (env_derivative_prefix sample_env)
      (new_generation sample_env sample_file (sample_journal TRANSCODE) None None 3 1)"
    by (rule new_generation_recognized)
      (simp_all add: sample_env_def sample_file_def normal_prefix_def is_py_space_def)
  moreover have "recognized_generation_keys p (g\<lparr>mg_created_at := a, mg_status := b\<rparr>) =
      recognized_generation_keys p g" for p g a b
    by (simp add: recognized_generation_keys_def split: option.splits)
  moreover have "env_derivative_prefix sample_env = ''derived''" by (simp add: sample_env_def)
  ultimately show ?thesis unfolding sample_generation_def by metis
qed

lemma sample_gc_run:
  "fst (run_media_generation_gc_batch sample_gc_env (\<lambda>_. None) id 0 1 sample_gc_db) =
     [mg_preview_key sample_generation, mg_web_video_key sample_generation]"
proof -
  have pick: "next_gc_generation sample_gc_env (env_now sample_gc_env - 604800000000) [] sample_gc_db =
      Some sample_generation"
    by (simp add: next_gc_generation_def sample_gc_db_def gc_candidate_def sample_generation_def
        new_generation_def Let_def gc_age_def sample_gc_env_def sample_env_def)
  have unref: "\<not> generation_is_referenced sample_gc_db sample_generation"
    by (simp add: generation_is_referenced_def sample_gc_db_def sample_file_def)
  have rec: "recognized_generation_keys (env_derivative_prefix sample_gc_env) sample_generation"
    using sample_recognized by (simp add: sample_gc_env_def sample_env_def)
  show ?thesis
    by (simp add: run_media_generation_gc_batch_def pick gc_round_def Let_def unref rec row_simps
        numeral_eq_Suc del: of_nat_Suc split: if_splits)
qed

theorem gc_deletes_only_collectable_witness:
  "mg_web_video_key sample_generation \<in>
       set (fst (run_media_generation_gc_batch sample_gc_env (\<lambda>_. None) id 0 1 sample_gc_db)) \<and>
   (\<exists>g. gc_core g \<in> gc_core ` {sample_generation} \<and> gc_age g < 3 * 86400 * 1000000)"
proof -
  have wf: "generations_wf sample_gc_db" by (simp add: generations_wf_def sample_gc_db_def)
  have k: "mg_web_video_key sample_generation \<in>
      set (fst (run_media_generation_gc_batch sample_gc_env (\<lambda>_. None) id 0 1 sample_gc_db))"
    by (simp add: sample_gc_run)
  have "env_now sample_gc_env - max 0 (7 * 86400 * 1000000) = 3 * 86400 * 1000000" by (simp add: sample_gc_env_def)
  with gc_deletes_only_collectable [OF k] wf have "\<exists>g. gc_core g \<in> gc_core ` {sample_generation} \<and> gc_age g < 3 * 86400 * 1000000"
    by (auto simp: sample_gc_db_def)
  with k show ?thesis by blast
qed

text \<open>
  A reservation either fails and changes nothing, or it adds one generating attempt with fresh,
  recognised keys that counts one more than the latest unfinished attempt of the same owner; that
  older attempt can then no longer be verified, uploaded or activated, and its objects are due for
  cleanup.
\<close>

theorem reserve_generation_outcome:
  assumes "reserve_generation env f expected item_id limit d = (res, d')"
  shows "(case res of
     Inl _ \<Rightarrow> d' = d
   | Inr new \<Rightarrow>
       (\<exists>file. get_file d f = Some file \<and> mf_s3_web_video_key file = expected \<and>
          db_files d' = db_files d \<and> db_journal d' = db_journal d \<and>
          mg_status new = GENERATING \<and> mg_id new = env_fresh env 0 \<and> mg_file new = Some (mf_id file) \<and>
          (\<exists>old. db_generations d' = old @ [new] \<and> length old = length (db_generations d)) \<and>
          (case latest_generation d (mf_id file) (Option.bind item_id (get_recovery d)) of
             None \<Rightarrow> mg_attempt_count new = 1 \<and> db_generations d' = db_generations d @ [new]
           | Some g \<Rightarrow>
               mg_attempt_count new = mg_attempt_count g + 1 \<and>
               (mg_status g \<in> {GENERATING, VERIFIED, UPLOADED} \<longrightarrow>
                  (\<exists>g'. get_generation d' (mg_id g) = Some g' \<and> mg_status g' = STALE \<and>
                        mg_cleanup_status g' = CLEANUP_PENDING)))))"
proof (cases "reserve_generation env f expected item_id limit d")
  case (Pair r d1)
  with assms have r: "reserve_generation env f expected item_id limit d = (res, d')" by simp
  show ?thesis
  proof (cases res)
    case (Inl e)
    with r show ?thesis
      by (auto simp: reserve_generation_def Let_def split: option.splits if_splits)
  next
    case (Inr new)
    define item where "item = Option.bind item_id (get_recovery d)"
    from r Inr obtain fl entry where
      found: "get_file d f = Some fl" "mf_s3_web_video_key fl = expected" and
      new: "new = new_generation env fl entry expected item limit
          (case latest_generation d (mf_id fl) item of None \<Rightarrow> 1 | Some g \<Rightarrow> mg_attempt_count g + 1)" and
      d': "d' = (case latest_generation d (mf_id fl) item of None \<Rightarrow> d
          | Some g \<Rightarrow> put_generation (supersede_by_retry g) d)
            \<lparr>db_generations := db_generations (case latest_generation d (mf_id fl) item of None \<Rightarrow> d
          | Some g \<Rightarrow> put_generation (supersede_by_retry g) d) @ [new]\<rparr>"
      unfolding item_def
      by (auto simp: reserve_generation_def Let_def split: option.splits if_splits)
    have sid: "mg_id (supersede_by_retry g) = mg_id g" for g by (simp add: supersede_by_retry_def)
    have len: "length (row_put mg_id (supersede_by_retry g) (db_generations d)) = length (db_generations d)"
      if "latest_generation d (mf_id fl) item = Some g" for g
    proof -
      from that have "g \<in> set (db_generations d)" unfolding latest_generation_def by (auto dest: max_by_mem)
      then have "row_get mg_id (mg_id (supersede_by_retry g)) (db_generations d) \<noteq> None"
        by (auto simp: row_get_None_iff sid)
      then show ?thesis using row_put_keys [of mg_id "supersede_by_retry g"] by (metis length_map)
    qed
    have fields: "mg_status new = GENERATING \<and> mg_id new = env_fresh env 0 \<and> mg_file new = Some (mf_id fl) \<and>
        mg_attempt_count new = (case latest_generation d (mf_id fl) item of None \<Rightarrow> 1 | Some g \<Rightarrow> mg_attempt_count g + 1)"
      by (simp add: new new_generation_def Let_def)
    show ?thesis
    proof (cases "latest_generation d (mf_id fl) item")
      case None
      with Inr found fields d' show ?thesis by (auto simp: item_def [symmetric])
    next
      case (Some g)
      then have dg: "db_generations d' = row_put mg_id (supersede_by_retry g) (db_generations d) @ [new]"
        and same: "db_files d' = db_files d" "db_journal d' = db_journal d"
        by (simp_all add: d' put_generation_def)
      have "get_generation d' (mg_id g) = Some (supersede_by_retry g)"
        by (simp add: get_generation_def dg sid)
      then have old: "mg_status g \<in> {GENERATING, VERIFIED, UPLOADED} \<longrightarrow>
          (\<exists>g'. get_generation d' (mg_id g) = Some g' \<and> mg_status g' = STALE \<and> mg_cleanup_status g' = CLEANUP_PENDING)"
        by (simp add: supersede_by_retry_def)
      show ?thesis
        using Inr found fields Some dg same old len [OF Some] by (simp add: item_def [symmetric])
    qed
  qed
qed

lemma sample_reserve:
  "\<exists>new d'. reserve_generation sample_env 1 None None 3
     (sample_gc_db\<lparr>db_journal := [(1, TRANSCODE) \<mapsto> sample_journal TRANSCODE]\<rparr>) = (Inr new, d')"
  by (simp add: reserve_generation_def Let_def get_file_def get_journal_def sample_gc_db_def sample_file_def
      recovery_generation_active_def latest_generation_def sample_generation_def new_generation_def
      sample_env_def unfinished_statuses_def)

theorem reserve_generation_outcome_witness:
  "\<exists>new d'. reserve_generation sample_env 1 None None 3
     (sample_gc_db\<lparr>db_journal := [(1, TRANSCODE) \<mapsto> sample_journal TRANSCODE]\<rparr>) = (Inr new, d') \<and>
     mg_status new = GENERATING \<and> mg_id new = 900"
proof -
  obtain new d' where r: "reserve_generation sample_env 1 None None 3
     (sample_gc_db\<lparr>db_journal := [(1, TRANSCODE) \<mapsto> sample_journal TRANSCODE]\<rparr>) = (Inr new, d')"
    using sample_reserve by blast
  from reserve_generation_outcome [OF r] r show ?thesis by (auto simp: sample_env_def)
qed

end
