(* ===== verification/Stage_Completion.thy ===== *)
theory Stage_Completion
  imports Dispatch Content_Merge Media_Generation
begin

text \<open>
  Stage transitions of the pipeline (\<open>pipeline/stage_completion.py\<close>): starting a delivery, completing
  each stage with its output, failing it, abandoning a cancelled delivery. Every handler works on the
  database as one transaction and relays the outbox rows it enqueued after its commit; the relay never
  affects the outcome.
\<close>

section \<open>Attempts and recovery snapshots\<close>

definition put_attempt :: "uuid \<times> stage \<times> uuid \<times> int \<Rightarrow> stage_attempt \<Rightarrow> db \<Rightarrow> db" where
  "put_attempt k a d = d\<lparr>db_attempts := (db_attempts d)(k \<mapsto> a)\<rparr>"

definition opt_or :: "'a option \<Rightarrow> 'a option \<Rightarrow> 'a option" where
  "opt_or a b = (case a of Some x \<Rightarrow> Some x | None \<Rightarrow> b)"

text \<open>Python's \<open>or\<close> on optional text: the empty text counts as missing.\<close>

definition text_or :: "text_value option \<Rightarrow> text_value option \<Rightarrow> text_value option" where
  "text_or a b = (case a of Some x \<Rightarrow> if x \<noteq> [] then Some x else b | None \<Rightarrow> b)"

definition record_attempt_started :: "env \<Rightarrow> uuid \<Rightarrow> stage \<Rightarrow> int \<Rightarrow> uuid \<Rightarrow> time \<Rightarrow> db \<Rightarrow> db" where
  "record_attempt_started env f s attempt ev started_at d =
     (case db_attempts d (f, s, ev, attempt) of
        None \<Rightarrow>
          put_attempt (f, s, ev, attempt)
            \<lparr>at_recovery_item = map_option ri_id (load_recovery_item d ev),
             at_outcome = ATTEMPT_PROCESSING,
             at_worker_role = env_worker_role env, at_worker_instance = env_worker_instance env,
             at_normalized_reason = None, at_safe_error_text = None,
             at_started_at = started_at, at_finished_at = None\<rparr> d
      | Some row \<Rightarrow>
          put_attempt (f, s, ev, attempt)
            (row\<lparr>at_outcome := ATTEMPT_PROCESSING, at_normalized_reason := None,
                 at_safe_error_text := None, at_finished_at := None,
                 at_worker_role := text_or (env_worker_role env) (at_worker_role row),
                 at_worker_instance := text_or (env_worker_instance env) (at_worker_instance row)\<rparr>) d)"

definition nonblank :: "text_value option \<Rightarrow> text_value option" where
  "nonblank t = (case t of Some x \<Rightarrow> if x \<noteq> [] then Some x else None | None \<Rightarrow> None)"

definition record_attempt_finished ::
  "env \<Rightarrow> uuid \<Rightarrow> stage \<Rightarrow> int \<Rightarrow> uuid \<Rightarrow> attempt_outcome \<Rightarrow> text_value option \<Rightarrow> text_value option \<Rightarrow> time \<Rightarrow> db \<Rightarrow> db" where
  "record_attempt_finished env f s attempt ev outcome reason error finished_at d =
     (let row = (case db_attempts d (f, s, ev, attempt) of
                   Some r \<Rightarrow> r
                 | None \<Rightarrow>
                     \<lparr>at_recovery_item = map_option ri_id (load_recovery_item d ev),
                      at_outcome = ATTEMPT_PROCESSING,
                      at_worker_role = env_worker_role env, at_worker_instance = env_worker_instance env,
                      at_normalized_reason = None, at_safe_error_text = None,
                      at_started_at = finished_at, at_finished_at = None\<rparr>)
      in put_attempt (f, s, ev, attempt)
           (row\<lparr>at_outcome := outcome,
                at_normalized_reason := map_option trim_reason (nonblank reason),
                at_safe_error_text := map_option trim_error_text (nonblank error),
                at_finished_at := Some finished_at\<rparr>) d)"

text \<open>
  The readers of a journal snapshot kept as JSON. \<open>JUuid\<close> and \<open>JTime\<close> are what \<open>str(uuid)\<close> and the \<open>isoformat()\<close> of an
  aware time wrote, so reading them back gives the value. Another text may still be a UUID to \<open>uuid.UUID\<close>; another text
  at a time, a naive time among them, is none (the snapshots of this program hold no others).
\<close>

definition snapshot_int :: "jval option \<Rightarrow> int \<Rightarrow> int" where
  "snapshot_int v fallback =
     (case v of
        Some (JInt n) \<Rightarrow> max n 0
      | Some (JText t) \<Rightarrow> (case py_int t of Some n \<Rightarrow> max n 0 | None \<Rightarrow> fallback)
      | _ \<Rightarrow> fallback)"

definition snapshot_uuid :: "jval option \<Rightarrow> uuid option" where
  "snapshot_uuid v = (case v of Some (JUuid u) \<Rightarrow> Some u | Some (JText t) \<Rightarrow> uuid_read t | _ \<Rightarrow> None)"

definition snapshot_datetime :: "jval option \<Rightarrow> time option" where
  "snapshot_datetime v = (case v of Some (JTime t) \<Rightarrow> Some t | _ \<Rightarrow> None)"

definition snapshot_optional_text :: "jval option \<Rightarrow> text_value option" where
  "snapshot_optional_text v =
     (case v of Some (JText t) \<Rightarrow> if t \<noteq> [] then Some t else None | _ \<Rightarrow> None)"

definition snapshot_status :: "jval option \<Rightarrow> stage_status" where
  "snapshot_status v =
     (case v of
        Some (JText t) \<Rightarrow> (case stage_status_of_text t of Some s \<Rightarrow> s | None \<Rightarrow> STAGE_SUCCEEDED)
      | _ \<Rightarrow> STAGE_SUCCEEDED)"

definition restore_stage_state_after_derivative_failure ::
  "json_object \<Rightarrow> int \<Rightarrow> stage_journal \<Rightarrow> stage_journal" where
  "restore_stage_state_after_derivative_failure snap fallback_attempt e =
     e\<lparr>sj_status := snapshot_status (snap ''status''),
       sj_attempt_count := snapshot_int (snap ''attempt_count'') fallback_attempt,
       sj_last_event_id := snapshot_uuid (snap ''last_event_id''),
       sj_normalized_reason := snapshot_optional_text (snap ''normalized_reason''),
       sj_last_error_text := snapshot_optional_text (snap ''last_error_text''),
       sj_is_retryable := (case snap ''is_retryable'' of Some (JBool b) \<Rightarrow> b | _ \<Rightarrow> False),
       sj_retry_after := snapshot_datetime (snap ''retry_after''),
       sj_started_at := snapshot_datetime (snap ''started_at''),
       sj_finished_at := snapshot_datetime (snap ''finished_at'')\<rparr>"

definition should_preserve_file_status :: "recovery_item option \<Rightarrow> meme_file \<Rightarrow> bool" where
  "should_preserve_file_status item file =
     (case item of
        None \<Rightarrow> False
      | Some i \<Rightarrow>
          if ri_action i = REGENERATE_DERIVATIVES then True
          else ri_preserve_ready i \<and> mf_status file = FILE_READY)"

section \<open>Starting a delivery\<close>

definition started_entry :: "env \<Rightarrow> int \<Rightarrow> uuid \<Rightarrow> stage_journal \<Rightarrow> stage_journal" where
  "started_entry env attempt ev e =
     e\<lparr>sj_status := STAGE_PROCESSING,
       sj_attempt_count := max (sj_attempt_count e) attempt,
       sj_last_event_id := Some ev,
       sj_normalized_reason := None,
       sj_last_error_text := None,
       sj_is_retryable := True,
       sj_retry_after := None,
       sj_started_at := Some (env_now env),
       sj_finished_at := None\<rparr>"

definition work_context :: "meme_file \<Rightarrow> stage \<Rightarrow> recovery_item option \<Rightarrow> bool \<Rightarrow> stage_work_context" where
  "work_context file s item preserve =
     \<lparr>wc_meme = mf_meme_id file, wc_file = mf_id file, wc_stage = s,
      wc_mime_type = mf_mime_type file, wc_original_key = mf_s3_original_key file,
      wc_web_video_key = mf_s3_web_video_key file,
      wc_recovery_item = map_option ri_id item, wc_preserve_ready = preserve,
      wc_retry_limit = (case item of Some i \<Rightarrow> ri_retry_limit i | None \<Rightarrow> 3)\<rparr>"

definition start_stage_processing ::
  "env \<Rightarrow> uuid \<Rightarrow> stage \<Rightarrow> int \<Rightarrow> uuid \<Rightarrow> db \<Rightarrow> (stage_work_context option) outcome" where
  "start_stage_processing env f s attempt ev d =
     (case get_journal d f s of
        None \<Rightarrow> (Inl (PipelineIngestError NoJournalState), d)
      | Some e \<Rightarrow>
          if sj_last_event_id e = Some ev \<and> sj_status e \<in> {STAGE_PROCESSING, STAGE_SUCCEEDED}
          then (if env_commit_ok env then (Inr None, d) else (Inl SQLAlchemyError, d))
          else
     (case get_meme_file d f of
        Inl err \<Rightarrow> (Inl err, d)
      | Inr file \<Rightarrow>
     (case ensure_stage_attempt_is_current e attempt of
        Inl err \<Rightarrow> (Inl err, d)
      | Inr _ \<Rightarrow>
          (let item = load_recovery_item d ev;
               d1 = put_journal env (started_entry env attempt ev e) d;
               d2 = record_attempt_started env f s attempt ev (env_now env) d1;
               preserve = should_preserve_file_status item file;
               d3 = (if s \<notin> set SYNC_STAGES \<and> \<not> preserve
                     then put_file (file\<lparr>mf_status := FILE_PROCESSING\<rparr>) d2 else d2)
           in case commit_stage_mutation env ''Failed to persist running stage state.'' d d3 of
                (Inl err, d') \<Rightarrow> (Inl err, d')
              | (Inr _, d') \<Rightarrow> (Inr (Some (work_context file s item preserve)), d')))))"

section \<open>Success\<close>

definition succeeded_entry :: "env \<Rightarrow> int \<Rightarrow> uuid \<Rightarrow> stage_journal \<Rightarrow> stage_journal" where
  "succeeded_entry env attempt ev e =
     e\<lparr>sj_status := STAGE_SUCCEEDED,
       sj_attempt_count := max (sj_attempt_count e) attempt,
       sj_last_event_id := Some ev,
       sj_normalized_reason := None,
       sj_last_error_text := None,
       sj_is_retryable := False,
       sj_retry_after := None,
       sj_started_at := opt_or (sj_started_at e) (Some (env_now env)),
       sj_finished_at := Some (env_now env)\<rparr>"

text \<open>
  \<open>_finalize_stage_success\<close> on the database \<open>d\<close> with the handler's pending changes; \<open>d0\<close> is the
  database a failed commit rolls back to, \<open>n\<close> the first free event id of the handler.
\<close>

definition finalize_stage_success ::
  "env \<Rightarrow> nat \<Rightarrow> meme_file \<Rightarrow> stage_journal \<Rightarrow> stage \<Rightarrow> int \<Rightarrow> uuid \<Rightarrow> dispatch_event list \<Rightarrow> db \<Rightarrow> db \<Rightarrow>
     unit outcome" where
  "finalize_stage_success env n file e s attempt ev extra d0 d =
     (let d1 = put_journal env (succeeded_entry env attempt ev e) d;
          d2 = record_attempt_finished env (mf_id file) s attempt ev ATTEMPT_SUCCEEDED None None (env_now env) d1;
          item = load_recovery_item d2 ev
      in case (if (case item of Some i \<Rightarrow> ri_suppress_fanout i | None \<Rightarrow> False) then Inr ([], d2)
               else prepare_downstream_dispatches env n file s (env_now env) d2) of
           Inl err \<Rightarrow> (Inl err, d0)
         | Inr (dispatches, d3) \<Rightarrow>
             (let preserve = should_preserve_file_status item file;
                  d4 = (if s = CLASSIFY \<and> \<not> preserve then put_file (file\<lparr>mf_status := FILE_READY\<rparr>) d3
                        else if s \<notin> set SYNC_STAGES \<and> \<not> preserve
                          then put_file (file\<lparr>mf_status := FILE_PROCESSING\<rparr>) d3
                        else d3)
              in case enqueue_dispatch_events env (dispatches @ extra) [] d4 of
                   Inl err \<Rightarrow> (Inl err, d0)
                 | Inr (ids, d5) \<Rightarrow>
                     (case commit_stage_mutation env ''Failed to persist successful stage state.'' d0 d5 of
                        (Inl err, d') \<Rightarrow> (Inl err, d')
                      | (Inr _, d') \<Rightarrow> (Inr (), snd (relay_best_effort env ids d')))))"

definition mark_stage_succeeded :: "env \<Rightarrow> uuid \<Rightarrow> stage \<Rightarrow> int \<Rightarrow> uuid \<Rightarrow> db \<Rightarrow> unit outcome" where
  "mark_stage_succeeded env f s attempt ev d =
     (case get_meme_file_and_stage_entry d f s of
        Inl err \<Rightarrow> (Inl err, d)
      | Inr (file, e) \<Rightarrow>
     (case ensure_stage_attempt_is_current e attempt of
        Inl err \<Rightarrow> (Inl err, d)
      | Inr _ \<Rightarrow> finalize_stage_success env 0 file e s attempt ev [] d d))"

subsection \<open>Transcode\<close>

definition is_moving_media :: "meme_file \<Rightarrow> bool" where
  "is_moving_media file =
     (py_lower (case mf_mime_type file of None \<Rightarrow> [] | Some t \<Rightarrow> t) \<in> set SUPPORTED_MOVING_MEDIA_MIME_TYPES)"

definition supersede_previous :: "env \<Rightarrow> uuid option \<Rightarrow> media_generation \<Rightarrow> db \<Rightarrow> db" where
  "supersede_previous env active g d =
     (case Option.bind active (get_generation d) of
        None \<Rightarrow> d
      | Some prev \<Rightarrow>
          if mg_id prev = mg_id g then d
          else put_generation (prev\<lparr>mg_status := SUPERSEDED, mg_superseded_at := Some (env_now env),
                                    mg_cleanup_status := CLEANUP_PENDING\<rparr>) d)"

definition activated_generation :: "env \<Rightarrow> media_generation \<Rightarrow> media_generation" where
  "activated_generation env g =
     g\<lparr>mg_status := ACTIVE, mg_activated_at := Some (env_now env),
       mg_cleanup_status := NOT_ELIGIBLE, mg_cleanup_error := None\<rparr>"

definition activated_file :: "env \<Rightarrow> media_generation \<Rightarrow> normalized_media \<Rightarrow> meme_file \<Rightarrow> meme_file" where
  "activated_file env g result file =
     file\<lparr>mf_s3_web_video_key := Some (mg_web_video_key g),
          mf_active_generation := Some (mg_id g),
          mf_source_has_audio := nm_source_has_audio result,
          mf_web_video_has_audio := nm_web_video_has_audio result,
          mf_web_video_profile := nm_web_video_profile result,
          mf_web_video_verified_at :=
            opt_or (nm_web_video_verified_at result) (opt_or (mg_verified_at g) (Some (env_now env)))\<rparr>"

definition stale_generation :: "media_generation \<Rightarrow> media_generation" where
  "stale_generation g =
     g\<lparr>mg_status := STALE, mg_cleanup_status := CLEANUP_PENDING,
       mg_failure_reason := Some ''active_pointer_changed'',
       mg_failure_text := Some ''The active web-video pointer changed before activation.''\<rparr>"

definition complete_transcode_stage ::
  "env \<Rightarrow> uuid \<Rightarrow> int \<Rightarrow> uuid \<Rightarrow> normalized_media \<Rightarrow> db \<Rightarrow> unit outcome" where
  "complete_transcode_stage env f attempt ev result d =
     (case get_meme_file_and_stage_entry d f TRANSCODE of
        Inl err \<Rightarrow> (Inl err, d)
      | Inr (file, e) \<Rightarrow>
     (case ensure_stage_attempt_is_current e attempt of
        Inl err \<Rightarrow> (Inl err, d)
      | Inr _ \<Rightarrow>
          (let finish = (\<lambda>file' d'.
                 let file'' = file'\<lparr>mf_quality_score := nm_quality_score result,
                                    mf_blur_hash := nm_blur_hash result\<rparr>
                 in finalize_stage_success env 0 file'' e TRANSCODE attempt ev [] d (put_file file'' d'))
           in if is_moving_media file \<and>
                 (nm_generation_id result = None \<or> nm_web_video_key result = None \<or>
                  nm_preview_key result = None)
              then (Inl (MediaGenerationConflictError NeedsGenerationAndArtifacts), d)
              else
                (case (nm_web_video_key result, nm_generation_id result) of
                   (None, _) \<Rightarrow>
                     finish (file\<lparr>mf_s3_web_video_key := None, mf_active_generation := None,
                                  mf_source_has_audio := nm_source_has_audio result,
                                  mf_web_video_has_audio := None, mf_web_video_profile := None,
                                  mf_web_video_verified_at := None\<rparr>) d
                 | (Some key, None) \<Rightarrow>
                     finish (file\<lparr>mf_s3_web_video_key := Some key, mf_active_generation := None,
                                  mf_source_has_audio := nm_source_has_audio result,
                                  mf_web_video_has_audio := nm_web_video_has_audio result,
                                  mf_web_video_profile := nm_web_video_profile result,
                                  mf_web_video_verified_at := nm_web_video_verified_at result\<rparr>) d
                 | (Some key, Some gid) \<Rightarrow>
                     (case get_generation d gid of
                        None \<Rightarrow> (Inl (MediaGenerationConflictError GenerationNotOwned), d)
                      | Some g \<Rightarrow>
                          if mg_file g \<noteq> Some (mf_id file)
                          then (Inl (MediaGenerationConflictError GenerationNotOwned), d)
                          else if mg_status g \<noteq> UPLOADED
                          then (Inl (MediaGenerationConflictError GenerationNotUploaded), d)
                          else if mf_s3_web_video_key file \<noteq> mg_expected_key g
                          then (if env_commit_ok env
                                then (Inl (MediaGenerationConflictError PointerChangedBeforeActivation),
                                      put_generation (stale_generation g) d)
                                else (Inl SQLAlchemyError, d))
                          else if mg_web_video_key g \<noteq> key \<or> Some (mg_preview_key g) \<noteq> nm_preview_key result
                          then (Inl (MediaGenerationConflictError OutputKeysMismatch), d)
                          else
                            finish (activated_file env g result file)
                              (put_generation (activated_generation env g)
                                (supersede_previous env (mf_active_generation file) g d)))))))"

subsection \<open>OCR, embedding, classification\<close>

definition complete_ocr_stage ::
  "env \<Rightarrow> uuid \<Rightarrow> int \<Rightarrow> uuid \<Rightarrow> ocr_result \<Rightarrow> db \<Rightarrow> unit outcome" where
  "complete_ocr_stage env f attempt ev result d =
     (case get_meme_file_and_stage_entry d f OCR of
        Inl err \<Rightarrow> (Inl err, d)
      | Inr (file, e) \<Rightarrow>
     (case ensure_stage_attempt_is_current e attempt of
        Inl err \<Rightarrow> (Inl err, d)
      | Inr _ \<Rightarrow>
          finalize_stage_success env 0 file e OCR attempt ev [] d
            (d\<lparr>db_ocr := (db_ocr d)(mf_id file \<mapsto> result\<lparr>oc_last_event_id := Some ev\<rparr>)\<rparr>)))"

record embedding_result =
  er_vector :: "rat list"
  er_dimensions :: nat
  er_model :: text_value
  er_input_hash :: text_value

definition validate_embedding_contract :: "env \<Rightarrow> embedding_result \<Rightarrow> pipeline_error + unit" where
  "validate_embedding_contract env r =
     (if er_dimensions r \<noteq> env_embedding_dimensions env then Inl (PipelineIngestError BadDimensions)
      else if length (er_vector r) \<noteq> env_embedding_dimensions env
        then Inl (PipelineIngestError BadVectorLength)
      else Inr ())"

definition persist_embedding_cache_row :: "meme_file \<Rightarrow> embedding_result \<Rightarrow> db \<Rightarrow> db" where
  "persist_embedding_cache_row file r d =
     d\<lparr>db_embeddings := (db_embeddings d)((er_input_hash r, er_model r) \<mapsto> (er_vector r, mf_id file))\<rparr>"

definition complete_embed_stage ::
  "env \<Rightarrow> uuid \<Rightarrow> int \<Rightarrow> uuid \<Rightarrow> embedding_result \<Rightarrow> similarity_match list \<Rightarrow> db \<Rightarrow> merge_outcome outcome" where
  "complete_embed_stage env f attempt ev result matches d =
     (case get_meme_file_and_stage_entry d f EMBED of
        Inl err \<Rightarrow> (Inl err, d)
      | Inr (file, e) \<Rightarrow>
     (case ensure_stage_attempt_is_current e attempt of
        Inl err \<Rightarrow> (Inl err, d)
      | Inr _ \<Rightarrow>
     (case validate_embedding_contract env result of
        Inl err \<Rightarrow> (Inl err, d)
      | Inr _ \<Rightarrow>
     (case maybe_merge_after_embed env file matches (persist_embedding_cache_row file result d) of
        Inl err \<Rightarrow> (Inl err, d)
      | Inr (merge, d1) \<Rightarrow>
          if mo_merged merge \<and> \<not> env_flush_ok env then (Inl PipelineMergeTransactionError, d)
          else
            (let merged_file = (case get_file d1 f of Some r \<Rightarrow> r | None \<Rightarrow> file)
             in case finalize_stage_success env 0 merged_file e EMBED attempt ev [] d d1 of
                  (Inl err, d') \<Rightarrow> (Inl err, d')
                | (Inr _, d') \<Rightarrow> (Inr merge, d'))))))"

definition complete_classify_stage ::
  "env \<Rightarrow> uuid \<Rightarrow> int \<Rightarrow> uuid \<Rightarrow> bool \<Rightarrow> db \<Rightarrow> unit outcome" where
  "complete_classify_stage env f attempt ev is_nsfw d =
     (case get_meme_file_and_stage_entry d f CLASSIFY of
        Inl err \<Rightarrow> (Inl err, d)
      | Inr (file, e) \<Rightarrow>
     (case ensure_stage_attempt_is_current e attempt of
        Inl err \<Rightarrow> (Inl err, d)
      | Inr _ \<Rightarrow>
     (case get_canonical_meme d (mf_meme_id file) of
        Inl err \<Rightarrow> (Inl err, d)
      | Inr m \<Rightarrow>
          finalize_stage_success env 0 file e CLASSIFY attempt ev [] d
            (put_meme (apply_canonical_primary_truth (m\<lparr>me_is_nsfw := me_is_nsfw m \<or> is_nsfw\<rparr>) d) d))))"

subsection \<open>Sync targets\<close>

definition build_sync_success_event ::
  "env \<Rightarrow> meme_file \<Rightarrow> stage_journal \<Rightarrow> event_type \<Rightarrow> stage \<Rightarrow> int \<Rightarrow> pipeline_error + dispatch_event" where
  "build_sync_success_event env file e ty s attempt =
     make_dispatch_event
       \<lparr>ev_id = env_fresh env 0, ev_type = ty, ev_meme = mf_meme_id file, ev_file = mf_id file,
        ev_stage = s, ev_source_kind = MANUAL_UPLOAD, ev_original_key = mf_s3_original_key file,
        ev_attempt = max (max (sj_attempt_count e) attempt) 1, ev_created_at = env_now env\<rparr>"

definition complete_sync_target_stage ::
  "env \<Rightarrow> sync_target \<Rightarrow> uuid \<Rightarrow> int \<Rightarrow> uuid \<Rightarrow> (text_value \<times> jval) list \<Rightarrow> db \<Rightarrow> sync_snapshot outcome" where
  "complete_sync_target_stage env t f attempt ev preview d =
     (let s = SYNC_STAGE_BY_TARGET t
      in case get_meme_file_and_stage_entry d f s of
           Inl err \<Rightarrow> (Inl err, d)
         | Inr (file, e) \<Rightarrow>
        (case ensure_stage_attempt_is_current e attempt of
           Inl err \<Rightarrow> (Inl err, d)
         | Inr _ \<Rightarrow>
             (let already = (sj_status e = STAGE_SUCCEEDED \<and> sj_last_event_id e = Some ev);
                  model = (if preview \<noteq> [] then Some (preview, env_now env) else None);
                  d1 = upsert_sync_target_snapshot env f t SYNC_SYNCED (Some ev) model None None
                         (\<not> already) True d
              in case (if already then Inr []
                       else (case build_sync_success_event env file e
                                    (SYNC_SUCCESS_EVENT_TYPE_BY_TARGET t) s attempt of
                               Inl err \<Rightarrow> Inl err | Inr event \<Rightarrow> Inr [event])) of
                   Inl err \<Rightarrow> (Inl err, d)
                 | Inr extra \<Rightarrow>
                     (case finalize_stage_success env 1 file e s attempt ev extra d d1 of
                        (Inl err, d') \<Rightarrow> (Inl err, d')
                      | (Inr _, d') \<Rightarrow>
                          (case load_sync_target_status d' f t of
                             Inl err \<Rightarrow> (Inl err, d') | Inr row \<Rightarrow> (Inr row, d'))))))"

section \<open>Failure\<close>

definition failed_entry :: "env \<Rightarrow> int \<Rightarrow> uuid \<Rightarrow> text_value \<Rightarrow> text_value \<Rightarrow> bool \<Rightarrow> stage_journal \<Rightarrow> stage_journal" where
  "failed_entry env attempt ev reason error retryable e =
     e\<lparr>sj_status := STAGE_FAILED,
       sj_attempt_count := max (sj_attempt_count e) attempt,
       sj_last_event_id := Some ev,
       sj_normalized_reason := Some (trim_reason reason),
       sj_last_error_text := Some (trim_error_text error),
       sj_is_retryable := retryable,
       sj_retry_after := (if retryable then Some (env_now env + env_retry_backoff env) else None),
       sj_started_at := opt_or (sj_started_at e) (Some (env_now env)),
       sj_finished_at := Some (env_now env)\<rparr>"

text \<open>The charge of one retryable failure against the shared recovery budget.\<close>

definition charge_retry_budget :: "int \<Rightarrow> recovery_item \<Rightarrow> recovery_item" where
  "charge_retry_budget attempt i =
     (let budget_start = (case ri_attempt_budget_start i of
                            Some b \<Rightarrow> if b \<noteq> 0 then b else attempt | None \<Rightarrow> attempt)
      in i\<lparr>ri_attempt_budget_start := Some budget_start,
           ri_failures_consumed :=
             max (ri_failures_consumed i)
               (recovery_stage_publication_failures i + attempt - budget_start + 1)\<rparr>)"

definition exhaust_item :: "env \<Rightarrow> text_value \<Rightarrow> text_value \<Rightarrow> recovery_item \<Rightarrow> recovery_item" where
  "exhaust_item env reason error i =
     i\<lparr>ri_status := ITEM_FAILED, ri_normalized_reason := Some (trim_reason reason),
       ri_safe_error_text := Some (trim_error_text error),
       ri_finished_at := Some (env_now env), ri_reservation_active := False\<rparr>"

definition apply_stage_failure ::
  "env \<Rightarrow> meme_file \<Rightarrow> stage_journal \<Rightarrow> stage \<Rightarrow> int \<Rightarrow> uuid \<Rightarrow> text_value \<Rightarrow> text_value \<Rightarrow> bool \<Rightarrow> bool \<Rightarrow> db \<Rightarrow> db \<Rightarrow>
     unit outcome" where
  "apply_stage_failure env file e s attempt ev reason error retryable consume d0 d =
     (let e1 = failed_entry env attempt ev reason error retryable e;
          d1 = put_journal env e1 d;
          item = load_recovery_item d1 ev;
          maintenance = (case item of Some i \<Rightarrow> ri_action i = REGENERATE_DERIVATIVES | None \<Rightarrow> False);
          preserve = should_preserve_file_status item file;
          d2 = (if s \<notin> set SYNC_STAGES \<and> \<not> preserve \<and> \<not> maintenance
                then put_file (file\<lparr>mf_status := FILE_FAILED\<rparr>) d1 else d1);
          item1 = (if retryable \<and> consume then map_option (charge_retry_budget attempt) item else item);
          d3 = (case item1 of Some i \<Rightarrow> put_recovery i d2 | None \<Rightarrow> d2);
          d4 = record_attempt_finished env (mf_id file) s attempt ev
                 (if \<not> consume then ATTEMPT_SKIPPED
                  else if retryable then ATTEMPT_FAILED_RETRYABLE else ATTEMPT_FAILED_TERMINAL)
                 (Some reason) (Some error) (env_now env) d3;
          d5 = (case item1 of
                  Some i \<Rightarrow>
                    if maintenance
                    then (let d' = put_journal env
                                     (restore_stage_state_after_derivative_failure
                                       (ri_previous_stage_state i) (max (attempt - 1) 0) e1) d4
                          in if \<not> retryable \<or> ri_failures_consumed i \<ge> ri_retry_limit i
                             then put_recovery (exhaust_item env reason error i) d' else d')
                    else d4
                | None \<Rightarrow> d4)
      in commit_stage_mutation env ''Failed to persist failed stage state.'' d0 d5)"

definition mark_stage_failed_from ::
  "env \<Rightarrow> uuid \<Rightarrow> stage \<Rightarrow> int \<Rightarrow> uuid \<Rightarrow> text_value \<Rightarrow> text_value \<Rightarrow> bool \<Rightarrow> db \<Rightarrow> db \<Rightarrow> unit outcome" where
  "mark_stage_failed_from env f s attempt ev reason error retryable d0 d =
     (case get_meme_file_and_stage_entry d f s of
        Inl err \<Rightarrow> (Inl err, d0)
      | Inr (file, e) \<Rightarrow>
     (case ensure_stage_attempt_is_current e attempt of
        Inl err \<Rightarrow> (Inl err, d0)
      | Inr _ \<Rightarrow> apply_stage_failure env file e s attempt ev reason error retryable True d0 d))"

definition mark_stage_failed ::
  "env \<Rightarrow> uuid \<Rightarrow> stage \<Rightarrow> int \<Rightarrow> uuid \<Rightarrow> text_value \<Rightarrow> text_value \<Rightarrow> bool \<Rightarrow> db \<Rightarrow> unit outcome" where
  "mark_stage_failed env f s attempt ev reason error retryable d =
     mark_stage_failed_from env f s attempt ev reason error retryable d d"

definition fail_sync_target_stage ::
  "env \<Rightarrow> sync_target \<Rightarrow> uuid \<Rightarrow> int \<Rightarrow> uuid \<Rightarrow> text_value \<Rightarrow> text_value \<Rightarrow> db \<Rightarrow> sync_snapshot outcome" where
  "fail_sync_target_stage env t f attempt ev reason error d =
     (let retryable = (reason \<noteq> SYNC_MALFORMED_REASON_BY_TARGET t);
          d1 = upsert_sync_target_snapshot env f t SYNC_FAILED (Some ev) None (Some reason) (Some error)
                 True False d
      in case mark_stage_failed_from env f (SYNC_STAGE_BY_TARGET t) attempt ev reason error retryable d d1 of
           (Inl err, d') \<Rightarrow> (Inl err, d')
         | (Inr _, d') \<Rightarrow>
             (case load_sync_target_status d' f t of
                Inl err \<Rightarrow> (Inl err, d') | Inr row \<Rightarrow> (Inr row, d')))"

section \<open>Cancelled deliveries\<close>

datatype cancelled_disposition = ACKNOWLEDGE | DEAD_LETTER | REQUEUE

definition settled_disposition :: "env \<Rightarrow> int \<Rightarrow> stage_journal \<Rightarrow> cancelled_disposition" where
  "settled_disposition env attempt e =
     (if sj_status e = STAGE_FAILED \<and> (\<not> sj_is_retryable e \<or> attempt \<ge> env_retry_max_attempts env)
      then DEAD_LETTER
      else if sj_status e = STAGE_PENDING \<or> (sj_status e = STAGE_FAILED \<and> sj_is_retryable e)
      then REQUEUE else ACKNOWLEDGE)"

definition abandon_stage_processing ::
  "env \<Rightarrow> uuid \<Rightarrow> stage \<Rightarrow> int \<Rightarrow> uuid \<Rightarrow> text_value \<Rightarrow> text_value \<Rightarrow> db \<Rightarrow>
     (cancelled_disposition \<times> text_value option) outcome" where
  "abandon_stage_processing env f s attempt ev reason error d =
     (case get_journal d f s of
        None \<Rightarrow> (Inl (PipelineIngestError NoJournalState), d)
      | Some e \<Rightarrow>
          if sj_last_event_id e \<noteq> Some ev \<or> attempt < sj_attempt_count e
          then (if env_commit_ok env then (Inr (ACKNOWLEDGE, None), d) else (Inl SQLAlchemyError, d))
          else if sj_status e \<noteq> STAGE_PROCESSING
          then (if env_commit_ok env
                then (let disposition = settled_disposition env attempt e
                      in (Inr (disposition,
                               if disposition = DEAD_LETTER then sj_normalized_reason e else None), d))
                else (Inl SQLAlchemyError, d))
          else
     (case get_meme_file d f of
        Inl err \<Rightarrow> (Inl err, d)
      | Inr file \<Rightarrow>
     (case ensure_stage_attempt_is_current e attempt of
        Inl err \<Rightarrow> (Inl err, d)
      | Inr _ \<Rightarrow>
     (case apply_stage_failure env file e s attempt ev reason error True False d d of
        (Inl err, d') \<Rightarrow> (Inl err, d')
      | (Inr _, d') \<Rightarrow> (Inr (REQUEUE, None), d')))))"

end
