(* ===== verification/Stage_Properties.thy ===== *)
theory Stage_Properties
  imports Stage_Completion
begin

text \<open>
  What the stage transitions of \<open>Stage_Completion\<close> guarantee: stale deliveries change nothing, a
  redelivered start is idempotent, success hands over to the next stage atomically, only
  classification makes a file ready, recovery work preserves a ready file, activation swaps the media
  pointer consistently, a failed derivative restores the journal, and a cancelled delivery never
  overwrites later truth.
\<close>

section \<open>Effects of the building blocks\<close>

lemma put_attempt_frame [simp]:
  "db_journal (put_attempt k a d) = db_journal d"
  "get_journal (put_attempt k a d) f s = get_journal d f s"
  "get_file (put_attempt k a d) f = get_file d f"
  "get_meme (put_attempt k a d) m = get_meme d m"
  "get_generation (put_attempt k a d) g = get_generation d g"
  "get_recovery (put_attempt k a d) i = get_recovery d i"
  "load_recovery_item (put_attempt k a d) ev = load_recovery_item d ev"
  "db_outbox (put_attempt k a d) = db_outbox d"
  "db_recovery (put_attempt k a d) = db_recovery d"
  "db_files (put_attempt k a d) = db_files d"
  "db_snapshots (put_attempt k a d) = db_snapshots d"
  by (simp_all add: put_attempt_def get_journal_def get_file_def get_meme_def get_generation_def
      get_recovery_def load_recovery_item_def)

lemma record_attempt_started_frame [simp]:
  "db_journal (record_attempt_started env f s n ev t d) = db_journal d"
  "get_journal (record_attempt_started env f s n ev t d) g u = get_journal d g u"
  "get_file (record_attempt_started env f s n ev t d) g = get_file d g"
  "get_generation (record_attempt_started env f s n ev t d) h = get_generation d h"
  "db_outbox (record_attempt_started env f s n ev t d) = db_outbox d"
  "db_files (record_attempt_started env f s n ev t d) = db_files d"
  "load_recovery_item (record_attempt_started env f s n ev t d) e = load_recovery_item d e"
  by (simp_all add: record_attempt_started_def split: option.splits)

lemma record_attempt_finished_frame [simp]:
  "db_journal (record_attempt_finished env f s n ev oc r e t d) = db_journal d"
  "get_journal (record_attempt_finished env f s n ev oc r e t d) g u = get_journal d g u"
  "get_file (record_attempt_finished env f s n ev oc r e t d) g = get_file d g"
  "get_generation (record_attempt_finished env f s n ev oc r e t d) h = get_generation d h"
  "get_meme (record_attempt_finished env f s n ev oc r e t d) m = get_meme d m"
  "get_recovery (record_attempt_finished env f s n ev oc r e t d) i = get_recovery d i"
  "db_outbox (record_attempt_finished env f s n ev oc r e t d) = db_outbox d"
  "db_recovery (record_attempt_finished env f s n ev oc r e t d) = db_recovery d"
  "db_files (record_attempt_finished env f s n ev oc r e t d) = db_files d"
  "db_snapshots (record_attempt_finished env f s n ev oc r e t d) = db_snapshots d"
  "load_recovery_item (record_attempt_finished env f s n ev oc r e t d) x = load_recovery_item d x"
  by (simp_all add: record_attempt_finished_def Let_def)

text \<open>The dispatches add pending journal rows where there were none, and change nothing else.\<close>

definition journal_extends :: "db \<Rightarrow> db \<Rightarrow> bool" where
  "journal_extends d d' \<longleftrightarrow>
     d' = d\<lparr>db_journal := db_journal d'\<rparr> \<and>
     (\<forall>k e. db_journal d k = Some e \<longrightarrow> db_journal d' k = Some e) \<and>
     (\<forall>k e. db_journal d k = None \<longrightarrow> db_journal d' k = Some e \<longrightarrow>
        (sj_file e, sj_stage e) = k \<and> sj_status e = STAGE_PENDING \<and> sj_attempt_count e = 0)"

lemma journal_extends_refl [simp]: "journal_extends d d"
  by (simp add: journal_extends_def)

lemma journal_extends_trans: "journal_extends a b \<Longrightarrow> journal_extends b c \<Longrightarrow> journal_extends a c"
  unfolding journal_extends_def
  by (intro conjI; (cases a; cases b; cases c; simp)?) (metis not_Some_eq)+

lemma journal_extends_tables:
  assumes "journal_extends d d'"
  shows "db_files d' = db_files d" "db_outbox d' = db_outbox d" "db_generations d' = db_generations d"
    "db_recovery d' = db_recovery d" "get_file d' f = get_file d f" "get_generation d' g = get_generation d g"
    "get_meme d' m = get_meme d m" "db_snapshots d' = db_snapshots d"
    "load_recovery_item d' ev = load_recovery_item d ev"
proof -
  obtain j where "d' = d\<lparr>db_journal := j\<rparr>" using assms unfolding journal_extends_def by blast
  then show "db_files d' = db_files d" "db_outbox d' = db_outbox d" "db_generations d' = db_generations d"
    "db_recovery d' = db_recovery d" "get_file d' f = get_file d f" "get_generation d' g = get_generation d g"
    "get_meme d' m = get_meme d m" "db_snapshots d' = db_snapshots d"
    "load_recovery_item d' ev = load_recovery_item d ev"
    by (simp_all add: get_file_def get_generation_def get_meme_def load_recovery_item_def)
qed

lemma build_downstream_Inr:
  assumes "build_downstream_dispatch env n file p nxt t d = Inr (event, d')"
  shows "\<exists>ty row key. DOWNSTREAM_STAGE_EVENT_TYPES p = Some ty \<and> ev_id event = env_fresh env n \<and>
      ev_type event = ty \<and> ev_meme event = mf_meme_id file \<and> ev_file event = mf_id file \<and>
      ev_stage event = nxt \<and> ev_attempt event = 1 \<and> ev_original_key event = key \<and>
      d' = put_journal env row d \<and> sj_file row = mf_id file \<and> sj_stage row = nxt \<and>
      sj_status row = STAGE_PENDING \<and> sj_attempt_count row = 0 \<and>
      sj_last_event_id row = Some (env_fresh env n)"
  using assms
  by (auto simp: build_downstream_dispatch_def make_dispatch_event_def Let_def
      split: option.splits sum.splits if_splits)

lemma build_downstream_extends:
  assumes "build_downstream_dispatch env n file p nxt t d = Inr (event, d')"
    and "get_journal d (mf_id file) nxt = None"
  shows "journal_extends d d'"
  using build_downstream_Inr [OF assms(1)] assms(2)
  by (auto simp: journal_extends_def put_journal_def get_journal_def split: if_splits)

lemma classify_fan_out_extends:
  "classify_fan_out_loop env n file t stages acc d = Inr (events, d') \<Longrightarrow> journal_extends d d'"
proof (induction stages arbitrary: n acc d)
  case Nil
  then show ?case by simp
next
  case (Cons s stages)
  show ?case
  proof (cases "get_journal d (mf_id file) s")
    case (Some e)
    with Cons.prems show ?thesis by simp
  next
    case None
    then obtain event d1 where b: "build_downstream_dispatch env n file CLASSIFY s t d = Inr (event, d1)"
      and rest: "classify_fan_out_loop env (n + 1) file t stages (acc @ [event]) d1 = Inr (events, d')"
      using Cons.prems by (auto split: sum.splits)
    from build_downstream_extends [OF b None] Cons.IH [OF rest] show ?thesis
      by (rule journal_extends_trans)
  qed
qed

lemma prepare_downstream_extends:
  "prepare_downstream_dispatches env n file s t d = Inr (events, d') \<Longrightarrow> journal_extends d d'"
  by (auto simp: prepare_downstream_dispatches_def intro: classify_fan_out_extends build_downstream_extends
      split: if_splits option.splits sum.splits)

lemma enqueue_dispatch_event_Inr:
  assumes "enqueue_dispatch_event env e d = Inr (i, d')"
  shows "\<exists>m. i = ev_id e \<and> ob_id m = ev_id e \<and> ob_payload m = DispatchPayload e \<and>
      ob_status m = OUTBOX_PENDING \<and> ob_attempt_count m = 0 \<and> ob_message_id m = MsgUuid (ev_id e) \<and>
      d' = d\<lparr>db_outbox := db_outbox d @ [m]\<rparr>"
proof -
  from assms obtain m where m: "outbox_message_from_spec (ev_id e) (build_pipeline_dispatch_message_spec env e) = Inr m"
    "i = ob_id m" "d' = d\<lparr>db_outbox := db_outbox d @ [m]\<rparr>"
    unfolding enqueue_dispatch_event_def by (rule publish_to_outbox_Inr)
  have "ob_id m = ev_id e \<and> ob_payload m = DispatchPayload e \<and> ob_status m = OUTBOX_PENDING \<and>
      ob_attempt_count m = 0 \<and> ob_message_id m = MsgUuid (ev_id e)"
    using m(1)
    by (auto simp: outbox_message_from_spec_def build_pipeline_dispatch_message_spec_def
        outbox_message_id_from_message_id_def require_message_id_def split: sum.splits)
  with m show ?thesis by (intro exI [of _ m]) simp
qed

text \<open>The outbox rows of a list of events, in order.\<close>

definition carries :: "outbox_message \<Rightarrow> dispatch_event \<Rightarrow> bool" where
  "carries m e \<longleftrightarrow> ob_id m = ev_id e \<and> ob_payload m = DispatchPayload e \<and> ob_status m = OUTBOX_PENDING \<and>
     ob_attempt_count m = 0 \<and> ob_message_id m = MsgUuid (ev_id e)"

lemma enqueue_dispatch_events_Inr:
  "enqueue_dispatch_events env es ids d = Inr (ids', d') \<Longrightarrow>
     \<exists>ms. list_all2 carries ms es \<and> d' = d\<lparr>db_outbox := db_outbox d @ ms\<rparr> \<and> ids' = ids @ map ev_id es"
proof (induction es arbitrary: ids d)
  case Nil
  then show ?case by (intro exI [of _ "[]"]) simp
next
  case (Cons e es)
  then obtain i d1 where e: "enqueue_dispatch_event env e d = Inr (i, d1)"
    and rest: "enqueue_dispatch_events env es (ids @ [i]) d1 = Inr (ids', d')"
    by (auto split: sum.splits)
  obtain m where m: "carries m e" "i = ev_id e" "d1 = d\<lparr>db_outbox := db_outbox d @ [m]\<rparr>"
    using enqueue_dispatch_event_Inr [OF e] by (auto simp: carries_def)
  obtain ms where "list_all2 carries ms es" "d' = d1\<lparr>db_outbox := db_outbox d1 @ ms\<rparr>"
    "ids' = (ids @ [i]) @ map ev_id es"
    using Cons.IH [OF rest] by blast
  with m show ?case by (intro exI [of _ "m # ms"]) simp
qed

section \<open>Finishing a stage\<close>

text \<open>
  Everything a committed success does: the journal row, the hand-over rows, the file status and the
  outbox rows, and after that only the relay.
\<close>

lemma finalize_outcome:
  assumes "finalize_stage_success env n file e s attempt ev extra d0 d = (r, d')"
  shows "(\<exists>err. r = Inl err \<and> d' = d0) \<or>
    (r = Inr () \<and> env_commit_ok env \<and>
     (\<exists>d2 item dispatches d3 d4 ms ids.
        d2 = record_attempt_finished env (mf_id file) s attempt ev ATTEMPT_SUCCEEDED None None (env_now env)
               (put_journal env (succeeded_entry env attempt ev e) d) \<and>
        item = load_recovery_item d2 ev \<and>
        (if (case item of Some i \<Rightarrow> ri_suppress_fanout i | None \<Rightarrow> False) then dispatches = [] \<and> d3 = d2
         else prepare_downstream_dispatches env n file s (env_now env) d2 = Inr (dispatches, d3)) \<and>
        d4 = (if s = CLASSIFY \<and> \<not> should_preserve_file_status item file
              then put_file (file\<lparr>mf_status := FILE_READY\<rparr>) d3
              else if s \<notin> set SYNC_STAGES \<and> \<not> should_preserve_file_status item file
                then put_file (file\<lparr>mf_status := FILE_PROCESSING\<rparr>) d3 else d3) \<and>
        list_all2 carries ms (dispatches @ extra) \<and> ids = map ev_id (dispatches @ extra) \<and>
        d' = snd (relay_best_effort env ids (d4\<lparr>db_outbox := db_outbox d4 @ ms\<rparr>))))"
proof -
  define d2 where "d2 = record_attempt_finished env (mf_id file) s attempt ev ATTEMPT_SUCCEEDED None None
      (env_now env) (put_journal env (succeeded_entry env attempt ev e) d)"
  define item where "item = load_recovery_item d2 ev"
  define prep where "prep = (if (case item of Some i \<Rightarrow> ri_suppress_fanout i | None \<Rightarrow> False) then Inr ([], d2)
      else prepare_downstream_dispatches env n file s (env_now env) d2)"
  have run0: "finalize_stage_success env n file e s attempt ev extra d0 d =
      (case prep of
         Inl err \<Rightarrow> (Inl err, d0)
       | Inr (dispatches, d3) \<Rightarrow>
           (case enqueue_dispatch_events env (dispatches @ extra) []
                   (if s = CLASSIFY \<and> \<not> should_preserve_file_status item file
                    then put_file (file\<lparr>mf_status := FILE_READY\<rparr>) d3
                    else if s \<notin> set SYNC_STAGES \<and> \<not> should_preserve_file_status item file
                      then put_file (file\<lparr>mf_status := FILE_PROCESSING\<rparr>) d3 else d3) of
              Inl err \<Rightarrow> (Inl err, d0)
            | Inr (ids, d5) \<Rightarrow>
                (case commit_stage_mutation env ''Failed to persist successful stage state.'' d0 d5 of
                   (Inl err, d') \<Rightarrow> (Inl err, d')
                 | (Inr _, d') \<Rightarrow> (Inr (), snd (relay_best_effort env ids d')))))"
    unfolding finalize_stage_success_def Let_def prep_def item_def d2_def by (rule refl)
  show ?thesis
  proof (cases prep)
    case (Inl err)
    then have "r = Inl err \<and> d' = d0" using assms by (simp add: run0)
    then show ?thesis by blast
  next
    case (Inr pr)
    obtain dispatches d3 where pr: "pr = (dispatches, d3)" by (cases pr)
    define d4 where "d4 = (if s = CLASSIFY \<and> \<not> should_preserve_file_status item file
              then put_file (file\<lparr>mf_status := FILE_READY\<rparr>) d3
              else if s \<notin> set SYNC_STAGES \<and> \<not> should_preserve_file_status item file
                then put_file (file\<lparr>mf_status := FILE_PROCESSING\<rparr>) d3 else d3)"
    have cond: "if (case item of Some i \<Rightarrow> ri_suppress_fanout i | None \<Rightarrow> False) then dispatches = [] \<and> d3 = d2
         else prepare_downstream_dispatches env n file s (env_now env) d2 = Inr (dispatches, d3)"
      using Inr pr by (auto simp: prep_def split: if_splits)
    have run: "finalize_stage_success env n file e s attempt ev extra d0 d =
        (case enqueue_dispatch_events env (dispatches @ extra) [] d4 of
           Inl err \<Rightarrow> (Inl err, d0)
         | Inr (ids, d5) \<Rightarrow>
             (case commit_stage_mutation env ''Failed to persist successful stage state.'' d0 d5 of
                (Inl err, d') \<Rightarrow> (Inl err, d')
              | (Inr _, d') \<Rightarrow> (Inr (), snd (relay_best_effort env ids d'))))"
      by (simp only: run0 Inr pr d4_def sum.case prod.case)
    show ?thesis
    proof (cases "enqueue_dispatch_events env (dispatches @ extra) [] d4")
      case (Inl err)
      then have "r = Inl err \<and> d' = d0" using run assms by simp
      then show ?thesis by blast
    next
      case (Inr q)
      obtain ids d5 where q: "q = (ids, d5)" by (cases q)
      obtain ms where ms: "list_all2 carries ms (dispatches @ extra)" "d5 = d4\<lparr>db_outbox := db_outbox d4 @ ms\<rparr>"
        "ids = map ev_id (dispatches @ extra)"
        using enqueue_dispatch_events_Inr Inr q by (metis append_Nil)
      show ?thesis
      proof (cases "env_commit_ok env")
        case True
        have "r = Inr ()" "d' = snd (relay_best_effort env ids d5)"
          using run assms Inr q True by (simp_all add: commit_stage_mutation_def)
        with True ms cond show ?thesis
          by (intro disjI2 conjI exI [of _ d2] exI [of _ item] exI [of _ dispatches] exI [of _ d3]
              exI [of _ d4] exI [of _ ms] exI [of _ ids])
            (simp_all add: d2_def item_def d4_def)
      next
        case False
        then have "(\<exists>err. r = Inl err) \<and> d' = d0"
          using run assms Inr q by (auto simp: commit_stage_mutation_def)
        then show ?thesis by blast
      qed
    qed
  qed
qed

section \<open>The effect of a committed success\<close>

definition finished_status :: "stage \<Rightarrow> processing_status" where
  "finished_status s = (if s = CLASSIFY then FILE_READY else FILE_PROCESSING)"

lemma finalize_effect:
  assumes fin: "finalize_stage_success env n file e s attempt ev extra d0 d = (Inr (), d')"
    and keyed: "sj_file e = mf_id file" "sj_stage e = s"
  shows "get_journal d' (mf_id file) s =
           Some ((succeeded_entry env attempt ev e)\<lparr>sj_updated_at := env_now env\<rparr>)" (is ?own)
    and "(f, u) \<noteq> (mf_id file, s) \<Longrightarrow> get_journal d f u = Some r \<Longrightarrow> get_journal d' f u = Some r"
    and "(f, u) \<noteq> (mf_id file, s) \<Longrightarrow> get_journal d f u = None \<Longrightarrow> get_journal d' f u = Some r \<Longrightarrow>
           sj_file r = f \<and> sj_stage r = u \<and> sj_status r = STAGE_PENDING \<and> sj_attempt_count r = 0"
    and "db_files d' =
           (if s \<in> set SYNC_STAGES \<or> should_preserve_file_status (load_recovery_item d ev) file
            then db_files d
            else row_put mf_id (file\<lparr>mf_status := finished_status s\<rparr>) (db_files d))" (is ?files)
    and "db_generations d' = db_generations d" (is ?gens)
    and "db_snapshots d' = db_snapshots d" (is ?snaps)
    and "env_commit_ok env" (is ?ok)
proof -
  obtain d2 item dispatches d3 d4 ms ids where c: "env_commit_ok env"
    and d2: "d2 = record_attempt_finished env (mf_id file) s attempt ev ATTEMPT_SUCCEEDED None None (env_now env)
               (put_journal env (succeeded_entry env attempt ev e) d)"
    and item: "item = load_recovery_item d2 ev"
    and prep: "if (case item of Some i \<Rightarrow> ri_suppress_fanout i | None \<Rightarrow> False) then dispatches = [] \<and> d3 = d2
         else prepare_downstream_dispatches env n file s (env_now env) d2 = Inr (dispatches, d3)"
    and d4: "d4 = (if s = CLASSIFY \<and> \<not> should_preserve_file_status item file
              then put_file (file\<lparr>mf_status := FILE_READY\<rparr>) d3
              else if s \<notin> set SYNC_STAGES \<and> \<not> should_preserve_file_status item file
                then put_file (file\<lparr>mf_status := FILE_PROCESSING\<rparr>) d3 else d3)"
    and d': "d' = snd (relay_best_effort env ids (d4\<lparr>db_outbox := db_outbox d4 @ ms\<rparr>))"
    by (rule disjE [OF finalize_outcome [OF fin]]) (simp, blast)
  have ext: "journal_extends d2 d3"
    using prep by (auto split: if_splits intro: prepare_downstream_extends)
  have relay: "outbox_only (d4\<lparr>db_outbox := db_outbox d4 @ ms\<rparr>) d'"
    unfolding d' by (rule relay_best_effort_only)
  have item': "item = load_recovery_item d ev" by (simp add: item d2 frame_simps)
  have j: "db_journal d' = db_journal d3" "db_generations d' = db_generations d3"
    "db_snapshots d' = db_snapshots d3"
    using outbox_only_tables [OF relay] by (simp_all add: d4 frame_simps)
  have f4: "db_files d' = db_files d4" using outbox_only_tables [OF relay] by simp
  have j2: "db_journal d2 = (db_journal d)((mf_id file, s) \<mapsto>
      (succeeded_entry env attempt ev e)\<lparr>sj_updated_at := env_now env\<rparr>)"
    by (simp add: d2 put_journal_def succeeded_entry_def keyed)
  have keep: "db_journal d2 k = Some r \<Longrightarrow> db_journal d3 k = Some r" for k r
    using ext unfolding journal_extends_def by blast
  have fresh: "db_journal d2 k = None \<Longrightarrow> db_journal d3 k = Some r \<Longrightarrow>
      (sj_file r, sj_stage r) = k \<and> sj_status r = STAGE_PENDING \<and> sj_attempt_count r = 0" for k r
    using ext unfolding journal_extends_def by blast
  show ?own by (simp add: get_journal_def j keep j2)
  show "(f, u) \<noteq> (mf_id file, s) \<Longrightarrow> get_journal d f u = Some r \<Longrightarrow> get_journal d' f u = Some r"
    using keep [of "(f, u)" r] by (auto simp: get_journal_def j j2 split: if_splits)
  show "(f, u) \<noteq> (mf_id file, s) \<Longrightarrow> get_journal d f u = None \<Longrightarrow> get_journal d' f u = Some r \<Longrightarrow>
      sj_file r = f \<and> sj_stage r = u \<and> sj_status r = STAGE_PENDING \<and> sj_attempt_count r = 0"
    using fresh [of "(f, u)" r] by (auto simp: get_journal_def j j2 split: if_splits)
  have f3: "db_files d3 = db_files d" "db_generations d3 = db_generations d" "db_snapshots d3 = db_snapshots d"
    using journal_extends_tables [OF ext]
    by (simp_all add: d2 frame_simps record_attempt_finished_def put_attempt_def Let_def)
  show ?files
    by (simp add: f4 d4 f3 item' finished_status_def put_file_def mem_SYNC_STAGES)
  show ?gens ?snaps by (simp_all add: j f3)
  show ?ok by (rule c)
qed

lemma finalize_Inl:
  "finalize_stage_success env n file e s attempt ev extra d0 d = (Inl err, d') \<Longrightarrow> d' = d0"
  by (drule finalize_outcome) auto

section \<open>One delivery\<close>

text \<open>
  What a worker may do with a delivery; every action is one handler call, and the handler's value is
  dropped. \<open>action_stage\<close> is the stage whose journal row the action works on.
\<close>

datatype stage_action =
    Start
  | Succeed
  | Transcoded normalized_media
  | Recognised ocr_result
  | Embedded embedding_result "similarity_match list"
  | Classified bool
  | Synced sync_target "(text_value \<times> jval) list"
  | Failed text_value text_value bool
  | SyncFailed sync_target text_value text_value
  | Abandoned text_value text_value

fun action_stage :: "stage_action \<Rightarrow> stage \<Rightarrow> stage" where
  "action_stage (Transcoded r) s = TRANSCODE"
| "action_stage (Recognised r) s = OCR"
| "action_stage (Embedded r ms) s = EMBED"
| "action_stage (Classified b) s = CLASSIFY"
| "action_stage (Synced t p) s = SYNC_STAGE_BY_TARGET t"
| "action_stage (SyncFailed t r e) s = SYNC_STAGE_BY_TARGET t"
| "action_stage _ s = s"

fun completes :: "stage_action \<Rightarrow> bool" where
  "completes Succeed = True"
| "completes (Transcoded r) = True"
| "completes (Recognised r) = True"
| "completes (Embedded r ms) = True"
| "completes (Classified b) = True"
| "completes (Synced t p) = True"
| "completes _ = False"

fun fails :: "stage_action \<Rightarrow> bool" where
  "fails (Failed r e b) = True"
| "fails (SyncFailed t r e) = True"
| "fails _ = False"

definition drop_value :: "'a outcome \<Rightarrow> unit outcome" where
  "drop_value r = (map_sum id (\<lambda>_. ()) (fst r), snd r)"

fun run_action :: "env \<Rightarrow> stage_action \<Rightarrow> uuid \<Rightarrow> stage \<Rightarrow> int \<Rightarrow> uuid \<Rightarrow> db \<Rightarrow> unit outcome" where
  "run_action env Start f s n ev d = drop_value (start_stage_processing env f s n ev d)"
| "run_action env Succeed f s n ev d = mark_stage_succeeded env f s n ev d"
| "run_action env (Transcoded r) f s n ev d = complete_transcode_stage env f n ev r d"
| "run_action env (Recognised r) f s n ev d = complete_ocr_stage env f n ev r d"
| "run_action env (Embedded r ms) f s n ev d = drop_value (complete_embed_stage env f n ev r ms d)"
| "run_action env (Classified b) f s n ev d = complete_classify_stage env f n ev b d"
| "run_action env (Synced t p) f s n ev d = drop_value (complete_sync_target_stage env t f n ev p d)"
| "run_action env (Failed r e b) f s n ev d = mark_stage_failed env f s n ev r e b d"
| "run_action env (SyncFailed t r e) f s n ev d = drop_value (fail_sync_target_stage env t f n ev r e d)"
| "run_action env (Abandoned r e) f s n ev d = drop_value (abandon_stage_processing env f s n ev r e d)"

lemma drop_value_simps [simp]:
  "drop_value (Inl e, d) = (Inl e, d)" "drop_value (Inr x, d) = (Inr (), d)"
  "snd (drop_value r) = snd r"
  by (simp_all add: drop_value_def)

lemma drop_value_Inr: "drop_value r = (Inr (), d) \<Longrightarrow> \<exists>x. r = (Inr x, d)"
  by (cases r; cases "fst r") (auto simp: drop_value_def)

lemma drop_value_Inl: "drop_value r = (Inl e, d) \<Longrightarrow> r = (Inl e, d)"
  by (cases r; cases "fst r") (auto simp: drop_value_def)

section \<open>What a merge leaves alone\<close>

text \<open>The tables a merge does not touch, and the files up to the meme they belong to.\<close>

definition merge_frame :: "db \<Rightarrow> db \<Rightarrow> bool" where
  "merge_frame d d' \<longleftrightarrow>
     db_journal d' = db_journal d \<and> db_outbox d' = db_outbox d \<and> db_recovery d' = db_recovery d \<and>
     db_generations d' = db_generations d \<and> db_snapshots d' = db_snapshots d \<and> db_ocr d' = db_ocr d \<and>
     db_attempts d' = db_attempts d \<and>
     (\<exists>s t. db_files d' = map (move_file s t) (db_files d))"

lemma move_file_same [simp]: "move_file s s f = f"
  by (simp add: move_file_def)

lemma merge_frame_refl: "merge_frame d d"
  unfolding merge_frame_def by (intro conjI refl exI [of _ 0] exI [of _ 0]) (simp add: map_idI)

lemma apply_merge_frame:
  "apply_merge source sf target sim reason d = Inr (out, d') \<Longrightarrow> merge_frame d d'"
  unfolding merge_frame_def
  by (intro conjI exI [of _ "me_id source"] exI [of _ "me_id target"];
      auto simp: apply_merge_def reselect_primary_file_def Let_def transfer_meme_files_def
        transfer_collection_memberships_def transfer_pins_def delete_meme_def put_meme_def
      split: sum.splits option.splits)

lemma maybe_merge_frame:
  "maybe_merge_after_embed env file ms d = Inr (out, d') \<Longrightarrow> merge_frame d d'"
  by (auto simp: maybe_merge_after_embed_def merge_frame_refl dest: apply_merge_frame
      split: option.splits)

lemma merge_frame_file:
  assumes "merge_frame d d'"
  shows "\<exists>s t. get_file d' f = map_option (move_file s t) (get_file d f)"
proof -
  obtain s t where "db_files d' = map (move_file s t) (db_files d)"
    using assms unfolding merge_frame_def by blast
  then show ?thesis
    by (intro exI [of _ s] exI [of _ t]) (simp add: get_file_def row_get_def find_map_same)
qed

lemma move_file_fields [simp]:
  "mf_status (move_file s t f) = mf_status f"
  "mf_active_generation (move_file s t f) = mf_active_generation f"
  "mf_s3_web_video_key (move_file s t f) = mf_s3_web_video_key f"
  "mf_s3_original_key (move_file s t f) = mf_s3_original_key f"
  by (simp_all add: move_file_def)

section \<open>Every completion ends in \<open>_finalize_stage_success\<close>\<close>

text \<open>
  A completion that succeeds has loaded the file and its journal row, found the attempt current,
  written the stage's output into \<open>dx\<close>, and finished on \<open>dx\<close>; the output touches neither the journal
  nor the outbox nor the recovery items, and no file status.
\<close>

definition file_core :: "meme_file \<Rightarrow> uuid \<times> processing_status \<times> text_value" where
  "file_core f = (mf_id f, mf_status f, mf_s3_original_key f)"

definition output_frame :: "db \<Rightarrow> db \<Rightarrow> bool" where
  "output_frame d dx \<longleftrightarrow>
     db_journal dx = db_journal d \<and> db_outbox dx = db_outbox d \<and> db_recovery dx = db_recovery d \<and>
     map file_core (db_files dx) = map file_core (db_files d)"

lemma output_frame_load: "output_frame d dx \<Longrightarrow> load_recovery_item dx ev = load_recovery_item d ev"
  by (simp add: output_frame_def load_recovery_item_def)

lemma output_frame_put_file:
  "get_file d (mf_id r) = Some r0 \<Longrightarrow> file_core r = file_core r0 \<Longrightarrow> output_frame d (put_file r d)"
  by (simp add: output_frame_def put_file_def get_file_def map_row_put_same)

lemma merge_frame_output: "merge_frame d d' \<Longrightarrow> output_frame d d'"
  by (auto simp: merge_frame_def output_frame_def file_core_def)

lemma output_frame_trans: "output_frame a b \<Longrightarrow> output_frame b c \<Longrightarrow> output_frame a c"
  by (simp add: output_frame_def)

lemma get_entry_Inr:
  "get_meme_file_and_stage_entry d f s = Inr (file, e) \<longleftrightarrow>
     get_file d f = Some file \<and> get_journal d f s = Some e"
  by (auto simp: get_meme_file_and_stage_entry_def get_meme_file_def split: option.splits sum.splits)

lemma get_file_id: "get_file d f = Some r \<Longrightarrow> mf_id r = f"
  unfolding get_file_def by (rule row_get_key)

lemma ensure_Inr: "ensure_stage_attempt_is_current e n = Inr x \<longleftrightarrow> sj_attempt_count e \<le> n"
  by (simp add: ensure_stage_attempt_is_current_def)

text \<open>The media pointer of a file, which only a transcode moves.\<close>

definition media_core :: "meme_file \<Rightarrow> uuid \<times> uuid option \<times> text_value option" where
  "media_core f = (mf_id f, mf_active_generation f, mf_s3_web_video_key f)"

definition media_frame :: "db \<Rightarrow> db \<Rightarrow> bool" where
  "media_frame d dx \<longleftrightarrow>
     db_generations dx = db_generations d \<and> map media_core (db_files dx) = map media_core (db_files d)"

lemma media_frame_refl: "media_frame d d"
  by (simp add: media_frame_def)

lemma media_core_move [simp]: "media_core (move_file s t f) = media_core f"
  by (simp add: media_core_def)

definition finishes ::
  "env \<Rightarrow> uuid \<Rightarrow> stage \<Rightarrow> int \<Rightarrow> uuid \<Rightarrow> db \<Rightarrow> db \<Rightarrow> bool" where
  "finishes env f s n ev d d' \<longleftrightarrow>
     (\<exists>file e file' dx k extra.
        get_file d f = Some file \<and> get_journal d f s = Some e \<and> sj_attempt_count e \<le> n \<and>
        file_core file' = file_core file \<and> output_frame d dx \<and>
        (s \<notin> set SYNC_STAGES \<longrightarrow> k = 0 \<and> extra = []) \<and>
        (s = TRANSCODE \<or> (media_core file' = media_core file \<and> media_frame d dx)) \<and>
        finalize_stage_success env k file' e s n ev extra d dx = (Inr (), d'))"

lemma finishesI:
  assumes "get_file d f = Some file" "get_journal d f s = Some e" "sj_attempt_count e \<le> n"
    "file_core file' = file_core file" "output_frame d dx"
    "s \<notin> set SYNC_STAGES \<Longrightarrow> k = 0 \<and> extra = []"
    "s = TRANSCODE \<or> (media_core file' = media_core file \<and> media_frame d dx)"
    "finalize_stage_success env k file' e s n ev extra d dx = (Inr (), d')"
  shows "finishes env f s n ev d d'"
  unfolding finishes_def using assms by blast

lemma output_frame_refl: "output_frame d d"
  by (simp add: output_frame_def)

lemma file_core_simps [simp]:
  "file_core (r\<lparr>mf_s3_web_video_key := a\<rparr>) = file_core r"
  "file_core (r\<lparr>mf_active_generation := b\<rparr>) = file_core r"
  "file_core (r\<lparr>mf_source_has_audio := c\<rparr>) = file_core r"
  "file_core (r\<lparr>mf_web_video_has_audio := c\<rparr>) = file_core r"
  "file_core (r\<lparr>mf_web_video_profile := g\<rparr>) = file_core r"
  "file_core (r\<lparr>mf_web_video_verified_at := h\<rparr>) = file_core r"
  "file_core (r\<lparr>mf_quality_score := q\<rparr>) = file_core r"
  "file_core (r\<lparr>mf_blur_hash := bh\<rparr>) = file_core r"
  "file_core (move_file s t r) = file_core r"
  "file_core (activated_file env gen res r) = file_core r"
  by (simp_all add: file_core_def activated_file_def)

lemma succeed_finishes:
  "mark_stage_succeeded env f s n ev d = (Inr (), d') \<Longrightarrow> finishes env f s n ev d d'"
  by (auto simp: mark_stage_succeeded_def get_entry_Inr ensure_Inr output_frame_refl media_frame_refl
      intro!: finishesI [where k = 0 and extra = "[]"] split: sum.splits)

lemma ocr_finishes:
  "complete_ocr_stage env f n ev r d = (Inr (), d') \<Longrightarrow> finishes env f OCR n ev d d'"
  by (auto simp: complete_ocr_stage_def get_entry_Inr ensure_Inr split: sum.splits)
    (rule finishesI [where k = 0 and extra = "[]"], auto simp: output_frame_def media_frame_def)

lemma classify_finishes:
  "complete_classify_stage env f n ev b d = (Inr (), d') \<Longrightarrow> finishes env f CLASSIFY n ev d d'"
  by (auto simp: complete_classify_stage_def get_entry_Inr ensure_Inr split: sum.splits)
    (rule finishesI [where k = 0 and extra = "[]"], auto simp: output_frame_def media_frame_def frame_simps put_meme_def)

lemma embed_finishes:
  assumes "complete_embed_stage env f n ev r ms d = (Inr out, d')"
  shows "finishes env f EMBED n ev d d'"
proof -
  obtain mf e merge d1 where load: "get_file d f = Some mf" "get_journal d f EMBED = Some e"
      "sj_attempt_count e \<le> n"
    and m: "maybe_merge_after_embed env mf ms (persist_embedding_cache_row mf r d) = Inr (merge, d1)"
    and fin: "finalize_stage_success env 0 (case get_file d1 f of Some r \<Rightarrow> r | None \<Rightarrow> mf) e EMBED n ev [] d d1 = (Inr (), d')"
    using assms
    by (auto simp: complete_embed_stage_def get_entry_Inr ensure_Inr Let_def
        split: sum.splits prod.splits if_splits)
  have p: "output_frame d (persist_embedding_cache_row mf r d)"
    "get_file (persist_embedding_cache_row mf r d) f = get_file d f"
    by (simp_all add: output_frame_def persist_embedding_cache_row_def get_file_def)
  have mf: "merge_frame (persist_embedding_cache_row mf r d) d1"
    using m by (rule maybe_merge_frame)
  obtain s t where "get_file d1 f = map_option (move_file s t) (get_file d f)"
    using merge_frame_file [OF mf, of f] p(2) by auto
  then have core: "file_core (case get_file d1 f of Some r \<Rightarrow> r | None \<Rightarrow> mf) = file_core mf"
    using load(1) by simp
  have pointer: "media_core (case get_file d1 f of Some r \<Rightarrow> r | None \<Rightarrow> mf) = media_core mf \<and> media_frame d d1"
    using \<open>get_file d1 f = map_option (move_file s t) (get_file d f)\<close> load(1) mf
    by (auto simp: merge_frame_def media_frame_def persist_embedding_cache_row_def)
  show ?thesis
    by (rule finishesI [OF load core _ _ _ fin])
      (simp_all add: output_frame_trans [OF p(1) merge_frame_output [OF mf]] pointer)
qed

lemma sync_finishes:
  assumes "complete_sync_target_stage env t f n ev p d = (Inr row, d')"
  shows "finishes env f (SYNC_STAGE_BY_TARGET t) n ev d d'"
proof -
  obtain mf e where load: "get_file d f = Some mf" "get_journal d f (SYNC_STAGE_BY_TARGET t) = Some e"
      "sj_attempt_count e \<le> n"
    using assms by (auto simp: complete_sync_target_stage_def get_entry_Inr ensure_Inr Let_def split: sum.splits)
  define already where "already = (sj_status e = STAGE_SUCCEEDED \<and> sj_last_event_id e = Some ev)"
  define dx where "dx = upsert_sync_target_snapshot env f t SYNC_SYNCED (Some ev)
      (if p \<noteq> [] then Some (p, env_now env) else None) None None (\<not> already) True d"
  have entry: "get_meme_file_and_stage_entry d f (SYNC_STAGE_BY_TARGET t) = Inr (mf, e)"
    "ensure_stage_attempt_is_current e n = Inr ()"
    using load by (simp_all add: get_entry_Inr ensure_stage_attempt_is_current_def)
  have "\<exists>extra. finalize_stage_success env 1 mf e (SYNC_STAGE_BY_TARGET t) n ev extra d dx = (Inr (), d')"
    using assms
    unfolding complete_sync_target_stage_def Let_def entry sum.case prod.case already_def [symmetric] dx_def [symmetric]
    by (auto split: sum.splits prod.splits if_splits)
  moreover have "output_frame d dx" "media_frame d dx"
    by (auto simp: dx_def output_frame_def media_frame_def upsert_sync_target_snapshot_def put_snapshot_def Let_def
        split: option.splits)
  ultimately show ?thesis
    using load by (elim exE) (rule finishesI [where k = 1], auto)
qed

definition measured_file :: "normalized_media \<Rightarrow> meme_file \<Rightarrow> meme_file" where
  "measured_file r f = f\<lparr>mf_quality_score := nm_quality_score r, mf_blur_hash := nm_blur_hash r\<rparr>"

lemma measured_file_simps [simp]:
  "file_core (measured_file r f) = file_core f"
  "mf_id (measured_file r f) = mf_id f"
  "mf_active_generation (measured_file r f) = mf_active_generation f"
  "mf_s3_web_video_key (measured_file r f) = mf_s3_web_video_key f"
  "mf_status (measured_file r f) = mf_status f"
  by (simp_all add: measured_file_def)

text \<open>The two ways a transcode succeeds: without a generation, or by activating an uploaded one.\<close>

definition activates :: "db \<Rightarrow> normalized_media \<Rightarrow> meme_file \<Rightarrow> media_generation \<Rightarrow> bool" where
  "activates d r mf g \<longleftrightarrow>
     nm_generation_id r = Some (mg_id g) \<and> get_generation d (mg_id g) = Some g \<and>
     mg_file g = Some (mf_id mf) \<and> mg_status g = UPLOADED \<and>
     mf_s3_web_video_key mf = mg_expected_key g \<and>
     nm_web_video_key r = Some (mg_web_video_key g) \<and> nm_preview_key r = Some (mg_preview_key g)"

lemma get_generation_id: "get_generation d i = Some g \<Longrightarrow> mg_id g = i"
  unfolding get_generation_def by (rule row_get_key)

lemma transcode_outcome:
  assumes "complete_transcode_stage env f n ev r d = (Inr (), d')"
  obtains mf e where "get_file d f = Some mf" "get_journal d f TRANSCODE = Some e" "sj_attempt_count e \<le> n"
    and "(\<exists>mf'. file_core mf' = file_core mf \<and> mf_active_generation mf' = None \<and> \<not> is_moving_media mf \<and>
            finalize_stage_success env 0 mf' e TRANSCODE n ev [] d (put_file mf' d) = (Inr (), d')) \<or>
         (\<exists>g mf'. activates d r mf g \<and> mf' = measured_file r (activated_file env g r mf) \<and>
            finalize_stage_success env 0 mf' e TRANSCODE n ev [] d
              (put_file mf' (put_generation (activated_generation env g)
                (supersede_previous env (mf_active_generation mf) g d))) = (Inr (), d'))"
proof -
  obtain mf e where load: "get_file d f = Some mf" "get_journal d f TRANSCODE = Some e" "sj_attempt_count e \<le> n"
    using assms by (auto simp: complete_transcode_stage_def get_entry_Inr ensure_Inr split: sum.splits)
  have entry: "get_meme_file_and_stage_entry d f TRANSCODE = Inr (mf, e)"
    "ensure_stage_attempt_is_current e n = Inr ()"
    using load by (simp_all add: get_entry_Inr ensure_stage_attempt_is_current_def)
  define fin where "fin = (\<lambda>file' d'. let file'' = measured_file r file' in
      finalize_stage_success env 0 file'' e TRANSCODE n ev [] d (put_file file'' d'))"
  note run = assms [unfolded complete_transcode_stage_def entry sum.case prod.case
      measured_file_def [symmetric] fin_def [symmetric], unfolded Let_def]
  show thesis
  proof (cases "\<exists>g. activates d r mf g \<and>
      fin (activated_file env g r mf) (put_generation (activated_generation env g)
                (supersede_previous env (mf_active_generation mf) g d)) = (Inr (), d')")
    case True
    then show thesis by (intro that [OF load]) (auto simp: fin_def Let_def)
  next
    case False
    have "\<exists>a b c d1 d2. fin (mf\<lparr>mf_s3_web_video_key := a, mf_active_generation := None,
        mf_source_has_audio := b, mf_web_video_has_audio := c, mf_web_video_profile := d1,
        mf_web_video_verified_at := d2\<rparr>) d = (Inr (), d') \<and> \<not> is_moving_media mf"
    proof (cases "nm_web_video_key r")
      case None
      with run show ?thesis by (simp split: if_splits) blast
    next
      case (Some key)
      show ?thesis
      proof (cases "nm_generation_id r")
        case None
        with run Some show ?thesis by (simp split: if_splits) blast
      next
        case (Some gid)
        obtain g where g: "get_generation d gid = Some g"
          using run Some \<open>nm_web_video_key r = Some key\<close>
          by (cases "get_generation d gid") (simp_all split: if_splits)
        have "activates d r mf g"
          using run Some \<open>nm_web_video_key r = Some key\<close> g get_generation_id [OF g]
          by (simp add: activates_def split: if_splits)
        moreover have "fin (activated_file env g r mf) (put_generation (activated_generation env g)
                (supersede_previous env (mf_active_generation mf) g d)) = (Inr (), d')"
          using run Some \<open>nm_web_video_key r = Some key\<close> g by (simp split: if_splits)
        ultimately show ?thesis using False by blast
      qed
    qed
    then obtain a b c d1 d2 where "fin (mf\<lparr>mf_s3_web_video_key := a, mf_active_generation := None,
        mf_source_has_audio := b, mf_web_video_has_audio := c, mf_web_video_profile := d1,
        mf_web_video_verified_at := d2\<rparr>) d = (Inr (), d')" "\<not> is_moving_media mf"
      by blast
    then show thesis
      by (intro that [OF load] disjI1
          exI [of _ "measured_file r (mf\<lparr>mf_s3_web_video_key := a, mf_active_generation := None,
        mf_source_has_audio := b, mf_web_video_has_audio := c, mf_web_video_profile := d1,
        mf_web_video_verified_at := d2\<rparr>)"])
        (simp add: fin_def Let_def)
  qed
qed

lemma supersede_previous_frame [simp]:
  "db_journal (supersede_previous env a g d) = db_journal d"
  "db_outbox (supersede_previous env a g d) = db_outbox d"
  "db_recovery (supersede_previous env a g d) = db_recovery d"
  "db_files (supersede_previous env a g d) = db_files d"
  by (auto simp: supersede_previous_def frame_simps put_generation_def split: option.splits bind_split)

lemma transcode_finishes:
  assumes "complete_transcode_stage env f n ev r d = (Inr (), d')"
  shows "finishes env f TRANSCODE n ev d d'"
proof -
  have frame: "output_frame d (put_file mf' dx)"
    if "get_file d f = Some mf" "file_core mf' = file_core mf" "db_files dx = db_files d"
      "db_journal dx = db_journal d" "db_outbox dx = db_outbox d" "db_recovery dx = db_recovery d" for mf mf' dx
  proof -
    have "mf_id mf' = f" using that(2) get_file_id [OF that(1)] by (simp add: file_core_def)
    then show ?thesis
      using that by (simp add: output_frame_def put_file_def get_file_def map_row_put_same)
  qed
  show ?thesis
    using assms
  proof (rule transcode_outcome, elim disjE exE conjE)
    fix mf e mf'
    assume l: "get_file d f = Some mf" "get_journal d f TRANSCODE = Some e" "sj_attempt_count e \<le> n"
      and c: "file_core mf' = file_core mf"
      and fin: "finalize_stage_success env 0 mf' e TRANSCODE n ev [] d (put_file mf' d) = (Inr (), d')"
    show ?thesis by (rule finishesI [OF l c _ _ _ fin]) (auto intro: frame [OF l(1) c])
  next
    fix mf e g mf'
    assume l: "get_file d f = Some mf" "get_journal d f TRANSCODE = Some e" "sj_attempt_count e \<le> n"
      and mf': "mf' = measured_file r (activated_file env g r mf)"
      and fin: "finalize_stage_success env 0 mf' e TRANSCODE n ev [] d
              (put_file mf' (put_generation (activated_generation env g)
                (supersede_previous env (mf_active_generation mf) g d))) = (Inr (), d')"
    have c: "file_core mf' = file_core mf" by (simp add: mf')
    show ?thesis
      by (rule finishesI [OF l c _ _ _ fin]) (auto intro!: frame [OF l(1) c] simp: frame_simps)
  qed
qed

lemma action_finishes:
  assumes "completes a" "run_action env a f s n ev d = (Inr (), d')"
  shows "finishes env f (action_stage a s) n ev d d'"
  using assms
  by (cases a) (auto intro: succeed_finishes transcode_finishes ocr_finishes embed_finishes
      classify_finishes sync_finishes dest: drop_value_Inr)

lemma finishes_effect:
  assumes "finishes env f s n ev d d'" "journal_keyed d"
  obtains e mf where "get_journal d f s = Some e" "get_file d f = Some mf" "sj_attempt_count e \<le> n"
    "get_journal d' f s = Some ((succeeded_entry env n ev e)\<lparr>sj_updated_at := env_now env\<rparr>)"
    "\<forall>g u r. (g, u) \<noteq> (f, s) \<longrightarrow> get_journal d g u = Some r \<longrightarrow> get_journal d' g u = Some r"
    "\<forall>g u r. (g, u) \<noteq> (f, s) \<longrightarrow> get_journal d g u = None \<longrightarrow> get_journal d' g u = Some r \<longrightarrow>
       sj_file r = g \<and> sj_stage r = u \<and> sj_status r = STAGE_PENDING \<and> sj_attempt_count r = 0"
    "map_option mf_status (get_file d' f) =
       Some (if s \<in> set SYNC_STAGES \<or> should_preserve_file_status (load_recovery_item d ev) mf
             then mf_status mf else finished_status s)"
    "\<forall>g. g \<noteq> f \<longrightarrow> map_option file_core (get_file d' g) = map_option file_core (get_file d g)"
proof -
  obtain mf e mf' dx k extra where l: "get_file d f = Some mf" "get_journal d f s = Some e" "sj_attempt_count e \<le> n"
    and c: "file_core mf' = file_core mf" and o: "output_frame d dx"
    and fin: "finalize_stage_success env k mf' e s n ev extra d dx = (Inr (), d')"
    using assms(1) unfolding finishes_def by blast
  have id': "mf_id mf' = f" "mf_status mf' = mf_status mf"
    using c get_file_id [OF l(1)] by (simp_all add: file_core_def)
  have keyed: "sj_file e = mf_id mf'" "sj_stage e = s"
    using assms(2) l(2) id' by (auto simp: journal_keyed_def)
  have core: "map_option file_core (get_file dx g) = map_option file_core (get_file d g)" for g
  proof -
    have fc: "mf_id x = fst (file_core x)" for x by (simp add: file_core_def)
    have "map_option file_core (row_get mf_id g rows) = row_get fst g (map file_core rows)" for rows
      by (induction rows) (auto simp: fc)
    then show ?thesis using o by (simp add: get_file_def output_frame_def)
  qed
  have j: "get_journal dx g u = get_journal d g u" for g u
    using o by (simp add: output_frame_def get_journal_def)
  have pres: "should_preserve_file_status i mf' = should_preserve_file_status i mf" for i
    using id' by (simp add: should_preserve_file_status_def split: option.splits)
  note eff = finalize_effect [OF fin keyed, unfolded id' j output_frame_load [OF o] pres]
  have st: "map_option mf_status (get_file d' f) =
       Some (if s \<in> set SYNC_STAGES \<or> should_preserve_file_status (load_recovery_item d ev) mf
             then mf_status mf else finished_status s)"
    using core [of f] l(1) by (auto simp: get_file_def eff(4) id' file_core_def)
  have other: "map_option file_core (get_file d' g) = map_option file_core (get_file d g)" if "g \<noteq> f" for g
    using core [of g] that id'(1) by (simp add: get_file_def eff(4))
  show thesis
    using that [OF l(2,1,3) eff(1)] eff(2,3) st other by blast
qed

end
