(* ===== verification/Stage_Invariants.thy ===== *)
theory Stage_Invariants
  imports Stage_Properties
begin

text \<open>
  The properties of one delivery and of sequences of deliveries: stale deliveries change nothing, a
  finished stage absorbs redeliveries, success hands over atomically, only classification makes a
  file ready, recovery work preserves a ready file, a failed derivative restores the journal, a
  cancelled delivery yields to later truth, and journal rows only move forward.
\<close>

section \<open>Effects of start, failure and abandonment\<close>

lemma put_sync_frame [simp]:
  "db_journal (upsert_sync_target_snapshot env f t st le p r e b c d) = db_journal d"
  "db_files (upsert_sync_target_snapshot env f t st le p r e b c d) = db_files d"
  "db_recovery (upsert_sync_target_snapshot env f t st le p r e b c d) = db_recovery d"
  "db_outbox (upsert_sync_target_snapshot env f t st le p r e b c d) = db_outbox d"
  "db_generations (upsert_sync_target_snapshot env f t st le p r e b c d) = db_generations d"
  "get_journal (upsert_sync_target_snapshot env f t st le p r e b c d) g u = get_journal d g u"
  "get_file (upsert_sync_target_snapshot env f t st le p r e b c d) g = get_file d g"
  "load_recovery_item (upsert_sync_target_snapshot env f t st le p r e b c d) x = load_recovery_item d x"
  by (auto simp: upsert_sync_target_snapshot_def put_snapshot_def Let_def get_journal_def get_file_def
      load_recovery_item_def split: option.splits)

lemma upsert_entry [simp]:
  "get_meme_file_and_stage_entry (upsert_sync_target_snapshot env f t st le p r e b c d) g u =
     get_meme_file_and_stage_entry d g u"
  by (simp add: get_meme_file_and_stage_entry_def get_meme_file_def split: option.splits)

lemma start_outcome:
  assumes "start_stage_processing env f s n ev d = (Inr out, d')"
  obtains e where "get_journal d f s = Some e" "out = None" "d' = d" "env_commit_ok env"
      "sj_last_event_id e = Some ev" "sj_status e \<in> {STAGE_PROCESSING, STAGE_SUCCEEDED}"
    | e mf where "get_journal d f s = Some e" "get_file d f = Some mf" "sj_attempt_count e \<le> n"
      "out = Some (work_context mf s (load_recovery_item d ev)
         (should_preserve_file_status (load_recovery_item d ev) mf))"
      "db_journal d' = (db_journal d)((sj_file e, sj_stage e) \<mapsto>
         (started_entry env n ev e)\<lparr>sj_updated_at := env_now env\<rparr>)"
      "db_files d' = (if s \<notin> set SYNC_STAGES \<and>
           \<not> should_preserve_file_status (load_recovery_item d ev) mf
         then row_put mf_id (mf\<lparr>mf_status := FILE_PROCESSING\<rparr>) (db_files d) else db_files d)"
      "db_generations d' = db_generations d" "db_outbox d' = db_outbox d" "db_recovery d' = db_recovery d"
proof -
  obtain e where e: "get_journal d f s = Some e"
    using assms by (cases "get_journal d f s") (simp_all add: start_stage_processing_def)
  show thesis
  proof (cases "sj_last_event_id e = Some ev \<and> sj_status e \<in> {STAGE_PROCESSING, STAGE_SUCCEEDED}")
    case True
    then show thesis using assms e that(1) [OF e]
      by (auto simp: start_stage_processing_def split: if_splits)
  next
    case False
    then obtain mf where mf: "get_file d f = Some mf" "sj_attempt_count e \<le> n"
      using assms e
      by (auto simp: start_stage_processing_def get_meme_file_def ensure_stage_attempt_is_current_def
          split: option.splits if_splits)
    have gens: "db_generations (record_attempt_started env f s n ev t x) = db_generations x"
      "db_recovery (record_attempt_started env f s n ev t x) = db_recovery x" for t x
      by (simp_all add: record_attempt_started_def put_attempt_def split: option.splits)
    have st: "sj_file (started_entry env n ev e) = sj_file e" "sj_stage (started_entry env n ev e) = sj_stage e"
      by (simp_all add: started_entry_def)
    show thesis
      by (rule that(2) [OF e mf])
        (use assms e mf False in \<open>auto simp: start_stage_processing_def get_meme_file_def
          ensure_stage_attempt_is_current_def commit_stage_mutation_def Let_def frame_simps gens put_file_def
          put_journal_def st split: if_splits\<close>)
  qed
qed

text \<open>What a recorded failure does to the journal row of its stage.\<close>

definition failed_row ::
  "env \<Rightarrow> int \<Rightarrow> uuid \<Rightarrow> text_value \<Rightarrow> text_value \<Rightarrow> bool \<Rightarrow> recovery_item option \<Rightarrow> stage_journal \<Rightarrow> stage_journal" where
  "failed_row env n ev reason err rt item e =
     (case item of
        Some i \<Rightarrow>
          if ri_action i = REGENERATE_DERIVATIVES
          then restore_stage_state_after_derivative_failure (ri_previous_stage_state i) (max (n - 1) 0)
                 (failed_entry env n ev reason err rt e)
          else failed_entry env n ev reason err rt e
      | None \<Rightarrow> failed_entry env n ev reason err rt e)"

text \<open>What it does to the recovery item it was dispatched for.\<close>

definition failed_item ::
  "env \<Rightarrow> int \<Rightarrow> text_value \<Rightarrow> text_value \<Rightarrow> bool \<Rightarrow> bool \<Rightarrow> recovery_item \<Rightarrow> recovery_item" where
  "failed_item env n reason err rt consume i =
     (let i1 = (if rt \<and> consume then charge_retry_budget n i else i)
      in if ri_action i = REGENERATE_DERIVATIVES \<and> (\<not> rt \<or> ri_failures_consumed i1 \<ge> ri_retry_limit i1)
         then exhaust_item env reason err i1 else i1)"

lemma charge_frame [simp]:
  "ri_id (charge_retry_budget n i) = ri_id i" "ri_action (charge_retry_budget n i) = ri_action i"
  "ri_retry_limit (charge_retry_budget n i) = ri_retry_limit i"
  "ri_previous_stage_state (charge_retry_budget n i) = ri_previous_stage_state i"
  "ri_dispatch_event_id (charge_retry_budget n i) = ri_dispatch_event_id i"
  "ri_preserve_ready (charge_retry_budget n i) = ri_preserve_ready i"
  by (simp_all add: charge_retry_budget_def Let_def)

lemma exhaust_frame [simp]:
  "ri_id (exhaust_item env r e i) = ri_id i" "ri_action (exhaust_item env r e i) = ri_action i"
  "ri_dispatch_event_id (exhaust_item env r e i) = ri_dispatch_event_id i"
  "ri_preserve_ready (exhaust_item env r e i) = ri_preserve_ready i"
  "ri_failures_consumed (exhaust_item env r e i) = ri_failures_consumed i"
  by (simp_all add: exhaust_item_def)

lemma failed_item_frame [simp]:
  "ri_id (failed_item env n r e b c i) = ri_id i"
  "ri_action (failed_item env n r e b c i) = ri_action i"
  "ri_dispatch_event_id (failed_item env n r e b c i) = ri_dispatch_event_id i"
  by (simp_all add: failed_item_def Let_def)

lemma row_put_twice: "key a = key b \<Longrightarrow> row_put key a (row_put key b rows) = row_put key a rows"
  by (induction rows) auto

lemma commit_Inr: "commit_stage_mutation env m d0 d = (Inr (), d') \<longleftrightarrow> env_commit_ok env \<and> d' = d"
  by (auto simp: commit_stage_mutation_def)

lemma failure_outcome:
  assumes run: "apply_stage_failure env mf e s n ev reason err rt consume d0 d = (Inr (), d')"
    and keyed: "sj_file e = mf_id mf" "sj_stage e = s"
  shows "db_journal d' = (db_journal d)((mf_id mf, s) \<mapsto>
           (failed_row env n ev reason err rt (load_recovery_item d ev) e)\<lparr>sj_updated_at := env_now env\<rparr>)" (is ?j)
    and "db_files d' = (if s \<notin> set SYNC_STAGES \<and>
           \<not> should_preserve_file_status (load_recovery_item d ev) mf
         then row_put mf_id (mf\<lparr>mf_status := FILE_FAILED\<rparr>) (db_files d) else db_files d)" (is ?f)
    and "db_generations d' = db_generations d" (is ?g)
    and "db_outbox d' = db_outbox d" (is ?o)
    and "db_snapshots d' = db_snapshots d" (is ?sn)
    and "db_recovery d' = (case load_recovery_item d ev of
           None \<Rightarrow> db_recovery d
         | Some i \<Rightarrow> row_put ri_id (failed_item env n reason err rt consume i) (db_recovery d))" (is ?r)
proof -
  have gens: "db_generations (record_attempt_finished env g u m v oc r x t y) = db_generations y"
    for g u m v oc r x t y
    by (simp add: record_attempt_finished_def put_attempt_def Let_def)
  have ent: "sj_file (failed_entry env n ev reason err rt e) = mf_id mf"
    "sj_stage (failed_entry env n ev reason err rt e) = s"
    "sj_file (restore_stage_state_after_derivative_failure m k x) = sj_file x"
    "sj_stage (restore_stage_state_after_derivative_failure m k x) = sj_stage x" for m k x
    by (simp_all add: failed_entry_def restore_stage_state_after_derivative_failure_def keyed)
  let ?e1 = "failed_entry env n ev reason err rt e"
  let ?item = "load_recovery_item d ev"
  define oc where "oc = (if \<not> consume then ATTEMPT_SKIPPED
      else if rt then ATTEMPT_FAILED_RETRYABLE else ATTEMPT_FAILED_TERMINAL)"
  define fin where "fin = record_attempt_finished env (mf_id mf) s n ev oc (Some reason) (Some err) (env_now env)"
  define d2 where "d2 = (if s \<notin> set SYNC_STAGES \<and> \<not> should_preserve_file_status ?item mf \<and>
        \<not> (case ?item of Some i \<Rightarrow> ri_action i = REGENERATE_DERIVATIVES | None \<Rightarrow> False)
      then put_file (mf\<lparr>mf_status := FILE_FAILED\<rparr>) (put_journal env ?e1 d) else put_journal env ?e1 d)"
  have f2: "db_files d2 = (if s \<notin> set SYNC_STAGES \<and> \<not> should_preserve_file_status ?item mf
         then row_put mf_id (mf\<lparr>mf_status := FILE_FAILED\<rparr>) (db_files d) else db_files d)"
    by (auto simp: d2_def put_file_def frame_simps should_preserve_file_status_def split: option.splits)
  have j2: "db_journal d2 = (db_journal d)((mf_id mf, s) \<mapsto> ?e1\<lparr>sj_updated_at := env_now env\<rparr>)"
    "db_generations d2 = db_generations d" "db_outbox d2 = db_outbox d"
    "db_snapshots d2 = db_snapshots d" "db_recovery d2 = db_recovery d"
    by (simp_all add: d2_def frame_simps) (simp_all add: put_journal_def ent)
  have fr: "db_journal (fin x) = db_journal x" "db_files (fin x) = db_files x"
    "db_generations (fin x) = db_generations x" "db_outbox (fin x) = db_outbox x"
    "db_snapshots (fin x) = db_snapshots x"
    "db_recovery (fin x) = db_recovery x" for x
    by (simp_all add: fin_def gens)
  have "apply_stage_failure env mf e s n ev reason err rt consume d0 d =
      commit_stage_mutation env ''Failed to persist failed stage state.'' d0
        (case (if rt \<and> consume then map_option (charge_retry_budget n) ?item else ?item) of
           Some i \<Rightarrow>
             if (case ?item of Some i \<Rightarrow> ri_action i = REGENERATE_DERIVATIVES | None \<Rightarrow> False)
             then (let d' = put_journal env
                        (restore_stage_state_after_derivative_failure (ri_previous_stage_state i) (max (n - 1) 0) ?e1)
                        (fin (case (if rt \<and> consume then map_option (charge_retry_budget n) ?item else ?item) of
                           Some i \<Rightarrow> put_recovery i d2 | None \<Rightarrow> d2))
                   in if \<not> rt \<or> ri_failures_consumed i \<ge> ri_retry_limit i
                      then put_recovery (exhaust_item env reason err i) d' else d')
             else fin (case (if rt \<and> consume then map_option (charge_retry_budget n) ?item else ?item) of
                           Some i \<Rightarrow> put_recovery i d2 | None \<Rightarrow> d2)
         | None \<Rightarrow> fin (case (if rt \<and> consume then map_option (charge_retry_budget n) ?item else ?item) of
                           Some i \<Rightarrow> put_recovery i d2 | None \<Rightarrow> d2))"
    unfolding apply_stage_failure_def Let_def load_recovery_frame fin_def oc_def d2_def by (rule refl)
  with run have d': "d' =
        (case (if rt \<and> consume then map_option (charge_retry_budget n) ?item else ?item) of
           Some i \<Rightarrow>
             if (case ?item of Some i \<Rightarrow> ri_action i = REGENERATE_DERIVATIVES | None \<Rightarrow> False)
             then (let d' = put_journal env
                        (restore_stage_state_after_derivative_failure (ri_previous_stage_state i) (max (n - 1) 0) ?e1)
                        (fin (case (if rt \<and> consume then map_option (charge_retry_budget n) ?item else ?item) of
                           Some i \<Rightarrow> put_recovery i d2 | None \<Rightarrow> d2))
                   in if \<not> rt \<or> ri_failures_consumed i \<ge> ri_retry_limit i
                      then put_recovery (exhaust_item env reason err i) d' else d')
             else fin (case (if rt \<and> consume then map_option (charge_retry_budget n) ?item else ?item) of
                           Some i \<Rightarrow> put_recovery i d2 | None \<Rightarrow> d2)
         | None \<Rightarrow> fin (case (if rt \<and> consume then map_option (charge_retry_budget n) ?item else ?item) of
                           Some i \<Rightarrow> put_recovery i d2 | None \<Rightarrow> d2))"
    by (simp only: commit_Inr)
  have "?j \<and> ?f \<and> ?g \<and> ?o \<and> ?sn \<and> ?r"
  proof (cases ?item)
    case None
    have "d' = fin d2" using d' by (simp add: None)
    then show ?thesis by (simp only: fr j2 f2) (simp add: None failed_row_def)
  next
    case (Some i)
    define i1 where "i1 = (if rt \<and> consume then charge_retry_budget n i else i)"
    have charged: "(if rt \<and> consume then map_option (charge_retry_budget n) ?item else ?item) = Some i1"
      by (simp add: Some i1_def)
    have i1: "ri_id i1 = ri_id i" "ri_action i1 = ri_action i"
      "ri_previous_stage_state i1 = ri_previous_stage_state i"
      by (simp_all add: i1_def)
    have "d' = (if ri_action i = REGENERATE_DERIVATIVES
        then (let d6 = put_journal env (restore_stage_state_after_derivative_failure
                 (ri_previous_stage_state i) (max (n - 1) 0) ?e1) (fin (put_recovery i1 d2))
              in if \<not> rt \<or> ri_failures_consumed i1 \<ge> ri_retry_limit i1
                 then put_recovery (exhaust_item env reason err i1) d6 else d6)
        else fin (put_recovery i1 d2))"
      using d' by (simp only: charged option.case) (simp only: Some option.case i1(3))
    then show ?thesis
      by (cases "ri_action i = REGENERATE_DERIVATIVES")
        (auto simp: Some failed_row_def failed_item_def Let_def put_journal_def put_recovery_def fr j2 f2 ent i1
          row_put_twice i1_def [symmetric])
  qed
  then show ?j ?f ?g ?o ?sn ?r by blast+
qed

lemma failed_outcome:
  assumes "mark_stage_failed_from env f s n ev reason err rt d0 d = (Inr (), d')"
  obtains mf e where "get_file d f = Some mf" "get_journal d f s = Some e" "sj_attempt_count e \<le> n"
    "apply_stage_failure env mf e s n ev reason err rt True d0 d = (Inr (), d')"
  using assms
  by (auto simp: mark_stage_failed_from_def get_entry_Inr ensure_Inr split: sum.splits)

lemma failed_Inl:
  "mark_stage_failed_from env f s n ev reason err rt d0 d = (Inl x, d') \<Longrightarrow> d' = d0"
  by (auto simp: mark_stage_failed_from_def apply_stage_failure_def commit_stage_mutation_def Let_def
      split: sum.splits if_splits prod.splits)

lemma abandon_outcome:
  assumes "abandon_stage_processing env f s n ev reason err d = (Inr out, d')"
  obtains e where "get_journal d f s = Some e" "d' = d"
      "(sj_last_event_id e \<noteq> Some ev \<or> n < sj_attempt_count e) \<and> out = (ACKNOWLEDGE, None) \<or>
       (sj_last_event_id e = Some ev \<and> sj_attempt_count e \<le> n \<and> sj_status e \<noteq> STAGE_PROCESSING \<and>
        fst out = settled_disposition env n e)"
    | e mf where "get_journal d f s = Some e" "get_file d f = Some mf" "sj_last_event_id e = Some ev"
      "sj_attempt_count e \<le> n" "sj_status e = STAGE_PROCESSING" "out = (REQUEUE, None)"
      "apply_stage_failure env mf e s n ev reason err True False d d = (Inr (), d')"
proof -
  obtain e where e: "get_journal d f s = Some e"
    using assms by (cases "get_journal d f s") (simp_all add: abandon_stage_processing_def)
  show thesis
  proof (cases "sj_last_event_id e = Some ev \<and> sj_attempt_count e \<le> n \<and> sj_status e = STAGE_PROCESSING")
    case False
    then show thesis
      using assms e that(1) [OF e]
      by (auto simp: abandon_stage_processing_def Let_def split: if_splits)
  next
    case True
    then obtain mf where mf: "get_file d f = Some mf"
      using assms e
      by (auto simp: abandon_stage_processing_def get_meme_file_def split: option.splits if_splits)
    have "out = (REQUEUE, None) \<and> apply_stage_failure env mf e s n ev reason err True False d d = (Inr (), d')"
      using assms e mf True
      by (auto simp: abandon_stage_processing_def get_meme_file_def ensure_stage_attempt_is_current_def
          split: sum.splits prod.splits)
    with that(2) [OF e mf] True show thesis by blast
  qed
qed

lemma failure_Inl:
  "apply_stage_failure env mf e s n ev reason err rt consume d0 d = (Inl x, d') \<Longrightarrow> d' = d0"
  by (auto simp: apply_stage_failure_def commit_stage_mutation_def Let_def split: if_splits)

text \<open>
  A failing action, in terms of the recorded failure. The sync failure works on the database \<open>dx\<close>
  that already holds the failed snapshot.
\<close>

lemma action_fails:
  assumes "fails a" "run_action env a f s n ev d = (Inr (), d')"
  obtains mf e dx reason err rt where "get_file d f = Some mf" "get_journal d f (action_stage a s) = Some e"
    "sj_attempt_count e \<le> n" "output_frame d dx" "db_generations dx = db_generations d"
    "db_files dx = db_files d"
    "apply_stage_failure env mf e (action_stage a s) n ev reason err rt True d dx = (Inr (), d')"
proof (cases a)
  case (Failed r er b)
  with assms(2) have "mark_stage_failed_from env f s n ev r er b d d = (Inr (), d')"
    by (simp add: mark_stage_failed_def)
  then show thesis
  proof (rule failed_outcome)
    fix mf e
    assume "get_file d f = Some mf" "get_journal d f s = Some e" "sj_attempt_count e \<le> n"
      "apply_stage_failure env mf e s n ev r er b True d d = (Inr (), d')"
    then show thesis using that [of mf e d r er b] Failed by (simp add: output_frame_refl)
  qed
next
  case (SyncFailed t r er)
  define dx where "dx = upsert_sync_target_snapshot env f t SYNC_FAILED (Some ev) None (Some r) (Some er) True False d"
  have "\<exists>row. fail_sync_target_stage env t f n ev r er d = (Inr row, d')"
    using assms(2) SyncFailed by (auto dest: drop_value_Inr)
  then have "mark_stage_failed_from env f (SYNC_STAGE_BY_TARGET t) n ev r er
      (r \<noteq> SYNC_MALFORMED_REASON_BY_TARGET t) d dx = (Inr (), d')"
    by (auto simp: fail_sync_target_stage_def dx_def Let_def split: sum.splits prod.splits)
  moreover have "output_frame d dx" by (simp add: dx_def output_frame_def)
  moreover have "get_file dx g = get_file d g" "get_journal dx g u = get_journal d g u"
    "db_generations dx = db_generations d" "db_files dx = db_files d" for g u
    by (simp_all add: dx_def)
  ultimately show thesis
    by (elim failed_outcome) (use that [of _ _ dx] SyncFailed in simp)
qed (use assms(1) in simp_all)

section \<open>Journal rows through one delivery\<close>

definition derivative_item :: "db \<Rightarrow> uuid \<Rightarrow> bool" where
  "derivative_item d ev \<longleftrightarrow>
     (case load_recovery_item d ev of Some i \<Rightarrow> ri_action i = REGENERATE_DERIVATIVES | None \<Rightarrow> False)"

lemma failed_row_fields [simp]:
  "sj_file (failed_row env n ev r er rt i e) = sj_file e"
  "sj_stage (failed_row env n ev r er rt i e) = sj_stage e"
  by (simp_all add: failed_row_def failed_entry_def restore_stage_state_after_derivative_failure_def
      split: option.splits)

lemma failed_row_attempts:
  "\<not> (case i of Some i \<Rightarrow> ri_action i = REGENERATE_DERIVATIVES | None \<Rightarrow> False) \<Longrightarrow>
     sj_attempt_count e \<le> sj_attempt_count (failed_row env n ev r er rt i e)"
  by (simp add: failed_row_def failed_entry_def split: option.splits)

text \<open>How a delivery may change the journal: its own row, and new pending rows.\<close>

definition journal_moves :: "uuid \<Rightarrow> stage \<Rightarrow> bool \<Rightarrow> db \<Rightarrow> db \<Rightarrow> bool" where
  "journal_moves f s forward d d' \<longleftrightarrow>
     (\<forall>g u e. get_journal d g u = Some e \<longrightarrow>
        (\<exists>e'. get_journal d' g u = Some e' \<and> sj_file e' = sj_file e \<and> sj_stage e' = sj_stage e \<and>
           ((g, u) \<noteq> (f, s) \<longrightarrow> e' = e) \<and> (forward \<longrightarrow> sj_attempt_count e \<le> sj_attempt_count e'))) \<and>
     (\<forall>g u e. get_journal d g u = None \<longrightarrow> get_journal d' g u = Some e \<longrightarrow>
        sj_file e = g \<and> sj_stage e = u \<and> sj_status e = STAGE_PENDING \<and> sj_attempt_count e = 0)"

lemma journal_moves_refl: "journal_moves f s b d d"
  by (auto simp: journal_moves_def)

lemma journal_moves_write:
  assumes "db_journal d' = (db_journal d)((f, s) \<mapsto> e')" "get_journal d f s = Some e"
    "sj_file e' = sj_file e" "sj_stage e' = sj_stage e" "b \<Longrightarrow> sj_attempt_count e \<le> sj_attempt_count e'"
  shows "journal_moves f s b d d'"
  using assms by (auto simp: journal_moves_def get_journal_def)

lemma journal_moves_same: "db_journal d' = db_journal d \<Longrightarrow> journal_moves f s b d d'"
  by (auto simp: journal_moves_def get_journal_def)

lemma journal_moves_finishes:
  assumes "finishes env f s n ev d d'" "journal_keyed d"
  shows "journal_moves f s b d d'"
  using assms
proof (rule finishes_effect)
  fix e
  let ?e' = "(succeeded_entry env n ev e)\<lparr>sj_updated_at := env_now env\<rparr>"
  assume "get_journal d f s = Some e" "get_journal d' f s = Some ?e'"
    "\<forall>g u r. (g, u) \<noteq> (f, s) \<longrightarrow> get_journal d g u = Some r \<longrightarrow> get_journal d' g u = Some r"
    "\<forall>g u r. (g, u) \<noteq> (f, s) \<longrightarrow> get_journal d g u = None \<longrightarrow> get_journal d' g u = Some r \<longrightarrow>
       sj_file r = g \<and> sj_stage r = u \<and> sj_status r = STAGE_PENDING \<and> sj_attempt_count r = 0"
  moreover have "sj_file ?e' = sj_file e" "sj_stage ?e' = sj_stage e" "sj_attempt_count e \<le> sj_attempt_count ?e'"
    by (simp_all add: succeeded_entry_def)
  ultimately show ?thesis
    unfolding journal_moves_def by (intro conjI allI impI; case_tac "(g, u) = (f, s)"; simp)
qed

lemma journal_moves_keyed: "journal_moves f s b d d' \<Longrightarrow> journal_keyed d \<Longrightarrow> journal_keyed d'"
  unfolding journal_moves_def journal_keyed_def by (metis option.exhaust option.inject)

lemma load_snapshot_put:
  "db_snapshots d' = db_snapshots (upsert_sync_target_snapshot env f t st le p r e b c d) \<Longrightarrow>
     \<exists>row. load_sync_target_status d' f t = Inr row"
  by (simp add: load_sync_target_status_def upsert_sync_target_snapshot_def put_snapshot_def Let_def
      split: option.splits)

lemma transcode_Inl:
  assumes "complete_transcode_stage env f n ev r d = (Inl err, d')"
  shows "d' = d \<or>
    (\<exists>mf g. get_file d f = Some mf \<and> get_generation d (mg_id g) = Some g \<and> mg_status g = UPLOADED \<and>
       mg_file g = Some f \<and> mf_s3_web_video_key mf \<noteq> mg_expected_key g \<and>
       nm_generation_id r = Some (mg_id g) \<and>
       d' = put_generation (stale_generation g) d \<and>
       err = MediaGenerationConflictError PointerChangedBeforeActivation)"
proof -
  consider (early) "d' = d"
    | (late) mf e where "get_file d f = Some mf" "get_journal d f TRANSCODE = Some e" "sj_attempt_count e \<le> n"
    using assms by (auto simp: complete_transcode_stage_def get_meme_file_and_stage_entry_def get_meme_file_def
        ensure_stage_attempt_is_current_def split: option.splits sum.splits if_splits)
  then show ?thesis
  proof cases
    case early
    then show ?thesis ..
  next
    case late
    have entry: "get_meme_file_and_stage_entry d f TRANSCODE = Inr (mf, e)"
      "ensure_stage_attempt_is_current e n = Inr ()"
      using late by (simp_all add: get_entry_Inr ensure_stage_attempt_is_current_def)
    define fin where "fin = (\<lambda>file' d'. let file'' = measured_file r file' in
        finalize_stage_success env 0 file'' e TRANSCODE n ev [] d (put_file file'' d'))"
    have fin: "fin x y = (Inl err, d') \<Longrightarrow> d' = d" for x y
      unfolding fin_def Let_def by (rule finalize_Inl)
    note run = assms [unfolded complete_transcode_stage_def entry sum.case prod.case
        measured_file_def [symmetric] fin_def [symmetric], unfolded Let_def]
    show ?thesis
    proof (cases "nm_web_video_key r")
      case None
      with run fin show ?thesis by (auto split: if_splits)
    next
      case (Some key)
      note key = this
      show ?thesis
      proof (cases "nm_generation_id r")
        case None
        with run fin key show ?thesis by (auto split: if_splits)
      next
        case (Some gid)
        show ?thesis
        proof (cases "get_generation d gid")
          case None
          with run fin key Some show ?thesis by (auto split: if_splits)
        next
          case g: (Some g)
          have "d' = d \<or> mg_status g = UPLOADED \<and> mf_s3_web_video_key mf \<noteq> mg_expected_key g \<and>
              mg_file g = Some (mf_id mf) \<and>
              d' = put_generation (stale_generation g) d \<and>
              err = MediaGenerationConflictError PointerChangedBeforeActivation"
            using run fin key Some g by (auto split: if_splits)
          then show ?thesis using late(1) g Some get_generation_id [OF g] get_file_id [OF late(1)] by blast
        qed
      qed
    qed
  qed
qed

lemma sync_Inl:
  assumes "complete_sync_target_stage env t f n ev p d = (Inl err, d')" "journal_keyed d"
  shows "d' = d"
proof (rule ccontr)
  assume ne: "d' \<noteq> d"
  then obtain mf e where load: "get_file d f = Some mf" "get_journal d f (SYNC_STAGE_BY_TARGET t) = Some e"
      "sj_attempt_count e \<le> n"
    using assms(1) by (auto simp: complete_sync_target_stage_def get_meme_file_and_stage_entry_def get_meme_file_def
        ensure_stage_attempt_is_current_def Let_def split: option.splits sum.splits if_splits)
  define already where "already = (sj_status e = STAGE_SUCCEEDED \<and> sj_last_event_id e = Some ev)"
  define dx where "dx = upsert_sync_target_snapshot env f t SYNC_SYNCED (Some ev)
      (if p \<noteq> [] then Some (p, env_now env) else None) None None (\<not> already) True d"
  have entry: "get_meme_file_and_stage_entry d f (SYNC_STAGE_BY_TARGET t) = Inr (mf, e)"
    "ensure_stage_attempt_is_current e n = Inr ()"
    using load by (simp_all add: get_entry_Inr ensure_stage_attempt_is_current_def)
  obtain extra where fin: "finalize_stage_success env 1 mf e (SYNC_STAGE_BY_TARGET t) n ev extra d dx = (Inr (), d')"
    and disappeared: "load_sync_target_status d' f t = Inl err"
    using assms(1) ne finalize_Inl
    unfolding complete_sync_target_stage_def Let_def entry sum.case prod.case already_def [symmetric] dx_def [symmetric]
    by (auto split: sum.splits prod.splits if_splits)
  have "sj_file e = mf_id mf" "sj_stage e = SYNC_STAGE_BY_TARGET t"
    using assms(2) load get_file_id [OF load(1)] by (auto simp: journal_keyed_def)
  then have "db_snapshots d' = db_snapshots dx" using fin by (rule finalize_effect(6) [rotated 1])
  then have "\<exists>row. load_sync_target_status d' f t = Inr row"
    unfolding dx_def by (rule load_snapshot_put)
  with disappeared show False by simp
qed

lemma fail_sync_Inl:
  assumes "fail_sync_target_stage env t f n ev r er d = (Inl err, d')" "journal_keyed d"
  shows "d' = d"
proof -
  define dx where "dx = upsert_sync_target_snapshot env f t SYNC_FAILED (Some ev) None (Some r) (Some er) True False d"
  consider "mark_stage_failed_from env f (SYNC_STAGE_BY_TARGET t) n ev r er
      (r \<noteq> SYNC_MALFORMED_REASON_BY_TARGET t) d dx = (Inl err, d')"
    | (disappeared) "mark_stage_failed_from env f (SYNC_STAGE_BY_TARGET t) n ev r er
      (r \<noteq> SYNC_MALFORMED_REASON_BY_TARGET t) d dx = (Inr (), d')" "load_sync_target_status d' f t = Inl err"
    using assms(1) by (auto simp: fail_sync_target_stage_def dx_def Let_def split: sum.splits prod.splits)
  then show ?thesis
  proof cases
    case 1
    then show ?thesis by (rule failed_Inl)
  next
    case disappeared
    have "\<exists>row. load_sync_target_status d' f t = Inr row"
      using disappeared(1)
    proof (rule failed_outcome)
      fix mf e
      assume a: "get_file dx f = Some mf" "get_journal dx f (SYNC_STAGE_BY_TARGET t) = Some e"
        "apply_stage_failure env mf e (SYNC_STAGE_BY_TARGET t) n ev r er
          (r \<noteq> SYNC_MALFORMED_REASON_BY_TARGET t) True d dx = (Inr (), d')"
      have "sj_file e = mf_id mf" "sj_stage e = SYNC_STAGE_BY_TARGET t"
        using a(1,2) assms(2) get_file_id [OF a(1)] by (auto simp: journal_keyed_def dx_def)
      with a(3) have "db_snapshots d' = db_snapshots dx" by (rule failure_outcome(5))
      then show ?thesis unfolding dx_def by (rule load_snapshot_put)
    qed
    with disappeared(2) show ?thesis by simp
  qed
qed

lemma start_Inl: "start_stage_processing env f s n ev d = (Inl err, d') \<Longrightarrow> d' = d"
  by (auto simp: start_stage_processing_def commit_stage_mutation_def Let_def
      split: option.splits sum.splits if_splits)

lemma ocr_Inl: "complete_ocr_stage env f n ev r d = (Inl err, d') \<Longrightarrow> d' = d"
  by (auto simp: complete_ocr_stage_def split: sum.splits dest: finalize_Inl)

lemma classify_Inl: "complete_classify_stage env f n ev b d = (Inl err, d') \<Longrightarrow> d' = d"
  by (auto simp: complete_classify_stage_def split: sum.splits dest: finalize_Inl)

lemma succeed_Inl: "mark_stage_succeeded env f s n ev d = (Inl err, d') \<Longrightarrow> d' = d"
  by (auto simp: mark_stage_succeeded_def split: sum.splits dest: finalize_Inl)

lemma embed_Inl: "complete_embed_stage env f n ev r ms d = (Inl err, d') \<Longrightarrow> d' = d"
  by (auto simp: complete_embed_stage_def Let_def split: sum.splits prod.splits if_splits dest: finalize_Inl)

lemma abandon_Inl: "abandon_stage_processing env f s n ev r e d = (Inl err, d') \<Longrightarrow> d' = d"
  by (auto simp: abandon_stage_processing_def Let_def split: sum.splits prod.splits option.splits if_splits
      dest: failure_Inl)

lemmas action_Inls = start_Inl succeed_Inl ocr_Inl classify_Inl embed_Inl abandon_Inl sync_Inl
  fail_sync_Inl failed_Inl

lemma action_Inl:
  assumes "run_action env a f s n ev d = (Inl err, d')" "journal_keyed d"
  shows "d' = d \<or>
    (\<exists>r mf g. a = Transcoded r \<and> get_file d f = Some mf \<and> get_generation d (mg_id g) = Some g \<and>
       mg_status g = UPLOADED \<and> mg_file g = Some f \<and> mf_s3_web_video_key mf \<noteq> mg_expected_key g \<and>
       nm_generation_id r = Some (mg_id g) \<and> d' = put_generation (stale_generation g) d \<and>
       err = MediaGenerationConflictError PointerChangedBeforeActivation)"
proof (cases a)
  case (Transcoded r)
  then show ?thesis using assms(1) transcode_Inl [of env f n ev r d err d'] by auto
next
  case (Failed r e b)
  with assms(1) show ?thesis by (auto simp: mark_stage_failed_def dest: failed_Inl)
qed (use assms in \<open>auto dest!: drop_value_Inl dest: action_Inls\<close>)

text \<open>The actions after which a derivative regeneration puts the journal row back.\<close>

fun puts_back :: "stage_action \<Rightarrow> bool" where
  "puts_back (Failed r e b) = True"
| "puts_back (SyncFailed t r e) = True"
| "puts_back (Abandoned r e) = True"
| "puts_back _ = False"

lemma action_journal_moves:
  assumes "run_action env a f s n ev d = (r, d')" "journal_keyed d"
  shows "journal_moves f (action_stage a s) (\<not> (puts_back a \<and> derivative_item d ev)) d d'"
proof (cases r)
  case (Inl err)
  with assms action_Inl [of env a f s n ev d err d'] show ?thesis
    by (auto simp: journal_moves_refl frame_simps intro!: journal_moves_same)
next
  case (Inr u)
  with assms have run: "run_action env a f s n ev d = (Inr (), d')" by simp
  have failure: "journal_moves f u b d d'"
    if "get_file d f = Some mf" "get_journal d f u = Some e"
      "apply_stage_failure env mf e u n ev reason err rt c d dx = (Inr (), d')" "output_frame d dx"
      "b \<Longrightarrow> \<not> derivative_item d ev" for u b mf e reason err rt c dx
  proof -
    have keyed: "sj_file e = mf_id mf" "sj_stage e = u"
      using that(1,2) assms(2) get_file_id [OF that(1)] by (auto simp: journal_keyed_def)
    have "db_journal d' = (db_journal d)((f, u) \<mapsto>
        (failed_row env n ev reason err rt (load_recovery_item d ev) e)\<lparr>sj_updated_at := env_now env\<rparr>)"
      using failure_outcome(1) [OF that(3) keyed] that(4) get_file_id [OF that(1)]
      by (simp add: output_frame_load [OF that(4)]) (simp add: output_frame_def)
    then show ?thesis
      by (rule journal_moves_write [OF _ that(2)])
        (use that(5) in \<open>auto simp: derivative_item_def intro!: failed_row_attempts\<close>)
  qed
  consider "a = Start" | "completes a" | "fails a" | r er where "a = Abandoned r er"
    by (cases a) simp_all
  then show ?thesis
  proof cases
    case 1
    with run obtain out where "start_stage_processing env f s n ev d = (Inr out, d')"
      by (auto dest: drop_value_Inr)
    then show ?thesis
    proof (rule start_outcome)
      fix e assume "d' = d" then show ?thesis by (simp add: journal_moves_refl)
    next
      fix e mf
      assume e: "get_journal d f s = Some e"
        and j: "db_journal d' = (db_journal d)((sj_file e, sj_stage e) \<mapsto>
         (started_entry env n ev e)\<lparr>sj_updated_at := env_now env\<rparr>)"
      have k: "sj_file e = f" "sj_stage e = s" using assms(2) e by (auto simp: journal_keyed_def)
      show ?thesis
        using 1 by (auto intro!: journal_moves_write [OF j [unfolded k] e] simp: started_entry_def)
    qed
  next
    case 2
    have "journal_moves f (action_stage a s) b d d'" for b
      using journal_moves_finishes [OF action_finishes [OF 2 run] assms(2)]
      by (auto simp: journal_moves_def)
    then show ?thesis by blast
  next
    case 3
    then have pb: "puts_back a" by (cases a) simp_all
    show ?thesis
      by (rule action_fails [OF 3 run]) (rule failure, simp_all add: pb)
  next
    case (4 rs er)
    with run obtain out where "abandon_stage_processing env f s n ev rs er d = (Inr out, d')"
      by (auto dest: drop_value_Inr)
    then show ?thesis
    proof (rule abandon_outcome)
      fix e assume "d' = d" then show ?thesis by (simp add: journal_moves_refl)
    next
      fix e mf
      assume "get_journal d f s = Some e" "get_file d f = Some mf"
        "apply_stage_failure env mf e s n ev rs er True False d d = (Inr (), d')"
      then show ?thesis using 4 by (auto intro: failure output_frame_refl)
    qed
  qed
qed

section \<open>Runs of deliveries\<close>

text \<open>
  Deliveries of any events, in any order, by any workers. \<open>row_step f t\<close> leaves out one kind of them: the failed or
  abandoned delivery of a derivative regeneration of the row \<open>(f, t)\<close> itself, which puts that row back.
\<close>

inductive stage_step :: "db \<Rightarrow> db \<Rightarrow> bool" where
  deliver: "stage_step d (snd (run_action env a f s n ev d))"

inductive row_step :: "uuid \<Rightarrow> stage \<Rightarrow> db \<Rightarrow> db \<Rightarrow> bool" for f :: uuid and t :: stage where
  deliver_row: "\<not> (derivative_item d ev \<and> puts_back a \<and> g = f \<and> action_stage a s = t) \<Longrightarrow>
    row_step f t d (snd (run_action env a g s n ev d))"

inductive_cases stage_stepE: "stage_step d d'"

lemma stage_step_keyed: "stage_step d d' \<Longrightarrow> journal_keyed d \<Longrightarrow> journal_keyed d'"
  by (erule stage_stepE) (metis action_journal_moves journal_moves_keyed prod.collapse)

text \<open>The attempts of the row only rise.\<close>

definition row_forward :: "uuid \<Rightarrow> stage \<Rightarrow> db \<Rightarrow> db \<Rightarrow> bool" where
  "row_forward f t d d' \<longleftrightarrow>
     (\<forall>e. get_journal d f t = Some e \<longrightarrow>
        (\<exists>e'. get_journal d' f t = Some e' \<and> sj_attempt_count e \<le> sj_attempt_count e'))"

lemma row_forward_refl: "row_forward f t d d"
  by (simp add: row_forward_def)

lemma row_forward_trans: "row_forward f t a b \<Longrightarrow> row_forward f t b c \<Longrightarrow> row_forward f t a c"
  unfolding row_forward_def by (meson order_trans)

lemma journal_moves_row_forward: "journal_moves g u b d d' \<Longrightarrow> b \<or> (g, u) \<noteq> (f, t) \<Longrightarrow> row_forward f t d d'"
  unfolding journal_moves_def row_forward_def
  by (cases b) (simp_all, blast, metis order_refl)

lemma row_step_forward: "row_step f t d d' \<Longrightarrow> journal_keyed d \<Longrightarrow> row_forward f t d d' \<and> journal_keyed d'"
proof (elim row_step.cases)
  fix d0 ev a g s env n
  assume k: "journal_keyed d" and eq: "d = d0" "d' = snd (run_action env a g s n ev d0)"
    and c: "\<not> (derivative_item d0 ev \<and> puts_back a \<and> g = f \<and> action_stage a s = t)"
  have m: "journal_moves g (action_stage a s) (\<not> (puts_back a \<and> derivative_item d ev)) d d'"
    using action_journal_moves [of env a g s n ev d "fst (run_action env a g s n ev d)" d'] k eq by simp
  then have "row_forward f t d d'" by (rule journal_moves_row_forward) (use c eq in auto)
  with m k show ?thesis using journal_moves_keyed by blast
qed

section \<open>The hand-over messages\<close>

lemma carried_ids: "list_all2 carries ms es \<Longrightarrow> map ob_id ms = map ev_id es"
  by (induction rule: list_all2_induct) (auto simp: carries_def)

lemma carried_message:
  assumes "list_all2 carries ms es" "e \<in> set es" "d1 = d\<lparr>db_outbox := db_outbox d @ ms\<rparr>" "outbox_wf d1"
  shows "\<exists>sp. message_contents d1 (ev_id e) = Some sp \<and> sp_payload sp = DispatchPayload e"
proof -
  obtain m where m: "m \<in> set ms" "carries m e"
    using assms(1,2) by (metis list_all2_conv_all_nth in_set_conv_nth)
  then have "get_outbox d1 (ob_id m) = Some m"
    using assms(3,4) by (auto intro!: outbox_wf_get)
  with m(2) show ?thesis
    by (auto simp: message_contents_def carries_def message_spec_from_outbox_message_def)
qed

text \<open>No row of the outbox carries one of these ids yet, and no row has a negative attempt count.\<close>

definition outbox_ready :: "uuid list \<Rightarrow> db \<Rightarrow> bool" where
  "outbox_ready ids d \<longleftrightarrow>
     outbox_wf d \<and> (\<forall>m\<in>set (db_outbox d). 0 \<le> ob_attempt_count m \<and> ob_id m \<notin> set ids) \<and> distinct ids"

lemma relayed_message:
  assumes "list_all2 carries ms es" "e \<in> set es" "outbox_ready (map ev_id es) d"
    and d1: "d1 = d\<lparr>db_outbox := db_outbox d @ ms\<rparr>"
  shows "\<exists>sp. message_contents (snd (relay_best_effort env ids d1)) (ev_id e) = Some sp \<and>
      sp_payload sp = DispatchPayload e"
proof -
  have wf: "outbox_wf d1"
  proof -
    have "distinct (map ob_id (db_outbox d))" "distinct (map ev_id es)"
      "set (map ob_id (db_outbox d)) \<inter> set (map ev_id es) = {}"
      using assms(3) by (auto simp only: outbox_ready_def outbox_wf_def list.set_map)
    moreover have "ob_id ` set ms = ev_id ` set es"
      using arg_cong [OF carried_ids [OF assms(1)], of set] by simp
    moreover have "distinct (map ob_id ms) = distinct (map ev_id es)"
      by (simp only: carried_ids [OF assms(1)])
    ultimately show ?thesis by (simp add: d1 outbox_wf_def)
  qed
  have nn: "\<forall>m\<in>set (db_outbox d1). 0 \<le> ob_attempt_count m"
    using assms(1,3)
    by (auto simp: d1 outbox_ready_def list_all2_conv_all_nth in_set_conv_nth carries_def)
  obtain sp where "message_contents d1 (ev_id e) = Some sp" "sp_payload sp = DispatchPayload e"
    using carried_message [OF assms(1,2) d1 wf] by blast
  then show ?thesis using relay_keeps_messages [OF wf nn] by blast
qed

text \<open>
  What a success hands over: the rows and events of \<open>_prepare_downstream_dispatches\<close>, run on the
  journal with the stage's own row already written, end in the database with one message per event.
\<close>

lemma finishes_hand_over:
  assumes fin: "finishes env f s n ev d d'" and keyed: "journal_keyed d" and s: "s \<notin> set SYNC_STAGES"
    and sup: "\<not> (case load_recovery_item d ev of Some i \<Rightarrow> ri_suppress_fanout i | None \<Rightarrow> False)"
  obtains mf d2 dispatches d3 where "mf_id mf = f"
    "\<forall>u. u \<noteq> s \<longrightarrow> get_journal d2 f u = get_journal d f u"
    "prepare_downstream_dispatches env 0 mf s (env_now env) d2 = Inr (dispatches, d3)"
    "db_journal d' = db_journal d3"
    "\<And>e. outbox_ready (map ev_id dispatches) d \<Longrightarrow> e \<in> set dispatches \<Longrightarrow>
       \<exists>sp. message_contents d' (ev_id e) = Some sp \<and> sp_payload sp = DispatchPayload e"
    "dispatches = [] \<Longrightarrow> db_outbox d' = db_outbox d"
proof -
  obtain mf0 e0 mf dx where l: "get_file d f = Some mf0" "get_journal d f s = Some e0"
    and c: "file_core mf = file_core mf0" and o: "output_frame d dx"
    and run: "finalize_stage_success env 0 mf e0 s n ev [] d dx = (Inr (), d')"
    using fin s unfolding finishes_def by blast
  have id': "mf_id mf = f" using c get_file_id [OF l(1)] by (simp add: file_core_def)
  have k: "sj_file e0 = f" "sj_stage e0 = s" using keyed l(2) by (auto simp: journal_keyed_def)
  obtain d2 item dispatches d3 d4 ms ids where
    d2: "d2 = record_attempt_finished env (mf_id mf) s n ev ATTEMPT_SUCCEEDED None None (env_now env)
               (put_journal env (succeeded_entry env n ev e0) dx)"
    and item: "item = load_recovery_item d2 ev"
    and prep: "if (case item of Some i \<Rightarrow> ri_suppress_fanout i | None \<Rightarrow> False) then dispatches = [] \<and> d3 = d2
         else prepare_downstream_dispatches env 0 mf s (env_now env) d2 = Inr (dispatches, d3)"
    and d4: "d4 = (if s = CLASSIFY \<and> \<not> should_preserve_file_status item mf
              then put_file (mf\<lparr>mf_status := FILE_READY\<rparr>) d3
              else if s \<notin> set SYNC_STAGES \<and> \<not> should_preserve_file_status item mf
                then put_file (mf\<lparr>mf_status := FILE_PROCESSING\<rparr>) d3 else d3)"
    and ms: "list_all2 carries ms (dispatches @ [])" and ids: "ids = map ev_id (dispatches @ [])"
    and d': "d' = snd (relay_best_effort env ids (d4\<lparr>db_outbox := db_outbox d4 @ ms\<rparr>))"
    by (rule disjE [OF finalize_outcome [OF run]]) (simp, blast)
  have "item = load_recovery_item d ev"
    by (simp add: item d2 frame_simps output_frame_load [OF o])
  with prep sup have prep': "prepare_downstream_dispatches env 0 mf s (env_now env) d2 = Inr (dispatches, d3)"
    by simp
  have j2: "\<forall>u. u \<noteq> s \<longrightarrow> get_journal d2 f u = get_journal d f u"
    using o by (auto simp: d2 row_simps succeeded_entry_def k output_frame_def)
      (simp add: get_journal_def)
  note ext = journal_extends_tables [OF prepare_downstream_extends [OF prep']]
  have ob: "db_outbox d4 = db_outbox d"
    using o by (simp add: d4 frame_simps ext d2 output_frame_def)
  have jd: "db_journal d' = db_journal d3"
    unfolding d' using outbox_only_tables(1) [OF relay_best_effort_only] by (simp add: d4 frame_simps)
  have ready: "outbox_ready xs d4 = outbox_ready xs d" for xs
    by (simp add: outbox_ready_def outbox_wf_def ob)
  have msg: "\<exists>sp. message_contents d' (ev_id e) = Some sp \<and> sp_payload sp = DispatchPayload e"
    if "outbox_ready (map ev_id dispatches) d" "e \<in> set dispatches" for e
    unfolding d'
    by (rule relayed_message [of ms dispatches]) (use ms that ready in simp_all)
  have none: "dispatches = [] \<Longrightarrow> db_outbox d' = db_outbox d"
    using ms by (simp add: d' ids ob relay_best_effort_def)
  show thesis by (rule that [OF id' j2 prep' jd msg none])
qed

section \<open>Properties\<close>

definition sample_stage_db :: "stage \<Rightarrow> db" where
  "sample_stage_db s =
     empty_db\<lparr>db_memes := [sample_meme], db_files := [sample_file],
              db_journal := (\<lambda>k. if k = (1, s) then Some (sample_journal s) else None)\<rparr>"

lemma sample_stage_keyed: "journal_keyed (sample_stage_db s)"
  by (auto simp: journal_keyed_def sample_stage_db_def get_journal_def sample_journal_def split: if_splits)

lemma sample_stage_journal: "get_journal (sample_stage_db s) 1 s = Some (sample_journal s)"
  by (simp add: sample_stage_db_def get_journal_def)

text \<open>One successful OCR delivery, started and completed.\<close>

lemma sample_success: "run_action sample_env Succeed 1 OCR 1 60 (sample_stage_db OCR) =
    (Inr (), snd (run_action sample_env Succeed 1 OCR 1 60 (sample_stage_db OCR)))"
proof -
  have "fst (run_action sample_env Succeed 1 OCR 1 60 (sample_stage_db OCR)) = Inr ()" by code_simp
  then show ?thesis by (metis prod.collapse)
qed

text \<open>A delivery older than the row it names finds nothing to do.\<close>

lemma older_attempt_inert:
  assumes "get_journal d f (action_stage a s) = Some e" "n < sj_attempt_count e" "get_file d f = Some mf"
  shows "snd (run_action env a f s n ev d) = d \<and>
    (completes a \<or> fails a \<longrightarrow>
       fst (run_action env a f s n ev d) = Inl (PipelineIngestError StaleTransition))"
proof -
  have entry: "get_meme_file_and_stage_entry d f (action_stage a s) = Inr (mf, e)"
    "ensure_stage_attempt_is_current e n = Inl (PipelineIngestError StaleTransition)"
    using assms by (simp_all add: get_entry_Inr ensure_stage_attempt_is_current_def)
  show ?thesis
    using entry assms
    by (cases a)
      (simp_all add: start_stage_processing_def mark_stage_succeeded_def complete_transcode_stage_def
        complete_ocr_stage_def complete_embed_stage_def complete_classify_stage_def Let_def
        complete_sync_target_stage_def mark_stage_failed_def mark_stage_failed_from_def
        fail_sync_target_stage_def abandon_stage_processing_def get_meme_file_def)
qed

lemma row_run_forward:
  "(row_step f t)\<^sup>*\<^sup>* d d' \<Longrightarrow> journal_keyed d \<Longrightarrow> row_forward f t d d' \<and> journal_keyed d'"
  by (induction rule: rtranclp_induct)
    (auto simp: row_forward_refl dest: row_step_forward intro: row_forward_trans)

lemma row_run_attempts:
  assumes "(row_step f t)\<^sup>*\<^sup>* d d'" "journal_keyed d" "get_journal d f t = Some e" "n < sj_attempt_count e"
  obtains e' where "get_journal d' f t = Some e'" "n < sj_attempt_count e'"
  using row_run_forward [OF assms(1,2)] assms(3,4) unfolding row_forward_def
  by (meson order_less_le_trans)

text \<open>
  C1. A delivery whose attempt is older than the journal row's changes nothing, at once and after any further deliveries
  (starts, completions, failures and abandonments, of any event, attempt, file and stage, derivative regenerations
  included) but one kind: a derivative regeneration of this very row that fails or is abandoned, which puts the row's
  earlier count back. Completions and failures by the older delivery raise the stale-transition error.
\<close>

theorem superseded_delivery_is_inert:
  assumes "(row_step f (action_stage a s))\<^sup>*\<^sup>* d d'" "journal_keyed d"
    and "get_journal d f (action_stage a s) = Some e" "n < sj_attempt_count e"
    and "get_file d' f = Some mf"
  shows "snd (run_action env a f s n ev d') = d' \<and>
    (completes a \<or> fails a \<longrightarrow>
       fst (run_action env a f s n ev d') = Inl (PipelineIngestError StaleTransition))"
  by (rule row_run_attempts [OF assms(1-4)]) (rule older_attempt_inert [OF _ _ assms(5)])

text \<open>
  C8. Once a stage was started or completed by a delivery, the same delivery starts nothing again,
  whatever attempt it carries: the worker is told to acknowledge it, and nothing changes.
\<close>

theorem redelivery_is_absorbed:
  assumes "a = Start \<or> completes a" "run_action env a f s n ev d = (Inr (), d')" "journal_keyed d"
    and "env_commit_ok env'"
  shows "start_stage_processing env' f (action_stage a s) m ev d' = (Inr None, d')"
proof -
  have "\<exists>e. get_journal d' f (action_stage a s) = Some e \<and> sj_last_event_id e = Some ev \<and>
      sj_status e \<in> {STAGE_PROCESSING, STAGE_SUCCEEDED}"
  proof (cases "completes a")
    case True
    show ?thesis
      by (rule finishes_effect [OF action_finishes [OF True assms(2)] assms(3)])
        (simp add: succeeded_entry_def)
  next
    case False
    with assms(1,2) obtain out where a: "a = Start"
      and st: "start_stage_processing env f s n ev d = (Inr out, d')"
      by (auto dest: drop_value_Inr)
    show ?thesis
      using st
    proof (rule start_outcome)
      fix e mf
      assume e: "get_journal d f s = Some e"
        and j: "db_journal d' = (db_journal d)((sj_file e, sj_stage e) \<mapsto>
         (started_entry env n ev e)\<lparr>sj_updated_at := env_now env\<rparr>)"
      with assms(3) show ?thesis by (auto simp: a get_journal_def journal_keyed_def started_entry_def)
    qed (auto simp: a)
  qed
  then show ?thesis using assms(4) by (auto simp: start_stage_processing_def)
qed

theorem redelivery_is_absorbed_witness:
  "start_stage_processing sample_env 1 OCR 7 60 (snd (run_action sample_env Succeed 1 OCR 1 60 (sample_stage_db OCR))) =
     (Inr None, snd (run_action sample_env Succeed 1 OCR 1 60 (sample_stage_db OCR)))"
  using redelivery_is_absorbed [OF _ sample_success sample_stage_keyed, of sample_env 7]
  by (simp add: sample_env_def)

theorem superseded_delivery_is_inert_witness:
  "snd (run_action sample_env (Failed ''late'' ''late'' True) 1 OCR 0 60
      (snd (run_action sample_env Start 1 OCR 1 61
        (snd (run_action sample_env Succeed 1 OCR 1 60 (sample_stage_db OCR)))))) =
   snd (run_action sample_env Start 1 OCR 1 61 (snd (run_action sample_env Succeed 1 OCR 1 60 (sample_stage_db OCR))))"
proof -
  let ?d = "snd (run_action sample_env Succeed 1 OCR 1 60 (sample_stage_db OCR))"
  let ?d' = "snd (run_action sample_env Start 1 OCR 1 61 ?d)"
  have "map_option sj_attempt_count (get_journal ?d 1 OCR) = Some 1" by code_simp
  then obtain e where e: "get_journal ?d 1 OCR = Some e" "0 < sj_attempt_count e" by auto
  have "map_option mf_id (get_file ?d' 1) = Some 1" by code_simp
  then obtain mf where mf: "get_file ?d' 1 = Some mf" by auto
  have k: "journal_keyed ?d"
    by (rule stage_step_keyed [OF stage_step.deliver sample_stage_keyed])
  have "row_step 1 (action_stage (Failed ''late'' ''late'' True) OCR) ?d ?d'" by (rule deliver_row) simp
  from superseded_delivery_is_inert [OF r_into_rtranclp [of "row_step 1 _", OF this] k, of e 0 mf] e mf
  show ?thesis by simp
qed

section \<open>Hand-over properties\<close>

definition suppresses_fan_out :: "db \<Rightarrow> uuid \<Rightarrow> bool" where
  "suppresses_fan_out d ev \<longleftrightarrow>
     (case load_recovery_item d ev of Some i \<Rightarrow> ri_suppress_fanout i | None \<Rightarrow> False)"

text \<open>
  The stage row \<open>t\<close> of file \<open>f\<close> is pending under event \<open>i\<close>, and the outbox holds the message that
  makes a worker take it up.
\<close>

definition handed_over :: "db \<Rightarrow> uuid \<Rightarrow> stage \<Rightarrow> event_type \<Rightarrow> uuid \<Rightarrow> bool" where
  "handed_over d f t ty i \<longleftrightarrow>
     (\<exists>r sp e. get_journal d f t = Some r \<and> sj_status r = STAGE_PENDING \<and> sj_last_event_id r = Some i \<and>
        message_contents d i = Some sp \<and> sp_payload sp = DispatchPayload e \<and>
        ev_id e = i \<and> ev_type e = ty \<and> ev_file e = f \<and> ev_stage e = t \<and> ev_attempt e = 1)"

lemma handed_over_built:
  assumes "build_downstream_dispatch env n mf p t tm d = Inr (e, d1)" "mf_id mf = f"
    "DOWNSTREAM_STAGE_EVENT_TYPES p = Some ty" "get_journal d' f t = get_journal d1 f t"
    "message_contents d' (env_fresh env n) = Some sp" "sp_payload sp = DispatchPayload e"
  shows "handed_over d' f t ty (env_fresh env n)"
  using build_downstream_Inr [OF assms(1)] assms(2-)
  by (auto simp: handed_over_def row_simps)

lemma next_stage_not_sync: "NEXT_STAGE_BY_STAGE s = Some t \<Longrightarrow> s \<notin> set SYNC_STAGES \<and> s \<noteq> CLASSIFY \<and> t \<noteq> s"
  by (cases s) (auto simp: mem_SYNC_STAGES)

text \<open>
  C5. A completion of TRANSCODE, OCR or EMBED hands the file to the next stage in its own
  transaction: when the next stage has no row yet, the committed database holds the pending row and
  the message that dispatches it under the same event id; a next stage that has a row keeps it.
\<close>

theorem success_hands_over:
  assumes "completes a" "run_action env a f s n ev d = (Inr (), d')" "journal_keyed d"
    and "NEXT_STAGE_BY_STAGE (action_stage a s) = Some t"
    and "\<not> suppresses_fan_out d ev" "outbox_ready [env_fresh env 0] d"
  shows "case get_journal d f t of
      Some r \<Rightarrow> get_journal d' f t = Some r \<and> db_outbox d' = db_outbox d
    | None \<Rightarrow> (\<exists>ty. DOWNSTREAM_STAGE_EVENT_TYPES (action_stage a s) = Some ty \<and>
        handed_over d' f t ty (env_fresh env 0))"
proof -
  let ?s = "action_stage a s"
  note st = next_stage_not_sync [OF assms(4)]
  show ?thesis
  proof (rule finishes_hand_over [OF action_finishes [OF assms(1,2)] assms(3)])
    show "?s \<notin> set SYNC_STAGES" using st by blast
    show "\<not> (case load_recovery_item d ev of None \<Rightarrow> False | Some i \<Rightarrow> ri_suppress_fanout i)"
      using assms(5) by (simp add: suppresses_fan_out_def)
    fix mf d2 dispatches d3
    assume mf: "mf_id mf = f" and j2: "\<forall>u. u \<noteq> ?s \<longrightarrow> get_journal d2 f u = get_journal d f u"
      and prep: "prepare_downstream_dispatches env 0 mf ?s (env_now env) d2 = Inr (dispatches, d3)"
      and jd: "db_journal d' = db_journal d3"
      and msg: "\<And>e. outbox_ready (map ev_id dispatches) d \<Longrightarrow> e \<in> set dispatches \<Longrightarrow>
         \<exists>sp. message_contents d' (ev_id e) = Some sp \<and> sp_payload sp = DispatchPayload e"
      and none: "dispatches = [] \<Longrightarrow> db_outbox d' = db_outbox d"
    have jt: "get_journal d2 f t = get_journal d f t" using j2 st by auto
    have jd': "get_journal d' f t = get_journal d3 f t" by (simp add: get_journal_def jd)
    show ?thesis
    proof (cases "get_journal d f t")
      case (Some r)
      then have "dispatches = [] \<and> d3 = d2"
        using prep st assms(4) jt mf by (simp add: prepare_downstream_dispatches_def)
      then show ?thesis using Some none jt jd' by simp
    next
      case None
      then obtain e1 where b: "build_downstream_dispatch env 0 mf ?s t (env_now env) d2 = Inr (e1, d3)"
        and dl: "dispatches = [e1]"
        using prep st assms(4) jt mf by (auto simp: prepare_downstream_dispatches_def split: sum.splits)
      obtain ty where ty: "DOWNSTREAM_STAGE_EVENT_TYPES ?s = Some ty" "ev_id e1 = env_fresh env 0"
        using build_downstream_Inr [OF b] by blast
      obtain sp where "message_contents d' (env_fresh env 0) = Some sp" "sp_payload sp = DispatchPayload e1"
        using msg [of e1] assms(6) ty(2) dl by auto
      then have "handed_over d' f t ty (env_fresh env 0)"
        by (rule handed_over_built [OF b mf ty(1) jd'])
      then show ?thesis using None ty by simp
    qed
  qed
qed

lemma sample_stage_ready: "distinct ids \<Longrightarrow> outbox_ready ids (sample_stage_db s)"
  by (simp add: outbox_ready_def outbox_wf_def sample_stage_db_def empty_db_def)

lemma sample_stage_no_item: "\<not> suppresses_fan_out (sample_stage_db s) ev"
  by (simp add: suppresses_fan_out_def load_recovery_item_def sample_stage_db_def empty_db_def)

theorem success_hands_over_witness:
  "\<exists>ty. DOWNSTREAM_STAGE_EVENT_TYPES OCR = Some ty \<and>
     handed_over (snd (run_action sample_env Succeed 1 OCR 1 60 (sample_stage_db OCR))) 1 EMBED ty 900"
proof -
  have "get_journal (sample_stage_db OCR) 1 EMBED = None"
    by (simp add: sample_stage_db_def get_journal_def)
  then show ?thesis
    using success_hands_over [OF _ sample_success sample_stage_keyed, of EMBED] sample_stage_no_item
      sample_stage_ready
    by (simp add: sample_env_def)
qed

lemma classify_fan_out_first:
  assumes "get_journal d2 (mf_id mf) SYNC_QDRANT = None"
    and "prepare_downstream_dispatches env 0 mf CLASSIFY tm d2 = Inr (dispatches, d3)"
  obtains e1 d1 where "build_downstream_dispatch env 0 mf CLASSIFY SYNC_QDRANT tm d2 = Inr (e1, d1)"
    "get_journal d1 (mf_id mf) SYNC_MEILI = get_journal d2 (mf_id mf) SYNC_MEILI"
    "classify_fan_out_loop env 1 mf tm [SYNC_MEILI] [e1] d1 = Inr (dispatches, d3)"
proof -
  obtain e1 d1 where b: "build_downstream_dispatch env 0 mf CLASSIFY SYNC_QDRANT tm d2 = Inr (e1, d1)"
    and rest: "classify_fan_out_loop env 1 mf tm [SYNC_MEILI] [e1] d1 = Inr (dispatches, d3)"
    using assms by (auto simp: prepare_downstream_dispatches_def CLASSIFY_FAN_OUT_STAGES_def split: sum.splits)
  have "get_journal d1 (mf_id mf) SYNC_MEILI = get_journal d2 (mf_id mf) SYNC_MEILI"
    using build_downstream_Inr [OF b] by (auto simp: row_simps)
  with that [OF b _ rest] show thesis by blast
qed

text \<open>
  A completed classification hands the file to both sync targets: two pending rows and two
  messages in the same transaction, when neither target has a row yet.
\<close>

theorem classification_fans_out:
  assumes "completes a" "run_action env a f s n ev d = (Inr (), d')" "journal_keyed d"
    and "action_stage a s = CLASSIFY" "\<not> suppresses_fan_out d ev"
    and "get_journal d f SYNC_QDRANT = None" "get_journal d f SYNC_MEILI = None"
    and "outbox_ready [env_fresh env 0, env_fresh env 1] d"
  shows "handed_over d' f SYNC_QDRANT MEME_READY (env_fresh env 0) \<and>
    handed_over d' f SYNC_MEILI MEME_READY (env_fresh env 1)"
proof (rule finishes_hand_over [OF action_finishes [OF assms(1,2)] assms(3)])
  show "action_stage a s \<notin> set SYNC_STAGES" by (simp add: assms(4) mem_SYNC_STAGES)
  show "\<not> (case load_recovery_item d ev of None \<Rightarrow> False | Some i \<Rightarrow> ri_suppress_fanout i)"
    using assms(5) by (simp add: suppresses_fan_out_def)
  fix mf d2 dispatches d3
  assume mf: "mf_id mf = f" and j2: "\<forall>u. u \<noteq> action_stage a s \<longrightarrow> get_journal d2 f u = get_journal d f u"
    and prep: "prepare_downstream_dispatches env 0 mf (action_stage a s) (env_now env) d2 = Inr (dispatches, d3)"
    and jd: "db_journal d' = db_journal d3"
    and msg: "\<And>e. outbox_ready (map ev_id dispatches) d \<Longrightarrow> e \<in> set dispatches \<Longrightarrow>
       \<exists>sp. message_contents d' (ev_id e) = Some sp \<and> sp_payload sp = DispatchPayload e"
  have none: "get_journal d2 (mf_id mf) SYNC_QDRANT = None" "get_journal d2 (mf_id mf) SYNC_MEILI = None"
    using j2 assms(4,6,7) mf by simp_all
  obtain e1 d1 where b1: "build_downstream_dispatch env 0 mf CLASSIFY SYNC_QDRANT (env_now env) d2 = Inr (e1, d1)"
    and m1: "get_journal d1 (mf_id mf) SYNC_MEILI = None"
    and rest: "classify_fan_out_loop env 1 mf (env_now env) [SYNC_MEILI] [e1] d1 = Inr (dispatches, d3)"
    using classify_fan_out_first [OF none(1) prep [unfolded assms(4)]] none(2) by metis
  obtain e2 where b2: "build_downstream_dispatch env 1 mf CLASSIFY SYNC_MEILI (env_now env) d1 = Inr (e2, d3)"
    and dl: "dispatches = [e1, e2]"
    using rest m1 by (auto split: sum.splits)
  have ids: "ev_id e1 = env_fresh env 0" "ev_id e2 = env_fresh env 1"
    using build_downstream_Inr [OF b1] build_downstream_Inr [OF b2] by auto
  have j: "get_journal d' f u = get_journal d3 f u" for u by (simp add: get_journal_def jd)
  have q: "get_journal d' f SYNC_QDRANT = get_journal d1 f SYNC_QDRANT"
    unfolding j using build_downstream_Inr [OF b2] by (auto simp: row_simps)
  obtain sp1 sp2 where sp: "message_contents d' (env_fresh env 0) = Some sp1" "sp_payload sp1 = DispatchPayload e1"
    "message_contents d' (env_fresh env 1) = Some sp2" "sp_payload sp2 = DispatchPayload e2"
    using msg [of e1] msg [of e2] assms(8) ids dl by auto
  show ?thesis
    using handed_over_built [OF b1 mf _ q sp(1,2)] handed_over_built [OF b2 mf _ j sp(3,4)] by simp
qed

lemma sample_classified: "run_action sample_env (Classified False) 1 CLASSIFY 1 60 (sample_stage_db CLASSIFY) =
    (Inr (), snd (run_action sample_env (Classified False) 1 CLASSIFY 1 60 (sample_stage_db CLASSIFY)))"
proof -
  have "fst (run_action sample_env (Classified False) 1 CLASSIFY 1 60 (sample_stage_db CLASSIFY)) = Inr ()"
    by code_simp
  then show ?thesis by (metis prod.collapse)
qed

theorem classification_fans_out_witness:
  "handed_over (snd (run_action sample_env (Classified False) 1 CLASSIFY 1 60 (sample_stage_db CLASSIFY)))
     1 SYNC_MEILI MEME_READY 901"
  using classification_fans_out [OF _ sample_classified sample_stage_keyed] sample_stage_no_item
    sample_stage_ready [of "[900, 901]"]
  by (simp add: sample_env_def get_journal_def sample_stage_db_def)

text \<open>
  C18. When the Meilisearch row of the file exists and the Qdrant row does not, a completed
  classification commits a pending Qdrant row whose event no outbox message carries: the outbox is
  exactly what it was, so no worker ever takes the row up.
\<close>

theorem partial_fan_out_strands_qdrant:
  assumes "completes a" "run_action env a f s n ev d = (Inr (), d')" "journal_keyed d"
    and "action_stage a s = CLASSIFY" "\<not> suppresses_fan_out d ev"
    and "get_journal d f SYNC_QDRANT = None" "get_journal d f SYNC_MEILI = Some r"
  shows "(\<exists>q. get_journal d' f SYNC_QDRANT = Some q \<and> sj_status q = STAGE_PENDING \<and>
      sj_last_event_id q = Some (env_fresh env 0)) \<and> db_outbox d' = db_outbox d"
proof (rule finishes_hand_over [OF action_finishes [OF assms(1,2)] assms(3)])
  show "action_stage a s \<notin> set SYNC_STAGES" by (simp add: assms(4) mem_SYNC_STAGES)
  show "\<not> (case load_recovery_item d ev of None \<Rightarrow> False | Some i \<Rightarrow> ri_suppress_fanout i)"
    using assms(5) by (simp add: suppresses_fan_out_def)
  fix mf d2 dispatches d3
  assume mf: "mf_id mf = f" and j2: "\<forall>u. u \<noteq> action_stage a s \<longrightarrow> get_journal d2 f u = get_journal d f u"
    and prep: "prepare_downstream_dispatches env 0 mf (action_stage a s) (env_now env) d2 = Inr (dispatches, d3)"
    and jd: "db_journal d' = db_journal d3"
    and none: "dispatches = [] \<Longrightarrow> db_outbox d' = db_outbox d"
  have rows: "get_journal d2 (mf_id mf) SYNC_QDRANT = None" "get_journal d2 (mf_id mf) SYNC_MEILI = Some r"
    using j2 assms(4,6,7) mf by simp_all
  obtain e1 d1 where b1: "build_downstream_dispatch env 0 mf CLASSIFY SYNC_QDRANT (env_now env) d2 = Inr (e1, d1)"
    and m1: "get_journal d1 (mf_id mf) SYNC_MEILI = Some r"
    and rest: "classify_fan_out_loop env 1 mf (env_now env) [SYNC_MEILI] [e1] d1 = Inr (dispatches, d3)"
    using classify_fan_out_first [OF rows(1) prep [unfolded assms(4)]] rows(2) by metis
  have dl: "dispatches = []" "d3 = d1" using rest m1 by simp_all
  show ?thesis
    using none [OF dl(1)] build_downstream_Inr [OF b1] mf
    by (auto simp: get_journal_def jd dl(2) put_journal_def)
qed

definition sample_partial_db :: db where
  "sample_partial_db = (sample_stage_db CLASSIFY)
     \<lparr>db_journal := (\<lambda>k. if k = (1, CLASSIFY) then Some (sample_journal CLASSIFY)
                      else if k = (1, SYNC_MEILI) then Some (sample_journal SYNC_MEILI) else None)\<rparr>"

theorem partial_fan_out_strands_qdrant_witness:
  "db_outbox (snd (run_action sample_env (Classified False) 1 CLASSIFY 1 60 sample_partial_db)) =
   db_outbox sample_partial_db"
proof -
  have "fst (run_action sample_env (Classified False) 1 CLASSIFY 1 60 sample_partial_db) = Inr ()"
    by code_simp
  then have run: "run_action sample_env (Classified False) 1 CLASSIFY 1 60 sample_partial_db =
      (Inr (), snd (run_action sample_env (Classified False) 1 CLASSIFY 1 60 sample_partial_db))"
    by (metis prod.collapse)
  have k: "journal_keyed sample_partial_db"
    by (auto simp: journal_keyed_def sample_partial_db_def get_journal_def sample_journal_def split: if_splits)
  show ?thesis
    using partial_fan_out_strands_qdrant [OF _ run k]
    by (simp add: sample_partial_db_def sample_stage_db_def empty_db_def get_journal_def suppresses_fan_out_def
        load_recovery_item_def)
qed

end
