(* ===== verification/Stage_Recovery.thy ===== *)
theory Stage_Recovery
  imports Stage_Invariants
begin

text \<open>
  What deliveries do to file statuses and recovery items: only classification makes a file ready,
  recovery work that preserves readiness never takes it away, a failed derivative regeneration puts
  the journal row back, retryable failures are charged to the recovery budget, and a cancelled
  delivery yields to whatever truth was committed since.
\<close>

section \<open>File statuses through one delivery\<close>

definition file_status :: "db \<Rightarrow> uuid \<Rightarrow> processing_status option" where
  "file_status d g = map_option mf_status (get_file d g)"

lemma file_status_put:
  "db_files d' = row_put mf_id r (db_files d) \<Longrightarrow>
     file_status d' g = (if g = mf_id r then Some (mf_status r) else file_status d g)"
  by (auto simp: file_status_def get_file_def)

lemma file_status_same: "db_files d' = db_files d \<Longrightarrow> file_status d' g = file_status d g"
  by (simp add: file_status_def get_file_def)

lemma file_status_core:
  "map_option file_core (get_file d' g) = map_option file_core (get_file d g) \<Longrightarrow>
     file_status d' g = file_status d g"
  by (cases "get_file d' g"; cases "get_file d g") (auto simp: file_status_def file_core_def)

lemma output_frame_status: "output_frame d dx \<Longrightarrow> file_status dx g = file_status d g"
proof -
  assume o: "output_frame d dx"
  have fc: "mf_id x = fst (file_core x)" for x by (simp add: file_core_def)
  have "map_option file_core (row_get mf_id g rows) = row_get fst g (map file_core rows)" for rows
    by (induction rows) (auto simp: fc)
  then show ?thesis
    using o by (intro file_status_core) (simp add: get_file_def output_frame_def)
qed

lemma failure_file_status:
  assumes "apply_stage_failure env mf e u n ev reason err rt c d dx = (Inr (), d')" "output_frame d dx"
    "get_file d f = Some mf" "get_journal d f u = Some e" "journal_keyed d"
  obtains "\<forall>g. file_status d' g = file_status d g"
    | "\<not> should_preserve_file_status (load_recovery_item d ev) mf" "u \<notin> set SYNC_STAGES"
      "\<forall>g. file_status d' g = (if g = f then Some FILE_FAILED else file_status d g)"
proof -
  have keyed: "sj_file e = mf_id mf" "sj_stage e = u"
    using assms(3-5) get_file_id [OF assms(3)] by (auto simp: journal_keyed_def)
  have files: "db_files d' = (if u \<notin> set SYNC_STAGES \<and> \<not> should_preserve_file_status (load_recovery_item d ev) mf
         then row_put mf_id (mf\<lparr>mf_status := FILE_FAILED\<rparr>) (db_files dx) else db_files dx)"
    using failure_outcome(2) [OF assms(1) keyed] by (simp add: output_frame_load [OF assms(2)])
  show thesis
  proof (cases "u \<notin> set SYNC_STAGES \<and> \<not> should_preserve_file_status (load_recovery_item d ev) mf")
    case True
    with files have "\<forall>g. file_status d' g = (if g = f then Some FILE_FAILED else file_status d g)"
      using file_status_put [of d' "mf\<lparr>mf_status := FILE_FAILED\<rparr>" dx] get_file_id [OF assms(3)]
      by (simp add: output_frame_status [OF assms(2)])
    with True that(2) show thesis by blast
  next
    case False
    with files have "db_files d' = db_files dx" by auto
    then show thesis
      using that(1) file_status_same [of d' dx] by (simp add: output_frame_status [OF assms(2)])
  qed
qed

lemma action_file_status:
  assumes "run_action env a f s n ev d = (r, d')" "journal_keyed d"
  obtains "\<forall>g. file_status d' g = file_status d g"
    | mf st where "get_file d f = Some mf" "\<not> should_preserve_file_status (load_recovery_item d ev) mf"
      "action_stage a s \<notin> set SYNC_STAGES" "\<forall>g. file_status d' g = (if g = f then Some st else file_status d g)"
      "st = FILE_READY \<longrightarrow> completes a \<and> action_stage a s = CLASSIFY \<and> r = Inr ()"
proof (cases r)
  case (Inl err)
  have "file_status d' g = file_status d g" for g
    using action_Inl [of env a f s n ev d err d'] assms Inl
    by (auto simp: frame_simps intro!: file_status_same)
  with that(1) show thesis by blast
next
  case (Inr u)
  with assms have run: "run_action env a f s n ev d = (Inr (), d')" by simp
  consider "a = Start" | "completes a" | "fails a" | rs er where "a = Abandoned rs er"
    by (cases a) simp_all
  then show thesis
  proof cases
    case 1
    with run obtain out where "start_stage_processing env f s n ev d = (Inr out, d')"
      by (auto dest: drop_value_Inr)
    then show thesis
    proof (rule start_outcome)
      assume "d' = d" then show thesis using that(1) by simp
    next
      fix mf
      assume mf: "get_file d f = Some mf"
        and files: "db_files d' = (if s \<notin> set SYNC_STAGES \<and>
           \<not> should_preserve_file_status (load_recovery_item d ev) mf
         then row_put mf_id (mf\<lparr>mf_status := FILE_PROCESSING\<rparr>) (db_files d) else db_files d)"
      show thesis
      proof (cases "s \<notin> set SYNC_STAGES \<and> \<not> should_preserve_file_status (load_recovery_item d ev) mf")
        case True
        with files have "\<forall>g. file_status d' g = (if g = f then Some FILE_PROCESSING else file_status d g)"
          using file_status_put [of d' "mf\<lparr>mf_status := FILE_PROCESSING\<rparr>" d] get_file_id [OF mf] by simp
        with True 1 mf that(2) show thesis by auto
      next
        case False
        with files have "db_files d' = db_files d" by auto
        then show thesis using that(1) file_status_same by blast
      qed
    qed
  next
    case 2
    let ?s = "action_stage a s"
    show thesis
    proof (rule finishes_effect [OF action_finishes [OF 2 run] assms(2)])
      fix mf
      assume mf: "get_file d f = Some mf"
        and st: "map_option mf_status (get_file d' f) =
         Some (if ?s \<in> set SYNC_STAGES \<or> should_preserve_file_status (load_recovery_item d ev) mf
               then mf_status mf else finished_status ?s)"
        and other: "\<forall>g. g \<noteq> f \<longrightarrow> map_option file_core (get_file d' g) = map_option file_core (get_file d g)"
      have all: "\<forall>g. file_status d' g = (if g = f
          then Some (if ?s \<in> set SYNC_STAGES \<or> should_preserve_file_status (load_recovery_item d ev) mf
               then mf_status mf else finished_status ?s) else file_status d g)"
      proof (intro allI)
        fix g
        show "file_status d' g = (if g = f
          then Some (if ?s \<in> set SYNC_STAGES \<or> should_preserve_file_status (load_recovery_item d ev) mf
               then mf_status mf else finished_status ?s) else file_status d g)"
          by (cases "g = f") (use st other file_status_core [of d' g d] in \<open>simp_all add: file_status_def [of d' f]\<close>)
      qed
      show thesis
      proof (cases "?s \<in> set SYNC_STAGES \<or> should_preserve_file_status (load_recovery_item d ev) mf")
        case True
        with all mf have "\<forall>g. file_status d' g = file_status d g"
          by (auto simp: file_status_def [of d f])
        then show thesis by (rule that(1))
      next
        case False
        show thesis
          by (rule that(2) [OF mf, of "finished_status ?s"])
            (use all False 2 Inr in \<open>auto simp: finished_status_def split: if_splits\<close>)
      qed
    qed
  next
    case 3
    show thesis
    proof (rule action_fails [OF 3 run])
      fix mf e dx reason err rt
      assume x: "get_file d f = Some mf" "get_journal d f (action_stage a s) = Some e" "output_frame d dx"
        "apply_stage_failure env mf e (action_stage a s) n ev reason err rt True d dx = (Inr (), d')"
      show thesis
        by (rule failure_file_status [OF x(4,3,1,2) assms(2)]) (use that x in auto)
    qed
  next
    case (4 rs er)
    with run obtain out where "abandon_stage_processing env f s n ev rs er d = (Inr out, d')"
      by (auto dest: drop_value_Inr)
    then show thesis
    proof (rule abandon_outcome)
      assume "d' = d" then show thesis using that(1) by simp
    next
      fix e mf
      assume x: "get_journal d f s = Some e" "get_file d f = Some mf"
        "apply_stage_failure env mf e s n ev rs er True False d d = (Inr (), d')"
      show thesis
        by (rule failure_file_status [OF x(3) output_frame_refl x(2,1) assms(2)]) (use that x 4 in auto)
    qed
  qed
qed

lemma finished_row:
  assumes "completes a" "run_action env a f s n ev d = (Inr (), d')" "journal_keyed d" "action_stage a s = t"
  shows "\<exists>e. get_journal d' f t = Some e \<and> sj_status e = STAGE_SUCCEEDED \<and> sj_last_event_id e = Some ev"
  by (rule finishes_effect [OF action_finishes [OF assms(1,2)] assms(3)])
    (use assms(4) in \<open>auto simp: succeeded_entry_def\<close>)

section \<open>Properties\<close>

text \<open>
  C11. A file becomes ready only by a completed classification, and then the committed journal holds
  the succeeded CLASSIFY row of the delivery that did it.
\<close>

theorem ready_only_by_classification:
  assumes "run_action env a f s n ev d = (r, d')" "journal_keyed d"
    and "file_status d' g = Some FILE_READY" "file_status d g \<noteq> Some FILE_READY"
  shows "g = f \<and> completes a \<and> action_stage a s = CLASSIFY \<and>
    (\<exists>e. get_journal d' f CLASSIFY = Some e \<and> sj_status e = STAGE_SUCCEEDED \<and> sj_last_event_id e = Some ev)"
proof (rule action_file_status [OF assms(1,2)])
  assume "\<forall>g. file_status d' g = file_status d g"
  with assms(3,4) show ?thesis by simp
next
  fix mf st
  assume st: "\<forall>g. file_status d' g = (if g = f then Some st else file_status d g)"
    and c: "st = FILE_READY \<longrightarrow> completes a \<and> action_stage a s = CLASSIFY \<and> r = Inr ()"
  have g: "g = f" "st = FILE_READY" using st assms(3,4) by (auto split: if_splits)
  with c have "completes a" "action_stage a s = CLASSIFY" "run_action env a f s n ev d = (Inr (), d')"
    using assms(1) by auto
  then have "\<exists>e. get_journal d' f CLASSIFY = Some e \<and> sj_status e = STAGE_SUCCEEDED \<and> sj_last_event_id e = Some ev"
    using finished_row [OF _ _ assms(2)] by blast
  with g c show ?thesis by blast
qed

theorem ready_only_by_classification_witness:
  "\<exists>e. get_journal (snd (run_action sample_env (Classified False) 1 CLASSIFY 1 60 (sample_stage_db CLASSIFY)))
       1 CLASSIFY = Some e \<and> sj_status e = STAGE_SUCCEEDED \<and> sj_last_event_id e = Some 60"
proof -
  have "file_status (snd (run_action sample_env (Classified False) 1 CLASSIFY 1 60 (sample_stage_db CLASSIFY))) 1 =
      Some FILE_READY" by code_simp
  moreover have "file_status (sample_stage_db CLASSIFY) 1 \<noteq> Some FILE_READY" by code_simp
  ultimately show ?thesis
    using ready_only_by_classification [OF sample_classified sample_stage_keyed, of 1] by blast
qed

text \<open>
  A ready file stays ready through every delivery of recovery work that preserves readiness, and a
  file of any status keeps it through every delivery of a derivative regeneration, whether the
  delivery starts, succeeds, fails or is cancelled.
\<close>

theorem preserving_recovery_keeps_file_status:
  assumes "load_recovery_item d ev = Some i" "get_file d f = Some mf" "journal_keyed d"
    and "ri_action i = REGENERATE_DERIVATIVES \<or> (ri_preserve_ready i \<and> mf_status mf = FILE_READY)"
  shows "file_status (snd (run_action env a f s n ev d)) f = Some (mf_status mf)"
proof -
  obtain r d' where run: "run_action env a f s n ev d = (r, d')" by fastforce
  have keep: "should_preserve_file_status (load_recovery_item d ev) mf"
    using assms(1,4) by (auto simp: should_preserve_file_status_def)
  show ?thesis
    by (rule action_file_status [OF run assms(3)])
      (use run keep assms(2) in \<open>auto simp: file_status_def\<close>)
qed

definition sample_recovery_db :: "recovery_item \<Rightarrow> db" where
  "sample_recovery_db i = (sample_stage_db OCR)
     \<lparr>db_recovery := [i], db_files := [sample_file\<lparr>mf_status := FILE_READY\<rparr>]\<rparr>"

lemma sample_recovery_keyed: "journal_keyed (sample_recovery_db i)"
  using sample_stage_keyed [of OCR]
  by (simp add: journal_keyed_def sample_recovery_db_def get_journal_def)

theorem preserving_recovery_keeps_file_status_witness:
  "file_status (snd (run_action sample_env Start 1 OCR 1 60
     (sample_recovery_db (sample_item\<lparr>ri_preserve_ready := True\<rparr>)))) 1 = Some FILE_READY"
proof -
  let ?i = "sample_item\<lparr>ri_preserve_ready := True\<rparr>"
  have l: "load_recovery_item (sample_recovery_db ?i) 60 = Some ?i"
    by (simp add: sample_recovery_db_def load_recovery_item_def sample_item_def)
  have g: "get_file (sample_recovery_db ?i) 1 = Some (sample_file\<lparr>mf_status := FILE_READY\<rparr>)"
    by (simp add: sample_recovery_db_def get_file_def sample_file_def)
  show ?thesis
    using preserving_recovery_keeps_file_status [OF l g sample_recovery_keyed, of sample_env Start OCR 1]
    by (simp del: run_action.simps)
qed

subsection \<open>Failed derivative regeneration\<close>

text \<open>A journal row as the services write them: no negative attempts, no empty texts.\<close>

definition journal_row_wf :: "stage_journal \<Rightarrow> bool" where
  "journal_row_wf e \<longleftrightarrow>
     0 \<le> sj_attempt_count e \<and> sj_normalized_reason e \<noteq> Some [] \<and> sj_last_error_text e \<noteq> Some []"

lemma restore_snapshot:
  assumes "journal_row_wf e0"
  shows "restore_stage_state_after_derivative_failure (stage_snapshot_json e0) k e =
    e0\<lparr>sj_id := sj_id e, sj_file := sj_file e, sj_stage := sj_stage e, sj_updated_at := sj_updated_at e\<rparr>"
  using assms
  by (cases e0; cases e)
    (auto simp: restore_stage_state_after_derivative_failure_def stage_snapshot_json_def journal_row_wf_def
      snapshot_status_def snapshot_int_def snapshot_uuid_def snapshot_optional_text_def snapshot_datetime_def
      opt_text_json_def opt_time_json_def split: option.splits)

lemma failing_row:
  assumes "fails a" "run_action env a f s n ev d = (Inr (), d')" "journal_keyed d"
    "get_journal d f (action_stage a s) = Some e"
  obtains reason err rt where
    "get_journal d' f (action_stage a s) =
       Some ((failed_row env n ev reason err rt (load_recovery_item d ev) e)\<lparr>sj_updated_at := env_now env\<rparr>)"
    "db_recovery d' = (case load_recovery_item d ev of
           None \<Rightarrow> db_recovery d
         | Some i \<Rightarrow> row_put ri_id (failed_item env n reason err rt True i) (db_recovery d))"
proof (rule action_fails [OF assms(1,2)])
  fix mf e1 dx reason err rt
  assume x: "get_file d f = Some mf" "get_journal d f (action_stage a s) = Some e1" "output_frame d dx"
    "apply_stage_failure env mf e1 (action_stage a s) n ev reason err rt True d dx = (Inr (), d')"
  have keyed: "sj_file e1 = mf_id mf" "sj_stage e1 = action_stage a s" "e1 = e"
    using x(1,2) assms(3,4) get_file_id [OF x(1)] by (auto simp: journal_keyed_def)
  note o = failure_outcome [OF x(4) keyed(1,2), unfolded output_frame_load [OF x(3)]]
  have "get_journal d' f (action_stage a s) =
       Some ((failed_row env n ev reason err rt (load_recovery_item d ev) e)\<lparr>sj_updated_at := env_now env\<rparr>)"
    using o(1) get_file_id [OF x(1)] by (simp add: get_journal_def keyed(3))
  moreover have "db_recovery d' = (case load_recovery_item d ev of
           None \<Rightarrow> db_recovery d
         | Some i \<Rightarrow> row_put ri_id (failed_item env n reason err rt True i) (db_recovery d))"
    using o(6) x(3) by (simp add: output_frame_def split: option.splits)
  ultimately show thesis by (rule that)
qed

text \<open>
  C19. A failed derivative regeneration puts the journal row back to the snapshot taken when the
  recovery was requested, column by column, whatever the row went through since.
\<close>

theorem failed_derivative_restores_journal:
  assumes "fails a" "run_action env a f s n ev d = (Inr (), d')" "journal_keyed d"
    and "get_journal d f (action_stage a s) = Some e"
    and "load_recovery_item d ev = Some i" "ri_action i = REGENERATE_DERIVATIVES"
    and "ri_previous_stage_state i = stage_snapshot_json e0" "journal_row_wf e0"
  shows "get_journal d' f (action_stage a s) =
    Some (e0\<lparr>sj_id := sj_id e, sj_file := f, sj_stage := action_stage a s, sj_updated_at := env_now env\<rparr>)"
proof (rule failing_row [OF assms(1-4)])
  fix reason err rt
  assume "get_journal d' f (action_stage a s) =
       Some ((failed_row env n ev reason err rt (load_recovery_item d ev) e)\<lparr>sj_updated_at := env_now env\<rparr>)"
  moreover have "sj_file e = f" "sj_stage e = action_stage a s"
    using assms(3,4) by (auto simp: journal_keyed_def)
  ultimately show ?thesis
    using assms(5-8) by (simp add: failed_row_def restore_snapshot failed_entry_def)
qed

definition sample_derivative :: recovery_item where
  "sample_derivative = sample_item\<lparr>ri_action := REGENERATE_DERIVATIVES,
     ri_previous_stage_state := stage_snapshot_json (sample_journal OCR)\<rparr>"

lemma sample_derivative_load: "load_recovery_item (sample_recovery_db sample_derivative) 60 = Some sample_derivative"
  by (simp add: sample_recovery_db_def load_recovery_item_def sample_derivative_def sample_item_def)

lemma sample_derivative_failed:
  "run_action sample_env (Failed ''r'' ''t'' True) 1 OCR 3 60 (sample_recovery_db sample_derivative) =
   (Inr (), snd (run_action sample_env (Failed ''r'' ''t'' True) 1 OCR 3 60 (sample_recovery_db sample_derivative)))"
proof -
  have "fst (run_action sample_env (Failed ''r'' ''t'' True) 1 OCR 3 60 (sample_recovery_db sample_derivative)) = Inr ()"
    by code_simp
  then show ?thesis by (metis prod.collapse)
qed

theorem failed_derivative_restores_journal_witness:
  "get_journal (snd (run_action sample_env (Failed ''r'' ''t'' True) 1 OCR 3 60
      (sample_recovery_db sample_derivative))) 1 OCR = Some ((sample_journal OCR)\<lparr>sj_updated_at := 1000\<rparr>)"
proof -
  have j: "get_journal (sample_recovery_db sample_derivative) 1 OCR = Some (sample_journal OCR)"
    using sample_stage_journal [of OCR] by (simp add: sample_recovery_db_def get_journal_def)
  show ?thesis
    using failed_derivative_restores_journal [OF _ sample_derivative_failed sample_recovery_keyed _ sample_derivative_load,
        of "sample_journal OCR" "sample_journal OCR"] j
    by (simp add: sample_derivative_def journal_row_wf_def sample_journal_def sample_env_def)
qed

subsection \<open>The retry budget\<close>

lemma load_recovery_some: "load_recovery_item d ev = Some i \<Longrightarrow> i \<in> set (db_recovery d) \<and> ri_dispatch_event_id i = Some ev"
  unfolding load_recovery_item_def by (auto dest: find_SomeD)

text \<open>
  A failure of recovery work is charged to the item it was dispatched for: the failures consumed
  never fall, a retryable failure brings them to at least the publication failures plus the worker
  attempts since the budget began, and a derivative regeneration whose failure is not retryable or
  whose budget is used up is closed, its reservation released.
\<close>

theorem failure_charges_recovery_budget:
  assumes "run_action env (Failed reason err rt) f s n ev d = (Inr (), d')" "journal_keyed d"
    and "load_recovery_item d ev = Some i"
  shows "\<exists>i'. get_recovery d' (ri_id i) = Some i' \<and> ri_failures_consumed i \<le> ri_failures_consumed i' \<and>
    (rt \<longrightarrow> (\<exists>start. ri_attempt_budget_start i' = Some start \<and>
       recovery_stage_publication_failures i + n - start + 1 \<le> ri_failures_consumed i' \<and>
       (\<forall>b. ri_attempt_budget_start i = Some b \<longrightarrow> b \<noteq> 0 \<longrightarrow> start = b))) \<and>
    (ri_action i = REGENERATE_DERIVATIVES \<and> (\<not> rt \<or> ri_retry_limit i \<le> ri_failures_consumed i') \<longrightarrow>
       ri_status i' = ITEM_FAILED \<and> \<not> ri_reservation_active i')"
proof -
  from assms(1) have "mark_stage_failed_from env f s n ev reason err rt d d = (Inr (), d')"
    by (simp add: mark_stage_failed_def)
  then obtain mf e where x: "get_file d f = Some mf" "get_journal d f s = Some e"
    "apply_stage_failure env mf e s n ev reason err rt True d d = (Inr (), d')"
    by (rule failed_outcome)
  have keyed: "sj_file e = mf_id mf" "sj_stage e = s"
    using x(1,2) assms(2) get_file_id [OF x(1)] by (auto simp: journal_keyed_def)
  let ?i' = "failed_item env n reason err rt True i"
  have "get_recovery d' (ri_id i) = Some ?i'"
    using failure_outcome(6) [OF x(3) keyed] assms(3) by (simp add: get_recovery_def)
  moreover have "ri_failures_consumed i \<le> ri_failures_consumed ?i'"
    by (simp add: failed_item_def Let_def charge_retry_budget_def)
  moreover have "rt \<longrightarrow> (\<exists>start. ri_attempt_budget_start ?i' = Some start \<and>
       recovery_stage_publication_failures i + n - start + 1 \<le> ri_failures_consumed ?i' \<and>
       (\<forall>b. ri_attempt_budget_start i = Some b \<longrightarrow> b \<noteq> 0 \<longrightarrow> start = b))"
    by (auto simp: failed_item_def Let_def charge_retry_budget_def exhaust_item_def split: option.splits)
  moreover have "ri_action i = REGENERATE_DERIVATIVES \<and> (\<not> rt \<or> ri_retry_limit i \<le> ri_failures_consumed ?i') \<longrightarrow>
       ri_status ?i' = ITEM_FAILED \<and> \<not> ri_reservation_active ?i'"
    by (auto simp: failed_item_def Let_def exhaust_item_def split: if_splits)
  ultimately show ?thesis by blast
qed

theorem failure_charges_recovery_budget_witness:
  "\<exists>i'. get_recovery (snd (run_action sample_env (Failed ''r'' ''t'' True) 1 OCR 3 60
      (sample_recovery_db sample_derivative))) 70 = Some i' \<and> 3 \<le> ri_failures_consumed i' \<and>
      ri_status i' = ITEM_FAILED"
proof -
  have b: "ri_id sample_derivative = 70" "ri_attempt_budget_start sample_derivative = Some 1"
    "recovery_stage_publication_failures sample_derivative = 0" "ri_retry_limit sample_derivative = 3"
    "ri_action sample_derivative = REGENERATE_DERIVATIVES"
    by code_simp+
  show ?thesis
    using failure_charges_recovery_budget [OF sample_derivative_failed sample_recovery_keyed sample_derivative_load] b
    by auto
qed

subsection \<open>Cancelled deliveries\<close>

lemma abandoned_row:
  assumes "apply_stage_failure env mf e s n ev reason err True False d d = (Inr (), d')"
    "get_file d f = Some mf" "get_journal d f s = Some e" "journal_keyed d"
  shows "get_journal d' f s =
      Some ((failed_row env n ev reason err True (load_recovery_item d ev) e)\<lparr>sj_updated_at := env_now env\<rparr>)"
    and "(g, u) \<noteq> (f, s) \<Longrightarrow> get_journal d' g u = get_journal d g u"
    and "db_outbox d' = db_outbox d"
    and "load_recovery_item d ev = Some i \<Longrightarrow>
      get_recovery d' (ri_id i) = Some (failed_item env n reason err True False i)"
proof -
  have keyed: "sj_file e = mf_id mf" "sj_stage e = s"
    using assms(2-4) get_file_id [OF assms(2)] by (auto simp: journal_keyed_def)
  note o = failure_outcome [OF assms(1) keyed, unfolded get_file_id [OF assms(2)]]
  show "get_journal d' f s =
      Some ((failed_row env n ev reason err True (load_recovery_item d ev) e)\<lparr>sj_updated_at := env_now env\<rparr>)"
    by (simp add: get_journal_def o(1))
  show "(g, u) \<noteq> (f, s) \<Longrightarrow> get_journal d' g u = get_journal d g u"
    by (auto simp: get_journal_def o(1))
  show "db_outbox d' = db_outbox d" by (rule o(4))
  show "load_recovery_item d ev = Some i \<Longrightarrow>
      get_recovery d' (ri_id i) = Some (failed_item env n reason err True False i)"
    by (simp add: get_recovery_def o(6))
qed

text \<open>
  C13. Abandoning a cancelled delivery never overwrites later truth: when another event or a newer
  attempt owns the row, or the row is settled already, nothing changes and the broker action follows
  the row (acknowledge, dead-letter, requeue). Only a row the delivery itself left running is put into
  retryable failure for the requeued copy, without a charge to the recovery budget.
\<close>

theorem cancelled_delivery_yields:
  assumes "abandon_stage_processing env f s n ev reason err d = (Inr (disposition, why), d')"
    and "get_journal d f s = Some e" "journal_keyed d"
  shows "(sj_last_event_id e \<noteq> Some ev \<or> n < sj_attempt_count e \<longrightarrow> disposition = ACKNOWLEDGE \<and> d' = d) \<and>
    (sj_last_event_id e = Some ev \<and> sj_attempt_count e \<le> n \<and> sj_status e \<noteq> STAGE_PROCESSING \<longrightarrow>
       d' = d \<and>
       (disposition = DEAD_LETTER \<longleftrightarrow>
          sj_status e = STAGE_FAILED \<and> (\<not> sj_is_retryable e \<or> env_retry_max_attempts env \<le> n)) \<and>
       (disposition = ACKNOWLEDGE \<longleftrightarrow> sj_status e \<in> {STAGE_SUCCEEDED, STAGE_DUPLICATE})) \<and>
    (sj_last_event_id e = Some ev \<and> sj_attempt_count e \<le> n \<and> sj_status e = STAGE_PROCESSING \<longrightarrow>
       disposition = REQUEUE \<and> db_outbox d' = db_outbox d \<and>
       (\<exists>e'. get_journal d' f s = Some e' \<and>
          (\<not> derivative_item d ev \<longrightarrow> sj_status e' = STAGE_FAILED \<and> sj_is_retryable e' \<and>
             sj_retry_after e' = Some (env_now env + env_retry_backoff env))) \<and>
       (\<forall>i. load_recovery_item d ev = Some i \<longrightarrow>
          (\<exists>i'. get_recovery d' (ri_id i) = Some i' \<and> ri_failures_consumed i' = ri_failures_consumed i)))"
  using assms(1)
proof (rule abandon_outcome)
  fix e1
  assume "get_journal d f s = Some e1" "d' = d"
    "(sj_last_event_id e1 \<noteq> Some ev \<or> n < sj_attempt_count e1) \<and> (disposition, why) = (ACKNOWLEDGE, None) \<or>
       (sj_last_event_id e1 = Some ev \<and> sj_attempt_count e1 \<le> n \<and> sj_status e1 \<noteq> STAGE_PROCESSING \<and>
        fst (disposition, why) = settled_disposition env n e1)"
  with assms(2) show ?thesis
    by (cases "sj_status e1") (auto simp: settled_disposition_def split: if_splits)
next
  fix e1 mf
  assume x: "get_journal d f s = Some e1" "get_file d f = Some mf" "sj_last_event_id e1 = Some ev"
    "sj_attempt_count e1 \<le> n" "sj_status e1 = STAGE_PROCESSING" "(disposition, why) = (REQUEUE, None)"
    "apply_stage_failure env mf e1 s n ev reason err True False d d = (Inr (), d')"
  note row = abandoned_row [OF x(7,2,1) assms(3)]
  have "\<not> derivative_item d ev \<Longrightarrow>
      failed_row env n ev reason err True (load_recovery_item d ev) e1 = failed_entry env n ev reason err True e1"
    by (auto simp: derivative_item_def failed_row_def split: option.splits)
  then have "\<not> derivative_item d ev \<longrightarrow>
      (case get_journal d' f s of Some e' \<Rightarrow> sj_status e' = STAGE_FAILED \<and> sj_is_retryable e' \<and>
             sj_retry_after e' = Some (env_now env + env_retry_backoff env) | None \<Rightarrow> False)"
    by (simp add: row(1) failed_entry_def)
  moreover have "ri_failures_consumed (failed_item env n reason err True False i) = ri_failures_consumed i" for i
    by (simp add: failed_item_def Let_def)
  ultimately show ?thesis
    using x assms(2) row by (auto split: option.splits)
qed

definition sample_running_db :: db where
  "sample_running_db = (sample_stage_db OCR)\<lparr>db_journal := (\<lambda>k. if k = (1, OCR)
     then Some ((sample_journal OCR)\<lparr>sj_status := STAGE_PROCESSING\<rparr>) else None)\<rparr>"

theorem cancelled_delivery_yields_witness:
  "\<exists>e'. get_journal (snd (abandon_stage_processing sample_env 1 OCR 1 60 ''shutdown'' ''bye'' sample_running_db)) 1 OCR
     = Some e' \<and> sj_status e' = STAGE_FAILED \<and> sj_is_retryable e'"
proof -
  let ?r = "abandon_stage_processing sample_env 1 OCR 1 60 ''shutdown'' ''bye'' sample_running_db"
  have "fst ?r = Inr (REQUEUE, None)" by code_simp
  then have run: "?r = (Inr (REQUEUE, None), snd ?r)" by (metis prod.collapse)
  have j: "get_journal sample_running_db 1 OCR = Some ((sample_journal OCR)\<lparr>sj_status := STAGE_PROCESSING\<rparr>)"
    by (simp add: sample_running_db_def get_journal_def)
  have k: "journal_keyed sample_running_db"
    by (auto simp: journal_keyed_def sample_running_db_def get_journal_def sample_journal_def split: if_splits)
  have nd: "\<not> derivative_item sample_running_db 60"
    by (simp add: derivative_item_def load_recovery_item_def sample_running_db_def sample_stage_db_def empty_db_def)
  have own: "sj_last_event_id (sample_journal OCR) = Some 60" "sj_attempt_count (sample_journal OCR) = 0"
    by (simp_all add: sample_journal_def)
  show ?thesis
    using cancelled_delivery_yields [OF run j k] nd own by simp blast
qed

end
