(* ===== verification/Media_Lifecycle.thy ===== *)
theory Media_Lifecycle
  imports Stage_Invariants
begin

text \<open>
  The media pointer of a file through everything that runs beside it: stage deliveries, reservations,
  verification, upload, failure cleanup, garbage collection and merges, interleaved in any order. A
  file's active generation is always an ACTIVE generation of that very file, and its web-video key is
  the one the file serves.
\<close>

section \<open>The pointer invariant\<close>

definition pointer_wf :: "db \<Rightarrow> bool" where
  "pointer_wf d \<longleftrightarrow> generations_wf d \<and>
     (\<forall>f m gid. get_file d f = Some m \<longrightarrow> mf_active_generation m = Some gid \<longrightarrow>
        (\<exists>g. get_generation d gid = Some g \<and> mg_status g = ACTIVE \<and> mg_file g = Some f \<and>
             mf_s3_web_video_key m = Some (mg_web_video_key g)))"

lemma pointer_wfD:
  "pointer_wf d \<Longrightarrow> get_file d f = Some m \<Longrightarrow> mf_active_generation m = Some gid \<Longrightarrow>
     \<exists>g. get_generation d gid = Some g \<and> mg_status g = ACTIVE \<and> mg_file g = Some f \<and>
       mf_s3_web_video_key m = Some (mg_web_video_key g)"
  unfolding pointer_wf_def by blast

lemma media_core_row:
  "map media_core rows' = map media_core rows \<Longrightarrow>
     map_option media_core (row_get mf_id g rows') = map_option media_core (row_get mf_id g rows)"
proof -
  have fc: "mf_id x = fst (media_core x)" for x by (simp add: media_core_def)
  have "map_option media_core (row_get mf_id g rows) = row_get fst g (map media_core rows)" for rows
    by (induction rows) (auto simp: fc)
  then show "map media_core rows' = map media_core rows \<Longrightarrow>
     map_option media_core (row_get mf_id g rows') = map_option media_core (row_get mf_id g rows)"
    by simp
qed

text \<open>A change that keeps the pointers of the files and the generation table.\<close>

lemma pointer_wf_files:
  assumes "pointer_wf d" "db_generations d' = db_generations d"
    and "\<And>f. map_option media_core (get_file d' f) = map_option media_core (get_file d f)"
  shows "pointer_wf d'"
proof -
  have gen: "get_generation d' i = get_generation d i" for i
    by (simp add: get_generation_def assms(2))
  show ?thesis
    unfolding pointer_wf_def
  proof (intro conjI allI impI)
    show "generations_wf d'" using assms(1,2) by (simp add: pointer_wf_def generations_wf_def)
    fix f m gid
    assume m: "get_file d' f = Some m" "mf_active_generation m = Some gid"
    then obtain m0 where "get_file d f = Some m0" "media_core m0 = media_core m"
      using assms(3) [of f] by (auto simp: map_option_case split: option.splits)
    then show "\<exists>g. get_generation d' gid = Some g \<and> mg_status g = ACTIVE \<and> mg_file g = Some f \<and>
             mf_s3_web_video_key m = Some (mg_web_video_key g)"
      using pointer_wfD [OF assms(1), of f m0 gid] m(2) by (simp add: gen media_core_def)
  qed
qed

lemma pointer_wf_frame: "pointer_wf d \<Longrightarrow> media_frame d d' \<Longrightarrow> pointer_wf d'"
  by (rule pointer_wf_files [of d]) (auto simp: media_frame_def get_file_def intro: media_core_row)

text \<open>A write of a generation that keeps an active one, or one that no file points to.\<close>

lemma pointer_wf_put:
  assumes wf: "pointer_wf d" and g: "get_generation d (mg_id g') = Some g"
    and keep: "(mg_status g = ACTIVE \<longrightarrow> mg_status g' = ACTIVE \<and> mg_file g' = mg_file g \<and>
        mg_web_video_key g' = mg_web_video_key g) \<or>
      (\<forall>f m. get_file d f = Some m \<longrightarrow> mf_active_generation m \<noteq> Some (mg_id g'))"
  shows "pointer_wf (put_generation g' d)"
  unfolding pointer_wf_def
proof (intro conjI allI impI)
  show "generations_wf (put_generation g' d)"
    using wf by (simp add: pointer_wf_def generations_wf_def put_generation_def row_put_distinct)
  fix f m gid
  assume m: "get_file (put_generation g' d) f = Some m" "mf_active_generation m = Some gid"
  then show "\<exists>g. get_generation (put_generation g' d) gid = Some g \<and> mg_status g = ACTIVE \<and> mg_file g = Some f \<and>
             mf_s3_web_video_key m = Some (mg_web_video_key g)"
    using pointer_wfD [OF wf, of f m gid] g keep
    by (cases "mg_id g' = gid") (auto simp: frame_simps row_simps)
qed

lemma unreferenced_pointer:
  "\<not> generation_is_referenced d g \<Longrightarrow> get_file d f = Some m \<Longrightarrow> mf_active_generation m \<noteq> Some (mg_id g)"
  unfolding generation_is_referenced_def get_file_def
  by (auto simp: list_ex_iff dest: row_get_mem)

section \<open>Single operations\<close>

lemma pointer_wf_put_of:
  assumes "get_generation d gid = Some g" "pointer_wf d" "mg_id h = mg_id g"
    "mg_status g = ACTIVE \<longrightarrow> mg_status h = ACTIVE \<and> mg_file h = mg_file g \<and> mg_web_video_key h = mg_web_video_key g"
  shows "pointer_wf (put_generation h d)"
  by (rule pointer_wf_put [OF assms(2), of h g]) (use assms get_generation_id [OF assms(1)] in auto)

lemma record_verified_pointer:
  assumes "pointer_wf d"
  shows "pointer_wf (snd (record_verified env gid r d))"
proof (cases "get_generation d gid")
  case None
  then show ?thesis using assms by (simp add: record_verified_def)
next
  case (Some g)
  then show ?thesis
    using assms pointer_wf_put_of [OF Some assms] by (auto simp: record_verified_def split: option.splits)
qed

lemma record_uploaded_pointer:
  assumes "pointer_wf d"
  shows "pointer_wf (snd (record_uploaded env gid d))"
proof (cases "get_generation d gid")
  case None
  then show ?thesis using assms by (simp add: record_uploaded_def)
next
  case (Some g)
  then show ?thesis
    using assms pointer_wf_put_of [OF Some assms] by (auto simp: record_uploaded_def split: option.splits)
qed

lemma cleanup_failure_pointer:
  assumes "pointer_wf d"
  shows "pointer_wf (record_cleanup_failure env gid e d)"
proof (cases "get_generation d gid")
  case None
  then show ?thesis using assms by (simp add: record_cleanup_failure_def)
next
  case (Some g)
  then show ?thesis
    using assms pointer_wf_put_of [OF Some assms] by (auto simp: record_cleanup_failure_def split: option.splits)
qed

lemma finish_cleanup_pointer:
  assumes "pointer_wf d"
  shows "pointer_wf (snd (finish_cleanup env gid d))"
proof (cases "get_generation d gid")
  case None
  then show ?thesis using assms by (simp add: finish_cleanup_def)
next
  case (Some g)
  then show ?thesis
    using assms pointer_wf_put_of [OF Some assms] by (auto simp: finish_cleanup_def split: option.splits)
qed

lemma fence_pointer:
  assumes "pointer_wf d"
  shows "pointer_wf (snd (fence_generation env gid err st d))"
proof (cases "get_generation d gid")
  case None
  then show ?thesis using assms by (simp add: fence_generation_def)
next
  case (Some g)
  have id': "mg_id g = gid" by (rule get_generation_id [OF Some])
  show ?thesis
  proof (cases "generation_is_referenced d g")
    case True
    then show ?thesis
      using assms Some pointer_wf_put_of [OF Some assms] by (auto simp: fence_generation_def)
  next
    case False
    note u = unreferenced_pointer [OF False]
    have put: "pointer_wf (put_generation g' d)" if "mg_id g' = gid" for g'
      by (rule pointer_wf_put [OF assms, of g' g]) (use Some that u id' in auto)
    show ?thesis using Some False id' by (simp add: fence_generation_def Let_def put)
  qed
qed

lemma pointer_wf_append:
  assumes "pointer_wf d" "get_generation d (mg_id g) = None"
  shows "pointer_wf (d\<lparr>db_generations := db_generations d @ [g]\<rparr>)"
  unfolding pointer_wf_def
proof (intro conjI allI impI)
  show "generations_wf (d\<lparr>db_generations := db_generations d @ [g]\<rparr>)"
    using assms by (auto simp: pointer_wf_def generations_wf_def get_generation_def row_get_None_iff)
  fix f m gid
  assume "get_file (d\<lparr>db_generations := db_generations d @ [g]\<rparr>) f = Some m" "mf_active_generation m = Some gid"
  then show "\<exists>h. get_generation (d\<lparr>db_generations := db_generations d @ [g]\<rparr>) gid = Some h \<and> mg_status h = ACTIVE \<and>
      mg_file h = Some f \<and> mf_s3_web_video_key m = Some (mg_web_video_key h)"
    using pointer_wfD [OF assms(1), of f m gid] by (auto simp: get_file_def get_generation_def)
qed

lemma latest_generation_Some:
  "latest_generation d f item = Some g \<Longrightarrow> g \<in> set (db_generations d) \<and> mg_status g \<in> set unfinished_statuses"
  unfolding latest_generation_def by (auto dest!: max_by_mem)

lemma reserve_pointer:
  assumes wf: "pointer_wf d" and fresh: "get_generation d (env_fresh env 0) = None"
  shows "pointer_wf (snd (reserve_generation env f k i l d))"
proof -
  define base where "base = (\<lambda>f' item. case latest_generation d f' item of None \<Rightarrow> d
      | Some g \<Rightarrow> put_generation (supersede_by_retry g) d)"
  have base_eq: "(case latest_generation d f' item of None \<Rightarrow> d
      | Some g \<Rightarrow> put_generation (supersede_by_retry g) d) = base f' item" for f' item
    by (simp add: base_def)
  have base: "pointer_wf (base f' item) \<and> get_generation (base f' item) (env_fresh env 0) = None" for f' item
  proof (cases "latest_generation d f' item")
    case None
    with wf fresh show ?thesis by (simp add: base_def)
  next
    case (Some g)
    then have g: "g \<in> set (db_generations d)" "mg_status g \<noteq> ACTIVE"
      using latest_generation_Some [OF Some] by (auto simp: unfinished_statuses_def)
    then have get: "get_generation d (mg_id g) = Some g"
      using wf by (auto simp: pointer_wf_def intro: generations_wf_get)
    have "mg_id (supersede_by_retry g) = mg_id g" by (simp add: supersede_by_retry_def)
    then show ?thesis
      using Some pointer_wf_put_of [OF get wf, of "supersede_by_retry g"] g(2) get fresh
      by (auto simp: row_simps base_def)
  qed
  have new: "pointer_wf ((base f' item)\<lparr>db_generations := db_generations (base f' item) @ [new_generation env m e k it l n]\<rparr>)"
    for f' item m e it n
    by (rule pointer_wf_append) (use base in \<open>simp_all add: new_generation_def Let_def\<close>)
  show ?thesis
    unfolding reserve_generation_def Let_def base_eq
    by (simp add: wf new split: option.split)
qed

section \<open>Deliveries\<close>

lemma finalize_pointer:
  assumes fin: "finalize_stage_success env k mf e s n ev extra d dx = (Inr (), d')"
    and keyed: "sj_file e = mf_id mf" "sj_stage e = s"
    and own: "map_option media_core (get_file dx (mf_id mf)) = Some (media_core mf)" and wf: "pointer_wf dx"
  shows "pointer_wf d'"
proof (rule pointer_wf_files [OF wf])
  note eff = finalize_effect [OF fin keyed]
  show "db_generations d' = db_generations dx" by (rule eff(5))
  have st: "media_core (mf\<lparr>mf_status := x\<rparr>) = media_core mf" for x by (simp add: media_core_def)
  show "map_option media_core (get_file d' g) = map_option media_core (get_file dx g)" for g
    using eff(4) own by (auto simp: get_file_def st)
qed

lemma failure_pointer:
  assumes "apply_stage_failure env mf e s n ev reason err rt c d dx = (Inr (), d')"
    and "get_file d f = Some mf" "get_journal d f s = Some e" "journal_keyed d"
    and "db_files dx = db_files d" "db_generations dx = db_generations d" "pointer_wf d"
  shows "pointer_wf d'"
proof (rule pointer_wf_files [OF assms(7)])
  have keyed: "sj_file e = mf_id mf" "sj_stage e = s"
    using assms(2-4) get_file_id [OF assms(2)] by (auto simp: journal_keyed_def)
  note eff = failure_outcome [OF assms(1) keyed]
  show "db_generations d' = db_generations d" by (simp add: eff(3) assms(6))
  have st: "media_core (mf\<lparr>mf_status := x\<rparr>) = media_core mf" for x by (simp add: media_core_def)
  show "map_option media_core (get_file d' g) = map_option media_core (get_file d g)" for g
    using eff(2) assms(2) get_file_id [OF assms(2)] by (auto simp: get_file_def assms(5) st)
qed

lemma finishes_pointer:
  assumes "finishes env f s n ev d d'" "s \<noteq> TRANSCODE" "journal_keyed d" "pointer_wf d"
  shows "pointer_wf d'"
proof -
  obtain mf e mf' dx k extra where l: "get_file d f = Some mf" "get_journal d f s = Some e"
    and m: "media_core mf' = media_core mf" "media_frame d dx"
    and fin: "finalize_stage_success env k mf' e s n ev extra d dx = (Inr (), d')"
    using assms(1,2) unfolding finishes_def by blast
  have i: "mf_id mf' = f" using m(1) get_file_id [OF l(1)] by (simp add: media_core_def)
  have k: "sj_file e = mf_id mf'" "sj_stage e = s" using assms(3) l(2) i by (auto simp: journal_keyed_def)
  have "map_option media_core (get_file dx f) = map_option media_core (get_file d f)"
    unfolding get_file_def by (rule media_core_row) (use m(2) in \<open>simp add: media_frame_def\<close>)
  then have own: "map_option media_core (get_file dx (mf_id mf')) = Some (media_core mf')"
    using l(1) m(1) i by simp
  show ?thesis by (rule finalize_pointer [OF fin k own pointer_wf_frame [OF assms(4) m(2)]])
qed

lemma generations_wf_ops:
  "generations_wf d \<Longrightarrow> generations_wf (put_generation g d)"
  "generations_wf (put_file m d) = generations_wf d"
  "generations_wf d \<Longrightarrow> generations_wf (supersede_previous env active g d)"
  by (auto simp: generations_wf_def put_generation_def put_file_def row_put_distinct supersede_previous_def
      split: option.split bind_split)

lemma supersede_file: "get_file (supersede_previous env active g d) h = get_file d h"
  by (simp add: get_file_def)

lemma supersede_get:
  "get_generation (supersede_previous env active g d) j =
     (if active = Some j \<and> j \<noteq> mg_id g
      then map_option (\<lambda>p. p\<lparr>mg_status := SUPERSEDED, mg_superseded_at := Some (env_now env),
                                    mg_cleanup_status := CLEANUP_PENDING\<rparr>) (get_generation d j)
      else get_generation d j)"
proof (cases "Option.bind active (get_generation d)")
  case None
  then show ?thesis by (cases active) (auto simp: supersede_previous_def)
next
  case (Some p)
  then obtain k where "active = Some k" "get_generation d k = Some p" by (cases active) auto
  moreover from this have "mg_id p = k" by (auto dest: get_generation_id)
  ultimately show ?thesis by (auto simp: supersede_previous_def row_simps)
qed

text \<open>A transcode with a generation id and a web video never takes the branch without activation.\<close>

lemma transcode_activated:
  assumes "complete_transcode_stage env f n ev r d = (Inr (), d')"
    "nm_generation_id r = Some gid" "nm_web_video_key r \<noteq> None"
  obtains mf e g where "get_file d f = Some mf" "get_journal d f TRANSCODE = Some e" "activates d r mf g"
    "finalize_stage_success env 0 (measured_file r (activated_file env g r mf)) e TRANSCODE n ev [] d
       (put_file (measured_file r (activated_file env g r mf)) (put_generation (activated_generation env g)
         (supersede_previous env (mf_active_generation mf) g d))) = (Inr (), d')"
proof -
  obtain mf e where l: "get_file d f = Some mf" "get_journal d f TRANSCODE = Some e" "sj_attempt_count e \<le> n"
    using assms(1) by (rule transcode_outcome) blast
  have entry: "get_meme_file_and_stage_entry d f TRANSCODE = Inr (mf, e)"
    "ensure_stage_attempt_is_current e n = Inr ()"
    using l by (simp_all add: get_entry_Inr ensure_stage_attempt_is_current_def)
  obtain key where key: "nm_web_video_key r = Some key" using assms(3) by blast
  obtain g where g: "get_generation d gid = Some g"
    using assms(1,2) key
    by (cases "get_generation d gid") (simp_all add: complete_transcode_stage_def entry split: if_splits)
  have "activates d r mf g"
    using assms(1,2) key g get_generation_id [OF g]
    by (simp add: complete_transcode_stage_def entry activates_def split: if_splits)
  moreover have "finalize_stage_success env 0 (measured_file r (activated_file env g r mf)) e TRANSCODE n ev [] d
       (put_file (measured_file r (activated_file env g r mf)) (put_generation (activated_generation env g)
         (supersede_previous env (mf_active_generation mf) g d))) = (Inr (), d')"
    using assms(1,2) key g
    by (simp add: complete_transcode_stage_def entry measured_file_def Let_def split: if_splits)
  ultimately show thesis using that l by blast
qed

text \<open>Activation swaps the pointer: the new generation is active, the former one is superseded.\<close>

lemma activation_pointer:
  assumes wf: "pointer_wf d" and mf: "get_file d f = Some mf" and act: "activates d r mf g"
  shows "pointer_wf (put_file (measured_file r (activated_file env g r mf))
    (put_generation (activated_generation env g) (supersede_previous env (mf_active_generation mf) g d)))"
    (is "pointer_wf ?d")
proof -
  have g: "get_generation d (mg_id g) = Some g" "mg_file g = Some f" "mg_status g = UPLOADED"
    using act get_file_id [OF mf] by (auto simp: activates_def)
  have ids: "mg_id (activated_generation env g) = mg_id g"
    "mf_id (measured_file r (activated_file env g r mf)) = f"
    "mf_id (activated_file env g r mf) = f"
    using get_file_id [OF mf] by (simp_all add: activated_generation_def activated_file_def)
  have gen: "get_generation ?d j = (if j = mg_id g then Some (activated_generation env g)
      else if mf_active_generation mf = Some j
        then map_option (\<lambda>p. p\<lparr>mg_status := SUPERSEDED, mg_superseded_at := Some (env_now env),
                                    mg_cleanup_status := CLEANUP_PENDING\<rparr>) (get_generation d j)
      else get_generation d j)" for j
    by (simp add: frame_simps row_simps ids supersede_get)
  have rows: "get_file ?d h = (if h = f then Some (measured_file r (activated_file env g r mf)) else get_file d h)" for h
    by (auto simp: row_simps frame_simps ids supersede_file)
  show ?thesis
    unfolding pointer_wf_def
  proof (intro conjI allI impI)
    show "generations_wf ?d"
      using wf by (simp add: pointer_wf_def generations_wf_ops)
    fix h m gid
    assume m: "get_file ?d h = Some m" "mf_active_generation m = Some gid"
    show "\<exists>x. get_generation ?d gid = Some x \<and> mg_status x = ACTIVE \<and> mg_file x = Some h \<and>
             mf_s3_web_video_key m = Some (mg_web_video_key x)"
    proof (cases "h = f")
      case True
      show ?thesis
      proof -
        have "m = measured_file r (activated_file env g r mf)" using m(1) True by (simp add: rows)
        then have "gid = mg_id g" "mf_s3_web_video_key m = Some (mg_web_video_key g)"
          using m(2) by (simp_all add: activated_file_def measured_file_def)
        then show ?thesis using g True by (simp add: gen) (simp add: activated_generation_def)
      qed
    next
      case False
      with m have h: "get_file d h = Some m" by (simp add: rows)
      obtain x where x: "get_generation d gid = Some x" "mg_status x = ACTIVE" "mg_file x = Some h"
        "mf_s3_web_video_key m = Some (mg_web_video_key x)"
        using pointer_wfD [OF wf h m(2)] by blast
      have "gid \<noteq> mg_id g" using x g by auto
      moreover have "mf_active_generation mf \<noteq> Some gid"
        using pointer_wfD [OF wf mf, of gid] x(1,3) False by auto
      ultimately show ?thesis using x by (simp add: gen)
    qed
  qed
qed

lemma transcode_pointer:
  assumes run: "complete_transcode_stage env f n ev r d = (Inr (), d')" and keyed: "journal_keyed d"
    and wf: "pointer_wf d"
  shows "pointer_wf d'"
  using run
proof (rule transcode_outcome, elim disjE exE conjE)
  fix mf e mf'
  assume l: "get_file d f = Some mf" "get_journal d f TRANSCODE = Some e"
    and c: "file_core mf' = file_core mf" and none: "mf_active_generation mf' = None"
    and fin: "finalize_stage_success env 0 mf' e TRANSCODE n ev [] d (put_file mf' d) = (Inr (), d')"
  have i: "mf_id mf' = f" using c get_file_id [OF l(1)] by (simp add: file_core_def)
  have k: "sj_file e = mf_id mf'" "sj_stage e = TRANSCODE" using keyed l(2) i by (auto simp: journal_keyed_def)
  have "pointer_wf (put_file mf' d)"
    unfolding pointer_wf_def
  proof (intro conjI allI impI)
    show "generations_wf (put_file mf' d)"
      using wf by (simp add: pointer_wf_def generations_wf_def frame_simps)
    fix h m gid
    assume m: "get_file (put_file mf' d) h = Some m" "mf_active_generation m = Some gid"
    then have "get_file d h = Some m" using i none by (auto simp: row_simps split: if_splits)
    then show "\<exists>x. get_generation (put_file mf' d) gid = Some x \<and> mg_status x = ACTIVE \<and> mg_file x = Some h \<and>
             mf_s3_web_video_key m = Some (mg_web_video_key x)"
      using pointer_wfD [OF wf _ m(2)] by (simp add: frame_simps)
  qed
  then show ?thesis by (intro finalize_pointer [OF fin k]) (simp_all add: row_simps)
next
  fix mf e g mf'
  assume l: "get_file d f = Some mf" "get_journal d f TRANSCODE = Some e"
    and act: "activates d r mf g" and mf': "mf' = measured_file r (activated_file env g r mf)"
    and fin: "finalize_stage_success env 0 mf' e TRANSCODE n ev [] d
              (put_file mf' (put_generation (activated_generation env g)
                (supersede_previous env (mf_active_generation mf) g d))) = (Inr (), d')"
  have "mf_id mf' = f" using get_file_id [OF l(1)] by (simp add: mf' activated_file_def)
  then have k: "sj_file e = mf_id mf'" "sj_stage e = TRANSCODE" using keyed l(2) by (auto simp: journal_keyed_def)
  show ?thesis
    by (rule finalize_pointer [OF fin k]) (simp_all add: row_simps mf' activation_pointer [OF wf l(1) act])
qed

lemma succeed_pointer:
  assumes "mark_stage_succeeded env f s n ev d = (Inr (), d')" "journal_keyed d" "pointer_wf d"
  shows "pointer_wf d'"
proof -
  obtain mf e where l: "get_file d f = Some mf" "get_journal d f s = Some e"
    and fin: "finalize_stage_success env 0 mf e s n ev [] d d = (Inr (), d')"
    using assms(1) by (auto simp: mark_stage_succeeded_def get_entry_Inr split: sum.splits)
  have k: "sj_file e = mf_id mf" "sj_stage e = s"
    using assms(2) l get_file_id [OF l(1)] by (auto simp: journal_keyed_def)
  show ?thesis
    by (rule finalize_pointer [OF fin k]) (use l get_file_id [OF l(1)] assms(3) in auto)
qed

lemma start_pointer:
  assumes "start_stage_processing env f s n ev d = (Inr out, d')" "pointer_wf d"
  shows "pointer_wf d'"
  using assms(1)
proof (rule start_outcome)
  assume "d' = d" with assms(2) show ?thesis by simp
next
  fix mf
  assume mf: "get_file d f = Some mf"
    and files: "db_files d' = (if s \<notin> set SYNC_STAGES \<and>
           \<not> should_preserve_file_status (load_recovery_item d ev) mf
         then row_put mf_id (mf\<lparr>mf_status := FILE_PROCESSING\<rparr>) (db_files d) else db_files d)"
    and gens: "db_generations d' = db_generations d"
  show ?thesis
    by (rule pointer_wf_files [OF assms(2) gens])
      (use mf get_file_id [OF mf] in \<open>auto simp: files get_file_def media_core_def\<close>)
qed

lemma stale_pointer:
  assumes "pointer_wf d" "get_generation d (mg_id g) = Some g" "mg_status g = UPLOADED"
  shows "pointer_wf (put_generation (stale_generation g) d)"
  by (rule pointer_wf_put_of [OF assms(2,1)]) (simp_all add: stale_generation_def assms(3))

lemma action_pointer:
  assumes run: "run_action env a f s n ev d = (r, d')" and keyed: "journal_keyed d" and wf: "pointer_wf d"
  shows "pointer_wf d'"
proof (cases r)
  case (Inl err)
  with run action_Inl [of env a f s n ev d err d'] keyed wf show ?thesis
    by (auto intro: stale_pointer)
next
  case (Inr u)
  with run have run: "run_action env a f s n ev d = (Inr (), d')" by simp
  consider "a = Start" | "a = Succeed" | rs where "a = Transcoded rs"
    | "completes a" "action_stage a s \<noteq> TRANSCODE" | "fails a" | rs er where "a = Abandoned rs er"
    by (cases a) (auto, metis SYNC_STAGE_BY_TARGET.elims stage.distinct)
  then show ?thesis
  proof cases
    case 1
    with run show ?thesis using wf by (auto dest!: drop_value_Inr intro: start_pointer)
  next
    case 2
    with run show ?thesis using wf keyed by (auto intro: succeed_pointer)
  next
    case 3
    with run show ?thesis using wf keyed by (auto intro: transcode_pointer)
  next
    case 4
    show ?thesis by (rule finishes_pointer [OF action_finishes [OF 4(1) run] 4(2) keyed wf])
  next
    case 5
    show ?thesis
      by (rule action_fails [OF 5 run]) (use keyed wf in \<open>auto intro: failure_pointer\<close>)
  next
    case (6 rs er)
    with run obtain out where "abandon_stage_processing env f s n ev rs er d = (Inr out, d')"
      by (auto dest: drop_value_Inr)
    then show ?thesis
      by (rule abandon_outcome) (use keyed wf in \<open>auto intro: failure_pointer\<close>)
  qed
qed

section \<open>Everything at once\<close>

text \<open>
  One operation on the media of a file: a delivery, a step of a generation's life, the cleanup of a
  failed one or a round of garbage collection. Cleanup and collection release their locks while they
  delete objects; \<open>others\<close> is whatever ran in between, itself any sequence of operations.
\<close>

inductive media_step :: "db \<Rightarrow> db \<Rightarrow> bool" where
  media_deliver: "media_step d (snd (run_action env a f s n ev d))"
| media_reserve:
    "get_generation d (env_fresh env 0) = None \<Longrightarrow>
       media_step d (snd (reserve_generation env f expected item limit d))"
| media_verified: "media_step d (snd (record_verified env gid r d))"
| media_uploaded: "media_step d (snd (record_uploaded env gid d))"
| media_cleanup:
    "(\<And>x. media_step\<^sup>*\<^sup>* x (others x)) \<Longrightarrow>
       media_step d (snd (snd (fail_and_cleanup_unactivated_generation env storage others gid err st d)))"
| media_gc:
    "next_gc_generation env cutoff examined d = Some g \<Longrightarrow> (\<And>x. media_step\<^sup>*\<^sup>* x (others x)) \<Longrightarrow>
       media_step d (snd (snd (gc_round env storage others g r d)))"

definition media_ok :: "db \<Rightarrow> bool" where
  "media_ok d \<longleftrightarrow> pointer_wf d \<and> journal_keyed d"

lemma media_ok_same: "media_ok d \<Longrightarrow> db_journal d' = db_journal d \<Longrightarrow> pointer_wf d' \<Longrightarrow> media_ok d'"
  by (simp add: media_ok_def journal_keyed_def get_journal_def)

lemma media_ok_pointer: "media_ok d \<Longrightarrow> pointer_wf d"
  by (simp add: media_ok_def)

lemma media_journal [simp]:
  "db_journal (snd (reserve_generation env f expected item limit d)) = db_journal d"
  "db_journal (snd (record_verified env gid r d)) = db_journal d"
  "db_journal (snd (record_uploaded env gid d)) = db_journal d"
  "db_journal (snd (fence_generation env gid err st d)) = db_journal d"
  "db_journal (snd (finish_cleanup env gid d)) = db_journal d"
  "db_journal (record_cleanup_failure env gid e d) = db_journal d"
  by (auto simp: reserve_generation_def record_verified_def record_uploaded_def fence_generation_def
      finish_cleanup_def record_cleanup_failure_def Let_def frame_simps split: option.split)

lemma media_ok_ops:
  assumes "media_ok d"
  shows "media_ok (snd (record_verified env gid r d))" "media_ok (snd (record_uploaded env gid d))"
    "media_ok (snd (fence_generation env gid err st d))" "media_ok (snd (finish_cleanup env gid d))"
    "media_ok (record_cleanup_failure env gid e d)"
  by (rule media_ok_same [OF assms];
      simp add: record_verified_pointer record_uploaded_pointer fence_pointer
        finish_cleanup_pointer cleanup_failure_pointer media_ok_pointer [OF assms])+

lemma cleanup_ok:
  assumes "media_ok d" "\<And>x. media_ok x \<Longrightarrow> media_ok (others x)"
  shows "media_ok (snd (snd (fail_and_cleanup_unactivated_generation env storage others gid err st d)))"
proof -
  obtain ks d1 where f: "fence_generation env gid err st d = (ks, d1)"
    by (cases "fence_generation env gid err st d")
  then have ok: "media_ok d1" using media_ok_ops(3) [OF assms(1), of env gid err st] by simp
  note o = media_ok_ops(4,5) [OF assms(2) [OF ok]]
  show ?thesis
    using f ok o(1) [of env gid] o(2) [of env gid]
    by (auto simp: fail_and_cleanup_unactivated_generation_def Let_def split: option.splits prod.splits)
qed

lemma gc_round_ok:
  assumes "media_ok d" "\<And>x. media_ok x \<Longrightarrow> media_ok (others x)" "g \<in> set (db_generations d)"
  shows "media_ok (snd (snd (gc_round env storage others g r d)))"
proof -
  have get: "get_generation d (mg_id g) = Some g"
    using assms(1,3) by (auto simp: media_ok_def pointer_wf_def intro: generations_wf_get)
  have put: "media_ok (put_generation h x)"
    if "media_ok x" "get_generation x (mg_id g) = Some g1" "gc_core h = gc_core g1" for h x g1
    by (rule media_ok_same [OF that(1)])
      (use pointer_wf_put_of [OF that(2) media_ok_pointer [OF that(1)], of h] gc_core_same [OF that(3)]
       in \<open>simp_all add: frame_simps\<close>)
  define d1 where "d1 = others (put_generation (g\<lparr>mg_cleanup_status := CLEANUP_PENDING,
      mg_cleanup_attempts := mg_cleanup_attempts g + 1\<rparr>) d)"
  have ok1: "media_ok d1" unfolding d1_def by (intro assms(2) put [OF assms(1) get]) simp
  show ?thesis
    unfolding gc_round_def Let_def d1_def [symmetric]
    by (simp add: put [OF assms(1) get] ok1 media_ok_ops(5) [OF ok1] put [OF ok1] split: prod.split option.split)
qed

lemma run_action_ok: "media_ok d \<Longrightarrow> media_ok (snd (run_action env a f s n ev d))"
  unfolding media_ok_def
  by (metis action_pointer stage_step.deliver stage_step_keyed prod.collapse)

lemma others_ok:
  assumes "\<And>x. (\<lambda>a b. media_step a b \<and> (media_ok a \<longrightarrow> media_ok b))\<^sup>*\<^sup>* x (others x)" "media_ok x"
  shows "media_ok (others x)"
  using assms(1) [of x] assms(2) by (induction rule: rtranclp_induct) auto

lemma media_step_ok: "media_step d d' \<Longrightarrow> media_ok d \<Longrightarrow> media_ok d'"
proof (induction rule: media_step.induct)
  case (media_deliver d env a f s n ev)
  then show ?case by (rule run_action_ok)
next
  case (media_reserve d env f expected item limit)
  show ?case
    by (rule media_ok_same [of d])
      (use media_reserve in \<open>simp_all add: reserve_pointer media_ok_pointer\<close>)
next
  case (media_verified d env gid r)
  then show ?case by (rule media_ok_ops)
next
  case (media_uploaded d env gid)
  then show ?case by (rule media_ok_ops)
next
  case (media_cleanup others d env storage gid err st)
  have "media_ok (others x)" if "media_ok x" for x by (rule others_ok [OF media_cleanup(1) that])
  then show ?case using media_cleanup(2) by (rule cleanup_ok [rotated])
next
  case (media_gc env cutoff examined d g others storage r)
  have "media_ok (others x)" if "media_ok x" for x by (rule others_ok [OF media_gc(2) that])
  moreover have "g \<in> set (db_generations d)" using next_gc_generation_Some [OF media_gc(1)] by blast
  ultimately show ?case using media_gc(3) by (intro gc_round_ok) blast+
qed

section \<open>Properties\<close>

text \<open>
  C2. However deliveries, reservations, uploads, cleanups and garbage collection interleave, a file's
  active generation is an ACTIVE generation of that file, and the key the file serves is that
  generation's web-video key.
\<close>

theorem active_pointer_always_valid:
  assumes "media_step\<^sup>*\<^sup>* d d'" "media_ok d"
    and "get_file d' f = Some m" "mf_active_generation m = Some gid"
  shows "\<exists>g. get_generation d' gid = Some g \<and> mg_status g = ACTIVE \<and> mg_file g = Some f \<and>
    mf_s3_web_video_key m = Some (mg_web_video_key g)"
proof -
  have "media_ok d'" using assms(1,2) by (induction rule: rtranclp_induct) (auto intro: media_step_ok)
  then show ?thesis using pointer_wfD assms(3,4) by (auto simp: media_ok_def)
qed

definition sample_uploaded :: media_generation where
  "sample_uploaded = sample_generation\<lparr>mg_id := 80, mg_web_video_key := ''v'', mg_preview_key := ''p'',
     mg_status := UPLOADED\<rparr>"

definition sample_former :: media_generation where
  "sample_former = sample_generation\<lparr>mg_id := 81, mg_web_video_key := ''old'', mg_status := ACTIVE\<rparr>"

definition sample_media_file :: meme_file where
  "sample_media_file = sample_file\<lparr>mf_s3_web_video_key := Some ''old'', mf_active_generation := Some 81\<rparr>"

definition sample_media_db :: "text_value option \<Rightarrow> db" where
  "sample_media_db expected = (sample_stage_db TRANSCODE)
     \<lparr>db_files := [sample_media_file],
      db_generations := [sample_former, sample_uploaded\<lparr>mg_expected_key := expected\<rparr>]\<rparr>"

definition sample_result :: normalized_media where
  "sample_result =
     \<lparr>nm_quality_score = 1, nm_blur_hash = None, nm_preview_key = Some ''p'', nm_web_video_key = Some ''v'',
      nm_generation_id = Some 80, nm_web_video_profile = None, nm_source_has_audio = None,
      nm_web_video_has_audio = None, nm_source_observations = None, nm_output_observations = None,
      nm_web_video_verified_at = None\<rparr>"

lemma sample_media_ok: "media_ok (sample_media_db e)"
proof -
  have "journal_keyed (sample_media_db e)"
    using sample_stage_keyed [of TRANSCODE] by (simp add: journal_keyed_def get_journal_def sample_media_db_def)
  moreover have "pointer_wf (sample_media_db e)"
    by (auto simp: pointer_wf_def generations_wf_def sample_media_db_def get_file_def get_generation_def
        sample_media_file_def sample_former_def sample_uploaded_def sample_file_def sample_generation_def
        new_generation_def Let_def)
  ultimately show ?thesis by (simp add: media_ok_def)
qed

lemma sample_activation:
  "complete_transcode_stage sample_env 1 1 60 sample_result (sample_media_db (Some ''old'')) =
   (Inr (), snd (complete_transcode_stage sample_env 1 1 60 sample_result (sample_media_db (Some ''old''))))"
proof -
  have "fst (complete_transcode_stage sample_env 1 1 60 sample_result (sample_media_db (Some ''old''))) = Inr ()"
    by code_simp
  then show ?thesis by (metis prod.collapse)
qed

theorem active_pointer_always_valid_witness:
  "\<exists>g. get_generation (snd (run_action sample_env (Transcoded sample_result) 1 TRANSCODE 1 60
       (sample_media_db (Some ''old'')))) 80 = Some g \<and> mg_status g = ACTIVE \<and> mg_file g = Some 1"
proof -
  let ?d = "sample_media_db (Some ''old'')"
  let ?d' = "snd (run_action sample_env (Transcoded sample_result) 1 TRANSCODE 1 60 ?d)"
  have step: "media_step\<^sup>*\<^sup>* ?d ?d'" by (rule r_into_rtranclp, rule media_deliver)
  have "map_option mf_active_generation (get_file ?d' 1) = Some (Some 80)" by code_simp
  then obtain m where "get_file ?d' 1 = Some m" "mf_active_generation m = Some 80" by auto
  from active_pointer_always_valid [OF step sample_media_ok this] show ?thesis by blast
qed

text \<open>
  A transcode that reports a reserved generation activates exactly that one: it was uploaded for
  this file, its expected pointer was the one the file served, and after the commit the file serves
  its video, while the formerly active generation is superseded and queued for cleanup.
\<close>

theorem activation_swaps_pointer:
  assumes "complete_transcode_stage env f n ev r d = (Inr (), d')" "media_ok d"
    and "nm_generation_id r = Some gid" "nm_web_video_key r \<noteq> None"
  shows "\<exists>mf g mf' g'. get_file d f = Some mf \<and> get_generation d gid = Some g \<and>
    mg_status g = UPLOADED \<and> mg_file g = Some f \<and> mf_s3_web_video_key mf = mg_expected_key g \<and>
    get_file d' f = Some mf' \<and> mf_active_generation mf' = Some gid \<and>
    mf_s3_web_video_key mf' = Some (mg_web_video_key g) \<and> nm_web_video_key r = Some (mg_web_video_key g) \<and>
    get_generation d' gid = Some g' \<and> mg_status g' = ACTIVE \<and> mg_cleanup_status g' = NOT_ELIGIBLE \<and>
    (\<forall>old p. mf_active_generation mf = Some old \<longrightarrow> old \<noteq> gid \<longrightarrow> get_generation d old = Some p \<longrightarrow>
       get_generation d' old = Some (p\<lparr>mg_status := SUPERSEDED, mg_superseded_at := Some (env_now env),
                                    mg_cleanup_status := CLEANUP_PENDING\<rparr>))"
proof -
  obtain mf e g where l: "get_file d f = Some mf" "get_journal d f TRANSCODE = Some e"
    and act: "activates d r mf g"
    and fin: "finalize_stage_success env 0 (measured_file r (activated_file env g r mf)) e TRANSCODE n ev [] d
              (put_file (measured_file r (activated_file env g r mf)) (put_generation (activated_generation env g)
                (supersede_previous env (mf_active_generation mf) g d))) = (Inr (), d')"
    by (rule transcode_activated [OF assms(1,3,4)])
  let ?m = "measured_file r (activated_file env g r mf)"
  have i: "mf_id ?m = f" using get_file_id [OF l(1)] by (simp add: activated_file_def)
  have k: "sj_file e = mf_id ?m" "sj_stage e = TRANSCODE"
    using assms(2) l(2) i by (auto simp: media_ok_def journal_keyed_def)
  note eff = finalize_effect [OF fin k]
  have g: "gid = mg_id g" "get_generation d gid = Some g" "mg_status g = UPLOADED" "mg_file g = Some f"
    "mf_s3_web_video_key mf = mg_expected_key g" "nm_web_video_key r = Some (mg_web_video_key g)"
    using act assms(3) get_file_id [OF l(1)] by (auto simp: activates_def)
  have gen: "get_generation d' j = (if j = gid then Some (activated_generation env g)
      else get_generation (supersede_previous env (mf_active_generation mf) g d) j)" for j
    using eff(5) g(1)
    by (simp add: get_generation_def put_generation_def put_file_def)
      (simp add: activated_generation_def)
  have written: "\<exists>x. get_file d' f = Some (?m\<lparr>mf_status := x\<rparr>)"
  proof (cases "should_preserve_file_status (load_recovery_item (put_file ?m (put_generation (activated_generation env g)
                (supersede_previous env (mf_active_generation mf) g d))) ev) ?m")
    case True
    then have "get_file d' f = Some ?m" using eff(4) i by (simp add: get_file_def put_file_def)
    then have "get_file d' f = Some (?m\<lparr>mf_status := mf_status ?m\<rparr>)" by simp
    then show ?thesis by blast
  next
    case False
    then have "get_file d' f = Some (?m\<lparr>mf_status := finished_status TRANSCODE\<rparr>)"
      using eff(4) i by (simp add: get_file_def mem_SYNC_STAGES)
    then show ?thesis by blast
  qed
  then obtain x where row: "get_file d' f = Some (?m\<lparr>mf_status := x\<rparr>)" by blast
  have m: "mf_active_generation (?m\<lparr>mf_status := x\<rparr>) = Some gid"
    "mf_s3_web_video_key (?m\<lparr>mf_status := x\<rparr>) = Some (mg_web_video_key g)"
    using g(1) by (simp_all add: activated_file_def measured_file_def)
  have a: "mg_status (activated_generation env g) = ACTIVE" "mg_cleanup_status (activated_generation env g) = NOT_ELIGIBLE"
    by (simp_all add: activated_generation_def)
  have sup: "\<forall>old p. mf_active_generation mf = Some old \<longrightarrow> old \<noteq> gid \<longrightarrow> get_generation d old = Some p \<longrightarrow>
       get_generation d' old = Some (p\<lparr>mg_status := SUPERSEDED, mg_superseded_at := Some (env_now env),
                                    mg_cleanup_status := CLEANUP_PENDING\<rparr>)"
    using g(1) by (auto simp: gen supersede_get)
  show ?thesis
    by (rule exI [of _ mf], rule exI [of _ g], rule exI [of _ "?m\<lparr>mf_status := x\<rparr>"],
        rule exI [of _ "activated_generation env g"])
      (intro conjI l(1) g(2-6) row m a sup, simp_all add: gen)
qed

theorem activation_swaps_pointer_witness:
  "\<exists>g'. get_generation (snd (complete_transcode_stage sample_env 1 1 60 sample_result
      (sample_media_db (Some ''old'')))) 80 = Some g' \<and> mg_status g' = ACTIVE"
  using activation_swaps_pointer [OF sample_activation sample_media_ok, of 80]
  by (force simp: sample_result_def)

text \<open>
  C15. When the file's pointer moved since the generation was reserved, completing the transcode does
  not swap it: the file is left alone, the loser is marked stale for cleanup in its own commit, and
  the conflict is raised.
\<close>

theorem conflicting_activation_is_fenced:
  assumes "get_file d f = Some mf" "get_journal d f TRANSCODE = Some e" "sj_attempt_count e \<le> n"
    and "nm_generation_id r = Some gid" "nm_web_video_key r = Some key" "nm_preview_key r = Some preview"
    and "get_generation d gid = Some g" "mg_file g = Some f" "mg_status g = UPLOADED"
    and "mf_s3_web_video_key mf \<noteq> mg_expected_key g" "env_commit_ok env"
  shows "\<exists>d' g'. complete_transcode_stage env f n ev r d =
      (Inl (MediaGenerationConflictError PointerChangedBeforeActivation), d') \<and>
    db_files d' = db_files d \<and> db_journal d' = db_journal d \<and> db_outbox d' = db_outbox d \<and>
    get_generation d' gid = Some g' \<and> mg_status g' = STALE \<and> mg_cleanup_status g' = CLEANUP_PENDING"
proof -
  have entry: "get_meme_file_and_stage_entry d f TRANSCODE = Inr (mf, e)"
    "ensure_stage_attempt_is_current e n = Inr ()"
    using assms by (simp_all add: get_entry_Inr ensure_stage_attempt_is_current_def)
  have "complete_transcode_stage env f n ev r d =
      (Inl (MediaGenerationConflictError PointerChangedBeforeActivation), put_generation (stale_generation g) d)"
    using assms get_file_id [OF assms(1)]
    by (simp add: complete_transcode_stage_def entry)
  moreover have "get_generation (put_generation (stale_generation g) d) gid = Some (stale_generation g)"
    using get_generation_id [OF assms(7)] by (simp add: row_simps stale_generation_def)
  ultimately show ?thesis
    by (intro exI [of _ "put_generation (stale_generation g) d"] exI [of _ "stale_generation g"])
      (simp add: frame_simps, simp add: stale_generation_def)
qed

theorem conflicting_activation_is_fenced_witness:
  "\<exists>d'. complete_transcode_stage sample_env 1 1 60 sample_result (sample_media_db None) =
     (Inl (MediaGenerationConflictError PointerChangedBeforeActivation), d') \<and>
     db_files d' = [sample_media_file]"
proof -
  let ?d = "sample_media_db None"
  have "get_file ?d 1 = Some sample_media_file"
    by (simp add: sample_media_db_def get_file_def sample_media_file_def sample_file_def)
  moreover have "get_journal ?d 1 TRANSCODE = Some (sample_journal TRANSCODE)"
    using sample_stage_journal [of TRANSCODE] by (simp add: sample_media_db_def get_journal_def)
  moreover have "get_generation ?d 80 = Some (sample_uploaded\<lparr>mg_expected_key := None\<rparr>)"
    by (simp add: sample_media_db_def get_generation_def sample_former_def sample_uploaded_def)
  moreover have "db_files ?d = [sample_media_file]" by (simp add: sample_media_db_def)
  moreover have "mg_file (sample_uploaded\<lparr>mg_expected_key := None\<rparr>) = Some 1"
    "mg_status (sample_uploaded\<lparr>mg_expected_key := None\<rparr>) = UPLOADED"
    "mf_s3_web_video_key sample_media_file \<noteq> mg_expected_key (sample_uploaded\<lparr>mg_expected_key := None\<rparr>)"
    "sj_attempt_count (sample_journal TRANSCODE) \<le> 1" "env_commit_ok sample_env"
    by (simp_all add: sample_uploaded_def sample_generation_def new_generation_def Let_def sample_file_def
        sample_media_file_def sample_journal_def sample_env_def)
  moreover have "nm_generation_id sample_result = Some 80" "nm_web_video_key sample_result = Some ''v''"
    "nm_preview_key sample_result = Some ''p''"
    by (simp_all add: sample_result_def)
  ultimately show ?thesis
    using conflicting_activation_is_fenced [of ?d 1 sample_media_file "sample_journal TRANSCODE" 1 sample_result 80
        "''v''" "''p''" "sample_uploaded\<lparr>mg_expected_key := None\<rparr>" sample_env 60]
    by metis
qed

end
