(* ===== verification/Replay.thy ===== *)
theory Replay
  imports Stage_Invariants
begin

text \<open>
  Operator replays (\<open>pipeline/replay.py\<close>): a replay reserves a journal row under a fresh event with the
  next attempt number and enqueues the delivery in the same transaction. A row already reserved is
  reused, so asking twice dispatches once.
\<close>

section \<open>Reservation\<close>

record replay_accepted =
  pa_file :: uuid
  pa_event :: uuid
  pa_stage :: stage
  pa_attempt :: int

definition attached_item :: "env \<Rightarrow> uuid \<Rightarrow> int option \<Rightarrow> recovery_item \<Rightarrow> recovery_item" where
  "attached_item env event attempt i =
     i\<lparr>ri_status := ITEM_DISPATCHED, ri_dispatch_event_id := Some event,
       ri_dispatched_at := Some (env_now env), ri_normalized_reason := None,
       ri_safe_error_text := None, ri_reservation_active := True,
       ri_attempt_budget_start :=
         (if ri_attempt_budget_start i = None \<and> attempt \<noteq> None then attempt
          else ri_attempt_budget_start i)\<rparr>"

definition attach_recovery_item :: "env \<Rightarrow> recovery_item option \<Rightarrow> uuid \<Rightarrow> int option \<Rightarrow> db \<Rightarrow> db" where
  "attach_recovery_item env item event attempt d =
     (case item of None \<Rightarrow> d | Some i \<Rightarrow> put_recovery (attached_item env event attempt i) d)"

definition commit_recovery_attachment :: "env \<Rightarrow> db \<Rightarrow> db \<Rightarrow> unit outcome" where
  "commit_recovery_attachment env d0 d =
     (if env_commit_ok env then (Inr (), d)
      else (Inl (PipelineIngestError (CommitFailed ''Failed to attach an existing replay to recovery work.'')), d0))"

text \<open>
  The branch on a reserved row: the recovery item is attached to the reserved event, its budget starting
  at the row's attempt unless it started before.
\<close>

definition reuse_reservation ::
  "env \<Rightarrow> meme_file \<Rightarrow> stage_journal \<Rightarrow> recovery_item option \<Rightarrow> db \<Rightarrow> replay_accepted outcome" where
  "reuse_reservation env file e item d =
     (case sj_last_event_id e of
        None \<Rightarrow> (Inl (PipelineReplayNotAllowedError ReservationWithoutEvent), d)
      | Some event \<Rightarrow>
          (let accepted = \<lparr>pa_file = mf_id file, pa_event = event, pa_stage = sj_stage e,
                           pa_attempt = max (sj_attempt_count e) 1\<rparr>
           in case item of
                None \<Rightarrow> (Inr accepted, d)
              | Some i \<Rightarrow>
                  (case commit_recovery_attachment env d
                          (attach_recovery_item env item event (Some (max (sj_attempt_count e) 1)) d) of
                     (Inl err, d') \<Rightarrow> (Inl err, d')
                   | (Inr _, d') \<Rightarrow> (Inr accepted, d'))))"

definition replay_event :: "env \<Rightarrow> nat \<Rightarrow> meme_file \<Rightarrow> stage_journal \<Rightarrow> pipeline_error + dispatch_event" where
  "replay_event env n file e =
     make_dispatch_event
       \<lparr>ev_id = env_fresh env n, ev_type = STAGE_REPLAY_REQUESTED, ev_meme = mf_meme_id file,
        ev_file = mf_id file, ev_stage = sj_stage e, ev_source_kind = MANUAL_UPLOAD,
        ev_original_key = mf_s3_original_key file, ev_attempt = max (sj_attempt_count e + 1) 1,
        ev_created_at = env_now env\<rparr>"

text \<open>The end every reservation shares: enqueue, commit, relay.\<close>

definition commit_replay ::
  "env \<Rightarrow> text_value \<Rightarrow> meme_file \<Rightarrow> dispatch_event \<Rightarrow> db \<Rightarrow> db \<Rightarrow> replay_accepted outcome" where
  "commit_replay env failure file event d0 d =
     (case enqueue_dispatch_event env event d of
        Inl err \<Rightarrow> (Inl err, d0)
      | Inr (i, d1) \<Rightarrow>
          if env_commit_ok env
          then (Inr \<lparr>pa_file = mf_id file, pa_event = ev_id event, pa_stage = ev_stage event,
                     pa_attempt = ev_attempt event\<rparr>,
                snd (relay_best_effort env [i] d1))
          else (Inl (PipelineIngestError (CommitFailed failure)), d0))"

section \<open>Replaying a failed stage\<close>

fun latest_replayable :: "stage_journal list \<Rightarrow> stage_journal option" where
  "latest_replayable [] = None"
| "latest_replayable (e # es) =
     (if is_replay_reserved e \<or> (sj_status e = STAGE_FAILED \<and> sj_is_retryable e) then Some e
      else latest_replayable es)"

definition select_replay_entry :: "stage_journal list \<Rightarrow> stage option \<Rightarrow> pipeline_error + stage_journal" where
  "select_replay_entry entries requested =
     (case requested of
        Some s \<Rightarrow>
          (case find (\<lambda>e. sj_stage e = s) entries of
             None \<Rightarrow> Inl (PipelineReplayNotAllowedError NoStageRow)
           | Some e \<Rightarrow>
               if is_replay_reserved e then Inr e
               else if sj_status e \<noteq> STAGE_FAILED \<or> \<not> sj_is_retryable e
                 then Inl (PipelineReplayNotAllowedError NotRetryableFailed)
               else Inr e)
      | None \<Rightarrow>
          (case latest_replayable (rev entries) of
             None \<Rightarrow> Inl (PipelineReplayNotAllowedError NoRetryableStage) | Some e \<Rightarrow> Inr e))"

definition replay_item ::
  "env \<Rightarrow> uuid \<Rightarrow> stage option \<Rightarrow> recovery_item option \<Rightarrow> db \<Rightarrow> replay_accepted outcome" where
  "replay_item env f requested item d =
     (case get_meme_file d f of
        Inl err \<Rightarrow> (Inl err, d)
      | Inr file \<Rightarrow>
          if mf_s3_original_key file = [] then (Inl (PipelineReplayNotAllowedError MissingOriginalKey), d)
          else
     (case select_replay_entry (sorted_stage_entries (journal_entries d f)) requested of
        Inl err \<Rightarrow> (Inl err, d)
      | Inr e \<Rightarrow>
          if is_replay_reserved e then reuse_reservation env file e item d
          else
     (case replay_event env 0 file e of
        Inl err \<Rightarrow> (Inl err, d)
      | Inr event \<Rightarrow>
          commit_replay env ''Failed to persist replay reservation state.'' file event d
            (attach_recovery_item env item (ev_id event) (Some (ev_attempt event))
              (put_journal env (reserve_replay event e) d)))))"

section \<open>Replays by an administrator\<close>

definition unmaterialized_entry :: "env \<Rightarrow> uuid \<Rightarrow> stage \<Rightarrow> stage_journal" where
  "unmaterialized_entry env f s =
     \<lparr>sj_id = env_fresh env 10, sj_file = f, sj_stage = s, sj_status = STAGE_FAILED,
      sj_attempt_count = 0, sj_last_event_id = None,
      sj_normalized_reason = Some ''orchestrated_stage_not_materialized'', sj_last_error_text = None,
      sj_is_retryable = True, sj_retry_after = None, sj_started_at = None, sj_finished_at = None,
      sj_updated_at = env_now env\<rparr>"

text \<open>The item's work id moves from \<open>"<file>:<suffix>"\<close> to the id of the row just created.\<close>

definition claim_work_id :: "uuid \<Rightarrow> uuid \<Rightarrow> recovery_item \<Rightarrow> recovery_item" where
  "claim_work_id f row i =
     (case ri_work_id i of
        WorkFileSuffix g t \<Rightarrow> if g = f then i\<lparr>ri_work_id := WorkRow row\<rparr> else i
      | _ \<Rightarrow> i)"

definition pending_sync_snapshot :: "env \<Rightarrow> uuid \<Rightarrow> sync_target \<Rightarrow> uuid \<Rightarrow> db \<Rightarrow> db" where
  "pending_sync_snapshot env f t event d =
     upsert_sync_target_snapshot env f t SYNC_PENDING (Some event) None
       (Some PIPELINE_REASON_SYNC_REPLAY_REQUESTED) None False False d"

definition replay_admin_stage ::
  "env \<Rightarrow> uuid \<Rightarrow> stage \<Rightarrow> recovery_item \<Rightarrow> db \<Rightarrow> replay_accepted outcome" where
  "replay_admin_stage env f s item0 d =
     (if s = INGEST then (Inl (PipelineReplayNotAllowedError IngestNotReplayable), d)
      else
     (case get_meme_file d f of
        Inl err \<Rightarrow> (Inl err, d)
      | Inr file \<Rightarrow>
          if mf_s3_original_key file = [] then (Inl (PipelineReplayNotAllowedError MissingOriginalKey), d)
          else
            (let (e, item) = (case get_journal d f s of
                                Some e \<Rightarrow> (e, item0)
                              | None \<Rightarrow> (unmaterialized_entry env f s, claim_work_id f (env_fresh env 10) item0))
             in if is_replay_reserved e then reuse_reservation env file e (Some item) d
                else if sj_status e \<in> {STAGE_PENDING, STAGE_PROCESSING, STAGE_DUPLICATE}
                then (Inl (PipelineReplayNotAllowedError (StageNotReplayable (sj_status e))), d)
                else if sj_status e = STAGE_FAILED \<and> \<not> sj_is_retryable e \<and> \<not> ri_terminal_override item
                then (Inl (PipelineReplayNotAllowedError TerminalNeedsAcknowledgement), d)
                else
                  (case replay_event env 0 file e of
                     Inl err \<Rightarrow> (Inl err, d)
                   | Inr event \<Rightarrow>
                       (let item1 = (attached_item env (ev_id event) (Some (ev_attempt event))
                                       (item\<lparr>ri_previous_stage_state := stage_snapshot_json e\<rparr>))
                                      \<lparr>ri_canonical_version := Some (RowVersion (Some (env_now env)) (Some (ev_id event)))\<rparr>;
                            d1 = put_recovery item1 (put_journal env (reserve_replay event e) d);
                            d2 = (if s \<in> {SYNC_QDRANT, SYNC_MEILI}
                                  then pending_sync_snapshot env f
                                         (if s = SYNC_QDRANT then QDRANT else MEILISEARCH) (ev_id event) d1
                                  else d1)
                        in commit_replay env ''Failed to persist admin replay reservation state.'' file event d d2)))))"

section \<open>Replaying a sync target\<close>

definition replay_single_sync_target ::
  "env \<Rightarrow> nat \<Rightarrow> uuid \<Rightarrow> sync_target \<Rightarrow> recovery_item option \<Rightarrow> db \<Rightarrow> replay_accepted outcome" where
  "replay_single_sync_target env n f t item d =
     (case get_meme_file d f of
        Inl err \<Rightarrow> (Inl err, d)
      | Inr file \<Rightarrow>
          if mf_s3_original_key file = [] then (Inl (PipelineReplayNotAllowedError MissingOriginalKey), d)
          else
     (case get_journal d f (SYNC_STAGE_BY_TARGET t) of
        None \<Rightarrow> (Inl (PipelineReplayNotAllowedError NoStageRow), d)
      | Some e \<Rightarrow>
          if is_replay_reserved e then reuse_reservation env file e item d
          else
     (case replay_event env n file e of
        Inl err \<Rightarrow> (Inl err, d)
      | Inr event \<Rightarrow>
          commit_replay env ''Failed to persist sync replay reservation state.'' file event d
            (pending_sync_snapshot env f t (ev_id event)
              (attach_recovery_item env item (ev_id event) (Some (ev_attempt event))
                (put_journal env (reserve_replay event e) d))))))"

definition replay_sync_target ::
  "env \<Rightarrow> uuid \<Rightarrow> sync_target \<Rightarrow> recovery_item option \<Rightarrow> db \<Rightarrow> replay_accepted outcome" where
  "replay_sync_target env f t item d =
     (case get_meme_file d f of
        Inl err \<Rightarrow> (Inl err, d)
      | Inr file \<Rightarrow>
          (case ensure_sync_replay_allowed d file of
             Inl err \<Rightarrow> (Inl err, d)
           | Inr _ \<Rightarrow> replay_single_sync_target env 0 f t item d))"

fun check_sync_batch :: "db \<Rightarrow> uuid list \<Rightarrow> pipeline_error + unit" where
  "check_sync_batch d [] = Inr ()"
| "check_sync_batch d (f # fs) =
     (case get_meme_file d f of
        Inl err \<Rightarrow> Inl err
      | Inr file \<Rightarrow>
          (case ensure_sync_replay_allowed d file of Inl err \<Rightarrow> Inl err | Inr _ \<Rightarrow> check_sync_batch d fs))"

fun replay_sync_batch_loop ::
  "env \<Rightarrow> nat \<Rightarrow> sync_target \<Rightarrow> uuid list \<Rightarrow> replay_accepted list \<Rightarrow> db \<Rightarrow> (replay_accepted list) outcome" where
  "replay_sync_batch_loop env n t [] accepted d = (Inr accepted, d)"
| "replay_sync_batch_loop env n t (f # fs) accepted d =
     (case replay_single_sync_target env n f t None d of
        (Inl err, d') \<Rightarrow> (Inl err, d')
      | (Inr a, d') \<Rightarrow> replay_sync_batch_loop env (n + 1) t fs (accepted @ [a]) d')"

text \<open>Every item of the batch is its own transaction; the checks run first, on all of them.\<close>

definition replay_sync_target_batch ::
  "env \<Rightarrow> uuid list \<Rightarrow> sync_target \<Rightarrow> db \<Rightarrow> (replay_accepted list) outcome" where
  "replay_sync_target_batch env fs t d =
     (if length fs > SYNC_REPLAY_BATCH_MAX then (Inl (PipelineReplayNotAllowedError BatchTooLarge), d)
      else
        (case check_sync_batch d fs of
           Inl err \<Rightarrow> (Inl err, d) | Inr _ \<Rightarrow> replay_sync_batch_loop env 0 t fs [] d))"

section \<open>The three requests\<close>

datatype replay_request =
    ReplayItem "stage option" "recovery_item option"
  | ReplayAdmin stage recovery_item
  | ReplaySync sync_target "recovery_item option"

fun run_replay :: "env \<Rightarrow> replay_request \<Rightarrow> uuid \<Rightarrow> db \<Rightarrow> replay_accepted outcome" where
  "run_replay env (ReplayItem requested item) f d = replay_item env f requested item d"
| "run_replay env (ReplayAdmin s item) f d = replay_admin_stage env f s item d"
| "run_replay env (ReplaySync t item) f d = replay_sync_target env f t item d"

fun requested_stage :: "replay_request \<Rightarrow> stage option" where
  "requested_stage (ReplayItem requested item) = requested"
| "requested_stage (ReplayAdmin s item) = Some s"
| "requested_stage (ReplaySync t item) = Some (SYNC_STAGE_BY_TARGET t)"

section \<open>Effects\<close>

lemma commit_replay_Inl: "commit_replay env failure mf event d0 d = (Inl err, d') \<Longrightarrow> d' = d0"
  by (auto simp: commit_replay_def split: sum.splits if_splits)

lemma commit_replay_Inr:
  assumes "commit_replay env failure mf event d0 d = (Inr acc, d')"
  obtains m where "carries m event"
    "d' = snd (relay_best_effort env [ev_id event] (d\<lparr>db_outbox := db_outbox d @ [m]\<rparr>))"
    "acc = \<lparr>pa_file = mf_id mf, pa_event = ev_id event, pa_stage = ev_stage event, pa_attempt = ev_attempt event\<rparr>"
proof -
  obtain i d1 where e: "enqueue_dispatch_event env event d = Inr (i, d1)"
    using assms by (auto simp: commit_replay_def split: sum.splits)
  obtain m where m: "carries m event" "i = ev_id event" "d1 = d\<lparr>db_outbox := db_outbox d @ [m]\<rparr>"
    using enqueue_dispatch_event_Inr [OF e] by (auto simp: carries_def)
  have "d' = snd (relay_best_effort env [i] d1)"
    "acc = \<lparr>pa_file = mf_id mf, pa_event = ev_id event, pa_stage = ev_stage event, pa_attempt = ev_attempt event\<rparr>"
    using assms e by (auto simp: commit_replay_def split: if_splits)
  with that m show thesis by blast
qed

lemma reuse_reservation_Inl: "reuse_reservation env mf e item d = (Inl err, d') \<Longrightarrow> d' = d"
  by (auto simp: reuse_reservation_def Let_def commit_recovery_attachment_def split: option.splits if_splits)

text \<open>What a reused reservation answers, and that it changes nothing but recovery items.\<close>

lemma reuse_reservation_Inr:
  assumes "reuse_reservation env mf e item d = (Inr acc, d')"
  shows "sj_last_event_id e = Some (pa_event acc) \<and> pa_file acc = mf_id mf \<and> pa_stage acc = sj_stage e \<and>
    pa_attempt acc = max (sj_attempt_count e) 1 \<and> d' = d\<lparr>db_recovery := db_recovery d'\<rparr>"
  using assms
  by (auto simp: reuse_reservation_def Let_def commit_recovery_attachment_def attach_recovery_item_def
      put_recovery_def split: option.splits if_splits)

lemma replay_event_Inr:
  assumes "replay_event env n mf e = Inr event"
  shows "ev_id event = env_fresh env n \<and> ev_type event = STAGE_REPLAY_REQUESTED \<and>
    ev_file event = mf_id mf \<and> ev_stage event = sj_stage e \<and> ev_attempt event = max (sj_attempt_count e + 1) 1 \<and>
    sj_stage e \<noteq> INGEST"
  using assms by (auto simp: replay_event_def make_dispatch_event_def Let_def split: if_splits)

lemma attach_frame [frame_simps]:
  "db_journal (attach_recovery_item env item ev n d) = db_journal d"
  "db_outbox (attach_recovery_item env item ev n d) = db_outbox d"
  "db_files (attach_recovery_item env item ev n d) = db_files d"
  "db_generations (attach_recovery_item env item ev n d) = db_generations d"
  "db_memes (attach_recovery_item env item ev n d) = db_memes d"
  by (simp_all add: attach_recovery_item_def put_recovery_def split: option.splits)

text \<open>
  A fresh reservation: the row waits under a new event and a higher attempt, and every other row of
  the journal is as before.
\<close>

definition reserved_row :: "env \<Rightarrow> dispatch_event \<Rightarrow> stage_journal \<Rightarrow> stage_journal" where
  "reserved_row env event e = (reserve_replay event e)\<lparr>sj_updated_at := env_now env\<rparr>"

definition reserves :: "env \<Rightarrow> nat \<Rightarrow> uuid \<Rightarrow> replay_accepted \<Rightarrow> db \<Rightarrow> db \<Rightarrow> bool" where
  "reserves env n f acc d d' \<longleftrightarrow>
     (\<exists>mf e event m d1. get_file d f = Some mf \<and>
        (get_journal d f (pa_stage acc) = Some e \<or>
         get_journal d f (pa_stage acc) = None \<and> sj_attempt_count e = 0) \<and>
        sj_stage e = pa_stage acc \<and> sj_file e = f \<and>
        \<not> is_replay_reserved e \<and> replay_event env n mf e = Inr event \<and> carries m event \<and>
        acc = \<lparr>pa_file = f, pa_event = ev_id event, pa_stage = ev_stage event, pa_attempt = ev_attempt event\<rparr> \<and>
        db_journal d1 = (db_journal d)((f, pa_stage acc) \<mapsto> reserved_row env event e) \<and>
        db_outbox d1 = db_outbox d @ [m] \<and> db_files d1 = db_files d \<and> db_memes d1 = db_memes d \<and>
        db_generations d1 = db_generations d \<and> d' = snd (relay_best_effort env [ev_id event] d1))"

definition reuses :: "uuid \<Rightarrow> replay_accepted \<Rightarrow> db \<Rightarrow> db \<Rightarrow> bool" where
  "reuses f acc d d' \<longleftrightarrow>
     (\<exists>e. get_journal d f (pa_stage acc) = Some e \<and> is_replay_reserved e \<and>
        sj_last_event_id e = Some (pa_event acc) \<and> pa_file acc = f \<and>
        pa_attempt acc = max (sj_attempt_count e) 1) \<and> d' = d\<lparr>db_recovery := db_recovery d'\<rparr>"

lemma reserves_intro:
  assumes "get_file d f = Some mf" "sj_file e = f" "\<not> is_replay_reserved e" "replay_event env n mf e = Inr event"
    and "get_journal d f (sj_stage e) = Some e \<or> get_journal d f (sj_stage e) = None \<and> sj_attempt_count e = 0"
    and "commit_replay env failure mf event d d2 = (Inr acc, d')"
    and "db_journal d2 = (db_journal d)((f, sj_stage e) \<mapsto> reserved_row env event e)"
    and "db_outbox d2 = db_outbox d" "db_files d2 = db_files d" "db_memes d2 = db_memes d"
      "db_generations d2 = db_generations d"
  shows "reserves env n f acc d d'"
proof -
  obtain m where m: "carries m event"
    "d' = snd (relay_best_effort env [ev_id event] (d2\<lparr>db_outbox := db_outbox d2 @ [m]\<rparr>))"
    "acc = \<lparr>pa_file = mf_id mf, pa_event = ev_id event, pa_stage = ev_stage event, pa_attempt = ev_attempt event\<rparr>"
    by (rule commit_replay_Inr [OF assms(6)])
  have id: "mf_id mf = f" by (rule get_file_id [OF assms(1)])
  have st: "ev_stage event = sj_stage e" using replay_event_Inr [OF assms(4)] by simp
  show ?thesis
    unfolding reserves_def
    by (intro exI [of _ mf] exI [of _ e] exI [of _ event] exI [of _ m]
        exI [of _ "d2\<lparr>db_outbox := db_outbox d2 @ [m]\<rparr>"])
      (use assms m id st in simp)
qed

lemma reserve_journal:
  "sj_file e = f \<Longrightarrow> db_journal (put_journal env (reserve_replay event e) d) =
     (db_journal d)((f, sj_stage e) \<mapsto> reserved_row env event e)"
  by (simp add: put_journal_def reserve_replay_def reserved_row_def)
lemma entry_of_file:
  assumes "e \<in> set (sorted_stage_entries (journal_entries d f))" "journal_keyed d"
  shows "get_journal d f (sj_stage e) = Some e \<and> sj_file e = f"
  using assms by (auto simp: sorted_stage_entries_def journal_entries_def List.map_filter_def journal_keyed_def)

lemma latest_replayable_mem: "latest_replayable es = Some e \<Longrightarrow> e \<in> set es"
  by (induction es) (auto split: if_splits)

lemma select_replay_entry_Inr:
  assumes "select_replay_entry es requested = Inr e"
  shows "e \<in> set es" "requested = Some s \<Longrightarrow> sj_stage e = s"
  using assms
  by (auto simp: select_replay_entry_def split: option.splits if_splits
      dest!: find_SomeD latest_replayable_mem)

lemma reuses_intro:
  assumes "reuse_reservation env mf e item d = (Inr acc, d')" "is_replay_reserved e"
    "get_journal d f (sj_stage e) = Some e" "get_file d f = Some mf"
  shows "reuses f acc d d' \<and> pa_stage acc = sj_stage e"
  using reuse_reservation_Inr [OF assms(1)] assms(2-) get_file_id [OF assms(4)] by (auto simp: reuses_def)

lemma replay_item_Inr:
  assumes "replay_item env f requested item d = (Inr acc, d')" "journal_keyed d"
  shows "(reserves env 0 f acc d d' \<or> reuses f acc d d') \<and> (requested = Some s \<longrightarrow> pa_stage acc = s)"
proof -
  obtain mf e where mf: "get_file d f = Some mf"
    and sel: "select_replay_entry (sorted_stage_entries (journal_entries d f)) requested = Inr e"
    using assms(1) by (auto simp: replay_item_def get_meme_file_def split: option.splits sum.splits if_splits)
  note en = entry_of_file [OF select_replay_entry_Inr(1) [OF sel] assms(2)] select_replay_entry_Inr(2) [OF sel]
  show ?thesis
  proof (cases "is_replay_reserved e")
    case True
    then have "reuse_reservation env mf e item d = (Inr acc, d')"
      using assms(1) mf sel by (simp add: replay_item_def get_meme_file_def split: if_splits)
    from reuses_intro [OF this True _ mf] en show ?thesis by auto
  next
    case False
    obtain event where ev: "replay_event env 0 mf e = Inr event"
      and run: "commit_replay env ''Failed to persist replay reservation state.'' mf event d
        (attach_recovery_item env item (ev_id event) (Some (ev_attempt event))
          (put_journal env (reserve_replay event e) d)) = (Inr acc, d')"
      using assms(1) mf sel False
      by (auto simp: replay_item_def get_meme_file_def split: if_splits sum.splits)
    have "reserves env 0 f acc d d'"
      by (rule reserves_intro [OF mf _ False ev _ run])
        (simp_all add: en frame_simps reserve_journal)
    moreover have "pa_stage acc = sj_stage e"
      by (rule commit_replay_Inr [OF run]) (use replay_event_Inr [OF ev] in simp)
    ultimately show ?thesis using en by auto
  qed
qed
lemma pending_snapshot_frame [frame_simps]:
  "db_journal (pending_sync_snapshot env f t ev d) = db_journal d"
  "db_outbox (pending_sync_snapshot env f t ev d) = db_outbox d"
  "db_files (pending_sync_snapshot env f t ev d) = db_files d"
  "db_generations (pending_sync_snapshot env f t ev d) = db_generations d"
  "db_memes (pending_sync_snapshot env f t ev d) = db_memes d"
  by (simp_all add: pending_sync_snapshot_def)
    (simp add: upsert_sync_target_snapshot_def put_snapshot_def Let_def split: option.splits)

lemma replay_single_sync_Inr:
  assumes "replay_single_sync_target env n f t item d = (Inr acc, d')" "journal_keyed d"
  shows "(reserves env n f acc d d' \<or> reuses f acc d d') \<and> pa_stage acc = SYNC_STAGE_BY_TARGET t"
proof -
  obtain mf e where mf: "get_file d f = Some mf" and e: "get_journal d f (SYNC_STAGE_BY_TARGET t) = Some e"
    using assms(1)
    by (auto simp: replay_single_sync_target_def get_meme_file_def split: option.splits if_splits)
  have k: "sj_file e = f" "sj_stage e = SYNC_STAGE_BY_TARGET t"
    using assms(2) e by (auto simp: journal_keyed_def)
  show ?thesis
  proof (cases "is_replay_reserved e")
    case True
    then have "reuse_reservation env mf e item d = (Inr acc, d')"
      using assms(1) mf e by (simp add: replay_single_sync_target_def get_meme_file_def split: if_splits)
    from reuses_intro [OF this True _ mf] e k show ?thesis by simp
  next
    case False
    obtain event where ev: "replay_event env n mf e = Inr event"
      and run: "commit_replay env ''Failed to persist sync replay reservation state.'' mf event d
        (pending_sync_snapshot env f t (ev_id event)
          (attach_recovery_item env item (ev_id event) (Some (ev_attempt event))
            (put_journal env (reserve_replay event e) d))) = (Inr acc, d')"
      using assms(1) mf e False
      by (auto simp: replay_single_sync_target_def get_meme_file_def split: if_splits sum.splits)
    have "reserves env n f acc d d'"
      by (rule reserves_intro [OF mf _ False ev _ run])
        (simp_all add: k e frame_simps reserve_journal)
    moreover have "pa_stage acc = sj_stage e"
      by (rule commit_replay_Inr [OF run]) (use replay_event_Inr [OF ev] in simp)
    ultimately show ?thesis using k by auto
  qed
qed

lemma put_recovery_rest [frame_simps]:
  "db_journal (put_recovery i d) = db_journal d" "db_outbox (put_recovery i d) = db_outbox d"
  "db_memes (put_recovery i d) = db_memes d"
  by (simp_all add: put_recovery_def)

text \<open>The row an administrator's replay works on, created when the stage has none.\<close>

definition admin_entry :: "env \<Rightarrow> uuid \<Rightarrow> stage \<Rightarrow> db \<Rightarrow> stage_journal" where
  "admin_entry env f s d =
     (case get_journal d f s of Some e \<Rightarrow> e | None \<Rightarrow> unmaterialized_entry env f s)"

lemma admin_entry_key: "journal_keyed d \<Longrightarrow> sj_file (admin_entry env f s d) = f \<and> sj_stage (admin_entry env f s d) = s"
  by (auto simp: admin_entry_def journal_keyed_def unmaterialized_entry_def split: option.splits)

lemma admin_entry_row:
  "get_journal d f s = Some (admin_entry env f s d) \<or>
   get_journal d f s = None \<and> sj_attempt_count (admin_entry env f s d) = 0"
  by (simp add: admin_entry_def unmaterialized_entry_def split: option.splits)

lemma admin_reserved_row: "is_replay_reserved (admin_entry env f s d) \<Longrightarrow> get_journal d f s = Some (admin_entry env f s d)"
  by (auto simp: admin_entry_def unmaterialized_entry_def is_replay_reserved_def split: option.splits)

text \<open>The item it attaches and the rows it stores, and the branches of the replay over them.\<close>

definition admin_item :: "env \<Rightarrow> uuid \<Rightarrow> stage \<Rightarrow> recovery_item \<Rightarrow> db \<Rightarrow> recovery_item" where
  "admin_item env f s item0 d =
     (case get_journal d f s of Some _ \<Rightarrow> item0 | None \<Rightarrow> claim_work_id f (env_fresh env 10) item0)"

definition admin_stored :: "env \<Rightarrow> uuid \<Rightarrow> stage \<Rightarrow> recovery_item \<Rightarrow> db \<Rightarrow> dispatch_event \<Rightarrow> db" where
  "admin_stored env f s item0 d event =
     (let e = admin_entry env f s d;
          item1 = (attached_item env (ev_id event) (Some (ev_attempt event))
                     ((admin_item env f s item0 d)\<lparr>ri_previous_stage_state := stage_snapshot_json e\<rparr>))
                    \<lparr>ri_canonical_version := Some (RowVersion (Some (env_now env)) (Some (ev_id event)))\<rparr>;
          d1 = put_recovery item1 (put_journal env (reserve_replay event e) d)
      in if s \<in> {SYNC_QDRANT, SYNC_MEILI}
         then pending_sync_snapshot env f (if s = SYNC_QDRANT then QDRANT else MEILISEARCH) (ev_id event) d1
         else d1)"

lemma replay_admin_unfold:
  fixes env :: env and f :: uuid and s :: stage and item0 :: recovery_item and d :: db
  defines "e \<equiv> admin_entry env f s d" and "item \<equiv> admin_item env f s item0 d"
  shows "replay_admin_stage env f s item0 d =
     (if s = INGEST then (Inl (PipelineReplayNotAllowedError IngestNotReplayable), d)
      else
     (case get_meme_file d f of
        Inl err \<Rightarrow> (Inl err, d)
      | Inr mf \<Rightarrow>
          if mf_s3_original_key mf = [] then (Inl (PipelineReplayNotAllowedError MissingOriginalKey), d)
          else if is_replay_reserved e then reuse_reservation env mf e (Some item) d
          else if sj_status e \<in> {STAGE_PENDING, STAGE_PROCESSING, STAGE_DUPLICATE}
          then (Inl (PipelineReplayNotAllowedError (StageNotReplayable (sj_status e))), d)
          else if sj_status e = STAGE_FAILED \<and> \<not> sj_is_retryable e \<and> \<not> ri_terminal_override item
          then (Inl (PipelineReplayNotAllowedError TerminalNeedsAcknowledgement), d)
          else (case replay_event env 0 mf e of
                  Inl err \<Rightarrow> (Inl err, d)
                | Inr event \<Rightarrow>
                    commit_replay env ''Failed to persist admin replay reservation state.'' mf event d
                      (admin_stored env f s item0 d event))))"
proof -
  have pair: "(case get_journal d f s of Some x \<Rightarrow> (x, item0)
      | None \<Rightarrow> (unmaterialized_entry env f s, claim_work_id f (env_fresh env 10) item0)) = (e, item)"
    by (simp add: e_def item_def admin_entry_def admin_item_def split: option.splits)
  show ?thesis
    unfolding replay_admin_stage_def pair Let_def prod.case admin_stored_def e_def [symmetric] item_def [symmetric] by (rule refl)
qed

lemma admin_stored_frame:
  "db_journal (admin_stored env f s i d event) = db_journal (put_journal env (reserve_replay event (admin_entry env f s d)) d)"
  "db_outbox (admin_stored env f s i d event) = db_outbox d" "db_files (admin_stored env f s i d event) = db_files d"
  "db_memes (admin_stored env f s i d event) = db_memes d" "db_generations (admin_stored env f s i d event) = db_generations d"
  by (simp_all add: admin_stored_def Let_def frame_simps)

text \<open>The branches of an administrator's replay, in the order the code takes them.\<close>

lemma replay_admin_cases:
  fixes item0
  assumes "replay_admin_stage env f s item0 d = (r, d')"
  defines "e \<equiv> admin_entry env f s d"
  shows "(\<exists>err. r = Inl err \<and> d' = d) \<or>
    (\<exists>mf acc. r = Inr acc \<and> get_file d f = Some mf \<and> s \<noteq> INGEST \<and>
      (is_replay_reserved e \<and> (\<exists>item. reuse_reservation env mf e (Some item) d = (Inr acc, d')) \<or>
       \<not> is_replay_reserved e \<and> sj_status e \<notin> {STAGE_PENDING, STAGE_PROCESSING, STAGE_DUPLICATE} \<and>
       (sj_status e = STAGE_FAILED \<and> \<not> sj_is_retryable e \<longrightarrow> ri_terminal_override item0) \<and>
       (\<exists>event d2. replay_event env 0 mf e = Inr event \<and>
          commit_replay env ''Failed to persist admin replay reservation state.'' mf event d d2 = (Inr acc, d') \<and>
          db_journal d2 = db_journal (put_journal env (reserve_replay event e) d) \<and>
          db_outbox d2 = db_outbox d \<and> db_files d2 = db_files d \<and> db_memes d2 = db_memes d \<and>
          db_generations d2 = db_generations d)))"
proof -
  define item where "item = admin_item env f s item0 d"
  note run = replay_admin_unfold [of env f s item0 d, folded e_def item_def]
  note frame = admin_stored_frame [of env f s item0 d, folded e_def]
  have override: "ri_terminal_override item = ri_terminal_override item0"
    by (simp add: item_def admin_item_def claim_work_id_def split: option.splits work_id.splits)
  show ?thesis
  proof (cases r)
    case (Inl err)
    then have "d' = d"
      using assms(1) unfolding run
      by (auto split: if_splits sum.splits dest: reuse_reservation_Inl commit_replay_Inl)
    with Inl show ?thesis by simp
  next
    case (Inr acc)
    obtain mf where mf: "get_file d f = Some mf" and s: "s \<noteq> INGEST"
      using assms(1) Inr unfolding run by (auto simp: get_meme_file_def split: if_splits option.splits)
    show ?thesis
    proof (cases "is_replay_reserved e")
      case True
      then have "reuse_reservation env mf e (Some item) d = (Inr acc, d')"
        using assms(1) Inr mf s unfolding run by (simp add: get_meme_file_def split: if_splits)
      with True mf s Inr show ?thesis by auto
    next
      case False
      obtain event where "replay_event env 0 mf e = Inr event"
        "commit_replay env ''Failed to persist admin replay reservation state.'' mf event d (admin_stored env f s item0 d event) = (Inr acc, d')"
        "sj_status e \<notin> {STAGE_PENDING, STAGE_PROCESSING, STAGE_DUPLICATE}"
        "sj_status e = STAGE_FAILED \<and> \<not> sj_is_retryable e \<longrightarrow> ri_terminal_override item0"
        using assms(1) Inr mf s False unfolding run
        by (auto simp: get_meme_file_def override split: if_splits sum.splits)
      with False mf s Inr frame show ?thesis by blast
    qed
  qed
qed
lemma replay_admin_Inr:
  assumes "replay_admin_stage env f s item d = (Inr acc, d')" "journal_keyed d"
  shows "(reserves env 0 f acc d d' \<or> reuses f acc d d') \<and> pa_stage acc = s"
proof -
  define e where "e = admin_entry env f s d"
  have k: "sj_file e = f" "sj_stage e = s" using admin_entry_key [OF assms(2)] by (simp_all add: e_def)
  have row: "get_journal d f (sj_stage e) = Some e \<or> get_journal d f (sj_stage e) = None \<and> sj_attempt_count e = 0"
    using admin_entry_row [of d f s env] by (simp add: e_def [symmetric] k)
  obtain mf where mf: "get_file d f = Some mf" and c:
    "is_replay_reserved e \<and> (\<exists>item. reuse_reservation env mf e (Some item) d = (Inr acc, d')) \<or>
     \<not> is_replay_reserved e \<and>
       (\<exists>event d2. replay_event env 0 mf e = Inr event \<and>
          commit_replay env ''Failed to persist admin replay reservation state.'' mf event d d2 = (Inr acc, d') \<and>
          db_journal d2 = db_journal (put_journal env (reserve_replay event e) d) \<and>
          db_outbox d2 = db_outbox d \<and> db_files d2 = db_files d \<and> db_memes d2 = db_memes d \<and>
          db_generations d2 = db_generations d)"
    using replay_admin_cases [OF assms(1)] by (auto simp: e_def)
  from c show ?thesis
  proof (elim disjE conjE exE)
    fix item assume r: "is_replay_reserved e" "reuse_reservation env mf e (Some item) d = (Inr acc, d')"
    have "get_journal d f (sj_stage e) = Some e"
      using admin_reserved_row [of env f s d] r(1) by (simp add: k e_def [symmetric])
    from reuses_intro [OF r(2,1) this mf] k show ?thesis by simp
  next
    fix event d2
    assume r: "\<not> is_replay_reserved e" "replay_event env 0 mf e = Inr event"
      and run: "commit_replay env ''Failed to persist admin replay reservation state.'' mf event d d2 = (Inr acc, d')"
      and d2: "db_journal d2 = db_journal (put_journal env (reserve_replay event e) d)"
        "db_outbox d2 = db_outbox d" "db_files d2 = db_files d" "db_memes d2 = db_memes d"
        "db_generations d2 = db_generations d"
    have "reserves env 0 f acc d d'"
      by (rule reserves_intro [OF mf k(1) r row run]) (simp_all add: d2 reserve_journal k)
    moreover have "pa_stage acc = sj_stage e"
      by (rule commit_replay_Inr [OF run]) (use replay_event_Inr [OF r(2)] in simp)
    ultimately show ?thesis using k by simp
  qed
qed

lemma run_replay_Inr:
  assumes "run_replay env q f d = (Inr acc, d')" "journal_keyed d"
  shows "reserves env 0 f acc d d' \<or> reuses f acc d d'"
    and "requested_stage q = Some s \<Longrightarrow> pa_stage acc = s"
  using assms replay_item_Inr [OF _ assms(2)] replay_admin_Inr [OF _ assms(2)]
    replay_single_sync_Inr [OF _ assms(2)]
  by (cases q; fastforce simp: replay_sync_target_def split: sum.splits)+

lemma run_replay_Inl: "run_replay env q f d = (Inl err, d') \<Longrightarrow> d' = d"
  using replay_admin_cases
  by (cases q)
    (fastforce simp: replay_item_def replay_sync_target_def replay_single_sync_target_def
      split: sum.splits option.splits if_splits dest: reuse_reservation_Inl commit_replay_Inl)+

text \<open>The attempts the journal counts; none without a row.\<close>

definition attempts_so_far :: "db \<Rightarrow> uuid \<Rightarrow> stage \<Rightarrow> int" where
  "attempts_so_far d f s = (case get_journal d f s of None \<Rightarrow> 0 | Some e \<Rightarrow> sj_attempt_count e)"

text \<open>The row waits for the replay, and the outbox holds the message that starts it.\<close>

definition replay_waits :: "uuid \<Rightarrow> replay_accepted \<Rightarrow> db \<Rightarrow> bool" where
  "replay_waits f acc d \<longleftrightarrow>
     (\<exists>r. get_journal d f (pa_stage acc) = Some r \<and> is_replay_reserved r \<and> sj_status r = STAGE_PENDING \<and>
        sj_last_event_id r = Some (pa_event acc) \<and> sj_attempt_count r = pa_attempt acc)"

definition replay_dispatched :: "uuid \<Rightarrow> replay_accepted \<Rightarrow> db \<Rightarrow> bool" where
  "replay_dispatched f acc d \<longleftrightarrow>
     (\<exists>sp e. message_contents d (pa_event acc) = Some sp \<and> sp_payload sp = DispatchPayload e \<and>
        ev_id e = pa_event acc \<and> ev_type e = STAGE_REPLAY_REQUESTED \<and> ev_file e = f \<and>
        ev_stage e = pa_stage acc \<and> ev_attempt e = pa_attempt acc)"

lemma reserves_effect:
  assumes "reserves env n f acc d d'"
  shows "pa_file acc = f" "pa_event acc = env_fresh env n"
    "pa_attempt acc = max (attempts_so_far d f (pa_stage acc) + 1) 1"
    "replay_waits f acc d'"
    "k \<noteq> (f, pa_stage acc) \<Longrightarrow> db_journal d' k = db_journal d k"
    "db_files d' = db_files d" "db_memes d' = db_memes d" "db_generations d' = db_generations d"
    "outbox_ready [env_fresh env n] d \<Longrightarrow> replay_dispatched f acc d'"
    "journal_keyed d \<Longrightarrow> journal_keyed d'"
proof -
  obtain mf e event m d1 where mf: "get_file d f = Some mf"
    and row: "get_journal d f (pa_stage acc) = Some e \<or>
         get_journal d f (pa_stage acc) = None \<and> sj_attempt_count e = 0"
    and st: "sj_stage e = pa_stage acc" "sj_file e = f" and ev: "replay_event env n mf e = Inr event" and m: "carries m event"
    and acc: "acc = \<lparr>pa_file = f, pa_event = ev_id event, pa_stage = ev_stage event, pa_attempt = ev_attempt event\<rparr>"
    and j: "db_journal d1 = (db_journal d)((f, pa_stage acc) \<mapsto> reserved_row env event e)"
    and t: "db_outbox d1 = db_outbox d @ [m]" "db_files d1 = db_files d" "db_memes d1 = db_memes d"
      "db_generations d1 = db_generations d"
    and d': "d' = snd (relay_best_effort env [ev_id event] d1)"
    using assms unfolding reserves_def by blast
  note evs = replay_event_Inr [OF ev]
  note rel = outbox_only_tables [OF relay_best_effort_only, of env "[ev_id event]" d1, folded d']
  show "pa_file acc = f" "pa_event acc = env_fresh env n" by (simp_all add: acc evs)
  have "pa_attempt acc = ev_attempt event" by (simp add: acc)
  then show att: "pa_attempt acc = max (attempts_so_far d f (pa_stage acc) + 1) 1"
    using row evs by (auto simp: attempts_so_far_def)
  show "replay_waits f acc d'"
    using rel(1) unfolding replay_waits_def
    by (simp add: get_journal_def j reserved_row_def reserve_replay_def is_replay_reserved_def)
      (simp add: acc)
  show "k \<noteq> (f, pa_stage acc) \<Longrightarrow> db_journal d' k = db_journal d k" by (simp add: rel(1) j)
  show "db_files d' = db_files d" "db_memes d' = db_memes d" "db_generations d' = db_generations d"
    by (simp_all add: rel t)
  show "replay_dispatched f acc d'" if ready: "outbox_ready [env_fresh env n] d"
  proof -
    define d0 where "d0 = d1\<lparr>db_outbox := db_outbox d\<rparr>"
    have d1: "d1 = d0\<lparr>db_outbox := db_outbox d0 @ [m]\<rparr>" by (simp add: d0_def t(1) [symmetric])
    have "outbox_ready (map ev_id [event]) d0"
      using ready by (simp add: d0_def outbox_ready_def outbox_wf_def evs)
    then have "\<exists>sp. message_contents d' (ev_id event) = Some sp \<and> sp_payload sp = DispatchPayload event"
      unfolding d' by (rule relayed_message [of "[m]" "[event]", OF _ _ _ d1, rotated 2]) (simp_all add: m)
    then show ?thesis unfolding replay_dispatched_def using evs st by (auto simp: acc get_file_id [OF mf])
  qed
  show "journal_keyed d'" if k: "journal_keyed d"
    using k unfolding journal_keyed_def
    by (simp add: get_journal_def rel(1) j reserved_row_def reserve_replay_def st)
qed
section \<open>Properties\<close>

lemma start_reserved:
  assumes "replay_waits f acc d" "get_file d f = Some mf" "env_commit_ok env"
  shows "\<exists>ctx. fst (start_stage_processing env f (pa_stage acc) (pa_attempt acc) (pa_event acc) d) = Inr (Some ctx)"
  using assms
  by (auto simp: replay_waits_def start_stage_processing_def get_meme_file_def Let_def commit_stage_mutation_def
      ensure_stage_attempt_is_current_def)

lemma reserves_file: "reserves env n f acc d d' \<Longrightarrow> \<exists>mf. get_file d f = Some mf"
  unfolding reserves_def by blast

text \<open>
  C9. An accepted replay that finds no reservation makes one: in one transaction the stage's row waits
  under a new event with the next attempt number and the outbox holds the message that carries it, no
  other row of the journal and no file changes, and a worker that takes the message up starts the stage.
\<close>

theorem replay_reserves_and_dispatches:
  assumes "run_replay env q f d = (Inr acc, d')" "journal_keyed d" "outbox_ready [env_fresh env 0] d"
    and "\<forall>e. get_journal d f (pa_stage acc) = Some e \<longrightarrow> \<not> is_replay_reserved e"
    and "env_commit_ok env'"
  shows "pa_event acc = env_fresh env 0 \<and>
    pa_attempt acc = max (attempts_so_far d f (pa_stage acc) + 1) 1 \<and>
    replay_waits f acc d' \<and> replay_dispatched f acc d' \<and>
    (\<forall>k. k \<noteq> (f, pa_stage acc) \<longrightarrow> db_journal d' k = db_journal d k) \<and> db_files d' = db_files d \<and>
    (\<exists>ctx. fst (start_stage_processing env' f (pa_stage acc) (pa_attempt acc) (pa_event acc) d') = Inr (Some ctx))"
proof -
  have r: "reserves env 0 f acc d d'"
    using run_replay_Inr(1) [OF assms(1,2)] assms(4) by (auto simp: reuses_def)
  note eff = reserves_effect [OF r]
  obtain mf where "get_file d f = Some mf" using reserves_file [OF r] by blast
  then have "get_file d' f = Some mf" using eff(6) by (simp add: get_file_def)
  with start_reserved [OF eff(4) _ assms(5)] eff(2-6,9) assms(3) show ?thesis by blast
qed

lemma run_replay_file:
  "run_replay env q f d = (Inr acc, d') \<Longrightarrow> \<exists>mf. get_file d f = Some mf \<and> mf_s3_original_key mf \<noteq> []"
  by (cases q)
    (auto simp: replay_item_def replay_admin_stage_def replay_sync_target_def replay_single_sync_target_def
      get_meme_file_def split: option.splits sum.splits if_splits)

lemma replay_leaves_reservation:
  assumes "run_replay env q f d = (Inr acc, d')" "journal_keyed d"
  obtains mf r where "get_file d' f = Some mf" "mf_s3_original_key mf \<noteq> []" "journal_keyed d'"
    "get_journal d' f (pa_stage acc) = Some r" "is_replay_reserved r" "sj_last_event_id r = Some (pa_event acc)"
    "acc = \<lparr>pa_file = f, pa_event = pa_event acc, pa_stage = sj_stage r, pa_attempt = max (sj_attempt_count r) 1\<rparr>"
proof -
  obtain mf where mf: "get_file d f = Some mf" "mf_s3_original_key mf \<noteq> []"
    using run_replay_file [OF assms(1)] by blast
  have *: "\<exists>r. get_file d' f = Some mf \<and> journal_keyed d' \<and> get_journal d' f (pa_stage acc) = Some r \<and>
      is_replay_reserved r \<and> sj_last_event_id r = Some (pa_event acc) \<and>
      pa_file acc = f \<and> pa_attempt acc = max (sj_attempt_count r) 1"
    using run_replay_Inr(1) [OF assms]
  proof
    assume r: "reserves env 0 f acc d d'"
    show ?thesis
      using reserves_effect(1,3,4,6,10) [OF r] mf(1) assms(2) by (auto simp: replay_waits_def get_file_def)
  next
    assume u: "reuses f acc d d'"
    then have d': "d' = d\<lparr>db_recovery := db_recovery d'\<rparr>" by (simp add: reuses_def)
    have same: "get_journal d' = get_journal d" "get_file d' f = get_file d f"
      by (subst d', simp add: get_journal_def get_file_def fun_eq_iff)+
    then show ?thesis using u mf(1) assms(2) by (auto simp: reuses_def journal_keyed_def)
  qed
  then obtain r where r: "get_file d' f = Some mf" "journal_keyed d'" "get_journal d' f (pa_stage acc) = Some r"
      "is_replay_reserved r" "sj_last_event_id r = Some (pa_event acc)"
      "pa_file acc = f" "pa_attempt acc = max (sj_attempt_count r) 1" by blast
  then have "sj_stage r = pa_stage acc" by (auto simp: journal_keyed_def)
  with r that mf(2) show thesis by simp
qed

lemma reuse_accepts:
  assumes "env_commit_ok env" "sj_last_event_id e = Some ev"
  shows "fst (reuse_reservation env mf e item d) =
      Inr \<lparr>pa_file = mf_id mf, pa_event = ev, pa_stage = sj_stage e, pa_attempt = max (sj_attempt_count e) 1\<rparr> \<and>
    db_journal (snd (reuse_reservation env mf e item d)) = db_journal d \<and>
    db_outbox (snd (reuse_reservation env mf e item d)) = db_outbox d"
  using assms
  by (auto simp: reuse_reservation_def Let_def commit_recovery_attachment_def frame_simps split: option.splits)

lemma find_entry:
  assumes "journal_keyed d" "get_journal d f s = Some e"
  shows "find (\<lambda>x. sj_stage x = s) (sorted_stage_entries (journal_entries d f)) = Some e"
proof -
  have mem: "e \<in> set (sorted_stage_entries (journal_entries d f))"
    using assms(2) by (auto simp: sorted_stage_entries_def journal_entries_def List.map_filter_def image_iff)
  have "sj_stage e = s" using assms by (auto simp: journal_keyed_def)
  then obtain x where "find (\<lambda>x. sj_stage x = s) (sorted_stage_entries (journal_entries d f)) = Some x"
    using mem by (metis (mono_tags, lifting) find_None_iff not_Some_eq)
  with find_SomeD [OF this] entry_of_file [OF _ assms(1)] assms(2) show ?thesis by auto
qed

text \<open>
  C21. Replays are idempotent until a worker takes the delivery up: whoever asks for a stage again gets the
  same event and attempt, and neither the journal nor the outbox changes, so one delivery is dispatched.
\<close>

theorem replay_twice_dispatches_once:
  assumes "run_replay env q f d = (Inr acc, d')" "journal_keyed d"
    and "requested_stage q' = Some (pa_stage acc)" "pa_stage acc \<noteq> INGEST" "env_commit_ok env'"
    and "\<forall>t i. q' = ReplaySync t i \<longrightarrow> map_option sj_status (get_journal d' f CLASSIFY) = Some STAGE_SUCCEEDED"
  shows "fst (run_replay env' q' f d') = Inr acc \<and>
    db_journal (snd (run_replay env' q' f d')) = db_journal d' \<and>
    db_outbox (snd (run_replay env' q' f d')) = db_outbox d'"
proof -
  obtain mf r where mf: "get_file d' f = Some mf" "mf_s3_original_key mf \<noteq> []" and k: "journal_keyed d'"
    and r: "get_journal d' f (pa_stage acc) = Some r" "is_replay_reserved r" "sj_last_event_id r = Some (pa_event acc)"
    and acc: "acc = \<lparr>pa_file = f, pa_event = pa_event acc, pa_stage = sj_stage r, pa_attempt = max (sj_attempt_count r) 1\<rparr>"
    by (rule replay_leaves_reservation [OF assms(1,2)])
  have id: "mf_id mf = f" by (rule get_file_id [OF mf(1)])
  have "\<exists>item. run_replay env' q' f d' = reuse_reservation env' mf r item d'"
  proof (cases q')
    case (ReplayItem requested item)
    with assms(3) have "select_replay_entry (sorted_stage_entries (journal_entries d' f)) requested = Inr r"
      using find_entry [OF k r(1)] r(2) by (simp add: select_replay_entry_def)
    with ReplayItem mf r(2) show ?thesis by (auto simp: replay_item_def get_meme_file_def)
  next
    case (ReplayAdmin s item)
    with assms(3,4) mf r show ?thesis by (auto simp: replay_admin_stage_def get_meme_file_def)
  next
    case (ReplaySync t item)
    with assms(3,6) mf r id show ?thesis
      by (auto simp: replay_sync_target_def replay_single_sync_target_def get_meme_file_def
          ensure_sync_replay_allowed_def split: option.splits)
  qed
  then obtain item where "run_replay env' q' f d' = reuse_reservation env' mf r item d'" by blast
  with reuse_accepts [OF assms(5) r(3), of mf item d'] acc id show ?thesis by simp
qed

text \<open>
  A replay fences the deliveries before it: after an accepted replay and any further deliveries but a failed
  derivative regeneration of that row, a
  delivery with an earlier attempt number changes nothing, and its completion or failure is refused.
\<close>

theorem replay_fences_earlier_attempts:
  assumes "run_replay env q f d = (Inr acc, d')" "journal_keyed d" "(row_step f (pa_stage acc))\<^sup>*\<^sup>* d' d''"
    and "1 \<le> n" "n < pa_attempt acc" "action_stage a s = pa_stage acc" "get_file d'' f = Some mf"
  shows "snd (run_action env' a f s n ev d'') = d'' \<and>
    (completes a \<or> fails a \<longrightarrow>
       fst (run_action env' a f s n ev d'') = Inl (PipelineIngestError StaleTransition))"
proof -
  obtain r where k: "journal_keyed d'" and r: "get_journal d' f (pa_stage acc) = Some r"
    and acc: "acc = \<lparr>pa_file = f, pa_event = pa_event acc, pa_stage = sj_stage r, pa_attempt = max (sj_attempt_count r) 1\<rparr>"
    by (rule replay_leaves_reservation [OF assms(1,2)])
  have "pa_attempt acc = max (sj_attempt_count r) 1" using acc by (metis replay_accepted.select_convs(4))
  with assms(4,5) have "n < sj_attempt_count r" by simp
  with row_run_attempts [OF assms(3) k r] obtain e where
    "get_journal d'' f (pa_stage acc) = Some e" "n < sj_attempt_count e" by blast
  then show ?thesis using older_attempt_inert [of d'' f a s e n mf env' ev] assms(6,7) by simp
qed

lemma select_replay_entry_retryable:
  "select_replay_entry es requested = Inr e \<Longrightarrow>
     is_replay_reserved e \<or> sj_status e = STAGE_FAILED \<and> sj_is_retryable e"
proof -
  have "latest_replayable es = Some e \<Longrightarrow> is_replay_reserved e \<or> sj_status e = STAGE_FAILED \<and> sj_is_retryable e"
    for es by (induction es) (auto split: if_splits)
  then show "select_replay_entry es requested = Inr e \<Longrightarrow> ?thesis"
    by (auto simp: select_replay_entry_def split: option.splits if_splits)
qed

lemma replay_item_not_terminal:
  assumes "replay_item env f requested item d = (Inr acc, d')" "journal_keyed d"
    "get_journal d f (pa_stage acc) = Some e"
  shows "sj_status e = STAGE_FAILED \<longrightarrow> sj_is_retryable e"
proof -
  obtain mf x where mf: "get_file d f = Some mf"
    and sel: "select_replay_entry (sorted_stage_entries (journal_entries d f)) requested = Inr x"
    using assms(1) by (auto simp: replay_item_def get_meme_file_def split: option.splits sum.splits if_splits)
  have "pa_stage acc = sj_stage x"
    using assms(1) mf sel
    by (auto simp: replay_item_def get_meme_file_def split: if_splits sum.splits
        dest!: reuse_reservation_Inr elim!: commit_replay_Inr dest: replay_event_Inr)
  with entry_of_file [OF select_replay_entry_Inr(1) [OF sel] assms(2)] assms(3) have "x = e" by simp
  with select_replay_entry_retryable [OF sel] show ?thesis by (auto simp: is_replay_reserved_def)
qed

text \<open>
  A refused or failed replay request leaves the database as it was, and a stage that failed
  terminally is replayed only by an administrator's acknowledged request or a request for its sync target.
\<close>

theorem refused_replay_changes_nothing:
  assumes "run_replay env q f d = (r, d')" "journal_keyed d"
  shows "(\<forall>err. r = Inl err \<longrightarrow> d' = d) \<and>
    (\<forall>acc e. r = Inr acc \<and> get_journal d f (pa_stage acc) = Some e \<and> sj_status e = STAGE_FAILED \<and>
       \<not> sj_is_retryable e \<longrightarrow>
       (\<exists>item. q = ReplayAdmin (pa_stage acc) item \<and> ri_terminal_override item) \<or>
       (\<exists>t item. q = ReplaySync t item \<and> SYNC_STAGE_BY_TARGET t = pa_stage acc))"
proof (intro conjI allI impI)
  show "d' = d" if "r = Inl err" for err using assms(1) that run_replay_Inl by simp
next
  fix acc e
  assume *: "r = Inr acc \<and> get_journal d f (pa_stage acc) = Some e \<and> sj_status e = STAGE_FAILED \<and>
      \<not> sj_is_retryable e"
  then have run: "run_replay env q f d = (Inr acc, d')" using assms(1) by simp
  show "(\<exists>item. q = ReplayAdmin (pa_stage acc) item \<and> ri_terminal_override item) \<or>
       (\<exists>t item. q = ReplaySync t item \<and> SYNC_STAGE_BY_TARGET t = pa_stage acc)"
  proof (cases q)
    case (ReplayItem requested item)
    with replay_item_not_terminal [OF _ assms(2)] run * show ?thesis by fastforce
  next
    case (ReplayAdmin s item)
    then have s: "pa_stage acc = s" using run_replay_Inr(2) [OF run assms(2)] by simp
    then have e: "admin_entry env f s d = e" using * by (simp add: admin_entry_def)
    have "ri_terminal_override item"
      using replay_admin_cases [of env f s item d "Inr acc" d'] run ReplayAdmin *
      by (auto simp: e is_replay_reserved_def)
    with ReplayAdmin s show ?thesis by simp
  next
    case (ReplaySync t item)
    with run_replay_Inr(2) [OF run assms(2)] show ?thesis by simp
  qed
qed
section \<open>Instances\<close>

definition failed_ocr_db :: "bool \<Rightarrow> db" where
  "failed_ocr_db retryable =
     (sample_stage_db OCR)\<lparr>db_journal := (\<lambda>k. if k = (1, OCR)
        then Some ((sample_journal OCR)\<lparr>sj_status := STAGE_FAILED, sj_attempt_count := 2,
                                      sj_is_retryable := retryable\<rparr>) else None)\<rparr>"

lemma failed_ocr_keyed: "journal_keyed (failed_ocr_db b)"
  by (auto simp: journal_keyed_def failed_ocr_db_def get_journal_def sample_journal_def split: if_splits)

lemma failed_ocr_ready: "outbox_ready [env_fresh sample_env 0] (failed_ocr_db b)"
  by (simp add: outbox_ready_def outbox_wf_def failed_ocr_db_def sample_stage_db_def empty_db_def)

definition ocr_replay :: "replay_accepted outcome" where
  "ocr_replay = run_replay sample_env (ReplayItem (Some OCR) None) 1 (failed_ocr_db True)"

definition ocr_accepted :: replay_accepted where
  "ocr_accepted = \<lparr>pa_file = 1, pa_event = 900, pa_stage = OCR, pa_attempt = 3\<rparr>"

lemma ocr_replayed:
  "run_replay sample_env (ReplayItem (Some OCR) None) 1 (failed_ocr_db True) = (Inr ocr_accepted, snd ocr_replay)"
proof -
  have "fst ocr_replay = Inr ocr_accepted" by code_simp
  then show ?thesis by (simp only: ocr_replay_def [symmetric]) (metis prod.collapse)
qed

theorem replay_reserves_and_dispatches_witness:
  "replay_waits 1 ocr_accepted (snd ocr_replay) \<and> replay_dispatched 1 ocr_accepted (snd ocr_replay)"
  using replay_reserves_and_dispatches [OF ocr_replayed failed_ocr_keyed failed_ocr_ready, of sample_env]
  by (simp add: failed_ocr_db_def get_journal_def ocr_accepted_def is_replay_reserved_def sample_env_def)

theorem replay_twice_dispatches_once_witness:
  "fst (run_replay sample_env (ReplayAdmin OCR sample_item) 1 (snd ocr_replay)) = Inr ocr_accepted"
  using replay_twice_dispatches_once [OF ocr_replayed failed_ocr_keyed, of "ReplayAdmin OCR sample_item" sample_env]
  by (simp add: ocr_accepted_def sample_env_def)

theorem replay_fences_earlier_attempts_witness:
  "snd (run_action sample_env (Failed ''late'' ''late'' True) 1 OCR 2 60 (snd ocr_replay)) = snd ocr_replay"
proof -
  have "map_option mf_id (get_file (snd ocr_replay) 1) = Some 1" by code_simp
  then obtain mf where "get_file (snd ocr_replay) 1 = Some mf" by auto
  then show ?thesis
    using replay_fences_earlier_attempts [OF ocr_replayed failed_ocr_keyed rtranclp.rtrancl_refl,
        of 2 "Failed ''late'' ''late'' True" OCR mf sample_env 60]
    by (simp add: ocr_accepted_def del: run_action.simps)
qed

theorem refused_replay_changes_nothing_witness:
  "run_replay sample_env (ReplayAdmin OCR sample_item) 1 (failed_ocr_db False) =
     (Inl (PipelineReplayNotAllowedError TerminalNeedsAcknowledgement), failed_ocr_db False)"
proof -
  obtain r d' where run: "run_replay sample_env (ReplayAdmin OCR sample_item) 1 (failed_ocr_db False) = (r, d')"
    by (cases "run_replay sample_env (ReplayAdmin OCR sample_item) 1 (failed_ocr_db False)")
  have "fst (run_replay sample_env (ReplayAdmin OCR sample_item) 1 (failed_ocr_db False)) =
      Inl (PipelineReplayNotAllowedError TerminalNeedsAcknowledgement)" by code_simp
  with refused_replay_changes_nothing [OF run failed_ocr_keyed] run show ?thesis by simp
qed

end
