(* ===== verification/Reliability.thy ===== *)
theory Reliability
  imports Pipeline_State
begin

text \<open>
  The reliability primitives of \<open>services/pipeline_reliability.py\<close>: the admission state of every stage with
  its close/reopen hysteresis, the circuit breaker of every provider with its single half-open probe, and
  the ledger of dead letters with redaction of what it stores.

  The library functions \<open>hashlib.sha256\<close>, \<open>json.loads\<close>, \<open>json.dumps\<close> and the \<open>repr\<close> of values that are
  not text are the parameters \<open>codecs\<close>.
\<close>

section \<open>Rows\<close>

datatype capacity_status = CAPACITY_OPEN | CAPACITY_CLOSED

datatype circuit_status = CIRCUIT_CLOSED | CIRCUIT_OPEN | CIRCUIT_HALF_OPEN

datatype dead_letter_status = DL_UNRESOLVED | DL_RECOVERY_QUEUED | DL_RESOLVED | DL_ARCHIVED

record capacity_row =
  cp_status :: capacity_status
  cp_pending_count :: int
  cp_oldest_age :: rat
  cp_throughput :: rat
  cp_drain_eta :: "rat option"
  cp_reason :: "text_value option"
  cp_observed_at :: time

record circuit_row =
  ci_status :: circuit_status
  ci_error_fingerprint :: "text_value option"
  ci_consecutive_failures :: int
  ci_opened_at :: "time option"
  ci_retry_at :: "time option"
  ci_probe_owner :: "text_value option"
  ci_probe_generation :: int

text \<open>
  The Python values a broker delivery can carry. Bytes are the text their decoding with replacement gives;
  \<open>PyObject\<close> is any other object, by its \<open>str\<close>.
\<close>

datatype pyval =
    PyNone | PyBool bool | PyInt int | PyFloat rat | PyStr text_value | PyBytes text_value
  | PyDict "(text_value \<times> pyval) list" | PyList "pyval list" | PyObject text_value

record dead_letter =
  dl_id :: uuid
  dl_deduplication_key :: text_value
  dl_broker_message_id :: "text_value option"
  dl_payload_hash :: text_value
  dl_event_type :: "text_value option"
  dl_work :: "(recovery_work_kind \<times> uuid) option"
  dl_normalized_reason :: text_value
  dl_death_count :: int
  dl_safe_payload :: "(text_value \<times> pyval) list"
  dl_safe_headers :: "(text_value \<times> pyval) list"
  dl_status :: dead_letter_status
  dl_recovery_item :: "uuid option"
  dl_resolved_at :: "time option"
  dl_resolution_note :: "text_value option"
  dl_created_at :: time
  dl_updated_at :: time

section \<open>Stage capacity\<close>

record capacity_policy =
  pl_close_pending :: int
  pl_reopen_pending :: int
  pl_close_age :: rat
  pl_reopen_age :: rat

text \<open>\<open>__post_init__\<close>: a policy that passes its own validation.\<close>

definition policy_ok :: "capacity_policy \<Rightarrow> bool" where
  "policy_ok p \<longleftrightarrow>
     1 \<le> pl_close_pending p \<and> 0 \<le> pl_reopen_pending p \<and> pl_reopen_pending p < pl_close_pending p \<and>
     0 < pl_close_age p \<and> 0 \<le> pl_reopen_age p \<and> pl_reopen_age p < pl_close_age p"

text \<open>
  One stage of \<open>refresh_pipeline_capacity_states\<close>: \<open>pending\<close> and \<open>oldest\<close> are the count and the oldest
  update of its unfinished journal rows, \<open>succeeded\<close> the attempts that succeeded in the last 15 minutes.
\<close>

definition oldest_age_seconds :: "time \<Rightarrow> time option \<Rightarrow> rat" where
  "oldest_age_seconds now oldest =
     (case oldest of None \<Rightarrow> 0 | Some t \<Rightarrow> max (of_int (now - t) / 1000000) 0)"

definition next_capacity_status :: "capacity_policy \<Rightarrow> capacity_status \<Rightarrow> int \<Rightarrow> rat \<Rightarrow> capacity_status" where
  "next_capacity_status p previous pending age =
     (if previous = CAPACITY_OPEN \<and> (pending \<ge> pl_close_pending p \<or> age \<ge> pl_close_age p)
      then CAPACITY_CLOSED
      else if previous = CAPACITY_CLOSED \<and> pending \<le> pl_reopen_pending p \<and> age \<le> pl_reopen_age p
      then CAPACITY_OPEN
      else previous)"

definition observed_capacity ::
  "capacity_policy \<Rightarrow> time \<Rightarrow> int \<Rightarrow> time option \<Rightarrow> int \<Rightarrow> capacity_row option \<Rightarrow> capacity_row" where
  "observed_capacity p now pending oldest succeeded row =
     (let age = oldest_age_seconds now oldest;
          per_minute = of_int succeeded / 15;
          previous = (case row of None \<Rightarrow> CAPACITY_OPEN | Some r \<Rightarrow> cp_status r);
          status = next_capacity_status p previous pending age
      in \<lparr>cp_status = status, cp_pending_count = pending, cp_oldest_age = age,
          cp_throughput = per_minute,
          cp_drain_eta = (if pending \<noteq> 0 \<and> per_minute > 0
                          then Some (of_int pending / per_minute * 60) else None),
          cp_reason = (if status = CAPACITY_CLOSED
                       then Some (if pending \<ge> pl_close_pending p then ''pending_count_high''
                                  else ''oldest_pending_age_high'')
                       else None),
          cp_observed_at = now\<rparr>)"

record backlog =
  bl_pending :: int
  bl_oldest :: "time option"
  bl_succeeded :: int

definition refresh_pipeline_capacity_states ::
  "capacity_policy \<Rightarrow> time \<Rightarrow> (stage \<Rightarrow> backlog) \<Rightarrow> (stage \<Rightarrow> capacity_row option) \<Rightarrow>
     (nat \<times> stage list) \<times> (stage \<Rightarrow> capacity_row option)" where
  "refresh_pipeline_capacity_states p now bl rows =
     (let row = (\<lambda>s. observed_capacity p now (bl_pending (bl s)) (bl_oldest (bl s)) (bl_succeeded (bl s)) (rows s))
      in ((length all_stages, filter (\<lambda>s. cp_status (row s) = CAPACITY_CLOSED) all_stages),
          (\<lambda>s. Some (row s))))"

definition is_stage_admitted :: "(stage \<Rightarrow> capacity_row option) \<Rightarrow> stage \<Rightarrow> bool" where
  "is_stage_admitted rows s =
     (case rows s of None \<Rightarrow> True | Some r \<Rightarrow> cp_status r \<noteq> CAPACITY_CLOSED)"

definition is_historical_admission_open :: "(stage \<Rightarrow> capacity_row option) \<Rightarrow> bool" where
  "is_historical_admission_open rows =
     (filter (\<lambda>s. case rows s of None \<Rightarrow> False | Some r \<Rightarrow> cp_status r = CAPACITY_CLOSED)
        [TRANSCODE, OCR, EMBED, CLASSIFY] = [])"

section \<open>Dependency circuits\<close>

type_synonym circuits = "text_value \<Rightarrow> circuit_row option"

datatype circuit_error =
  CircuitOpenUntil time | ProbeInFlight | BadFailureThreshold | BadCooldown

fun DEPENDENCY_BY_STAGE :: "stage \<Rightarrow> text_value option" where
  "DEPENDENCY_BY_STAGE OCR = Some ''ocr''"
| "DEPENDENCY_BY_STAGE EMBED = Some ''voyage_qdrant''"
| "DEPENDENCY_BY_STAGE CLASSIFY = Some ''classification''"
| "DEPENDENCY_BY_STAGE SYNC_QDRANT = Some ''qdrant''"
| "DEPENDENCY_BY_STAGE SYNC_MEILI = Some ''meilisearch''"
| "DEPENDENCY_BY_STAGE _ = None"

definition acquire_dependency_circuit ::
  "time \<Rightarrow> text_value \<Rightarrow> text_value \<Rightarrow> circuits \<Rightarrow> (circuit_error + unit) \<times> circuits" where
  "acquire_dependency_circuit now dep owner c =
     (case c dep of
        None \<Rightarrow> (Inr (), c)
      | Some row \<Rightarrow>
          (case ci_status row of
             CIRCUIT_CLOSED \<Rightarrow> (Inr (), c)
           | CIRCUIT_OPEN \<Rightarrow>
               (case ci_retry_at row of
                  Some t \<Rightarrow>
                    if t > now then (Inl (CircuitOpenUntil t), c)
                    else (Inr (), c(dep \<mapsto> row\<lparr>ci_status := CIRCUIT_HALF_OPEN, ci_probe_owner := Some owner,
                                             ci_probe_generation := ci_probe_generation row + 1\<rparr>))
                | None \<Rightarrow>
                    (Inr (), c(dep \<mapsto> row\<lparr>ci_status := CIRCUIT_HALF_OPEN, ci_probe_owner := Some owner,
                                         ci_probe_generation := ci_probe_generation row + 1\<rparr>)))
           | CIRCUIT_HALF_OPEN \<Rightarrow>
               if ci_probe_owner row = Some owner then (Inr (), c) else (Inl ProbeInFlight, c)))"

definition record_dependency_success :: "text_value \<Rightarrow> circuits \<Rightarrow> circuits" where
  "record_dependency_success dep c =
     (case c dep of
        None \<Rightarrow> c
      | Some row \<Rightarrow>
          c(dep \<mapsto> row\<lparr>ci_status := CIRCUIT_CLOSED, ci_error_fingerprint := None,
                       ci_consecutive_failures := 0, ci_opened_at := None, ci_retry_at := None,
                       ci_probe_owner := None\<rparr>))"

definition fresh_circuit :: circuit_row where
  "fresh_circuit =
     \<lparr>ci_status = CIRCUIT_CLOSED, ci_error_fingerprint = None, ci_consecutive_failures = 0,
      ci_opened_at = None, ci_retry_at = None, ci_probe_owner = None, ci_probe_generation = 0\<rparr>"

text \<open>
  \<open>fingerprint\<close> is the hash of the error's type and text; the cooldown is in microseconds. The row is
  inserted when it is missing.
\<close>

definition record_dependency_failure ::
  "time \<Rightarrow> text_value \<Rightarrow> text_value \<Rightarrow> int \<Rightarrow> int \<Rightarrow> circuits \<Rightarrow> (circuit_error + unit) \<times> circuits" where
  "record_dependency_failure now dep fingerprint threshold cooldown c =
     (if threshold < 1 then (Inl BadFailureThreshold, c)
      else if cooldown \<le> 0 then (Inl BadCooldown, c)
      else
        (let row = (case c dep of None \<Rightarrow> fresh_circuit | Some r \<Rightarrow> r);
             row1 = (if ci_error_fingerprint row = Some fingerprint
                     then row\<lparr>ci_consecutive_failures := ci_consecutive_failures row + 1\<rparr>
                     else row\<lparr>ci_error_fingerprint := Some fingerprint, ci_consecutive_failures := 1\<rparr>);
             row2 = (if ci_status row1 = CIRCUIT_HALF_OPEN \<or> ci_consecutive_failures row1 \<ge> threshold
                     then row1\<lparr>ci_status := CIRCUIT_OPEN, ci_opened_at := Some now,
                               ci_retry_at := Some (now + cooldown), ci_probe_owner := None\<rparr>
                     else row1)
         in (Inr (), c(dep \<mapsto> row2))))"

section \<open>Dead letters\<close>

record codecs =
  cd_sha256 :: "text_value \<Rightarrow> text_value"
  cd_json_loads :: "text_value \<Rightarrow> pyval option"
  cd_json_dumps :: "(text_value \<times> pyval) list \<Rightarrow> text_value"
  cd_repr :: "pyval \<Rightarrow> text_value"

definition SAFE_TEXT_LIMIT :: nat where "SAFE_TEXT_LIMIT = 4000"
definition SAFE_COLLECTION_LIMIT :: nat where "SAFE_COLLECTION_LIMIT = 100"

definition SENSITIVE_KEY_PARTS :: "text_value list" where
  "SENSITIVE_KEY_PARTS =
     [''authorization'', ''cookie'', ''password'', ''secret'', ''session'', ''token'']"

text \<open>\<open>part in text\<close>.\<close>

fun occurs_in :: "text_value \<Rightarrow> text_value \<Rightarrow> bool" where
  "occurs_in p [] = (p = [])"
| "occurs_in p (c # cs) = (take (length p) (c # cs) = p \<or> occurs_in p cs)"

definition is_sensitive_key :: "text_value \<Rightarrow> bool" where
  "is_sensitive_key k = list_ex (\<lambda>p. occurs_in p (py_lower k)) SENSITIVE_KEY_PARTS"

text \<open>\<open>result[key] = value\<close> on a dict: a key that is there keeps its place.\<close>

fun dict_put :: "text_value \<Rightarrow> 'v \<Rightarrow> (text_value \<times> 'v) list \<Rightarrow> (text_value \<times> 'v) list" where
  "dict_put k v [] = [(k, v)]"
| "dict_put k v ((k', v') # d) = (if k' = k then (k, v) # d else (k', v') # dict_put k v d)"

text \<open>
  \<open>_safe_mapping\<close> and \<open>_safe_value\<close>: \<open>index\<close> counts the entries read; a nested mapping starts again at
  depth 0.
\<close>

fun safe_value :: "nat \<Rightarrow> pyval \<Rightarrow> pyval"
  and safe_entries :: "nat \<Rightarrow> (text_value \<times> pyval) list \<Rightarrow> (text_value \<times> pyval) list \<Rightarrow> (text_value \<times> pyval) list"
  and safe_items :: "nat \<Rightarrow> nat \<Rightarrow> pyval list \<Rightarrow> pyval list" where
  "safe_value depth v =
     (if depth \<ge> 4 then PyStr ''[truncated]''
      else
        (case v of
           PyNone \<Rightarrow> PyNone
         | PyBool b \<Rightarrow> PyBool b
         | PyInt n \<Rightarrow> PyInt n
         | PyFloat q \<Rightarrow> PyFloat q
         | PyStr t \<Rightarrow> PyStr (take SAFE_TEXT_LIMIT t)
         | PyBytes t \<Rightarrow> PyStr (take SAFE_TEXT_LIMIT t)
         | PyDict d \<Rightarrow> PyDict (safe_entries 0 d [])
         | PyList vs \<Rightarrow> PyList (safe_items SAFE_COLLECTION_LIMIT (depth + 1) vs)
         | PyObject t \<Rightarrow> PyStr (take SAFE_TEXT_LIMIT t)))"
| "safe_entries index [] result = result"
| "safe_entries index ((k, v) # d) result =
     (if index \<ge> SAFE_COLLECTION_LIMIT then dict_put ''_truncated'' (PyBool True) result
      else
        (let key = take 255 k
         in safe_entries (index + 1) d
              (dict_put key (if is_sensitive_key key then PyStr ''[redacted]'' else safe_value 0 v) result)))"
| "safe_items 0 depth vs = []"
| "safe_items (Suc n) depth [] = []"
| "safe_items (Suc n) depth (v # vs) = safe_value depth v # safe_items n depth vs"

definition safe_mapping :: "(text_value \<times> pyval) list \<Rightarrow> (text_value \<times> pyval) list" where
  "safe_mapping d = safe_entries 0 d []"

definition decode_payload :: "codecs \<Rightarrow> pyval \<Rightarrow> (text_value \<times> pyval) list" where
  "decode_payload cd payload =
     (let decode = (\<lambda>raw. case cd_json_loads cd raw of
                             None \<Rightarrow> [(''raw'', PyStr (take SAFE_TEXT_LIMIT raw))]
                           | Some (PyDict d) \<Rightarrow> d
                           | Some v \<Rightarrow> [(''raw'', v)])
      in case payload of
           PyDict d \<Rightarrow> d
         | PyStr raw \<Rightarrow> decode raw
         | PyBytes raw \<Rightarrow> decode raw
         | v \<Rightarrow> [(''raw'', v)])"

definition py_trunc :: "rat \<Rightarrow> int" where
  "py_trunc q = (if q < 0 then \<lceil>q\<rceil> else \<lfloor>q\<rfloor>)"

fun death_entry_count :: "pyval \<Rightarrow> int" where
  "death_entry_count (PyDict d) =
     (case map_of d ''count'' of
        Some (PyInt n) \<Rightarrow> n
      | Some (PyFloat q) \<Rightarrow> py_trunc q
      | Some (PyStr t) \<Rightarrow> (case py_int t of None \<Rightarrow> 0 | Some n \<Rightarrow> n)
      | _ \<Rightarrow> 0)"
| "death_entry_count _ = 0"

definition death_count :: "(text_value \<times> pyval) list option \<Rightarrow> int" where
  "death_count headers =
     (case headers of
        None \<Rightarrow> 1
      | Some hs \<Rightarrow>
          (case map_of hs ''x-death'' of
             Some (PyList entries) \<Rightarrow> max (fold max (map death_entry_count entries) 0 + 1) 1
           | _ \<Rightarrow> 1))"

fun nat_digits :: "nat \<Rightarrow> text_value" where
  "nat_digits n = (if n < 10 then [char_of (48 + n)] else nat_digits (n div 10) @ [char_of (48 + n mod 10)])"

declare nat_digits.simps [simp del]

definition int_text :: "int \<Rightarrow> text_value" where
  "int_text n = (if n < 0 then CHR ''-'' # nat_digits (nat (- n)) else nat_digits (nat n))"

fun py_str :: "codecs \<Rightarrow> pyval \<Rightarrow> text_value" where
  "py_str cd PyNone = ''None''"
| "py_str cd (PyBool b) = (if b then ''True'' else ''False'')"
| "py_str cd (PyInt n) = int_text n"
| "py_str cd (PyStr t) = t"
| "py_str cd (PyObject t) = t"
| "py_str cd v = cd_repr cd v"

definition optional_text :: "codecs \<Rightarrow> nat \<Rightarrow> pyval \<Rightarrow> text_value option" where
  "optional_text cd limit v =
     (if v = PyNone then None else opt_text (take limit (py_strip (py_str cd v))))"

definition parse_uuid :: "codecs \<Rightarrow> pyval \<Rightarrow> uuid option" where
  "parse_uuid cd v = uuid_read (py_str cd v)"

fun stage_of_text :: "text_value \<Rightarrow> stage option" where
  "stage_of_text t =
     (if t = ''ingest'' then Some INGEST else if t = ''transcode'' then Some TRANSCODE
      else if t = ''ocr'' then Some OCR else if t = ''embed'' then Some EMBED
      else if t = ''classify'' then Some CLASSIFY else if t = ''sync_qdrant'' then Some SYNC_QDRANT
      else if t = ''sync_meili'' then Some SYNC_MEILI else None)"

fun SYNC_TARGET_BY_STAGE :: "stage \<Rightarrow> sync_target option" where
  "SYNC_TARGET_BY_STAGE SYNC_QDRANT = Some QDRANT"
| "SYNC_TARGET_BY_STAGE SYNC_MEILI = Some MEILISEARCH"
| "SYNC_TARGET_BY_STAGE _ = None"

definition dict_get :: "(text_value \<times> pyval) list \<Rightarrow> text_value \<Rightarrow> pyval" where
  "dict_get d k = (case map_of d k of None \<Rightarrow> PyNone | Some v \<Rightarrow> v)"

definition resolve_dead_letter_work ::
  "codecs \<Rightarrow> db \<Rightarrow> (text_value \<times> pyval) list \<Rightarrow> (recovery_work_kind \<times> uuid) option" where
  "resolve_dead_letter_work cd d payload =
     (case parse_uuid cd (dict_get payload ''ingest_request_id'') of
        Some u \<Rightarrow> Some (WORK_INGEST_REQUEST, u)
      | None \<Rightarrow>
          (case (parse_uuid cd (dict_get payload ''meme_file_id''), dict_get payload ''stage'') of
             (Some f, PyStr raw) \<Rightarrow>
               (case stage_of_text raw of
                  None \<Rightarrow> None
                | Some s \<Rightarrow>
                    (case SYNC_TARGET_BY_STAGE s of
                       Some t \<Rightarrow>
                         (case db_snapshots d (f, t) of
                            Some r \<Rightarrow> Some (WORK_SYNC_TARGET, sn_id r)
                          | None \<Rightarrow> map_option (\<lambda>e. (WORK_PIPELINE_STAGE, sj_id e)) (get_journal d f s))
                     | None \<Rightarrow> map_option (\<lambda>e. (WORK_PIPELINE_STAGE, sj_id e)) (get_journal d f s)))
           | _ \<Rightarrow> None))"

definition deduplication_key :: "codecs \<Rightarrow> text_value option \<Rightarrow> text_value \<Rightarrow> text_value \<Rightarrow> text_value" where
  "deduplication_key cd broker_id reason payload_hash =
     cd_sha256 cd ((case broker_id of None \<Rightarrow> [] | Some t \<Rightarrow> t) @ '':'' @ reason @ '':'' @ payload_hash)"

text \<open>The \<open>ON CONFLICT\<close> update of an existing row: a resolved row is reopened.\<close>

definition reconciled_dead_letter ::
  "time \<Rightarrow> int \<Rightarrow> (text_value \<times> pyval) list \<Rightarrow> dead_letter \<Rightarrow> dead_letter" where
  "reconciled_dead_letter now deaths headers r =
     (let reopened = (dl_status r = DL_RESOLVED)
      in r\<lparr>dl_death_count := max (dl_death_count r) deaths,
           dl_safe_headers := headers,
           dl_status := (if reopened then DL_UNRESOLVED else dl_status r),
           dl_recovery_item := (if reopened then None else dl_recovery_item r),
           dl_resolved_at := (if reopened then None else dl_resolved_at r),
           dl_resolution_note := (if reopened then None else dl_resolution_note r),
           dl_updated_at := now\<rparr>)"

definition record_pipeline_dead_letter ::
  "codecs \<Rightarrow> time \<Rightarrow> uuid \<Rightarrow> db \<Rightarrow> pyval \<Rightarrow> (text_value \<times> pyval) list option \<Rightarrow> text_value option \<Rightarrow>
     text_value \<Rightarrow> dead_letter list \<Rightarrow> uuid \<times> dead_letter list" where
  "record_pipeline_dead_letter cd now fresh d payload headers broker_id reason rows =
     (let decoded = decode_payload cd payload;
          payload_hash = cd_sha256 cd (cd_json_dumps cd decoded);
          key = deduplication_key cd broker_id reason payload_hash;
          safe_headers = safe_mapping (case headers of None \<Rightarrow> [] | Some hs \<Rightarrow> hs);
          deaths = death_count headers
      in case row_get dl_deduplication_key key rows of
           Some r \<Rightarrow> (dl_id r, row_put dl_deduplication_key (reconciled_dead_letter now deaths safe_headers r) rows)
         | None \<Rightarrow>
             (fresh, rows @
               [\<lparr>dl_id = fresh, dl_deduplication_key = key,
                 dl_broker_message_id =
                   (case broker_id of None \<Rightarrow> None | Some t \<Rightarrow> optional_text cd 255 (PyStr t)),
                 dl_payload_hash = payload_hash,
                 dl_event_type = optional_text cd 128 (dict_get decoded ''event_type''),
                 dl_work = resolve_dead_letter_work cd d decoded,
                 dl_normalized_reason = take 128 reason, dl_death_count = deaths,
                 dl_safe_payload = safe_mapping decoded, dl_safe_headers = safe_headers,
                 dl_status = DL_UNRESOLVED, dl_recovery_item = None, dl_resolved_at = None,
                 dl_resolution_note = None, dl_created_at = now, dl_updated_at = now\<rparr>]))"
section \<open>Admission with hysteresis\<close>

lemma policy_gap:
  assumes "policy_ok p"
  shows "n \<le> pl_reopen_pending p \<Longrightarrow> \<not> n \<ge> pl_close_pending p"
    "a \<le> pl_reopen_age p \<Longrightarrow> \<not> a \<ge> pl_close_age p"
  using assms by (auto simp: policy_ok_def)

definition stage_overloaded :: "capacity_policy \<Rightarrow> time \<Rightarrow> backlog \<Rightarrow> bool" where
  "stage_overloaded p now b \<longleftrightarrow>
     bl_pending b \<ge> pl_close_pending p \<or> oldest_age_seconds now (bl_oldest b) \<ge> pl_close_age p"

definition stage_drained :: "capacity_policy \<Rightarrow> time \<Rightarrow> backlog \<Rightarrow> bool" where
  "stage_drained p now b \<longleftrightarrow>
     bl_pending b \<le> pl_reopen_pending p \<and> oldest_age_seconds now (bl_oldest b) \<le> pl_reopen_age p"

lemma drained_not_overloaded: "policy_ok p \<Longrightarrow> stage_drained p now b \<Longrightarrow> \<not> stage_overloaded p now b"
  by (auto simp: stage_drained_def stage_overloaded_def dest: policy_gap)

lemma not_closed: "x \<noteq> CAPACITY_CLOSED \<longleftrightarrow> x = CAPACITY_OPEN"
  by (cases x) simp_all

lemma refresh_admits:
  "is_stage_admitted (snd (refresh_pipeline_capacity_states p now bl rows)) s \<longleftrightarrow>
     (if is_stage_admitted rows s then \<not> stage_overloaded p now (bl s) else stage_drained p now (bl s))"
  by (auto simp: refresh_pipeline_capacity_states_def is_stage_admitted_def observed_capacity_def Let_def
      next_capacity_status_def stage_overloaded_def stage_drained_def not_closed
      split: option.splits)

text \<open>
  Admission has hysteresis: a refresh closes an open stage exactly when its backlog or its age reaches
  the close threshold, reopens a closed one exactly when both are at or below the reopen thresholds,
  reports the stages that are closed, and a second refresh of the same backlog changes no admission.
\<close>

theorem capacity_refresh_hysteresis:
  fixes p now bl rows s
  assumes "policy_ok p"
  defines "after \<equiv> (\<lambda>rows. snd (refresh_pipeline_capacity_states p now bl rows))"
  shows "(is_stage_admitted (after rows) s \<longleftrightarrow>
       (if is_stage_admitted rows s then \<not> stage_overloaded p now (bl s) else stage_drained p now (bl s))) \<and>
    (is_stage_admitted (after (after rows)) s \<longleftrightarrow> is_stage_admitted (after rows) s) \<and>
    (s \<in> set (snd (fst (refresh_pipeline_capacity_states p now bl rows))) \<longleftrightarrow>
       \<not> is_stage_admitted (after rows) s) \<and>
    (is_historical_admission_open (after rows) \<longleftrightarrow>
       (\<forall>t \<in> {TRANSCODE, OCR, EMBED, CLASSIFY}. is_stage_admitted (after rows) t))"
proof (intro conjI)
  show "is_stage_admitted (after rows) s \<longleftrightarrow>
       (if is_stage_admitted rows s then \<not> stage_overloaded p now (bl s) else stage_drained p now (bl s))"
    unfolding after_def by (rule refresh_admits)
  show "is_stage_admitted (after (after rows)) s \<longleftrightarrow> is_stage_admitted (after rows) s"
    unfolding after_def refresh_admits using drained_not_overloaded [OF assms(1)] by auto
  show "s \<in> set (snd (fst (refresh_pipeline_capacity_states p now bl rows))) \<longleftrightarrow>
       \<not> is_stage_admitted (after rows) s"
    by (simp add: after_def refresh_pipeline_capacity_states_def Let_def is_stage_admitted_def)
  show "is_historical_admission_open (after rows) \<longleftrightarrow>
       (\<forall>t \<in> {TRANSCODE, OCR, EMBED, CLASSIFY}. is_stage_admitted (after rows) t)"
    by (simp add: is_historical_admission_open_def is_stage_admitted_def split: option.splits)
qed

definition sample_policy :: capacity_policy where
  "sample_policy = \<lparr>pl_close_pending = 100, pl_reopen_pending = 20, pl_close_age = 600, pl_reopen_age = 60\<rparr>"

theorem capacity_refresh_hysteresis_witness:
  "\<not> is_stage_admitted (snd (refresh_pipeline_capacity_states sample_policy 0
        (\<lambda>s. \<lparr>bl_pending = (if s = OCR then 100 else 0), bl_oldest = None, bl_succeeded = 0\<rparr>) (\<lambda>_. None))) OCR"
proof -
  have ok: "policy_ok sample_policy" by (simp add: policy_ok_def sample_policy_def)
  show ?thesis
    using capacity_refresh_hysteresis [OF ok, of 0
        "\<lambda>s. \<lparr>bl_pending = (if s = OCR then 100 else 0), bl_oldest = None, bl_succeeded = 0\<rparr>" "\<lambda>_. None" OCR]
    by (simp add: is_stage_admitted_def stage_overloaded_def sample_policy_def)
qed

section \<open>Circuits\<close>

text \<open>A call on the circuit of one dependency, and what it leaves.\<close>

datatype circuit_call = Acquire time text_value | Success | Failure time text_value

fun circuit_apply :: "int \<Rightarrow> int \<Rightarrow> text_value \<Rightarrow> circuit_call \<Rightarrow> circuits \<Rightarrow> (circuit_error + unit) \<times> circuits" where
  "circuit_apply k cd dep (Acquire now owner) c = acquire_dependency_circuit now dep owner c"
| "circuit_apply k cd dep Success c = (Inr (), record_dependency_success dep c)"
| "circuit_apply k cd dep (Failure now fp) c = record_dependency_failure now dep fp k cd c"

definition circuit_run :: "int \<Rightarrow> int \<Rightarrow> text_value \<Rightarrow> circuit_call list \<Rightarrow> circuits \<Rightarrow> circuits" where
  "circuit_run k cd dep calls c = fold (\<lambda>x c. snd (circuit_apply k cd dep x c)) calls c"

text \<open>The owners a run admits, with the times of their calls.\<close>

fun admitted :: "int \<Rightarrow> int \<Rightarrow> text_value \<Rightarrow> circuit_call list \<Rightarrow> circuits \<Rightarrow> (time \<times> text_value) list" where
  "admitted k cd dep [] c = []"
| "admitted k cd dep (x # xs) c =
     (case (x, circuit_apply k cd dep x c) of
        (Acquire now owner, (Inr _, c')) \<Rightarrow> (now, owner) # admitted k cd dep xs c'
      | (_, (_, c')) \<Rightarrow> admitted k cd dep xs c')"

definition circuit_wf :: "int \<Rightarrow> circuit_row \<Rightarrow> bool" where
  "circuit_wf k row \<longleftrightarrow> 0 \<le> ci_consecutive_failures row \<and>
     (case ci_status row of
        CIRCUIT_CLOSED \<Rightarrow> ci_consecutive_failures row < k \<and> ci_probe_owner row = None
      | CIRCUIT_OPEN \<Rightarrow> ci_retry_at row \<noteq> None \<and> ci_probe_owner row = None
      | CIRCUIT_HALF_OPEN \<Rightarrow> ci_probe_owner row \<noteq> None)"

definition circuits_wf :: "int \<Rightarrow> circuits \<Rightarrow> bool" where
  "circuits_wf k c \<longleftrightarrow> (\<forall>dep row. c dep = Some row \<longrightarrow> circuit_wf k row)"

lemma circuit_apply_wf:
  assumes "1 \<le> k" "0 < cd" "circuits_wf k c"
  shows "circuits_wf k (snd (circuit_apply k cd dep x c))"
proof (cases x)
  case (Acquire now owner)
  with assms show ?thesis
    by (auto simp: circuits_wf_def acquire_dependency_circuit_def circuit_wf_def
        split: option.splits circuit_status.splits)
next
  case Success
  with assms show ?thesis
    by (auto simp: circuits_wf_def record_dependency_success_def circuit_wf_def split: option.splits)
next
  case (Failure now fp)
  have "circuit_wf k (case c dep of None \<Rightarrow> fresh_circuit | Some r \<Rightarrow> r)"
    using assms by (auto simp: circuits_wf_def fresh_circuit_def circuit_wf_def split: option.splits)
  with assms Failure show ?thesis
    by (auto simp: circuits_wf_def record_dependency_failure_def Let_def circuit_wf_def
        split: circuit_status.splits)
qed

lemma circuit_run_wf:
  "1 \<le> k \<Longrightarrow> 0 < cd \<Longrightarrow> circuits_wf k c \<Longrightarrow> circuits_wf k (circuit_run k cd dep calls c)"
  by (induction calls arbitrary: c) (simp_all add: circuit_run_def circuit_apply_wf)

fun is_acquire :: "circuit_call \<Rightarrow> bool" where
  "is_acquire (Acquire now owner) = True"
| "is_acquire _ = False"

lemma half_open_admits_owner:
  assumes "\<forall>x\<in>set calls. is_acquire x" "c dep = Some row" "ci_status row = CIRCUIT_HALF_OPEN"
    and "ci_probe_owner row = Some owner"
  shows "snd ` set (admitted k cd dep calls c) \<subseteq> {owner} \<and> circuit_run k cd dep calls c = c"
  using assms(1)
proof (induction calls)
  case Nil
  then show ?case by (simp add: circuit_run_def)
next
  case (Cons x calls)
  then obtain now o' where x: "x = Acquire now o'" by (cases x) auto
  have "snd (circuit_apply k cd dep x c) = c"
    "fst (circuit_apply k cd dep x c) = (if o' = owner then Inr () else Inl ProbeInFlight)"
    using assms(2-4) by (auto simp: x acquire_dependency_circuit_def)
  then have call: "circuit_apply k cd dep x c = (if o' = owner then Inr () else Inl ProbeInFlight, c)"
    by (metis prod.collapse)
  then show ?case using Cons by (auto simp: x circuit_run_def split: if_splits)
qed

lemma refused_acquire: "acquire_dependency_circuit now dep owner c = (Inl e, c') \<Longrightarrow> c' = c"
  by (auto simp: acquire_dependency_circuit_def split: option.splits circuit_status.splits if_splits)

text \<open>
  C22. Once a circuit is not closed, it admits the calls of at most one owner, and none before the retry time, until the
  next report on the dependency: the success or failure of any call that was admitted, the owner's probe or one from
  before the circuit opened. A refused call has no effect. Whatever the circuit saw before, an open circuit has a retry
  time and a half-open one an owner.
\<close>

theorem circuit_admits_one_probe:
  assumes "1 \<le> k" "0 < cd" "circuits_wf k c0" "c = circuit_run k cd dep before c0"
    and "c dep = Some row" "ci_status row \<noteq> CIRCUIT_CLOSED" "\<forall>x\<in>set calls. is_acquire x"
  shows "\<exists>owner. snd ` set (admitted k cd dep calls c) \<subseteq> {owner} \<and>
    (ci_status row = CIRCUIT_OPEN \<longrightarrow>
       (\<exists>t. ci_retry_at row = Some t \<and>
          (case admitted k cd dep calls c of [] \<Rightarrow> True | (now, _) # _ \<Rightarrow> t \<le> now))) \<and>
    (ci_status row = CIRCUIT_HALF_OPEN \<longrightarrow> ci_probe_owner row = Some owner) \<and>
    (\<forall>now' owner' e c'. acquire_dependency_circuit now' dep owner' (circuit_run k cd dep calls c) = (Inl e, c') \<longrightarrow>
       c' = circuit_run k cd dep calls c)"
proof -
  have wf: "circuit_wf k row"
    using circuit_run_wf [OF assms(1-3)] assms(4,5) by (auto simp: circuits_wf_def)
  have "\<exists>owner. snd ` set (admitted k cd dep calls c) \<subseteq> {owner} \<and>
    (ci_status row = CIRCUIT_OPEN \<longrightarrow>
       (\<exists>t. ci_retry_at row = Some t \<and>
          (case admitted k cd dep calls c of [] \<Rightarrow> True | (now, _) # _ \<Rightarrow> t \<le> now))) \<and>
    (ci_status row = CIRCUIT_HALF_OPEN \<longrightarrow> ci_probe_owner row = Some owner)" (is "\<exists>owner. ?admits owner")
  proof (cases "ci_status row")
    case CIRCUIT_CLOSED
    with assms(6) show ?thesis by simp
  next
    case CIRCUIT_HALF_OPEN
    with wf obtain owner where "ci_probe_owner row = Some owner" by (auto simp: circuit_wf_def)
    with half_open_admits_owner [of calls c dep row owner k cd] assms(5,7) CIRCUIT_HALF_OPEN show ?thesis by auto
  next
    case CIRCUIT_OPEN
    with wf obtain t where t: "ci_retry_at row = Some t" by (auto simp: circuit_wf_def)
    have "\<exists>owner. snd ` set (admitted k cd dep calls c) \<subseteq> {owner} \<and>
       (case admitted k cd dep calls c of [] \<Rightarrow> True | (now, _) # _ \<Rightarrow> t \<le> now)"
      using assms(7)
    proof (induction calls)
      case Nil
      then show ?case by simp
    next
      case (Cons x calls)
      then obtain now o' where x: "x = Acquire now o'" by (cases x) auto
      show ?case
      proof (cases "t > now")
        case True
        then have "circuit_apply k cd dep x c = (Inl (CircuitOpenUntil t), c)"
          using assms(5) CIRCUIT_OPEN t by (simp add: x acquire_dependency_circuit_def)
        with Cons show ?thesis by (auto simp: x)
      next
        case False
        define row' where "row' = row\<lparr>ci_status := CIRCUIT_HALF_OPEN, ci_probe_owner := Some o',
          ci_probe_generation := ci_probe_generation row + 1\<rparr>"
        have "circuit_apply k cd dep x c = (Inr (), c(dep \<mapsto> row'))"
          using assms(5) CIRCUIT_OPEN t False by (simp add: x acquire_dependency_circuit_def row'_def)
        moreover have "snd ` set (admitted k cd dep calls (c(dep \<mapsto> row'))) \<subseteq> {o'}"
          using half_open_admits_owner [of calls "c(dep \<mapsto> row')" dep row' o' k cd] Cons.prems
          by (simp add: row'_def)
        ultimately show ?thesis using False by (auto simp: x intro!: exI [of _ o'])
      qed
    qed
    with t CIRCUIT_OPEN show ?thesis by auto
  qed
  then obtain owner where "?admits owner" ..
  then show ?thesis by (intro exI [of _ owner] conjI) (auto dest: refused_acquire)
qed

definition open_circuit :: circuits where
  "open_circuit = circuit_run 1 30 ''ocr'' [Failure 0 ''boom''] (\<lambda>_. None)"

definition open_row :: circuit_row where
  "open_row =
     \<lparr>ci_status = CIRCUIT_OPEN, ci_error_fingerprint = Some ''boom'', ci_consecutive_failures = 1,
      ci_opened_at = Some 0, ci_retry_at = Some 30, ci_probe_owner = None, ci_probe_generation = 0\<rparr>"

lemma open_circuit_row: "open_circuit ''ocr'' = Some open_row"
  by (simp add: open_circuit_def circuit_run_def record_dependency_failure_def fresh_circuit_def open_row_def)

theorem circuit_admits_one_probe_witness:
  "\<exists>owner. snd ` set (admitted 1 30 ''ocr'' [Acquire 10 ''a'', Acquire 40 ''b'', Acquire 50 ''a''] open_circuit) \<subseteq> {owner}"
proof -
  have "circuits_wf 1 (\<lambda>_. None)" by (simp add: circuits_wf_def)
  from circuit_admits_one_probe [OF _ _ this open_circuit_def open_circuit_row,
      of "[Acquire 10 ''a'', Acquire 40 ''b'', Acquire 50 ''a'']"]
  show ?thesis by (auto simp: open_row_def)
qed

lemma circuit_run_simps [simp]:
  "circuit_run k cd dep [] c = c"
  "circuit_run k cd dep (x # xs) c = circuit_run k cd dep xs (snd (circuit_apply k cd dep x c))"
  by (simp_all add: circuit_run_def)

lemma failures_count:
  assumes "1 \<le> k" "0 < cd"
  shows "c dep = Some row \<Longrightarrow> ci_error_fingerprint row = Some fp \<Longrightarrow> ci_status row \<noteq> CIRCUIT_HALF_OPEN \<Longrightarrow>
    (ci_status row = CIRCUIT_OPEN \<longleftrightarrow> k \<le> ci_consecutive_failures row) \<Longrightarrow>
    \<exists>row'. circuit_run k cd dep (map (\<lambda>t. Failure t fp) ts) c dep = Some row' \<and>
      (ci_status row' = CIRCUIT_OPEN \<longleftrightarrow> k \<le> ci_consecutive_failures row') \<and>
      ci_consecutive_failures row' = ci_consecutive_failures row + int (length ts)"
proof (induction ts arbitrary: c row)
  case Nil
  then show ?case by simp
next
  case (Cons t ts)
  define row1 where "row1 = (if k \<le> ci_consecutive_failures row + 1
    then row\<lparr>ci_consecutive_failures := ci_consecutive_failures row + 1, ci_status := CIRCUIT_OPEN,
             ci_opened_at := Some t, ci_retry_at := Some (t + cd), ci_probe_owner := None\<rparr>
    else row\<lparr>ci_consecutive_failures := ci_consecutive_failures row + 1\<rparr>)"
  have "snd (circuit_apply k cd dep (Failure t fp) c) = c(dep \<mapsto> row1)"
    using assms Cons.prems by (simp add: record_dependency_failure_def row1_def)
  moreover have "ci_error_fingerprint row1 = Some fp" "ci_status row1 \<noteq> CIRCUIT_HALF_OPEN"
    "ci_status row1 = CIRCUIT_OPEN \<longleftrightarrow> k \<le> ci_consecutive_failures row1"
    "ci_consecutive_failures row1 = ci_consecutive_failures row + 1"
    using Cons.prems by (auto simp: row1_def)
  ultimately show ?case
    using Cons.IH [of "c(dep \<mapsto> row1)" row1] by (simp add: algebra_simps del: circuit_apply.simps fun_upd_apply)
      (simp add: algebra_simps)
qed

text \<open>
  A closed circuit without failures opens exactly when one error has come the threshold number of
  times in a row, a failed probe reopens it for a full cooldown whatever the error, and a success closes it
  with a clean count.
\<close>

theorem circuit_opens_at_threshold:
  fixes c :: circuits and dep fp :: text_value
  assumes "1 \<le> k" "0 < cd"
  shows "((case c dep of
        None \<Rightarrow> True | Some r \<Rightarrow> ci_status r = CIRCUIT_CLOSED \<and> ci_error_fingerprint r \<noteq> Some fp) \<longrightarrow>
      (\<exists>row. circuit_run k cd dep (map (\<lambda>t. Failure t fp) (t # ts)) c dep = Some row \<and>
         ci_consecutive_failures row = 1 + int (length ts) \<and>
         (ci_status row = CIRCUIT_OPEN \<longleftrightarrow> k \<le> 1 + int (length ts)))) \<and>
    (\<forall>r. c dep = Some r \<and> ci_status r = CIRCUIT_HALF_OPEN \<longrightarrow>
      (\<exists>row. circuit_run k cd dep [Failure t fp] c dep = Some row \<and> ci_status row = CIRCUIT_OPEN \<and>
         ci_retry_at row = Some (t + cd))) \<and>
    (\<forall>r. c dep = Some r \<longrightarrow>
      (\<exists>row. circuit_run k cd dep [Success] c dep = Some row \<and> ci_status row = CIRCUIT_CLOSED \<and>
         ci_consecutive_failures row = 0))"
proof (intro conjI impI)
  assume clean: "case c dep of
      None \<Rightarrow> True | Some r \<Rightarrow> ci_status r = CIRCUIT_CLOSED \<and> ci_error_fingerprint r \<noteq> Some fp"
  define row0 where "row0 = (case c dep of None \<Rightarrow> fresh_circuit | Some r \<Rightarrow> r)"
  have r0: "ci_status row0 = CIRCUIT_CLOSED" "ci_error_fingerprint row0 \<noteq> Some fp"
    using clean by (auto simp: row0_def fresh_circuit_def split: option.splits)
  define row1 where "row1 = (let x = row0\<lparr>ci_error_fingerprint := Some fp, ci_consecutive_failures := 1\<rparr>
      in if k \<le> 1 then x\<lparr>ci_status := CIRCUIT_OPEN, ci_opened_at := Some t, ci_retry_at := Some (t + cd),
                        ci_probe_owner := None\<rparr> else x)"
  have first: "snd (circuit_apply k cd dep (Failure t fp) c) = c(dep \<mapsto> row1)"
    using assms r0 by (simp add: record_dependency_failure_def row1_def row0_def [symmetric] Let_def)
  have row1: "ci_error_fingerprint row1 = Some fp" "ci_status row1 \<noteq> CIRCUIT_HALF_OPEN"
    "ci_consecutive_failures row1 = 1" "ci_status row1 = CIRCUIT_OPEN \<longleftrightarrow> k \<le> ci_consecutive_failures row1"
    using r0 by (simp_all add: row1_def Let_def)
  obtain row where "circuit_run k cd dep (map (\<lambda>t. Failure t fp) ts) (c(dep \<mapsto> row1)) dep = Some row"
    "ci_status row = CIRCUIT_OPEN \<longleftrightarrow> k \<le> ci_consecutive_failures row"
    "ci_consecutive_failures row = 1 + int (length ts)"
    using failures_count [OF assms, of "c(dep \<mapsto> row1)" dep row1 fp ts] row1 by auto
  with first show "\<exists>row. circuit_run k cd dep (map (\<lambda>t. Failure t fp) (t # ts)) c dep = Some row \<and>
         ci_consecutive_failures row = 1 + int (length ts) \<and>
         (ci_status row = CIRCUIT_OPEN \<longleftrightarrow> k \<le> 1 + int (length ts))"
    by (simp del: circuit_apply.simps)
qed (use assms in \<open>auto simp: record_dependency_failure_def record_dependency_success_def Let_def\<close>)

theorem circuit_opens_at_threshold_witness:
  "\<exists>row. circuit_run 2 30 ''ocr'' (map (\<lambda>t. Failure t ''boom'') [5, 6]) (\<lambda>_. None) ''ocr'' = Some row \<and>
     ci_status row = CIRCUIT_OPEN"
proof -
  have "(1::int) \<le> 2" "(0::int) < 30" by simp_all
  from circuit_opens_at_threshold [OF this, where c = "\<lambda>_. None" and dep = "''ocr''" and fp = "''boom''" and t = 5 and ts = "[6]", THEN conjunct1]
  show ?thesis by auto
qed

section \<open>The ledger of dead letters\<close>

text \<open>
  No entry of a mapping, at any depth, shows the value of a sensitive key, and the texts, keys and
  collections are within the limits.
\<close>

fun safe_shape :: "pyval \<Rightarrow> bool" where
  "safe_shape (PyStr t) = (length t \<le> SAFE_TEXT_LIMIT)"
| "safe_shape (PyDict d) =
     (length d \<le> SAFE_COLLECTION_LIMIT + 1 \<and>
      list_all (\<lambda>(k, v). length k \<le> 255 \<and> (is_sensitive_key k \<longrightarrow> v = PyStr ''[redacted]'') \<and> safe_shape v) d)"
| "safe_shape (PyList vs) = (length vs \<le> SAFE_COLLECTION_LIMIT \<and> list_all safe_shape vs)"
| "safe_shape (PyBytes t) = False"
| "safe_shape (PyObject t) = False"
| "safe_shape v = True"

definition safe_entry :: "text_value \<times> pyval \<Rightarrow> bool" where
  "safe_entry e \<longleftrightarrow> length (fst e) \<le> 255 \<and> (is_sensitive_key (fst e) \<longrightarrow> snd e = PyStr ''[redacted]'') \<and>
     safe_shape (snd e)"

lemma safe_shape_dict: "safe_shape (PyDict d) \<longleftrightarrow> length d \<le> SAFE_COLLECTION_LIMIT + 1 \<and> list_all safe_entry d"
  by (simp add: safe_entry_def list_all_iff split_beta)

lemma dict_put_entries: "safe_entry (k, v) \<Longrightarrow> list_all safe_entry d \<Longrightarrow> list_all safe_entry (dict_put k v d)"
  by (induction d) auto

lemma dict_put_length: "length (dict_put k v d) \<le> length d + 1"
  by (induction d) auto

lemma truncated_entry: "safe_entry (''_truncated'', PyBool True)"
  by (simp add: safe_entry_def is_sensitive_key_def SENSITIVE_KEY_PARTS_def py_lower_def py_lower_char_def Let_def)

lemma redacted_shape: "safe_shape (PyStr ''[redacted]'')" "safe_shape (PyStr ''[truncated]'')"
  by (simp_all add: SAFE_TEXT_LIMIT_def)

declare safe_value.simps [simp del]

lemma safe_shapes:
  "safe_shape (safe_value depth v)"
  "list_all safe_entry result \<Longrightarrow> length result \<le> index \<Longrightarrow> index \<le> SAFE_COLLECTION_LIMIT \<Longrightarrow>
     list_all safe_entry (safe_entries index d result) \<and>
     length (safe_entries index d result) \<le> SAFE_COLLECTION_LIMIT + 1"
  "list_all safe_shape (safe_items n depth' vs) \<and> length (safe_items n depth' vs) \<le> n"
proof (induction depth v and index d result and n depth' vs rule: safe_value_safe_entries_safe_items.induct)
  case (1 depth v)
  show ?case
  proof (cases "depth \<ge> 4")
    case True
    then show ?thesis by (simp add: safe_value.simps redacted_shape del: safe_shape.simps)
  next
    case False
    with 1 show ?thesis
      by (cases v) (simp_all add: safe_value.simps safe_shape_dict del: safe_shape.simps(2))
  qed
next
  case (2 index result)
  then show ?case by simp
next
  case (3 index k v d result)
  show ?case
  proof (cases "index \<ge> SAFE_COLLECTION_LIMIT")
    case True
    with 3 show ?thesis
      using dict_put_length [of "''_truncated''" "PyBool True" result]
      by (auto intro: dict_put_entries truncated_entry)
  next
    case False
    define w where "w = (if is_sensitive_key (take 255 k) then PyStr ''[redacted]'' else safe_value 0 v)"
    have "safe_entry (take 255 k, w)"
      using 3(1) False redacted_shape by (simp add: safe_entry_def w_def del: safe_shape.simps)
    moreover have "length (dict_put (take 255 k) w result) \<le> index + 1"
      using dict_put_length [of "take 255 k" w result] 3(4) by simp
    ultimately show ?thesis
      using 3(2) [OF False refl] 3(3) False by (simp add: Let_def w_def dict_put_entries)
  qed
qed simp_all

text \<open>
  What a worker relies on: recording a delivery leaves an entry for it, and no later record takes an entry
  away or changes its identity.
\<close>

locale dead_letter_ledger =
  fixes wf :: "'s \<Rightarrow> bool"
    and record_one :: "'m \<Rightarrow> 's \<Rightarrow> 's"
    and entry :: "'s \<Rightarrow> 'm \<Rightarrow> 'i option"
  assumes record_wf: "wf s \<Longrightarrow> wf (record_one m s)"
    and recorded: "wf s \<Longrightarrow> entry (record_one m s) m \<noteq> None"
    and kept: "wf s \<Longrightarrow> entry s n = Some i \<Longrightarrow> entry (record_one m s) n = Some i"
begin

lemma run_wf: "wf s \<Longrightarrow> wf (fold record_one ms s)"
  by (induction ms arbitrary: s) (auto intro: record_wf)

lemma run_kept: "wf s \<Longrightarrow> entry s n = Some i \<Longrightarrow> entry (fold record_one ms s) n = Some i"
  by (induction ms arbitrary: s) (auto intro: record_wf kept)

lemma run_recorded:
  assumes "wf s" "m \<in> set ms"
  shows "\<exists>i. entry (fold record_one ms s) m = Some i"
proof -
  obtain as bs where ms: "ms = as @ m # bs" using split_list [OF assms(2)] by blast
  let ?s = "fold record_one as s"
  obtain i where "entry (record_one m ?s) m = Some i" using recorded [OF run_wf [OF assms(1)]] by blast
  then show ?thesis using run_kept [OF record_wf [OF run_wf [OF assms(1)]]] ms by auto
qed

lemma run_identity:
  assumes "wf s"
  shows "entry (fold record_one ms (record_one m s)) m = entry (record_one m s) m"
  using recorded [OF assms, of m] run_kept [OF record_wf [OF assms, of m], of m] by force

end

record dead_delivery =
  dd_now :: time
  dd_fresh :: uuid
  dd_db :: db
  dd_payload :: pyval
  dd_headers :: "(text_value \<times> pyval) list option"
  dd_broker_id :: "text_value option"
  dd_reason :: text_value

definition ledger_wf :: "dead_letter list \<Rightarrow> bool" where
  "ledger_wf rows \<longleftrightarrow> distinct (map dl_deduplication_key rows)"

definition record_delivery :: "codecs \<Rightarrow> dead_delivery \<Rightarrow> dead_letter list \<Rightarrow> dead_letter list" where
  "record_delivery cd m rows = snd (record_pipeline_dead_letter cd (dd_now m) (dd_fresh m) (dd_db m)
     (dd_payload m) (dd_headers m) (dd_broker_id m) (dd_reason m) rows)"

definition delivery_key :: "codecs \<Rightarrow> dead_delivery \<Rightarrow> text_value" where
  "delivery_key cd m = deduplication_key cd (dd_broker_id m) (dd_reason m)
     (cd_sha256 cd (cd_json_dumps cd (decode_payload cd (dd_payload m))))"

definition ledger_row :: "codecs \<Rightarrow> dead_letter list \<Rightarrow> dead_delivery \<Rightarrow> dead_letter option" where
  "ledger_row cd rows m = row_get dl_deduplication_key (delivery_key cd m) rows"

definition ledger_entry :: "codecs \<Rightarrow> dead_letter list \<Rightarrow> dead_delivery \<Rightarrow> uuid option" where
  "ledger_entry cd rows m = map_option dl_id (ledger_row cd rows m)"

definition delivery_deaths :: "dead_delivery \<Rightarrow> int" where
  "delivery_deaths m = death_count (dd_headers m)"

lemma row_get_None: "row_get key k rows = None \<longleftrightarrow> k \<notin> key ` set rows"
  by (induction rows) auto

lemma reconciled_key [simp]:
  "dl_deduplication_key (reconciled_dead_letter now n hs r) = dl_deduplication_key r"
  "dl_id (reconciled_dead_letter now n hs r) = dl_id r"
  by (simp_all add: reconciled_dead_letter_def Let_def)

lemma record_delivery_row:
  "ledger_row cd (record_delivery cd m rows) n =
     (if delivery_key cd n \<noteq> delivery_key cd m then ledger_row cd rows n
      else (case ledger_row cd rows m of
              Some r \<Rightarrow> Some (reconciled_dead_letter (dd_now m) (delivery_deaths m)
                (safe_mapping (case dd_headers m of None \<Rightarrow> [] | Some hs \<Rightarrow> hs)) r)
            | None \<Rightarrow> row_get dl_deduplication_key (delivery_key cd m) (record_delivery cd m rows)))"
  by (auto simp: record_delivery_def record_pipeline_dead_letter_def Let_def ledger_row_def
      delivery_key_def delivery_deaths_def row_get_append dest: row_get_key split: option.splits)

lemma record_delivery_new:
  assumes "ledger_row cd rows m = None"
  obtains r where "ledger_row cd (record_delivery cd m rows) m = Some r" "dl_id r = dd_fresh m"
    "dl_status r = DL_UNRESOLVED" "dl_death_count r = delivery_deaths m"
    "record_delivery cd m rows = rows @ [r]"
    "dl_safe_payload r = safe_mapping (decode_payload cd (dd_payload m))"
    "dl_work r = resolve_dead_letter_work cd (dd_db m) (decode_payload cd (dd_payload m))"
proof -
  have "\<exists>r. record_delivery cd m rows = rows @ [r] \<and> dl_deduplication_key r = delivery_key cd m \<and>
      dl_id r = dd_fresh m \<and> dl_status r = DL_UNRESOLVED \<and> dl_death_count r = delivery_deaths m \<and>
      dl_safe_payload r = safe_mapping (decode_payload cd (dd_payload m)) \<and>
      dl_work r = resolve_dead_letter_work cd (dd_db m) (decode_payload cd (dd_payload m))"
    using assms
    by (simp add: record_delivery_def record_pipeline_dead_letter_def Let_def ledger_row_def
        delivery_key_def delivery_deaths_def)
  then obtain r where r: "record_delivery cd m rows = rows @ [r]" "dl_deduplication_key r = delivery_key cd m"
      "dl_id r = dd_fresh m" "dl_status r = DL_UNRESOLVED" "dl_death_count r = delivery_deaths m"
      "dl_safe_payload r = safe_mapping (decode_payload cd (dd_payload m))"
      "dl_work r = resolve_dead_letter_work cd (dd_db m) (decode_payload cd (dd_payload m))" by blast
  then have "ledger_row cd (record_delivery cd m rows) m = Some r"
    using assms by (simp add: ledger_row_def row_get_append)
  with r that show thesis by blast
qed

lemma record_delivery_wf:
  assumes "ledger_wf rows"
  shows "ledger_wf (record_delivery cd m rows)"
proof (cases "ledger_row cd rows m")
  case None
  then obtain r where "record_delivery cd m rows = rows @ [r]" "dl_deduplication_key r = delivery_key cd m"
    using record_delivery_new [OF None] row_get_key ledger_row_def by metis
  with None assms show ?thesis by (simp add: ledger_wf_def ledger_row_def row_get_None)
next
  case (Some r)
  then obtain r' where "record_delivery cd m rows = row_put dl_deduplication_key r' rows"
    "dl_deduplication_key r' = dl_deduplication_key r"
    by (auto simp: record_delivery_def record_pipeline_dead_letter_def Let_def ledger_row_def delivery_key_def)
  moreover have "row_get dl_deduplication_key (dl_deduplication_key r) rows \<noteq> None"
    using Some row_get_key [of dl_deduplication_key "delivery_key cd m" rows r] by (simp add: ledger_row_def)
  ultimately show ?thesis
    using assms row_put_keys [of dl_deduplication_key r' rows] by (simp add: ledger_wf_def)
qed

interpretation ledger: dead_letter_ledger ledger_wf "record_delivery cd" "ledger_entry cd" for cd
proof
  fix rows m n i
  show "ledger_wf (record_delivery cd m rows)" if "ledger_wf rows" using that by (rule record_delivery_wf)
  show "ledger_entry cd (record_delivery cd m rows) m \<noteq> None" if "ledger_wf rows"
  proof (cases "ledger_row cd rows m")
    case None
    then show ?thesis by (rule record_delivery_new) (simp add: ledger_entry_def)
  next
    case (Some r)
    then show ?thesis using record_delivery_row [of cd m rows m] by (simp add: ledger_entry_def)
  qed
  show "ledger_entry cd (record_delivery cd m rows) n = Some i" if "ledger_wf rows" "ledger_entry cd rows n = Some i"
  proof (cases "delivery_key cd n = delivery_key cd m")
    case True
    then have "ledger_row cd rows m = ledger_row cd rows n" by (simp add: ledger_row_def)
    with that(2) True show ?thesis
      using record_delivery_row [of cd m rows n] by (auto simp: ledger_entry_def)
  next
    case False
    with that(2) record_delivery_row [of cd m rows n] show ?thesis by (simp add: ledger_entry_def)
  qed
qed

text \<open>
  What the rows of the ledger may hold: no value of a key that names a credential, and only bounded texts, keys and
  collections.
\<close>

definition text_within :: "nat \<Rightarrow> text_value option \<Rightarrow> bool" where
  "text_within n t \<longleftrightarrow> (case t of None \<Rightarrow> True | Some x \<Rightarrow> length x \<le> n)"

definition ledger_safe :: "dead_letter list \<Rightarrow> bool" where
  "ledger_safe rows \<longleftrightarrow>
     (\<forall>r\<in>set rows. safe_shape (PyDict (dl_safe_payload r)) \<and> safe_shape (PyDict (dl_safe_headers r)) \<and>
        length (dl_normalized_reason r) \<le> 128 \<and> text_within 255 (dl_broker_message_id r) \<and>
        text_within 128 (dl_event_type r))"

lemma safe_mapping_shape: "safe_shape (PyDict (safe_mapping d))"
  using safe_shapes(2) [of "[]" 0 d] by (simp add: safe_mapping_def safe_shape_dict del: safe_shape.simps)

lemma optional_text_within: "text_within n (optional_text cd n v)"
  by (simp add: text_within_def optional_text_def opt_text_def split: option.splits)

lemma record_delivery_safe:
  assumes "ledger_safe rows"
  shows "ledger_safe (record_delivery cd m rows)"
proof -
  have put: "x \<in> set (row_put key r rs) \<Longrightarrow> x = r \<or> x \<in> set rs" for x key r and rs :: "dead_letter list"
    by (induction rs) (auto split: if_splits)
  have got: "row_get dl_deduplication_key k rows = Some r \<Longrightarrow> r \<in> set rows" for k r
    by (rule row_get_mem)
  show ?thesis
    using assms
    by (auto simp: record_delivery_def record_pipeline_dead_letter_def Let_def ledger_safe_def reconciled_dead_letter_def
        safe_mapping_shape optional_text_within text_within_def [of 255 None]
        simp del: safe_shape.simps dest!: put got split: option.splits)
qed

lemma malformed_text_kept:
  "cd_json_loads cd t = None \<Longrightarrow>
     safe_mapping (decode_payload cd (PyStr t)) = [(''raw'', PyStr (take SAFE_TEXT_LIMIT t))]"
  by (simp add: decode_payload_def safe_mapping_def safe_value.simps is_sensitive_key_def SENSITIVE_KEY_PARTS_def
      py_lower_def py_lower_char_def Let_def SAFE_COLLECTION_LIMIT_def)

text \<open>
  C23. Whatever broken producers send, and whatever a worker records of it, the ledger stays safe: in no row does the
  payload or the headers show the value of a key that names a credential, at any depth of nesting, and every text, key
  and collection is bounded. The redaction goes by keys: a payload that is no JSON has none, and its first 4000
  characters are stored as they are, whatever they show.
\<close>

theorem dead_letters_are_redacted:
  assumes "ledger_safe rows"
  shows "ledger_safe (fold (record_delivery cd) ms rows) \<and>
    (dd_payload m = PyStr t \<and> cd_json_loads cd t = None \<and> ledger_row cd rows m = None \<longrightarrow>
       (\<exists>r. ledger_row cd (record_delivery cd m rows) m = Some r \<and>
          dl_safe_payload r = [(''raw'', PyStr (take SAFE_TEXT_LIMIT t))]))"
proof (intro conjI impI)
  show "ledger_safe (fold (record_delivery cd) ms rows)"
    using assms by (induction ms arbitrary: rows) (simp_all add: record_delivery_safe)
next
  assume raw: "dd_payload m = PyStr t \<and> cd_json_loads cd t = None \<and> ledger_row cd rows m = None"
  then obtain r where "ledger_row cd (record_delivery cd m rows) m = Some r"
    "dl_safe_payload r = safe_mapping (decode_payload cd (dd_payload m))" by (blast elim: record_delivery_new)
  with raw show "\<exists>r. ledger_row cd (record_delivery cd m rows) m = Some r \<and>
      dl_safe_payload r = [(''raw'', PyStr (take SAFE_TEXT_LIMIT t))]" by (simp add: malformed_text_kept)
qed

text \<open>
  C24. The ledger keeps one row per final delivery: through any sequence of records, a delivery recorded
  once keeps its row and identity, its row never shows it as resolved right after a record, and its death
  count is the highest seen.
\<close>

theorem dead_letter_recorded_once:
  assumes "ledger_wf rows"
  shows "ledger_entry cd (fold (record_delivery cd) ms (record_delivery cd m rows)) m =
      ledger_entry cd (record_delivery cd m rows) m \<and>
    ledger_entry cd (record_delivery cd m rows) m \<noteq> None \<and>
    ledger_wf (fold (record_delivery cd) ms (record_delivery cd m rows)) \<and>
    (\<exists>r. ledger_row cd (record_delivery cd m rows) m = Some r \<and> dl_status r \<noteq> DL_RESOLVED \<and>
       dl_death_count r = (case ledger_row cd rows m of
          None \<Rightarrow> delivery_deaths m | Some old \<Rightarrow> max (dl_death_count old) (delivery_deaths m)))"
proof (intro conjI)
  show "ledger_entry cd (fold (record_delivery cd) ms (record_delivery cd m rows)) m =
      ledger_entry cd (record_delivery cd m rows) m"
    by (rule ledger.run_identity [OF assms])
  show "ledger_entry cd (record_delivery cd m rows) m \<noteq> None" by (rule ledger.recorded [OF assms])
  show "ledger_wf (fold (record_delivery cd) ms (record_delivery cd m rows))"
    by (intro ledger.run_wf ledger.record_wf assms)
  show "\<exists>r. ledger_row cd (record_delivery cd m rows) m = Some r \<and> dl_status r \<noteq> DL_RESOLVED \<and>
       dl_death_count r = (case ledger_row cd rows m of
          None \<Rightarrow> delivery_deaths m | Some old \<Rightarrow> max (dl_death_count old) (delivery_deaths m))"
  proof (cases "ledger_row cd rows m")
    case None
    then show ?thesis by (rule record_delivery_new) (use None in simp)
  next
    case (Some old)
    then show ?thesis
      using record_delivery_row [of cd m rows m] by (simp add: reconciled_dead_letter_def Let_def)
  qed
qed

definition plain_codecs :: codecs where
  "plain_codecs =
     \<lparr>cd_sha256 = (\<lambda>t. t), cd_json_loads = (\<lambda>_. None), cd_json_dumps = (\<lambda>_. ''{}''), cd_repr = (\<lambda>_. '''')\<rparr>"

definition sample_delivery :: dead_delivery where
  "sample_delivery =
     \<lparr>dd_now = 5, dd_fresh = 80, dd_db = empty_db, dd_payload = PyDict [(''stage'', PyStr ''ocr'')],
      dd_headers = Some [(''x-death'', PyList [PyDict [(''count'', PyInt 2)]])], dd_broker_id = Some ''m1'',
      dd_reason = ''ocr_timeout''\<rparr>"

theorem dead_letter_recorded_once_witness:
  "ledger_entry plain_codecs (record_delivery plain_codecs sample_delivery (record_delivery plain_codecs sample_delivery [])) sample_delivery = Some 80"
proof -
  have "ledger_wf []" by (simp add: ledger_wf_def)
  from dead_letter_recorded_once [OF this, of plain_codecs "[sample_delivery]" sample_delivery, THEN conjunct1]
  have "ledger_entry plain_codecs (record_delivery plain_codecs sample_delivery (record_delivery plain_codecs sample_delivery [])) sample_delivery =
      ledger_entry plain_codecs (record_delivery plain_codecs sample_delivery []) sample_delivery" by simp
  then show ?thesis
    by (simp add: ledger_entry_def)
      (rule record_delivery_new [of plain_codecs "[]" sample_delivery], simp add: ledger_row_def, simp add: sample_delivery_def)
qed

definition sample_leak :: dead_delivery where
  "sample_leak = sample_delivery\<lparr>dd_payload := PyStr ''{token: abc'', dd_headers := Some [(''Authorization'', PyStr ''abc'')]\<rparr>"

theorem dead_letters_are_redacted_witness:
  "ledger_safe (record_delivery plain_codecs sample_leak []) \<and>
   map_option dl_safe_payload (ledger_row plain_codecs (record_delivery plain_codecs sample_leak []) sample_leak) =
     Some [(''raw'', PyStr ''{token: abc'')]"
proof -
  have "ledger_safe []" by (simp add: ledger_safe_def)
  from dead_letters_are_redacted [OF this, of plain_codecs "[sample_leak]" sample_leak "''{token: abc''"] show ?thesis
    by (auto simp: sample_leak_def plain_codecs_def ledger_row_def SAFE_TEXT_LIMIT_def)
qed

end
