(* ===== verification/Worker_Errors.thy ===== *)
theory Worker_Errors
  imports Reliability
begin

text \<open>
  The failure taxonomy of the pipeline workers (\<open>workers/pipeline_runtime/errors.py\<close>,
  \<open>workers/pipeline_runtime/constants.py\<close>): which exception of a stage run becomes which normalized reason,
  and which failures are worth another attempt.
\<close>

section \<open>Exceptions\<close>

text \<open>
  The exception classes the taxonomy tells apart, each with its Python name; \<open>ServiceFailure\<close> are the
  errors of the pipeline services, \<open>OtherException\<close> any other class.
\<close>

datatype exn_class =
    StorageObjectMissingError | StorageConnectionError
  | ForcedTranscodeFailure | ForcedEmbedFailure | ForcedClassifyFailure
  | ForcedSyncQdrantFailure | ForcedSyncMeiliFailure
  | MediaProcessingError | MediaTimeoutError | MediaValidationError
  | OCRProcessingError | OCRTimeoutError | OCRProviderUnavailableError | OCRMalformedOutputError
  | VoyageEmbeddingError | VoyageProviderUnavailableError | VoyageTimeoutError | VoyageMalformedResponseError
  | QdrantSimilarityError | QdrantProviderUnavailableError | QdrantTimeoutError | QdrantMalformedResponseError
  | QdrantSyncProviderUnavailableError | QdrantSyncTimeoutError | QdrantSyncMalformedResponseError
  | QdrantSyncConflictError
  | MeilisearchSyncProviderUnavailableError | MeilisearchSyncTimeoutError
  | MeilisearchSyncMalformedResponseError | MeilisearchSyncConflictError
  | ClassificationError | ClassificationProviderUnavailableError | ClassificationTimeoutError
  | ClassificationMalformedResponseError
  | MediaGenerationError
  | DependencyCircuitOpenError circuit_error
  | ServiceFailure pipeline_error
  | OtherException text_value

record exn =
  ex_class :: exn_class
  ex_text :: text_value

text \<open>\<open>isinstance(exc, PipelineIngestError)\<close>: the class and its subclass for merge transactions.\<close>

fun is_pipeline_ingest_error :: "exn_class \<Rightarrow> bool" where
  "is_pipeline_ingest_error (ServiceFailure (PipelineIngestError c)) = True"
| "is_pipeline_ingest_error (ServiceFailure PipelineMergeTransactionError) = True"
| "is_pipeline_ingest_error _ = False"

definition is_merge_transaction_error :: "exn_class \<Rightarrow> bool" where
  "is_merge_transaction_error c \<longleftrightarrow> c = ServiceFailure PipelineMergeTransactionError"

definition is_classification_error :: "exn_class \<Rightarrow> bool" where
  "is_classification_error c \<longleftrightarrow>
     c \<in> {ClassificationError, ClassificationProviderUnavailableError, ClassificationTimeoutError,
          ClassificationMalformedResponseError}"

section \<open>Normalized reasons\<close>

definition PIPELINE_REASON_MALFORMED_EVENT :: text_value where
  "PIPELINE_REASON_MALFORMED_EVENT = ''malformed_dispatch_event''"
definition PIPELINE_REASON_UNSUPPORTED_STAGE :: text_value where
  "PIPELINE_REASON_UNSUPPORTED_STAGE = ''unsupported_stage''"
definition PIPELINE_REASON_WORKER_SHUTDOWN :: text_value where
  "PIPELINE_REASON_WORKER_SHUTDOWN = ''worker_shutdown''"
definition PIPELINE_REASON_SOURCE_OBJECT_MISSING :: text_value where
  "PIPELINE_REASON_SOURCE_OBJECT_MISSING = ''source_object_missing''"

definition normalize_failure_reason :: "stage \<Rightarrow> exn_class \<Rightarrow> text_value" where
  "normalize_failure_reason s c =
     (if c = StorageObjectMissingError then PIPELINE_REASON_SOURCE_OBJECT_MISSING
      else case s of
        TRANSCODE \<Rightarrow>
          if c = ForcedTranscodeFailure then ''forced_transcode_failure''
          else if c = MediaTimeoutError then ''transcode_timeout''
          else if c = MediaValidationError then ''transcode_invalid_media''
          else ''transcode_stage_failed''
      | OCR \<Rightarrow>
          if c = OCRTimeoutError then ''ocr_timeout''
          else if c = OCRProviderUnavailableError then ''ocr_provider_blocked''
          else ''ocr_stage_failed''
      | EMBED \<Rightarrow>
          if c = ForcedEmbedFailure then ''forced_embed_failure''
          else if c = VoyageTimeoutError then ''embed_timeout''
          else if c = VoyageMalformedResponseError then ''embed_malformed_vector''
          else if c = VoyageProviderUnavailableError then ''embed_provider_blocked''
          else if is_merge_transaction_error c then ''embed_merge_transaction_failed''
          else if c = QdrantTimeoutError then ''embed_similarity_timeout''
          else if c = QdrantMalformedResponseError then ''embed_similarity_malformed''
          else if c \<in> {QdrantProviderUnavailableError, QdrantSimilarityError} then ''embed_similarity_blocked''
          else ''embed_stage_failed''
      | CLASSIFY \<Rightarrow>
          if c = ForcedClassifyFailure then ''forced_classify_failure''
          else if c = ClassificationTimeoutError then ''classify_timeout''
          else if c = ClassificationProviderUnavailableError then ''classify_provider_blocked''
          else if is_classification_error c then ''classify_malformed_result''
          else ''classify_stage_failed''
      | SYNC_QDRANT \<Rightarrow>
          if c = ForcedSyncQdrantFailure then ''forced_sync_qdrant_failure''
          else if c = QdrantSyncTimeoutError then ''sync_qdrant_timeout''
          else if c = QdrantSyncConflictError then ''sync_qdrant_conflict''
          else if c = QdrantSyncMalformedResponseError then ''sync_qdrant_malformed_payload''
          else ''sync_qdrant_provider_blocked''
      | SYNC_MEILI \<Rightarrow>
          if c = ForcedSyncMeiliFailure then ''forced_sync_meili_failure''
          else if c = MeilisearchSyncTimeoutError then ''sync_meili_timeout''
          else if c = MeilisearchSyncConflictError then ''sync_meili_conflict''
          else if c = MeilisearchSyncMalformedResponseError then ''sync_meili_malformed_payload''
          else ''sync_meili_provider_blocked''
      | INGEST \<Rightarrow> ''ocr_stage_failed'')"

definition is_replayable_failure :: "stage \<Rightarrow> exn_class \<Rightarrow> bool" where
  "is_replayable_failure s c =
     (if c = StorageObjectMissingError then False
      else case s of
        TRANSCODE \<Rightarrow> c \<noteq> MediaValidationError
      | EMBED \<Rightarrow>
          if is_merge_transaction_error c then True
          else \<not> (c = VoyageMalformedResponseError \<or> c = QdrantMalformedResponseError \<or> is_pipeline_ingest_error c)
      | CLASSIFY \<Rightarrow> \<not> is_pipeline_ingest_error c
      | SYNC_QDRANT \<Rightarrow> if c = QdrantSyncMalformedResponseError then False else \<not> is_pipeline_ingest_error c
      | SYNC_MEILI \<Rightarrow> if c = MeilisearchSyncMalformedResponseError then False else \<not> is_pipeline_ingest_error c
      | _ \<Rightarrow> \<not> is_pipeline_ingest_error c)"

text \<open>\<open>exc.__class__.__name__\<close>, which the classes' constructors spell.\<close>

fun exn_name :: "exn_class \<Rightarrow> text_value" where
  "exn_name StorageObjectMissingError = ''StorageObjectMissingError''"
| "exn_name StorageConnectionError = ''StorageConnectionError''"
| "exn_name ForcedTranscodeFailure = ''ForcedTranscodeFailure''"
| "exn_name ForcedEmbedFailure = ''ForcedEmbedFailure''"
| "exn_name ForcedClassifyFailure = ''ForcedClassifyFailure''"
| "exn_name ForcedSyncQdrantFailure = ''ForcedSyncQdrantFailure''"
| "exn_name ForcedSyncMeiliFailure = ''ForcedSyncMeiliFailure''"
| "exn_name MediaProcessingError = ''MediaProcessingError''"
| "exn_name MediaTimeoutError = ''MediaTimeoutError''"
| "exn_name MediaValidationError = ''MediaValidationError''"
| "exn_name OCRProcessingError = ''OCRProcessingError''"
| "exn_name OCRTimeoutError = ''OCRTimeoutError''"
| "exn_name OCRProviderUnavailableError = ''OCRProviderUnavailableError''"
| "exn_name OCRMalformedOutputError = ''OCRMalformedOutputError''"
| "exn_name VoyageEmbeddingError = ''VoyageEmbeddingError''"
| "exn_name VoyageProviderUnavailableError = ''VoyageProviderUnavailableError''"
| "exn_name VoyageTimeoutError = ''VoyageTimeoutError''"
| "exn_name VoyageMalformedResponseError = ''VoyageMalformedResponseError''"
| "exn_name QdrantSimilarityError = ''QdrantSimilarityError''"
| "exn_name QdrantProviderUnavailableError = ''QdrantProviderUnavailableError''"
| "exn_name QdrantTimeoutError = ''QdrantTimeoutError''"
| "exn_name QdrantMalformedResponseError = ''QdrantMalformedResponseError''"
| "exn_name QdrantSyncProviderUnavailableError = ''QdrantSyncProviderUnavailableError''"
| "exn_name QdrantSyncTimeoutError = ''QdrantSyncTimeoutError''"
| "exn_name QdrantSyncMalformedResponseError = ''QdrantSyncMalformedResponseError''"
| "exn_name QdrantSyncConflictError = ''QdrantSyncConflictError''"
| "exn_name MeilisearchSyncProviderUnavailableError = ''MeilisearchSyncProviderUnavailableError''"
| "exn_name MeilisearchSyncTimeoutError = ''MeilisearchSyncTimeoutError''"
| "exn_name MeilisearchSyncMalformedResponseError = ''MeilisearchSyncMalformedResponseError''"
| "exn_name MeilisearchSyncConflictError = ''MeilisearchSyncConflictError''"
| "exn_name ClassificationError = ''ClassificationError''"
| "exn_name ClassificationProviderUnavailableError = ''ClassificationProviderUnavailableError''"
| "exn_name ClassificationTimeoutError = ''ClassificationTimeoutError''"
| "exn_name ClassificationMalformedResponseError = ''ClassificationMalformedResponseError''"
| "exn_name MediaGenerationError = ''MediaGenerationError''"
| "exn_name (DependencyCircuitOpenError _) = ''DependencyCircuitOpenError''"
| "exn_name (ServiceFailure (PipelineIngestError _)) = ''PipelineIngestError''"
| "exn_name (ServiceFailure (PipelineItemNotFoundError _)) = ''PipelineItemNotFoundError''"
| "exn_name (ServiceFailure (PipelineReplayNotAllowedError _)) = ''PipelineReplayNotAllowedError''"
| "exn_name (ServiceFailure PipelineMergeTransactionError) = ''PipelineMergeTransactionError''"
| "exn_name (ServiceFailure (MediaGenerationConflictError _)) = ''MediaGenerationConflictError''"
| "exn_name (ServiceFailure (ValidationError _)) = ''ValidationError''"
| "exn_name (ServiceFailure (RabbitOutboxError _)) = ''RabbitOutboxError''"
| "exn_name (ServiceFailure SQLAlchemyError) = ''SQLAlchemyError''"
| "exn_name (OtherException n) = n"

definition render_error_text :: "exn \<Rightarrow> text_value" where
  "render_error_text e = (if py_strip (ex_text e) \<noteq> [] then py_strip (ex_text e) else exn_name (ex_class e))"

section \<open>Broker payloads\<close>

text \<open>\<open>coerce_dead_letter_payload\<close>; the dump of a dict with sorted keys is the codec's.\<close>

fun coerce_dead_letter_payload :: "codecs \<Rightarrow> pyval \<Rightarrow> pyval" where
  "coerce_dead_letter_payload cd PyNone = PyNone"
| "coerce_dead_letter_payload cd (PyDict d) = PyStr (cd_json_dumps cd d)"
| "coerce_dead_letter_payload cd (PyList vs) = PyStr (py_str cd (PyList vs))"
| "coerce_dead_letter_payload cd (PyObject t) = PyStr t"
| "coerce_dead_letter_payload cd v = v"

text \<open>\<open>fresh\<close> is the \<open>uuid7\<close> drawn for a payload without a readable event id.\<close>

definition extract_event_reference :: "uuid \<Rightarrow> pyval \<Rightarrow> (uuid \<times> stage \<times> int \<times> uuid) option" where
  "extract_event_reference fresh payload =
     (case payload of
        PyDict d \<Rightarrow>
          (case (dict_get d ''meme_file_id'', dict_get d ''stage'') of
             (PyStr raw_file, PyStr raw_stage) \<Rightarrow>
               (case (uuid_read raw_file, stage_of_text raw_stage) of
                  (Some f, Some s) \<Rightarrow>
                    Some (f, s,
                      (case dict_get d ''attempt'' of
                         PyInt n \<Rightarrow> if n \<ge> 1 then n else 1
                       | _ \<Rightarrow> 1),
                      (case dict_get d ''event_id'' of
                         PyStr raw \<Rightarrow> (case uuid_read raw of Some u \<Rightarrow> u | None \<Rightarrow> fresh)
                       | _ \<Rightarrow> fresh))
                | _ \<Rightarrow> None)
           | _ \<Rightarrow> None)
      | _ \<Rightarrow> None)"

section \<open>The taxonomy\<close>

lemma render_error_text_nonempty: "render_error_text e \<noteq> [] \<or> exn_name (ex_class e) = []"
  by (simp add: render_error_text_def)

text \<open>A reason that promises the operator nothing is wrong with the input belongs to a retryable failure.\<close>

lemma timeouts_are_replayable:
  "normalize_failure_reason s c \<in>
     {''transcode_timeout'', ''ocr_timeout'', ''embed_timeout'', ''embed_similarity_timeout'',
      ''classify_timeout'', ''sync_qdrant_timeout'', ''sync_meili_timeout''} \<Longrightarrow> is_replayable_failure s c"
  by (cases s)
    (auto simp: normalize_failure_reason_def is_replayable_failure_def PIPELINE_REASON_SOURCE_OBJECT_MISSING_def
      is_merge_transaction_error_def split: if_splits)

end
