(* ===== verification/Worker_Stages.thy ===== *)
theory Worker_Stages
  imports Worker_Errors Stage_Invariants
begin

text \<open>
  The stage handlers the workers run (\<open>workers/pipeline_runtime/stages/*.py\<close>,
  \<open>workers/pipeline_runtime/stage_registry.py\<close>). The clients they call (object storage, FFmpeg, OCR, Voyage,
  Qdrant, Meilisearch, the classifier) and the search-index documents are the parameters \<open>providers\<close>;
  a handler is a function of them, its work context and the database, and ends with an exception or
  normally. Bytes are text.
\<close>

type_synonym 'a run = "(exn + 'a) \<times> db"

record normalized_output =
  no_media :: normalized_media
  no_video_bytes :: "text_value option"
  no_preview_bytes :: "text_value option"

record providers =
  pv_forced_failure :: "stage \<Rightarrow> text_value option"
  pv_download :: "text_value \<Rightarrow> exn + text_value"
  pv_upload :: "text_value \<Rightarrow> text_value \<Rightarrow> exn option"
  pv_delete :: "text_value \<Rightarrow> exn option"
  pv_observed_size :: "text_value \<Rightarrow> exn + int option"
  pv_supports_reservation :: bool
  pv_normalize :: "uuid \<Rightarrow> text_value \<Rightarrow> text_value \<Rightarrow> text_value \<Rightarrow> uuid option \<Rightarrow> exn + normalized_output"
  pv_preview_frame :: "text_value \<Rightarrow> text_value \<Rightarrow> text_value \<Rightarrow> exn + text_value"
  pv_extract_text :: "text_value \<Rightarrow> text_value \<Rightarrow> text_value \<Rightarrow> text_value \<Rightarrow> exn + ocr_result"
  pv_embed_image :: "text_value \<Rightarrow> exn + embedding_result"
  pv_find_similar :: "rat list \<Rightarrow> uuid \<Rightarrow> merge_scope \<Rightarrow> exn + similarity_match list"
  pv_classify_image :: "text_value \<Rightarrow> exn + bool"
  pv_sync_inputs :: "sync_target \<Rightarrow> db \<Rightarrow> uuid \<Rightarrow> exn + text_value"
  pv_upsert :: "sync_target \<Rightarrow> text_value \<Rightarrow> exn option"
  pv_fetch :: "sync_target \<Rightarrow> uuid \<Rightarrow> exn + ((text_value \<times> jval) list) option"
  pv_cleanup_storage :: "text_value \<Rightarrow> safe_error option"
  pv_cleanup_others :: "db \<Rightarrow> db"
  pv_sanitize :: "text_value \<Rightarrow> text_value option"
  pv_service_text :: "pipeline_error \<Rightarrow> text_value"

definition service_exn :: "providers \<Rightarrow> pipeline_error \<Rightarrow> exn" where
  "service_exn pv err = \<lparr>ex_class = ServiceFailure err, ex_text = pv_service_text pv err\<rparr>"

text \<open>A call of a database service inside a handler: its error is the handler's exception.\<close>

definition service_run :: "providers \<Rightarrow> 'a outcome \<Rightarrow> 'a run" where
  "service_run pv r = (map_sum (service_exn pv) id (fst r), snd r)"

definition media_validation :: "text_value \<Rightarrow> exn" where
  "media_validation t = \<lparr>ex_class = MediaValidationError, ex_text = t\<rparr>"

fun forced_failure_class :: "stage \<Rightarrow> exn_class" where
  "forced_failure_class TRANSCODE = ForcedTranscodeFailure"
| "forced_failure_class EMBED = ForcedEmbedFailure"
| "forced_failure_class CLASSIFY = ForcedClassifyFailure"
| "forced_failure_class SYNC_QDRANT = ForcedSyncQdrantFailure"
| "forced_failure_class SYNC_MEILI = ForcedSyncMeiliFailure"
| "forced_failure_class s = OtherException ''RuntimeError''"

text \<open>The development knob that fails one stage of one file; INGEST and OCR have none.\<close>

definition forced_failure :: "providers \<Rightarrow> stage \<Rightarrow> uuid \<Rightarrow> exn option" where
  "forced_failure pv s f =
     (if s \<in> {INGEST, OCR} then None
      else case pv_forced_failure pv s of
        None \<Rightarrow> None
      | Some target \<Rightarrow>
          if target = uuid_text f
          then Some \<lparr>ex_class = forced_failure_class s,
                     ex_text = ''Forced '' @ stage_value s @ '' failure requested by pipeline_worker_fail_'' @
                       stage_value s @ ''_for_meme_file_id.''\<rparr>
          else None)"

text \<open>\<open>PurePosixPath(key).name\<close>: the text behind the last slash, of a key without a trailing one.\<close>

definition posix_name :: "text_value \<Rightarrow> text_value" where
  "posix_name key = rev (takeWhile (\<lambda>c. c \<noteq> CHR ''/'') (dropWhile (\<lambda>c. c = CHR ''/'') (rev key)))"

section \<open>Media sources\<close>

definition resolve_stage_media_source :: "stage_work_context \<Rightarrow> pipeline_error + (text_value \<times> text_value)" where
  "resolve_stage_media_source ctx =
     (case wc_web_video_key ctx of
        Some key \<Rightarrow> Inr (key, ''video/mp4'')
      | None \<Rightarrow>
          (case wc_mime_type ctx of
             None \<Rightarrow> Inl (PipelineIngestError MediaTypeMissing)
           | Some mime \<Rightarrow> Inr (wc_original_key ctx, mime)))"

definition load_preview_frame :: "providers \<Rightarrow> stage_work_context \<Rightarrow> exn + text_value" where
  "load_preview_frame pv ctx =
     (case resolve_stage_media_source ctx of
        Inl err \<Rightarrow> Inl (service_exn pv err)
      | Inr (key, mime) \<Rightarrow>
          (case pv_download pv key of
             Inl e \<Rightarrow> Inl e
           | Inr bytes \<Rightarrow> pv_preview_frame pv (posix_name key) mime bytes))"

section \<open>OCR, embedding and classification\<close>

definition run_ocr_stage ::
  "env \<Rightarrow> providers \<Rightarrow> dispatch_event \<Rightarrow> stage_work_context \<Rightarrow> int \<Rightarrow> db \<Rightarrow> unit run" where
  "run_ocr_stage env pv ev ctx attempt d =
     (case resolve_stage_media_source ctx of
        Inl err \<Rightarrow> (Inl (service_exn pv err), d)
      | Inr (key, mime) \<Rightarrow>
     (case pv_download pv key of
        Inl e \<Rightarrow> (Inl e, d)
      | Inr bytes \<Rightarrow>
     (case pv_extract_text pv (posix_name key) mime bytes key of
        Inl e \<Rightarrow> (Inl e, d)
      | Inr result \<Rightarrow>
          service_run pv (complete_ocr_stage env (ev_file ev) attempt (ev_id ev) result d))))"

definition embed_matches :: "providers \<Rightarrow> dispatch_event \<Rightarrow> embedding_result \<Rightarrow> db \<Rightarrow> exn + similarity_match list" where
  "embed_matches pv ev result d =
     (case Option.bind (get_file d (ev_file ev)) (\<lambda>file. get_meme d (mf_meme_id file)) of
        None \<Rightarrow> Inr []
      | Some m \<Rightarrow>
          (let scope = load_approximate_merge_scope d m
           in if can_match scope then pv_find_similar pv (er_vector result) (ev_file ev) scope else Inr []))"

definition run_embed_stage ::
  "env \<Rightarrow> providers \<Rightarrow> dispatch_event \<Rightarrow> stage_work_context \<Rightarrow> int \<Rightarrow> db \<Rightarrow> unit run" where
  "run_embed_stage env pv ev ctx attempt d =
     (case forced_failure pv EMBED (ev_file ev) of
        Some e \<Rightarrow> (Inl e, d)
      | None \<Rightarrow>
     (case load_preview_frame pv ctx of
        Inl e \<Rightarrow> (Inl e, d)
      | Inr frame \<Rightarrow>
     (case pv_embed_image pv frame of
        Inl e \<Rightarrow> (Inl e, d)
      | Inr result \<Rightarrow>
     (case embed_matches pv ev result d of
        Inl e \<Rightarrow> (Inl e, d)
      | Inr matches \<Rightarrow>
          service_run pv (drop_value (complete_embed_stage env (ev_file ev) attempt (ev_id ev) result matches d))))))"

definition run_classify_stage ::
  "env \<Rightarrow> providers \<Rightarrow> dispatch_event \<Rightarrow> stage_work_context \<Rightarrow> int \<Rightarrow> db \<Rightarrow> unit run" where
  "run_classify_stage env pv ev ctx attempt d =
     (case forced_failure pv CLASSIFY (ev_file ev) of
        Some e \<Rightarrow> (Inl e, d)
      | None \<Rightarrow>
     (case load_preview_frame pv ctx of
        Inl e \<Rightarrow> (Inl e, d)
      | Inr frame \<Rightarrow>
     (case pv_classify_image pv frame of
        Inl e \<Rightarrow> (Inl e, d)
      | Inr nsfw \<Rightarrow>
          service_run pv (complete_classify_stage env (ev_file ev) attempt (ev_id ev) nsfw d))))"

section \<open>Sync targets\<close>

text \<open>The best-effort record of a failure: an exception of its own is dropped.\<close>

definition record_sync_failure ::
  "env \<Rightarrow> sync_target \<Rightarrow> dispatch_event \<Rightarrow> int \<Rightarrow> exn \<Rightarrow> db \<Rightarrow> db" where
  "record_sync_failure env t ev attempt e d =
     snd (fail_sync_target_stage env t (ev_file ev) attempt (ev_id ev)
            (normalize_failure_reason (SYNC_STAGE_BY_TARGET t) (ex_class e)) (render_error_text e) d)"

definition sync_inputs_missing :: "providers \<Rightarrow> exn" where
  "sync_inputs_missing pv = service_exn pv (PipelineIngestError CanonicalStateUnreadable)"

text \<open>
  \<open>run_sync_qdrant_stage\<close> and \<open>run_sync_meili_stage\<close>. Their \<open>except PipelinePublishError: raise\<close> stands for no behaviour: no
  code of the repository raises that class, so every error of the completion takes the recording branch.
\<close>

definition run_sync_stage ::
  "env \<Rightarrow> providers \<Rightarrow> sync_target \<Rightarrow> dispatch_event \<Rightarrow> stage_work_context \<Rightarrow> int \<Rightarrow> db \<Rightarrow> unit run" where
  "run_sync_stage env pv t ev ctx attempt d =
     (case forced_failure pv (SYNC_STAGE_BY_TARGET t) (ev_file ev) of
        Some e \<Rightarrow> (Inl e, d)
      | None \<Rightarrow>
     (case pv_sync_inputs pv t d (ev_file ev) of
        Inl e \<Rightarrow> (Inl e, record_sync_failure env t ev attempt (sync_inputs_missing pv) d)
      | Inr document \<Rightarrow>
     (case pv_upsert pv t document of
        Some e \<Rightarrow> (Inl e, record_sync_failure env t ev attempt e d)
      | None \<Rightarrow>
          (let preview = (case pv_fetch pv t (ev_file ev) of Inr (Some shown) \<Rightarrow> shown | _ \<Rightarrow> [])
           in case service_run pv (drop_value (complete_sync_target_stage env t (ev_file ev) attempt (ev_id ev) preview d)) of
                (Inr _, d') \<Rightarrow> (Inr (), d')
              | (Inl e, d') \<Rightarrow> (Inl e, record_sync_failure env t ev attempt e d')))))"
section \<open>Transcoding\<close>

text \<open>The checks on a normalized result, in the order of the code.\<close>

definition normalized_problem :: "bool \<Rightarrow> uuid option \<Rightarrow> normalized_output \<Rightarrow> exn option" where
  "normalized_problem moving generation n =
     (let has_video_key = (nm_web_video_key (no_media n) \<noteq> None);
          has_preview_key = (nm_preview_key (no_media n) \<noteq> None)
      in if has_video_key \<noteq> (no_video_bytes n \<noteq> None)
           then Some (media_validation ''Normalized media result has an incomplete web-video derivative.'')
         else if has_preview_key \<noteq> (no_preview_bytes n \<noteq> None)
           then Some (media_validation ''Normalized media result has an incomplete preview-image derivative.'')
         else if has_video_key \<noteq> has_preview_key
           then Some (media_validation ''Moving-media normalization must produce both playback and preview derivatives.'')
         else if moving \<and> \<not> has_video_key
           then Some (media_validation ''Moving-media normalization must produce immutable playback and preview derivatives.'')
         else if generation \<noteq> None \<and> nm_generation_id (no_media n) \<noteq> generation
           then Some (media_validation ''Normalized media does not match the reserved generation.'')
         else None)"

definition upload_derivative :: "providers \<Rightarrow> text_value option \<Rightarrow> text_value option \<Rightarrow> exn option" where
  "upload_derivative pv key bytes =
     (case (key, bytes) of (Some k, Some b) \<Rightarrow> pv_upload pv k b | _ \<Rightarrow> None)"

definition generation_error :: "text_value \<Rightarrow> exn" where
  "generation_error t = \<lparr>ex_class = MediaGenerationError, ex_text = t\<rparr>"

definition verify_uploaded_generation_object :: "providers \<Rightarrow> text_value \<Rightarrow> nat \<Rightarrow> exn option" where
  "verify_uploaded_generation_object pv key expected =
     (if expected = 0
      then Some (generation_error ''A generation object cannot be verified with an empty expected size.'')
      else
        (case pv_observed_size pv key of
           Inl e \<Rightarrow>
             if ex_class e = MediaGenerationError then Some e
             else Some (generation_error ''Could not verify an uploaded generation object.'')
         | Inr observed \<Rightarrow>
             if observed \<noteq> Some (int expected)
             then Some (generation_error (''An uploaded generation object has size '' @
               (case observed of None \<Rightarrow> ''None'' | Some n \<Rightarrow> int_text n) @ ''; expected '' @
               int_text (int expected) @ ''.''))
             else None))"

definition verify_derivative :: "providers \<Rightarrow> text_value option \<Rightarrow> text_value option \<Rightarrow> exn option" where
  "verify_derivative pv key bytes =
     (case (key, bytes) of
        (Some k, Some b) \<Rightarrow> verify_uploaded_generation_object pv k (length b)
      | _ \<Rightarrow> Some \<lparr>ex_class = OtherException ''AssertionError'', ex_text = []\<rparr>)"

text \<open>
  The guarded part of \<open>run_transcode_stage\<close>, from the download to the completion: how it ended, the
  normalized result if the normalization returned, and the database.
\<close>

definition transcode_steps ::
  "env \<Rightarrow> providers \<Rightarrow> dispatch_event \<Rightarrow> stage_work_context \<Rightarrow> text_value \<Rightarrow> bool \<Rightarrow> uuid option \<Rightarrow> int \<Rightarrow> db \<Rightarrow>
     (exn + unit) \<times> normalized_output option \<times> db" where
  "transcode_steps env pv ev ctx mime moving generation attempt d =
     (case pv_download pv (wc_original_key ctx) of
        Inl e \<Rightarrow> (Inl e, None, d)
      | Inr bytes \<Rightarrow>
     (case pv_normalize pv (ev_file ev) (posix_name (wc_original_key ctx)) mime bytes generation of
        Inl e \<Rightarrow> (Inl e, None, d)
      | Inr n \<Rightarrow>
     (case normalized_problem moving generation n of
        Some e \<Rightarrow> (Inl e, Some n, d)
      | None \<Rightarrow>
     (case (case generation of
              None \<Rightarrow> (Inr (), d)
            | Some g \<Rightarrow> service_run pv (record_verified env g (no_media n) d)) of
        (Inl e, d1) \<Rightarrow> (Inl e, Some n, d1)
      | (Inr _, d1) \<Rightarrow>
     (case upload_derivative pv (nm_preview_key (no_media n)) (no_preview_bytes n) of
        Some e \<Rightarrow> (Inl e, Some n, d1)
      | None \<Rightarrow>
     (case upload_derivative pv (nm_web_video_key (no_media n)) (no_video_bytes n) of
        Some e \<Rightarrow> (Inl e, Some n, d1)
      | None \<Rightarrow>
     (case (case generation of
              None \<Rightarrow> (Inr (), d1)
            | Some g \<Rightarrow>
                (case verify_derivative pv (nm_preview_key (no_media n)) (no_preview_bytes n) of
                   Some e \<Rightarrow> (Inl e, d1)
                 | None \<Rightarrow>
                     (case verify_derivative pv (nm_web_video_key (no_media n)) (no_video_bytes n) of
                        Some e \<Rightarrow> (Inl e, d1)
                      | None \<Rightarrow> service_run pv (record_uploaded env g d1)))) of
        (Inl e, d2) \<Rightarrow> (Inl e, Some n, d2)
      | (Inr _, d2) \<Rightarrow>
          (case service_run pv (complete_transcode_stage env (ev_file ev) attempt (ev_id ev) (no_media n) d2) of
             (Inl e, d3) \<Rightarrow> (Inl e, Some n, d3)
           | (Inr _, d3) \<Rightarrow> (Inr (), Some n, d3)))))))))"

fun is_generation_conflict :: "exn_class \<Rightarrow> bool" where
  "is_generation_conflict (ServiceFailure (MediaGenerationConflictError c)) = True"
| "is_generation_conflict _ = False"

definition to_safe_error :: "providers \<Rightarrow> exn \<Rightarrow> safe_error" where
  "to_safe_error pv e = \<lparr>se_type = exn_name (ex_class e), se_text = pv_sanitize pv (ex_text e)\<rparr>"

text \<open>
  The except branch: a reserved generation is fenced and cleaned up; without one the derivatives are
  deleted, and an error of the deletion takes the place of the exception.
\<close>

fun delete_derivatives :: "providers \<Rightarrow> text_value option list \<Rightarrow> exn option" where
  "delete_derivatives pv [] = None"
| "delete_derivatives pv (k # ks) =
     (case Option.bind k (pv_delete pv) of Some e \<Rightarrow> Some e | None \<Rightarrow> delete_derivatives pv ks)"

definition transcode_failed ::
  "env \<Rightarrow> providers \<Rightarrow> uuid option \<Rightarrow> exn \<Rightarrow> normalized_output option \<Rightarrow> db \<Rightarrow> unit run" where
  "transcode_failed env pv generation e n d =
     (case generation of
        Some g \<Rightarrow>
          (Inl e, snd (snd (fail_and_cleanup_unactivated_generation env (pv_cleanup_storage pv)
                              (pv_cleanup_others pv) g (to_safe_error pv e) (is_generation_conflict (ex_class e)) d)))
      | None \<Rightarrow>
          (case delete_derivatives pv
                  (case n of None \<Rightarrow> []
                   | Some x \<Rightarrow> [nm_preview_key (no_media x), nm_web_video_key (no_media x)]) of
             Some e' \<Rightarrow> (Inl e', d)
           | None \<Rightarrow> (Inl e, d)))"

definition run_transcode_stage ::
  "env \<Rightarrow> providers \<Rightarrow> dispatch_event \<Rightarrow> stage_work_context \<Rightarrow> int \<Rightarrow> db \<Rightarrow> unit run" where
  "run_transcode_stage env pv ev ctx attempt d =
     (case forced_failure pv TRANSCODE (ev_file ev) of
        Some e \<Rightarrow> (Inl e, d)
      | None \<Rightarrow>
     (case wc_mime_type ctx of
        None \<Rightarrow>
          (Inl (media_validation ''Pipeline item is missing the original media type required for transcode.''), d)
      | Some mime \<Rightarrow>
          (let moving = (py_lower mime \<in> set SUPPORTED_MOVING_MEDIA_MIME_TYPES)
           in if moving \<and> \<not> pv_supports_reservation pv
              then (Inl (media_validation ''Moving-media normalization requires immutable generation reservation support.''), d)
              else
                (case (if moving
                       then map_prod (map_sum id (\<lambda>g. Some (mg_id g))) id
                              (service_run pv (reserve_generation env (ev_file ev) (wc_web_video_key ctx)
                                 (wc_recovery_item ctx) (wc_retry_limit ctx) d))
                       else (Inr None, d)) of
                   (Inl e, d1) \<Rightarrow> (Inl e, d1)
                 | (Inr generation, d1) \<Rightarrow>
                     (case transcode_steps env pv ev ctx mime moving generation attempt d1 of
                        (Inr _, _, d2) \<Rightarrow> (Inr (), d2)
                      | (Inl e, n, d2) \<Rightarrow> transcode_failed env pv generation e n d2)))))"

section \<open>The registry\<close>

definition run_stage_for ::
  "env \<Rightarrow> providers \<Rightarrow> dispatch_event \<Rightarrow> stage_work_context \<Rightarrow> int \<Rightarrow> db \<Rightarrow> unit run" where
  "run_stage_for env pv ev ctx attempt d =
     (case ev_stage ev of
        TRANSCODE \<Rightarrow> run_transcode_stage env pv ev ctx attempt d
      | OCR \<Rightarrow> run_ocr_stage env pv ev ctx attempt d
      | EMBED \<Rightarrow> run_embed_stage env pv ev ctx attempt d
      | CLASSIFY \<Rightarrow> run_classify_stage env pv ev ctx attempt d
      | SYNC_QDRANT \<Rightarrow> run_sync_stage env pv QDRANT ev ctx attempt d
      | SYNC_MEILI \<Rightarrow> run_sync_stage env pv MEILISEARCH ev ctx attempt d
      | INGEST \<Rightarrow> (Inl (service_exn pv (PipelineIngestError StageNotExecutable)), d))"

end
