(* ===== verification/Worker_Delivery.thy ===== *)
theory Worker_Delivery
  imports Worker_Stages Stage_Recovery
begin

text \<open>
  One delivery at a worker (\<open>workers/pipeline_runtime/runtime.py\<close>): the attempt number from the broker's
  death headers, starting the stage, the dependency circuit, the stage handler, the durable record of a
  failure, and what the broker is told. Acknowledgement is manual: a delivery whose handler raises is
  neither acknowledged nor rejected.
\<close>

section \<open>Messages and settings\<close>

record rabbit_message =
  rm_headers :: "(text_value \<times> pyval) list"
  rm_id :: "text_value option"

datatype delivery_body = EventBody dispatch_event | RawBody pyval

datatype settlement = Acked | RejectedForRetry | Requeued | Unsettled exn

record worker_state =
  ws_db :: db
  ws_circuits :: circuits
  ws_ledger :: "dead_letter list"

text \<open>
  The worker's environment: one environment per database session of the delivery (\<open>we_start\<close>, \<open>we_work\<close>,
  \<open>we_fail\<close>), the queue names, the circuit and retry settings, whether the writes the code guards by its
  own except branch succeed, and which recovery items belong to a job that is being cancelled.
\<close>

record worker_env =
  we_start :: env
  we_work :: env
  we_fail :: env
  we_providers :: providers
  we_codecs :: codecs
  we_retry_queue :: "stage \<Rightarrow> text_value"
  we_owner :: text_value
  we_failure_threshold :: int
  we_cooldown :: int
  we_success_recorded :: bool
  we_failure_recorded :: bool
  we_ledger_ok :: bool
  we_ledger_id :: uuid
  we_fresh_reference :: uuid
  we_cancelling :: "recovery_item \<Rightarrow> bool"
  we_qualified_name :: "exn_class \<Rightarrow> text_value"
  we_time_text :: "time \<Rightarrow> text_value"

section \<open>Attempt numbers\<close>

definition queue_death_count :: "pyval \<Rightarrow> int" where
  "queue_death_count raw =
     (case raw of
        PyInt n \<Rightarrow> max n 0
      | PyBool b \<Rightarrow> if b then 1 else 0
      | PyFloat q \<Rightarrow> max (py_trunc q) 0
      | PyStr t \<Rightarrow> (case py_int t of None \<Rightarrow> 0 | Some n \<Rightarrow> max n 0)
      | _ \<Rightarrow> 0)"

fun retry_cycle_entries :: "text_value \<Rightarrow> pyval list \<Rightarrow> int" where
  "retry_cycle_entries queue [] = 0"
| "retry_cycle_entries queue (PyDict d # es) =
     (if dict_get d ''queue'' = PyStr queue \<and> dict_get d ''reason'' = PyStr ''expired''
      then queue_death_count (dict_get d ''count'') else retry_cycle_entries queue es)"
| "retry_cycle_entries queue (e # es) = retry_cycle_entries queue es"

definition retry_cycle_count_for_queue :: "text_value \<Rightarrow> (text_value \<times> pyval) list \<Rightarrow> int" where
  "retry_cycle_count_for_queue queue headers =
     (case dict_get headers ''x-death'' of PyList es \<Rightarrow> retry_cycle_entries queue es | _ \<Rightarrow> 0)"

definition retry_cycle_count :: "worker_env \<Rightarrow> stage \<Rightarrow> (text_value \<times> pyval) list \<Rightarrow> int" where
  "retry_cycle_count we s headers =
     (case dict_get headers ''x-death'' of
        PyList _ \<Rightarrow> if s = INGEST then 0 else retry_cycle_count_for_queue (we_retry_queue we s) headers
      | _ \<Rightarrow> 0)"

definition effective_attempt :: "worker_env \<Rightarrow> dispatch_event \<Rightarrow> rabbit_message \<Rightarrow> int" where
  "effective_attempt we ev msg = max (ev_attempt ev + retry_cycle_count we (ev_stage ev) (rm_headers msg)) 1"

section \<open>Dead letters and budgets\<close>

fun source_kind_value :: "content_source_kind \<Rightarrow> text_value" where
  "source_kind_value EXTERNAL_SITE = ''external_site''"
| "source_kind_value MANUAL_UPLOAD = ''manual_upload''"
| "source_kind_value SOURCE_TELEGRAM = ''telegram''"
| "source_kind_value WEB_CRAWL = ''web_crawl''"

text \<open>\<open>dispatch_event.model_dump(mode="json")\<close>.\<close>

definition event_json :: "worker_env \<Rightarrow> dispatch_event \<Rightarrow> (text_value \<times> pyval) list" where
  "event_json we ev =
     [(''event_id'', PyStr (uuid_text (ev_id ev))), (''event_type'', PyStr (event_type_value (ev_type ev))),
      (''meme_id'', PyStr (uuid_text (ev_meme ev))), (''meme_file_id'', PyStr (uuid_text (ev_file ev))),
      (''stage'', PyStr (stage_value (ev_stage ev))), (''source_kind'', PyStr (source_kind_value (ev_source_kind ev))),
      (''original_object_key'', PyStr (ev_original_key ev)), (''attempt'', PyInt (ev_attempt ev)),
      (''created_at'', PyStr (we_time_text we (ev_created_at ev)))]"

definition dead_delivery_of :: "worker_env \<Rightarrow> rabbit_message \<Rightarrow> pyval \<Rightarrow> text_value \<Rightarrow> db \<Rightarrow> dead_delivery" where
  "dead_delivery_of we msg payload reason d =
     \<lparr>dd_now = env_now (we_fail we), dd_fresh = we_ledger_id we, dd_db = d, dd_payload = payload,
      dd_headers = Some (rm_headers msg), dd_broker_id = rm_id msg, dd_reason = reason\<rparr>"

text \<open>
  \<open>_dead_letter_or_requeue\<close>. The legacy dead-letter publication after the record does not change what the
  broker is told.
\<close>

definition dead_letter_or_requeue ::
  "worker_env \<Rightarrow> rabbit_message \<Rightarrow> pyval \<Rightarrow> text_value \<Rightarrow> worker_state \<Rightarrow> settlement \<times> worker_state" where
  "dead_letter_or_requeue we msg payload reason ws =
     (if we_ledger_ok we
      then (Acked, ws\<lparr>ws_ledger := record_delivery (we_codecs we)
              (dead_delivery_of we msg payload reason (ws_db ws)) (ws_ledger ws)\<rparr>)
      else (Requeued, ws))"

text \<open>The publication failures of the message an ingest recovery was dispatched under.\<close>

definition ingest_publication_failures :: "db \<Rightarrow> recovery_item \<Rightarrow> int" where
  "ingest_publication_failures d item =
     (case (ri_dispatch_event_id item, ri_attempt_budget_start item) of
        (Some ev, Some start) \<Rightarrow>
          (case find (\<lambda>m. ob_message_id m = MsgUuid ev) (db_outbox d) of
             None \<Rightarrow> 0
           | Some m \<Rightarrow>
               (case ob_status m of
                  OUTBOX_FAILED \<Rightarrow> max (ob_attempt_count m - start + 1) 0
                | OUTBOX_PUBLISHED \<Rightarrow> max (ob_attempt_count m - start) 0
                | _ \<Rightarrow> 0))
      | _ \<Rightarrow> 0)"

definition recovery_retry_attempt_ceiling :: "db \<Rightarrow> uuid \<Rightarrow> int \<Rightarrow> int" where
  "recovery_retry_attempt_ceiling d ev fallback =
     (case load_recovery_item d ev of
        None \<Rightarrow> fallback
      | Some item \<Rightarrow>
          (case recovery_stage_worker_attempt_ceiling item of
             None \<Rightarrow> fallback
           | Some limit \<Rightarrow>
               if ri_work_kind item = WORK_INGEST_REQUEST
               then
                 (let consumed = (case ri_previous_stage_state item NON_STAGE_BUDGET_BASE_KEY of
                                    Some (JInt base) \<Rightarrow> if base \<ge> 0 then base else 0
                                  | Some (JBool b) \<Rightarrow> if b then 1 else 0
                                  | _ \<Rightarrow> 0) + ingest_publication_failures d item
                  in max (ri_retry_limit item - consumed) 1)
               else limit))"

text \<open>
  \<open>_finalize_failure_for_cancelling_recovery\<close>: under a job that is being cancelled, a dispatched item fails
  for good; whether the retry is to stop. \<open>we_cancelling i\<close> is the read of the job row of \<open>i\<close>, a table this state does not
  hold: that its status is cancelling.
\<close>

definition cancelled_item :: "worker_env \<Rightarrow> text_value \<Rightarrow> exn \<Rightarrow> recovery_item \<Rightarrow> recovery_item" where
  "cancelled_item we reason e i =
     i\<lparr>ri_status := ITEM_FAILED, ri_normalized_reason := Some (take 128 reason),
       ri_safe_error_text := pv_sanitize (we_providers we) (ex_text e),
       ri_finished_at := Some (env_now (we_fail we)), ri_reservation_active := False\<rparr>"

definition finalize_failure_for_cancelling_recovery ::
  "worker_env \<Rightarrow> uuid \<Rightarrow> text_value \<Rightarrow> exn \<Rightarrow> db \<Rightarrow> bool \<times> db" where
  "finalize_failure_for_cancelling_recovery we ev reason e d =
     (case load_recovery_item d ev of
        None \<Rightarrow> (False, d)
      | Some i \<Rightarrow>
          if \<not> we_cancelling we i then (False, d)
          else
            (let i' = (if ri_status i = ITEM_DISPATCHED then cancelled_item we reason e i else i)
             in (ri_status i' \<in> {ITEM_FAILED, ITEM_SKIPPED_STALE, ITEM_SKIPPED_DEPENDENCY, ITEM_CANCELLED},
                 put_recovery i' d)))"

section \<open>Processing a delivery\<close>

definition error_fingerprint :: "worker_env \<Rightarrow> exn \<Rightarrow> text_value" where
  "error_fingerprint we e =
     take 128 (cd_sha256 (we_codecs we) (we_qualified_name we (ex_class e) @ '':'' @ py_strip (ex_text e)))"

fun is_circuit_open_error :: "exn_class \<Rightarrow> bool" where
  "is_circuit_open_error (DependencyCircuitOpenError c) = True"
| "is_circuit_open_error _ = False"

definition note_dependency_failure :: "worker_env \<Rightarrow> text_value option \<Rightarrow> bool \<Rightarrow> exn \<Rightarrow> circuits \<Rightarrow> circuits" where
  "note_dependency_failure we dependency retryable e c =
     (case dependency of
        None \<Rightarrow> c
      | Some dep \<Rightarrow>
          if retryable \<and> \<not> is_circuit_open_error (ex_class e) \<and> we_failure_recorded we
          then snd (record_dependency_failure (env_now (we_fail we)) dep (error_fingerprint we e)
                      (we_failure_threshold we) (we_cooldown we) c)
          else c)"

text \<open>A text in the quotes of \<open>!r\<close>, and the error of a circuit that does not admit a call.\<close>

definition quoted :: "text_value \<Rightarrow> text_value" where
  "quoted t = CHR 0x27 # t @ [CHR 0x27]"

definition circuit_exn :: "worker_env \<Rightarrow> text_value option \<Rightarrow> circuit_error \<Rightarrow> exn" where
  "circuit_exn we dependency refused =
     \<lparr>ex_class = DependencyCircuitOpenError refused,
      ex_text = ''Dependency '' @ quoted (case dependency of None \<Rightarrow> [] | Some dep \<Rightarrow> dep) @
        (case refused of
           CircuitOpenUntil t \<Rightarrow> '' circuit is open until '' @ we_time_text we t @ ''.''
         | _ \<Rightarrow> '' circuit has a half-open probe in flight.'')\<rparr>"

text \<open>The except branch of \<open>_process_stage_delivery\<close>.\<close>

definition stage_delivery_failed ::
  "worker_env \<Rightarrow> dispatch_event \<Rightarrow> rabbit_message \<Rightarrow> int \<Rightarrow> exn \<Rightarrow> worker_state \<Rightarrow> settlement \<times> worker_state" where
  "stage_delivery_failed we ev msg attempt e ws =
     (let reason = normalize_failure_reason (ev_stage ev) (ex_class e);
          retryable = is_replayable_failure (ev_stage ev) (ex_class e);
          ws1 = ws\<lparr>ws_circuits := note_dependency_failure we (DEPENDENCY_BY_STAGE (ev_stage ev)) retryable e
                    (ws_circuits ws)\<rparr>
      in case mark_stage_failed (we_fail we) (ev_file ev) (ev_stage ev) attempt (ev_id ev) reason
                (render_error_text e) retryable (ws_db ws1) of
           (Inl err, d1) \<Rightarrow> (Unsettled (service_exn (we_providers we) err), ws1\<lparr>ws_db := d1\<rparr>)
         | (Inr _, d1) \<Rightarrow>
             (case finalize_failure_for_cancelling_recovery we (ev_id ev) reason e d1 of
                (True, d2) \<Rightarrow> (Acked, ws1\<lparr>ws_db := d2\<rparr>)
              | (False, d2) \<Rightarrow>
                  if retryable \<and> attempt < recovery_retry_attempt_ceiling d2 (ev_id ev)
                                            (env_retry_max_attempts (we_fail we))
                  then (RejectedForRetry, ws1\<lparr>ws_db := d2\<rparr>)
                  else dead_letter_or_requeue we msg
                         (coerce_dead_letter_payload (we_codecs we) (PyDict (event_json we ev))) reason
                         (ws1\<lparr>ws_db := d2\<rparr>)))"

definition process_stage_delivery ::
  "worker_env \<Rightarrow> dispatch_event \<Rightarrow> rabbit_message \<Rightarrow> int \<Rightarrow> worker_state \<Rightarrow> settlement \<times> worker_state" where
  "process_stage_delivery we ev msg attempt ws =
     (case start_stage_processing (we_start we) (ev_file ev) (ev_stage ev) attempt (ev_id ev) (ws_db ws) of
        (Inl err, d1) \<Rightarrow>
          stage_delivery_failed we ev msg attempt (service_exn (we_providers we) err) (ws\<lparr>ws_db := d1\<rparr>)
      | (Inr None, d1) \<Rightarrow> (Acked, ws\<lparr>ws_db := d1\<rparr>)
      | (Inr (Some ctx), d1) \<Rightarrow>
          (let permit = (case DEPENDENCY_BY_STAGE (ev_stage ev) of
                           None \<Rightarrow> (Inr (), ws_circuits ws)
                         | Some dep \<Rightarrow>
                             acquire_dependency_circuit (env_now (we_work we)) dep (we_owner we) (ws_circuits ws))
           in case permit of
                (Inl refused, c) \<Rightarrow>
                  stage_delivery_failed we ev msg attempt
                    (circuit_exn we (DEPENDENCY_BY_STAGE (ev_stage ev)) refused)
                    (ws\<lparr>ws_db := d1, ws_circuits := c\<rparr>)
              | (Inr _, c) \<Rightarrow>
                  (case run_stage_for (we_work we) (we_providers we) ev ctx attempt d1 of
                     (Inl e, d2) \<Rightarrow> stage_delivery_failed we ev msg attempt e (ws\<lparr>ws_db := d2, ws_circuits := c\<rparr>)
                   | (Inr _, d2) \<Rightarrow>
                       (Acked, ws\<lparr>ws_db := d2,
                          ws_circuits := (case DEPENDENCY_BY_STAGE (ev_stage ev) of
                             None \<Rightarrow> c
                           | Some dep \<Rightarrow> if we_success_recorded we then record_dependency_success dep c else c)\<rparr>))))"

text \<open>
  \<open>_handle_stage_message\<close>: a malformed payload is dead-lettered after its journal row, if it names one, is
  failed; a stage that the queue does not serve fails terminally.
\<close>

definition record_malformed_event_failure :: "worker_env \<Rightarrow> pyval \<Rightarrow> db \<Rightarrow> unit outcome" where
  "record_malformed_event_failure we payload d =
     (case extract_event_reference (we_fresh_reference we) payload of
        None \<Rightarrow> (Inr (), d)
      | Some (f, s, attempt, ev) \<Rightarrow>
          mark_stage_failed (we_fail we) f s attempt ev PIPELINE_REASON_MALFORMED_EVENT
            ''Worker received a malformed content-pipeline dispatch payload.'' False d)"

definition handle_stage_message ::
  "worker_env \<Rightarrow> stage \<Rightarrow> delivery_body \<Rightarrow> rabbit_message \<Rightarrow> worker_state \<Rightarrow> settlement \<times> worker_state" where
  "handle_stage_message we expected body msg ws =
     (case body of
        RawBody payload \<Rightarrow>
          (case record_malformed_event_failure we payload (ws_db ws) of
             (Inl err, d1) \<Rightarrow> (Unsettled (service_exn (we_providers we) err), ws\<lparr>ws_db := d1\<rparr>)
           | (Inr _, d1) \<Rightarrow>
               dead_letter_or_requeue we msg (coerce_dead_letter_payload (we_codecs we) payload)
                 PIPELINE_REASON_MALFORMED_EVENT (ws\<lparr>ws_db := d1\<rparr>))
      | EventBody ev \<Rightarrow>
          (let attempt = effective_attempt we ev msg
           in if ev_stage ev \<noteq> expected
              then
                (case mark_stage_failed (we_fail we) (ev_file ev) (ev_stage ev) attempt (ev_id ev)
                        PIPELINE_REASON_UNSUPPORTED_STAGE
                        (''The runtime handler for '' @ quoted (stage_value expected) @ '' received '' @
                         quoted (stage_value (ev_stage ev)) @ ''.'')
                        False (ws_db ws) of
                   (Inl err, d1) \<Rightarrow> (Unsettled (service_exn (we_providers we) err), ws\<lparr>ws_db := d1\<rparr>)
                 | (Inr _, d1) \<Rightarrow>
                     dead_letter_or_requeue we msg
                       (coerce_dead_letter_payload (we_codecs we) (PyDict (event_json we ev)))
                       PIPELINE_REASON_UNSUPPORTED_STAGE (ws\<lparr>ws_db := d1\<rparr>))
              else process_stage_delivery we ev msg attempt ws))"

text \<open>\<open>_abandon_cancelled_stage_delivery\<close>, when a shutdown interrupts a delivery.\<close>

definition abandon_cancelled_stage_delivery ::
  "worker_env \<Rightarrow> dispatch_event \<Rightarrow> rabbit_message \<Rightarrow> int \<Rightarrow> worker_state \<Rightarrow> settlement option \<times> worker_state" where
  "abandon_cancelled_stage_delivery we ev msg attempt ws =
     (case abandon_stage_processing (we_fail we) (ev_file ev) (ev_stage ev) attempt (ev_id ev)
             PIPELINE_REASON_WORKER_SHUTDOWN
             ''Worker shutdown interrupted this stage before RabbitMQ acknowledgement.'' (ws_db ws) of
        (Inl err, d1) \<Rightarrow> (None, ws\<lparr>ws_db := d1\<rparr>)
      | (Inr resolution, d1) \<Rightarrow>
          (case resolution of
             (REQUEUE, _) \<Rightarrow> (Some Requeued, ws\<lparr>ws_db := d1\<rparr>)
           | (DEAD_LETTER, None) \<Rightarrow> (None, ws\<lparr>ws_db := d1\<rparr>)
           | (DEAD_LETTER, Some reason) \<Rightarrow>
               (case dead_letter_or_requeue we msg
                       (coerce_dead_letter_payload (we_codecs we) (PyDict (event_json we ev))) reason
                       (ws\<lparr>ws_db := d1\<rparr>) of (st, ws') \<Rightarrow> (Some st, ws'))
           | (ACKNOWLEDGE, _) \<Rightarrow> (Some Acked, ws\<lparr>ws_db := d1\<rparr>)))"
section \<open>The journal through a stage handler\<close>

lemma service_run_snd [simp]: "snd (service_run pv r) = snd r"
  by (simp add: service_run_def)

lemma service_run_cases:
  "service_run pv r = (Inl e, d') \<Longrightarrow> snd r = d'" "service_run pv r = (Inr x, d') \<Longrightarrow> r = (Inr x, d')"
  by (cases r; cases "fst r"; simp add: service_run_def)+

lemma run_action_keyed: "journal_keyed d \<Longrightarrow> journal_keyed (snd (run_action env a f s n ev d))"
  by (rule stage_step_keyed [OF stage_step.deliver])

lemmas keyed_completions =
  run_action_keyed [where a = "Recognised r" for r, simplified]
  run_action_keyed [where a = "Embedded r ms" for r ms, simplified]
  run_action_keyed [where a = "Classified b" for b, simplified]
  run_action_keyed [where a = "Synced t p" for t p, simplified]
  run_action_keyed [where a = "SyncFailed t r e" for t r e, simplified]
  run_action_keyed [where a = "Transcoded r" for r, simplified]
  run_action_keyed [where a = "Failed r e b" for r e b, simplified]
  run_action_keyed [where a = Start, simplified]

lemma keyed_same: "db_journal d' = db_journal d \<Longrightarrow> journal_keyed d \<Longrightarrow> journal_keyed d'"
  by (simp add: journal_keyed_def get_journal_def)

lemma generation_ops_journal:
  "db_journal (snd (reserve_generation env f expected rid limit d)) = db_journal d"
  "db_journal (snd (record_verified env g r d)) = db_journal d"
  "db_journal (snd (record_uploaded env g d)) = db_journal d"
  by (auto simp: reserve_generation_def record_verified_def record_uploaded_def Let_def put_generation_def
      commit_stage_mutation_def split: option.splits)

text \<open>What the transactions of others between the steps of a cleanup may do to the journal.\<close>

definition others_keep_keys :: "providers \<Rightarrow> bool" where
  "others_keep_keys pv \<longleftrightarrow> (\<forall>d. journal_keyed d \<longrightarrow> journal_keyed (pv_cleanup_others pv d))"

lemma cleanup_keyed:
  assumes "others_keep_keys pv" "journal_keyed d"
  shows "journal_keyed (snd (snd (fail_and_cleanup_unactivated_generation env st (pv_cleanup_others pv) g e b d)))"
proof -
  have fence: "journal_keyed (snd (fence_generation env g e b d))"
    by (rule keyed_same [OF _ assms(2)])
      (auto simp: fence_generation_def Let_def put_generation_def split: option.splits)
  have fin: "journal_keyed x \<Longrightarrow> journal_keyed (snd (finish_cleanup env g x))" for x
    by (rule keyed_same) (auto simp: finish_cleanup_def put_generation_def split: option.splits)
  have cf: "journal_keyed x \<Longrightarrow> journal_keyed (record_cleanup_failure env g er x)" for x er
    by (rule keyed_same) (auto simp: record_cleanup_failure_def put_generation_def split: option.splits)
  show ?thesis
    using fence fin cf assms(1)
    by (auto simp: fail_and_cleanup_unactivated_generation_def others_keep_keys_def Let_def
        split: prod.splits option.splits)
      (metis snd_conv)+
qed

lemma transcode_steps_keyed:
  assumes "journal_keyed d"
  shows "journal_keyed (snd (snd (transcode_steps env pv ev ctx mime moving g attempt d)))"
proof -
  have v: "journal_keyed (snd (record_verified env x r d))" if "journal_keyed d" for x r d
    by (rule keyed_same [OF generation_ops_journal(2) that])
  have u: "journal_keyed (snd (record_uploaded env x d))" if "journal_keyed d" for x d
    by (rule keyed_same [OF generation_ops_journal(3) that])
  show ?thesis
    using assms v u keyed_completions(6)
    by (auto simp: transcode_steps_def service_run_def split: sum.splits option.splits prod.splits)
qed

lemma run_transcode_keyed:
  assumes "others_keep_keys pv" "journal_keyed d"
  shows "journal_keyed (snd (run_transcode_stage env pv ev ctx attempt d))"
proof -
  have failed: "journal_keyed (snd (transcode_failed env pv g e n x))" if "journal_keyed x" for g e n x
    using that cleanup_keyed [OF assms(1) that] by (auto simp: transcode_failed_def split: option.splits)
  have steps: "journal_keyed (snd (case transcode_steps env pv ev ctx mime b g attempt x of
      (Inl e, n, d2) \<Rightarrow> transcode_failed env pv g e n d2 | (Inr _, _, d2) \<Rightarrow> (Inr (), d2)))"
    if "journal_keyed x" for mime b g x
    using transcode_steps_keyed [OF that, of env pv ev ctx mime b g attempt]
    by (auto intro: failed split: prod.splits sum.splits)
  show ?thesis
  proof (cases "forced_failure pv TRANSCODE (ev_file ev)")
    case (Some e)
    then show ?thesis using assms(2) by (simp add: run_transcode_stage_def)
  next
    case None
    show ?thesis
    proof (cases "wc_mime_type ctx")
      case None
      with \<open>forced_failure pv TRANSCODE (ev_file ev) = None\<close> show ?thesis
        using assms(2) by (simp add: run_transcode_stage_def)
    next
      case (Some mime)
      define moving where "moving = (py_lower mime \<in> set SUPPORTED_MOVING_MEDIA_MIME_TYPES)"
      define reserved where "reserved = (if moving
         then map_prod (map_sum id (\<lambda>g. Some (mg_id g))) id
                (service_run pv (reserve_generation env (ev_file ev) (wc_web_video_key ctx)
                   (wc_recovery_item ctx) (wc_retry_limit ctx) d))
         else (Inr None, d))"
      have run: "run_transcode_stage env pv ev ctx attempt d =
        (if moving \<and> \<not> pv_supports_reservation pv
         then (Inl (media_validation ''Moving-media normalization requires immutable generation reservation support.''), d)
         else (case reserved of
            (Inl e, d1) \<Rightarrow> (Inl e, d1)
          | (Inr generation, d1) \<Rightarrow>
              (case transcode_steps env pv ev ctx mime moving generation attempt d1 of
                 (Inl e, n, d2) \<Rightarrow> transcode_failed env pv generation e n d2
               | (Inr _, _, d2) \<Rightarrow> (Inr (), d2))))"
        by (simp only: run_transcode_stage_def None Some option.case moving_def reserved_def Let_def)
      have "journal_keyed (snd reserved)"
        using assms(2) keyed_same [OF generation_ops_journal(1) assms(2)] by (simp add: reserved_def)
      then show ?thesis
        unfolding run using assms(2) steps
        by (cases reserved; cases "fst reserved") auto
    qed
  qed
qed

lemma run_sync_keyed:
  assumes "journal_keyed d"
  shows "journal_keyed (snd (run_sync_stage env pv t ev ctx attempt d))"
proof -
  have failed: "journal_keyed (record_sync_failure env t ev attempt e x)" if "journal_keyed x" for e x
    using keyed_completions(5) [OF that] by (simp add: record_sync_failure_def)
  show ?thesis
    using assms failed keyed_completions(4)
    by (auto simp: run_sync_stage_def Let_def service_run_def drop_value_def split: sum.splits option.splits prod.splits)
qed

lemma run_stage_for_keyed:
  assumes "others_keep_keys pv" "journal_keyed d"
  shows "journal_keyed (snd (run_stage_for env pv ev ctx attempt d))"
proof -
  have ocr: "journal_keyed (snd (run_ocr_stage env pv ev ctx attempt d))"
    using assms(2) keyed_completions(1) by (auto simp: run_ocr_stage_def split: sum.splits)
  have embed: "journal_keyed (snd (run_embed_stage env pv ev ctx attempt d))"
    using assms(2) keyed_completions(2) by (auto simp: run_embed_stage_def split: sum.splits option.splits)
  have classify: "journal_keyed (snd (run_classify_stage env pv ev ctx attempt d))"
    using assms(2) keyed_completions(3) by (auto simp: run_classify_stage_def split: sum.splits option.splits)
  show ?thesis
    using assms ocr embed classify
    by (cases "ev_stage ev") (simp_all add: run_stage_for_def run_transcode_keyed run_sync_keyed)
qed

text \<open>A handler that returns has committed a completion of its stage: the row shows it.\<close>

definition completed_by :: "env \<Rightarrow> dispatch_event \<Rightarrow> int \<Rightarrow> db \<Rightarrow> bool" where
  "completed_by env ev attempt d' \<longleftrightarrow>
     (\<exists>a dx. completes a \<and> action_stage a (ev_stage ev) = ev_stage ev \<and> journal_keyed dx \<and>
        run_action env a (ev_file ev) (ev_stage ev) attempt (ev_id ev) dx = (Inr (), d'))"

lemma completedI:
  assumes "service_run pv (run_action env a (ev_file ev) (ev_stage ev) attempt (ev_id ev) dx) = (Inr (), d')"
    and "completes a" "action_stage a (ev_stage ev) = ev_stage ev" "journal_keyed dx"
  shows "completed_by env ev attempt d'"
  using assms service_run_cases(2) [OF assms(1)] unfolding completed_by_def by blast

lemma transcode_steps_complete:
  assumes "transcode_steps env pv ev ctx mime moving g attempt d = (Inr (), n, d')" "journal_keyed d" "ev_stage ev = TRANSCODE"
  shows "completed_by env ev attempt d'"
proof -
  have v: "journal_keyed (snd (record_verified env x r d))" if "journal_keyed d" for x r d
    by (rule keyed_same [OF generation_ops_journal(2) that])
  have u: "journal_keyed (snd (record_uploaded env x d))" if "journal_keyed d" for x d
    by (rule keyed_same [OF generation_ops_journal(3) that])
  have sv: "service_run pv (record_verified env x r d0) = (q, d1) \<Longrightarrow> journal_keyed d0 \<Longrightarrow> journal_keyed d1" for x r d0 q d1
    using v [of d0 x r] service_run_snd [of pv "record_verified env x r d0"] by simp
  have su: "service_run pv (record_uploaded env x d0) = (q, d1) \<Longrightarrow> journal_keyed d0 \<Longrightarrow> journal_keyed d1" for x d0 q d1
    using u [of d0 x] service_run_snd [of pv "record_uploaded env x d0"] by simp
  have c: "completed_by env ev attempt d3"
    if "service_run pv (complete_transcode_stage env (ev_file ev) attempt (ev_id ev) m d2) = (Inr (), d3)" "journal_keyed d2" for m d2 d3
    by (rule completedI [of pv env "Transcoded m"]) (use that assms(3) in simp_all)
  show ?thesis
    using assms(1,2)
    by (auto simp: transcode_steps_def split: sum.splits option.splits prod.splits if_splits dest: sv su intro: c)
qed

lemma run_stage_completes:
  assumes "run_stage_for env pv ev ctx attempt d = (Inr (), d')" "journal_keyed d"
  shows "completed_by env ev attempt d'"
proof (cases "ev_stage ev")
  case TRANSCODE
  have nf: "transcode_failed env pv g e n x \<noteq> (Inr (), y)" for g e n x y
    by (simp add: transcode_failed_def split: option.splits)
  have rk: "journal_keyed y" if "map_prod g id (service_run pv (reserve_generation env f k i l d)) = (q, y)" for g f k i l q y
    using arg_cong [OF that, of snd] keyed_same [OF generation_ops_journal(1) assms(2), of env f k i l] by simp
  show ?thesis
    using assms TRANSCODE
    by (auto simp: run_stage_for_def run_transcode_stage_def Let_def nf split: option.splits sum.splits prod.splits if_splits
        intro: transcode_steps_complete rk)
next
  case OCR
  then show ?thesis
    using assms completedI [of pv env "Recognised r" for r]
    by (auto simp: run_stage_for_def run_ocr_stage_def split: sum.splits prod.splits)
next
  case EMBED
  then show ?thesis
    using assms completedI [of pv env "Embedded r ms" for r ms]
    by (auto simp: run_stage_for_def run_embed_stage_def split: sum.splits option.splits prod.splits)
next
  case CLASSIFY
  then show ?thesis
    using assms completedI [of pv env "Classified b" for b]
    by (auto simp: run_stage_for_def run_classify_stage_def split: sum.splits option.splits prod.splits)
next
  case SYNC_QDRANT
  then show ?thesis
    using assms completedI [of pv env "Synced t x" for t x]
    by (auto simp: run_stage_for_def run_sync_stage_def Let_def split: sum.splits option.splits prod.splits)
next
  case SYNC_MEILI
  then show ?thesis
    using assms completedI [of pv env "Synced t x" for t x]
    by (auto simp: run_stage_for_def run_sync_stage_def Let_def split: sum.splits option.splits prod.splits)
next
  case INGEST
  with assms show ?thesis by (simp add: run_stage_for_def)
qed

section \<open>The durable record of a delivery\<close>

text \<open>
  What the committed database shows of a delivery: \<open>row_shows\<close>, that the stage's row stands in one of the states by this
  delivery. Of a failed attempt of any delivery but a derivative regeneration: the row failed by it. Of a derivative
  regeneration: the row put back to the snapshot its item holds, a retryable failure charged to the item's budget, and
  the item closed when the failure is not retryable or the budget is used up.
\<close>

definition row_shows :: "dispatch_event \<Rightarrow> stage_status set \<Rightarrow> db \<Rightarrow> bool" where
  "row_shows ev statuses d \<longleftrightarrow>
     (\<exists>r. get_journal d (ev_file ev) (ev_stage ev) = Some r \<and> sj_status r \<in> statuses \<and>
        sj_last_event_id r = Some (ev_id ev))"

definition failed_by :: "dispatch_event \<Rightarrow> int \<Rightarrow> bool \<Rightarrow> stage_journal \<Rightarrow> bool" where
  "failed_by ev attempt retryable r \<longleftrightarrow>
     sj_status r = STAGE_FAILED \<and> sj_is_retryable r = retryable \<and> sj_last_event_id r = Some (ev_id ev) \<and>
     attempt \<le> sj_attempt_count r"

definition restored_and_charged :: "int \<Rightarrow> bool \<Rightarrow> stage_journal \<Rightarrow> recovery_item \<Rightarrow> bool" where
  "restored_and_charged attempt retryable r i \<longleftrightarrow>
     restore_stage_state_after_derivative_failure (ri_previous_stage_state i) (max (attempt - 1) 0) r = r \<and>
     (retryable \<longrightarrow> (\<exists>start. ri_attempt_budget_start i = Some start \<and>
        recovery_stage_publication_failures i + attempt - start + 1 \<le> ri_failures_consumed i)) \<and>
     (\<not> retryable \<or> ri_retry_limit i \<le> ri_failures_consumed i \<longrightarrow>
        ri_status i = ITEM_FAILED \<and> \<not> ri_reservation_active i)"

definition failure_recorded :: "dispatch_event \<Rightarrow> int \<Rightarrow> bool \<Rightarrow> db \<Rightarrow> bool" where
  "failure_recorded ev attempt retryable d \<longleftrightarrow>
     (\<exists>r. get_journal d (ev_file ev) (ev_stage ev) = Some r \<and>
       (case load_recovery_item d (ev_id ev) of
          Some i \<Rightarrow>
            if ri_action i = REGENERATE_DERIVATIVES then restored_and_charged attempt retryable r i
            else failed_by ev attempt retryable r
        | None \<Rightarrow> failed_by ev attempt retryable r))"

lemma find_row_put:
  "find P rows = Some i \<Longrightarrow> key i' = key i \<Longrightarrow> P i' \<Longrightarrow> find P (row_put key i' rows) = Some i'"
  by (induction rows) (auto split: if_splits)

lemma load_put_recovery:
  assumes "load_recovery_item d ev = Some i" "ri_id i' = ri_id i" "ri_dispatch_event_id i' = ri_dispatch_event_id i"
    "db_recovery d' = row_put ri_id i' (db_recovery d)"
  shows "load_recovery_item d' ev = Some i'"
proof -
  have "ri_dispatch_event_id i = Some ev" using assms(1) by (auto simp: load_recovery_item_def dest: find_SomeD)
  then show ?thesis
    using find_row_put [of "\<lambda>x. ri_dispatch_event_id x = Some ev" "db_recovery d" i ri_id i'] assms
    by (simp add: load_recovery_item_def)
qed

lemma failed_item_charged:
  assumes "ri_action i = REGENERATE_DERIVATIVES"
  shows "restored_and_charged n rt
    ((restore_stage_state_after_derivative_failure (ri_previous_stage_state i) (max (n - 1) 0) x)\<lparr>sj_updated_at := u\<rparr>)
    (failed_item env n reason err rt True i)"
proof -
  let ?i = "failed_item env n reason err rt True i"
  have p: "ri_previous_stage_state (failed_item env n reason err b True i) = ri_previous_stage_state i" for b
    by (simp add: failed_item_def Let_def exhaust_item_def)
  then have q: "recovery_stage_publication_failures (failed_item env n reason err b True i) =
      recovery_stage_publication_failures i" for b
    by (simp add: recovery_stage_publication_failures_def)
  have "rt \<longrightarrow> (\<exists>start. ri_attempt_budget_start ?i = Some start \<and>
       recovery_stage_publication_failures i + n - start + 1 \<le> ri_failures_consumed ?i)"
    by (auto simp: failed_item_def Let_def charge_retry_budget_def exhaust_item_def split: option.splits)
  moreover have "\<not> rt \<or> ri_retry_limit ?i \<le> ri_failures_consumed ?i \<longrightarrow>
      ri_status ?i = ITEM_FAILED \<and> \<not> ri_reservation_active ?i"
    using assms by (auto simp: failed_item_def Let_def exhaust_item_def split: if_splits)
  ultimately show ?thesis
    by (simp add: restored_and_charged_def p q) (simp add: restore_stage_state_after_derivative_failure_def)
qed

lemma marked_recorded:
  assumes "mark_stage_failed env (ev_file ev) (ev_stage ev) n (ev_id ev) reason err rt d = (Inr (), d')" "journal_keyed d"
  shows "failure_recorded ev n rt d'"
  using assms(1) unfolding mark_stage_failed_def
proof (rule failed_outcome)
  fix mf e
  assume mf: "get_file d (ev_file ev) = Some mf" and e: "get_journal d (ev_file ev) (ev_stage ev) = Some e"
    and run: "apply_stage_failure env mf e (ev_stage ev) n (ev_id ev) reason err rt True d d = (Inr (), d')"
  have id: "mf_id mf = ev_file ev" by (rule get_file_id [OF mf])
  have k: "sj_file e = mf_id mf" "sj_stage e = ev_stage ev" using assms(2) e id by (auto simp: journal_keyed_def)
  note o = failure_outcome(1,6) [OF run k]
  let ?item = "load_recovery_item d (ev_id ev)"
  have j: "get_journal d' (ev_file ev) (ev_stage ev) =
      Some ((failed_row env n (ev_id ev) reason err rt ?item e)\<lparr>sj_updated_at := env_now env\<rparr>)"
    using o(1) by (simp add: get_journal_def id)
  show ?thesis
  proof (cases ?item)
    case None
    with o(2) have "load_recovery_item d' (ev_id ev) = None" by (simp add: load_recovery_item_def)
    with j None show ?thesis by (simp add: failure_recorded_def failed_row_def failed_entry_def failed_by_def)
  next
    case (Some i)
    with o(2) have l: "load_recovery_item d' (ev_id ev) = Some (failed_item env n reason err rt True i)"
      by (intro load_put_recovery [OF Some]) simp_all
    show ?thesis
    proof (cases "ri_action i = REGENERATE_DERIVATIVES")
      case True
      with j Some l show ?thesis
        using failed_item_charged [OF True] by (simp add: failure_recorded_def failed_row_def)
    next
      case False
      with j Some l show ?thesis by (simp add: failure_recorded_def failed_row_def failed_entry_def failed_by_def)
    qed
  qed
qed

text \<open>The check of a cancelling job closes the item; the record of the failure stays.\<close>

lemma cancelling_keeps_record:
  assumes "finalize_failure_for_cancelling_recovery we (ev_id ev) reason e d = (b, d')" "failure_recorded ev n rt d"
  shows "failure_recorded ev n rt d'"
proof (cases "load_recovery_item d (ev_id ev)")
  case None
  with assms show ?thesis by (simp add: finalize_failure_for_cancelling_recovery_def)
next
  case (Some i)
  define i' where "i' = (if ri_status i = ITEM_DISPATCHED then cancelled_item we reason e i else i)"
  have d': "d' = d \<or> d' = put_recovery i' d"
    using assms(1) Some by (auto simp: finalize_failure_for_cancelling_recovery_def Let_def i'_def split: if_splits)
  have l: "load_recovery_item (put_recovery i' d) (ev_id ev) = Some i'"
    by (rule load_put_recovery [OF Some]) (simp_all add: i'_def cancelled_item_def put_recovery_def)
  have a: "ri_action i' = ri_action i" by (simp add: i'_def cancelled_item_def)
  have c: "restored_and_charged n rt r i \<Longrightarrow> restored_and_charged n rt r i'" for r
    by (auto simp: i'_def cancelled_item_def restored_and_charged_def recovery_stage_publication_failures_def)
  have g: "get_journal (put_recovery i' d) = get_journal d"
    by (intro ext) (simp add: get_journal_def put_recovery_def)
  from d' show ?thesis
  proof
    assume "d' = put_recovery i' d"
    with assms(2) show ?thesis by (auto simp: failure_recorded_def l g a Some dest: c split: if_splits)
  qed (use assms(2) in simp)
qed

lemma taken_row:
  assumes "start_stage_processing env (ev_file ev) (ev_stage ev) n (ev_id ev) d = (Inr None, d')"
  shows "d' = d \<and> row_shows ev {STAGE_PROCESSING, STAGE_SUCCEEDED} d"
  using assms by (rule start_outcome) (auto simp: row_shows_def)

lemma completed_row: "completed_by env ev attempt d' \<Longrightarrow> row_shows ev {STAGE_SUCCEEDED} d'"
  unfolding completed_by_def row_shows_def by (blast dest: finished_row)

lemma dead_letter_db [simp]: "ws_db (snd (dead_letter_or_requeue we msg p reason ws)) = ws_db ws"
  by (simp add: dead_letter_or_requeue_def)
section \<open>Properties\<close>

text \<open>The recovery item the delivery was dispatched for is closed.\<close>

definition recovery_closed :: "dispatch_event \<Rightarrow> worker_state \<Rightarrow> bool" where
  "recovery_closed ev ws \<longleftrightarrow>
     (\<exists>i\<in>set (db_recovery (ws_db ws)). ri_dispatch_event_id i = Some (ev_id ev) \<and>
        ri_status i \<in> {ITEM_FAILED, ITEM_SKIPPED_STALE, ITEM_SKIPPED_DEPENDENCY, ITEM_CANCELLED})"

text \<open>The ledger holds an unresolved row for this delivery.\<close>

definition dead_lettered :: "worker_env \<Rightarrow> dispatch_event \<Rightarrow> rabbit_message \<Rightarrow> worker_state \<Rightarrow> bool" where
  "dead_lettered we ev msg ws \<longleftrightarrow>
     (\<exists>reason r. ledger_row (we_codecs we) (ws_ledger ws)
        (dead_delivery_of we msg (coerce_dead_letter_payload (we_codecs we) (PyDict (event_json we ev)))
           reason (ws_db ws)) = Some r \<and> dl_status r \<noteq> DL_RESOLVED)"

lemma row_put_mem: "r \<in> set (row_put key r rows)"
  by (induction rows) auto

lemma recorded_row_unresolved:
  "\<exists>r. ledger_row cd (record_delivery cd m rows) m = Some r \<and> dl_status r \<noteq> DL_RESOLVED"
proof (cases "ledger_row cd rows m")
  case None
  then show ?thesis by (rule record_delivery_new) simp
next
  case (Some old)
  then show ?thesis
    using record_delivery_row [of cd m rows m] by (simp add: reconciled_dead_letter_def Let_def)
qed

lemma dead_letter_settles:
  assumes "dead_letter_or_requeue we msg (coerce_dead_letter_payload (we_codecs we) (PyDict (event_json we ev)))
      reason ws = (st, ws')"
  shows "(st = Acked \<and> dead_lettered we ev msg ws' \<or>
      st = Requeued \<and> \<not> we_ledger_ok we \<and> ws_ledger ws' = ws_ledger ws) \<and> ws_db ws' = ws_db ws"
proof (cases "we_ledger_ok we")
  case True
  define m where "m = dead_delivery_of we msg
      (coerce_dead_letter_payload (we_codecs we) (PyDict (event_json we ev))) reason (ws_db ws)"
  have "st = Acked" "ws' = ws\<lparr>ws_ledger := record_delivery (we_codecs we) m (ws_ledger ws)\<rparr>"
    using assms True by (simp_all add: dead_letter_or_requeue_def m_def)
  moreover have "dead_lettered we ev msg (ws\<lparr>ws_ledger := record_delivery (we_codecs we) m (ws_ledger ws)\<rparr>)"
    unfolding dead_lettered_def using recorded_row_unresolved [of "we_codecs we" m "ws_ledger ws"]
    by (intro exI [of _ reason]) (simp add: m_def)
  ultimately show ?thesis by simp
next
  case False
  with assms show ?thesis by (auto simp: dead_letter_or_requeue_def)
qed

lemma cancelling_closes:
  "finalize_failure_for_cancelling_recovery we (ev_id ev) reason e d = (True, d') \<Longrightarrow>
     recovery_closed ev (ws\<lparr>ws_db := d'\<rparr>)"
  by (auto simp: finalize_failure_for_cancelling_recovery_def Let_def put_recovery_def recovery_closed_def
      load_recovery_item_def cancelled_item_def split: option.splits if_splits
      intro!: bexI [OF _ row_put_mem] dest!: find_SomeD)

lemma failed_delivery_settles:
  assumes run: "stage_delivery_failed we ev msg attempt e ws = (st, ws')" and k: "journal_keyed (ws_db ws)"
  shows "case st of
      Acked \<Rightarrow> failure_recorded ev attempt (is_replayable_failure (ev_stage ev) (ex_class e)) (ws_db ws') \<and>
        (recovery_closed ev ws' \<or> dead_lettered we ev msg ws')
    | RejectedForRetry \<Rightarrow> failure_recorded ev attempt True (ws_db ws') \<and>
        attempt < recovery_retry_attempt_ceiling (ws_db ws') (ev_id ev) (env_retry_max_attempts (we_fail we)) \<and>
        ws_ledger ws' = ws_ledger ws
    | Requeued \<Rightarrow> failure_recorded ev attempt (is_replayable_failure (ev_stage ev) (ex_class e)) (ws_db ws') \<and>
        \<not> we_ledger_ok we \<and> ws_ledger ws' = ws_ledger ws
    | Unsettled x \<Rightarrow> ws_db ws' = ws_db ws \<and> ws_ledger ws' = ws_ledger ws \<and>
        (\<exists>err reason text. x = service_exn (we_providers we) err \<and>
           fst (mark_stage_failed (we_fail we) (ev_file ev) (ev_stage ev) attempt (ev_id ev) reason text
             (is_replayable_failure (ev_stage ev) (ex_class e)) (ws_db ws)) = Inl err)"
proof -
  define reason where "reason = normalize_failure_reason (ev_stage ev) (ex_class e)"
  define rt where "rt = is_replayable_failure (ev_stage ev) (ex_class e)"
  define ws1 where "ws1 = ws\<lparr>ws_circuits := note_dependency_failure we (DEPENDENCY_BY_STAGE (ev_stage ev)) rt e
      (ws_circuits ws)\<rparr>"
  obtain r d1 where mark: "mark_stage_failed (we_fail we) (ev_file ev) (ev_stage ev) attempt (ev_id ev) reason
      (render_error_text e) rt (ws_db ws) = (r, d1)"
    by (cases "mark_stage_failed (we_fail we) (ev_file ev) (ev_stage ev) attempt (ev_id ev) reason
      (render_error_text e) rt (ws_db ws)")
  have db1: "ws_db ws1 = ws_db ws" by (simp add: ws1_def)
  show ?thesis
  proof (cases r)
    case (Inl err)
    have "st = Unsettled (service_exn (we_providers we) err)" "ws' = ws1\<lparr>ws_db := d1\<rparr>"
      using run mark Inl by (simp_all add: stage_delivery_failed_def Let_def reason_def rt_def ws1_def)
    moreover have "d1 = ws_db ws"
      using failed_Inl [of "we_fail we"] mark Inl unfolding mark_stage_failed_def by blast
    moreover have "\<exists>err' reason text. service_exn (we_providers we) err = service_exn (we_providers we) err' \<and>
        fst (mark_stage_failed (we_fail we) (ev_file ev) (ev_stage ev) attempt (ev_id ev) reason text rt (ws_db ws)) =
          Inl err'"
      using mark Inl by (intro exI [of _ err] exI [of _ reason] exI [of _ "render_error_text e"]) simp
    ultimately show ?thesis by (simp add: ws1_def rt_def)
  next
    case (Inr u)
    obtain b d2 where fin: "finalize_failure_for_cancelling_recovery we (ev_id ev) reason e d1 = (b, d2)"
      by (cases "finalize_failure_for_cancelling_recovery we (ev_id ev) reason e d1")
    define ws2 where "ws2 = ws1\<lparr>ws_db := d2\<rparr>"
    have marked: "mark_stage_failed (we_fail we) (ev_file ev) (ev_stage ev) attempt (ev_id ev) reason
        (render_error_text e) rt (ws_db ws) = (Inr (), d1)" using mark Inr by simp
    have rec: "failure_recorded ev attempt rt (ws_db x)" if "ws_db x = d2" for x
      using cancelling_keeps_record [OF fin marked_recorded [OF marked k]] that by simp
    have step: "(st, ws') = (if b then (Acked, ws2)
        else if rt \<and> attempt < recovery_retry_attempt_ceiling d2 (ev_id ev) (env_retry_max_attempts (we_fail we))
        then (RejectedForRetry, ws2)
        else dead_letter_or_requeue we msg (coerce_dead_letter_payload (we_codecs we) (PyDict (event_json we ev)))
               reason ws2)"
      using run marked fin
      unfolding stage_delivery_failed_def Let_def reason_def [symmetric] rt_def [symmetric] ws1_def [symmetric] db1
      by (cases b) (auto simp add: ws2_def simp del: coerce_dead_letter_payload.simps split: if_splits)
    show ?thesis
    proof (cases b)
      case True
      then show ?thesis
        using step rec [of ws2] cancelling_closes [of we ev reason e d1 d2 ws1] fin
        by (simp add: ws2_def rt_def)
    next
      case False
      show ?thesis
      proof (cases "rt \<and> attempt < recovery_retry_attempt_ceiling d2 (ev_id ev) (env_retry_max_attempts (we_fail we))")
        case True
        then show ?thesis using step False rec [of ws2] by (simp add: ws2_def ws1_def)
      next
        case no: False
        have "(st, ws') = dead_letter_or_requeue we msg
            (coerce_dead_letter_payload (we_codecs we) (PyDict (event_json we ev))) reason ws2"
          using step unfolding if_not_P [OF False] if_not_P [OF no] .
        note settles = dead_letter_settles [OF this [symmetric]]
        have "ws_db ws' = d2" "ws_ledger ws2 = ws_ledger ws" using settles by (simp_all add: ws2_def ws1_def)
        with settles rec [of ws'] show ?thesis by (auto simp: rt_def)
      qed
    qed
  qed
qed

text \<open>The ways a delivery ends: taken up before, worked and committed, or failed on the way.\<close>

lemma process_stage_delivery_cases:
  assumes run: "process_stage_delivery we ev msg attempt ws = (st, ws')"
    and "journal_keyed (ws_db ws)" "others_keep_keys (we_providers we)"
  obtains
    (taken) "st = Acked"
      "start_stage_processing (we_start we) (ev_file ev) (ev_stage ev) attempt (ev_id ev) (ws_db ws) = (Inr None, ws_db ws')"
  | (worked) ctx d1 where "st = Acked"
      "start_stage_processing (we_start we) (ev_file ev) (ev_stage ev) attempt (ev_id ev) (ws_db ws) = (Inr (Some ctx), d1)"
      "run_stage_for (we_work we) (we_providers we) ev ctx attempt d1 = (Inr (), ws_db ws')"
  | (failed) e w where "stage_delivery_failed we ev msg attempt e w = (st, ws')" "journal_keyed (ws_db w)"
      "ws_ledger w = ws_ledger ws"
proof -
  obtain r d1 where start: "start_stage_processing (we_start we) (ev_file ev) (ev_stage ev) attempt (ev_id ev) (ws_db ws) = (r, d1)"
    by (cases "start_stage_processing (we_start we) (ev_file ev) (ev_stage ev) attempt (ev_id ev) (ws_db ws)")
  have k1: "journal_keyed d1" using keyed_completions(8) [OF assms(2)] start by (metis snd_conv)
  show thesis
  proof (cases r)
    case (Inl err)
    then have "stage_delivery_failed we ev msg attempt (service_exn (we_providers we) err) (ws\<lparr>ws_db := d1\<rparr>) = (st, ws')"
      using run start by (simp add: process_stage_delivery_def)
    then show thesis by (rule failed) (simp_all add: k1)
  next
    case (Inr out)
    show thesis
    proof (cases out)
      case None
      then have "st = Acked" "ws_db ws' = d1" using run start Inr by (auto simp: process_stage_delivery_def)
      with start Inr None show thesis by (intro taken) simp_all
    next
      case (Some ctx)
      define permit where "permit = (case DEPENDENCY_BY_STAGE (ev_stage ev) of
                           None \<Rightarrow> (Inr (), ws_circuits ws)
                         | Some dep \<Rightarrow>
                             acquire_dependency_circuit (env_now (we_work we)) dep (we_owner we) (ws_circuits ws))"
      obtain p c where p: "permit = (p, c)" by (cases permit)
      obtain q d2 where q: "run_stage_for (we_work we) (we_providers we) ev ctx attempt d1 = (q, d2)"
        by (cases "run_stage_for (we_work we) (we_providers we) ev ctx attempt d1")
      have k2: "journal_keyed d2" using run_stage_for_keyed [OF assms(3) k1] q by (metis snd_conv)
      have run': "(st, ws') = (case permit of
                (Inl refused, c) \<Rightarrow>
                  stage_delivery_failed we ev msg attempt (circuit_exn we (DEPENDENCY_BY_STAGE (ev_stage ev)) refused)
                    (ws\<lparr>ws_db := d1, ws_circuits := c\<rparr>)
              | (Inr _, c) \<Rightarrow>
                  (case (q, d2) of
                     (Inl e, d2) \<Rightarrow> stage_delivery_failed we ev msg attempt e (ws\<lparr>ws_db := d2, ws_circuits := c\<rparr>)
                   | (Inr _, d2) \<Rightarrow>
                       (Acked, ws\<lparr>ws_db := d2,
                          ws_circuits := (case DEPENDENCY_BY_STAGE (ev_stage ev) of
                             None \<Rightarrow> c
                           | Some dep \<Rightarrow> if we_success_recorded we then record_dependency_success dep c else c)\<rparr>)))"
        using run start Inr Some unfolding process_stage_delivery_def permit_def q [symmetric] by (simp add: Let_def)
      show thesis
      proof (cases p)
        case (Inl refused)
        show thesis by (rule failed [OF run' [unfolded p Inl prod.case sum.case, symmetric]]) (simp_all add: k1)
      next
        case (Inr u)
        show thesis
        proof (cases q)
          case (Inl e)
          show thesis
            by (rule failed [OF run' [unfolded p \<open>p = Inr u\<close> Inl prod.case sum.case, symmetric]]) (simp_all add: k2)
        next
          case (Inr v)
          have "st = Acked" "ws_db ws' = d2" using run' by (simp_all add: p \<open>p = Inr u\<close> Inr)
          with q Inr start \<open>r = Inr out\<close> Some show thesis by (intro worked [of ctx d1]) simp_all
        qed
      qed
    qed
  qed
qed

text \<open>
  C7. A worker tells the broker nothing the committed database does not show. It acknowledges a delivery when the
  stage's row was already in progress or succeeded by this very delivery and nothing was changed; when its handler
  returned, and then the row has succeeded by this delivery; or when the failure of the attempt is recorded (the row
  failed by this delivery, or put back and charged for a derivative regeneration) and either the recovery item is closed
  or the ledger holds the dead letter. It rejects a delivery for a retry only with the failure recorded as retryable and
  attempts left, hands one back only with the failure recorded when the ledger cannot be written, and settles nothing
  only when recording the failure was refused.
\<close>

theorem delivery_settles_with_durable_truth:
  assumes "process_stage_delivery we ev msg attempt ws = (st, ws')"
    and "journal_keyed (ws_db ws)" "others_keep_keys (we_providers we)"
  shows "case st of
      Acked \<Rightarrow>
        (start_stage_processing (we_start we) (ev_file ev) (ev_stage ev) attempt (ev_id ev) (ws_db ws) =
           (Inr None, ws_db ws) \<and>
         ws_db ws' = ws_db ws \<and> row_shows ev {STAGE_PROCESSING, STAGE_SUCCEEDED} (ws_db ws')) \<or>
        (\<exists>ctx d1. start_stage_processing (we_start we) (ev_file ev) (ev_stage ev) attempt (ev_id ev) (ws_db ws) =
             (Inr (Some ctx), d1) \<and>
           run_stage_for (we_work we) (we_providers we) ev ctx attempt d1 = (Inr (), ws_db ws') \<and>
           row_shows ev {STAGE_SUCCEEDED} (ws_db ws')) \<or>
        (\<exists>rt. failure_recorded ev attempt rt (ws_db ws')) \<and> (recovery_closed ev ws' \<or> dead_lettered we ev msg ws')
    | RejectedForRetry \<Rightarrow> failure_recorded ev attempt True (ws_db ws') \<and>
        attempt < recovery_retry_attempt_ceiling (ws_db ws') (ev_id ev) (env_retry_max_attempts (we_fail we))
    | Requeued \<Rightarrow> (\<exists>rt. failure_recorded ev attempt rt (ws_db ws')) \<and> \<not> we_ledger_ok we
    | Unsettled x \<Rightarrow> (\<exists>err. x = service_exn (we_providers we) err) \<and> ws_ledger ws' = ws_ledger ws"
  using assms
proof (cases rule: process_stage_delivery_cases)
  case taken
  from taken_row [OF taken(2)] taken show ?thesis by simp
next
  case (worked ctx d1)
  have "journal_keyed d1" using keyed_completions(8) [OF assms(2)] worked(2) by (metis snd_conv)
  from completed_row [OF run_stage_completes [OF worked(3) this]] worked show ?thesis by auto
next
  case (failed e w)
  from failed_delivery_settles [OF failed(1,2)] failed(3) show ?thesis by (cases st) auto
qed

text \<open>
  C25. A delivery that a replay or a later attempt has superseded is never settled by its worker: starting
  the stage and recording the failure are both refused as stale, the handler raises, and nothing changes,
  so the broker holds the message until the channel closes and then delivers it again, to the same end.
\<close>

theorem superseded_delivery_never_settles:
  assumes "get_journal (ws_db ws) (ev_file ev) (ev_stage ev) = Some e" "effective_attempt we ev msg < sj_attempt_count e"
    and "sj_last_event_id e \<noteq> Some (ev_id ev)" "get_file (ws_db ws) (ev_file ev) = Some mf"
  shows "handle_stage_message we (ev_stage ev) (EventBody ev) msg ws =
     (Unsettled (service_exn (we_providers we) (PipelineIngestError StaleTransition)), ws)"
proof -
  let ?n = "effective_attempt we ev msg"
  have stale: "ensure_stage_attempt_is_current e ?n = Inl (PipelineIngestError StaleTransition)"
    using assms(2) by (simp add: ensure_stage_attempt_is_current_def)
  have start: "start_stage_processing (we_start we) (ev_file ev) (ev_stage ev) ?n (ev_id ev) (ws_db ws) =
      (Inl (PipelineIngestError StaleTransition), ws_db ws)"
    using assms stale by (simp add: start_stage_processing_def get_meme_file_def)
  have entry: "get_meme_file_and_stage_entry (ws_db ws) (ev_file ev) (ev_stage ev) = Inr (mf, e)"
    using assms by (simp add: get_entry_Inr)
  have mark: "mark_stage_failed (we_fail we) (ev_file ev) (ev_stage ev) ?n (ev_id ev) r t b (ws_db ws) =
      (Inl (PipelineIngestError StaleTransition), ws_db ws)" for r t b
    by (simp add: mark_stage_failed_def mark_stage_failed_from_def entry stale)
  have "note_dependency_failure we (DEPENDENCY_BY_STAGE (ev_stage ev))
      (is_replayable_failure (ev_stage ev) (ServiceFailure (PipelineIngestError StaleTransition)))
      (service_exn (we_providers we) (PipelineIngestError StaleTransition)) (ws_circuits ws) = ws_circuits ws"
    by (cases "ev_stage ev")
      (simp_all add: note_dependency_failure_def is_replayable_failure_def is_merge_transaction_error_def)
  then show ?thesis
    by (simp add: handle_stage_message_def Let_def process_stage_delivery_def start stage_delivery_failed_def mark)
      (simp add: service_exn_def)
qed

section \<open>Retries end\<close>

text \<open>
  The deliveries of one message: a rejected delivery waits in the retry queue, and the broker counts its
  expiry in the death header of the next. \<open>we k\<close> is the environment of the delivery after \<open>k\<close> retries.
\<close>

definition retried_message :: "worker_env \<Rightarrow> dispatch_event \<Rightarrow> text_value option \<Rightarrow> nat \<Rightarrow> rabbit_message" where
  "retried_message we ev i k =
     \<lparr>rm_headers = (if k = 0 then []
        else [(''x-death'', PyList [PyDict [(''queue'', PyStr (we_retry_queue we (ev_stage ev))),
                (''reason'', PyStr ''expired''), (''count'', PyInt (int k))]])]),
      rm_id = i\<rparr>"

lemma retried_attempt:
  "ev_stage ev \<noteq> INGEST \<Longrightarrow> effective_attempt we ev (retried_message we ev i k) = max (ev_attempt ev + int k) 1"
  by (simp add: effective_attempt_def retried_message_def retry_cycle_count_def retry_cycle_count_for_queue_def
      dict_get_def queue_death_count_def)

definition deliver_again ::
  "(nat \<Rightarrow> worker_env) \<Rightarrow> dispatch_event \<Rightarrow> text_value option \<Rightarrow> nat \<Rightarrow> worker_state \<Rightarrow> settlement \<times> worker_state" where
  "deliver_again we ev i k ws =
     handle_stage_message (we k) (ev_stage ev) (EventBody ev) (retried_message (we k) ev i k) ws"

primrec after_deliveries ::
  "(nat \<Rightarrow> worker_env) \<Rightarrow> dispatch_event \<Rightarrow> text_value option \<Rightarrow> worker_state \<Rightarrow> nat \<Rightarrow> worker_state" where
  "after_deliveries we ev i ws 0 = ws"
| "after_deliveries we ev i ws (Suc k) = snd (deliver_again we ev i k (after_deliveries we ev i ws k))"

lemma failed_rejects:
  "stage_delivery_failed we ev msg attempt e ws = (RejectedForRetry, ws') \<Longrightarrow>
     attempt < recovery_retry_attempt_ceiling (ws_db ws') (ev_id ev) (env_retry_max_attempts (we_fail we))"
  by (auto simp: stage_delivery_failed_def Let_def dead_letter_or_requeue_def split: sum.splits prod.splits if_splits bool.splits)

lemma rejected_has_attempts_left:
  assumes "handle_stage_message we (ev_stage ev) (EventBody ev) msg ws = (RejectedForRetry, ws')"
  shows "effective_attempt we ev msg <
    recovery_retry_attempt_ceiling (ws_db ws') (ev_id ev) (env_retry_max_attempts (we_fail we))"
  using assms
  by (auto simp: handle_stage_message_def Let_def process_stage_delivery_def
      split: sum.splits prod.splits option.splits if_splits intro: failed_rejects)

text \<open>
  C26. No message is retried forever: if the retry ceilings in force stay at or below a bound, then among
  the first deliveries up to that bound there is one that is not sent to the retry queue again.
\<close>

theorem retries_are_bounded:
  assumes "ev_stage ev \<noteq> INGEST" "1 \<le> ev_attempt ev" "ev_attempt ev \<le> bound"
    and "\<And>k. recovery_retry_attempt_ceiling (ws_db (after_deliveries we ev i ws (Suc k))) (ev_id ev)
           (env_retry_max_attempts (we_fail (we k))) \<le> bound"
  shows "\<exists>k. int k \<le> bound - ev_attempt ev \<and>
    fst (deliver_again we ev i k (after_deliveries we ev i ws k)) \<noteq> RejectedForRetry"
proof -
  define k where "k = nat (bound - ev_attempt ev)"
  have k: "int k = bound - ev_attempt ev" using assms(3) by (simp add: k_def)
  have "fst (deliver_again we ev i k (after_deliveries we ev i ws k)) \<noteq> RejectedForRetry"
  proof
    assume "fst (deliver_again we ev i k (after_deliveries we ev i ws k)) = RejectedForRetry"
    then have "handle_stage_message (we k) (ev_stage ev) (EventBody ev) (retried_message (we k) ev i k)
        (after_deliveries we ev i ws k) = (RejectedForRetry, after_deliveries we ev i ws (Suc k))"
      by (simp add: deliver_again_def) (metis prod.collapse)
    from rejected_has_attempts_left [OF this] assms(4) [of k] retried_attempt [OF assms(1), of "we k" i k] k assms(2)
    show False by simp
  qed
  with k show ?thesis by (intro exI [of _ k]) simp
qed
section \<open>Instances\<close>

text \<open>A worker whose OCR engine always times out.\<close>

definition timeout_exn :: exn where
  "timeout_exn = \<lparr>ex_class = OCRTimeoutError, ex_text = ''timed out''\<rparr>"

definition failing_providers :: providers where
  "failing_providers =
     \<lparr>pv_forced_failure = (\<lambda>_. None), pv_download = (\<lambda>_. Inr ''bytes''), pv_upload = (\<lambda>_ _. None),
      pv_delete = (\<lambda>_. None), pv_observed_size = (\<lambda>_. Inr None), pv_supports_reservation = True,
      pv_normalize = (\<lambda>_ _ _ _ _. Inl timeout_exn), pv_preview_frame = (\<lambda>_ _ _. Inl timeout_exn),
      pv_extract_text = (\<lambda>_ _ _ _. Inl timeout_exn), pv_embed_image = (\<lambda>_. Inl timeout_exn),
      pv_find_similar = (\<lambda>_ _ _. Inr []), pv_classify_image = (\<lambda>_. Inl timeout_exn),
      pv_sync_inputs = (\<lambda>_ _ _. Inl timeout_exn), pv_upsert = (\<lambda>_ _. None), pv_fetch = (\<lambda>_ _. Inr None),
      pv_cleanup_storage = (\<lambda>_. None), pv_cleanup_others = (\<lambda>d. d), pv_sanitize = Some,
      pv_service_text = (\<lambda>_. ''pipeline error'')\<rparr>"

definition sample_worker :: worker_env where
  "sample_worker =
     \<lparr>we_start = sample_env, we_work = sample_env, we_fail = sample_env, we_providers = failing_providers,
      we_codecs = plain_codecs, we_retry_queue = (\<lambda>s. stage_value s @ ''.retry''), we_owner = ''all:1'',
      we_failure_threshold = 3, we_cooldown = 30000000, we_success_recorded = True, we_failure_recorded = True,
      we_ledger_ok = True, we_ledger_id = 81, we_fresh_reference = 82, we_cancelling = (\<lambda>_. False),
      we_qualified_name = exn_name, we_time_text = int_text\<rparr>"

definition sample_ocr_event :: dispatch_event where
  "sample_ocr_event =
     \<lparr>ev_id = 60, ev_type = MEME_TRANSCODED, ev_meme = 7, ev_file = 1, ev_stage = OCR,
      ev_source_kind = MANUAL_UPLOAD, ev_original_key = ''originals/a.png'', ev_attempt = 1, ev_created_at = 900\<rparr>"

definition sample_worker_state :: worker_state where
  "sample_worker_state = \<lparr>ws_db = sample_stage_db OCR, ws_circuits = (\<lambda>_. None), ws_ledger = []\<rparr>"

definition sample_rabbit_message :: rabbit_message where
  "sample_rabbit_message = \<lparr>rm_headers = [], rm_id = Some ''60''\<rparr>"

lemma sample_others: "others_keep_keys (we_providers sample_worker)"
  by (simp add: others_keep_keys_def sample_worker_def failing_providers_def)

theorem delivery_settles_with_durable_truth_witness:
  "failure_recorded sample_ocr_event 1 True
     (ws_db (snd (process_stage_delivery sample_worker sample_ocr_event sample_rabbit_message 1 sample_worker_state)))"
proof -
  let ?r = "process_stage_delivery sample_worker sample_ocr_event sample_rabbit_message 1 sample_worker_state"
  have "fst ?r = RejectedForRetry" by code_simp
  then have "?r = (RejectedForRetry, snd ?r)" by (metis prod.collapse)
  from delivery_settles_with_durable_truth [OF this _ sample_others] show ?thesis
    by (simp add: sample_worker_state_def sample_stage_keyed)
qed

definition sample_later_db :: db where
  "sample_later_db =
     (sample_stage_db OCR)\<lparr>db_journal := (\<lambda>k. if k = (1, OCR)
        then Some ((sample_journal OCR)\<lparr>sj_attempt_count := 3, sj_last_event_id := Some 62\<rparr>) else None)\<rparr>"

theorem superseded_delivery_never_settles_witness:
  "handle_stage_message sample_worker OCR (EventBody (sample_ocr_event\<lparr>ev_id := 61\<rparr>)) sample_rabbit_message
       (sample_worker_state\<lparr>ws_db := sample_later_db\<rparr>) =
     (Unsettled (service_exn failing_providers (PipelineIngestError StaleTransition)),
      sample_worker_state\<lparr>ws_db := sample_later_db\<rparr>)"
proof -
  have "get_file sample_later_db 1 = Some sample_file"
    by (simp add: get_file_def sample_later_db_def sample_stage_db_def sample_file_def)
  moreover have "effective_attempt sample_worker (sample_ocr_event\<lparr>ev_id := 61\<rparr>) sample_rabbit_message = 1"
    by code_simp
  ultimately show ?thesis
    using superseded_delivery_never_settles [of "sample_worker_state\<lparr>ws_db := sample_later_db\<rparr>"
        "sample_ocr_event\<lparr>ev_id := 61\<rparr>"
        "(sample_journal OCR)\<lparr>sj_attempt_count := 3, sj_last_event_id := Some 62\<rparr>"
        sample_worker sample_rabbit_message sample_file]
    by (simp add: sample_ocr_event_def sample_later_db_def get_journal_def)
      (simp add: sample_worker_def)
qed

definition empty_worker_state :: worker_state where
  "empty_worker_state = sample_worker_state\<lparr>ws_db := empty_db\<rparr>"

lemma empty_delivery: "snd (deliver_again (\<lambda>_. sample_worker) sample_ocr_event None k empty_worker_state) = empty_worker_state"
proof -
  have none: "get_journal empty_db f s = None" for f s by (simp add: get_journal_def empty_db_def)
  have entry: "get_meme_file_and_stage_entry empty_db f s = Inl (PipelineItemNotFoundError f)" for f s
    by (simp add: get_meme_file_and_stage_entry_def get_meme_file_def get_file_def empty_db_def)
  show ?thesis
    by (simp add: deliver_again_def handle_stage_message_def Let_def sample_ocr_event_def process_stage_delivery_def
        empty_worker_state_def start_stage_processing_def none stage_delivery_failed_def mark_stage_failed_def
        mark_stage_failed_from_def entry note_dependency_failure_def is_replayable_failure_def service_exn_def)
qed

lemma empty_deliveries: "after_deliveries (\<lambda>_. sample_worker) sample_ocr_event None empty_worker_state k = empty_worker_state"
  by (induction k) (simp_all add: empty_delivery)

theorem retries_are_bounded_witness:
  "\<exists>k. int k \<le> 4 \<and>
    fst (deliver_again (\<lambda>_. sample_worker) sample_ocr_event None k
      (after_deliveries (\<lambda>_. sample_worker) sample_ocr_event None empty_worker_state k)) \<noteq> RejectedForRetry"
proof -
  have "recovery_retry_attempt_ceiling (ws_db empty_worker_state) (ev_id sample_ocr_event)
      (env_retry_max_attempts (we_fail sample_worker)) \<le> 5"
    by (simp add: recovery_retry_attempt_ceiling_def load_recovery_item_def empty_worker_state_def empty_db_def
        sample_worker_def sample_env_def)
  then show ?thesis
    using retries_are_bounded [of sample_ocr_event 5 "\<lambda>_. sample_worker" None empty_worker_state]
    by (simp only: empty_deliveries) (simp add: sample_ocr_event_def)
qed

end
