(* ===== verification/Recovery_State.thy ===== *)
theory Recovery_State
  imports Replay Reliability
begin

text \<open>
  The state of the recovery runtime (\<open>services/recovery_runtime.py\<close>): recovery jobs, the ingest requests,
  backfill jobs and crawled posts a job may repair, and what the runtime loads and writes of them.

  A work item is shown by \<open>AdminRecoveryService\<close> as a projection with a version, the actions it allows and the
  dead letter linked to it (\<open>Recovery_Projection\<close>). The object store, the Telegram session manager, the
  redaction of error texts, the digest of a media version and the \<open>updated_at\<close> of the outbox and snapshot rows
  are functions of the environment \<open>recovery_env\<close>.
\<close>

section \<open>Rows\<close>

datatype job_status =
    JOB_PREPARING | JOB_PREVIEW | JOB_QUEUED | JOB_RUNNING | JOB_CANCELLING | JOB_COMPLETED
  | JOB_COMPLETED_WITH_FAILURES | JOB_CANCELLED | JOB_EXPIRED

datatype ingest_status =
    REQ_ACCEPTED | MEDIA_INSPECT_PENDING | MEDIA_INSPECTING | MATERIALIZED | RESOLVED_SHA_DUPLICATE
  | FAILED_INVALID_MEDIA | FAILED_BLOCKED_PHASH | PUBLISH_FAILED

datatype post_status = POST_OBSERVED | POST_ACCEPTED | POST_UNSUPPORTED | POST_FAILED

datatype backfill_status =
    BACKFILL_QUEUED | BACKFILL_RUNNING | BACKFILL_WAITING_RETRY | BACKFILL_WAITING_CAPACITY
  | BACKFILL_COMPLETED | BACKFILL_COMPLETED_WITH_FAILURES | BACKFILL_FAILED | BACKFILL_CANCELLED

datatype replay_scope = STAGE_ONLY | STAGE_AND_DEPENDENTS

datatype acknowledgement = TERMINAL_OVERRIDE | STALE_DEPENDENTS | MEDIA_REPLACEMENT

datatype bucket = DEAD_LETTERED | STUCK | RETRYABLE | BLOCKED

text \<open>What a job was asked to select, as its JSON column keeps it.\<close>

record query_filters =
  qf_bucket :: "bucket option"
  qf_kind :: "recovery_work_kind option"
  qf_channel :: "uuid option"
  qf_stage :: "stage option"
  qf_reason :: "text_value option"
  qf_query :: "text_value option"
  qf_outdated_web_video :: bool
  qf_successful_stage :: bool

type_synonym work_reference = "recovery_work_kind \<times> work_id \<times> version"

datatype selector = ExplicitSelector "work_reference list" | QuerySelector query_filters

datatype selection =
    ActionSelection work_reference replay_scope int "acknowledgement list"
  | BatchSelection selector replay_scope int "acknowledgement list"
  | RetrySelection "work_reference list" uuid replay_scope int

text \<open>\<open>rj_exclusions\<close> has the reason of every excluded item; the columns count them.\<close>

record recovery_job =
  rj_id :: uuid
  rj_created_at :: time
  rj_updated_at :: time
  rj_requested_by :: uuid
  rj_assigned :: "uuid option"
  rj_source_job :: "uuid option"
  rj_request_id :: uuid
  rj_action :: recovery_capability
  rj_scope :: "replay_scope option"
  rj_retry_limit :: int
  rj_reason :: text_value
  rj_selection :: selection
  rj_status :: job_status
  rj_total_count :: nat
  rj_selected_root_count :: nat
  rj_expanded_count :: nat
  rj_exclusions :: "text_value list"
  rj_completed_count :: nat
  rj_failed_count :: nat
  rj_queued_count :: nat
  rj_waiting_count :: nat
  rj_dispatched_count :: nat
  rj_succeeded_count :: nat
  rj_stale_count :: nat
  rj_skipped_count :: nat
  rj_cancelled_count :: nat
  rj_expires_at :: "time option"
  rj_scheduled_at :: "time option"
  rj_completed_at :: "time option"
  rj_cancelled_at :: "time option"

record audit_entry =
  au_admin :: uuid
  au_request :: uuid
  au_action :: text_value
  au_target_kind :: text_value
  au_target_id :: text_value
  au_note :: text_value
  au_created_at :: time

record ingest_request =
  iq_id :: uuid
  iq_platform :: text_value
  iq_file :: "uuid option"
  iq_temp_key :: "text_value option"
  iq_sha256 :: "text_value option"
  iq_status :: ingest_status
  iq_failure_code :: "text_value option"
  iq_failure_detail :: "text_value option"
  iq_attempt_count :: int
  iq_locked_at :: "time option"
  iq_updated_at :: time

record backfill_job =
  bj_id :: uuid
  bj_channel :: uuid
  bj_status :: backfill_status
  bj_attempt_count :: int
  bj_is_retryable :: bool
  bj_next_attempt_at :: "time option"
  bj_completed_at :: "time option"
  bj_locked_at :: "time option"
  bj_lock_owner :: "text_value option"
  bj_error_code :: "text_value option"
  bj_error_class :: "text_value option"
  bj_error_text :: "text_value option"
  bj_last_progress_at :: "time option"
  bj_updated_at :: time

record backfill_attempt =
  ba_id :: uuid
  ba_number :: int
  ba_recovery_item :: "uuid option"
  ba_is_retryable :: bool
  ba_finished_at :: "time option"

record source_post =
  po_id :: uuid
  po_channel :: uuid
  po_post_id :: text_value
  po_status :: post_status
  po_attempt_count :: int
  po_is_retryable :: bool
  po_error_code :: "text_value option"
  po_error_text :: "text_value option"
  po_next_attempt_at :: "time option"
  po_updated_at :: time

record recovery_state =
  rs_db :: db
  rs_jobs :: "recovery_job list"
  rs_requests :: "ingest_request list"
  rs_backfills :: "backfill_job list"
  rs_backfill_attempts :: "backfill_attempt list"
  rs_posts :: "source_post list"
  rs_channels :: "uuid \<Rightarrow> text_value option"
  rs_ledger :: "dead_letter list"
  rs_capacity :: "stage \<Rightarrow> capacity_row option"
  rs_admins :: "uuid list"
  rs_audit :: "audit_entry list"

section \<open>Exceptions\<close>

text \<open>
  The exceptions of the runtime with their text. Storage and original-missing errors are conflicts.
  \<open>TelegramFailure terminal name\<close> are the crawler's errors; the terminal ones are \<open>_TERMINAL_SOURCE_POST_ERRORS\<close>.
\<close>

datatype recovery_exn =
    AdminRecoveryNotFoundError text_value
  | AdminRecoveryConflictError text_value
  | AdminRecoveryStorageUnavailableError text_value
  | AdminRecoveryOriginalMissingError text_value
  | RecoveryTerminalDispatchError text_value
  | PipelineFailure pipeline_error text_value
  | TelegramFailure bool text_value text_value
  | OtherFailure text_value text_value

fun is_recovery_conflict :: "recovery_exn \<Rightarrow> bool" where
  "is_recovery_conflict (AdminRecoveryConflictError t) = True"
| "is_recovery_conflict (AdminRecoveryStorageUnavailableError t) = True"
| "is_recovery_conflict (AdminRecoveryOriginalMissingError t) = True"
| "is_recovery_conflict _ = False"

fun is_recovery_not_found :: "recovery_exn \<Rightarrow> bool" where
  "is_recovery_not_found (AdminRecoveryNotFoundError t) = True"
| "is_recovery_not_found _ = False"

fun is_terminal_dispatch :: "recovery_exn \<Rightarrow> bool" where
  "is_terminal_dispatch (RecoveryTerminalDispatchError t) = True"
| "is_terminal_dispatch (PipelineFailure (PipelineReplayNotAllowedError c) t) = True"
| "is_terminal_dispatch e = (is_recovery_conflict e \<or> is_recovery_not_found e)"

fun is_terminal_source_post_error :: "recovery_exn \<Rightarrow> bool" where
  "is_terminal_source_post_error (TelegramFailure terminal name t) = terminal"
| "is_terminal_source_post_error _ = False"

text \<open>\<open>str(exc)\<close> and \<open>type(exc).__name__\<close>.\<close>

fun recovery_exn_text :: "recovery_exn \<Rightarrow> text_value" where
  "recovery_exn_text (AdminRecoveryNotFoundError t) = t"
| "recovery_exn_text (AdminRecoveryConflictError t) = t"
| "recovery_exn_text (AdminRecoveryStorageUnavailableError t) = t"
| "recovery_exn_text (AdminRecoveryOriginalMissingError t) = t"
| "recovery_exn_text (RecoveryTerminalDispatchError t) = t"
| "recovery_exn_text (PipelineFailure e t) = t"
| "recovery_exn_text (TelegramFailure terminal name t) = t"
| "recovery_exn_text (OtherFailure name t) = t"

fun pipeline_error_name :: "pipeline_error \<Rightarrow> text_value" where
  "pipeline_error_name (PipelineIngestError c) = ''PipelineIngestError''"
| "pipeline_error_name (PipelineItemNotFoundError f) = ''PipelineItemNotFoundError''"
| "pipeline_error_name (PipelineReplayNotAllowedError c) = ''PipelineReplayNotAllowedError''"
| "pipeline_error_name PipelineMergeTransactionError = ''PipelineMergeTransactionError''"
| "pipeline_error_name (MediaGenerationConflictError c) = ''MediaGenerationConflictError''"
| "pipeline_error_name (ValidationError c) = ''ValidationError''"
| "pipeline_error_name (RabbitOutboxError t) = ''RabbitOutboxError''"
| "pipeline_error_name SQLAlchemyError = ''SQLAlchemyError''"

fun recovery_exn_name :: "recovery_exn \<Rightarrow> text_value" where
  "recovery_exn_name (AdminRecoveryNotFoundError t) = ''AdminRecoveryNotFoundError''"
| "recovery_exn_name (AdminRecoveryConflictError t) = ''AdminRecoveryConflictError''"
| "recovery_exn_name (AdminRecoveryStorageUnavailableError t) = ''AdminRecoveryStorageUnavailableError''"
| "recovery_exn_name (AdminRecoveryOriginalMissingError t) = ''AdminRecoveryOriginalMissingError''"
| "recovery_exn_name (RecoveryTerminalDispatchError t) = ''RecoveryTerminalDispatchError''"
| "recovery_exn_name (PipelineFailure e t) = pipeline_error_name e"
| "recovery_exn_name (TelegramFailure terminal name t) = name"
| "recovery_exn_name (OtherFailure name t) = name"

section \<open>Projections and environment\<close>

text \<open>
  \<open>wr_event\<close> and \<open>wr_dead_letter\<close> are the \<open>event_id\<close> and \<open>dead_letter_id\<close> of the details. Titles, labels and the
  error code, which repeats the reason, are left out.
\<close>

record work_read =
  wr_kind :: recovery_work_kind
  wr_id :: work_id
  wr_bucket :: bucket
  wr_channel :: "uuid option"
  wr_file :: "uuid option"
  wr_stage :: "stage option"
  wr_status :: text_value
  wr_reason :: "text_value option"
  wr_is_retryable :: bool
  wr_attempt_count :: int
  wr_occurred_at :: time
  wr_next_attempt_at :: "time option"
  wr_version :: version
  wr_capabilities :: "recovery_capability list"
  wr_blocked_reason :: "text_value option"
  wr_event :: "uuid option"
  wr_dead_letter :: "uuid option"

record scope_requirements =
  sr_warnings :: "text_value list"
  sr_risks :: "text_value list"
  sr_required :: "acknowledgement list"

record action_read =
  ar_capability :: recovery_capability
  ar_available :: bool
  ar_scopes :: "replay_scope list"
  ar_downstream :: "stage list"
  ar_warnings :: "text_value list"
  ar_risks :: "text_value list"
  ar_required :: "acknowledgement list"
  ar_scope_requirements :: "(replay_scope \<times> scope_requirements) list"
  ar_blocked :: "text_value list"

datatype presence = PRESENT | MISSING | UNAVAILABLE

datatype crawler_outcome =
    INGESTED | SHA256_EXACT_EXISTING_FILE | BLOCKED_SHA256_EXISTING_FILE | PHASH_EXACT_NEW_FILE
  | BLOCKED_PERCEPTUAL_HASH | SKIPPED_UNSUPPORTED_MEDIA | SKIPPED_PAUSED_CHANNEL
  | SKIPPED_DUPLICATE_POST_ID | REJECTED_MALFORMED

text \<open>
  \<open>re_env\<close> is the environment of a dispatch or reconcile session, \<open>re_failure_env\<close> of the session that
  records a dispatch failure, \<open>re_completion_env\<close> of the one that completes a crawled post. A failed commit
  raises in them.
\<close>

record recovery_env =
  re_env :: env
  re_failure_env :: env
  re_completion_env :: env
  re_sanitize :: "text_value \<Rightarrow> text_value option"
  re_service_text :: "pipeline_error \<Rightarrow> text_value"
  re_time_text :: "time \<Rightarrow> text_value"
  re_presence :: "text_value \<Rightarrow> presence"
  re_codecs :: codecs
  re_media_version :: "stage_journal \<Rightarrow> meme_file \<Rightarrow> recovery_state \<Rightarrow> text_value"
  re_snapshot_updated :: "uuid \<Rightarrow> recovery_state \<Rightarrow> time"
  re_outbox_updated :: "uuid \<Rightarrow> recovery_state \<Rightarrow> time"
  re_job_locked :: "uuid \<Rightarrow> bool"
  re_item_locked :: "uuid \<Rightarrow> bool"
  re_row_locked :: "uuid \<Rightarrow> bool"
  re_stuck_after :: int
  re_replay_post :: "text_value \<Rightarrow> text_value \<Rightarrow> recovery_state \<Rightarrow> (recovery_exn + crawler_outcome) \<times> recovery_state"

definition seconds :: "int \<Rightarrow> time" where "seconds n = n * 1000000"

definition RECOVERY_DISPATCH_STALE_AFTER :: time where "RECOVERY_DISPATCH_STALE_AFTER = seconds (15 * 60)"

definition GENERAL_ACTIONS :: "recovery_capability list" where
  "GENERAL_ACTIONS = [REINSPECT_INGEST, RETRY_STAGE, REPLAY_STAGE, REGENERATE_DERIVATIVES, RESYNC_TARGET,
     REBUILD_OUTBOX, RECOVER_DEAD_LETTER, ARCHIVE_DEAD_LETTER]"

definition TELEGRAM_ACTIONS :: "recovery_capability list" where
  "TELEGRAM_ACTIONS = [RESUME_BACKFILL, REPLAY_SOURCE_POST, RECOVER_DEAD_LETTER]"

definition TERMINAL_ITEM_STATUSES :: "recovery_item_status list" where
  "TERMINAL_ITEM_STATUSES = [ITEM_SUCCEEDED, ITEM_FAILED, ITEM_SKIPPED_STALE, ITEM_SKIPPED_DEPENDENCY, ITEM_CANCELLED]"

definition SUCCESSFUL_ITEM_STATUSES :: "recovery_item_status list" where
  "SUCCESSFUL_ITEM_STATUSES = [ITEM_SUCCEEDED, ITEM_CANCELLED]"

definition TERMINAL_SYNC_FAILURE_REASONS :: "text_value list" where
  "TERMINAL_SYNC_FAILURE_REASONS = map SYNC_MALFORMED_REASON_BY_TARGET [QDRANT, MEILISEARCH]"

definition ACTIVE_JOB_STATUSES :: "job_status list" where
  "ACTIVE_JOB_STATUSES = [JOB_QUEUED, JOB_RUNNING, JOB_CANCELLING]"

section \<open>Loading and storing rows\<close>

definition work_uuid :: "work_id \<Rightarrow> uuid option" where
  "work_uuid w = (case w of WorkRow u \<Rightarrow> Some u | _ \<Rightarrow> None)"

definition journal_by_id :: "uuid \<Rightarrow> recovery_state \<Rightarrow> stage_journal option" where
  "journal_by_id u s =
     find (\<lambda>e. sj_id e = u) (concat (map (\<lambda>file. journal_entries (rs_db s) (mf_id file)) (db_files (rs_db s))))"

definition snapshot_keys :: "db \<Rightarrow> (uuid \<times> sync_target) list" where
  "snapshot_keys d = concat (map (\<lambda>file. [(mf_id file, QDRANT), (mf_id file, MEILISEARCH)]) (db_files d))"

definition snapshot_by_id :: "uuid \<Rightarrow> recovery_state \<Rightarrow> (uuid \<times> sync_target \<times> sync_snapshot) option" where
  "snapshot_by_id u s =
     (case find (\<lambda>k. case db_snapshots (rs_db s) k of None \<Rightarrow> False | Some r \<Rightarrow> sn_id r = u) (snapshot_keys (rs_db s)) of
        None \<Rightarrow> None
      | Some (f, t) \<Rightarrow> map_option (\<lambda>r. (f, t, r)) (db_snapshots (rs_db s) (f, t)))"

definition outbox_by_id :: "uuid \<Rightarrow> recovery_state \<Rightarrow> outbox_message option" where
  "outbox_by_id u s = row_get ob_id u (db_outbox (rs_db s))"

definition outbox_by_message :: "uuid \<Rightarrow> recovery_state \<Rightarrow> outbox_message option" where
  "outbox_by_message u s = find (\<lambda>m. ob_message_id m = MsgUuid u) (db_outbox (rs_db s))"

definition map_db :: "(db \<Rightarrow> db) \<Rightarrow> recovery_state \<Rightarrow> recovery_state" where
  "map_db g s = s\<lparr>rs_db := g (rs_db s)\<rparr>"

definition put_item :: "recovery_item \<Rightarrow> recovery_state \<Rightarrow> recovery_state" where
  "put_item i = map_db (put_recovery i)"

definition put_request :: "env \<Rightarrow> ingest_request \<Rightarrow> recovery_state \<Rightarrow> recovery_state" where
  "put_request env r s = s\<lparr>rs_requests := row_put iq_id (r\<lparr>iq_updated_at := env_now env\<rparr>) (rs_requests s)\<rparr>"

text \<open>\<open>updated_at\<close> of a job is its version: it moves exactly when a column changes.\<close>

definition touched_job :: "env \<Rightarrow> recovery_job \<Rightarrow> recovery_job \<Rightarrow> recovery_job" where
  "touched_job env old j = (if j = old then old else j\<lparr>rj_updated_at := env_now env\<rparr>)"

definition put_job :: "env \<Rightarrow> recovery_job \<Rightarrow> recovery_state \<Rightarrow> recovery_state" where
  "put_job env j s =
     s\<lparr>rs_jobs := row_put rj_id (case row_get rj_id (rj_id j) (rs_jobs s) of
                                   None \<Rightarrow> j | Some old \<Rightarrow> touched_job env old j) (rs_jobs s)\<rparr>"

definition put_dead_letter :: "env \<Rightarrow> dead_letter \<Rightarrow> recovery_state \<Rightarrow> recovery_state" where
  "put_dead_letter env r s = s\<lparr>rs_ledger := row_put dl_id (r\<lparr>dl_updated_at := env_now env\<rparr>) (rs_ledger s)\<rparr>"

definition put_backfill :: "env \<Rightarrow> backfill_job \<Rightarrow> recovery_state \<Rightarrow> recovery_state" where
  "put_backfill env r s = s\<lparr>rs_backfills := row_put bj_id (r\<lparr>bj_updated_at := env_now env\<rparr>) (rs_backfills s)\<rparr>"

definition get_request :: "recovery_state \<Rightarrow> work_id \<Rightarrow> ingest_request option" where
  "get_request s w = Option.bind (work_uuid w) (\<lambda>u. row_get iq_id u (rs_requests s))"

definition get_backfill :: "recovery_state \<Rightarrow> work_id \<Rightarrow> backfill_job option" where
  "get_backfill s w = Option.bind (work_uuid w) (\<lambda>u. row_get bj_id u (rs_backfills s))"

definition get_post :: "recovery_state \<Rightarrow> work_id \<Rightarrow> source_post option" where
  "get_post s w = Option.bind (work_uuid w) (\<lambda>u. row_get po_id u (rs_posts s))"

definition get_dead_letter :: "recovery_state \<Rightarrow> uuid \<Rightarrow> dead_letter option" where
  "get_dead_letter s u = row_get dl_id u (rs_ledger s)"

definition get_job :: "recovery_state \<Rightarrow> uuid \<Rightarrow> recovery_job option" where
  "get_job s u = row_get rj_id u (rs_jobs s)"

text \<open>\<open>_load_uuid_row\<close>: a missing row is a terminal dispatch error.\<close>

definition loaded :: "text_value \<Rightarrow> 'a option \<Rightarrow> recovery_exn + 'a" where
  "loaded model r =
     (case r of
        None \<Rightarrow> Inl (RecoveryTerminalDispatchError (''Recovery target '' @ model @ '' no longer exists.''))
      | Some x \<Rightarrow> Inr x)"

text \<open>Does the row a work item names exist (\<open>_try_load_uuid_row\<close> on the kind's model)?\<close>

definition work_exists :: "recovery_state \<Rightarrow> recovery_work_kind \<Rightarrow> work_id \<Rightarrow> bool" where
  "work_exists s kind w =
     (case work_uuid w of
        None \<Rightarrow> False
      | Some u \<Rightarrow>
          (case kind of
             WORK_PIPELINE_STAGE \<Rightarrow> journal_by_id u s \<noteq> None
           | WORK_SYNC_TARGET \<Rightarrow> snapshot_by_id u s \<noteq> None
           | WORK_INGEST_REQUEST \<Rightarrow> get_request s w \<noteq> None
           | WORK_OUTBOX \<Rightarrow> outbox_by_id u s \<noteq> None
           | WORK_BACKFILL \<Rightarrow> get_backfill s w \<noteq> None
           | WORK_SOURCE_POST \<Rightarrow> get_post s w \<noteq> None
           | WORK_DEAD_LETTER \<Rightarrow> get_dead_letter s u \<noteq> None))"

section \<open>Items and budgets\<close>

text \<open>\<open>_finish_item\<close>.\<close>

definition finish_item ::
  "recovery_env \<Rightarrow> recovery_item_status \<Rightarrow> text_value option \<Rightarrow> text_value option \<Rightarrow> recovery_item \<Rightarrow> recovery_item" where
  "finish_item re status reason error i =
     i\<lparr>ri_status := status, ri_normalized_reason := map_option (take 128) (nonblank reason),
       ri_safe_error_text := Option.bind error (re_sanitize re), ri_finished_at := Some (env_now (re_env re)),
       ri_reservation_active := False\<rparr>"

definition mark_non_stage_budget_dispatch :: "recovery_item \<Rightarrow> recovery_item" where
  "mark_non_stage_budget_dispatch i =
     i\<lparr>ri_previous_stage_state := (ri_previous_stage_state i)(NON_STAGE_BUDGET_BASE_KEY \<mapsto> JInt (ri_failures_consumed i))\<rparr>"

definition has_non_stage_budget_base :: "recovery_item \<Rightarrow> bool" where
  "has_non_stage_budget_base i =
     (case ri_previous_stage_state i NON_STAGE_BUDGET_BASE_KEY of Some (JInt n) \<Rightarrow> n \<ge> 0 | _ \<Rightarrow> False)"

definition non_stage_budget_base :: "recovery_item \<Rightarrow> int" where
  "non_stage_budget_base i =
     (case ri_previous_stage_state i NON_STAGE_BUDGET_BASE_KEY of Some (JInt n) \<Rightarrow> if n \<ge> 0 then n else 0 | _ \<Rightarrow> 0)"

text \<open>\<open>_observe_outbox_retry_budget\<close>.\<close>

definition observe_outbox_retry_budget :: "outbox_message \<Rightarrow> recovery_item \<Rightarrow> recovery_item" where
  "observe_outbox_retry_budget m i =
     (if ri_stage i \<noteq> None then observe_recovery_stage_publication_outcome i m
      else
        (let (i1, start, base) =
               (if has_non_stage_budget_base i
                then (let start = (case ri_attempt_budget_start i of None \<Rightarrow> max (ob_attempt_count m) 1 | Some n \<Rightarrow> n)
                      in (i\<lparr>ri_attempt_budget_start := Some start\<rparr>, start, non_stage_budget_base i))
                else (i, 1, 0));
             charge = (\<lambda>failures. i1\<lparr>ri_failures_consumed := max (ri_failures_consumed i1) (base + failures)\<rparr>)
         in case ob_status m of
              OUTBOX_FAILED \<Rightarrow> charge (max (ob_attempt_count m - start + 1) 0)
            | OUTBOX_PUBLISHED \<Rightarrow> charge (max (ob_attempt_count m - start) 0)
            | _ \<Rightarrow> i1))"

end
