(* ===== verification/Recovery_Projection.thy ===== *)
theory Recovery_Projection
  imports Recovery_State
begin

text \<open>
  The operational work \<open>AdminRecoveryService\<close> projects (\<open>services/admin_recovery.py\<close>): which rows are recovery
  work, their bucket, version and capabilities, the dead letters linked to them, and for one candidate the
  actions an administrator may take, with what blocks them and what has to be acknowledged.
\<close>

section \<open>Texts of the enumerations\<close>

fun work_kind_value :: "recovery_work_kind \<Rightarrow> text_value" where
  "work_kind_value WORK_BACKFILL = ''backfill''"
| "work_kind_value WORK_SOURCE_POST = ''source_post''"
| "work_kind_value WORK_INGEST_REQUEST = ''ingest_request''"
| "work_kind_value WORK_PIPELINE_STAGE = ''pipeline_stage''"
| "work_kind_value WORK_SYNC_TARGET = ''sync_target''"
| "work_kind_value WORK_OUTBOX = ''outbox''"
| "work_kind_value WORK_DEAD_LETTER = ''dead_letter''"

fun work_id_text :: "work_id \<Rightarrow> text_value" where
  "work_id_text (WorkRow u) = uuid_text u"
| "work_id_text (WorkFileSuffix u t) = uuid_text u @ '':'' @ t"
| "work_id_text (WorkText t) = t"

fun ingest_status_value :: "ingest_status \<Rightarrow> text_value" where
  "ingest_status_value REQ_ACCEPTED = ''accepted''"
| "ingest_status_value MEDIA_INSPECT_PENDING = ''media_inspect_pending''"
| "ingest_status_value MEDIA_INSPECTING = ''media_inspecting''"
| "ingest_status_value MATERIALIZED = ''materialized''"
| "ingest_status_value RESOLVED_SHA_DUPLICATE = ''resolved_sha_duplicate''"
| "ingest_status_value FAILED_INVALID_MEDIA = ''failed_invalid_media''"
| "ingest_status_value FAILED_BLOCKED_PHASH = ''failed_blocked_phash''"
| "ingest_status_value PUBLISH_FAILED = ''publish_failed''"

fun post_status_value :: "post_status \<Rightarrow> text_value" where
  "post_status_value POST_OBSERVED = ''observed''"
| "post_status_value POST_ACCEPTED = ''accepted''"
| "post_status_value POST_UNSUPPORTED = ''unsupported''"
| "post_status_value POST_FAILED = ''failed''"

fun backfill_status_value :: "backfill_status \<Rightarrow> text_value" where
  "backfill_status_value BACKFILL_QUEUED = ''queued''"
| "backfill_status_value BACKFILL_RUNNING = ''running''"
| "backfill_status_value BACKFILL_WAITING_RETRY = ''waiting_retry''"
| "backfill_status_value BACKFILL_WAITING_CAPACITY = ''waiting_capacity''"
| "backfill_status_value BACKFILL_COMPLETED = ''completed''"
| "backfill_status_value BACKFILL_COMPLETED_WITH_FAILURES = ''completed_with_failures''"
| "backfill_status_value BACKFILL_FAILED = ''failed''"
| "backfill_status_value BACKFILL_CANCELLED = ''cancelled''"

fun sync_status_value :: "sync_status \<Rightarrow> text_value" where
  "sync_status_value SYNC_PENDING = ''pending''"
| "sync_status_value SYNC_PROCESSING = ''processing''"
| "sync_status_value SYNC_SYNCED = ''synced''"
| "sync_status_value SYNC_FAILED = ''failed''"

fun outbox_status_value :: "outbox_status \<Rightarrow> text_value" where
  "outbox_status_value OUTBOX_PENDING = ''pending''"
| "outbox_status_value OUTBOX_PUBLISHING = ''publishing''"
| "outbox_status_value OUTBOX_PUBLISHED = ''published''"
| "outbox_status_value OUTBOX_FAILED = ''failed''"

fun dead_letter_status_value :: "dead_letter_status \<Rightarrow> text_value" where
  "dead_letter_status_value DL_UNRESOLVED = ''unresolved''"
| "dead_letter_status_value DL_RECOVERY_QUEUED = ''recovery_queued''"
| "dead_letter_status_value DL_RESOLVED = ''resolved''"
| "dead_letter_status_value DL_ARCHIVED = ''archived''"

section \<open>Rows as work\<close>

definition WORK_SCAN_LIMIT :: nat where "WORK_SCAN_LIMIT = 10000"
definition STUCK_AFTER :: time where "STUCK_AFTER = seconds (15 * 60)"
definition BACKFILL_STUCK_AFTER :: time where "BACKFILL_STUCK_AFTER = seconds (5 * 60)"

definition row_version :: "time \<Rightarrow> uuid option \<Rightarrow> version" where
  "row_version stamp event = RowVersion (Some stamp) event"

definition bucket_of :: "bool \<Rightarrow> bool \<Rightarrow> bucket" where
  "bucket_of stuck retryable = (if stuck then STUCK else if retryable then RETRYABLE else BLOCKED)"

definition backfill_work :: "backfill_job \<Rightarrow> work_read" where
  "backfill_work r =
     \<lparr>wr_kind = WORK_BACKFILL, wr_id = WorkRow (bj_id r),
      wr_bucket = bucket_of (bj_status r = BACKFILL_RUNNING) (bj_is_retryable r),
      wr_channel = Some (bj_channel r), wr_file = None, wr_stage = None,
      wr_status = backfill_status_value (bj_status r), wr_reason = bj_error_code r,
      wr_is_retryable = bj_is_retryable r, wr_attempt_count = bj_attempt_count r, wr_occurred_at = bj_updated_at r,
      wr_next_attempt_at = bj_next_attempt_at r, wr_version = row_version (bj_updated_at r) None,
      wr_capabilities = (if bj_status r = BACKFILL_FAILED \<and> bj_is_retryable r then [RESUME_BACKFILL] else []),
      wr_blocked_reason = (if bj_status r \<in> {BACKFILL_WAITING_RETRY, BACKFILL_WAITING_CAPACITY}
                           then Some ''Already waiting for automatic retry or capacity.'' else None),
      wr_event = None, wr_dead_letter = None\<rparr>"

definition post_work :: "source_post \<Rightarrow> work_read" where
  "post_work r =
     \<lparr>wr_kind = WORK_SOURCE_POST, wr_id = WorkRow (po_id r), wr_bucket = bucket_of False (po_is_retryable r),
      wr_channel = Some (po_channel r), wr_file = None, wr_stage = None,
      wr_status = post_status_value (po_status r), wr_reason = po_error_code r,
      wr_is_retryable = po_is_retryable r, wr_attempt_count = po_attempt_count r, wr_occurred_at = po_updated_at r,
      wr_next_attempt_at = po_next_attempt_at r, wr_version = row_version (po_updated_at r) None,
      wr_capabilities = (if po_is_retryable r then [REPLAY_SOURCE_POST] else []),
      wr_blocked_reason = (if po_is_retryable r then None
                           else Some ''The crawler classified this post failure as non-retryable.''),
      wr_event = None, wr_dead_letter = None\<rparr>"

definition ingest_work :: "ingest_request \<Rightarrow> work_read" where
  "ingest_work r =
     (let retryable = (iq_temp_key r \<noteq> None \<and> iq_status r = PUBLISH_FAILED)
      in \<lparr>wr_kind = WORK_INGEST_REQUEST, wr_id = WorkRow (iq_id r),
          wr_bucket = bucket_of (iq_status r \<in> {MEDIA_INSPECT_PENDING, MEDIA_INSPECTING}) retryable,
          wr_channel = None, wr_file = iq_file r, wr_stage = None,
          wr_status = ingest_status_value (iq_status r), wr_reason = iq_failure_code r, wr_is_retryable = retryable,
          wr_attempt_count = iq_attempt_count r, wr_occurred_at = iq_updated_at r, wr_next_attempt_at = None,
          wr_version = row_version (iq_updated_at r) None,
          wr_capabilities = (if retryable then [REINSPECT_INGEST] else []),
          wr_blocked_reason = (if retryable then None
                               else Some ''No retained retryable temporary object is available.''),
          wr_event = None, wr_dead_letter = None\<rparr>)"

definition stage_version :: "recovery_env \<Rightarrow> stage_journal \<Rightarrow> meme_file option \<Rightarrow> recovery_state \<Rightarrow> version" where
  "stage_version re e file s =
     (case file of
        Some mf \<Rightarrow>
          if sj_stage e = TRANSCODE \<and> is_moving_media mf then VersionText (re_media_version re e mf s)
          else row_version (sj_updated_at e) (sj_last_event_id e)
      | None \<Rightarrow> row_version (sj_updated_at e) (sj_last_event_id e))"

text \<open>
  A journal row as listed work and as a candidate: they differ in the explanation of a blocked row only.
\<close>

definition stage_work ::
  "recovery_env \<Rightarrow> text_value option \<Rightarrow> stage_journal \<Rightarrow> meme_file option \<Rightarrow> recovery_state \<Rightarrow> work_read" where
  "stage_work re blocked e file s =
     (let retryable = (sj_is_retryable e \<and> sj_status e = STAGE_FAILED)
      in \<lparr>wr_kind = WORK_PIPELINE_STAGE, wr_id = WorkRow (sj_id e),
          wr_bucket = bucket_of (sj_status e \<in> {STAGE_PENDING, STAGE_PROCESSING}) retryable,
          wr_channel = None, wr_file = Some (sj_file e), wr_stage = Some (sj_stage e),
          wr_status = stage_status_value (sj_status e), wr_reason = sj_normalized_reason e, wr_is_retryable = retryable,
          wr_attempt_count = sj_attempt_count e, wr_occurred_at = sj_updated_at e, wr_next_attempt_at = sj_retry_after e,
          wr_version = stage_version re e file s, wr_capabilities = (if retryable then [RETRY_STAGE] else []),
          wr_blocked_reason = blocked, wr_event = sj_last_event_id e, wr_dead_letter = None\<rparr>)"

definition listed_stage_work :: "recovery_env \<Rightarrow> stage_journal \<Rightarrow> recovery_state \<Rightarrow> work_read" where
  "listed_stage_work re e s =
     stage_work re
       (if sj_is_retryable e \<and> sj_status e = STAGE_FAILED then None
        else if sj_status e \<in> {STAGE_PENDING, STAGE_PROCESSING}
        then Some ''Stuck work must first be reclaimed by the automatic reconciler.''
        else Some ''The stage failure is non-retryable.'')
       e (if sj_stage e = TRANSCODE then get_file (rs_db s) (sj_file e) else None) s"

definition candidate_blocked :: "bool \<Rightarrow> text_value option" where
  "candidate_blocked active =
     (if active then Some ''Pending or processing work must finish or be reclaimed before replay.'' else None)"

definition sync_retryable :: "sync_snapshot \<Rightarrow> bool" where
  "sync_retryable r \<longleftrightarrow>
     sn_status r = SYNC_FAILED \<and>
     (case sn_normalized_reason r of None \<Rightarrow> True | Some t \<Rightarrow> t \<notin> set TERMINAL_SYNC_FAILURE_REASONS)"

definition sync_work ::
  "recovery_env \<Rightarrow> text_value option \<Rightarrow> uuid \<times> sync_target \<times> sync_snapshot \<Rightarrow> recovery_state \<Rightarrow> work_read" where
  "sync_work re blocked row s =
     (case row of (f, t, r) \<Rightarrow>
        \<lparr>wr_kind = WORK_SYNC_TARGET, wr_id = WorkRow (sn_id r),
         wr_bucket = bucket_of (sn_status r \<in> {SYNC_PENDING, SYNC_PROCESSING}) (sync_retryable r),
         wr_channel = None, wr_file = Some f, wr_stage = Some (SYNC_STAGE_BY_TARGET t),
         wr_status = sync_status_value (sn_status r), wr_reason = sn_normalized_reason r,
         wr_is_retryable = sync_retryable r, wr_attempt_count = sn_attempt_count r,
         wr_occurred_at = (case sn_last_attempt_at r of Some x \<Rightarrow> x | None \<Rightarrow> re_snapshot_updated re (sn_id r) s),
         wr_next_attempt_at = None, wr_version = row_version (re_snapshot_updated re (sn_id r) s) (sn_last_event_id r),
         wr_capabilities = (if sync_retryable r then [RESYNC_TARGET] else []), wr_blocked_reason = blocked,
         wr_event = sn_last_event_id r, wr_dead_letter = None\<rparr>)"

definition listed_sync_work :: "recovery_env \<Rightarrow> uuid \<times> sync_target \<times> sync_snapshot \<Rightarrow> recovery_state \<Rightarrow> work_read" where
  "listed_sync_work re row s =
     sync_work re
       (if sync_retryable (snd (snd row)) then None
        else if sn_status (snd (snd row)) \<in> {SYNC_PENDING, SYNC_PROCESSING}
        then Some ''Stuck sync work is awaiting automatic reclaim.''
        else Some ''The sync payload is malformed and cannot be replayed safely.'') row s"

definition outbox_work :: "recovery_env \<Rightarrow> outbox_message \<Rightarrow> recovery_state \<Rightarrow> work_read" where
  "outbox_work re m s =
     (let stuck = (ob_status m = OUTBOX_PUBLISHING); stamp = re_outbox_updated re (ob_id m) s
      in \<lparr>wr_kind = WORK_OUTBOX, wr_id = WorkRow (ob_id m), wr_bucket = bucket_of stuck True, wr_channel = None,
          wr_file = None, wr_stage = None, wr_status = outbox_status_value (ob_status m),
          wr_reason = Some ''outbox_publish_failed'', wr_is_retryable = True, wr_attempt_count = ob_attempt_count m,
          wr_occurred_at = stamp, wr_next_attempt_at = ob_next_retry_at m, wr_version = row_version stamp None,
          wr_capabilities = (if stuck then [] else [REBUILD_OUTBOX]),
          wr_blocked_reason = (if stuck then Some ''Publishing lease is stale and awaits automatic reclaim.'' else None),
          wr_event = None, wr_dead_letter = None\<rparr>)"

definition dead_letter_work :: "dead_letter \<Rightarrow> work_read" where
  "dead_letter_work r =
     \<lparr>wr_kind = WORK_DEAD_LETTER, wr_id = WorkRow (dl_id r), wr_bucket = DEAD_LETTERED, wr_channel = None,
      wr_file = None, wr_stage = None, wr_status = dead_letter_status_value (dl_status r),
      wr_reason = Some (dl_normalized_reason r), wr_is_retryable = False, wr_attempt_count = dl_death_count r,
      wr_occurred_at = dl_updated_at r, wr_next_attempt_at = None, wr_version = row_version (dl_updated_at r) None,
      wr_capabilities = [ARCHIVE_DEAD_LETTER],
      wr_blocked_reason = Some (if dl_work r \<noteq> None
        then ''The linked canonical work is no longer in the same recoverable generation; archive this dead letter.''
        else ''This dead letter could not be linked safely to canonical work.''),
      wr_event = None, wr_dead_letter = None\<rparr>"

text \<open>\<open>_dead_letter_matches_work\<close> and the projection of work with a dead letter.\<close>

definition dead_letter_matches_work :: "recovery_env \<Rightarrow> dead_letter \<Rightarrow> work_read \<Rightarrow> bool" where
  "dead_letter_matches_work re r w \<longleftrightarrow>
     (case dl_work r of
        None \<Rightarrow> False
      | Some (kind, u) \<Rightarrow>
          kind = wr_kind w \<and> wr_id w = WorkRow u \<and>
          (wr_kind w \<notin> {WORK_PIPELINE_STAGE, WORK_SYNC_TARGET} \<or>
           (case parse_uuid (re_codecs re) (dict_get (dl_safe_payload r) ''event_id'') of
              None \<Rightarrow> False | Some ev \<Rightarrow> wr_event w = Some ev)))"

definition linked_work :: "dead_letter \<Rightarrow> work_read \<Rightarrow> work_read" where
  "linked_work r w =
     w\<lparr>wr_bucket := DEAD_LETTERED, wr_reason := Some (dl_normalized_reason r),
       wr_version := LinkedVersion (wr_version w) (Some (dl_updated_at r)), wr_capabilities := [RECOVER_DEAD_LETTER],
       wr_blocked_reason := None, wr_dead_letter := Some (dl_id r)\<rparr>"

definition open_dead_letter :: "dead_letter \<Rightarrow> bool" where
  "open_dead_letter r \<longleftrightarrow> dl_status r \<in> {DL_UNRESOLVED, DL_RECOVERY_QUEUED}"

section \<open>Collecting work\<close>

text \<open>
  \<open>_collect_work\<close> with the loaded rows of each kind. Its dictionary is a list of works with at most one work
  per kind and id, in insertion order. \<open>target\<close> restricts the kinds and ids that are loaded.
\<close>

definition targeted :: "(recovery_work_kind \<times> uuid) option \<Rightarrow> recovery_work_kind \<Rightarrow> uuid \<Rightarrow> bool" where
  "targeted target kind u \<longleftrightarrow> (case target of None \<Rightarrow> True | Some k \<Rightarrow> k = (kind, u))"

definition scan :: "nat option \<Rightarrow> ('r \<Rightarrow> time) \<Rightarrow> 'r list \<Rightarrow> 'r list" where
  "scan bound stamp rows =
     (let newest = sort_key (\<lambda>r. - stamp r) rows in case bound of None \<Rightarrow> newest | Some n \<Rightarrow> take n newest)"

definition backfill_listed :: "time \<Rightarrow> backfill_job \<Rightarrow> bool" where
  "backfill_listed now r \<longleftrightarrow>
     bj_updated_at r \<le> now \<and>
     (bj_status r \<in> {BACKFILL_FAILED, BACKFILL_WAITING_RETRY, BACKFILL_WAITING_CAPACITY} \<or>
      bj_status r = BACKFILL_RUNNING \<and>
        (case bj_last_progress_at r of None \<Rightarrow> False | Some t \<Rightarrow> t < now - BACKFILL_STUCK_AFTER))"

definition ingest_listed :: "time \<Rightarrow> ingest_request \<Rightarrow> bool" where
  "ingest_listed now r \<longleftrightarrow>
     iq_updated_at r \<le> now \<and>
     (iq_status r \<in> {FAILED_INVALID_MEDIA, FAILED_BLOCKED_PHASH, PUBLISH_FAILED} \<or>
      iq_status r \<in> {MEDIA_INSPECT_PENDING, MEDIA_INSPECTING} \<and> iq_updated_at r < now - STUCK_AFTER)"

definition stage_listed :: "time \<Rightarrow> stage_journal \<Rightarrow> bool" where
  "stage_listed now e \<longleftrightarrow>
     sj_updated_at e \<le> now \<and> sj_stage e \<notin> {SYNC_QDRANT, SYNC_MEILI} \<and>
     (sj_status e = STAGE_FAILED \<or>
      sj_status e \<in> {STAGE_PENDING, STAGE_PROCESSING} \<and> sj_updated_at e < now - STUCK_AFTER)"

definition sync_listed :: "time \<Rightarrow> time \<Rightarrow> sync_snapshot \<Rightarrow> bool" where
  "sync_listed now stamp r \<longleftrightarrow>
     stamp \<le> now \<and>
     (sn_status r = SYNC_FAILED \<or> sn_status r \<in> {SYNC_PENDING, SYNC_PROCESSING} \<and> stamp < now - STUCK_AFTER)"

definition outbox_listed :: "time \<Rightarrow> time \<Rightarrow> outbox_message \<Rightarrow> bool" where
  "outbox_listed now stamp m \<longleftrightarrow>
     stamp \<le> now \<and> (ob_status m = OUTBOX_FAILED \<or> ob_status m = OUTBOX_PUBLISHING \<and> stamp < now - STUCK_AFTER)"

definition journal_rows :: "recovery_state \<Rightarrow> stage_journal list" where
  "journal_rows s = concat (map (\<lambda>file. journal_entries (rs_db s) (mf_id file)) (db_files (rs_db s)))"

definition snapshot_rows :: "recovery_state \<Rightarrow> (uuid \<times> sync_target \<times> sync_snapshot) list" where
  "snapshot_rows s =
     List.map_filter (\<lambda>(f, t). map_option (\<lambda>r. (f, t, r)) (db_snapshots (rs_db s) (f, t))) (snapshot_keys (rs_db s))"

definition canonical_work ::
  "recovery_env \<Rightarrow> time \<Rightarrow> nat option \<Rightarrow> (recovery_work_kind \<times> uuid) option \<Rightarrow> recovery_state \<Rightarrow> work_read list" where
  "canonical_work re now bound target s =
     map backfill_work (scan bound bj_updated_at
       (filter (\<lambda>r. targeted target WORK_BACKFILL (bj_id r) \<and> backfill_listed now r) (rs_backfills s))) @
     map post_work (scan bound po_updated_at
       (filter (\<lambda>r. targeted target WORK_SOURCE_POST (po_id r) \<and> po_status r = POST_FAILED \<and> po_updated_at r \<le> now)
          (rs_posts s))) @
     map ingest_work (scan bound iq_updated_at
       (filter (\<lambda>r. targeted target WORK_INGEST_REQUEST (iq_id r) \<and> ingest_listed now r) (rs_requests s))) @
     map (\<lambda>e. listed_stage_work re e s) (scan bound sj_updated_at
       (filter (\<lambda>e. targeted target WORK_PIPELINE_STAGE (sj_id e) \<and> stage_listed now e) (journal_rows s))) @
     map (\<lambda>row. listed_sync_work re row s) (scan bound (\<lambda>row. re_snapshot_updated re (sn_id (snd (snd row))) s)
       (filter (\<lambda>row. targeted target WORK_SYNC_TARGET (sn_id (snd (snd row))) \<and>
          sync_listed now (re_snapshot_updated re (sn_id (snd (snd row))) s) (snd (snd row))) (snapshot_rows s))) @
     map (\<lambda>m. outbox_work re m s) (scan bound (\<lambda>m. re_outbox_updated re (ob_id m) s)
       (filter (\<lambda>m. targeted target WORK_OUTBOX (ob_id m) \<and> outbox_listed now (re_outbox_updated re (ob_id m) s) m)
          (db_outbox (rs_db s))))"

definition dead_letter_loaded :: "time \<Rightarrow> (recovery_work_kind \<times> uuid) option \<Rightarrow> dead_letter \<Rightarrow> bool" where
  "dead_letter_loaded now target r \<longleftrightarrow>
     open_dead_letter r \<and> dl_updated_at r \<le> now \<and>
     (case target of
        None \<Rightarrow> True
      | Some (kind, u) \<Rightarrow> if kind = WORK_DEAD_LETTER then dl_id r = u else dl_work r = Some (kind, u))"

definition work_key :: "work_read \<Rightarrow> recovery_work_kind \<times> work_id" where
  "work_key w = (wr_kind w, wr_id w)"

definition add_dead_letter :: "recovery_env \<Rightarrow> dead_letter \<Rightarrow> work_read list \<Rightarrow> work_read list" where
  "add_dead_letter re r works =
     (case Option.bind (dl_work r) (\<lambda>(kind, u). row_get work_key (kind, WorkRow u) works) of
        Some w \<Rightarrow>
          if dead_letter_matches_work re r w then row_put work_key (linked_work r w) works
          else row_put work_key (dead_letter_work r) works
      | None \<Rightarrow> row_put work_key (dead_letter_work r) works)"

definition collect_work ::
  "recovery_env \<Rightarrow> time \<Rightarrow> nat option \<Rightarrow> (recovery_work_kind \<times> uuid) option \<Rightarrow> recovery_state \<Rightarrow> work_read list" where
  "collect_work re now bound target s =
     fold (add_dead_letter re) (scan bound dl_updated_at (filter (dead_letter_loaded now target) (rs_ledger s)))
       (fold (row_put work_key) (canonical_work re now bound target s) [])"

definition work_missing :: "recovery_work_kind \<Rightarrow> work_id \<Rightarrow> recovery_exn" where
  "work_missing kind w =
     AdminRecoveryNotFoundError
       (''Recovery work '' @ work_kind_value kind @ ''/'' @ work_id_text w @ '' does not exist.'')"

definition get_work ::
  "recovery_env \<Rightarrow> recovery_work_kind \<Rightarrow> work_id \<Rightarrow> recovery_state \<Rightarrow> recovery_exn + work_read" where
  "get_work re kind w s =
     (case work_uuid w of
        None \<Rightarrow> Inl (work_missing kind w)
      | Some u \<Rightarrow>
          (case row_get work_key (kind, w)
                  (collect_work re (env_now (re_env re)) (Some WORK_SCAN_LIMIT) (Some (kind, u)) s) of
             None \<Rightarrow> Inl (work_missing kind w) | Some work \<Rightarrow> Inr work))"

text \<open>The counters of \<open>get_summary\<close>.\<close>

definition bucket_count :: "recovery_env \<Rightarrow> bucket \<Rightarrow> recovery_state \<Rightarrow> nat" where
  "bucket_count re b s =
     length (filter (\<lambda>w. wr_bucket w = b) (collect_work re (env_now (re_env re)) (Some WORK_SCAN_LIMIT) None s))"

section \<open>A candidate and its actions\<close>

definition with_linked_dead_letter :: "recovery_env \<Rightarrow> recovery_state \<Rightarrow> work_read \<Rightarrow> work_read" where
  "with_linked_dead_letter re s w =
     (case find (\<lambda>r. (case dl_work r of None \<Rightarrow> False | Some (kind, u) \<Rightarrow> kind = wr_kind w \<and> WorkRow u = wr_id w) \<and>
                     open_dead_letter r) (sort_key dl_created_at (rs_ledger s)) of
        None \<Rightarrow> w
      | Some r \<Rightarrow> if dead_letter_matches_work re r w then linked_work r w else w)"

definition file_missing :: "uuid \<Rightarrow> recovery_exn" where
  "file_missing f = AdminRecoveryNotFoundError (''Pipeline file '' @ uuid_text f @ '' does not exist.'')"

definition load_candidate_work ::
  "recovery_env \<Rightarrow> recovery_work_kind \<Rightarrow> work_id \<Rightarrow> recovery_state \<Rightarrow> recovery_exn + (work_read \<times> meme_file option)" where
  "load_candidate_work re kind w s =
     (case kind of
        WORK_PIPELINE_STAGE \<Rightarrow>
          (case Option.bind (work_uuid w) (\<lambda>u. journal_by_id u s) of
             None \<Rightarrow> Inl (work_missing kind w)
           | Some e \<Rightarrow>
               (case get_file (rs_db s) (sj_file e) of
                  None \<Rightarrow> Inl (file_missing (sj_file e))
                | Some mf \<Rightarrow>
                    Inr (with_linked_dead_letter re s
                           (stage_work re (candidate_blocked (sj_status e \<in> {STAGE_PENDING, STAGE_PROCESSING})) e (Some mf) s),
                         Some mf)))
      | WORK_SYNC_TARGET \<Rightarrow>
          (case Option.bind (work_uuid w) (\<lambda>u. snapshot_by_id u s) of
             None \<Rightarrow> Inl (work_missing kind w)
           | Some (f, t, r) \<Rightarrow>
               (case get_file (rs_db s) f of
                  None \<Rightarrow> Inl (file_missing f)
                | Some mf \<Rightarrow>
                    Inr (with_linked_dead_letter re s
                           (sync_work re (candidate_blocked (sn_status r \<in> {SYNC_PENDING, SYNC_PROCESSING})) (f, t, r) s),
                         Some mf)))
      | _ \<Rightarrow>
          (case get_work re kind w s of
             Inl e \<Rightarrow> Inl e
           | Inr work \<Rightarrow> Inr (work, Option.bind (wr_file work) (get_file (rs_db s)))))"

definition active_item :: "recovery_item \<Rightarrow> bool" where
  "active_item i \<longleftrightarrow>
     ri_status i \<in> {ITEM_QUEUED, ITEM_WAITING_DEPENDENCY, ITEM_WAITING_CAPACITY, ITEM_DISPATCHED}"

definition item_in_active_job :: "recovery_state \<Rightarrow> recovery_item \<Rightarrow> bool" where
  "item_in_active_job s i \<longleftrightarrow>
     active_item i \<and>
     (case get_job s (ri_job i) of None \<Rightarrow> False | Some j \<Rightarrow> rj_status j \<in> set ACTIVE_JOB_STATUSES)"

text \<open>\<open>_load_active_job\<close>: the oldest active job that works on the same row or the same stage of the file.\<close>

definition load_active_job :: "work_read \<Rightarrow> uuid option \<Rightarrow> recovery_state \<Rightarrow> recovery_job option" where
  "load_active_job w ignore s =
     (let owners = filter (\<lambda>i. item_in_active_job s i \<and> Some (ri_id i) \<noteq> ignore \<and>
                      (ri_work_kind i = wr_kind w \<and> ri_work_id i = wr_id w \<or>
                       wr_file w \<noteq> None \<and> wr_stage w \<noteq> None \<and> ri_file i = wr_file w \<and> ri_stage i = wr_stage w))
                      (db_recovery (rs_db s));
          jobs = List.map_filter (\<lambda>i. get_job s (ri_job i)) owners
      in case sort_key rj_created_at jobs of [] \<Rightarrow> None | j # _ \<Rightarrow> Some j)"

fun DOWNSTREAM_STAGES :: "stage \<Rightarrow> stage list" where
  "DOWNSTREAM_STAGES TRANSCODE = [OCR, EMBED, CLASSIFY, SYNC_QDRANT, SYNC_MEILI]"
| "DOWNSTREAM_STAGES OCR = [EMBED, CLASSIFY, SYNC_QDRANT, SYNC_MEILI]"
| "DOWNSTREAM_STAGES EMBED = [CLASSIFY, SYNC_QDRANT, SYNC_MEILI]"
| "DOWNSTREAM_STAGES CLASSIFY = [SYNC_QDRANT, SYNC_MEILI]"
| "DOWNSTREAM_STAGES _ = []"

definition terminal_descendant_stages :: "work_read \<Rightarrow> recovery_state \<Rightarrow> stage list" where
  "terminal_descendant_stages w s =
     (case (wr_file w, wr_stage w) of
        (Some f, Some st) \<Rightarrow>
          filter (\<lambda>d. case get_journal (rs_db s) f d of
                        None \<Rightarrow> False | Some e \<Rightarrow> sj_status e = STAGE_FAILED \<and> \<not> sj_is_retryable e)
            (DOWNSTREAM_STAGES st)
      | _ \<Rightarrow> [])"

fun prerequisite_by_stage :: "stage \<Rightarrow> stage option" where
  "prerequisite_by_stage OCR = Some TRANSCODE"
| "prerequisite_by_stage EMBED = Some OCR"
| "prerequisite_by_stage CLASSIFY = Some EMBED"
| "prerequisite_by_stage SYNC_QDRANT = Some CLASSIFY"
| "prerequisite_by_stage SYNC_MEILI = Some CLASSIFY"
| "prerequisite_by_stage _ = None"

definition stage_prerequisite_blocks :: "work_read \<Rightarrow> recovery_state \<Rightarrow> text_value list" where
  "stage_prerequisite_blocks w s =
     (case (wr_file w, wr_stage w) of
        (Some f, Some st) \<Rightarrow>
          (case prerequisite_by_stage st of
             None \<Rightarrow> []
           | Some p \<Rightarrow>
               if map_option sj_status (get_journal (rs_db s) f p) = Some STAGE_SUCCEEDED then []
               else [stage_value st @ '' requires a successful '' @ stage_value p @ '' prerequisite.''])
      | _ \<Rightarrow> [])"

text \<open>The object store: \<open>_probe_source_object\<close> and what its observation blocks.\<close>

definition probe_source_object :: "recovery_env \<Rightarrow> text_value option \<Rightarrow> presence" where
  "probe_source_object re key =
     (let normalized = py_strip (case key of None \<Rightarrow> [] | Some k \<Rightarrow> k)
      in if normalized = [] then MISSING else re_presence re normalized)"

definition assert_source_object_usable :: "presence \<Rightarrow> recovery_exn option" where
  "assert_source_object_usable p =
     (case p of
        MISSING \<Rightarrow> Some (AdminRecoveryOriginalMissingError ''The required durable original is missing from storage.'')
      | UNAVAILABLE \<Rightarrow>
          Some (AdminRecoveryStorageUnavailableError
            ''Original storage is temporarily unavailable; retry after storage recovers.'')
      | PRESENT \<Rightarrow> None)"

definition work_source_object_key :: "work_read \<Rightarrow> recovery_state \<Rightarrow> text_value option" where
  "work_source_object_key w s =
     (if wr_stage w \<noteq> None \<and> wr_file w \<noteq> None
      then map_option mf_s3_original_key (Option.bind (wr_file w) (get_file (rs_db s)))
      else if wr_kind w = WORK_INGEST_REQUEST then Option.bind (get_request s (wr_id w)) iq_temp_key
      else None)"

definition work_source_observation :: "recovery_env \<Rightarrow> work_read \<Rightarrow> recovery_state \<Rightarrow> presence option" where
  "work_source_observation re w s =
     (if wr_stage w \<noteq> None \<or> wr_kind w = WORK_INGEST_REQUEST
      then Some (probe_source_object re (work_source_object_key w s)) else None)"

fun source_object_blockers :: "presence option \<Rightarrow> text_value list" where
  "source_object_blockers (Some MISSING) = [''The durable original is missing from storage.'']"
| "source_object_blockers (Some UNAVAILABLE) =
     [''Original storage is temporarily unavailable; retry after storage recovers.'']"
| "source_object_blockers _ = []"

definition no_requirements :: scope_requirements where
  "no_requirements = \<lparr>sr_warnings = [], sr_risks = [], sr_required = []\<rparr>"

definition plain_action :: "recovery_capability \<Rightarrow> bool \<Rightarrow> text_value list \<Rightarrow> action_read" where
  "plain_action capability available blocked =
     \<lparr>ar_capability = capability, ar_available = available, ar_scopes = [STAGE_ONLY], ar_downstream = [],
      ar_warnings = [], ar_risks = [], ar_required = [], ar_scope_requirements = [(STAGE_ONLY, no_requirements)],
      ar_blocked = blocked\<rparr>"

fun capability_by_kind :: "recovery_work_kind \<Rightarrow> recovery_capability option" where
  "capability_by_kind WORK_BACKFILL = Some RESUME_BACKFILL"
| "capability_by_kind WORK_SOURCE_POST = Some REPLAY_SOURCE_POST"
| "capability_by_kind WORK_INGEST_REQUEST = Some REINSPECT_INGEST"
| "capability_by_kind WORK_OUTBOX = Some REBUILD_OUTBOX"
| "capability_by_kind WORK_DEAD_LETTER = Some ARCHIVE_DEAD_LETTER"
| "capability_by_kind _ = None"

definition PROVIDER_SEMANTIC_MERGE_RISK :: text_value where
  "PROVIDER_SEMANTIC_MERGE_RISK =
     ''External provider output or semantic merge results may differ from the previous successful run.''"

definition unstaged_actions :: "work_read \<Rightarrow> bool \<Rightarrow> presence option \<Rightarrow> action_read list" where
  "unstaged_actions w owned observation =
     (let capabilities = dedup (wr_capabilities w @ (case capability_by_kind (wr_kind w) of None \<Rightarrow> [] | Some c \<Rightarrow> [c]));
          blockers = (if wr_kind w = WORK_INGEST_REQUEST then source_object_blockers observation else [])
      in map (\<lambda>c. plain_action c (c \<in> set (wr_capabilities w) \<and> \<not> owned \<and> blockers = [])
                (if owned then [''Another Replay & Repair job owns this work.'']
                 else if blockers \<noteq> [] then blockers
                 else if c \<notin> set (wr_capabilities w)
                 then (case nonblank (wr_blocked_reason w) of None \<Rightarrow> [] | Some t \<Rightarrow> [t])
                 else [])) capabilities)"

text \<open>What blocks every action on a stage.\<close>

definition common_blocked ::
  "work_read \<Rightarrow> meme_file option \<Rightarrow> bool \<Rightarrow> text_value list \<Rightarrow> presence option \<Rightarrow> text_value list" where
  "common_blocked w file owned prerequisites observation =
     prerequisites @
     (if wr_stage w = Some INGEST \<or> wr_status w = ''duplicate''
      then [''Ingest and duplicate rows cannot be replayed.''] else []) @
     (if wr_status w \<in> {''pending'', ''processing''}
      then [''Pending or processing work must finish or be reclaimed first.''] else []) @
     source_object_blockers observation @
     (if observation = None \<and> (case file of None \<Rightarrow> True | Some mf \<Rightarrow> mf_s3_original_key mf = [])
      then [''The durable original is missing from storage.''] else []) @
     (if owned then [''Another Replay & Repair job owns this stage.''] else [])"

definition provider_stage :: "stage \<Rightarrow> bool" where
  "provider_stage st \<longleftrightarrow> st \<in> {OCR, EMBED, CLASSIFY}"

definition MEDIA_WARNINGS :: "text_value list" where
  "MEDIA_WARNINGS =
     [''Only the web video and poster are replaced; OCR, embeddings, classification, and search stay untouched.'']"

definition MEDIA_RISKS :: "text_value list" where
  "MEDIA_RISKS = [''The active media pointer changes only after both immutable artifacts verify.'']"

definition staged_actions ::
  "work_read \<Rightarrow> stage \<Rightarrow> meme_file option \<Rightarrow> text_value list \<Rightarrow> stage list \<Rightarrow> action_read list" where
  "staged_actions w st file blocked terminal_descendants =
     (let failed = (wr_status w = ''failed'');
          is_terminal = (failed \<and> \<not> wr_is_retryable w);
          downstream = DOWNSTREAM_STAGES st;
          root_required = (if is_terminal then [TERMINAL_OVERRIDE] else []);
          warnings = (if downstream \<noteq> [] then [''Stage-only replay leaves existing downstream data stale.''] else []);
          risks = (if provider_stage st then [PROVIDER_SEMANTIC_MERGE_RISK] else []);
          cascade_risks = (if list_ex provider_stage (st # downstream) then [PROVIDER_SEMANTIC_MERGE_RISK] else []);
          cascade_required = (if is_terminal \<or> terminal_descendants \<noteq> [] then [TERMINAL_OVERRIDE] else []);
          retry = plain_action (if wr_kind w = WORK_SYNC_TARGET then RESYNC_TARGET else RETRY_STAGE)
            (wr_is_retryable w \<and> failed \<and> blocked = [])
            (if blocked \<noteq> [] then blocked else if wr_is_retryable w \<and> failed then []
             else [''This compatibility retry is available only for retryable failures.'']);
          replay =
            \<lparr>ar_capability = REPLAY_STAGE,
             ar_available = (blocked = [] \<and> (failed \<or> wr_status w \<in> {''succeeded'', ''synced''})),
             ar_scopes = [STAGE_ONLY, STAGE_AND_DEPENDENTS], ar_downstream = downstream, ar_warnings = warnings,
             ar_risks = risks, ar_required = root_required,
             ar_scope_requirements =
               [(STAGE_ONLY, \<lparr>sr_warnings = warnings, sr_risks = risks, sr_required = root_required\<rparr>),
                (STAGE_AND_DEPENDENTS, \<lparr>sr_warnings = [], sr_risks = cascade_risks, sr_required = cascade_required\<rparr>)],
             ar_blocked = blocked\<rparr>;
          media_blocked = blocked @
            (if (case file of None \<Rightarrow> True | Some mf \<Rightarrow> \<not> is_moving_media mf)
             then [''Derivative regeneration applies only to moving media.''] else []);
          regenerate =
            \<lparr>ar_capability = REGENERATE_DERIVATIVES, ar_available = (media_blocked = []), ar_scopes = [STAGE_ONLY],
             ar_downstream = [], ar_warnings = MEDIA_WARNINGS, ar_risks = MEDIA_RISKS, ar_required = root_required,
             ar_scope_requirements =
               [(STAGE_ONLY, \<lparr>sr_warnings = MEDIA_WARNINGS, sr_risks = MEDIA_RISKS, sr_required = root_required\<rparr>)],
             ar_blocked = media_blocked\<rparr>;
          declared = [retry, replay] @ (if st = TRANSCODE then [regenerate] else []);
          further = filter (\<lambda>c. c \<notin> ar_capability ` set declared) (wr_capabilities w)
      in declared @ map (\<lambda>c.
           (let required = (if c = RECOVER_DEAD_LETTER then root_required else [])
            in (plain_action c (blocked = []) blocked)
                 \<lparr>ar_required := required,
                  ar_scope_requirements := [(STAGE_ONLY, no_requirements\<lparr>sr_required := required\<rparr>)]\<rparr>)) further)"

definition candidate_actions ::
  "work_read \<Rightarrow> meme_file option \<Rightarrow> recovery_job option \<Rightarrow> text_value list \<Rightarrow> stage list \<Rightarrow> presence option \<Rightarrow> action_read list" where
  "candidate_actions w file active prerequisites terminal_descendants observation =
     (case wr_stage w of
        None \<Rightarrow> unstaged_actions w (active \<noteq> None) observation
      | Some st \<Rightarrow>
          staged_actions w st file (common_blocked w file (active \<noteq> None) prerequisites observation) terminal_descendants)"

definition get_candidate ::
  "recovery_env \<Rightarrow> recovery_work_kind \<Rightarrow> work_id \<Rightarrow> uuid option \<Rightarrow> bool \<Rightarrow> recovery_state \<Rightarrow>
     recovery_exn + (work_read \<times> action_read list)" where
  "get_candidate re kind w ignore verify_source s =
     (case load_candidate_work re kind w s of
        Inl e \<Rightarrow> Inl e
      | Inr (work, file) \<Rightarrow>
          Inr (work, candidate_actions work file (load_active_job work ignore s) (stage_prerequisite_blocks work s)
                 (terminal_descendant_stages work s)
                 (if verify_source then work_source_observation re work s else None)))"

text \<open>\<open>_actions_for_projected_work\<close>: the actions of a work shown in a page.\<close>

definition actions_for_projected_work :: "recovery_env \<Rightarrow> work_read \<Rightarrow> recovery_state \<Rightarrow> action_read list" where
  "actions_for_projected_work re w s =
     candidate_actions w (Option.bind (wr_file w) (get_file (rs_db s))) (load_active_job w None s)
       (stage_prerequisite_blocks w s) (terminal_descendant_stages w s) (work_source_observation re w s)"

end
