(* ===== verification/Recovery_Runtime.thy ===== *)
theory Recovery_Runtime
  imports Recovery_Projection
begin

text \<open>
  The recovery runtime (\<open>RecoveryRuntime\<close> of \<open>services/recovery_runtime.py\<close>): claiming an item, fencing it by the
  version it was scheduled for, executing its action, recording a failed dispatch, reconciling dispatched
  items with the rows they repair, and the counters of a job.

  An operation returns how it ended and the state it leaves committed. Changes made before an exception
  that no commit saved are rolled back.
\<close>

type_synonym 'a recovery_run = "(recovery_exn + 'a) \<times> recovery_state"

definition rolled_back :: "recovery_state \<Rightarrow> 'a recovery_run \<Rightarrow> 'a recovery_run" where
  "rolled_back s0 r = (case r of (Inl e, s) \<Rightarrow> (Inl e, s0) | (Inr x, s) \<Rightarrow> (Inr x, s))"

text \<open>\<open>session.commit()\<close> of a runtime session that has changed \<open>s0\<close> into \<open>s\<close>.\<close>

definition commit_session :: "env \<Rightarrow> recovery_state \<Rightarrow> recovery_state \<Rightarrow> unit recovery_run" where
  "commit_session env s0 s =
     (if env_commit_ok env then (Inr (), s) else (Inl (OtherFailure ''SQLAlchemyError'' []), s0))"

section \<open>Jobs\<close>

definition items_of :: "recovery_state \<Rightarrow> uuid \<Rightarrow> recovery_item list" where
  "items_of s job = filter (\<lambda>i. ri_job i = job) (db_recovery (rs_db s))"

definition count_status :: "recovery_item_status \<Rightarrow> recovery_item list \<Rightarrow> nat" where
  "count_status status items = length (filter (\<lambda>i. ri_status i = status) items)"

definition recounted_job :: "time \<Rightarrow> recovery_item list \<Rightarrow> recovery_job \<Rightarrow> recovery_job" where
  "recounted_job now items j =
     (let terminal_items = filter (\<lambda>i. ri_status i \<in> set TERMINAL_ITEM_STATUSES) items;
          unsuccessful = filter (\<lambda>i. ri_status i \<notin> set SUCCESSFUL_ITEM_STATUSES) terminal_items;
          j1 = j\<lparr>rj_completed_count := length terminal_items,
                 rj_failed_count := count_status ITEM_FAILED items,
                 rj_queued_count := count_status ITEM_QUEUED items,
                 rj_waiting_count := count_status ITEM_WAITING_DEPENDENCY items + count_status ITEM_WAITING_CAPACITY items,
                 rj_dispatched_count := count_status ITEM_DISPATCHED items,
                 rj_succeeded_count := count_status ITEM_SUCCEEDED items,
                 rj_stale_count := count_status ITEM_SKIPPED_STALE items,
                 rj_skipped_count := count_status ITEM_SKIPPED_DEPENDENCY items,
                 rj_cancelled_count := count_status ITEM_CANCELLED items\<rparr>
      in if items \<noteq> [] \<and> length terminal_items = length items
         then j1\<lparr>rj_status := (if rj_status j = JOB_CANCELLING then JOB_CANCELLED
                               else if unsuccessful \<noteq> [] then JOB_COMPLETED_WITH_FAILURES
                               else JOB_COMPLETED),
                 rj_completed_at := Some now\<rparr>
         else j1)"

text \<open>\<open>_reconcile_jobs\<close>; \<open>None\<close> reconciles every active job.\<close>

definition reconcile_jobs :: "env \<Rightarrow> uuid list option \<Rightarrow> recovery_state \<Rightarrow> recovery_state" where
  "reconcile_jobs env job_ids s =
     s\<lparr>rs_jobs := map (\<lambda>j. if rj_status j \<in> set ACTIVE_JOB_STATUSES \<and>
                              (case job_ids of None \<Rightarrow> True | Some ids \<Rightarrow> rj_id j \<in> set ids)
                           then touched_job env j (recounted_job (env_now env) (items_of s (rj_id j)) j) else j) (rs_jobs s)\<rparr>"

text \<open>\<open>_resolve_linked_dead_letter\<close>.\<close>

definition resolved_dead_letter :: "env \<Rightarrow> bool \<Rightarrow> dead_letter \<Rightarrow> dead_letter" where
  "resolved_dead_letter env succeeded r =
     (if succeeded
      then r\<lparr>dl_status := DL_RESOLVED, dl_resolved_at := Some (env_now env),
             dl_resolution_note := Some ''Canonical recovery completed successfully.'', dl_updated_at := env_now env\<rparr>
      else r\<lparr>dl_status := DL_UNRESOLVED, dl_recovery_item := None,
             dl_resolution_note := Some ''Canonical recovery failed; the dead letter remains unresolved.'',
             dl_updated_at := env_now env\<rparr>)"

definition resolve_linked_dead_letter :: "env \<Rightarrow> uuid \<Rightarrow> bool \<Rightarrow> recovery_state \<Rightarrow> recovery_state" where
  "resolve_linked_dead_letter env item succeeded s =
     s\<lparr>rs_ledger := map (\<lambda>r. if dl_recovery_item r = Some item then resolved_dead_letter env succeeded r else r) (rs_ledger s)\<rparr>"

section \<open>Failed prerequisites\<close>

definition item_order :: "recovery_item list \<Rightarrow> recovery_item list" where
  "item_order items = sort_key (\<lambda>i. (ri_created_at i, ri_id i)) items"

definition job_status_of :: "recovery_state \<Rightarrow> recovery_item \<Rightarrow> job_status option" where
  "job_status_of s i = map_option rj_status (get_job s (ri_job i))"

definition parent_status :: "recovery_state \<Rightarrow> recovery_item \<Rightarrow> recovery_item_status option" where
  "parent_status s i = Option.bind (ri_parent i) (\<lambda>p. map_option ri_status (get_recovery (rs_db s) p))"

definition FAILED_PARENT_STATUSES :: "recovery_item_status list" where
  "FAILED_PARENT_STATUSES = [ITEM_FAILED, ITEM_SKIPPED_STALE, ITEM_SKIPPED_DEPENDENCY, ITEM_CANCELLED]"

definition dependency_failed :: "recovery_state \<Rightarrow> recovery_item \<Rightarrow> bool" where
  "dependency_failed s i \<longleftrightarrow>
     ri_status i = ITEM_WAITING_DEPENDENCY \<and>
     (case parent_status s i of None \<Rightarrow> False | Some st \<Rightarrow> st \<in> set FAILED_PARENT_STATUSES)"

definition skip_failed_dependencies :: "recovery_env \<Rightarrow> nat \<Rightarrow> recovery_state \<Rightarrow> nat recovery_run" where
  "skip_failed_dependencies re batch_size s =
     (let candidates = take (max batch_size 1)
            (item_order (filter (\<lambda>i. dependency_failed s i \<and>
               (case job_status_of s i of None \<Rightarrow> False | Some st \<Rightarrow> st \<in> set ACTIVE_JOB_STATUSES)) (db_recovery (rs_db s))));
          children = filter (\<lambda>i. \<not> re_job_locked re (ri_job i) \<and> \<not> re_item_locked re (ri_id i)) candidates;
          s1 = fold (\<lambda>i. put_item (finish_item re ITEM_SKIPPED_DEPENDENCY (Some ''parent_step_failed'')
                       (Some ''A prerequisite Replay & Repair step did not succeed.'') i)) children s
      in if children = [] then (Inr 0, s)
         else
           (case commit_session (re_env re) s
                   (reconcile_jobs (re_env re)
                      (Some (map ri_job (filter (\<lambda>i. \<not> re_job_locked re (ri_job i)) candidates))) s1) of
              (Inl e, s') \<Rightarrow> (Inl e, s') | (Inr _, s') \<Rightarrow> (Inr (length children), s')))"

section \<open>Claiming an item\<close>

definition telegram_kind :: "recovery_item \<Rightarrow> bool" where
  "telegram_kind i \<longleftrightarrow> ri_work_kind i \<in> {WORK_BACKFILL, WORK_SOURCE_POST}"

definition item_eligible :: "time \<Rightarrow> recovery_state \<Rightarrow> recovery_item \<Rightarrow> bool" where
  "item_eligible now s i \<longleftrightarrow>
     ri_status i \<in> {ITEM_QUEUED, ITEM_WAITING_DEPENDENCY, ITEM_WAITING_CAPACITY} \<and>
       (ri_parent i = None \<or> parent_status s i = Some ITEM_SUCCEEDED) \<or>
     ri_status i = ITEM_DISPATCHED \<and>
       (case ri_dispatched_at i of None \<Rightarrow> False | Some t \<Rightarrow> t < now - RECOVERY_DISPATCH_STALE_AFTER) \<and>
       ri_dispatch_event_id i = None \<and> ri_work_kind i \<noteq> WORK_BACKFILL"

definition claimable :: "recovery_env \<Rightarrow> bool \<Rightarrow> uuid list \<Rightarrow> recovery_state \<Rightarrow> recovery_item \<Rightarrow> bool" where
  "claimable re telegram excluded s i \<longleftrightarrow>
     (case job_status_of s i of None \<Rightarrow> False | Some st \<Rightarrow> st \<in> {JOB_QUEUED, JOB_RUNNING}) \<and>
     ri_action i \<in> set (if telegram then TELEGRAM_ACTIONS else GENERAL_ACTIONS) \<and>
     ri_id i \<notin> set excluded \<and> telegram_kind i = telegram \<and> item_eligible (env_now (re_env re)) s i"

text \<open>The job of the first claimable item is locked, then the first claimable item of that job.\<close>

definition claim_next_item ::
  "recovery_env \<Rightarrow> bool \<Rightarrow> uuid list \<Rightarrow> recovery_state \<Rightarrow> (recovery_item \<times> recovery_state) option" where
  "claim_next_item re telegram excluded s =
     (let items = item_order (filter (claimable re telegram excluded s) (db_recovery (rs_db s)))
      in case find (\<lambda>i. \<not> re_job_locked re (ri_job i)) items of
           None \<Rightarrow> None
         | Some first \<Rightarrow>
             (case find (\<lambda>i. ri_job i = ri_job first \<and> \<not> re_item_locked re (ri_id i)) items of
                None \<Rightarrow> None
              | Some i \<Rightarrow>
                  Some (i, (case get_job s (ri_job i) of
                              None \<Rightarrow> s
                            | Some j \<Rightarrow> if rj_status j = JOB_QUEUED then put_job (re_env re) (j\<lparr>rj_status := JOB_RUNNING\<rparr>) s else s))))"

section \<open>Validating a claimed item\<close>

definition verify_recovery_item_source_object :: "recovery_env \<Rightarrow> recovery_item \<Rightarrow> recovery_state \<Rightarrow> recovery_exn option" where
  "verify_recovery_item_source_object re i s =
     (if ri_action i \<in> {ARCHIVE_DEAD_LETTER, REBUILD_OUTBOX, RESUME_BACKFILL, REPLAY_SOURCE_POST} then None
      else
        (case ri_file i of
           Some f \<Rightarrow>
             assert_source_object_usable (probe_source_object re (map_option mf_s3_original_key (get_file (rs_db s) f)))
         | None \<Rightarrow>
             if ri_work_kind i = WORK_INGEST_REQUEST
             then assert_source_object_usable (probe_source_object re (Option.bind (get_request s (ri_work_id i)) iq_temp_key))
             else None))"

definition replays_stage :: "recovery_item \<Rightarrow> bool" where
  "replays_stage i \<longleftrightarrow> ri_action i \<in> {REPLAY_STAGE, REGENERATE_DERIVATIVES}"

definition missing_work :: recovery_exn where
  "missing_work = AdminRecoveryNotFoundError ''Recovery work does not exist.''"

definition lock_canonical_work :: "recovery_item \<Rightarrow> recovery_state \<Rightarrow> recovery_exn option" where
  "lock_canonical_work i s =
     (if replays_stage i
      then
        (case ri_file i of
           None \<Rightarrow> Some (AdminRecoveryConflictError ''Replay stage is missing its canonical file id.'')
         | Some f \<Rightarrow>
             if get_file (rs_db s) f = None then Some (AdminRecoveryNotFoundError ''Pipeline file does not exist.'')
             else
               (case work_uuid (ri_work_id i) of
                  None \<Rightarrow> None
                | Some u \<Rightarrow>
                    if (if ri_work_kind i = WORK_SYNC_TARGET then snapshot_by_id u s \<noteq> None else journal_by_id u s \<noteq> None)
                    then None else Some missing_work))
      else if work_exists s (ri_work_kind i) (ri_work_id i) then None else Some missing_work)"

text \<open>
  \<open>_ensure_planned_stage_row\<close>: an item planned for a stage without a row creates the row and names it.
\<close>

definition ensure_planned_stage_row ::
  "recovery_env \<Rightarrow> recovery_item \<Rightarrow> recovery_state \<Rightarrow> (recovery_exn + bool) \<times> recovery_item \<times> recovery_state" where
  "ensure_planned_stage_row re i s =
     (case (ri_file i, ri_stage i) of
        (Some f, Some st) \<Rightarrow>
          if work_uuid (ri_work_id i) \<noteq> None then (Inr False, i, s)
          else
            (let named = (\<lambda>row. i\<lparr>ri_work_kind := WORK_PIPELINE_STAGE, ri_work_id := WorkRow (sj_id row)\<rparr>)
             in case get_journal (rs_db s) f st of
                  Some row \<Rightarrow> (Inr False, named row, s)
                | None \<Rightarrow>
                    (let row = unmaterialized_entry (re_env re) f st
                     in (Inr True, named row, map_db (put_journal (re_env re) row) s)))
      | _ \<Rightarrow> (Inl (AdminRecoveryConflictError ''Replay stage metadata is incomplete.''), i, s))"

definition assert_dead_letter_recoverable :: "dead_letter \<Rightarrow> recovery_item \<Rightarrow> recovery_exn option" where
  "assert_dead_letter_recoverable r i =
     (if dl_status r = DL_UNRESOLVED \<or> dl_status r = DL_RECOVERY_QUEUED \<and> dl_recovery_item r = Some (ri_id i)
      then None
      else Some (AdminRecoveryConflictError ''The linked dead letter is no longer recoverable by this job.''))"

definition lock_recovery_dead_letter :: "recovery_item \<Rightarrow> work_read \<Rightarrow> recovery_state \<Rightarrow> recovery_exn option" where
  "lock_recovery_dead_letter i work s =
     (let target = (case wr_dead_letter work of
                      Some u \<Rightarrow> Inr (Some u)
                    | None \<Rightarrow> if ri_work_kind i = WORK_DEAD_LETTER then Inr (work_uuid (ri_work_id i)) else Inl ())
      in case target of
           Inl _ \<Rightarrow> Some (AdminRecoveryConflictError ''The linked dead letter is no longer recoverable.'')
         | Inr u \<Rightarrow>
             (case Option.bind u (get_dead_letter s) of
                None \<Rightarrow> Some (AdminRecoveryNotFoundError ''Recovery dead letter does not exist.'')
              | Some r \<Rightarrow> assert_dead_letter_recoverable r i))"

fun joined :: "text_value \<Rightarrow> text_value list \<Rightarrow> text_value" where
  "joined sep [] = []"
| "joined sep [t] = t"
| "joined sep (t # u # ts) = t @ sep @ joined sep (u # ts)"

text \<open>The action of the candidate has to be offered, and a terminal replay acknowledged.\<close>

definition check_candidate_action :: "recovery_item \<Rightarrow> action_read list \<Rightarrow> recovery_exn option" where
  "check_candidate_action i actions =
     (case find (\<lambda>a. ar_capability a = ri_action i) actions of
        None \<Rightarrow> Some (AdminRecoveryConflictError ''The scheduled Replay & Repair action is no longer valid.'')
      | Some a \<Rightarrow>
          if \<not> ar_available a
          then Some (AdminRecoveryConflictError (if joined ''; '' (ar_blocked a) \<noteq> [] then joined ''; '' (ar_blocked a)
                 else ''The scheduled Replay & Repair action is no longer valid.''))
          else if TERMINAL_OVERRIDE \<in> set (ar_required a) \<and> \<not> ri_terminal_override i
          then Some (AdminRecoveryConflictError ''The scheduled terminal replay is missing its audited acknowledgement.'')
          else None)"

text \<open>The projection the item is held against; the item and the state after the row of a planned stage.\<close>

definition project_claimed_item ::
  "recovery_env \<Rightarrow> recovery_item \<Rightarrow> recovery_state \<Rightarrow> (recovery_exn + bool \<times> work_read) \<times> recovery_item \<times> recovery_state" where
  "project_claimed_item re i s =
     (if replays_stage i \<or> ri_action i = RECOVER_DEAD_LETTER
      then
        (case (if replays_stage i then ensure_planned_stage_row re i s else (Inr False, i, s)) of
           (Inl e, i1, s1) \<Rightarrow> (Inl e, i1, s1)
         | (Inr created, i1, s1) \<Rightarrow>
             (case get_candidate re (ri_work_kind i1) (ri_work_id i1) (Some (ri_id i1)) False s1 of
                Inl e \<Rightarrow> (Inl e, i1, s1)
              | Inr (work, actions) \<Rightarrow>
                  (case check_candidate_action i1 actions of
                     Some e \<Rightarrow> (Inl e, i1, s1) | None \<Rightarrow> (Inr (created, work), i1, s1))))
      else
        (case get_work re (ri_work_kind i) (ri_work_id i) s of
           Inl e \<Rightarrow> (Inl e, i, s) | Inr work \<Rightarrow> (Inr (False, work), i, s)))"

definition relock_dead_letter :: "recovery_env \<Rightarrow> recovery_item \<Rightarrow> work_read \<Rightarrow> recovery_state \<Rightarrow> recovery_exn + work_read" where
  "relock_dead_letter re i work s =
     (if ri_action i \<noteq> RECOVER_DEAD_LETTER then Inr work
      else
        (case lock_recovery_dead_letter i work s of
           Some e \<Rightarrow> Inl e | None \<Rightarrow> get_work re (ri_work_kind i) (ri_work_id i) s))"

fun is_missing_version :: "version \<Rightarrow> bool" where
  "is_missing_version (VersionText t) = (take 8 t = ''missing:'')"
| "is_missing_version (LinkedVersion v stamp) = is_missing_version v"
| "is_missing_version (RowVersion stamp event) = False"

definition validate_claimed_item ::
  "recovery_env \<Rightarrow> recovery_item \<Rightarrow> recovery_state \<Rightarrow> (recovery_exn + work_read) \<times> recovery_item \<times> recovery_state" where
  "validate_claimed_item re i s =
     (case verify_recovery_item_source_object re i s of
        Some e \<Rightarrow> (Inl e, i, s)
      | None \<Rightarrow>
     (case lock_canonical_work i s of
        Some e \<Rightarrow> (Inl e, i, s)
      | None \<Rightarrow>
     (case project_claimed_item re i s of
        (Inl e, i1, s1) \<Rightarrow> (Inl e, i1, s1)
      | (Inr (created, work0), i1, s1) \<Rightarrow>
     (case relock_dead_letter re i1 work0 s1 of
        Inl e \<Rightarrow> (Inl e, i1, s1)
      | Inr work \<Rightarrow>
          if is_missing_version (ri_expected_version i1) \<and> \<not> created
          then (Inl (AdminRecoveryConflictError
                 ''A dependent stage appeared after preview; create a fresh Replay & Repair job.''), i1, s1)
          else if wr_version work \<noteq> ri_expected_version i1 \<and> \<not> created
          then (Inl (AdminRecoveryConflictError ''Recovery target changed after it was scheduled.''), i1, s1)
          else
            (let i2 = (if created then i1\<lparr>ri_expected_version := wr_version work\<rparr> else i1)
             in if \<not> replays_stage i2 \<and> ri_action i2 \<notin> set (wr_capabilities work)
                then (Inl (AdminRecoveryConflictError
                       (case nonblank (wr_blocked_reason work) of
                          Some t \<Rightarrow> t | None \<Rightarrow> ''The scheduled recovery action is no longer valid.'')), i2, s1)
                else (Inr work, i2\<lparr>ri_canonical_version := Some (wr_version work)\<rparr>, s1))))))"

section \<open>Admission\<close>

definition is_admitted :: "recovery_item \<Rightarrow> work_read \<Rightarrow> recovery_state \<Rightarrow> bool" where
  "is_admitted i work s =
     (if telegram_kind i then is_historical_admission_open (rs_capacity s)
      else
        (case wr_stage work of
           Some st \<Rightarrow>
             ri_action i \<in> {RETRY_STAGE, REPLAY_STAGE, REGENERATE_DERIVATIVES, RESYNC_TARGET, RECOVER_DEAD_LETTER} \<longrightarrow>
               is_stage_admitted (rs_capacity s) st
         | None \<Rightarrow> True))"
section \<open>Executing an action\<close>

text \<open>A call of the replay service inside an action.\<close>

definition replay_call :: "recovery_env \<Rightarrow> recovery_state \<Rightarrow> 'a outcome \<Rightarrow> unit recovery_run" where
  "replay_call re s r =
     (case r of
        (Inl e, d) \<Rightarrow> (Inl (PipelineFailure e (re_service_text re e)), s)
      | (Inr _, d) \<Rightarrow> (Inr (), s\<lparr>rs_db := d\<rparr>))"

definition retry_stage :: "recovery_env \<Rightarrow> work_id \<Rightarrow> recovery_item \<Rightarrow> recovery_state \<Rightarrow> unit recovery_run" where
  "retry_stage re w i s =
     (case loaded ''PipelineStageJournal'' (Option.bind (work_uuid w) (\<lambda>u. journal_by_id u s)) of
        Inl e \<Rightarrow> (Inl e, s)
      | Inr row \<Rightarrow> replay_call re s (replay_item (re_env re) (sj_file row) (Some (sj_stage row)) (Some i) (rs_db s)))"

definition replay_stage_action :: "recovery_env \<Rightarrow> recovery_item \<Rightarrow> recovery_state \<Rightarrow> unit recovery_run" where
  "replay_stage_action re i s =
     (case (ri_file i, ri_stage i) of
        (Some f, Some st) \<Rightarrow> replay_call re s (replay_admin_stage (re_env re) f st i (rs_db s))
      | _ \<Rightarrow> (Inl (RecoveryTerminalDispatchError ''Replay stage item is missing canonical stage metadata.''), s))"

definition resync_target :: "recovery_env \<Rightarrow> work_id \<Rightarrow> recovery_item \<Rightarrow> recovery_state \<Rightarrow> unit recovery_run" where
  "resync_target re w i s =
     (case loaded ''MemeFileSyncTargetSnapshot'' (Option.bind (work_uuid w) (\<lambda>u. snapshot_by_id u s)) of
        Inl e \<Rightarrow> (Inl e, s)
      | Inr (f, t, row) \<Rightarrow> replay_call re s (replay_sync_target (re_env re) f t (Some i) (rs_db s)))"

definition PIPELINE_INGEST_REQUEST_AGGREGATE_TYPE :: text_value where
  "PIPELINE_INGEST_REQUEST_AGGREGATE_TYPE = ''pipeline_ingest_request''"

definition MEDIA_INSPECT_REQUESTED_EVENT_TYPE :: text_value where
  "MEDIA_INSPECT_REQUESTED_EVENT_TYPE = ''media_inspect_requested''"

definition build_media_inspect_message_spec :: "env \<Rightarrow> ingest_request \<Rightarrow> recovery_exn + message_spec" where
  "build_media_inspect_message_spec env r =
     (case iq_sha256 r of
        None \<Rightarrow> Inl (OtherFailure ''ValueError'' ''media-inspect outbox payload requires ingest_request.sha256_hex.'')
      | Some sha \<Rightarrow>
          Inr \<lparr>sp_exchange = env_exchange env,
               sp_routing_key = env_routing_key_prefix env @ ''.media_inspect'',
               sp_payload = InspectPayload \<lparr>ie_id = env_fresh env 0, ie_request = iq_id r, ie_platform = iq_platform r,
                              ie_sha256 = sha, ie_created_at = env_now env\<rparr>,
               sp_message_id = MsgUuid (env_fresh env 0),
               sp_event_type = MEDIA_INSPECT_REQUESTED_EVENT_TYPE,
               sp_aggregate_type = PIPELINE_INGEST_REQUEST_AGGREGATE_TYPE,
               sp_aggregate_id = uuid_text (iq_id r), sp_created_at = env_now env, sp_headers = [],
               sp_content_type = DEFAULT_RABBITMQ_CONTENT_TYPE, sp_ordering_key = Some (uuid_text (iq_id r))\<rparr>)"

definition add_inspect_message :: "recovery_env \<Rightarrow> ingest_request \<Rightarrow> recovery_state \<Rightarrow> recovery_exn + recovery_state" where
  "add_inspect_message re r s =
     (case build_media_inspect_message_spec (re_env re) r of
        Inl e \<Rightarrow> Inl e
      | Inr spec \<Rightarrow>
          (case outbox_message_from_spec (env_fresh (re_env re) 0) spec of
             Inl e \<Rightarrow> Inl (PipelineFailure e (re_service_text re e))
           | Inr m \<Rightarrow> Inr (map_db (\<lambda>d. d\<lparr>db_outbox := db_outbox d @ [m]\<rparr>) s)))"

definition inspect_again :: "ingest_request \<Rightarrow> ingest_request" where
  "inspect_again r =
     r\<lparr>iq_status := MEDIA_INSPECT_PENDING, iq_failure_code := None, iq_failure_detail := None, iq_locked_at := None\<rparr>"

definition dispatched_item :: "recovery_env \<Rightarrow> recovery_item \<Rightarrow> recovery_item" where
  "dispatched_item re i =
     i\<lparr>ri_status := ITEM_DISPATCHED, ri_dispatched_at := Some (env_now (re_env re)), ri_normalized_reason := None,
       ri_safe_error_text := None\<rparr>"

definition reinspect_ingest :: "recovery_env \<Rightarrow> work_id \<Rightarrow> recovery_item \<Rightarrow> recovery_state \<Rightarrow> unit recovery_run" where
  "reinspect_ingest re w i s =
     (case loaded ''PipelineIngestRequest'' (get_request s w) of
        Inl e \<Rightarrow> (Inl e, s)
      | Inr r \<Rightarrow>
          (case add_inspect_message re r (put_request (re_env re) (inspect_again r) s) of
             Inl e \<Rightarrow> (Inl e, s)
           | Inr s1 \<Rightarrow>
               commit_session (re_env re) s
                 (put_item ((dispatched_item re (mark_non_stage_budget_dispatch (i\<lparr>ri_attempt_budget_start := Some 1\<rparr>)))
                    \<lparr>ri_dispatch_event_id := Some (env_fresh (re_env re) 0)\<rparr>) s1)))"

definition rebuild_outbox :: "recovery_env \<Rightarrow> work_id \<Rightarrow> recovery_item \<Rightarrow> recovery_state \<Rightarrow> unit recovery_run" where
  "rebuild_outbox re w i s =
     (case loaded ''RabbitMQOutboxMessage'' (Option.bind (work_uuid w) (\<lambda>u. outbox_by_id u s)) of
        Inl e \<Rightarrow> (Inl e, s)
      | Inr m \<Rightarrow>
          (let m1 = m\<lparr>ob_status := OUTBOX_PENDING, ob_next_retry_at := Some (env_now (re_env re)), ob_locked_at := None,
                      ob_lock_owner := None, ob_last_error := None\<rparr>;
               i1 = (if ri_attempt_budget_start i = None
                     then i\<lparr>ri_attempt_budget_start := Some (max (ob_attempt_count m + 1) 1)\<rparr> else i);
               i2 = (dispatched_item re (mark_non_stage_budget_dispatch i1))
                      \<lparr>ri_dispatch_event_id := (case ob_message_id m of MsgUuid u \<Rightarrow> Some u | MsgText _ \<Rightarrow> None),
                       ri_finished_at := None\<rparr>
           in commit_session (re_env re) s (put_item i2 (map_db (put_outbox m1) s))))"

definition archive_dead_letter :: "recovery_env \<Rightarrow> recovery_item \<Rightarrow> recovery_state \<Rightarrow> unit recovery_run" where
  "archive_dead_letter re i s =
     (case loaded ''PipelineDeadLetter'' (Option.bind (work_uuid (ri_work_id i)) (get_dead_letter s)) of
        Inl e \<Rightarrow> (Inl e, s)
      | Inr r \<Rightarrow>
          commit_session (re_env re) s
            (put_item (finish_item re ITEM_SUCCEEDED None None i)
               (put_dead_letter (re_env re)
                  (r\<lparr>dl_status := DL_ARCHIVED, dl_resolved_at := Some (env_now (re_env re)),
                     dl_recovery_item := Some (ri_id i),
                     dl_resolution_note := Some ''Archived by an audited admin recovery action.''\<rparr>) s)))"

text \<open>\<open>_load_linked_dead_letter\<close>.\<close>

definition load_linked_dead_letter :: "recovery_item \<Rightarrow> work_read \<Rightarrow> recovery_state \<Rightarrow> recovery_exn + dead_letter" where
  "load_linked_dead_letter i work s =
     (let checked = (\<lambda>r. case assert_dead_letter_recoverable r i of Some e \<Rightarrow> Inl e | None \<Rightarrow> Inr r)
      in case wr_dead_letter work of
           Some u \<Rightarrow>
             (case loaded ''PipelineDeadLetter'' (get_dead_letter s u) of Inl e \<Rightarrow> Inl e | Inr r \<Rightarrow> checked r)
         | None \<Rightarrow>
             if ri_work_kind i = WORK_DEAD_LETTER
             then (case loaded ''PipelineDeadLetter'' (Option.bind (work_uuid (ri_work_id i)) (get_dead_letter s)) of
                     Inl e \<Rightarrow> Inl e | Inr r \<Rightarrow> checked r)
             else
               (case find (\<lambda>r. dl_work r = map_option (\<lambda>u. (ri_work_kind i, u)) (work_uuid (ri_work_id i)) \<and> dl_work r \<noteq> None \<and>
                               dl_status r \<in> {DL_UNRESOLVED, DL_RECOVERY_QUEUED}) (sort_key dl_created_at (rs_ledger s)) of
                  None \<Rightarrow> Inl (RecoveryTerminalDispatchError ''The linked durable dead letter no longer exists.'')
                | Some r \<Rightarrow> checked r))"

definition queued_dead_letter :: "recovery_item \<Rightarrow> dead_letter \<Rightarrow> dead_letter" where
  "queued_dead_letter i r = r\<lparr>dl_status := DL_RECOVERY_QUEUED, dl_recovery_item := Some (ri_id i)\<rparr>"

definition recover_dead_letter ::
  "recovery_env \<Rightarrow> recovery_item \<Rightarrow> work_read \<Rightarrow> recovery_state \<Rightarrow> unit recovery_run" where
  "recover_dead_letter re i work s =
     (case load_linked_dead_letter i work s of
        Inl e \<Rightarrow> (Inl e, s)
      | Inr r \<Rightarrow>
          (let s1 = put_dead_letter (re_env re) (queued_dead_letter i r) s;
               unsafe = (Inl (RecoveryTerminalDispatchError
                 ''Dead letter does not reference canonical work that can be replayed safely.''), s)
           in case ri_work_kind i of
                WORK_PIPELINE_STAGE \<Rightarrow> replay_stage_action re i s1
              | WORK_SYNC_TARGET \<Rightarrow> replay_stage_action re i s1
              | WORK_INGEST_REQUEST \<Rightarrow> reinspect_ingest re (ri_work_id i) i s1
              | WORK_OUTBOX \<Rightarrow> rebuild_outbox re (ri_work_id i) i s1
              | WORK_DEAD_LETTER \<Rightarrow>
                  (case dl_work r of
                     None \<Rightarrow> unsafe
                   | Some (kind, u) \<Rightarrow>
                       (case kind of
                          WORK_PIPELINE_STAGE \<Rightarrow> retry_stage re (WorkRow u) i s1
                        | WORK_SYNC_TARGET \<Rightarrow> resync_target re (WorkRow u) i s1
                        | WORK_INGEST_REQUEST \<Rightarrow> reinspect_ingest re (WorkRow u) i s1
                        | WORK_OUTBOX \<Rightarrow> rebuild_outbox re (WorkRow u) i s1
                        | _ \<Rightarrow> unsafe))
              | _ \<Rightarrow> unsafe))"

definition execute_general_action ::
  "recovery_env \<Rightarrow> recovery_item \<Rightarrow> work_read \<Rightarrow> recovery_state \<Rightarrow> unit recovery_run" where
  "execute_general_action re i work s =
     (case ri_action i of
        REPLAY_STAGE \<Rightarrow> replay_stage_action re i s
      | REGENERATE_DERIVATIVES \<Rightarrow> replay_stage_action re i s
      | RETRY_STAGE \<Rightarrow> retry_stage re (ri_work_id i) i s
      | RESYNC_TARGET \<Rightarrow> resync_target re (ri_work_id i) i s
      | REINSPECT_INGEST \<Rightarrow> reinspect_ingest re (ri_work_id i) i s
      | REBUILD_OUTBOX \<Rightarrow> rebuild_outbox re (ri_work_id i) i s
      | ARCHIVE_DEAD_LETTER \<Rightarrow> archive_dead_letter re i s
      | RECOVER_DEAD_LETTER \<Rightarrow> recover_dead_letter re i work s
      | _ \<Rightarrow> (Inl (RecoveryTerminalDispatchError ''Unsupported general recovery action.''), s))"

section \<open>Telegram actions\<close>

definition queue_backfill :: "recovery_env \<Rightarrow> recovery_item \<Rightarrow> recovery_state \<Rightarrow> unit recovery_run" where
  "queue_backfill re i s =
     (case loaded ''SourceChannelBackfillJob'' (get_backfill s (ri_work_id i)) of
        Inl e \<Rightarrow> (Inl e, s)
      | Inr job \<Rightarrow>
          (let i1 = (if ri_attempt_budget_start i = None
                     then i\<lparr>ri_attempt_budget_start := Some (max (bj_attempt_count job + 1) 1)\<rparr> else i);
               job1 = job\<lparr>bj_status := BACKFILL_QUEUED, bj_is_retryable := False, bj_next_attempt_at := None,
                          bj_completed_at := None, bj_locked_at := None, bj_lock_owner := None, bj_error_code := None,
                          bj_error_class := None, bj_error_text := None\<rparr>
           in commit_session (re_env re) s
                (put_item (dispatched_item re (mark_non_stage_budget_dispatch i1)) (put_backfill (re_env re) job1 s))))"

definition at_env :: "env \<Rightarrow> recovery_env \<Rightarrow> recovery_env" where
  "at_env env re = re\<lparr>re_env := env\<rparr>"

text \<open>The item is closed in a session of its own once the crawler has taken the post.\<close>

definition complete_source_post :: "recovery_env \<Rightarrow> recovery_item \<Rightarrow> recovery_state \<Rightarrow> unit recovery_run" where
  "complete_source_post re i s =
     (case (get_job s (ri_job i), get_recovery (rs_db s) (ri_id i)) of
        (Some j, Some i') \<Rightarrow>
          if ri_status i' = ITEM_DISPATCHED
          then commit_session (re_completion_env re) s
                 (reconcile_jobs (re_completion_env re) (Some [rj_id j])
                    (resolve_linked_dead_letter (re_completion_env re) (ri_id i') True
                       (put_item (finish_item (at_env (re_completion_env re) re) ITEM_SUCCEEDED None None i') s)))
          else (Inr (), s)
      | _ \<Rightarrow> (Inr (), s))"

definition replay_source_post ::
  "recovery_env \<Rightarrow> recovery_state \<Rightarrow> recovery_item \<Rightarrow> recovery_state \<Rightarrow> unit recovery_run" where
  "replay_source_post re s0 i s =
     (case loaded ''SourceChannelPost'' (get_post s (ri_work_id i)) of
        Inl e \<Rightarrow> (Inl e, s0)
      | Inr post \<Rightarrow>
     (case rs_channels s (po_channel post) of
        None \<Rightarrow> (Inl (RecoveryTerminalDispatchError ''Recovery source post references a missing channel.''), s0)
      | Some platform_id \<Rightarrow>
          (let i1 = (if ri_attempt_budget_start i = None
                     then i\<lparr>ri_attempt_budget_start := Some (max (po_attempt_count post + 1) 1)\<rparr> else i)
           in case commit_session (re_env re) s0 (put_item (dispatched_item re (mark_non_stage_budget_dispatch i1)) s) of
                (Inl e, s1) \<Rightarrow> (Inl e, s1)
              | (Inr _, s1) \<Rightarrow>
                  (case re_replay_post re platform_id (po_post_id post) s1 of
                     (Inl e, s2) \<Rightarrow> (Inl e, s2)
                   | (Inr SKIPPED_PAUSED_CHANNEL, s2) \<Rightarrow>
                       (Inl (OtherFailure ''RuntimeError'' ''The source channel was paused while the recovery replay was running.''), s2)
                   | (Inr SKIPPED_UNSUPPORTED_MEDIA, s2) \<Rightarrow>
                       (Inl (RecoveryTerminalDispatchError ''The source post is not replayable media.''), s2)
                   | (Inr REJECTED_MALFORMED, s2) \<Rightarrow>
                       (Inl (RecoveryTerminalDispatchError ''The source post is not replayable media.''), s2)
                   | (Inr _, s2) \<Rightarrow> complete_source_post re i s2))))"

definition execute_telegram_action ::
  "recovery_env \<Rightarrow> recovery_state \<Rightarrow> recovery_item \<Rightarrow> work_read \<Rightarrow> recovery_state \<Rightarrow> unit recovery_run" where
  "execute_telegram_action re s0 i work s =
     (case ri_action i of
        RECOVER_DEAD_LETTER \<Rightarrow>
          (case load_linked_dead_letter i work s of
             Inl e \<Rightarrow> (Inl e, s0)
           | Inr r \<Rightarrow>
               (let s1 = put_dead_letter (re_env re) (queued_dead_letter i r) s
                in case ri_work_kind i of
                     WORK_BACKFILL \<Rightarrow> rolled_back s0 (queue_backfill re i s1)
                   | WORK_SOURCE_POST \<Rightarrow> replay_source_post re s0 i s1
                   | _ \<Rightarrow> (Inl (RecoveryTerminalDispatchError ''Telegram dead letter is not linked to replayable Telegram work.''), s0)))
      | RESUME_BACKFILL \<Rightarrow> rolled_back s0 (queue_backfill re i s)
      | REPLAY_SOURCE_POST \<Rightarrow> replay_source_post re s0 i s
      | _ \<Rightarrow> (Inl (RecoveryTerminalDispatchError ''Unsupported Telegram recovery action.''), s0))"
section \<open>Recording a failed dispatch\<close>

definition set_queued :: "recovery_env \<Rightarrow> version \<Rightarrow> text_value option \<Rightarrow> text_value option \<Rightarrow> recovery_item \<Rightarrow> recovery_item" where
  "set_queued re version reason error i =
     i\<lparr>ri_status := ITEM_QUEUED, ri_expected_version := version, ri_canonical_version := Some version,
       ri_dispatch_event_id := None, ri_dispatched_at := None, ri_finished_at := None,
       ri_normalized_reason := map_option (take 128) (nonblank reason),
       ri_safe_error_text := Option.bind error (re_sanitize re)\<rparr>"

definition item_terminal :: "recovery_item \<Rightarrow> bool" where
  "item_terminal i \<longleftrightarrow> ri_status i \<in> set TERMINAL_ITEM_STATUSES"

definition charged_item :: "bool \<Rightarrow> recovery_item \<Rightarrow> recovery_item" where
  "charged_item retryable i = (if retryable then i\<lparr>ri_failures_consumed := ri_failures_consumed i + 1\<rparr> else i)"

text \<open>\<open>_record_dispatch_failure\<close>; \<open>re\<close> holds the environment of its session.\<close>

definition record_dispatch_failure ::
  "recovery_env \<Rightarrow> uuid \<Rightarrow> recovery_exn \<Rightarrow> bool \<Rightarrow> recovery_state \<Rightarrow> unit recovery_run" where
  "record_dispatch_failure re item_id exn retryable s =
     (case get_recovery (rs_db s) item_id of
        None \<Rightarrow> (Inr (), s)
      | Some i0 \<Rightarrow>
     (case get_job s (ri_job i0) of
        None \<Rightarrow> (Inr (), s)
      | Some job \<Rightarrow>
          if item_terminal i0 then (Inr (), s)
          else
            (let i = charged_item retryable i0;
                 close = (\<lambda>s1. commit_session (re_env re) s (reconcile_jobs (re_env re) (Some [rj_id job]) s1));
                 stale = (\<lambda>e. close (put_item (finish_item re ITEM_SKIPPED_STALE (Some ''canonical_state_changed'')
                                (Some (recovery_exn_text e)) i) s))
             in if retryable \<and> ri_failures_consumed i < ri_retry_limit i \<and> rj_status job \<in> {JOB_QUEUED, JOB_RUNNING}
                then
                  (case lock_canonical_work i s of
                     Some e \<Rightarrow> stale e
                   | None \<Rightarrow>
                       (case get_work re (ri_work_kind i) (ri_work_id i) s of
                          Inl e \<Rightarrow> if is_recovery_not_found e \<or> is_recovery_conflict e then stale e else (Inl e, s)
                        | Inr work \<Rightarrow>
                            close (put_item (set_queued re (wr_version work) (Some (take 128 (recovery_exn_name exn)))
                                     (Some (recovery_exn_text exn)) i) s)))
                else
                  close (resolve_linked_dead_letter (re_env re) (ri_id i) False
                    (put_item (finish_item re ITEM_FAILED (Some (recovery_exn_name exn)) (Some (recovery_exn_text exn)) i) s)))))"

section \<open>Dispatching\<close>

datatype dispatch_outcome = Dispatched | WaitingCapacity | DispatchFailed | SkippedStale

definition waiting_item :: "text_value \<Rightarrow> text_value option \<Rightarrow> recovery_item \<Rightarrow> recovery_item" where
  "waiting_item reason error i =
     i\<lparr>ri_status := ITEM_WAITING_CAPACITY, ri_normalized_reason := Some reason, ri_safe_error_text := error\<rparr>"

text \<open>What becomes of a claimed item that failed its validation; \<open>None\<close> lets the exception leave the batch.\<close>

definition invalid_item :: "recovery_env \<Rightarrow> recovery_exn \<Rightarrow> recovery_item \<Rightarrow> (recovery_item \<times> dispatch_outcome) option" where
  "invalid_item re e i =
     (case e of
        AdminRecoveryStorageUnavailableError t \<Rightarrow>
          Some (waiting_item ''original_storage_unavailable'' (re_sanitize re t) i, WaitingCapacity)
      | AdminRecoveryOriginalMissingError t \<Rightarrow>
          Some (finish_item re ITEM_SKIPPED_STALE (Some ''missing_original'') (Some t) i, SkippedStale)
      | AdminRecoveryNotFoundError t \<Rightarrow>
          Some (finish_item re ITEM_SKIPPED_STALE (Some ''canonical_state_changed'') (Some t) i, SkippedStale)
      | AdminRecoveryConflictError t \<Rightarrow>
          Some (finish_item re ITEM_SKIPPED_STALE (Some ''canonical_state_changed'') (Some t) i, SkippedStale)
      | _ \<Rightarrow> None)"

definition execute_action ::
  "recovery_env \<Rightarrow> bool \<Rightarrow> recovery_state \<Rightarrow> recovery_item \<Rightarrow> work_read \<Rightarrow> recovery_state \<Rightarrow> unit recovery_run" where
  "execute_action re telegram s0 i work s =
     (if telegram then execute_telegram_action re s0 i work s else rolled_back s0 (execute_general_action re i work s))"

definition dispatch_retryable :: "bool \<Rightarrow> recovery_item \<Rightarrow> recovery_exn \<Rightarrow> bool" where
  "dispatch_retryable telegram i e \<longleftrightarrow>
     \<not> is_terminal_dispatch e \<and>
     \<not> (\<not> telegram \<and> ri_work_kind i = WORK_SOURCE_POST \<and> is_terminal_source_post_error e)"

text \<open>
  \<open>_dispatch_next_general\<close> and \<open>_dispatch_next_telegram\<close>: the id of the claimed item and its outcome.
\<close>

definition dispatch_next ::
  "recovery_env \<Rightarrow> bool \<Rightarrow> uuid list \<Rightarrow> recovery_state \<Rightarrow> (uuid \<times> dispatch_outcome) option recovery_run" where
  "dispatch_next re telegram excluded s =
     (case claim_next_item re telegram excluded s of
        None \<Rightarrow> (Inr None, s)
      | Some (i, s1) \<Rightarrow>
          (let settle = (\<lambda>i' outcome s'.
                 case commit_session (re_env re) s (put_item i' s') of
                   (Inl e, s'') \<Rightarrow> (Inl e, s'') | (Inr _, s'') \<Rightarrow> (Inr (Some (ri_id i, outcome)), s''))
           in case validate_claimed_item re i s1 of
                (Inl e, i1, s2) \<Rightarrow>
                  (case invalid_item re e i1 of
                     None \<Rightarrow> (Inl e, s) | Some (i', outcome) \<Rightarrow> settle i' outcome s2)
              | (Inr work, i1, s2) \<Rightarrow>
                  if \<not> is_admitted i1 work s2
                  then settle (waiting_item ''pipeline_capacity_closed''
                         (Some ''Recovery is waiting for the pipeline backlog admission gate to reopen.'') i1) WaitingCapacity s2
                  else
                    (case execute_action re telegram s i1 work (put_item i1 s2) of
                       (Inr _, s3) \<Rightarrow> (Inr (Some (ri_id i, Dispatched)), s3)
                     | (Inl e, s3) \<Rightarrow>
                         (case record_dispatch_failure (at_env (re_failure_env re) re) (ri_id i) e
                                 (dispatch_retryable telegram i1 e) s3 of
                            (Inl e', s4) \<Rightarrow> (Inl e', s4)
                          | (Inr _, s4) \<Rightarrow> (Inr (Some (ri_id i, DispatchFailed)), s4)))))"

definition dispatch_next_general ::
  "recovery_env \<Rightarrow> uuid list \<Rightarrow> recovery_state \<Rightarrow> (uuid \<times> dispatch_outcome) option recovery_run" where
  "dispatch_next_general re = dispatch_next re False"

definition dispatch_next_telegram ::
  "recovery_env \<Rightarrow> uuid list \<Rightarrow> recovery_state \<Rightarrow> (uuid \<times> dispatch_outcome) option recovery_run" where
  "dispatch_next_telegram re = dispatch_next re True"

record dispatch_counts =
  dc_claimed :: nat
  dc_dispatched :: nat
  dc_waiting_capacity :: nat
  dc_failed :: nat
  dc_skipped_stale :: nat
  dc_skipped_dependency :: nat

definition count_outcome :: "dispatch_outcome \<Rightarrow> dispatch_counts \<Rightarrow> dispatch_counts" where
  "count_outcome outcome c =
     (let c1 = c\<lparr>dc_claimed := dc_claimed c + 1\<rparr>
      in case outcome of
           Dispatched \<Rightarrow> c1\<lparr>dc_dispatched := dc_dispatched c + 1\<rparr>
         | WaitingCapacity \<Rightarrow> c1\<lparr>dc_waiting_capacity := dc_waiting_capacity c + 1\<rparr>
         | DispatchFailed \<Rightarrow> c1\<lparr>dc_failed := dc_failed c + 1\<rparr>
         | SkippedStale \<Rightarrow> c1\<lparr>dc_skipped_stale := dc_skipped_stale c + 1\<rparr>)"

text \<open>The loop of a batch; its \<open>k\<close>-th iteration runs in the environment \<open>res k\<close>.\<close>

fun dispatch_loop ::
  "(nat \<Rightarrow> recovery_env) \<Rightarrow> bool \<Rightarrow> nat \<Rightarrow> uuid list \<Rightarrow> dispatch_counts \<Rightarrow> recovery_state \<Rightarrow> dispatch_counts recovery_run" where
  "dispatch_loop res telegram 0 excluded c s = (Inr c, s)"
| "dispatch_loop res telegram (Suc n) excluded c s =
     (case (if telegram then dispatch_next_telegram (res n) excluded s else dispatch_next_general (res n) excluded s) of
        (Inl e, s') \<Rightarrow> (Inl e, s')
      | (Inr None, s') \<Rightarrow> (Inr c, s')
      | (Inr (Some (i, outcome)), s') \<Rightarrow>
          dispatch_loop res telegram n (i # excluded) (count_outcome outcome c) s')"

definition dispatch_batch ::
  "recovery_env \<Rightarrow> (nat \<Rightarrow> recovery_env) \<Rightarrow> bool \<Rightarrow> int \<Rightarrow> recovery_state \<Rightarrow> dispatch_counts recovery_run" where
  "dispatch_batch re res telegram batch_size s =
     (case skip_failed_dependencies re (nat batch_size) s of
        (Inl e, s') \<Rightarrow> (Inl e, s')
      | (Inr skipped, s') \<Rightarrow>
          dispatch_loop res telegram (nat (max batch_size 1)) []
            \<lparr>dc_claimed = 0, dc_dispatched = 0, dc_waiting_capacity = 0, dc_failed = 0, dc_skipped_stale = 0,
             dc_skipped_dependency = skipped\<rparr> s')"

definition dispatch_general_batch ::
  "recovery_env \<Rightarrow> (nat \<Rightarrow> recovery_env) \<Rightarrow> int \<Rightarrow> recovery_state \<Rightarrow> dispatch_counts recovery_run" where
  "dispatch_general_batch re res batch_size s = dispatch_batch re res False batch_size s"

definition dispatch_telegram_batch ::
  "recovery_env \<Rightarrow> (nat \<Rightarrow> recovery_env) \<Rightarrow> int \<Rightarrow> recovery_state \<Rightarrow> dispatch_counts recovery_run" where
  "dispatch_telegram_batch re res batch_size s = dispatch_batch re res True batch_size s"

section \<open>Reclaiming stuck work\<close>

definition stuck_rows :: "recovery_env \<Rightarrow> recovery_state \<Rightarrow> stage_journal list" where
  "stuck_rows re s =
     sort_key (\<lambda>e. (sj_updated_at e, sj_id e))
       (filter (\<lambda>e. sj_status e = STAGE_PROCESSING \<and> sj_updated_at e < env_now (re_env re) - seconds (re_stuck_after re))
          (concat (map (\<lambda>file. journal_entries (rs_db s) (mf_id file)) (db_files (rs_db s)))))"

definition reclaimed_entry :: "env \<Rightarrow> stage_journal \<Rightarrow> stage_journal" where
  "reclaimed_entry env e =
     e\<lparr>sj_status := STAGE_FAILED, sj_normalized_reason := Some ''stale_stage_reclaimed'',
       sj_last_error_text := Some ''The automatic reconciler recovered a stage whose worker lease made no progress.'',
       sj_is_retryable := True, sj_retry_after := None, sj_finished_at := Some (env_now env)\<rparr>"

definition reclaim_next_stuck_stage :: "recovery_env \<Rightarrow> recovery_state \<Rightarrow> bool option recovery_run" where
  "reclaim_next_stuck_stage re s =
     (case find (\<lambda>e. \<not> re_row_locked re (sj_id e)) (stuck_rows re s) of
        None \<Rightarrow> (Inr None, s)
      | Some e \<Rightarrow>
          (let linked = (case sj_last_event_id e of
                 None \<Rightarrow> None
               | Some ev \<Rightarrow> find (\<lambda>i. ri_dispatch_event_id i = Some ev \<and> ri_status i = ITEM_DISPATCHED) (db_recovery (rs_db s)));
               s1 = map_db (put_journal (re_env re) (reclaimed_entry (re_env re) e)) s
           in if sj_attempt_count e \<ge> env_retry_max_attempts (re_env re)
              then (case commit_session (re_env re) s s1 of
                      (Inl err, s') \<Rightarrow> (Inl err, s') | (Inr _, s') \<Rightarrow> (Inr (Some True), s'))
              else
                (case replay_call re s1 (replay_item (re_env re) (sj_file e) (Some (sj_stage e)) linked (rs_db s1)) of
                   (Inl err, s') \<Rightarrow> (Inr (Some False), s) | (Inr _, s') \<Rightarrow> (Inr (Some True), s'))))"

definition inspect_message_open :: "ingest_request \<Rightarrow> outbox_message \<Rightarrow> bool" where
  "inspect_message_open r m \<longleftrightarrow>
     ob_aggregate_type m = PIPELINE_INGEST_REQUEST_AGGREGATE_TYPE \<and> ob_aggregate_id m = uuid_text (iq_id r) \<and>
     ob_event_type m = MEDIA_INSPECT_REQUESTED_EVENT_TYPE \<and>
     ob_status m \<in> {OUTBOX_PENDING, OUTBOX_FAILED, OUTBOX_PUBLISHING, OUTBOX_PUBLISHED}"

definition reclaim_next_stuck_ingest :: "recovery_env \<Rightarrow> recovery_state \<Rightarrow> bool option recovery_run" where
  "reclaim_next_stuck_ingest re s =
     (let env = re_env re;
          stuck = sort_key (\<lambda>r. (iq_updated_at r, iq_id r))
            (filter (\<lambda>r. iq_status r = MEDIA_INSPECTING \<and> iq_updated_at r < env_now env - seconds (re_stuck_after re)) (rs_requests s));
          commit = (\<lambda>s1. case commit_session env s s1 of
                      (Inl err, s') \<Rightarrow> (Inl err, s') | (Inr _, s') \<Rightarrow> (Inr (Some True), s'))
      in case find (\<lambda>r. \<not> re_row_locked re (iq_id r)) stuck of
           None \<Rightarrow> (Inr None, s)
         | Some r \<Rightarrow>
             if iq_attempt_count r \<ge> env_retry_max_attempts env
             then commit (put_request env
                    (r\<lparr>iq_status := PUBLISH_FAILED, iq_failure_code := Some ''media_inspect_stuck_attempts_exhausted'',
                       iq_failure_detail := Some ''Media inspection made no progress after the automatic attempt budget.'',
                       iq_locked_at := None\<rparr>) s)
             else
               (let s1 = put_request env (inspect_again r) s
                in if list_ex (inspect_message_open r) (db_outbox (rs_db s)) then commit s1
                   else
                     (case add_inspect_message re r s1 of
                        Inl e \<Rightarrow> (Inl e, s)
                      | Inr s2 \<Rightarrow>
                          commit (case find (\<lambda>i. ri_work_kind i = WORK_INGEST_REQUEST \<and> ri_work_id i = WorkRow (iq_id r) \<and>
                                              ri_status i = ITEM_DISPATCHED) (db_recovery (rs_db s2)) of
                                    None \<Rightarrow> s2
                                  | Some i \<Rightarrow> put_item (i\<lparr>ri_dispatch_event_id := Some (env_fresh env 0),
                                                        ri_dispatched_at := Some (env_now env)\<rparr>) s2))))"

definition reclaim_next :: "recovery_env \<Rightarrow> recovery_env \<Rightarrow> recovery_state \<Rightarrow> bool option recovery_run" where
  "reclaim_next re re' s =
     (case reclaim_next_stuck_stage re s of
        (Inr None, s') \<Rightarrow> reclaim_next_stuck_ingest re' s'
      | r \<Rightarrow> r)"

fun reclaim_loop ::
  "(nat \<Rightarrow> recovery_env) \<Rightarrow> (nat \<Rightarrow> recovery_env) \<Rightarrow> nat \<Rightarrow> nat \<Rightarrow> recovery_state \<Rightarrow> nat recovery_run" where
  "reclaim_loop res res' 0 reclaimed s = (Inr reclaimed, s)"
| "reclaim_loop res res' (Suc n) reclaimed s =
     (case reclaim_next (res n) (res' n) s of
        (Inl e, s') \<Rightarrow> (Inl e, s')
      | (Inr (Some True), s') \<Rightarrow> reclaim_loop res res' n (reclaimed + 1) s'
      | (Inr _, s') \<Rightarrow> (Inr reclaimed, s'))"

definition reclaim_stuck_work ::
  "(nat \<Rightarrow> recovery_env) \<Rightarrow> (nat \<Rightarrow> recovery_env) \<Rightarrow> int \<Rightarrow> recovery_state \<Rightarrow> nat recovery_run" where
  "reclaim_stuck_work res res' batch_size s = reclaim_loop res res' (nat (max batch_size 1)) 0 s"
section \<open>Restoring a reservation that was never delivered\<close>

text \<open>
  The strict readers of a journal snapshot: \<open>None\<close> is the \<open>TypeError\<close> or \<open>ValueError\<close> of a field that no
  snapshot has. A text of another kind is the text its tag stands for.
\<close>

definition strict_text :: "recovery_env \<Rightarrow> jval option \<Rightarrow> text_value option option" where
  "strict_text re v =
     (case v of
        None \<Rightarrow> Some None
      | Some JNull \<Rightarrow> Some None
      | Some (JText t) \<Rightarrow> Some (Some t)
      | Some (JUuid u) \<Rightarrow> Some (Some (uuid_text u))
      | Some (JTime t) \<Rightarrow> Some (Some (re_time_text re t))
      | Some _ \<Rightarrow> None)"

definition strict_uuid :: "jval option \<Rightarrow> uuid option option" where
  "strict_uuid v =
     (case v of None \<Rightarrow> Some None | Some JNull \<Rightarrow> Some None | Some (JUuid u) \<Rightarrow> Some (Some u) | Some _ \<Rightarrow> None)"

definition strict_time :: "jval option \<Rightarrow> time option option" where
  "strict_time v =
     (case v of None \<Rightarrow> Some None | Some JNull \<Rightarrow> Some None | Some (JTime t) \<Rightarrow> Some (Some t) | Some _ \<Rightarrow> None)"

definition restore_stage_snapshot :: "recovery_env \<Rightarrow> json_object \<Rightarrow> stage_journal \<Rightarrow> stage_journal option" where
  "restore_stage_snapshot re snap e =
     (case (snap ''attempt_count'', snap ''is_retryable'') of
        (Some (JInt n), Some (JBool b)) \<Rightarrow>
          if n < 0 then None
          else
            (case (case snap ''status'' of Some (JText t) \<Rightarrow> stage_status_of_text t | _ \<Rightarrow> None,
                   strict_uuid (snap ''last_event_id''), strict_text re (snap ''normalized_reason''),
                   strict_text re (snap ''last_error_text''), strict_time (snap ''retry_after''),
                   strict_time (snap ''started_at''), strict_time (snap ''finished_at'')) of
               (Some st, Some ev, Some reason, Some err, Some retry, Some started, Some finished) \<Rightarrow>
                 Some (e\<lparr>sj_status := st, sj_attempt_count := n, sj_last_event_id := ev, sj_normalized_reason := reason,
                         sj_last_error_text := err, sj_is_retryable := b, sj_retry_after := retry,
                         sj_started_at := started, sj_finished_at := finished\<rparr>)
             | _ \<Rightarrow> None)
      | _ \<Rightarrow> None)"

definition undelivered_entry :: "recovery_env \<Rightarrow> outbox_message \<Rightarrow> stage_journal \<Rightarrow> stage_journal" where
  "undelivered_entry re m e =
     e\<lparr>sj_status := STAGE_FAILED, sj_normalized_reason := Some ''outbox_publish_failed'',
       sj_last_error_text := Option.bind (ob_last_error m) (re_sanitize re), sj_is_retryable := True,
       sj_retry_after := None, sj_started_at := None, sj_finished_at := Some (env_now (re_env re))\<rparr>"

text \<open>
  \<open>_reconcile_exhausted_stage_dispatch_outbox\<close>: whether it closed the item, the item with what it observed, and
  the state with the restored row.
\<close>

definition reconcile_exhausted_outbox ::
  "recovery_env \<Rightarrow> recovery_item \<Rightarrow> recovery_state \<Rightarrow> bool \<times> recovery_item \<times> recovery_state" where
  "reconcile_exhausted_outbox re i s =
     (case (ri_file i, ri_stage i, Option.bind (ri_dispatch_event_id i) (\<lambda>ev. outbox_by_message ev s)) of
        (Some f, Some st, Some m) \<Rightarrow>
          (let i1 = observe_outbox_retry_budget m i
           in if ob_status m \<noteq> OUTBOX_FAILED \<or> ri_failures_consumed i1 < ri_retry_limit i1 then (False, i1, s)
              else
                (case get_journal (rs_db s) f st of
                   None \<Rightarrow> (False, i1, s)
                 | Some e \<Rightarrow>
                     if sj_last_event_id e \<noteq> ri_dispatch_event_id i1 \<or> sj_status e \<noteq> STAGE_PENDING then (False, i1, s)
                     else
                       (let e' = (case restore_stage_snapshot re (ri_previous_stage_state i1) e of
                                    Some r \<Rightarrow> r | None \<Rightarrow> undelivered_entry re m e)
                        in (True, finish_item re ITEM_FAILED (Some ''outbox_publish_failed'') (ob_last_error m) i1,
                            map_db (put_journal (re_env re) e') s))))
      | _ \<Rightarrow> (False, i, s))"

section \<open>What the repaired row says\<close>

text \<open>
  The verdict on a dispatched item: not settled yet, settled with a status, or to be scheduled again after a
  failure of the asynchronous work.
\<close>

datatype verdict =
    NotSettled
  | Settled recovery_item_status "text_value option" "text_value option"
  | Reschedule "text_value option" "text_value option" bool

definition stale_verdict :: verdict where
  "stale_verdict = Settled ITEM_SKIPPED_STALE (Some ''canonical_state_changed'') None"

definition budget_spent :: "recovery_item \<Rightarrow> bool" where
  "budget_spent i \<longleftrightarrow> ri_failures_consumed i \<ge> ri_retry_limit i"

definition stage_verdict :: "recovery_item \<Rightarrow> stage_journal option \<Rightarrow> verdict" where
  "stage_verdict i row =
     (case row of
        None \<Rightarrow> stale_verdict
      | Some e \<Rightarrow>
          if ri_dispatch_event_id i = None \<or> sj_last_event_id e \<noteq> ri_dispatch_event_id i then stale_verdict
          else if sj_status e = STAGE_SUCCEEDED then Settled ITEM_SUCCEEDED None None
          else if sj_status e = STAGE_FAILED \<and> (\<not> sj_is_retryable e \<or> budget_spent i)
          then Settled ITEM_FAILED (sj_normalized_reason e) (sj_last_error_text e)
          else NotSettled)"

definition sync_verdict :: "recovery_item \<Rightarrow> sync_snapshot option \<Rightarrow> verdict" where
  "sync_verdict i row =
     (case row of
        None \<Rightarrow> stale_verdict
      | Some r \<Rightarrow>
          if ri_dispatch_event_id i = None \<or> sn_last_event_id r \<noteq> ri_dispatch_event_id i then stale_verdict
          else if sn_status r = SYNC_SYNCED then Settled ITEM_SUCCEEDED None None
          else if sn_status r = SYNC_FAILED \<and>
              ((case sn_normalized_reason r of None \<Rightarrow> False | Some t \<Rightarrow> t \<in> set TERMINAL_SYNC_FAILURE_REASONS) \<or> budget_spent i)
          then Settled ITEM_FAILED (sn_normalized_reason r) (sn_last_error_text r)
          else NotSettled)"

definition generation_verdict :: "recovery_item \<Rightarrow> recovery_state \<Rightarrow> verdict" where
  "generation_verdict i s =
     (case max_by mg_created_at (filter (\<lambda>g. mg_recovery_item g = Some (ri_id i)) (db_generations (rs_db s))) of
        None \<Rightarrow> NotSettled
      | Some g \<Rightarrow>
          if mg_status g \<in> {ACTIVE, SUPERSEDED} then Settled ITEM_SUCCEEDED None None
          else if mg_status g \<in> {GEN_FAILED, STALE} \<and> budget_spent i
          then Settled ITEM_FAILED (mg_failure_reason g) (mg_failure_text g)
          else NotSettled)"

definition dispatch_outbox :: "recovery_item \<Rightarrow> recovery_state \<Rightarrow> outbox_message option" where
  "dispatch_outbox i s = Option.bind (ri_dispatch_event_id i) (\<lambda>ev. outbox_by_message ev s)"

definition ingest_verdict :: "recovery_item \<Rightarrow> recovery_state \<Rightarrow> recovery_item \<times> verdict" where
  "ingest_verdict i s =
     (let of_row = (case get_request s (ri_work_id i) of
            None \<Rightarrow> stale_verdict
          | Some r \<Rightarrow>
              (case iq_status r of
                 MATERIALIZED \<Rightarrow> Settled ITEM_SUCCEEDED None None
               | RESOLVED_SHA_DUPLICATE \<Rightarrow> Settled ITEM_SUCCEEDED None None
               | FAILED_INVALID_MEDIA \<Rightarrow> Settled ITEM_FAILED (iq_failure_code r) (iq_failure_detail r)
               | FAILED_BLOCKED_PHASH \<Rightarrow> Settled ITEM_FAILED (iq_failure_code r) (iq_failure_detail r)
               | PUBLISH_FAILED \<Rightarrow> Reschedule (iq_failure_code r) (iq_failure_detail r) True
               | _ \<Rightarrow> NotSettled))
      in case dispatch_outbox i s of
           None \<Rightarrow> (i, of_row)
         | Some m \<Rightarrow>
             (let i1 = observe_outbox_retry_budget m i
              in case ob_status m of
                   OUTBOX_FAILED \<Rightarrow>
                     (i1, if budget_spent i1 then Settled ITEM_FAILED (Some ''outbox_publish_failed'') (ob_last_error m)
                          else NotSettled)
                 | OUTBOX_PUBLISHED \<Rightarrow> (i1, of_row)
                 | _ \<Rightarrow> (i1, NotSettled)))"

definition finished_attempts :: "recovery_item \<Rightarrow> recovery_state \<Rightarrow> backfill_attempt list" where
  "finished_attempts i s =
     filter (\<lambda>a. ba_recovery_item a = Some (ri_id i) \<and> ba_finished_at a \<noteq> None) (rs_backfill_attempts s)"

definition observe_backfill_retry_budget :: "recovery_item \<Rightarrow> recovery_state \<Rightarrow> recovery_item \<times> bool" where
  "observe_backfill_retry_budget i s =
     (let failures = int (length (filter ba_is_retryable (finished_attempts i s)))
      in (i\<lparr>ri_failures_consumed := max (ri_failures_consumed i) (non_stage_budget_base i + failures)\<rparr>,
          case max_by (\<lambda>a. (ba_number a, ba_id a)) (finished_attempts i s) of
            None \<Rightarrow> False | Some a \<Rightarrow> \<not> ba_is_retryable a))"

definition backfill_verdict :: "recovery_item \<Rightarrow> recovery_state \<Rightarrow> recovery_item \<times> verdict" where
  "backfill_verdict i s =
     (case observe_backfill_retry_budget i s of
        (i1, terminal_attempt) \<Rightarrow>
          (i1, case get_backfill s (ri_work_id i) of
             None \<Rightarrow> stale_verdict
           | Some j \<Rightarrow>
               (case bj_status j of
                  BACKFILL_COMPLETED \<Rightarrow> Settled ITEM_SUCCEEDED None None
                | BACKFILL_COMPLETED_WITH_FAILURES \<Rightarrow> Settled ITEM_SUCCEEDED None None
                | BACKFILL_FAILED \<Rightarrow>
                    if bj_is_retryable j \<and> \<not> terminal_attempt \<and> \<not> budget_spent i1
                    then Reschedule (bj_error_code j) (bj_error_text j) False
                    else Settled ITEM_FAILED (bj_error_code j) (bj_error_text j)
                | BACKFILL_CANCELLED \<Rightarrow> Settled ITEM_FAILED (bj_error_code j) (bj_error_text j)
                | _ \<Rightarrow> NotSettled)))"

definition post_verdict :: "recovery_item \<Rightarrow> recovery_state \<Rightarrow> verdict" where
  "post_verdict i s =
     (case get_post s (ri_work_id i) of
        None \<Rightarrow> stale_verdict
      | Some p \<Rightarrow>
          (case po_status p of
             POST_ACCEPTED \<Rightarrow> Settled ITEM_SUCCEEDED None None
           | POST_FAILED \<Rightarrow>
               if po_is_retryable p then Reschedule (po_error_code p) (po_error_text p) True
               else Settled ITEM_FAILED (po_error_code p) (po_error_text p)
           | POST_UNSUPPORTED \<Rightarrow> Settled ITEM_FAILED (po_error_code p) (po_error_text p)
           | POST_OBSERVED \<Rightarrow> NotSettled))"

definition outbox_verdict :: "recovery_item \<Rightarrow> outbox_message option \<Rightarrow> recovery_item \<times> verdict" where
  "outbox_verdict i row =
     (case row of
        None \<Rightarrow> (i, stale_verdict)
      | Some m \<Rightarrow>
          (let i1 = observe_outbox_retry_budget m i
           in case ob_status m of
                OUTBOX_PUBLISHED \<Rightarrow> (i1, Settled ITEM_SUCCEEDED None None)
              | OUTBOX_FAILED \<Rightarrow>
                  (i1, if budget_spent i1 then Settled ITEM_FAILED (Some ''outbox_publish_failed'') (ob_last_error m)
                       else NotSettled)
              | _ \<Rightarrow> (i, NotSettled)))"

text \<open>\<open>_linked_recovery_outcome\<close>: the row a dead letter names; it never schedules the item again.\<close>

definition linked_ingest_verdict :: "recovery_item \<Rightarrow> uuid \<Rightarrow> recovery_state \<Rightarrow> recovery_item \<times> verdict" where
  "linked_ingest_verdict i u s =
     (let of_row = (\<lambda>i1.
            if budget_spent i1 \<and> ri_normalized_reason i1 \<noteq> None
            then Settled ITEM_FAILED (ri_normalized_reason i1) (ri_safe_error_text i1)
            else
              (case row_get iq_id u (rs_requests s) of
                 None \<Rightarrow> stale_verdict
               | Some r \<Rightarrow>
                   if iq_status r \<in> {MATERIALIZED, RESOLVED_SHA_DUPLICATE} then Settled ITEM_SUCCEEDED None None
                   else if iq_status r \<in> {FAILED_INVALID_MEDIA, FAILED_BLOCKED_PHASH, PUBLISH_FAILED}
                   then Settled ITEM_FAILED (iq_failure_code r) (iq_failure_detail r)
                   else NotSettled))
      in case dispatch_outbox i s of
           None \<Rightarrow> (i, of_row i)
         | Some m \<Rightarrow>
             (let i1 = observe_outbox_retry_budget m i
              in (i1, if ob_status m = OUTBOX_FAILED \<and> budget_spent i1
                      then Settled ITEM_FAILED (Some ''outbox_publish_failed'') (ob_last_error m)
                      else if ob_status m \<noteq> OUTBOX_PUBLISHED then NotSettled
                      else of_row i1)))"

definition linked_verdict ::
  "recovery_item \<Rightarrow> recovery_work_kind \<Rightarrow> uuid \<Rightarrow> recovery_state \<Rightarrow> recovery_item \<times> verdict" where
  "linked_verdict i kind u s =
     (case kind of
        WORK_PIPELINE_STAGE \<Rightarrow> (i, stage_verdict i (journal_by_id u s))
      | WORK_SYNC_TARGET \<Rightarrow> (i, sync_verdict i (map_option (snd \<circ> snd) (snapshot_by_id u s)))
      | WORK_INGEST_REQUEST \<Rightarrow> linked_ingest_verdict i u s
      | WORK_BACKFILL \<Rightarrow>
          (case observe_backfill_retry_budget i s of
             (i1, terminal_attempt) \<Rightarrow>
               (i1, case row_get bj_id u (rs_backfills s) of
                  None \<Rightarrow> stale_verdict
                | Some j \<Rightarrow>
                    if bj_status j \<in> {BACKFILL_COMPLETED, BACKFILL_COMPLETED_WITH_FAILURES}
                    then Settled ITEM_SUCCEEDED None None
                    else if bj_status j = BACKFILL_CANCELLED \<or>
                        bj_status j = BACKFILL_FAILED \<and> (terminal_attempt \<or> budget_spent i1)
                    then Settled ITEM_FAILED (bj_error_code j) (bj_error_text j)
                    else NotSettled))
      | WORK_SOURCE_POST \<Rightarrow>
          (i, case row_get po_id u (rs_posts s) of
             None \<Rightarrow> stale_verdict
           | Some p \<Rightarrow>
               if po_status p = POST_ACCEPTED then Settled ITEM_SUCCEEDED None None
               else if po_status p \<in> {POST_FAILED, POST_UNSUPPORTED}
               then Settled ITEM_FAILED (po_error_code p) (po_error_text p)
               else NotSettled)
      | WORK_OUTBOX \<Rightarrow> outbox_verdict i (outbox_by_id u s)
      | WORK_DEAD_LETTER \<Rightarrow> (i, NotSettled))"

definition dead_letter_verdict :: "recovery_item \<Rightarrow> recovery_state \<Rightarrow> recovery_item \<times> verdict" where
  "dead_letter_verdict i s =
     (case Option.bind (work_uuid (ri_work_id i)) (get_dead_letter s) of
        None \<Rightarrow> (i, stale_verdict)
      | Some r \<Rightarrow>
          if dl_status r \<in> {DL_RESOLVED, DL_ARCHIVED} then (i, Settled ITEM_SUCCEEDED None None)
          else if dl_status r = DL_RECOVERY_QUEUED
          then (case dl_work r of None \<Rightarrow> (i, NotSettled) | Some (kind, u) \<Rightarrow> linked_verdict i kind u s)
          else (i, NotSettled))"

definition item_verdict :: "recovery_item \<Rightarrow> recovery_state \<Rightarrow> recovery_item \<times> verdict" where
  "item_verdict i s =
     (if ri_action i = REGENERATE_DERIVATIVES then (i, generation_verdict i s)
      else if ri_action i = REPLAY_STAGE \<and> ri_file i \<noteq> None \<and> ri_stage i \<noteq> None
      then (i, stage_verdict i (get_journal (rs_db s) (the (ri_file i)) (the (ri_stage i))))
      else
        (case ri_work_kind i of
           WORK_PIPELINE_STAGE \<Rightarrow> (i, stage_verdict i (Option.bind (work_uuid (ri_work_id i)) (\<lambda>u. journal_by_id u s)))
         | WORK_SYNC_TARGET \<Rightarrow>
             (i, sync_verdict i (Option.bind (work_uuid (ri_work_id i)) (\<lambda>u. map_option (snd \<circ> snd) (snapshot_by_id u s))))
         | WORK_INGEST_REQUEST \<Rightarrow> ingest_verdict i s
         | WORK_BACKFILL \<Rightarrow> backfill_verdict i s
         | WORK_SOURCE_POST \<Rightarrow> (i, post_verdict i s)
         | WORK_OUTBOX \<Rightarrow> outbox_verdict i (Option.bind (work_uuid (ri_work_id i)) (\<lambda>u. outbox_by_id u s))
         | WORK_DEAD_LETTER \<Rightarrow> dead_letter_verdict i s))"

section \<open>Reconciling\<close>

text \<open>\<open>_requeue_async_failure\<close>: whether the item is closed.\<close>

definition requeue_async_failure ::
  "recovery_env \<Rightarrow> text_value option \<Rightarrow> text_value option \<Rightarrow> bool \<Rightarrow> recovery_item \<Rightarrow> recovery_state \<Rightarrow>
     recovery_exn + (bool \<times> recovery_item)" where
  "requeue_async_failure re reason error consume i s =
     (case get_work re (ri_work_kind i) (ri_work_id i) s of
        Inl e \<Rightarrow>
          if is_recovery_not_found e
          then Inr (True, finish_item re ITEM_SKIPPED_STALE (Some ''canonical_state_changed'') (Some (recovery_exn_text e)) i)
          else Inl e
      | Inr work \<Rightarrow>
          (let i1 = (if consume \<and> ri_canonical_version i \<noteq> Some (wr_version work)
                     then i\<lparr>ri_failures_consumed := ri_failures_consumed i + 1\<rparr> else i);
               i2 = i1\<lparr>ri_canonical_version := Some (wr_version work)\<rparr>
           in if ri_failures_consumed i2 < ri_retry_limit i2 \<and>
                (case job_status_of s i of None \<Rightarrow> False | Some st \<Rightarrow> st \<in> {JOB_QUEUED, JOB_RUNNING})
              then Inr (False, (set_queued re (wr_version work) reason error i2)\<lparr>ri_attempt_budget_start := None\<rparr>)
              else Inr (True, finish_item re ITEM_FAILED reason error i2)))"

definition close_item :: "recovery_env \<Rightarrow> recovery_item \<Rightarrow> recovery_state \<Rightarrow> bool recovery_run" where
  "close_item re i s =
     (Inr True, resolve_linked_dead_letter (re_env re) (ri_id i) (ri_status i = ITEM_SUCCEEDED) (put_item i s))"

definition reconcile_item :: "recovery_env \<Rightarrow> recovery_item \<Rightarrow> recovery_state \<Rightarrow> bool recovery_run" where
  "reconcile_item re i0 s0 =
     (case reconcile_exhausted_outbox re i0 s0 of
        (True, i, s) \<Rightarrow> close_item re i s
      | (False, i, s) \<Rightarrow>
          if ri_work_kind i = WORK_INGEST_REQUEST \<and> budget_spent i \<and> ri_normalized_reason i \<noteq> None
          then close_item re (finish_item re ITEM_FAILED (ri_normalized_reason i) (ri_safe_error_text i) i) s
          else
            (case item_verdict i s of
               (i1, NotSettled) \<Rightarrow> (Inr False, put_item i1 s)
             | (i1, Settled status reason error) \<Rightarrow> close_item re (finish_item re status reason error i1) s
             | (i1, Reschedule reason error consume) \<Rightarrow>
                 (case requeue_async_failure re reason error consume i1 s of
                    Inl e \<Rightarrow> (Inl e, s)
                  | Inr (False, i2) \<Rightarrow> (Inr False, put_item i2 s)
                  | Inr (True, i2) \<Rightarrow> close_item re i2 s)))"

fun reconcile_items :: "recovery_env \<Rightarrow> recovery_item list \<Rightarrow> nat \<Rightarrow> recovery_state \<Rightarrow> nat recovery_run" where
  "reconcile_items re [] n s = (Inr n, s)"
| "reconcile_items re (i # is) n s =
     (case reconcile_item re i s of
        (Inl e, s') \<Rightarrow> (Inl e, s')
      | (Inr done, s') \<Rightarrow> reconcile_items re is (if done then n + 1 else n) s')"

definition dispatch_order :: "recovery_item list \<Rightarrow> recovery_item list" where
  "dispatch_order items = sort_key (\<lambda>i. (ri_dispatched_at i = None, ri_dispatched_at i, ri_id i)) items"

text \<open>
  \<open>reconcile\<close>: failed prerequisites, then one transaction over the dispatched items whose job and row are not
  locked elsewhere, then the counters of all active jobs in a transaction of its own (\<open>re'\<close>).
\<close>

definition reconcile :: "recovery_env \<Rightarrow> recovery_env \<Rightarrow> recovery_env \<Rightarrow> int \<Rightarrow> recovery_state \<Rightarrow> nat recovery_run" where
  "reconcile re0 re re' batch_size s =
     (case skip_failed_dependencies re0 (nat batch_size) s of
        (Inl e, s1) \<Rightarrow> (Inl e, s1)
      | (Inr skipped, s1) \<Rightarrow>
          (let active = (\<lambda>i. case job_status_of s1 i of None \<Rightarrow> False | Some st \<Rightarrow> st \<in> set ACTIVE_JOB_STATUSES);
               candidates = take (nat (max batch_size 1))
                 (dispatch_order (filter (\<lambda>i. ri_status i = ITEM_DISPATCHED \<and> active i) (db_recovery (rs_db s1))));
               items = filter (\<lambda>i. \<not> re_job_locked re (ri_job i) \<and> \<not> re_item_locked re (ri_id i)) candidates;
               jobs = map ri_job (filter (\<lambda>i. \<not> re_job_locked re (ri_job i)) candidates)
           in case reconcile_items re items skipped s1 of
                (Inl e, s2) \<Rightarrow> (Inl e, s1)
              | (Inr n, s2) \<Rightarrow>
                  (case commit_session (re_env re) s1 (reconcile_jobs (re_env re) (Some jobs) s2) of
                     (Inl e, s3) \<Rightarrow> (Inl e, s3)
                   | (Inr _, s3) \<Rightarrow>
                       (case commit_session (re_env re') s3 (reconcile_jobs (re_env re') None s3) of
                          (Inl e, s4) \<Rightarrow> (Inl e, s4) | (Inr _, s4) \<Rightarrow> (Inr n, s4)))))"

end
