(* ===== verification/Recovery_Jobs.thy ===== *)
theory Recovery_Jobs
  imports Recovery_Runtime
begin

text \<open>
  The jobs of \<open>AdminRecoveryService\<close> (\<open>services/admin_recovery.py\<close>): the plan of a replay and its dependents, a
  single action, batches by preview and schedule, cancellation, handoff and the retry of failed items. An
  operation returns the job it shows and the state it leaves committed.

  Left out are the capture and the page-wise materialization of query selections: a query job is created and
  stays in preparation.
\<close>

section \<open>Enumeration texts and requirements\<close>

fun acknowledgement_value :: "acknowledgement \<Rightarrow> text_value" where
  "acknowledgement_value TERMINAL_OVERRIDE = ''terminal_override''"
| "acknowledgement_value STALE_DEPENDENTS = ''stale_dependents''"
| "acknowledgement_value MEDIA_REPLACEMENT = ''media_replacement''"

text \<open>\<open>sorted(acknowledgements)\<close> of a request, whose acknowledgements are unique.\<close>

definition sorted_acknowledgements :: "acknowledgement list \<Rightarrow> acknowledgement list" where
  "sorted_acknowledgements acks = filter (\<lambda>a. a \<in> set acks) [MEDIA_REPLACEMENT, STALE_DEPENDENTS, TERMINAL_OVERRIDE]"

fun capability_value :: "recovery_capability \<Rightarrow> text_value" where
  "capability_value RESUME_BACKFILL = ''resume_backfill''"
| "capability_value REPLAY_SOURCE_POST = ''replay_source_post''"
| "capability_value REINSPECT_INGEST = ''reinspect_ingest''"
| "capability_value RETRY_STAGE = ''retry_stage''"
| "capability_value REPLAY_STAGE = ''replay_stage''"
| "capability_value REGENERATE_DERIVATIVES = ''regenerate_derivatives''"
| "capability_value RESYNC_TARGET = ''resync_target''"
| "capability_value REBUILD_OUTBOX = ''rebuild_outbox''"
| "capability_value RECOVER_DEAD_LETTER = ''recover_dead_letter''"
| "capability_value ARCHIVE_DEAD_LETTER = ''archive_dead_letter''"

fun scope_value :: "replay_scope \<Rightarrow> text_value" where
  "scope_value STAGE_ONLY = ''stage_only''"
| "scope_value STAGE_AND_DEPENDENTS = ''stage_and_dependents''"

definition action_requirements_for_scope :: "action_read \<Rightarrow> replay_scope \<Rightarrow> scope_requirements" where
  "action_requirements_for_scope a scope =
     (case map_of (ar_scope_requirements a) scope of
        Some r \<Rightarrow> r
      | None \<Rightarrow> \<lparr>sr_warnings = ar_warnings a, sr_risks = ar_risks a, sr_required = ar_required a\<rparr>)"

definition missing_acknowledgements :: "scope_requirements \<Rightarrow> acknowledgement list \<Rightarrow> acknowledgement list" where
  "missing_acknowledgements r acks = filter (\<lambda>a. a \<notin> set acks) (sr_required r)"

definition conflict :: "text_value \<Rightarrow> recovery_exn" where
  "conflict t = AdminRecoveryConflictError t"

definition or_text :: "text_value list \<Rightarrow> text_value \<Rightarrow> text_value" where
  "or_text blocked t = (if joined ''; '' blocked \<noteq> [] then joined ''; '' blocked else t)"

section \<open>The plan of an execution\<close>

text \<open>\<open>_execution_item_key\<close>.\<close>

datatype execution_key = StageKey uuid stage | WorkKey recovery_work_kind work_id

definition execution_item_key :: "recovery_item \<Rightarrow> execution_key" where
  "execution_item_key i =
     (case (ri_file i, ri_stage i) of
        (Some f, Some st) \<Rightarrow> StageKey f st | _ \<Rightarrow> WorkKey (ri_work_kind i) (ri_work_id i))"

definition execution_stages :: "stage \<Rightarrow> replay_scope \<Rightarrow> stage list" where
  "execution_stages st scope = st # (if scope = STAGE_AND_DEPENDENTS then DOWNSTREAM_STAGES st else [])"

definition stage_reserved :: "recovery_state \<Rightarrow> uuid \<Rightarrow> stage \<Rightarrow> bool" where
  "stage_reserved s f st \<longleftrightarrow>
     (\<exists>i\<in>set (db_recovery (rs_db s)). ri_file i = Some f \<and> ri_stage i = Some st \<and> item_in_active_job s i)"

definition dependent_conflict :: "recovery_state \<Rightarrow> uuid \<Rightarrow> bool \<Rightarrow> stage \<Rightarrow> recovery_exn option" where
  "dependent_conflict s f acknowledged st =
     (if stage_reserved s f st
      then Some (conflict (''Dependent stage '' @ stage_value st @ '' is already owned by another Replay & Repair job.''))
      else
        (case get_journal (rs_db s) f st of
           None \<Rightarrow> None
         | Some e \<Rightarrow>
             if sj_status e \<in> {STAGE_PENDING, STAGE_PROCESSING}
             then Some (conflict (''Dependent stage '' @ stage_value st @ '' is '' @ stage_status_value (sj_status e) @
                    '' and must finish or be reclaimed first.''))
             else if sj_status e = STAGE_DUPLICATE
             then Some (conflict (''Dependent stage '' @ stage_value st @ '' is a duplicate row and cannot be replayed.''))
             else if sj_status e = STAGE_FAILED \<and> \<not> sj_is_retryable e \<and> \<not> acknowledged
             then Some (conflict (''Terminal dependent stage '' @ stage_value st @
                    '' requires terminal_override acknowledgement.''))
             else None))"

fun first_error :: "('a \<Rightarrow> 'e option) \<Rightarrow> 'a list \<Rightarrow> 'e option" where
  "first_error f [] = None"
| "first_error f (x # xs) = (case f x of Some e \<Rightarrow> Some e | None \<Rightarrow> first_error f xs)"

text \<open>The arguments of \<open>_build_execution_items\<close>; \<open>pq_ids\<close> are the fresh ids of the items, one per stage.\<close>

record plan_request =
  pq_job :: recovery_job
  pq_work :: work_read
  pq_scope :: replay_scope
  pq_limit :: int
  pq_acknowledged :: bool
  pq_reserve :: bool
  pq_source :: "uuid option"
  pq_ids :: "stage \<Rightarrow> uuid"

definition root_item :: "recovery_env \<Rightarrow> plan_request \<Rightarrow> uuid \<Rightarrow> recovery_item" where
  "root_item re q item_id =
     \<lparr>ri_id = item_id, ri_created_at = env_now (re_env re), ri_file = None, ri_stage = None,
      ri_work_kind = wr_kind (pq_work q), ri_work_id = wr_id (pq_work q), ri_action = rj_action (pq_job q),
      ri_retry_limit = pq_limit q, ri_attempt_budget_start = None, ri_failures_consumed = 0, ri_preserve_ready = False,
      ri_suppress_fanout = False, ri_terminal_override = pq_acknowledged q, ri_previous_stage_state = Map.empty,
      ri_reservation_active = pq_reserve q, ri_status = ITEM_QUEUED, ri_dispatch_event_id = None,
      ri_canonical_version = None, ri_normalized_reason = None, ri_safe_error_text = None, ri_dispatched_at = None,
      ri_finished_at = None, ri_job = rj_id (pq_job q), ri_parent = None, ri_expected_version = wr_version (pq_work q),
      ri_is_root = True, ri_source_item = pq_source q\<rparr>"

definition missing_version :: "uuid \<Rightarrow> stage \<Rightarrow> version" where
  "missing_version f st = VersionText (''missing:'' @ uuid_text f @ '':'' @ stage_value st)"

definition dependent_item :: "recovery_item \<Rightarrow> uuid \<Rightarrow> stage \<Rightarrow> stage_journal option \<Rightarrow> recovery_item" where
  "dependent_item i f st row =
     i\<lparr>ri_work_kind := WORK_PIPELINE_STAGE,
       ri_work_id := (case row of Some e \<Rightarrow> WorkRow (sj_id e) | None \<Rightarrow> WorkFileSuffix f (stage_value st)),
       ri_expected_version := (case row of
           Some e \<Rightarrow> row_version (sj_updated_at e) (sj_last_event_id e) | None \<Rightarrow> missing_version f st),
       ri_action := REPLAY_STAGE, ri_status := ITEM_WAITING_DEPENDENCY, ri_is_root := False, ri_source_item := None\<rparr>"

definition stage_item ::
  "recovery_env \<Rightarrow> plan_request \<Rightarrow> meme_file \<Rightarrow> recovery_state \<Rightarrow> stage \<Rightarrow> bool \<Rightarrow> uuid option \<Rightarrow> recovery_item" where
  "stage_item re q file s st is_root parent =
     (let i = (root_item re q (pq_ids q st))
            \<lparr>ri_parent := parent, ri_file := Some (mf_id file), ri_stage := Some st,
             ri_preserve_ready := (mf_status file = FILE_READY), ri_suppress_fanout := True\<rparr>
      in if is_root
         then i\<lparr>ri_action := (if rj_action (pq_job q) \<in> {RETRY_STAGE, REPLAY_STAGE} \<and> st = TRANSCODE \<and> is_moving_media file
                              then REGENERATE_DERIVATIVES else rj_action (pq_job q))\<rparr>
         else dependent_item i (mf_id file) st (get_journal (rs_db s) (mf_id file) st))"

text \<open>Every stage waits for the previous one; the two sync stages wait for the classification, if it is planned.\<close>

fun plan_loop ::
  "(stage \<Rightarrow> bool \<Rightarrow> uuid option \<Rightarrow> recovery_item) \<Rightarrow> uuid option \<Rightarrow> stage list \<Rightarrow> bool \<Rightarrow> uuid option \<Rightarrow> recovery_item list" where
  "plan_loop build classify [] is_root previous = []"
| "plan_loop build classify (st # sts) is_root previous =
     (let i = build st is_root
            (if st \<in> {SYNC_QDRANT, SYNC_MEILI} \<and> classify \<noteq> None then classify else previous)
      in i # plan_loop build classify sts False (if st \<in> {SYNC_QDRANT, SYNC_MEILI} then previous else Some (ri_id i)))"

definition build_execution_items ::
  "recovery_env \<Rightarrow> plan_request \<Rightarrow> recovery_state \<Rightarrow> recovery_exn + recovery_item list" where
  "build_execution_items re q s =
     (case (wr_stage (pq_work q), wr_file (pq_work q)) of
        (Some st, Some f) \<Rightarrow>
          (case get_file (rs_db s) f of
             None \<Rightarrow> Inl (file_missing f)
           | Some file \<Rightarrow>
               (let stages = execution_stages st (pq_scope q)
                in case first_error (dependent_conflict s f (pq_acknowledged q)) (tl stages) of
                     Some e \<Rightarrow> Inl e
                   | None \<Rightarrow>
                       Inr (plan_loop (stage_item re q file s)
                              (if CLASSIFY \<in> set stages then Some (pq_ids q CLASSIFY) else None) stages True None)))
      | _ \<Rightarrow> Inr [root_item re q (pq_ids q INGEST)])"

section \<open>Counters\<close>

definition refresh_job_counts :: "recovery_item list \<Rightarrow> recovery_job \<Rightarrow> recovery_job" where
  "refresh_job_counts items j =
     j\<lparr>rj_queued_count := count_status ITEM_QUEUED items,
       rj_waiting_count := count_status ITEM_WAITING_DEPENDENCY items + count_status ITEM_WAITING_CAPACITY items,
       rj_dispatched_count := count_status ITEM_DISPATCHED items,
       rj_succeeded_count := count_status ITEM_SUCCEEDED items,
       rj_stale_count := count_status ITEM_SKIPPED_STALE items,
       rj_skipped_count := count_status ITEM_SKIPPED_DEPENDENCY items,
       rj_cancelled_count := count_status ITEM_CANCELLED items,
       rj_completed_count := sum_list (map (\<lambda>st. count_status st items) TERMINAL_ITEM_STATUSES),
       rj_failed_count := count_status ITEM_FAILED items\<rparr>"

definition set_materialized_counts :: "recovery_item list \<Rightarrow> nat \<Rightarrow> recovery_job \<Rightarrow> recovery_job" where
  "set_materialized_counts items roots j =
     refresh_job_counts items
       (j\<lparr>rj_selected_root_count := roots, rj_expanded_count := length items, rj_total_count := length items\<rparr>)"

section \<open>Transactions\<close>

definition add_items :: "recovery_item list \<Rightarrow> recovery_state \<Rightarrow> recovery_state" where
  "add_items items = map_db (\<lambda>d. d\<lparr>db_recovery := db_recovery d @ items\<rparr>)"

definition audited ::
  "env \<Rightarrow> uuid \<Rightarrow> uuid \<Rightarrow> text_value \<Rightarrow> text_value \<Rightarrow> text_value \<Rightarrow> text_value \<Rightarrow> recovery_state \<Rightarrow> recovery_state" where
  "audited env admin request action kind target note s =
     s\<lparr>rs_audit := rs_audit s @
        [\<lparr>au_admin = admin, au_request = request, au_action = action, au_target_kind = kind, au_target_id = target,
          au_note = note, au_created_at = env_now env\<rparr>]\<rparr>"

text \<open>The unique indexes over active reservations.\<close>

definition reservation_key :: "recovery_item \<Rightarrow> execution_key option" where
  "reservation_key i =
     (if \<not> ri_reservation_active i then None
      else
        (case ri_stage i of
           None \<Rightarrow> Some (WorkKey (ri_work_kind i) (ri_work_id i))
         | Some st \<Rightarrow> map_option (\<lambda>f. StageKey f st) (ri_file i)))"

definition reservations_unique :: "recovery_item list \<Rightarrow> bool" where
  "reservations_unique items \<longleftrightarrow> distinct (List.map_filter reservation_key items)"

definition stored_job :: "recovery_job \<Rightarrow> recovery_state \<Rightarrow> recovery_job" where
  "stored_job j s = (case get_job s (rj_id j) of None \<Rightarrow> j | Some j' \<Rightarrow> j')"

definition commit_reservations ::
  "recovery_env \<Rightarrow> text_value \<Rightarrow> recovery_state \<Rightarrow> recovery_job \<Rightarrow> recovery_state \<Rightarrow> recovery_job recovery_run" where
  "commit_reservations re clash s0 job s =
     (if \<not> reservations_unique (db_recovery (rs_db s)) then (Inl (conflict clash), s0)
      else (case commit_session (re_env re) s0 s of
              (Inl e, s') \<Rightarrow> (Inl e, s') | (Inr _, s') \<Rightarrow> (Inr (stored_job job s'), s')))"

definition commit_job :: "recovery_env \<Rightarrow> recovery_state \<Rightarrow> recovery_job \<Rightarrow> recovery_state \<Rightarrow> recovery_job recovery_run" where
  "commit_job re s0 job s =
     (case commit_session (re_env re) s0 s of
        (Inl e, s') \<Rightarrow> (Inl e, s') | (Inr _, s') \<Rightarrow> (Inr (stored_job job s'), s'))"

definition idempotent_job :: "uuid \<Rightarrow> uuid \<Rightarrow> recovery_state \<Rightarrow> recovery_job option" where
  "idempotent_job admin request s = find (\<lambda>j. rj_requested_by j = admin \<and> rj_request_id j = request) (rs_jobs s)"

definition assert_idempotency_fingerprint ::
  "recovery_capability \<Rightarrow> selection \<Rightarrow> text_value \<Rightarrow> recovery_job \<Rightarrow> recovery_exn + recovery_job" where
  "assert_idempotency_fingerprint action selection reason j =
     (if rj_action j \<noteq> action \<or> rj_selection j \<noteq> selection \<or> rj_reason j \<noteq> reason
      then Inl (conflict ''This request ID was already used for a different recovery request.'') else Inr j)"

definition required_job :: "uuid \<Rightarrow> recovery_state \<Rightarrow> recovery_exn + recovery_job" where
  "required_job u s =
     (case get_job s u of
        None \<Rightarrow> Inl (AdminRecoveryNotFoundError (''Recovery job '' @ uuid_text u @ '' does not exist.''))
      | Some j \<Rightarrow> Inr j)"

definition job_version :: "recovery_job \<Rightarrow> version" where
  "job_version j = row_version (rj_updated_at j) None"

definition assert_job_assignee :: "recovery_job \<Rightarrow> uuid \<Rightarrow> recovery_exn option" where
  "assert_job_assignee j admin =
     (if (case rj_assigned j of Some a \<Rightarrow> a | None \<Rightarrow> rj_requested_by j) = admin then None
      else Some (conflict
        ''This job is assigned to another administrator; perform an audited handoff first.''))"

definition new_job ::
  "recovery_env \<Rightarrow> uuid \<Rightarrow> uuid \<Rightarrow> recovery_capability \<Rightarrow> replay_scope \<Rightarrow> int \<Rightarrow> text_value \<Rightarrow> selection \<Rightarrow> job_status \<Rightarrow> recovery_job" where
  "new_job re admin request action scope limit reason selection status =
     \<lparr>rj_id = env_fresh (re_env re) 0, rj_created_at = env_now (re_env re), rj_updated_at = env_now (re_env re),
      rj_requested_by = admin, rj_assigned = Some admin, rj_source_job = None, rj_request_id = request,
      rj_action = action, rj_scope = Some scope, rj_retry_limit = limit, rj_reason = reason,
      rj_selection = selection, rj_status = status, rj_total_count = 0, rj_selected_root_count = 0,
      rj_expanded_count = 0, rj_exclusions = [], rj_completed_count = 0, rj_failed_count = 0, rj_queued_count = 0, rj_waiting_count = 0,
      rj_dispatched_count = 0, rj_succeeded_count = 0, rj_stale_count = 0, rj_skipped_count = 0,
      rj_cancelled_count = 0, rj_expires_at = None, rj_scheduled_at = None, rj_completed_at = None,
      rj_cancelled_at = None\<rparr>"

text \<open>Fresh ids: the job has number 0, the items of the \<open>n\<close>-th root the numbers from \<open>10 n + 10\<close>.\<close>

definition item_ids :: "recovery_env \<Rightarrow> nat \<Rightarrow> stage \<Rightarrow> uuid" where
  "item_ids re n st = env_fresh (re_env re) (10 * n + 10 + STAGE_ORDER st)"

section \<open>One action\<close>

record action_request =
  rq_request_id :: uuid
  rq_version :: version
  rq_reason :: text_value
  rq_action :: recovery_capability
  rq_scope :: replay_scope
  rq_retry_limit :: int
  rq_acknowledgements :: "acknowledgement list"

text \<open>\<open>_verify_candidate_source_object\<close>.\<close>

definition verify_candidate_source_object ::
  "recovery_env \<Rightarrow> work_read \<Rightarrow> recovery_capability \<Rightarrow> recovery_state \<Rightarrow> recovery_exn option" where
  "verify_candidate_source_object re w action s =
     (if wr_stage w = None \<and> \<not> (wr_kind w = WORK_INGEST_REQUEST \<and> action = REINSPECT_INGEST) then None
      else assert_source_object_usable (probe_source_object re (work_source_object_key w s)))"

text \<open>
  What a request has to meet before its work is planned: the action is offered and available, its scope too, and
  everything required is acknowledged. The texts of the four refusals are arguments.
\<close>

definition check_action ::
  "recovery_capability \<Rightarrow> replay_scope \<Rightarrow> acknowledgement list \<Rightarrow> action_read list \<Rightarrow>
     text_value \<Rightarrow> text_value \<Rightarrow> text_value \<Rightarrow> (acknowledgement list \<Rightarrow> text_value) \<Rightarrow> recovery_exn option" where
  "check_action action scope acks actions undefined_text unavailable_text scope_text missing_text =
     (case find (\<lambda>a. ar_capability a = action) actions of
        None \<Rightarrow> Some (conflict undefined_text)
      | Some a \<Rightarrow>
          if \<not> ar_available a then Some (conflict (or_text (ar_blocked a) unavailable_text))
          else if scope \<notin> set (ar_scopes a) then Some (conflict scope_text)
          else
            (let missing = missing_acknowledgements (action_requirements_for_scope a scope) acks
             in if missing \<noteq> [] then Some (conflict (missing_text missing)) else None))"

definition missing_text :: "acknowledgement list \<Rightarrow> text_value" where
  "missing_text missing =
     ''Required acknowledgement is missing: '' @
       joined '', '' (map acknowledgement_value (sorted_acknowledgements missing)) @ ''.''"

text \<open>
  One request, executed alone. A request under the same id that is committed between the look-up and the insert is met by
  the constraint in \<open>_insert_idempotent_job\<close>; that branch, which answers as the look-up would have, is not modelled.
\<close>

definition perform_action ::
  "recovery_env \<Rightarrow> uuid \<Rightarrow> recovery_work_kind \<Rightarrow> work_id \<Rightarrow> action_request \<Rightarrow> recovery_state \<Rightarrow> recovery_job recovery_run" where
  "perform_action re admin kind w rq s =
     (let selection = ActionSelection (kind, w, rq_version rq) (rq_scope rq) (rq_retry_limit rq)
            (sorted_acknowledgements (rq_acknowledgements rq))
      in case idempotent_job admin (rq_request_id rq) s of
           Some j \<Rightarrow> (assert_idempotency_fingerprint (rq_action rq) selection (rq_reason rq) j, s)
         | None \<Rightarrow>
     (case get_candidate re kind w None True s of
        Inl e \<Rightarrow> (Inl e, s)
      | Inr (work, actions) \<Rightarrow>
          if wr_version work \<noteq> rq_version rq
          then (Inl (conflict ''Recovery work changed; reload it before replaying.''), s)
          else
            (case check_action (rq_action rq) (rq_scope rq) (rq_acknowledgements rq) actions
                    (capability_value (rq_action rq) @ '' is not defined for this work.'')
                    (capability_value (rq_action rq) @ '' is not currently available.'')
                    (scope_value (rq_scope rq) @ '' is not available for '' @ capability_value (rq_action rq) @ ''.'')
                    missing_text of
               Some e \<Rightarrow> (Inl e, s)
             | None \<Rightarrow>
            (case verify_candidate_source_object re work (rq_action rq) s of
               Some e \<Rightarrow> (Inl e, s)
             | None \<Rightarrow>
                 (let job = (new_job re admin (rq_request_id rq) (rq_action rq) (rq_scope rq) (rq_retry_limit rq)
                               (rq_reason rq) selection JOB_QUEUED)\<lparr>rj_scheduled_at := Some (env_now (re_env re))\<rparr>
                  in case build_execution_items re
                            \<lparr>pq_job = job, pq_work = work, pq_scope = rq_scope rq, pq_limit = rq_retry_limit rq,
                             pq_acknowledged = (TERMINAL_OVERRIDE \<in> set (rq_acknowledgements rq)), pq_reserve = True,
                             pq_source = None, pq_ids = item_ids re 0\<rparr> s of
                       Inl e \<Rightarrow> (Inl e, s)
                     | Inr items \<Rightarrow>
                         (let job' = set_materialized_counts items 1 job
                          in commit_reservations re ''This recovery work already has an active Replay & Repair job.'' s job'
                               (audited (re_env re) admin (rq_request_id rq) (capability_value (rq_action rq))
                                  (work_kind_value kind) (work_id_text w) (rq_reason rq)
                                  (add_items items (s\<lparr>rs_jobs := rs_jobs s @ [job']\<rparr>)))))))))"

text \<open>\<open>retry_work\<close> and the two entry points of the source pages.\<close>

definition retry_work ::
  "recovery_env \<Rightarrow> uuid \<Rightarrow> recovery_work_kind \<Rightarrow> work_id \<Rightarrow> uuid \<Rightarrow> version \<Rightarrow> text_value \<Rightarrow> recovery_capability \<Rightarrow>
     recovery_state \<Rightarrow> recovery_job recovery_run" where
  "retry_work re admin kind w request version reason capability s =
     perform_action re admin kind w
       \<lparr>rq_request_id = request, rq_version = version, rq_reason = reason, rq_action = capability,
        rq_scope = STAGE_ONLY, rq_retry_limit = 3, rq_acknowledgements = []\<rparr> s"

definition resume_backfill ::
  "recovery_env \<Rightarrow> uuid \<Rightarrow> uuid \<Rightarrow> uuid \<Rightarrow> uuid \<Rightarrow> version \<Rightarrow> text_value \<Rightarrow> recovery_state \<Rightarrow> recovery_job recovery_run" where
  "resume_backfill re admin channel backfill request version reason s =
     (case get_backfill s (WorkRow backfill) of
        Some r \<Rightarrow>
          if bj_channel r = channel
          then retry_work re admin WORK_BACKFILL (WorkRow backfill) request version reason RESUME_BACKFILL s
          else (Inl (AdminRecoveryNotFoundError
                  (''Backfill job '' @ uuid_text backfill @ '' does not exist for this source.'')), s)
      | None \<Rightarrow>
          (Inl (AdminRecoveryNotFoundError
             (''Backfill job '' @ uuid_text backfill @ '' does not exist for this source.'')), s))"

definition replay_post_request ::
  "recovery_env \<Rightarrow> uuid \<Rightarrow> uuid \<Rightarrow> text_value \<Rightarrow> uuid \<Rightarrow> version \<Rightarrow> text_value \<Rightarrow> recovery_state \<Rightarrow> recovery_job recovery_run" where
  "replay_post_request re admin channel post request version reason s =
     (case find (\<lambda>p. po_channel p = channel \<and> po_post_id p = post) (rs_posts s) of
        None \<Rightarrow> (Inl (AdminRecoveryNotFoundError (''Source post '' @ post @ '' does not exist for this source.'')), s)
      | Some p \<Rightarrow> retry_work re admin WORK_SOURCE_POST (WorkRow (po_id p)) request version reason REPLAY_SOURCE_POST s)"

section \<open>Preview of a batch\<close>

record batch_request =
  bq_request_id :: uuid
  bq_action :: recovery_capability
  bq_scope :: replay_scope
  bq_retry_limit :: int
  bq_reason :: text_value
  bq_selector :: selector
  bq_acknowledgements :: "acknowledgement list"

definition PREVIEW_TTL :: time where "PREVIEW_TTL = seconds (5 * 60)"

definition reference_text :: "work_reference \<Rightarrow> text_value" where
  "reference_text r = (case r of (kind, w, v) \<Rightarrow> work_kind_value kind @ ''/'' @ work_id_text w)"

text \<open>The items of one selected root.\<close>

definition preview_root ::
  "recovery_env \<Rightarrow> batch_request \<Rightarrow> recovery_job \<Rightarrow> nat \<Rightarrow> work_reference \<Rightarrow> recovery_state \<Rightarrow>
     recovery_exn + recovery_item list" where
  "preview_root re bq job n r s =
     (case r of (kind, w, version) \<Rightarrow>
     (case get_candidate re kind w None True s of
        Inl e \<Rightarrow> Inl e
      | Inr (work, actions) \<Rightarrow>
          if wr_version work \<noteq> version
          then Inl (conflict (''Recovery work '' @ reference_text r @ '' changed; reload the selection.''))
          else
            (let unavailable = capability_value (bq_action bq) @ '' is unavailable for '' @ reference_text r @ ''.''
             in case check_action (bq_action bq) (bq_scope bq) (bq_acknowledgements bq) actions unavailable unavailable
                       (scope_value (bq_scope bq) @ '' is unavailable for '' @ reference_text r @ ''.'') missing_text of
                  Some e \<Rightarrow> Inl e
                | None \<Rightarrow>
                    (case verify_candidate_source_object re work (bq_action bq) s of
                       Some e \<Rightarrow> Inl e
                     | None \<Rightarrow>
                         build_execution_items re
                           \<lparr>pq_job = job, pq_work = work, pq_scope = bq_scope bq, pq_limit = bq_retry_limit bq,
                            pq_acknowledged = (TERMINAL_OVERRIDE \<in> set (bq_acknowledgements bq)), pq_reserve = False,
                            pq_source = None, pq_ids = item_ids re n\<rparr> s))))"

definition overlapping :: recovery_exn where
  "overlapping = conflict ''Selected roots expand to the same stage more than once; narrow the selection.''"

fun preview_roots ::
  "recovery_env \<Rightarrow> batch_request \<Rightarrow> recovery_job \<Rightarrow> nat \<Rightarrow> work_reference list \<Rightarrow> recovery_item list \<Rightarrow> recovery_state \<Rightarrow>
     recovery_exn + recovery_item list" where
  "preview_roots re bq job n [] items s = Inr items"
| "preview_roots re bq job n (r # rs) items s =
     (case preview_root re bq job n r s of
        Inl e \<Rightarrow> Inl e
      | Inr built \<Rightarrow>
          if distinct (map execution_item_key (items @ built))
          then preview_roots re bq job (n + 1) rs (items @ built) s
          else Inl overlapping)"

definition preview_batch ::
  "recovery_env \<Rightarrow> uuid \<Rightarrow> batch_request \<Rightarrow> recovery_state \<Rightarrow> recovery_job recovery_run" where
  "preview_batch re admin bq s =
     (let selection = BatchSelection (bq_selector bq) (bq_scope bq) (bq_retry_limit bq)
            (sorted_acknowledgements (bq_acknowledgements bq));
          job = new_job re admin (bq_request_id bq) (bq_action bq) (bq_scope bq) (bq_retry_limit bq) (bq_reason bq) selection;
          now = env_now (re_env re)
      in case idempotent_job admin (bq_request_id bq) s of
           Some j \<Rightarrow> (assert_idempotency_fingerprint (bq_action bq) selection (bq_reason bq) j, s)
         | None \<Rightarrow>
             (case bq_selector bq of
                QuerySelector q \<Rightarrow>
                  commit_job re s (job JOB_PREPARING) (s\<lparr>rs_jobs := rs_jobs s @ [job JOB_PREPARING]\<rparr>)
              | ExplicitSelector refs \<Rightarrow>
                  if \<not> distinct (map (\<lambda>(kind, w, v). (kind, w)) refs)
                  then (Inl (conflict ''Recovery batch contains the same work item more than once.''), s)
                  else
                    (let preview = (job JOB_PREVIEW)\<lparr>rj_expires_at := Some (now + PREVIEW_TTL)\<rparr>
                     in case preview_roots re bq preview 0 refs [] s of
                          Inl e \<Rightarrow> (Inl e, s)
                        | Inr items \<Rightarrow>
                            (let preview' = set_materialized_counts items (length refs) preview
                             in commit_job re s preview'
                                  (add_items items (s\<lparr>rs_jobs := rs_jobs s @ [preview']\<rparr>))))))"

section \<open>Scheduling a preview\<close>

text \<open>\<open>_load_job_source_object_keys\<close>: the originals the items of a job need, by file or ingest request.\<close>

datatype source_reference = FileSource uuid | IngestSource uuid

definition item_requires_source_object :: "recovery_item \<Rightarrow> bool" where
  "item_requires_source_object i \<longleftrightarrow>
     ri_action i \<notin> {ARCHIVE_DEAD_LETTER, REBUILD_OUTBOX, RESUME_BACKFILL, REPLAY_SOURCE_POST} \<and>
     (ri_file i \<noteq> None \<or> ri_work_kind i = WORK_INGEST_REQUEST)"

definition item_source :: "recovery_item \<Rightarrow> source_reference option" where
  "item_source i =
     (if \<not> item_requires_source_object i then None
      else (case ri_file i of Some f \<Rightarrow> Some (FileSource f) | None \<Rightarrow> map_option IngestSource (work_uuid (ri_work_id i))))"

fun source_object_key :: "recovery_state \<Rightarrow> source_reference \<Rightarrow> text_value option" where
  "source_object_key s (FileSource f) = map_option mf_s3_original_key (get_file (rs_db s) f)"
| "source_object_key s (IngestSource u) = Option.bind (get_request s (WorkRow u)) iq_temp_key"

definition job_source_keys :: "uuid \<Rightarrow> recovery_state \<Rightarrow> source_reference \<Rightarrow> text_value option option" where
  "job_source_keys u s =
     map_of (map (\<lambda>r. (r, source_object_key s r)) (List.map_filter item_source (items_of s u)))"

definition stripped_key :: "text_value option \<Rightarrow> text_value option" where
  "stripped_key k = opt_text (py_strip (case k of None \<Rightarrow> [] | Some t \<Rightarrow> t))"

text \<open>The first object of the job that is not usable.\<close>

definition preflight_job_source_objects :: "recovery_env \<Rightarrow> uuid \<Rightarrow> recovery_state \<Rightarrow> recovery_exn option" where
  "preflight_job_source_objects re u s =
     first_error (\<lambda>r. assert_source_object_usable (probe_source_object re (source_object_key s r)))
       (List.map_filter item_source (items_of s u))"

text \<open>The keys under lock are compared with the normalized keys the preflight observed.\<close>

definition source_objects_unchanged :: "uuid \<Rightarrow> recovery_state \<Rightarrow> recovery_state \<Rightarrow> bool" where
  "source_objects_unchanged u s0 s \<longleftrightarrow>
     list_all (\<lambda>r. job_source_keys u s r = map_option stripped_key (job_source_keys u s0 r))
       (List.map_filter item_source (items_of s u) @ List.map_filter item_source (items_of s0 u))"

fun selection_acknowledgements :: "selection \<Rightarrow> acknowledgement list" where
  "selection_acknowledgements (ActionSelection r scope limit acks) = acks"
| "selection_acknowledgements (BatchSelection sel scope limit acks) = acks"
| "selection_acknowledgements (RetrySelection rs job scope limit) = []"

definition job_scope :: "recovery_job \<Rightarrow> replay_scope" where
  "job_scope j = (case rj_scope j of None \<Rightarrow> STAGE_ONLY | Some scope \<Rightarrow> scope)"

definition is_outdated_derivative_preview :: "recovery_job \<Rightarrow> recovery_item list \<Rightarrow> bool" where
  "is_outdated_derivative_preview j items \<longleftrightarrow>
     rj_action j = REGENERATE_DERIVATIVES \<and> job_scope j = STAGE_ONLY \<and>
     (case rj_selection j of BatchSelection (QuerySelector q) _ _ _ \<Rightarrow> qf_outdated_web_video q | _ \<Rightarrow> False) \<and>
     items \<noteq> [] \<and>
     list_all (\<lambda>i. ri_is_root i \<and> ri_stage i = Some TRANSCODE \<and> ri_file i \<noteq> None \<and> ri_action i = REGENERATE_DERIVATIVES) items"

definition web_video_is_outdated :: "meme_file \<Rightarrow> bool" where
  "web_video_is_outdated mf \<longleftrightarrow>
     mf_s3_web_video_key mf \<noteq> None \<and>
     (mf_web_video_profile mf \<noteq> Some WEB_VIDEO_PROFILE_ID \<or> mf_web_video_verified_at mf = None \<or>
      mf_source_has_audio mf = None \<or> mf_web_video_has_audio mf = None \<or>
      mf_source_has_audio mf \<noteq> mf_web_video_has_audio mf)"

text \<open>One root of a stored preview, planned again from the current state.\<close>

definition replan_root ::
  "recovery_env \<Rightarrow> recovery_job \<Rightarrow> acknowledgement list \<Rightarrow> nat \<Rightarrow> recovery_item \<Rightarrow> recovery_state \<Rightarrow>
     recovery_exn + recovery_item list" where
  "replan_root re job acks n i s =
     (case get_candidate re (ri_work_kind i) (ri_work_id i) None False s of
        Inl e \<Rightarrow> Inl e
      | Inr (work, actions) \<Rightarrow>
          if wr_version work \<noteq> ri_expected_version i
          then Inl (conflict ''Recovery preview contains changed work; create a fresh preview before scheduling.'')
          else
            (let stale = ''Recovery preview contains work that is no longer eligible; create a fresh preview.''
             in case check_action (rj_action job) (job_scope job) acks actions stale stale
                       ''Recovery preview scope is no longer available; create a fresh preview.''
                       (\<lambda>_. ''Recovery preview requires a new acknowledgement; create a fresh preview.'') of
                  Some e \<Rightarrow> Inl e
                | None \<Rightarrow>
                    build_execution_items re
                      \<lparr>pq_job = job, pq_work = work, pq_scope = job_scope job, pq_limit = rj_retry_limit job,
                       pq_acknowledged = (TERMINAL_OVERRIDE \<in> set acks), pq_reserve = False, pq_source = None,
                       pq_ids = item_ids re n\<rparr> s))"

fun replan_roots ::
  "recovery_env \<Rightarrow> recovery_job \<Rightarrow> acknowledgement list \<Rightarrow> nat \<Rightarrow> recovery_item list \<Rightarrow> recovery_item list \<Rightarrow> recovery_state \<Rightarrow>
     recovery_exn + recovery_item list" where
  "replan_roots re job acks n [] rebuilt s = Inr rebuilt"
| "replan_roots re job acks n (i # is) rebuilt s =
     (if \<not> ri_is_root i then replan_roots re job acks n is rebuilt s
      else
        (case replan_root re job acks n i s of
           Inl e \<Rightarrow> Inl e
         | Inr built \<Rightarrow>
             if distinct (map execution_item_key (rebuilt @ built))
             then replan_roots re job acks (n + 1) is (rebuilt @ built) s
             else Inl (conflict ''Recovery preview roots now overlap; create a fresh preview before scheduling.'')))"

definition parent_key :: "recovery_item list \<Rightarrow> recovery_item \<Rightarrow> execution_key option" where
  "parent_key items i = Option.bind (ri_parent i) (\<lambda>p. map_option execution_item_key (row_get ri_id p items))"

definition same_step :: "recovery_item list \<Rightarrow> recovery_item list \<Rightarrow> recovery_item \<Rightarrow> recovery_item \<Rightarrow> bool" where
  "same_step stored rebuilt a b \<longleftrightarrow>
     ri_work_kind b = ri_work_kind a \<and> ri_work_id b = ri_work_id a \<and> ri_expected_version b = ri_expected_version a \<and>
     ri_action b = ri_action a \<and> ri_is_root b = ri_is_root a \<and> parent_key rebuilt b = parent_key stored a"

definition revalidate_preview_execution ::
  "recovery_env \<Rightarrow> recovery_job \<Rightarrow> recovery_item list \<Rightarrow> acknowledgement list \<Rightarrow> recovery_state \<Rightarrow> recovery_exn option" where
  "revalidate_preview_execution re job items acks s =
     (if \<not> distinct (map execution_item_key items)
      then Some (conflict ''Recovery preview contains duplicate execution steps; create a fresh preview.'')
      else
        (case replan_roots re job acks 0 items [] s of
           Inl e \<Rightarrow> Some e
         | Inr rebuilt \<Rightarrow>
             if set (map execution_item_key rebuilt) \<noteq> set (map execution_item_key items)
             then Some (conflict ''Recovery preview execution steps changed; create a fresh preview before scheduling.'')
             else if list_all (\<lambda>a. case find (\<lambda>b. execution_item_key b = execution_item_key a) rebuilt of
                                 None \<Rightarrow> False | Some b \<Rightarrow> same_step items rebuilt a b) items
             then None
             else Some (conflict ''Recovery preview execution state changed; create a fresh preview before scheduling.'')))"

definition media_changed :: recovery_exn where
  "media_changed = conflict ''Recovery preview media state changed; create a fresh preview before scheduling.''"

definition revalidate_media_item ::
  "recovery_env \<Rightarrow> acknowledgement list \<Rightarrow> recovery_state \<Rightarrow> recovery_item \<Rightarrow> recovery_exn option" where
  "revalidate_media_item re acks s i =
     (case ri_file i of
        None \<Rightarrow> Some media_changed
      | Some f \<Rightarrow>
          (case (get_file (rs_db s) f, get_journal (rs_db s) f TRANSCODE) of
             (Some mf, Some e) \<Rightarrow>
               if ri_is_root i \<and> ri_parent i = None \<and> ri_work_kind i = WORK_PIPELINE_STAGE \<and>
                  ri_work_id i = WorkRow (sj_id e) \<and> ri_action i = REGENERATE_DERIVATIVES \<and>
                  ri_expected_version i = VersionText (re_media_version re e mf s) \<and>
                  \<not> stage_reserved s f TRANSCODE \<and> py_strip (mf_s3_original_key mf) \<noteq> [] \<and>
                  is_moving_media mf \<and> web_video_is_outdated mf \<and>
                  sj_status e \<notin> {STAGE_PENDING, STAGE_PROCESSING, STAGE_DUPLICATE} \<and>
                  \<not> (sj_status e = STAGE_FAILED \<and> \<not> sj_is_retryable e \<and> TERMINAL_OVERRIDE \<notin> set acks)
               then None else Some media_changed
           | _ \<Rightarrow> Some media_changed))"

definition unpreviewable :: "recovery_job \<Rightarrow> text_value \<Rightarrow> recovery_exn" where
  "unpreviewable j status =
     (if rj_status j = JOB_PREPARING then conflict ''Recovery preview is still being prepared.''
      else conflict (''Recovery batch is '' @ status @ '', not previewable.''))"

fun job_status_value :: "job_status \<Rightarrow> text_value" where
  "job_status_value JOB_PREPARING = ''preparing''"
| "job_status_value JOB_PREVIEW = ''preview''"
| "job_status_value JOB_QUEUED = ''queued''"
| "job_status_value JOB_RUNNING = ''running''"
| "job_status_value JOB_CANCELLING = ''cancelling''"
| "job_status_value JOB_COMPLETED = ''completed''"
| "job_status_value JOB_COMPLETED_WITH_FAILURES = ''completed_with_failures''"
| "job_status_value JOB_CANCELLED = ''cancelled''"
| "job_status_value JOB_EXPIRED = ''expired''"

text \<open>
  The checks of \<open>schedule_batch\<close> before and under the lock: an answer without a change, a refusal, or the job to
  schedule.
\<close>

definition schedulable :: "uuid \<Rightarrow> uuid \<Rightarrow> version \<Rightarrow> recovery_state \<Rightarrow> (recovery_exn + recovery_job) + recovery_job" where
  "schedulable admin u version s =
     (case required_job u s of
        Inl e \<Rightarrow> Inl (Inl e)
      | Inr j \<Rightarrow>
          (case assert_job_assignee j admin of
             Some e \<Rightarrow> Inl (Inl e)
           | None \<Rightarrow>
               if rj_status j \<noteq> JOB_PREVIEW
               then (if rj_status j \<in> {JOB_QUEUED, JOB_RUNNING} then Inl (Inr j)
                     else Inl (Inl (unpreviewable j (job_status_value (rj_status j)))))
               else if job_version j \<noteq> version
               then Inl (Inl (conflict ''Recovery preview changed; reload it before scheduling.''))
               else Inr j))"

definition item_list_order :: "recovery_item list \<Rightarrow> recovery_item list" where
  "item_list_order items = sort_key (\<lambda>i. (ri_created_at i, ri_id i)) items"

definition schedule_locked ::
  "recovery_env \<Rightarrow> uuid \<Rightarrow> recovery_job \<Rightarrow> text_value \<Rightarrow> recovery_state \<Rightarrow> recovery_state \<Rightarrow> recovery_job recovery_run" where
  "schedule_locked re admin j reason s0 s =
     (let items = item_list_order (items_of s (rj_id j)); now = env_now (re_env re);
          acks = selection_acknowledgements (rj_selection j)
      in if (case rj_expires_at j of None \<Rightarrow> False | Some t \<Rightarrow> t \<le> now)
         then (case commit_session (re_env re) s (put_job (re_env re) (j\<lparr>rj_status := JOB_EXPIRED\<rparr>) s) of
                 (Inl e, s') \<Rightarrow> (Inl e, s')
               | (Inr _, s') \<Rightarrow> (Inl (conflict ''Recovery preview expired; create a fresh preview.''), s'))
         else if items = [] then (Inl (conflict ''Recovery preview contains no eligible work.''), s)
         else if \<not> source_objects_unchanged (rj_id j) s0 s
         then (Inl (conflict ''Recovery preview source media changed; create a fresh preview before scheduling.''), s)
         else
           (case (if is_outdated_derivative_preview j items then first_error (revalidate_media_item re acks s) items
                  else revalidate_preview_execution re j items acks s) of
              Some e \<Rightarrow> (Inl e, s)
            | None \<Rightarrow>
                (let reserved = map (\<lambda>i. i\<lparr>ri_reservation_active := True\<rparr>) items;
                     j' = refresh_job_counts reserved (j\<lparr>rj_status := JOB_QUEUED, rj_scheduled_at := Some now\<rparr>)
                 in commit_reservations re ''One or more recovery targets already have an active Replay & Repair job.'' s j'
                      (audited (re_env re) admin (rj_request_id j) ''schedule_recovery_batch'' ''recovery_job''
                         (uuid_text (rj_id j)) reason
                         (put_job (re_env re) j' (fold put_item reserved s))))))"

text \<open>\<open>others\<close> is what other transactions commit between the preflight and the lock.\<close>

definition schedule_batch ::
  "recovery_env \<Rightarrow> uuid \<Rightarrow> uuid \<Rightarrow> version \<Rightarrow> text_value \<Rightarrow> (recovery_state \<Rightarrow> recovery_state) \<Rightarrow> recovery_state \<Rightarrow>
     recovery_job recovery_run" where
  "schedule_batch re admin u version reason others s0 =
     (case schedulable admin u version s0 of
        Inl r \<Rightarrow> (r, s0)
      | Inr _ \<Rightarrow>
          (case preflight_job_source_objects re u s0 of
             Some e \<Rightarrow> (Inl e, s0)
           | None \<Rightarrow>
               (let s = others s0
                in case schedulable admin u version s of
                     Inl r \<Rightarrow> (r, s) | Inr j \<Rightarrow> schedule_locked re admin j reason s0 s)))"

section \<open>Cancellation and handoff\<close>

definition CANCELLABLE_ITEM_STATUSES :: "recovery_item_status list" where
  "CANCELLABLE_ITEM_STATUSES = [ITEM_QUEUED, ITEM_WAITING_DEPENDENCY, ITEM_WAITING_CAPACITY]"

definition cancelled_by_admin :: "time \<Rightarrow> recovery_item \<Rightarrow> recovery_item" where
  "cancelled_by_admin now i =
     (if ri_status i \<in> set CANCELLABLE_ITEM_STATUSES
      then i\<lparr>ri_status := ITEM_CANCELLED, ri_finished_at := Some now, ri_reservation_active := False\<rparr> else i)"

definition cancel_batch ::
  "recovery_env \<Rightarrow> uuid \<Rightarrow> uuid \<Rightarrow> version \<Rightarrow> text_value \<Rightarrow> recovery_state \<Rightarrow> recovery_job recovery_run" where
  "cancel_batch re admin u version reason s =
     (case required_job u s of
        Inl e \<Rightarrow> (Inl e, s)
      | Inr j \<Rightarrow>
     (case assert_job_assignee j admin of
        Some e \<Rightarrow> (Inl e, s)
      | None \<Rightarrow>
          if rj_status j = JOB_CANCELLED then (Inr j, s)
          else if rj_status j \<in> {JOB_COMPLETED, JOB_COMPLETED_WITH_FAILURES, JOB_EXPIRED}
          then (Inl (conflict (''Recovery batch is already '' @ job_status_value (rj_status j) @ ''.'')), s)
          else if job_version j \<noteq> version
          then (Inl (conflict ''Recovery batch changed; reload it before cancelling.''), s)
          else
            (let now = env_now (re_env re);
                 items = map (cancelled_by_admin now) (items_of s u);
                 running = list_ex (\<lambda>i. ri_status i = ITEM_DISPATCHED) items;
                 j1 = j\<lparr>rj_status := (if running then JOB_CANCELLING else JOB_CANCELLED), rj_cancelled_at := Some now,
                        rj_completed_at := (if running then rj_completed_at j else Some now)\<rparr>;
                 j' = refresh_job_counts items j1
             in commit_job re s j'
                  (audited (re_env re) admin (rj_request_id j) ''cancel_recovery_batch'' ''recovery_job'' (uuid_text u) reason
                     (put_job (re_env re) j'
                        (map_db (\<lambda>d. d\<lparr>db_recovery := map (\<lambda>i. if ri_job i = u then cancelled_by_admin now i else i)
                                                        (db_recovery d)\<rparr>) s))))))"

definition handoff_job ::
  "recovery_env \<Rightarrow> uuid \<Rightarrow> uuid \<Rightarrow> uuid \<Rightarrow> version \<Rightarrow> text_value \<Rightarrow> recovery_state \<Rightarrow> recovery_job recovery_run" where
  "handoff_job re admin u assignee version reason s =
     (case required_job u s of
        Inl e \<Rightarrow> (Inl e, s)
      | Inr j \<Rightarrow>
          if job_version j \<noteq> version then (Inl (conflict ''Recovery job changed; reload it before handoff.''), s)
          else if assignee \<notin> set (rs_admins s)
          then (Inl (conflict ''Recovery jobs may only be assigned to an administrator.''), s)
          else
            (let j' = j\<lparr>rj_assigned := Some assignee\<rparr>
             in commit_job re s j'
                  (audited (re_env re) admin (rj_request_id j) ''handoff_recovery_job'' ''recovery_job'' (uuid_text u) reason
                     (put_job (re_env re) j' s))))"

section \<open>Retrying failed items\<close>

definition missing_original :: "recovery_exn \<Rightarrow> bool" where
  "missing_original e = (case e of AdminRecoveryOriginalMissingError t \<Rightarrow> True | _ \<Rightarrow> False)"

definition storage_unavailable :: "recovery_exn \<Rightarrow> bool" where
  "storage_unavailable e = (case e of AdminRecoveryStorageUnavailableError t \<Rightarrow> True | _ \<Rightarrow> False)"

text \<open>A failed item planned again: an exception, why it is excluded, or its items.\<close>

definition retry_item ::
  "recovery_env \<Rightarrow> recovery_job \<Rightarrow> replay_scope \<Rightarrow> nat \<Rightarrow> recovery_item \<Rightarrow> recovery_state \<Rightarrow>
     recovery_exn + (text_value + recovery_item list)" where
  "retry_item re job scope n i s =
     (let excluded = (\<lambda>e. if storage_unavailable e then Inl e
                          else if missing_original e then Inr (Inl ''missing_original'')
                          else if is_recovery_not_found e \<or> is_recovery_conflict e then Inr (Inl ''canonical_state_changed'')
                          else Inl e)
      in case get_candidate re (ri_work_kind i) (ri_work_id i) None True s of
           Inl e \<Rightarrow> excluded e
         | Inr (work, actions) \<Rightarrow>
             (case verify_candidate_source_object re work (ri_action i) s of
                Some e \<Rightarrow> excluded e
              | None \<Rightarrow>
                  (case find (\<lambda>a. ar_capability a = ri_action i) actions of
                     None \<Rightarrow> Inr (Inl ''no_longer_eligible'')
                   | Some a \<Rightarrow>
                       if sr_required (action_requirements_for_scope a scope) \<noteq> [] then Inr (Inl ''acknowledgement_required'')
                       else if \<not> ar_available a then Inr (Inl ''no_longer_eligible'')
                       else
                         (case build_execution_items re
                                 \<lparr>pq_job = job, pq_work = work, pq_scope = scope, pq_limit = rj_retry_limit job,
                                  pq_acknowledged = False, pq_reserve = False, pq_source = Some (ri_id i),
                                  pq_ids = item_ids re n\<rparr> s of
                            Inl e \<Rightarrow> excluded e | Inr items \<Rightarrow> Inr (Inr items)))))"

fun retry_items ::
  "recovery_env \<Rightarrow> recovery_job \<Rightarrow> replay_scope \<Rightarrow> nat \<Rightarrow> recovery_item list \<Rightarrow> recovery_item list \<Rightarrow> text_value list \<Rightarrow>
     recovery_state \<Rightarrow> recovery_exn + (recovery_item list \<times> text_value list)" where
  "retry_items re job scope n [] built excluded s = Inr (built, excluded)"
| "retry_items re job scope n (i # is) built excluded s =
     (case retry_item re job scope n i s of
        Inl e \<Rightarrow> Inl e
      | Inr (Inl reason) \<Rightarrow> retry_items re job scope (n + 1) is built (excluded @ [reason]) s
      | Inr (Inr items) \<Rightarrow>
          if set (map execution_item_key items) \<inter> set (map execution_item_key built) \<noteq> {}
          then retry_items re job scope (n + 1) is built (excluded @ [''overlapping_stage_selection'']) s
          else retry_items re job scope (n + 1) is (built @ items) excluded s)"

definition preview_failed_items ::
  "recovery_env \<Rightarrow> uuid \<Rightarrow> uuid \<Rightarrow> uuid \<Rightarrow> version \<Rightarrow> text_value \<Rightarrow> int option \<Rightarrow> recovery_state \<Rightarrow> recovery_job recovery_run" where
  "preview_failed_items re admin u request version reason limit s =
     (case required_job u s of
        Inl e \<Rightarrow> (Inl e, s)
      | Inr source \<Rightarrow>
          (let failed = item_list_order (filter (\<lambda>i. ri_status i = ITEM_FAILED) (items_of s u));
               scope = job_scope source;
               retry_limit = (case limit of None \<Rightarrow> rj_retry_limit source | Some n \<Rightarrow> n);
               selection = RetrySelection
                 (map (\<lambda>i. (ri_work_kind i, ri_work_id i,
                            case ri_canonical_version i of None \<Rightarrow> VersionText [] | Some v \<Rightarrow> v)) failed) u scope retry_limit
           in if job_version source \<noteq> version
              then (Inl (conflict ''Recovery job changed; reload it before retrying failures.''), s)
              else if failed = [] then (Inl (conflict ''This recovery job has no failed items to retry.''), s)
              else
                (case idempotent_job admin request s of
                   Some j \<Rightarrow> (assert_idempotency_fingerprint (rj_action source) selection reason j, s)
                 | None \<Rightarrow>
                     (let job = (new_job re admin request (rj_action source) scope retry_limit reason selection JOB_PREVIEW)
                            \<lparr>rj_source_job := Some u, rj_expires_at := Some (env_now (re_env re) + PREVIEW_TTL)\<rparr>
                      in case retry_items re job scope 0 failed [] [] s of
                           Inl e \<Rightarrow> (Inl e, s)
                         | Inr (items, excluded) \<Rightarrow>
                             if items = []
                             then (Inl (conflict ''Failed recovery items are no longer eligible for replay.''), s)
                             else
                               (let job' = set_materialized_counts items (length (filter ri_is_root items)) (job\<lparr>rj_exclusions := excluded\<rparr>)
                                in commit_job re s job' (add_items items (s\<lparr>rs_jobs := rs_jobs s @ [job']\<rparr>)))))))"

end
