(* ===== verification/Recovery_Lifecycle.thy ===== *)
theory Recovery_Lifecycle
  imports Recovery_Jobs
begin

text \<open>
  The life of a recovery item as an abstract machine (\<open>status_step\<close>), and the refinement: whatever the runtime and
  the administrators do, every item keeps what it was planned for and moves by steps of the machine.
\<close>

section \<open>Tables whose rows evolve\<close>

text \<open>Rows that keep their key under an evolution; tables are compared row by row.\<close>

locale evolving_rows =
  fixes key :: "'r \<Rightarrow> 'k" and evolve :: "'r \<Rightarrow> 'r \<Rightarrow> bool"
  assumes evolve_refl: "evolve r r"
    and evolve_trans: "evolve a b \<Longrightarrow> evolve b c \<Longrightarrow> evolve a c"
    and evolve_key: "evolve a b \<Longrightarrow> key b = key a"
begin

lemma table_refl: "list_all2 evolve rows rows"
  by (rule list_all2_refl) (rule evolve_refl)

lemma table_trans: "list_all2 evolve a b \<Longrightarrow> list_all2 evolve b c \<Longrightarrow> list_all2 evolve a c"
  by (rule list_all2_trans [of evolve evolve evolve]) (blast intro: evolve_trans)+

lemma table_keys: "list_all2 evolve a b \<Longrightarrow> map key b = map key a"
  by (induction rule: list_all2_induct) (simp_all add: evolve_key)

lemma table_put:
  "distinct (map key rows) \<Longrightarrow> r \<in> set rows \<Longrightarrow> evolve r r' \<Longrightarrow> list_all2 evolve rows (row_put key r' rows)"
proof (induction rows)
  case (Cons x xs)
  show ?case
  proof (cases "x = r")
    case True
    with Cons.prems show ?thesis by (simp add: evolve_key table_refl)
  next
    case False
    then have "r \<in> set xs" "key x \<noteq> key r'" using Cons.prems evolve_key [OF Cons.prems(3)] by auto
    with Cons show ?thesis by (simp add: evolve_refl)
  qed
qed simp

lemma table_map: "(\<And>r. r \<in> set rows \<Longrightarrow> evolve r (g r)) \<Longrightarrow> list_all2 evolve rows (map g rows)"
  by (induction rows) simp_all

lemma table_get:
  "list_all2 evolve a b \<Longrightarrow> row_get key k a = Some r \<Longrightarrow> \<exists>r'. row_get key k b = Some r' \<and> evolve r r'"
  by (induction rule: list_all2_induct) (auto simp: evolve_key split: if_splits)

lemma table_set: "list_all2 evolve a b \<Longrightarrow> r' \<in> set b \<Longrightarrow> \<exists>r\<in>set a. evolve r r'"
  by (induction rule: list_all2_induct) auto

lemma row_put_member: "distinct (map key rows) \<Longrightarrow> key x \<noteq> key r \<Longrightarrow> x \<in> set rows \<Longrightarrow> x \<in> set (row_put key r rows)"
  by (simp add: row_put_set)

lemma table_fold_put:
  "distinct (map key rows) \<Longrightarrow> distinct (map key rs) \<Longrightarrow> set rs \<subseteq> set rows \<Longrightarrow>
     (\<And>r. r \<in> set rs \<Longrightarrow> evolve r (g r)) \<Longrightarrow> list_all2 evolve rows (fold (\<lambda>r. row_put key (g r)) rs rows)"
proof (induction rs arbitrary: rows)
  case Nil
  show ?case by (simp add: table_refl)
next
  case (Cons r rs)
  let ?rows = "row_put key (g r) rows"
  have step: "list_all2 evolve rows ?rows" using Cons.prems by (intro table_put) auto
  have "key (g r) = key r" using Cons.prems(4) evolve_key by simp
  then have "set rs \<subseteq> set ?rows" using Cons.prems by (auto simp: image_iff intro!: row_put_member)
  then have "list_all2 evolve ?rows (fold (\<lambda>r. row_put key (g r)) rs ?rows)"
    using Cons.prems row_put_distinct by (intro Cons.IH) auto
  with step show ?case by (simp add: table_trans)
qed

end

section \<open>The abstract machine\<close>

text \<open>
  An item waits (queued, for its prerequisite or for capacity), is dispatched, and closes once. A failed
  dispatch queues it again; a prerequisite that failed skips an item that waits for it; only an item that is
  not dispatched can be cancelled.
\<close>

definition waiting_status :: "recovery_item_status \<Rightarrow> bool" where
  "waiting_status st \<longleftrightarrow> st \<in> {ITEM_QUEUED, ITEM_WAITING_DEPENDENCY, ITEM_WAITING_CAPACITY}"

inductive status_step :: "recovery_item_status \<Rightarrow> recovery_item_status \<Rightarrow> bool" where
  step_dispatch: "waiting_status st \<or> st = ITEM_DISPATCHED \<Longrightarrow> status_step st ITEM_DISPATCHED"
| step_hold: "waiting_status st \<or> st = ITEM_DISPATCHED \<Longrightarrow> status_step st ITEM_WAITING_CAPACITY"
| step_requeue: "waiting_status st \<or> st = ITEM_DISPATCHED \<Longrightarrow> status_step st ITEM_QUEUED"
| step_close: "waiting_status st \<or> st = ITEM_DISPATCHED \<Longrightarrow> st' \<in> {ITEM_SUCCEEDED, ITEM_FAILED, ITEM_SKIPPED_STALE} \<Longrightarrow>
    status_step st st'"
| step_skip: "status_step ITEM_WAITING_DEPENDENCY ITEM_SKIPPED_DEPENDENCY"
| step_cancel: "waiting_status st \<Longrightarrow> status_step st ITEM_CANCELLED"

text \<open>What an item was planned for; nothing changes it.\<close>

definition item_frame where
  "item_frame i = (ri_id i, ri_job i, ri_parent i, ri_file i, ri_stage i, ri_action i, ri_retry_limit i, ri_is_root i,
     ri_source_item i, ri_preserve_ready i, ri_suppress_fanout i, ri_terminal_override i)"

definition evolves :: "recovery_item \<Rightarrow> recovery_item \<Rightarrow> bool" where
  "evolves i i' \<longleftrightarrow> item_frame i' = item_frame i \<and> ri_failures_consumed i \<le> ri_failures_consumed i' \<and>
     status_step\<^sup>*\<^sup>* (ri_status i) (ri_status i')"

interpretation item_table: evolving_rows ri_id evolves
proof
  fix a b c :: recovery_item
  show "evolves a a" by (simp add: evolves_def)
  show "evolves a b \<Longrightarrow> evolves b c \<Longrightarrow> evolves a c" unfolding evolves_def by (auto intro: order_trans rtranclp_trans)
  show "evolves a b \<Longrightarrow> ri_id b = ri_id a" by (simp add: evolves_def item_frame_def)
qed

abbreviation open_item :: "recovery_item \<Rightarrow> bool" where
  "open_item i \<equiv> waiting_status (ri_status i) \<or> ri_status i = ITEM_DISPATCHED"

lemma closed_is_final:
  assumes "status_step\<^sup>*\<^sup>* st st'" "st \<in> set TERMINAL_ITEM_STATUSES"
  shows "st' = st"
  using assms
proof (induction rule: rtranclp_induct)
  case (step y z)
  then show ?case by (auto elim!: status_step.cases simp: TERMINAL_ITEM_STATUSES_def waiting_status_def)
qed simp

lemma open_item_iff: "open_item i \<longleftrightarrow> \<not> item_terminal i"
  by (cases "ri_status i") (simp_all add: item_terminal_def TERMINAL_ITEM_STATUSES_def waiting_status_def)

lemma never_waits_again:
  assumes "status_step\<^sup>*\<^sup>* st st'" "st' = ITEM_WAITING_DEPENDENCY"
  shows "st = ITEM_WAITING_DEPENDENCY"
  using assms by (induction rule: rtranclp_induct) (auto elim: status_step.cases)

text \<open>The updates of an item the operations make.\<close>

named_theorems evolve_intros \<open>updates of an item that evolve it\<close>

lemma evolvesI:
  "item_frame i' = item_frame i \<Longrightarrow> ri_failures_consumed i \<le> ri_failures_consumed i' \<Longrightarrow>
     ri_status i' = ri_status i \<or> status_step (ri_status i) (ri_status i') \<Longrightarrow> evolves i i'"
  by (auto simp: evolves_def)

lemma evolves_attached [evolve_intros]: "open_item i \<Longrightarrow> evolves i (attached_item env ev n i)"
  by (rule evolvesI) (auto simp: attached_item_def item_frame_def intro: status_step.intros)

lemma evolves_finish [evolve_intros]:
  "open_item i \<Longrightarrow> st \<in> {ITEM_SUCCEEDED, ITEM_FAILED, ITEM_SKIPPED_STALE} \<Longrightarrow> evolves i (finish_item re st reason error i)"
  by (rule evolvesI) (auto simp: finish_item_def item_frame_def intro: status_step.intros)

lemma evolves_set_queued [evolve_intros]: "open_item i \<Longrightarrow> evolves i (set_queued re v reason error i)"
  by (rule evolvesI) (auto simp: set_queued_def item_frame_def intro: status_step.intros)

lemma evolves_waiting [evolve_intros]: "open_item i \<Longrightarrow> evolves i (waiting_item reason error i)"
  by (rule evolvesI) (auto simp: waiting_item_def item_frame_def intro: status_step.intros)

lemma evolves_dispatched [evolve_intros]: "open_item i \<Longrightarrow> evolves i (dispatched_item re i)"
  by (rule evolvesI) (auto simp: dispatched_item_def item_frame_def intro: status_step.intros)

lemma evolves_charged [evolve_intros]: "evolves i (charged_item b i)"
  by (rule evolvesI) (auto simp: charged_item_def item_frame_def)

lemma evolves_cancelled [evolve_intros]: "evolves i (cancelled_by_admin now i)"
  by (rule evolvesI) (auto simp: cancelled_by_admin_def item_frame_def CANCELLABLE_ITEM_STATUSES_def waiting_status_def
      intro: step_cancel)

lemma evolves_observe [evolve_intros]: "evolves i (observe_recovery_stage_publication_outcome i m)"
  by (rule evolvesI)
    (auto simp: observe_recovery_stage_publication_outcome_def Let_def item_frame_def split: outbox_status.splits)

lemma evolves_observe_budget [evolve_intros]: "evolves i (observe_outbox_retry_budget m i)"
  by (cases "ri_stage i = None")
    (auto simp: observe_outbox_retry_budget_def evolves_observe Let_def item_frame_def intro!: evolvesI
      split: outbox_status.splits if_splits prod.splits option.splits)

section \<open>The outbox and replays\<close>

abbreviation db_evolves :: "db \<Rightarrow> db \<Rightarrow> bool" where
  "db_evolves d d' \<equiv> list_all2 evolves (db_recovery d) (db_recovery d')"

abbreviation state_evolves :: "recovery_state \<Rightarrow> recovery_state \<Rightarrow> bool" where
  "state_evolves s s' \<equiv> db_evolves (rs_db s) (rs_db s')"

lemma evolved_wf: "recovery_wf d \<Longrightarrow> db_evolves d d' \<Longrightarrow> recovery_wf d'"
  unfolding recovery_wf_def using item_table.table_keys by metis

lemma put_recovery_evolves: "recovery_wf d \<Longrightarrow> i \<in> set (db_recovery d) \<Longrightarrow> evolves i i' \<Longrightarrow> db_evolves d (put_recovery i' d)"
  by (simp add: put_recovery_def recovery_wf_def item_table.table_put)

lemma observe_evolves: "recovery_wf d \<Longrightarrow> db_evolves d (observe_recovery_stage_publication m d)"
  by (auto simp: observe_recovery_stage_publication_def newest_recovery_item_def item_table.table_refl
      intro!: put_recovery_evolves evolve_intros dest!: max_by_mem split: option.splits)

lemma marks_evolve:
  "recovery_wf d \<Longrightarrow> db_evolves d (snd (mark_published env m d))"
  "recovery_wf d \<Longrightarrow> db_evolves d (snd (mark_failed env e m d))"
  using observe_evolves [of "put_outbox (published_message env m) d"] observe_evolves [of "put_outbox (failed_message env e m) d"]
  by (auto simp: mark_published_def mark_failed_def Let_def item_table.table_refl recovery_wf_def)

lemma publish_claimed_evolves: "recovery_wf d \<Longrightarrow> db_evolves d (snd (publish_claimed env ms p f d))"
proof (induction ms arbitrary: p f d)
  case Nil
  show ?case by (simp add: item_table.table_refl)
next
  case (Cons m ms)
  show ?case
  proof (cases "env_broker env m")
    case None
    obtain r d1 where m: "mark_published env m d = (r, d1)" by (cases "mark_published env m d")
    have s: "db_evolves d d1" using marks_evolve(1) [OF Cons.prems, of env m] m by simp
    from item_table.table_trans [OF s Cons.IH [OF evolved_wf [OF Cons.prems s], of "p + 1" f]] None m s show ?thesis
      by (cases r) simp_all
  next
    case (Some e)
    obtain r d1 where m: "mark_failed env e m d = (r, d1)" by (cases "mark_failed env e m d")
    have s: "db_evolves d d1" using marks_evolve(2) [OF Cons.prems, of env e m] m by simp
    from item_table.table_trans [OF s Cons.IH [OF evolved_wf [OF Cons.prems s], of p "f + 1"]] Some m s show ?thesis
      by (cases r) simp_all
  qed
qed

lemma relay_evolves: "recovery_wf d \<Longrightarrow> db_evolves d (snd (relay_best_effort env ids d))"
proof -
  assume wf: "recovery_wf d"
  have ids: "db_evolves d (snd (publish_ids env us d))" for us
  proof -
    obtain r d1 where c: "claim_specific env (dedup us) d = (r, d1)" by (cases "claim_specific env (dedup us) d")
    have "db_recovery (snd (claim_specific env (dedup us) d)) = db_recovery d" by (simp add: claim_specific_def)
    with c have same: "db_recovery d1 = db_recovery d" by simp
    then have wf1: "recovery_wf d1" using wf by (simp add: recovery_wf_def)
    have "snd (publish_claimed_batch env ms d1) = snd (publish_claimed env ms 0 0 d1)" for ms
      by (simp add: publish_claimed_batch_def split: prod.splits sum.splits)
    then show ?thesis
      using publish_claimed_evolves [OF wf1] same c
      by (cases r) (simp_all add: publish_ids_def Let_def item_table.table_refl)
  qed
  obtain r d1 where p: "publish_ids env (dedup ids) d = (r, d1)" by (cases "publish_ids env (dedup ids) d")
  with ids [of "dedup ids"] show ?thesis by (cases r) (simp_all add: relay_best_effort_def Let_def item_table.table_refl)
qed

text \<open>A replay changes the item it is given, which is in the table and open, and through the relay.\<close>

definition attachable :: "recovery_item option \<Rightarrow> db \<Rightarrow> bool" where
  "attachable item d \<longleftrightarrow> (case item of None \<Rightarrow> True | Some i \<Rightarrow> i \<in> set (db_recovery d) \<and> open_item i)"

lemma attach_evolves: "recovery_wf d \<Longrightarrow> attachable item d \<Longrightarrow> db_evolves d (attach_recovery_item env item ev n d)"
  by (auto simp: attach_recovery_item_def attachable_def item_table.table_refl intro!: put_recovery_evolves evolve_intros
      split: option.splits)

lemma reuse_evolves:
  "recovery_wf d \<Longrightarrow> attachable item d \<Longrightarrow> reuse_reservation env mf e item d = (r, d') \<Longrightarrow> db_evolves d d'"
  using attach_evolves [of d item env]
  by (auto simp: reuse_reservation_def Let_def commit_recovery_attachment_def item_table.table_refl
      split: option.splits if_splits)

lemma commit_replay_evolves:
  assumes "commit_replay env msg mf event d d2 = (r, d')" "recovery_wf d" "db_evolves d d2"
  shows "db_evolves d d'"
proof (cases r)
  case (Inl e)
  with assms(1) commit_replay_Inl show ?thesis by (metis item_table.table_refl)
next
  case (Inr acc)
  from commit_replay_Inr [OF assms(1) [unfolded Inr]] obtain m where
    d': "d' = snd (relay_best_effort env [ev_id event] (d2\<lparr>db_outbox := db_outbox d2 @ [m]\<rparr>))" by blast
  have "recovery_wf (d2\<lparr>db_outbox := db_outbox d2 @ [m]\<rparr>)" using evolved_wf [OF assms(2,3)] by (simp add: recovery_wf_def)
  from relay_evolves [OF this, of env "[ev_id event]"] assms(3) d' show ?thesis by (simp add: item_table.table_trans)
qed

lemma put_journal_recovery: "db_recovery (put_journal env e d) = db_recovery d"
  by (simp add: put_journal_def)

lemma pending_snapshot_recovery: "db_recovery (pending_sync_snapshot env f t ev d) = db_recovery d"
  by (simp add: pending_sync_snapshot_def)

lemma journalled: "recovery_wf (put_journal env e d) = recovery_wf d" "attachable item (put_journal env e d) = attachable item d"
  by (simp_all add: recovery_wf_def attachable_def put_journal_recovery cong: option.case_cong)

lemma replay_item_evolves:
  assumes "replay_item env f st item d = (r, d')" "recovery_wf d" "attachable item d"
  shows "db_evolves d d'"
proof -
  have att: "db_evolves d (attach_recovery_item env item ev n (put_journal env e d))" for ev n e
    using attach_evolves [of "put_journal env e d" item env ev n] assms by (simp add: journalled put_journal_recovery)
  show ?thesis
    using assms(1) reuse_evolves [OF assms(2,3)] commit_replay_evolves [OF _ assms(2) att]
    by (auto simp: replay_item_def item_table.table_refl split: sum.splits if_splits)
qed

lemma replay_sync_evolves:
  assumes "replay_sync_target env f t item d = (r, d')" "recovery_wf d" "attachable item d"
  shows "db_evolves d d'"
proof -
  have att: "db_evolves d (pending_sync_snapshot env f t ev (attach_recovery_item env item ev n (put_journal env e d)))" for ev n e
    using attach_evolves [of "put_journal env e d" item env ev n] assms
    by (simp add: journalled put_journal_recovery pending_snapshot_recovery)
  show ?thesis
    using assms(1) reuse_evolves [OF assms(2,3)] commit_replay_evolves [OF _ assms(2) att]
    by (auto simp: replay_sync_target_def replay_single_sync_target_def item_table.table_refl split: sum.splits if_splits option.splits)
qed

lemma evolves_claim_work_id [evolve_intros]: "evolves i (claim_work_id f row i)"
  by (auto simp: claim_work_id_def item_frame_def intro!: evolvesI split: work_id.splits)

lemma open_claim_work_id: "open_item (claim_work_id f row i) = open_item i"
  by (auto simp: claim_work_id_def split: work_id.splits)

lemma replay_admin_evolves:
  assumes "replay_admin_stage env f st i d = (r, d')" "recovery_wf d" "i \<in> set (db_recovery d)" "open_item i"
  shows "db_evolves d d'"
proof -
  let ?i = "admin_item env f st i d"
  have i: "evolves i ?i" "open_item ?i"
    using assms(4) by (auto simp: admin_item_def item_table.evolve_refl evolves_claim_work_id open_claim_work_id split: option.splits)
  have put: "list_all2 evolves (db_recovery d) (row_put ri_id i' (db_recovery d))" if "evolves ?i i'" for i'
    using put_recovery_evolves [OF assms(2,3) item_table.evolve_trans [OF i(1) that]] by (simp add: put_recovery_def)
  have "evolves ?i ((attached_item env ev n (?i\<lparr>ri_previous_stage_state := p\<rparr>))\<lparr>ri_canonical_version := v\<rparr>)" for ev n p v
    using i(2) by (intro evolvesI) (auto simp: attached_item_def item_frame_def intro: status_step.intros)
  from put [OF this] have "db_evolves d (admin_stored env f st i d event)" for event
    by (simp add: admin_stored_def Let_def pending_snapshot_recovery put_recovery_def put_journal_recovery)
  note committed = commit_replay_evolves [OF _ assms(2) this]
  have reused: "reuse_reservation env mf e (Some ?i) d = (r, d') \<Longrightarrow> db_evolves d d'" for mf e
    using put [OF evolves_attached [OF i(2)]]
    by (auto simp: reuse_reservation_def Let_def commit_recovery_attachment_def attach_recovery_item_def put_recovery_def
        item_table.table_refl split: option.splits if_splits)
  show ?thesis
  proof (cases "snd (replay_admin_stage env f st i d) = d")
    case True
    with assms(1) show ?thesis by (simp add: item_table.table_refl)
  next
    case False
    then have st: "st \<noteq> INGEST" by (cases "st = INGEST") (simp_all add: replay_admin_unfold)
    obtain mf where mf: "get_meme_file d f = Inr mf" "mf_s3_original_key mf \<noteq> []"
      using False st by (cases "get_meme_file d f") (simp_all add: replay_admin_unfold split: if_splits)
    show ?thesis
    proof (cases "is_replay_reserved (admin_entry env f st d)")
      case True
      then have "reuse_reservation env mf (admin_entry env f st d) (Some ?i) d = (r, d')"
        using assms(1) st mf by (simp add: replay_admin_unfold)
      then show ?thesis by (rule reused)
    next
      case fresh: False
      obtain event where "replay_event env 0 mf (admin_entry env f st d) = Inr event"
        using False st mf fresh
        by (cases "replay_event env 0 mf (admin_entry env f st d)") (simp_all add: replay_admin_unfold split: if_splits)
      then have "commit_replay env ''Failed to persist admin replay reservation state.'' mf event d
          (admin_stored env f st i d event) = (r, d')"
        using assms(1) False st mf fresh by (simp add: replay_admin_unfold split: if_splits)
      then show ?thesis by (rule committed)
    qed
  qed
qed

section \<open>Claiming and validating\<close>

lemma claimed_item:
  assumes "claim_next_item re telegram excluded s = Some (i, s1)"
  shows "i \<in> set (db_recovery (rs_db s))" "open_item i" "rs_db s1 = rs_db s" "claimable re telegram excluded s i"
proof -
  let ?items = "item_order (filter (claimable re telegram excluded s) (db_recovery (rs_db s)))"
  obtain j where j: "find (\<lambda>i. \<not> re_job_locked re (ri_job i)) ?items = Some j"
    using assms unfolding claim_next_item_def Let_def by (simp split: option.splits)
  have found: "find (\<lambda>i. ri_job i = ri_job j \<and> \<not> re_item_locked re (ri_id i)) ?items = Some i"
    using assms j unfolding claim_next_item_def Let_def by (simp split: option.splits)
  have s1: "s1 = (case get_job s (ri_job i) of
        None \<Rightarrow> s | Some j \<Rightarrow> if rj_status j = JOB_QUEUED then put_job (re_env re) (j\<lparr>rj_status := JOB_RUNNING\<rparr>) s else s)"
    using assms j found unfolding claim_next_item_def Let_def by simp
  have "i \<in> set ?items" using found by (auto dest: find_SomeD)
  then show i: "i \<in> set (db_recovery (rs_db s))" "claimable re telegram excluded s i" by (simp_all add: item_order_def)
  then show "open_item i" by (auto simp: claimable_def item_eligible_def waiting_status_def)
  show "rs_db s1 = rs_db s" unfolding s1 by (simp add: put_job_def split: option.splits)
qed

lemma project_keeps:
  assumes "project_claimed_item re i s = (r, i1, s1)"
  shows "evolves i i1" "ri_status i1 = ri_status i" "db_recovery (rs_db s1) = db_recovery (rs_db s)"
proof -
  have ensure: "evolves i j \<and> ri_status j = ri_status i \<and> db_recovery (rs_db s') = db_recovery (rs_db s)"
    if "ensure_planned_stage_row re i s = (x, j, s')" for x j s'
    using that
    by (auto simp: ensure_planned_stage_row_def Let_def item_table.evolve_refl map_db_def put_journal_recovery item_frame_def
        intro!: evolvesI split: option.splits if_splits)
  have "evolves i i1 \<and> ri_status i1 = ri_status i \<and> db_recovery (rs_db s1) = db_recovery (rs_db s)"
    using assms ensure
    by (fastforce simp: project_claimed_item_def item_table.evolve_refl split: sum.splits prod.splits option.splits if_splits)
  then show "evolves i i1" "ri_status i1 = ri_status i" "db_recovery (rs_db s1) = db_recovery (rs_db s)" by auto
qed

lemma validate_keeps:
  assumes "validate_claimed_item re i s = (r, i1, s1)"
  shows "evolves i i1" "ri_status i1 = ri_status i" "db_recovery (rs_db s1) = db_recovery (rs_db s)"
proof -
  obtain p j s' where pr: "project_claimed_item re i s = (p, j, s')" by (cases "project_claimed_item re i s")
  note k = project_keeps [OF pr]
  have upd: "evolves j (j\<lparr>ri_expected_version := v\<rparr>)" "evolves j (j\<lparr>ri_canonical_version := x\<rparr>)"
    "evolves j (j\<lparr>ri_expected_version := v, ri_canonical_version := x\<rparr>)" for v x
    by (auto simp: item_frame_def intro!: evolvesI)
  have "(i1, s1) = (i, s) \<or> s1 = s' \<and> evolves j i1 \<and> ri_status i1 = ri_status j"
    using assms pr unfolding validate_claimed_item_def
    by (auto simp: Let_def item_table.evolve_refl upd split: option.splits sum.splits if_splits)
  then have "evolves i i1 \<and> ri_status i1 = ri_status i \<and> db_recovery (rs_db s1) = db_recovery (rs_db s)"
    using k item_table.evolve_trans [OF k(1)] by (auto simp: item_table.evolve_refl)
  then show "evolves i i1" "ri_status i1 = ri_status i" "db_recovery (rs_db s1) = db_recovery (rs_db s)" by auto
qed

section \<open>Actions\<close>

abbreviation items_wf :: "recovery_state \<Rightarrow> bool" where
  "items_wf s \<equiv> recovery_wf (rs_db s)"

abbreviation has_item :: "recovery_state \<Rightarrow> recovery_item \<Rightarrow> bool" where
  "has_item s i \<equiv> i \<in> set (db_recovery (rs_db s))"

lemma put_item_evolves: "items_wf s \<Longrightarrow> has_item s i \<Longrightarrow> evolves i i' \<Longrightarrow> state_evolves s (put_item i' s)"
  by (simp add: put_item_def map_db_def put_recovery_evolves)

lemma put_item_has: "items_wf s \<Longrightarrow> has_item s i \<Longrightarrow> ri_id i' = ri_id i \<Longrightarrow> has_item (put_item i' s) i'"
  by (simp add: put_item_def map_db_def put_recovery_def row_put_set recovery_wf_def)

lemma state_wf: "items_wf s \<Longrightarrow> state_evolves s s' \<Longrightarrow> items_wf s'"
  by (rule evolved_wf)

lemma replay_call_evolves:
  "replay_call re s x = (r, s') \<Longrightarrow> db_evolves (rs_db s) (snd x) \<Longrightarrow> state_evolves s s'"
  by (auto simp: replay_call_def item_table.table_refl split: sum.splits prod.splits)

lemmas replay_results_evolve =
  replay_item_evolves [OF prod.collapse [symmetric]] replay_sync_evolves [OF prod.collapse [symmetric]]
  replay_admin_evolves [OF prod.collapse [symmetric]]

lemma retry_stage_evolves:
  "retry_stage re w i s = (r, s') \<Longrightarrow> items_wf s \<Longrightarrow> has_item s i \<Longrightarrow> open_item i \<Longrightarrow> state_evolves s s'"
  by (cases "loaded ''PipelineStageJournal'' (Option.bind (work_uuid w) (\<lambda>u. journal_by_id u s))")
    (simp_all add: retry_stage_def item_table.table_refl, erule replay_call_evolves, rule replay_results_evolve,
      simp_all add: attachable_def)

lemma replay_stage_evolves:
  "replay_stage_action re i s = (r, s') \<Longrightarrow> items_wf s \<Longrightarrow> has_item s i \<Longrightarrow> open_item i \<Longrightarrow> state_evolves s s'"
  by (cases "ri_file i"; cases "ri_stage i")
    (simp_all add: replay_stage_action_def item_table.table_refl, erule replay_call_evolves, rule replay_results_evolve, simp_all)

lemma resync_evolves:
  "resync_target re w i s = (r, s') \<Longrightarrow> items_wf s \<Longrightarrow> has_item s i \<Longrightarrow> open_item i \<Longrightarrow> state_evolves s s'"
  by (cases "loaded ''MemeFileSyncTargetSnapshot'' (Option.bind (work_uuid w) (\<lambda>u. snapshot_by_id u s))")
    (simp_all add: resync_target_def item_table.table_refl split: prod.splits, erule replay_call_evolves,
      rule replay_results_evolve, simp_all add: attachable_def)

lemma commit_session_evolves:
  "commit_session env s0 s = (r, s') \<Longrightarrow> state_evolves s0 s \<Longrightarrow> state_evolves s0 s'"
  by (auto simp: commit_session_def item_table.table_refl split: if_splits)

text \<open>Other tables do not matter.\<close>

lemma tables_recovery [simp]:
  "rs_db (put_request env q s) = rs_db s" "rs_db (put_job env j s) = rs_db s"
  "rs_db (put_dead_letter env l s) = rs_db s" "rs_db (put_backfill env b s) = rs_db s"
  "rs_db (reconcile_jobs env ids s) = rs_db s" "rs_db (resolve_linked_dead_letter env u ok s) = rs_db s"
  by (simp_all add: put_request_def put_job_def put_dead_letter_def put_backfill_def reconcile_jobs_def
      resolve_linked_dead_letter_def)

lemma evolves_marked [evolve_intros]: "evolves i i' \<Longrightarrow> evolves i (mark_non_stage_budget_dispatch i')"
  by (erule item_table.evolve_trans) (auto simp: mark_non_stage_budget_dispatch_def item_frame_def intro!: evolvesI)

lemma open_marked: "ri_status (mark_non_stage_budget_dispatch i) = ri_status i"
  by (simp add: mark_non_stage_budget_dispatch_def)

lemma evolves_redispatched:
  assumes "open_item i"
  shows "evolves i (dispatched_item re (mark_non_stage_budget_dispatch (i\<lparr>ri_attempt_budget_start := n\<rparr>)))"
    "evolves i (dispatched_item re (mark_non_stage_budget_dispatch i))"
    "evolves i ((dispatched_item re (mark_non_stage_budget_dispatch (i\<lparr>ri_attempt_budget_start := n\<rparr>)))\<lparr>ri_dispatch_event_id := ev\<rparr>)"
    "evolves i ((dispatched_item re (mark_non_stage_budget_dispatch (i\<lparr>ri_attempt_budget_start := n\<rparr>)))
       \<lparr>ri_dispatch_event_id := ev, ri_finished_at := t\<rparr>)"
    "evolves i ((dispatched_item re (mark_non_stage_budget_dispatch i))\<lparr>ri_dispatch_event_id := ev, ri_finished_at := t\<rparr>)"
  using assms
  by (auto simp: dispatched_item_def mark_non_stage_budget_dispatch_def item_frame_def intro!: evolvesI step_dispatch)

lemma reinspect_evolves:
  assumes "reinspect_ingest re w i s = (r, s')" "items_wf s" "has_item s i" "open_item i"
  shows "state_evolves s s'"
proof -
  have msg: "db_recovery (rs_db s1) = db_recovery (rs_db s)"
    if "add_inspect_message re q (put_request (re_env re) q' s) = Inr s1" for q q' s1
    using that by (auto simp: add_inspect_message_def map_db_def split: sum.splits)
  have put: "state_evolves s (put_item i' s1)" if "db_recovery (rs_db s1) = db_recovery (rs_db s)" "evolves i i'" for i' s1
    using put_item_evolves [of s1 i i'] assms that by (simp add: recovery_wf_def)
  show ?thesis
    using assms(1) unfolding reinspect_ingest_def
    by (simp add: item_table.table_refl split: sum.splits)
      (erule commit_session_evolves, rule put, erule msg, rule evolves_redispatched, rule assms)
qed

lemma rebuild_evolves:
  assumes "rebuild_outbox re w i s = (r, s')" "items_wf s" "has_item s i" "open_item i"
  shows "state_evolves s s'"
proof -
  have put: "state_evolves s (put_item i' (map_db (put_outbox m) s))" if "evolves i i'" for i' m
    using put_item_evolves [of "map_db (put_outbox m) s" i i'] assms that by (simp add: recovery_wf_def map_db_def)
  show ?thesis
    using assms(1) unfolding rebuild_outbox_def Let_def
    by (simp add: item_table.table_refl split: sum.splits)
      (erule commit_session_evolves, rule put, simp add: evolves_redispatched [OF assms(4)])
qed

lemma archive_evolves:
  assumes "archive_dead_letter re i s = (r, s')" "items_wf s" "has_item s i" "open_item i"
  shows "state_evolves s s'"
proof -
  have "state_evolves s (put_item (finish_item re ITEM_SUCCEEDED None None i) (put_dead_letter env l s))" for env l
    using put_item_evolves [of "put_dead_letter env l s" i] evolves_finish [OF assms(4)] assms by simp
  then show ?thesis
    using assms(1) unfolding archive_dead_letter_def
    by (simp add: item_table.table_refl split: sum.splits) (erule commit_session_evolves, assumption)
qed

text \<open>A dead letter is queued under the item before the item's row is replayed.\<close>

lemma recover_evolves:
  assumes "recover_dead_letter re i work s = (r, s')" "items_wf s" "has_item s i" "open_item i"
  shows "state_evolves s s'"
proof (cases "load_linked_dead_letter i work s")
  case (Inl e)
  with assms(1) show ?thesis by (simp add: recover_dead_letter_def item_table.table_refl)
next
  case (Inr l)
  let ?s = "put_dead_letter (re_env re) (queued_dead_letter i l) s"
  have wf: "items_wf ?s" "has_item ?s i" using assms by simp_all
  have step: "state_evolves ?s s' \<Longrightarrow> state_evolves s s'" by simp
  note acts = replay_stage_evolves [OF _ wf assms(4)] retry_stage_evolves [OF _ wf assms(4)]
    resync_evolves [OF _ wf assms(4)] reinspect_evolves [OF _ wf assms(4)] rebuild_evolves [OF _ wf assms(4)]
  show ?thesis
  proof (cases "ri_work_kind i = WORK_DEAD_LETTER")
    case True
    show ?thesis
    proof (cases "dl_work l")
      case None
      with assms(1) Inr True show ?thesis by (simp add: recover_dead_letter_def Let_def item_table.table_refl)
    next
      case (Some w)
      obtain kind u where w: "w = (kind, u)" by (cases w)
      show ?thesis
        using assms(1) Inr True Some w acts [THEN step]
        by (cases kind) (simp_all add: recover_dead_letter_def Let_def item_table.table_refl)
    qed
  next
    case False
    then show ?thesis
      using assms(1) Inr acts [THEN step]
      by (cases "ri_work_kind i") (simp_all add: recover_dead_letter_def Let_def item_table.table_refl)
  qed
qed

lemma general_action_evolves:
  assumes "execute_general_action re i work s = (r, s')" "items_wf s" "has_item s i" "open_item i"
  shows "state_evolves s s'"
  using assms(1) replay_stage_evolves [OF _ assms(2-4)] retry_stage_evolves [OF _ assms(2-4)]
    resync_evolves [OF _ assms(2-4)] reinspect_evolves [OF _ assms(2-4)] rebuild_evolves [OF _ assms(2-4)]
    archive_evolves [OF _ assms(2-4)] recover_evolves [OF _ assms(2-4)]
  by (cases "ri_action i") (simp_all add: execute_general_action_def item_table.table_refl)

lemma queue_backfill_evolves:
  assumes "queue_backfill re i s = (r, s')" "items_wf s" "has_item s i" "open_item i"
  shows "state_evolves s s'"
proof -
  have put: "state_evolves s (put_item i' (put_backfill env b s))" if "evolves i i'" for i' env b
    using put_item_evolves [of "put_backfill env b s" i i'] assms that by simp
  show ?thesis
    using assms(1) unfolding queue_backfill_def Let_def
    by (simp add: item_table.table_refl split: sum.splits)
      (erule commit_session_evolves, rule put, simp add: evolves_redispatched [OF assms(4)])
qed

text \<open>What the code relies on: the Telegram manager's replay of a post leaves the recovery items alone.\<close>

definition crawler_keeps_items :: "recovery_env \<Rightarrow> bool" where
  "crawler_keeps_items re \<longleftrightarrow>
     (\<forall>channel post s. db_recovery (rs_db (snd (re_replay_post re channel post s))) = db_recovery (rs_db s))"

lemma complete_evolves:
  assumes "complete_source_post re i s = (r, s')" "items_wf s"
  shows "state_evolves s s'"
proof -
  have put: "state_evolves s (put_item (finish_item re' ITEM_SUCCEEDED None None i') s)"
    if "get_recovery (rs_db s) (ri_id i) = Some i'" "ri_status i' = ITEM_DISPATCHED" for re' i'
    by (rule put_item_evolves [OF assms(2), of i'])
      (use that in \<open>simp_all add: get_recovery_def row_get_mem evolves_finish\<close>)
  show ?thesis
  proof (cases "get_recovery (rs_db s) (ri_id i)")
    case None
    with assms(1) show ?thesis by (simp add: complete_source_post_def item_table.table_refl split: option.splits)
  next
    case (Some i')
    show ?thesis
    proof (cases "ri_status i' = ITEM_DISPATCHED")
      case True
      from put [OF Some True] assms(1) Some True show ?thesis
        by (simp add: complete_source_post_def item_table.table_refl split: option.splits) (erule commit_session_evolves, simp)
    next
      case False
      with assms(1) Some show ?thesis by (simp add: complete_source_post_def item_table.table_refl split: option.splits)
    qed
  qed
qed

lemma source_post_evolves:
  assumes "replay_source_post re s0 i s = (r, s')" "items_wf s" "has_item s i" "open_item i" "state_evolves s0 s"
    and "crawler_keeps_items re"
  shows "state_evolves s0 s'"
proof (cases "loaded ''SourceChannelPost'' (get_post s (ri_work_id i))")
  case (Inl e)
  with assms(1) show ?thesis by (simp add: replay_source_post_def item_table.table_refl)
next
  case (Inr p)
  show ?thesis
  proof (cases "rs_channels s (po_channel p)")
    case None
    with assms(1) Inr show ?thesis by (simp add: replay_source_post_def item_table.table_refl)
  next
    case (Some channel)
    define i' where "i' = dispatched_item re (mark_non_stage_budget_dispatch
      (if ri_attempt_budget_start i = None
       then i\<lparr>ri_attempt_budget_start := Some (max (po_attempt_count p + 1) 1)\<rparr> else i))"
    have "evolves i i'" using evolves_redispatched [OF assms(4)] by (simp add: i'_def)
    with put_item_evolves [OF assms(2,3)] assms(5) have ev: "state_evolves s0 (put_item i' s)"
      by (blast intro: item_table.table_trans)
    obtain c s1 where c: "commit_session (re_env re) s0 (put_item i' s) = (c, s1)" by (cases "commit_session (re_env re) s0 (put_item i' s)")
    have e1: "state_evolves s0 s1" by (rule commit_session_evolves [OF c ev])
    obtain x s2 where x: "re_replay_post re channel (po_post_id p) s1 = (x, s2)" by (cases "re_replay_post re channel (po_post_id p) s1")
    have "db_recovery (rs_db s2) = db_recovery (rs_db s1)" using assms(6) x unfolding crawler_keeps_items_def by (metis snd_conv)
    then have e2: "state_evolves s0 s2" "items_wf s1 \<Longrightarrow> items_wf s2" using e1 by (simp_all add: recovery_wf_def)
    have wf0: "items_wf s0" using assms(2,5) item_table.table_keys unfolding recovery_wf_def by metis
    have e3: "state_evolves s0 s'" if "complete_source_post re i s2 = (r, s')"
      using complete_evolves [OF that e2(2)] state_wf [OF wf0 e1] e2(1) item_table.table_trans by blast
    have "(s' = s1 \<or> s' = s2) \<or> complete_source_post re i s2 = (r, s')"
      using assms(1) Inr Some x c unfolding replay_source_post_def i'_def [symmetric] Let_def
      by (simp add: i'_def [symmetric] split: sum.splits crawler_outcome.splits)
    then show ?thesis using e1 e2(1) e3 by blast
  qed
qed

lemma rolled_back_evolves:
  "rolled_back s0 x = (r, s') \<Longrightarrow> state_evolves s0 (snd x) \<Longrightarrow> state_evolves s0 s'"
  by (auto simp: rolled_back_def item_table.table_refl split: prod.splits sum.splits)

lemma telegram_action_evolves:
  assumes "execute_telegram_action re s0 i work s = (r, s')" "items_wf s" "has_item s i" "open_item i" "state_evolves s0 s"
    and "crawler_keeps_items re"
  shows "state_evolves s0 s'"
proof -
  have undo: "state_evolves s0 s'" if "rolled_back s0 (queue_backfill re i s1) = (r, s')" "rs_db s1 = rs_db s" for s1
  proof -
    obtain x s2 where q: "queue_backfill re i s1 = (x, s2)" by (cases "queue_backfill re i s1")
    have "state_evolves s1 s2" using queue_backfill_evolves [OF q] assms(2-4) that(2) by simp
    then have "state_evolves s0 s2" using assms(5) that(2) item_table.table_trans by metis
    then show ?thesis using rolled_back_evolves [OF that(1)] q by simp
  qed
  have post: "state_evolves s0 s'" if "replay_source_post re s0 i s1 = (r, s')" "rs_db s1 = rs_db s" for s1
    using source_post_evolves [OF that(1)] assms that(2) by simp
  show ?thesis
  proof (cases "ri_action i = RECOVER_DEAD_LETTER")
    case True
    show ?thesis
    proof (cases "load_linked_dead_letter i work s")
      case (Inl e)
      with assms(1) True show ?thesis by (simp add: execute_telegram_action_def item_table.table_refl)
    next
      case (Inr l)
      with assms(1) True undo post show ?thesis
        by (cases "ri_work_kind i") (simp_all add: execute_telegram_action_def Let_def item_table.table_refl)
    qed
  next
    case False
    with assms(1) undo post show ?thesis
      by (cases "ri_action i") (simp_all add: execute_telegram_action_def item_table.table_refl)
  qed
qed

lemma execute_evolves:
  assumes "execute_action re telegram s0 i work s = (r, s')" "items_wf s" "has_item s i" "open_item i" "state_evolves s0 s"
    and "crawler_keeps_items re"
  shows "state_evolves s0 s'"
proof (cases telegram)
  case True
  with assms(1) telegram_action_evolves [OF _ assms(2-6)] show ?thesis by (simp add: execute_action_def)
next
  case False
  obtain x s1 where q: "execute_general_action re i work s = (x, s1)" by (cases "execute_general_action re i work s")
  have "state_evolves s0 s1" using general_action_evolves [OF q assms(2-4)] assms(5) item_table.table_trans by blast
  moreover have "rolled_back s0 (x, s1) = (r, s')" using False q assms(1) by (simp add: execute_action_def)
  ultimately show ?thesis using rolled_back_evolves [of s0 "(x, s1)" r s'] by simp
qed

section \<open>Dispatching\<close>

lemma closed_commit:
  assumes "commit_session env s (reconcile_jobs env' ids s1) = (r, s')" "state_evolves s s1"
  shows "state_evolves s s'"
  using commit_session_evolves [OF assms(1)] assms(2) by simp

lemma failure_evolves:
  assumes "record_dispatch_failure re u e retryable s = (r, s')" "items_wf s"
  shows "state_evolves s s'"
proof (cases "get_recovery (rs_db s) u")
  case None
  with assms(1) show ?thesis by (simp add: record_dispatch_failure_def item_table.table_refl)
next
  case (Some i0)
  show ?thesis
  proof (cases "get_job s (ri_job i0) = None \<or> item_terminal i0")
    case True
    with Some assms(1) show ?thesis
      by (cases "get_job s (ri_job i0)") (simp_all add: record_dispatch_failure_def item_table.table_refl)
  next
    case False
    then obtain job where job: "get_job s (ri_job i0) = Some job" "\<not> item_terminal i0" by auto
    let ?i = "charged_item retryable i0"
    have i0: "has_item s i0" "open_item i0"
      using Some job(2) by (simp_all add: get_recovery_def row_get_mem open_item_iff)
    have i: "evolves i0 ?i" "open_item ?i" using i0(2) by (simp_all add: evolves_charged) (simp add: charged_item_def)
    have put: "state_evolves s (put_item i' s)" if "evolves ?i i'" for i'
      using put_item_evolves [OF assms(2) i0(1)] item_table.evolve_trans [OF i(1) that] by blast
    have stale: "state_evolves s (put_item (finish_item re ITEM_SKIPPED_STALE x y ?i) s)"
      "state_evolves s (put_item (finish_item re ITEM_FAILED x y ?i) s)"
      "state_evolves s (put_item (set_queued re v x y ?i) s)" for x y v
      by (intro put evolve_intros i(2); simp)+
    define close where "close = (\<lambda>s1. commit_session (re_env re) s (reconcile_jobs (re_env re) (Some [rj_id job]) s1))"
    have close: "state_evolves s s'" if "close s1 = (r, s')" "state_evolves s s1" for s1
      using closed_commit [OF that(1) [unfolded close_def] that(2)] .
    consider s1 where "close s1 = (r, s')" "state_evolves s s1" | "s' = s"
      using assms(1) Some job stale unfolding record_dispatch_failure_def Let_def close_def
      by (simp split: if_splits option.splits sum.splits)
    then show ?thesis by cases (simp_all add: close item_table.table_refl)
  qed
qed

lemma invalid_evolves: "invalid_item re e i = Some (i', outcome) \<Longrightarrow> open_item i \<Longrightarrow> evolves i i'"
  by (cases e) (auto simp: invalid_item_def evolves_waiting evolves_finish)

lemma dispatch_next_evolves:
  assumes "dispatch_next re telegram excluded s = (r, s')" "items_wf s" "crawler_keeps_items re"
  shows "state_evolves s s'"
proof (cases "claim_next_item re telegram excluded s")
  case None
  with assms(1) show ?thesis by (simp add: dispatch_next_def item_table.table_refl)
next
  case (Some c)
  obtain i s1 where c: "c = (i, s1)" by (cases c)
  note claimed = claimed_item [OF Some [unfolded c]]
  obtain v i1 s2 where v: "validate_claimed_item re i s1 = (v, i1, s2)" by (cases "validate_claimed_item re i s1")
  note valid = validate_keeps [OF v]
  have same: "db_recovery (rs_db s2) = db_recovery (rs_db s)" using valid(3) claimed(3) by simp
  have open1: "open_item i1" using valid(2) claimed(2) by simp
  have put: "state_evolves s (put_item i' s2)" if "evolves i1 i'" for i'
    using put_item_evolves [of s2 i i'] item_table.evolve_trans [OF valid(1) that] assms(2) claimed(1) same
    by (simp add: recovery_wf_def)
  have settle: "state_evolves s s'"
    if "(case commit_session (re_env re) s (put_item i' s2) of
          (Inl e, s'') \<Rightarrow> (Inl e, s'') | (Inr u, s'') \<Rightarrow> (Inr (Some (ri_id i, outcome)), s'')) = (r, s')"
      "evolves i1 i'" for i' outcome
  proof -
    obtain x s3 where x: "commit_session (re_env re) s (put_item i' s2) = (x, s3)"
      by (cases "commit_session (re_env re) s (put_item i' s2)")
    with that(1) commit_session_evolves [OF x put [OF that(2)]] show ?thesis by (cases x) simp_all
  qed
  note run = assms(1) [unfolded dispatch_next_def Some c option.case prod.case Let_def v]
  show ?thesis
  proof (cases v)
    case (Inl e)
    with run settle invalid_evolves [OF _ open1] show ?thesis
      by (cases "invalid_item re e i1") (auto simp: item_table.table_refl)
  next
    case (Inr work)
    show ?thesis
    proof (cases "is_admitted i1 work s2")
      case False
      with Inr run show ?thesis by (intro settle [OF _ evolves_waiting [OF open1]]) simp
    next
      case True
      let ?s2 = "put_item i1 s2"
      have e2: "state_evolves s ?s2" by (rule put) (rule item_table.evolve_refl)
      have has2: "has_item ?s2 i1"
        using put_item_has [of s2 i i1] assms(2) claimed(1) same item_table.evolve_key [OF valid(1)] by (simp add: recovery_wf_def)
      obtain x s3 where x: "execute_action re telegram s i1 work ?s2 = (x, s3)" by (cases "execute_action re telegram s i1 work ?s2")
      have e3: "state_evolves s s3" by (rule execute_evolves [OF x state_wf [OF assms(2) e2] has2 open1 e2 assms(3)])
      show ?thesis
      proof (cases x)
        case (Inr u)
        with \<open>v = Inr work\<close> True run x e3 show ?thesis by simp
      next
        case (Inl e)
        obtain y s4 where y: "record_dispatch_failure (at_env (re_failure_env re) re) (ri_id i) e (dispatch_retryable telegram i1 e) s3 = (y, s4)"
          by (cases "record_dispatch_failure (at_env (re_failure_env re) re) (ri_id i) e (dispatch_retryable telegram i1 e) s3")
        have "state_evolves s s4" using failure_evolves [OF y state_wf [OF assms(2) e3]] e3 item_table.table_trans by blast
        with \<open>v = Inr work\<close> Inl True run x y show ?thesis by (cases y) simp_all
      qed
    qed
  qed
qed

lemma distinct_sort_filter: "distinct (map f xs) \<Longrightarrow> distinct (map f (sort_key k (filter P xs)))"
  using distinct_map_filter [of f xs P] by (simp add: distinct_map)

lemma skip_evolves:
  assumes "skip_failed_dependencies re n s = (r, s')" "items_wf s"
  shows "state_evolves s s'"
proof -
  define candidates where "candidates = take (max n 1)
            (item_order (filter (\<lambda>i. dependency_failed s i \<and>
               (case job_status_of s i of None \<Rightarrow> False | Some st \<Rightarrow> st \<in> set ACTIVE_JOB_STATUSES)) (db_recovery (rs_db s))))"
  define children where "children = filter (\<lambda>i. \<not> re_job_locked re (ri_job i) \<and> \<not> re_item_locked re (ri_id i)) candidates"
  define skipped where "skipped = (\<lambda>i. finish_item re ITEM_SKIPPED_DEPENDENCY (Some ''parent_step_failed'')
                       (Some ''A prerequisite Replay & Repair step did not succeed.'') i)"
  define s1 where "s1 = fold (\<lambda>i. put_item (skipped i)) children s"
  have "distinct (map ri_id (item_order (filter P (db_recovery (rs_db s)))))" for P
    using assms(2) by (simp add: item_order_def recovery_wf_def distinct_sort_filter)
  then have children: "distinct (map ri_id children)" "set children \<subseteq> set (db_recovery (rs_db s))"
    "\<And>i. i \<in> set children \<Longrightarrow> dependency_failed s i"
    by (auto simp: children_def candidates_def item_order_def intro!: distinct_map_filter distinct_take simp flip: take_map
        dest!: in_set_takeD)
  have fold_db: "rs_db (fold (\<lambda>i. put_item (skipped i)) is s0) = (rs_db s0)\<lparr>db_recovery := fold (\<lambda>i. row_put ri_id (skipped i)) is
      (db_recovery (rs_db s0))\<rparr>" for "is" s0
    by (induction "is" arbitrary: s0) (simp_all add: put_item_def map_db_def put_recovery_def)
  have "evolves i (skipped i)" if "i \<in> set children" for i
    using children(3) [OF that] step_skip
    by (intro evolvesI) (auto simp: skipped_def finish_item_def item_frame_def dependency_failed_def)
  then have "state_evolves s s1"
    using item_table.table_fold_put [of "db_recovery (rs_db s)" children skipped] children assms(2)
    by (simp add: s1_def fold_db recovery_wf_def)
  then show ?thesis
    using assms(1) unfolding skip_failed_dependencies_def Let_def candidates_def [symmetric] children_def [symmetric]
      skipped_def [symmetric] s1_def [symmetric]
    by (auto simp: item_table.table_refl split: if_splits prod.splits sum.splits dest: closed_commit)
qed

section \<open>Reconciling\<close>

text \<open>A verdict settles with a closing status and leaves the item as it is, but for what it observed of its budget.\<close>

definition fair_verdict :: "recovery_item \<Rightarrow> recovery_item \<times> verdict \<Rightarrow> bool" where
  "fair_verdict i p \<longleftrightarrow> evolves i (fst p) \<and> ri_status (fst p) = ri_status i \<and>
     (case snd p of Settled st reason error \<Rightarrow> st \<in> {ITEM_SUCCEEDED, ITEM_FAILED, ITEM_SKIPPED_STALE} | _ \<Rightarrow> True)"

lemma observed_status: "ri_status (observe_outbox_retry_budget m i) = ri_status i"
  by (cases "ri_stage i = None")
    (auto simp: observe_outbox_retry_budget_def observe_recovery_stage_publication_outcome_def Let_def
      split: outbox_status.splits if_splits prod.splits option.splits)

lemma fair_same: "fair_verdict i (i, v) \<longleftrightarrow>
    (case v of Settled st reason error \<Rightarrow> st \<in> {ITEM_SUCCEEDED, ITEM_FAILED, ITEM_SKIPPED_STALE} | _ \<Rightarrow> True)"
  by (simp add: fair_verdict_def item_table.evolve_refl)

lemma fair_observed: "fair_verdict i (observe_outbox_retry_budget m i, v) \<longleftrightarrow>
    (case v of Settled st reason error \<Rightarrow> st \<in> {ITEM_SUCCEEDED, ITEM_FAILED, ITEM_SKIPPED_STALE} | _ \<Rightarrow> True)"
  by (simp add: fair_verdict_def evolves_observe_budget observed_status)

lemma fair_backfill: "fair_verdict i (fst (observe_backfill_retry_budget i s), v) \<longleftrightarrow>
    (case v of Settled st reason error \<Rightarrow> st \<in> {ITEM_SUCCEEDED, ITEM_FAILED, ITEM_SKIPPED_STALE} | _ \<Rightarrow> True)"
proof -
  have "evolves i (fst (observe_backfill_retry_budget i s))"
    by (auto simp: observe_backfill_retry_budget_def Let_def item_frame_def intro!: evolvesI)
  then show ?thesis by (simp add: fair_verdict_def) (simp add: observe_backfill_retry_budget_def Let_def)
qed

lemma stage_verdict_fair: "fair_verdict i (i, stage_verdict i row)"
  by (simp add: fair_same stage_verdict_def stale_verdict_def split: option.splits)

lemma sync_verdict_fair: "fair_verdict i (i, sync_verdict i row)"
  by (simp add: fair_same sync_verdict_def stale_verdict_def split: option.splits)

lemma generation_verdict_fair: "fair_verdict i (i, generation_verdict i s)"
  by (simp add: fair_same generation_verdict_def split: option.splits)

lemma post_verdict_fair: "fair_verdict i (i, post_verdict i s)"
  by (simp add: fair_same post_verdict_def stale_verdict_def split: option.splits post_status.splits)

lemma outbox_verdict_fair: "fair_verdict i (outbox_verdict i row)"
  by (simp add: outbox_verdict_def Let_def fair_same fair_observed stale_verdict_def split: option.splits outbox_status.splits)

lemma ingest_verdict_fair: "fair_verdict i (ingest_verdict i s)"
  by (simp add: ingest_verdict_def Let_def fair_same fair_observed stale_verdict_def
      split: option.splits outbox_status.splits ingest_status.splits)

lemma backfill_verdict_fair: "fair_verdict i (backfill_verdict i s)"
  unfolding backfill_verdict_def case_prod_beta fair_backfill
  by (simp add: stale_verdict_def split: option.splits backfill_status.splits)

lemma linked_ingest_fair: "fair_verdict i (linked_ingest_verdict i u s)"
  by (simp add: linked_ingest_verdict_def Let_def fair_same fair_observed stale_verdict_def split: option.splits)

lemma linked_verdict_fair: "fair_verdict i (linked_verdict i kind u s)"
proof (cases kind)
  case WORK_BACKFILL
  then show ?thesis
    by (simp add: linked_verdict_def case_prod_beta fair_backfill stale_verdict_def split: option.splits)
qed (simp_all add: linked_verdict_def stage_verdict_fair [unfolded fair_same] sync_verdict_fair [unfolded fair_same] linked_ingest_fair outbox_verdict_fair
    fair_same stale_verdict_def split: option.splits)

lemma dead_letter_verdict_fair: "fair_verdict i (dead_letter_verdict i s)"
  by (simp add: dead_letter_verdict_def fair_same linked_verdict_fair stale_verdict_def split: option.splits)

lemma item_verdict_fair: "fair_verdict i (item_verdict i s)"
  by (cases "ri_work_kind i")
    (simp_all add: item_verdict_def generation_verdict_fair stage_verdict_fair sync_verdict_fair ingest_verdict_fair
      backfill_verdict_fair post_verdict_fair outbox_verdict_fair dead_letter_verdict_fair)

lemma exhausted_keeps:
  assumes "reconcile_exhausted_outbox re i s = (ended, i', s')" "open_item i"
  shows "evolves i i'" "\<not> ended \<Longrightarrow> ri_status i' = ri_status i" "db_recovery (rs_db s') = db_recovery (rs_db s)"
proof -
  have obs: "evolves i (finish_item re ITEM_FAILED x y (observe_outbox_retry_budget m i))" for m x y
    using assms(2) by (intro item_table.evolve_trans [OF evolves_observe_budget evolves_finish]) (simp_all add: observed_status)
  have "evolves i i' \<and> (\<not> ended \<longrightarrow> ri_status i' = ri_status i) \<and> db_recovery (rs_db s') = db_recovery (rs_db s)"
    using assms(1) obs unfolding reconcile_exhausted_outbox_def Let_def
    by (auto simp: item_table.evolve_refl evolves_observe_budget observed_status map_db_def put_journal_recovery
        split: option.splits if_splits)
  then show "evolves i i'" "\<not> ended \<Longrightarrow> ri_status i' = ri_status i" "db_recovery (rs_db s') = db_recovery (rs_db s)"
    by auto
qed

lemma requeue_evolves:
  assumes "requeue_async_failure re reason error consume i s = Inr (ended, i')" "open_item i"
  shows "evolves i i'"
proof (cases "get_work re (ri_work_kind i) (ri_work_id i) s")
  case (Inl e)
  with assms show ?thesis by (auto simp: requeue_async_failure_def evolves_finish split: if_splits)
next
  case (Inr work)
  define i2 where "i2 = (if consume \<and> ri_canonical_version i \<noteq> Some (wr_version work)
      then i\<lparr>ri_failures_consumed := ri_failures_consumed i + 1\<rparr> else i)\<lparr>ri_canonical_version := Some (wr_version work)\<rparr>"
  have i2: "evolves i i2" "open_item i2" using assms(2) by (auto simp: i2_def item_frame_def intro!: evolvesI)
  have q: "evolves i2 ((set_queued re (wr_version work) reason error i2)\<lparr>ri_attempt_budget_start := None\<rparr>)"
    using evolves_set_queued [OF i2(2)] by (simp add: evolves_def item_frame_def)
  have "i' = (set_queued re (wr_version work) reason error i2)\<lparr>ri_attempt_budget_start := None\<rparr> \<or>
      i' = finish_item re ITEM_FAILED reason error i2"
    using assms(1) Inr by (simp add: requeue_async_failure_def i2_def [symmetric] Let_def split: if_splits)
  then show ?thesis using q evolves_finish [OF i2(2)] item_table.evolve_trans [OF i2(1)] by auto
qed

lemma reconcile_item_evolves:
  assumes "reconcile_item re i0 s0 = (r, s')" "items_wf s0" "has_item s0 i0" "ri_status i0 = ITEM_DISPATCHED"
  shows "state_evolves s0 s'" "\<And>x. has_item s0 x \<Longrightarrow> ri_id x \<noteq> ri_id i0 \<Longrightarrow> has_item s' x"
proof -
  obtain ended i s where e: "reconcile_exhausted_outbox re i0 s0 = (ended, i, s)" by (cases "reconcile_exhausted_outbox re i0 s0")
  note k = exhausted_keeps [OF e]
  have i: "evolves i0 i" using k(1) assms(4) by simp
  have same: "db_recovery (rs_db s) = db_recovery (rs_db s0)" using k(3) assms(4) by simp
  define P where "P = (\<lambda>s'. state_evolves s0 s' \<and> (\<forall>x. has_item s0 x \<longrightarrow> ri_id x \<noteq> ri_id i0 \<longrightarrow> has_item s' x))"
  have put: "P (put_item i' s)" if "evolves i i'" for i'
  proof -
    have ev: "evolves i0 i'" by (rule item_table.evolve_trans [OF i that])
    then have "state_evolves s0 (put_item i' s)"
      using put_item_evolves [of s i0 i'] assms(2,3) same by (simp add: recovery_wf_def)
    moreover have "ri_id i' = ri_id i0" by (rule item_table.evolve_key [OF ev])
    ultimately show ?thesis
      using item_table.row_put_member [of "db_recovery (rs_db s)" _ i'] assms(2) same
      by (simp add: P_def put_item_def map_db_def put_recovery_def recovery_wf_def)
  qed
  have stay: "P s" using same by (simp add: P_def item_table.table_refl)
  have close: "P s'" if "close_item re i' s = (r, s')" "evolves i i'" for i'
    using put [OF that(2)] that(1) by (auto simp: close_item_def P_def)
  have "P s'"
  proof (cases ended)
    case True
    with assms(1) e show ?thesis by (intro close [OF _ item_table.evolve_refl]) (simp add: reconcile_item_def)
  next
    case False
    then have open_i: "open_item i" using k(2) assms(4) by simp
    obtain i1 v where v: "item_verdict i s = (i1, v)" by (cases "item_verdict i s")
    have fair: "evolves i i1" "open_item i1"
      "\<And>st reason error. v = Settled st reason error \<Longrightarrow> st \<in> {ITEM_SUCCEEDED, ITEM_FAILED, ITEM_SKIPPED_STALE}"
      using item_verdict_fair [of i s] v open_i by (auto simp: fair_verdict_def)
    note later = item_table.evolve_trans [OF fair(1)]
    show ?thesis
    proof (cases "ri_work_kind i = WORK_INGEST_REQUEST \<and> budget_spent i \<and> ri_normalized_reason i \<noteq> None")
      case True
      with assms(1) e False
      have "close_item re (finish_item re ITEM_FAILED (ri_normalized_reason i) (ri_safe_error_text i) i) s = (r, s')"
        by (simp add: reconcile_item_def)
      then show ?thesis by (rule close) (simp add: evolves_finish [OF open_i])
    next
      case other: False
      have run: "(case v of
           NotSettled \<Rightarrow> (Inr False, put_item i1 s)
         | Settled st reason error \<Rightarrow> close_item re (finish_item re st reason error i1) s
         | Reschedule reason error consume \<Rightarrow>
             (case requeue_async_failure re reason error consume i1 s of
                Inl e \<Rightarrow> (Inl e, s)
              | Inr (False, i2) \<Rightarrow> (Inr False, put_item i2 s)
              | Inr (True, i2) \<Rightarrow> close_item re i2 s)) = (r, s')"
        using assms(1) False by (simp only: reconcile_item_def e prod.case bool.case if_not_P [OF other] v)
      show ?thesis
      proof (cases v)
        case NotSettled
        with run put [OF fair(1)] show ?thesis by simp
      next
        case (Settled st reason error)
        with run have "close_item re (finish_item re st reason error i1) s = (r, s')" by simp
        then show ?thesis by (rule close) (rule later [OF evolves_finish [OF fair(2) fair(3) [OF Settled]]])
      next
        case (Reschedule reason error consume)
        show ?thesis
        proof (cases "requeue_async_failure re reason error consume i1 s")
          case (Inl err)
          with Reschedule run stay show ?thesis by simp
        next
          case (Inr p)
          obtain fin i2 where p: "p = (fin, i2)" by (cases p)
          have "evolves i i2" using later requeue_evolves [OF Inr [unfolded p] fair(2)] by blast
          with put close Inr p Reschedule run show ?thesis by (cases fin) auto
        qed
      qed
    qed
  qed
  then show "state_evolves s0 s'" "\<And>x. has_item s0 x \<Longrightarrow> ri_id x \<noteq> ri_id i0 \<Longrightarrow> has_item s' x" by (simp_all add: P_def)
qed

lemma reconcile_items_evolve:
  assumes "reconcile_items re rs n s = (r, s')" "items_wf s" "distinct (map ri_id rs)"
    and "\<forall>i\<in>set rs. has_item s i \<and> ri_status i = ITEM_DISPATCHED"
  shows "state_evolves s s'"
  using assms
proof (induction rs arbitrary: n s)
  case Nil
  then show ?case by (simp add: item_table.table_refl)
next
  case (Cons i rs)
  obtain x s1 where x: "reconcile_item re i s = (x, s1)" by (cases "reconcile_item re i s")
  have i: "has_item s i" "ri_status i = ITEM_DISPATCHED" using Cons.prems(4) by auto
  note first = reconcile_item_evolves [OF x Cons.prems(2) i]
  show ?case
  proof (cases x)
    case (Inl e)
    with Cons.prems(1) x first(1) show ?thesis by simp
  next
    case (Inr b)
    have "\<forall>j\<in>set rs. has_item s1 j \<and> ri_status j = ITEM_DISPATCHED"
      using Cons.prems(3,4) first(2) by (auto simp: image_iff)
    with Cons.prems(1,3) x Inr Cons.IH [OF _ state_wf [OF Cons.prems(2) first(1)]] have "state_evolves s1 s'" by auto
    with first(1) show ?thesis by (rule item_table.table_trans)
  qed
qed

lemma reconcile_evolves:
  assumes "reconcile re0 re re' n s = (r, s')" "items_wf s"
  shows "state_evolves s s'"
proof -
  obtain x s1 where x: "skip_failed_dependencies re0 (nat n) s = (x, s1)" by (cases "skip_failed_dependencies re0 (nat n) s")
  have e1: "state_evolves s s1" by (rule skip_evolves [OF x assms(2)])
  note wf1 = state_wf [OF assms(2) e1]
  show ?thesis
  proof (cases x)
    case (Inl e)
    with x assms(1) e1 show ?thesis by (simp add: reconcile_def)
  next
    case (Inr skipped)
    define rows where "rows = dispatch_order (filter (\<lambda>i. ri_status i = ITEM_DISPATCHED \<and>
      (case job_status_of s1 i of None \<Rightarrow> False | Some st \<Rightarrow> st \<in> set ACTIVE_JOB_STATUSES)) (db_recovery (rs_db s1)))"
    define rs where "rs = filter (\<lambda>i. \<not> re_job_locked re (ri_job i) \<and> \<not> re_item_locked re (ri_id i)) (take (nat (max n 1)) rows)"
    define jobs where "jobs = map ri_job (filter (\<lambda>i. \<not> re_job_locked re (ri_job i)) (take (nat (max n 1)) rows))"
    have "distinct (map ri_id rows)"
      using wf1 by (simp add: rows_def dispatch_order_def recovery_wf_def distinct_sort_filter)
    then have rs: "distinct (map ri_id rs)" "\<forall>i\<in>set rs. has_item s1 i \<and> ri_status i = ITEM_DISPATCHED"
      by (auto simp: rs_def rows_def dispatch_order_def intro!: distinct_map_filter distinct_take simp flip: take_map
          dest!: in_set_takeD)
    obtain y s2 where y: "reconcile_items re rs skipped s1 = (y, s2)" by (cases "reconcile_items re rs skipped s1")
    have e2: "state_evolves s s2" by (rule item_table.table_trans [OF e1 reconcile_items_evolve [OF y wf1 rs]])
    note run = assms(1) [unfolded reconcile_def Let_def x Inr prod.case sum.case, folded rows_def, folded rs_def jobs_def, unfolded y]
    show ?thesis
    proof (cases y)
      case (Inl e)
      with run e1 show ?thesis by simp
    next
      case (Inr m)
      obtain z s3 where z: "commit_session (re_env re) s1 (reconcile_jobs (re_env re) (Some jobs) s2) = (z, s3)"
        by (cases "commit_session (re_env re) s1 (reconcile_jobs (re_env re) (Some jobs) s2)")
      have e3: "state_evolves s s3"
        using closed_commit [OF z reconcile_items_evolve [OF y wf1 rs]] e1 item_table.table_trans by blast
      obtain w s4 where w: "commit_session (re_env re') s3 (reconcile_jobs (re_env re') None s3) = (w, s4)"
        by (cases "commit_session (re_env re') s3 (reconcile_jobs (re_env re') None s3)")
      have "state_evolves s3 s4" by (rule closed_commit [OF w item_table.table_refl])
      then have "state_evolves s s4" by (rule item_table.table_trans [OF e3])
      with run Inr z w e3 show ?thesis by (cases z; cases w) simp_all
    qed
  qed
qed

section \<open>Reclaiming\<close>

lemma reclaim_stage_evolves:
  assumes "reclaim_next_stuck_stage re s = (r, s')" "items_wf s"
  shows "state_evolves s s'"
proof (cases "find (\<lambda>e. \<not> re_row_locked re (sj_id e)) (stuck_rows re s)")
  case None
  with assms(1) show ?thesis by (simp add: reclaim_next_stuck_stage_def item_table.table_refl)
next
  case (Some e)
  define linked where "linked = (case sj_last_event_id e of
     None \<Rightarrow> None
   | Some ev \<Rightarrow> find (\<lambda>i. ri_dispatch_event_id i = Some ev \<and> ri_status i = ITEM_DISPATCHED) (db_recovery (rs_db s)))"
  define s1 where "s1 = map_db (put_journal (re_env re) (reclaimed_entry (re_env re) e)) s"
  have s1: "db_recovery (rs_db s1) = db_recovery (rs_db s)" by (simp add: s1_def map_db_def put_journal_recovery)
  have "attachable linked (rs_db s1)"
    by (auto simp: attachable_def linked_def s1 split: option.splits dest!: find_SomeD)
  note replayed = replay_call_evolves [OF _ replay_results_evolve(1) [OF _ this]]
  obtain x s2 where x: "commit_session (re_env re) s s1 = (x, s2)" by (cases "commit_session (re_env re) s s1")
  obtain y s3 where y: "replay_call re s1 (replay_item (re_env re) (sj_file e) (Some (sj_stage e)) linked (rs_db s1)) = (y, s3)"
    by (cases "replay_call re s1 (replay_item (re_env re) (sj_file e) (Some (sj_stage e)) linked (rs_db s1))")
  have e2: "state_evolves s s2" by (rule commit_session_evolves [OF x]) (simp add: s1 item_table.table_refl)
  have e3: "state_evolves s s3" using replayed [OF y] assms(2) s1 by (simp add: recovery_wf_def)
  note run = assms(1) [unfolded reclaim_next_stuck_stage_def Some option.case Let_def, folded linked_def s1_def, unfolded x y]
  show ?thesis
    using run e2 e3 by (cases x; cases y) (auto simp: item_table.table_refl split: if_splits)
qed

lemma reclaim_ingest_evolves:
  assumes "reclaim_next_stuck_ingest re s = (r, s')" "items_wf s"
  shows "state_evolves s s'"
proof (cases "find (\<lambda>r. \<not> re_row_locked re (iq_id r)) (sort_key (\<lambda>r. (iq_updated_at r, iq_id r))
            (filter (\<lambda>r. iq_status r = MEDIA_INSPECTING \<and> iq_updated_at r < env_now (re_env re) - seconds (re_stuck_after re))
              (rs_requests s)))")
  case None
  with assms(1) show ?thesis by (simp add: reclaim_next_stuck_ingest_def Let_def item_table.table_refl)
next
  case (Some q)
  have commit: "state_evolves s s2"
    if "(case commit_session (re_env re) s s1 of (Inl e, s') \<Rightarrow> (Inl e, s') | (Inr u, s') \<Rightarrow> (Inr (Some True), s')) = (x, s2)"
      "state_evolves s s1" for s1 s2 x
  proof -
    obtain y s3 where y: "commit_session (re_env re) s s1 = (y, s3)" by (cases "commit_session (re_env re) s s1")
    with that(1) commit_session_evolves [OF y that(2)] show ?thesis by (cases y) simp_all
  qed
  note run = assms(1) [unfolded reclaim_next_stuck_ingest_def Let_def Some option.case]
  show ?thesis
  proof (cases "iq_attempt_count q \<ge> env_retry_max_attempts (re_env re) \<or> list_ex (inspect_message_open q) (db_outbox (rs_db s))")
    case True
    with run show ?thesis by (auto simp: item_table.table_refl split: if_splits elim!: commit)
  next
    case False
    show ?thesis
    proof (cases "add_inspect_message re q (put_request (re_env re) (inspect_again q) s)")
      case (Inl e)
      with run False show ?thesis by (simp add: item_table.table_refl)
    next
      case (Inr s2)
      have same: "db_recovery (rs_db s2) = db_recovery (rs_db s)"
        using Inr by (auto simp: add_inspect_message_def map_db_def split: sum.splits)
      have put: "state_evolves s (put_item (i\<lparr>ri_dispatch_event_id := ev, ri_dispatched_at := t\<rparr>) s2)"
        if "find P (db_recovery (rs_db s2)) = Some i" for P i ev t
        using put_item_evolves [of s2 i "i\<lparr>ri_dispatch_event_id := ev, ri_dispatched_at := t\<rparr>"] assms(2) that same
        by (simp add: recovery_wf_def item_frame_def evolves_def) (auto dest: find_SomeD)
      show ?thesis
        using run False Inr
        by (simp split: option.splits) (erule commit, simp add: same item_table.table_refl, erule commit, erule put)
    qed
  qed
qed

end
