(* ===== verification/Recovery_Plans.thy ===== *)
theory Recovery_Plans
  imports Recovery_Jobs
begin

text \<open>
  Lemmas about the plans \<open>build_execution_items\<close> makes: their items stage by stage, the parents of the items, and
  that a plan is well formed on its own.
\<close>

section \<open>Well-formed plans\<close>

text \<open>A planned list of items on its own: every item that waits has its prerequisite in the list.\<close>

definition item_typed :: "recovery_item list \<Rightarrow> recovery_item \<Rightarrow> bool" where
  "item_typed items i \<longleftrightarrow>
     (ri_status i = ITEM_WAITING_DEPENDENCY \<longrightarrow> ri_parent i \<noteq> None) \<and>
     (\<forall>u. ri_parent i = Some u \<longrightarrow>
        (\<exists>p\<in>set items. ri_id p = u \<and> ri_job p = ri_job i \<and> ri_file p = ri_file i \<and> ri_stage i \<noteq> None \<and>
           ri_stage p = Option.bind (ri_stage i) prerequisite_by_stage))"

definition items_typed :: "recovery_item list \<Rightarrow> bool" where
  "items_typed items \<longleftrightarrow> (\<forall>i\<in>set items. item_typed items i)"

definition freshly_planned :: "recovery_item \<Rightarrow> bool" where
  "freshly_planned i \<longleftrightarrow> ri_status i \<in> {ITEM_QUEUED, ITEM_WAITING_DEPENDENCY} \<and> ri_failures_consumed i = 0"

lemma item_typed_mono: "item_typed xs i \<Longrightarrow> set xs \<subseteq> set ys \<Longrightarrow> item_typed ys i"
  unfolding item_typed_def by (meson subsetD)

lemma items_typed_append: "items_typed xs \<Longrightarrow> items_typed ys \<Longrightarrow> items_typed (xs @ ys)"
  unfolding items_typed_def by (auto intro: item_typed_mono)

lemma plan_unfold:
  assumes "build_execution_items re q s = Inr items" "wr_stage (pq_work q) = Some st" "wr_file (pq_work q) = Some f"
  obtains mf where "get_file (rs_db s) f = Some mf"
    "first_error (dependent_conflict s f (pq_acknowledged q)) (tl (execution_stages st (pq_scope q))) = None"
    "items = plan_loop (stage_item re q mf s)
       (if CLASSIFY \<in> set (execution_stages st (pq_scope q)) then Some (pq_ids q CLASSIFY) else None)
       (execution_stages st (pq_scope q)) True None"
  using assms by (auto simp: build_execution_items_def Let_def split: option.splits)

lemma first_error_None: "first_error g xs = None \<longleftrightarrow> (\<forall>x\<in>set xs. g x = None)"
  by (induction xs) (auto split: option.splits)

lemma stage_item_fields [simp]:
  "ri_id (stage_item re q mf s st b p) = pq_ids q st" "ri_job (stage_item re q mf s st b p) = rj_id (pq_job q)"
  "ri_file (stage_item re q mf s st b p) = Some (mf_id mf)" "ri_stage (stage_item re q mf s st b p) = Some st"
  "ri_parent (stage_item re q mf s st b p) = p" "ri_is_root (stage_item re q mf s st b p) = b"
  "ri_status (stage_item re q mf s st b p) = (if b then ITEM_QUEUED else ITEM_WAITING_DEPENDENCY)"
  "ri_failures_consumed (stage_item re q mf s st b p) = 0"
  "\<not> b \<Longrightarrow> ri_action (stage_item re q mf s st b p) = REPLAY_STAGE"
  "\<not> b \<Longrightarrow> ri_work_kind (stage_item re q mf s st b p) = WORK_PIPELINE_STAGE"
  "\<not> b \<Longrightarrow> ri_work_id (stage_item re q mf s st b p) =
     (case get_journal (rs_db s) (mf_id mf) st of
        Some e \<Rightarrow> WorkRow (sj_id e) | None \<Rightarrow> WorkFileSuffix (mf_id mf) (stage_value st))"
  "\<not> b \<Longrightarrow> ri_expected_version (stage_item re q mf s st b p) =
     (case get_journal (rs_db s) (mf_id mf) st of
        Some e \<Rightarrow> row_version (sj_updated_at e) (sj_last_event_id e) | None \<Rightarrow> missing_version (mf_id mf) st)"
  "b \<Longrightarrow> ri_expected_version (stage_item re q mf s st b p) = wr_version (pq_work q)"
  "ri_reservation_active (stage_item re q mf s st b p) = pq_reserve q"
  by (simp_all add: stage_item_def root_item_def dependent_item_def Let_def split: option.splits)

text \<open>The loop over the stages, whatever the items look like.\<close>

lemma plan_parents:
  assumes "\<And>t b p. ri_id (build t b p) = ids t" "stages = execution_stages st scope"
  shows "\<exists>rest. plan_loop build (if CLASSIFY \<in> set stages then Some (ids CLASSIFY) else None) stages True None =
      build st True None # rest \<and>
    list_all2 (\<lambda>t i. \<exists>p. i = build t False (Some (ids p)) \<and> prerequisite_by_stage t = Some p \<and> p \<in> set stages)
      (tl stages) rest"
  unfolding assms(2) execution_stages_def
  by (cases "scope = STAGE_AND_DEPENDENTS"; cases st) (simp_all add: assms(1))

lemma plan_items:
  assumes "build_execution_items re q s = Inr items" "wr_stage (pq_work q) = Some st" "wr_file (pq_work q) = Some f"
  obtains mf rest where "get_file (rs_db s) f = Some mf" "mf_id mf = f"
    "\<forall>t\<in>set (tl (execution_stages st (pq_scope q))). dependent_conflict s f (pq_acknowledged q) t = None"
    "items = stage_item re q mf s st True None # rest"
    "list_all2 (\<lambda>t i. \<exists>p. i = stage_item re q mf s t False (Some (pq_ids q p)) \<and> prerequisite_by_stage t = Some p \<and>
       p \<in> set (execution_stages st (pq_scope q))) (tl (execution_stages st (pq_scope q))) rest"
proof -
  from plan_unfold [OF assms] obtain mf where mf: "get_file (rs_db s) f = Some mf"
    "first_error (dependent_conflict s f (pq_acknowledged q)) (tl (execution_stages st (pq_scope q))) = None"
    "items = plan_loop (stage_item re q mf s)
       (if CLASSIFY \<in> set (execution_stages st (pq_scope q)) then Some (pq_ids q CLASSIFY) else None)
       (execution_stages st (pq_scope q)) True None" .
  from plan_parents [of "stage_item re q mf s" "pq_ids q" "execution_stages st (pq_scope q)" st "pq_scope q"] mf(3)
  obtain rest where "items = stage_item re q mf s st True None # rest"
    "list_all2 (\<lambda>t i. \<exists>p. i = stage_item re q mf s t False (Some (pq_ids q p)) \<and> prerequisite_by_stage t = Some p \<and>
       p \<in> set (execution_stages st (pq_scope q))) (tl (execution_stages st (pq_scope q))) rest"
    by auto
  moreover have "mf_id mf = f" using mf(1) by (auto simp: get_file_def dest: row_get_key)
  ultimately show thesis using that mf(1,2) by (simp add: first_error_None)
qed

lemma list_all2_witness: "list_all2 P xs ys \<Longrightarrow> x \<in> set xs \<Longrightarrow> \<exists>y\<in>set ys. P x y"
  by (induction rule: list_all2_induct) auto

lemma list_all2_source: "list_all2 P xs ys \<Longrightarrow> y \<in> set ys \<Longrightarrow> \<exists>x\<in>set xs. P x y"
  by (induction rule: list_all2_induct) auto

lemma list_all2_map_eq: "list_all2 P xs ys \<Longrightarrow> (\<And>x y. P x y \<Longrightarrow> g y = h x) \<Longrightarrow> map g ys = map h xs"
  by (induction rule: list_all2_induct) auto

lemma execution_stages_Cons: "execution_stages st scope = st # tl (execution_stages st scope)"
  by (simp add: execution_stages_def)

text \<open>An item of the plan for every stage, under the id chosen for it.\<close>

lemma plan_item_of_stage:
  assumes "items = stage_item re q mf s st True None # rest"
    "list_all2 (\<lambda>t i. \<exists>p. i = stage_item re q mf s t False (Some (pq_ids q p)) \<and> prerequisite_by_stage t = Some p \<and> p \<in> set stages)
      (tl (execution_stages st scope)) rest"
    "t \<in> set (execution_stages st scope)"
  shows "\<exists>b par. stage_item re q mf s t b par \<in> set items"
proof (cases "t = st")
  case True
  with assms(1) show ?thesis by auto
next
  case False
  then have "t \<in> set (tl (execution_stages st scope))" using assms(3) execution_stages_Cons by (metis set_ConsD)
  from list_all2_witness [OF assms(2) this] assms(1) show ?thesis by auto
qed

lemma plan_typed:
  assumes "build_execution_items re q s = Inr items"
  shows "items_typed items" "\<forall>i\<in>set items. freshly_planned i" "set (map ri_id items) \<subseteq> range (pq_ids q)"
    "inj (pq_ids q) \<Longrightarrow> distinct (map ri_id items)"
proof -
  have "items_typed items \<and> (\<forall>i\<in>set items. freshly_planned i) \<and> set (map ri_id items) \<subseteq> range (pq_ids q) \<and>
      (inj (pq_ids q) \<longrightarrow> distinct (map ri_id items))"
  proof (cases "wr_stage (pq_work q) = None \<or> wr_file (pq_work q) = None")
    case True
    then have "items = [root_item re q (pq_ids q INGEST)]"
      using assms by (auto simp: build_execution_items_def split: option.splits)
    then show ?thesis by (simp add: items_typed_def item_typed_def freshly_planned_def root_item_def)
  next
    case False
    then obtain st f where w: "wr_stage (pq_work q) = Some st" "wr_file (pq_work q) = Some f" by auto
    obtain mf rest where "get_file (rs_db s) f = Some mf" "mf_id mf = f"
      "\<forall>t\<in>set (tl (execution_stages st (pq_scope q))). dependent_conflict s f (pq_acknowledged q) t = None"
      and items: "items = stage_item re q mf s st True None # rest"
      and rest: "list_all2 (\<lambda>t i. \<exists>p. i = stage_item re q mf s t False (Some (pq_ids q p)) \<and> prerequisite_by_stage t = Some p \<and>
        p \<in> set (execution_stages st (pq_scope q))) (tl (execution_stages st (pq_scope q))) rest"
    by (rule plan_items [OF assms w])
    have typed: "item_typed items i \<and> freshly_planned i" if i: "i \<in> set items" for i
    proof (cases "i = stage_item re q mf s st True None")
      case True
      then show ?thesis by (simp add: item_typed_def freshly_planned_def)
    next
      case False
      with i items have "i \<in> set rest" by simp
      from list_all2_source [OF rest this] obtain t p where t: "i = stage_item re q mf s t False (Some (pq_ids q p))"
        "prerequisite_by_stage t = Some p" "p \<in> set (execution_stages st (pq_scope q))" by auto
      from plan_item_of_stage [OF items rest t(3)] obtain b par where "stage_item re q mf s p b par \<in> set items" by auto
      with t show ?thesis by (force simp: item_typed_def freshly_planned_def)
    qed
    have "map ri_id rest = map (pq_ids q) (tl (execution_stages st (pq_scope q)))" by (rule list_all2_map_eq [OF rest]) auto
    then have ids: "map ri_id items = map (pq_ids q) (execution_stages st (pq_scope q))"
      by (subst execution_stages_Cons) (simp add: items)
    have "distinct (execution_stages st (pq_scope q))" by (cases st) (simp_all add: execution_stages_def)
    then have "inj (pq_ids q) \<longrightarrow> distinct (map ri_id items)"
      unfolding ids by (simp add: distinct_map inj_on_subset)
    moreover have "set (map ri_id items) \<subseteq> range (pq_ids q)" unfolding ids by auto
    ultimately show ?thesis using typed by (simp add: items_typed_def)
  qed
  then show "items_typed items" "\<forall>i\<in>set items. freshly_planned i" "set (map ri_id items) \<subseteq> range (pq_ids q)"
    "inj (pq_ids q) \<Longrightarrow> distinct (map ri_id items)" by auto
qed

end
