(* ===== verification/Recovery_Properties.thy ===== *)
theory Recovery_Properties
  imports Recovery_Runtime
begin

text \<open>
  What the recovery runtime guarantees: exact job counters, fenced dispatches, an end to failing
  dispatches, and replays that leave no trace when the broker never took them.
\<close>

section \<open>Sample states\<close>

definition sample_job :: recovery_job where
  "sample_job =
     \<lparr>rj_id = 75, rj_created_at = 10, rj_updated_at = 10, rj_requested_by = 5, rj_assigned = Some 5, rj_source_job = None,
      rj_request_id = 6, rj_action = REPLAY_STAGE, rj_scope = Some STAGE_ONLY, rj_retry_limit = 3, rj_reason = ''fix'',
      rj_selection = ActionSelection (WORK_PIPELINE_STAGE, WorkRow 50, RowVersion (Some 100) (Some 60)) STAGE_ONLY 3 [],
      rj_status = JOB_RUNNING, rj_total_count = 1, rj_selected_root_count = 1, rj_expanded_count = 1, rj_exclusions = [],
      rj_completed_count = 0, rj_failed_count = 0, rj_queued_count = 1, rj_waiting_count = 0, rj_dispatched_count = 0,
      rj_succeeded_count = 0, rj_stale_count = 0, rj_skipped_count = 0, rj_cancelled_count = 0, rj_expires_at = None,
      rj_scheduled_at = Some 10, rj_completed_at = None, rj_cancelled_at = None\<rparr>"

definition sample_recovery_env :: recovery_env where
  "sample_recovery_env =
     \<lparr>re_env = sample_env, re_failure_env = sample_env, re_completion_env = sample_env, re_sanitize = Some,
      re_service_text = (\<lambda>_. ''refused''), re_time_text = (\<lambda>_. []), re_presence = (\<lambda>_. PRESENT),
      re_codecs = plain_codecs, re_media_version = (\<lambda>_ _ _. ''media-v1:''), re_snapshot_updated = (\<lambda>_ _. 100),
      re_outbox_updated = (\<lambda>_ _. 100),
      re_job_locked = (\<lambda>_. False), re_item_locked = (\<lambda>_. False), re_row_locked = (\<lambda>_. False),
      re_stuck_after = 600, re_replay_post = (\<lambda>_ _ s. (Inr INGESTED, s))\<rparr>"

definition sample_scheduled_item :: recovery_item where
  "sample_scheduled_item = sample_item\<lparr>ri_expected_version := RowVersion (Some 100) (Some 60), ri_dispatch_event_id := None,
     ri_attempt_budget_start := None\<rparr>"

definition sample_recovery_state :: "recovery_item list \<Rightarrow> recovery_state" where
  "sample_recovery_state items =
     \<lparr>rs_db = empty_db\<lparr>db_files := [sample_file],
        db_journal := (\<lambda>k. if k = (1, OCR) then Some ((sample_journal OCR)\<lparr>sj_status := STAGE_FAILED\<rparr>) else None),
        db_recovery := items\<rparr>,
      rs_jobs = [sample_job], rs_requests = [], rs_backfills = [], rs_backfill_attempts = [], rs_posts = [],
      rs_channels = (\<lambda>_. None), rs_ledger = [], rs_capacity = (\<lambda>_. None), rs_admins = [5], rs_audit = []\<rparr>"

section \<open>Job counters\<close>

lemma get_job_reconciled:
  "get_job (reconcile_jobs env ids s) u =
     map_option (\<lambda>j. if rj_status j \<in> set ACTIVE_JOB_STATUSES \<and>
                        (case ids of None \<Rightarrow> True | Some us \<Rightarrow> rj_id j \<in> set us)
                     then touched_job env j (recounted_job (env_now env) (items_of s (rj_id j)) j) else j) (get_job s u)"
  by (simp add: get_job_def reconcile_jobs_def row_get_map_if recounted_job_def touched_job_def Let_def)

lemma touched_job_simps [simp]:
  "rj_status (touched_job env old j) = rj_status j" "rj_queued_count (touched_job env old j) = rj_queued_count j"
  "rj_waiting_count (touched_job env old j) = rj_waiting_count j"
  "rj_dispatched_count (touched_job env old j) = rj_dispatched_count j"
  "rj_completed_count (touched_job env old j) = rj_completed_count j"
  "rj_succeeded_count (touched_job env old j) = rj_succeeded_count j"
  "rj_failed_count (touched_job env old j) = rj_failed_count j" "rj_stale_count (touched_job env old j) = rj_stale_count j"
  "rj_skipped_count (touched_job env old j) = rj_skipped_count j"
  "rj_cancelled_count (touched_job env old j) = rj_cancelled_count j"
  by (simp_all add: touched_job_def)

lemma get_job_id: "get_job s u = Some j \<Longrightarrow> rj_id j = u"
  unfolding get_job_def by (rule row_get_key)

lemma terminal_counts:
  "length (filter (\<lambda>i. ri_status i \<in> set TERMINAL_ITEM_STATUSES) items) =
     count_status ITEM_SUCCEEDED items + count_status ITEM_FAILED items + count_status ITEM_SKIPPED_STALE items +
     count_status ITEM_SKIPPED_DEPENDENCY items + count_status ITEM_CANCELLED items"
  by (induction items) (auto simp: count_status_def TERMINAL_ITEM_STATUSES_def)

lemma all_counts:
  "count_status ITEM_QUEUED items + (count_status ITEM_WAITING_DEPENDENCY items + count_status ITEM_WAITING_CAPACITY items) +
     count_status ITEM_DISPATCHED items + length (filter (\<lambda>i. ri_status i \<in> set TERMINAL_ITEM_STATUSES) items) = length items"
proof (induction items)
  case Nil
  show ?case by (simp add: count_status_def)
next
  case (Cons i items)
  then show ?case by (cases "ri_status i") (simp_all add: count_status_def TERMINAL_ITEM_STATUSES_def)
qed

lemma all_terminal_iff: "length (filter P xs) = length xs \<longleftrightarrow> (\<forall>x\<in>set xs. P x)"
  by (metis filter_True length_filter_less less_irrefl)

text \<open>How many of the job's items are in one of the states.\<close>

definition items_in :: "recovery_state \<Rightarrow> uuid \<Rightarrow> recovery_item_status list \<Rightarrow> nat" where
  "items_in s u states = length (filter (\<lambda>i. ri_status i \<in> set states) (items_of s u))"

lemma count_status_in: "count_status st (items_of s u) = items_in s u [st]"
  by (simp add: count_status_def items_in_def)

lemma count_waiting:
  "count_status ITEM_WAITING_DEPENDENCY items + count_status ITEM_WAITING_CAPACITY items =
     length (filter (\<lambda>i. ri_status i \<in> {ITEM_WAITING_DEPENDENCY, ITEM_WAITING_CAPACITY}) items)"
  by (induction items) (auto simp: count_status_def)

lemma items_of_reconciled [simp]: "items_of (reconcile_jobs env ids s) u = items_of s u"
  by (simp add: items_of_def reconcile_jobs_def)

lemma recounted_again:
  "rj_status (recounted_job now items j) \<in> set ACTIVE_JOB_STATUSES \<Longrightarrow>
     recounted_job now' items ((recounted_job now items j)\<lparr>rj_updated_at := t\<rparr>) = (recounted_job now items j)\<lparr>rj_updated_at := t\<rparr>"
proof (cases "items \<noteq> [] \<and> length (filter (\<lambda>i. ri_status i \<in> set TERMINAL_ITEM_STATUSES) items) = length items")
  case True
  assume "rj_status (recounted_job now items j) \<in> set ACTIVE_JOB_STATUSES"
  then have False
    unfolding recounted_job_def Let_def if_P [OF True] ACTIVE_JOB_STATUSES_def by (simp split: if_split_asm)
  then show ?thesis ..
next
  case False
  show ?thesis unfolding recounted_job_def Let_def if_not_P [OF False] by simp
qed

lemma touched_cases: "touched_job env j j1 = j1\<lparr>rj_updated_at := rj_updated_at (touched_job env j j1)\<rparr>"
  by (simp add: touched_job_def)

text \<open>
  C27. Reconciling an active job leaves its counters exact, each the number of the job's items in its states, so that
  every item is counted once and the closed items by how they were closed. The job ends exactly when all its items are
  closed, as cancelled if it was being cancelled, as completed if no item failed or was skipped, and as completed with
  failures otherwise. A later reconciliation, whenever and of whichever jobs, changes nothing of it while its items stay
  as they are.
\<close>

theorem recovery_job_accounts:
  assumes "get_job s u = Some j" "rj_status j \<in> set ACTIVE_JOB_STATUSES" "ids = None \<or> u \<in> set (the ids)"
  shows "\<exists>j'. get_job (reconcile_jobs env ids s) u = Some j' \<and>
    rj_queued_count j' = items_in s u [ITEM_QUEUED] \<and>
    rj_waiting_count j' = items_in s u [ITEM_WAITING_DEPENDENCY, ITEM_WAITING_CAPACITY] \<and>
    rj_dispatched_count j' = items_in s u [ITEM_DISPATCHED] \<and>
    rj_succeeded_count j' = items_in s u [ITEM_SUCCEEDED] \<and>
    rj_failed_count j' = items_in s u [ITEM_FAILED] \<and>
    rj_stale_count j' = items_in s u [ITEM_SKIPPED_STALE] \<and>
    rj_skipped_count j' = items_in s u [ITEM_SKIPPED_DEPENDENCY] \<and>
    rj_cancelled_count j' = items_in s u [ITEM_CANCELLED] \<and>
    rj_queued_count j' + rj_waiting_count j' + rj_dispatched_count j' + rj_completed_count j' = length (items_of s u) \<and>
    rj_completed_count j' = rj_succeeded_count j' + rj_failed_count j' + rj_stale_count j' + rj_skipped_count j' +
      rj_cancelled_count j' \<and>
    rj_status j' =
      (if items_of s u = [] \<or> (\<exists>i\<in>set (items_of s u). \<not> item_terminal i) then rj_status j
       else if rj_status j = JOB_CANCELLING then JOB_CANCELLED
       else if \<forall>i\<in>set (items_of s u). ri_status i \<in> set SUCCESSFUL_ITEM_STATUSES then JOB_COMPLETED
       else JOB_COMPLETED_WITH_FAILURES) \<and>
    get_job (reconcile_jobs env' ids' (reconcile_jobs env ids s)) u = Some j'"
proof -
  let ?items = "items_of s u"
  let ?j = "recounted_job (env_now env) ?items j"
  let ?j' = "touched_job env j ?j"
  have get: "get_job (reconcile_jobs env ids s) u = Some ?j'"
    using assms get_job_id [OF assms(1)] by (auto simp: get_job_reconciled split: option.splits)
  have ended: "length (filter (\<lambda>i. ri_status i \<in> set TERMINAL_ITEM_STATUSES) ?items) = length ?items \<longleftrightarrow>
      (\<forall>i\<in>set ?items. item_terminal i)"
    by (simp add: all_terminal_iff item_terminal_def)
  have status: "rj_status ?j =
      (if ?items = [] \<or> (\<exists>i\<in>set ?items. \<not> item_terminal i) then rj_status j
       else if rj_status j = JOB_CANCELLING then JOB_CANCELLED
       else if \<forall>i\<in>set ?items. ri_status i \<in> set SUCCESSFUL_ITEM_STATUSES then JOB_COMPLETED
       else JOB_COMPLETED_WITH_FAILURES)"
    by (auto simp: recounted_job_def Let_def ended filter_empty_conv item_terminal_def)
  have counters: "rj_queued_count ?j = items_in s u [ITEM_QUEUED]"
    "rj_waiting_count ?j = items_in s u [ITEM_WAITING_DEPENDENCY, ITEM_WAITING_CAPACITY]"
    "rj_dispatched_count ?j = items_in s u [ITEM_DISPATCHED]" "rj_succeeded_count ?j = items_in s u [ITEM_SUCCEEDED]"
    "rj_failed_count ?j = items_in s u [ITEM_FAILED]" "rj_stale_count ?j = items_in s u [ITEM_SKIPPED_STALE]"
    "rj_skipped_count ?j = items_in s u [ITEM_SKIPPED_DEPENDENCY]" "rj_cancelled_count ?j = items_in s u [ITEM_CANCELLED]"
    using count_waiting [of ?items] by (simp_all add: recounted_job_def Let_def count_status_in) (simp_all add: items_in_def)
  have total: "rj_queued_count ?j + rj_waiting_count ?j + rj_dispatched_count ?j + rj_completed_count ?j = length ?items"
    using all_counts [of ?items] by (simp add: recounted_job_def Let_def)
  have closed: "rj_completed_count ?j = rj_succeeded_count ?j + rj_failed_count ?j + rj_stale_count ?j +
      rj_skipped_count ?j + rj_cancelled_count ?j"
    using terminal_counts [of ?items] by (simp add: recounted_job_def Let_def)
  note outer = get_job_reconciled [of env' ids' "reconcile_jobs env ids s" u, unfolded get option.map]
  have again: "get_job (reconcile_jobs env' ids' (reconcile_jobs env ids s)) u = Some ?j'"
  proof (cases "rj_status ?j \<in> set ACTIVE_JOB_STATUSES")
    case True
    have "recounted_job (env_now env') ?items ?j' = ?j'"
      using recounted_again [OF True] touched_cases [of env j ?j] by metis
    then have "touched_job env' ?j' (recounted_job (env_now env') ?items ?j') = ?j'" by (simp add: touched_job_def)
    then show ?thesis using get_job_id [OF get] by (simp add: outer)
  next
    case False
    then show ?thesis by (simp add: outer)
  qed
  show ?thesis using counters total closed status get again by (intro exI [of _ ?j'] conjI) simp_all
qed

theorem recovery_job_accounts_witness:
  "\<exists>j'. get_job (reconcile_jobs sample_env None
      (sample_recovery_state [sample_item\<lparr>ri_status := ITEM_FAILED\<rparr>])) 75 = Some j' \<and>
    rj_completed_count j' = 1 \<and> rj_failed_count j' = 1 \<and> rj_status j' = JOB_COMPLETED_WITH_FAILURES"
proof -
  let ?i = "sample_item\<lparr>ri_status := ITEM_FAILED\<rparr>"
  let ?s = "sample_recovery_state [?i]"
  have job: "get_job ?s 75 = Some sample_job"
    by (simp add: get_job_def sample_recovery_state_def sample_job_def row_simps)
  have items: "items_of ?s 75 = [?i]"
    by (simp add: items_of_def sample_recovery_state_def sample_item_def)
  have active: "rj_status sample_job \<in> set ACTIVE_JOB_STATUSES" "rj_status sample_job \<noteq> JOB_CANCELLING"
    by (simp_all add: sample_job_def ACTIVE_JOB_STATUSES_def)
  from recovery_job_accounts [OF job active(1), of None sample_env sample_env None] obtain j' where j':
    "get_job (reconcile_jobs sample_env None ?s) 75 = Some j'" 
    "rj_status j' = JOB_COMPLETED_WITH_FAILURES" "rj_completed_count j' = 1 \<and> rj_failed_count j' = 1"
    using active(2)
    by (auto simp: items items_in_def item_terminal_def TERMINAL_ITEM_STATUSES_def SUCCESSFUL_ITEM_STATUSES_def)
  then show ?thesis by blast
qed

section \<open>Failing dispatches\<close>

lemma get_item_put [simp]:
  "get_recovery (rs_db (put_item i s)) u = (if ri_id i = u then Some i else get_recovery (rs_db s) u)"
  by (simp add: put_item_def map_db_def row_simps)

lemma other_tables_item [simp]:
  "rs_db (reconcile_jobs env ids s) = rs_db s" "rs_db (resolve_linked_dead_letter env i b s) = rs_db s"
  by (simp_all add: reconcile_jobs_def resolve_linked_dead_letter_def)

lemma commit_session_Inr: "commit_session env s0 s = (Inr u, s') \<Longrightarrow> s' = s"
  by (simp add: commit_session_def split: if_splits)

lemma finished_terminal [simp]:
  "ri_id (finish_item re st reason error i) = ri_id i"
  "ri_retry_limit (finish_item re st reason error i) = ri_retry_limit i"
  "item_terminal (finish_item re st reason error i) \<longleftrightarrow> st \<in> set TERMINAL_ITEM_STATUSES"
  "\<not> ri_reservation_active (finish_item re st reason error i)"
  "ri_status (finish_item re st reason error i) = st"
  by (simp_all add: finish_item_def item_terminal_def)

lemma get_job_kept [simp]:
  "(get_job (reconcile_jobs env ids s) v = None) = (get_job s v = None)"
  "(\<exists>j. get_job (reconcile_jobs env ids s) v = Some j) = (\<exists>j. get_job s v = Some j)"
  "get_job (resolve_linked_dead_letter env u b s) v = get_job s v"
  "get_job (put_item i s) v = get_job s v"
  by (simp_all add: get_job_reconciled) (simp_all add: get_job_def resolve_linked_dead_letter_def put_item_def map_db_def)

lemma ri_job_kept [simp]:
  "ri_job (finish_item re st reason error i) = ri_job i" "ri_job (charged_item b i) = ri_job i"
  "ri_job (set_queued re v reason error i) = ri_job i"
  by (simp_all add: finish_item_def charged_item_def set_queued_def)

lemma charged_item_simps [simp]:
  "ri_id (charged_item b i) = ri_id i" "ri_retry_limit (charged_item b i) = ri_retry_limit i"
  "ri_failures_consumed (charged_item b i) = ri_failures_consumed i + (if b then 1 else 0)"
  by (simp_all add: charged_item_def)

text \<open>A recorded failure either schedules the item again, charged and within its limit, or closes it.\<close>

lemma failure_recorded_cases:
  assumes "record_dispatch_failure re u e rt s = (Inr x, s')" "get_recovery (rs_db s) u = Some i"
    and "get_job s (ri_job i) \<noteq> None" "\<not> item_terminal i"
  shows "\<exists>i'. get_recovery (rs_db s') u = Some i' \<and> ri_retry_limit i' = ri_retry_limit i \<and>
    get_job s' (ri_job i') \<noteq> None \<and>
    (ri_status i' = ITEM_QUEUED \<and> rt \<and> ri_failures_consumed i' = ri_failures_consumed i + 1 \<and>
       ri_failures_consumed i' < ri_retry_limit i' \<and> \<not> item_terminal i' \<or>
     item_terminal i' \<and> \<not> ri_reservation_active i')"
proof -
  have id: "ri_id i = u" using assms(2) unfolding get_recovery_def by (rule row_get_key)
  have closed: "ITEM_SKIPPED_STALE \<in> set TERMINAL_ITEM_STATUSES" "ITEM_FAILED \<in> set TERMINAL_ITEM_STATUSES"
    "ITEM_QUEUED \<notin> set TERMINAL_ITEM_STATUSES"
    by (simp_all add: TERMINAL_ITEM_STATUSES_def)
  show ?thesis
    using assms id closed
    by (auto simp: record_dispatch_failure_def Let_def set_queued_def item_terminal_def
        split: option.splits if_splits sum.splits dest!: commit_session_Inr)
qed
text \<open>
  A run of dispatches of one item that all fail, with what other transactions do before each. They may do
  anything that does not reopen a closed item, forgive a failure, raise the limit or delete the job.
\<close>

fun failing_dispatches ::
  "uuid \<Rightarrow> (recovery_env \<times> recovery_exn \<times> bool \<times> (recovery_state \<Rightarrow> recovery_state)) list \<Rightarrow>
     recovery_state \<Rightarrow> recovery_state option" where
  "failing_dispatches u [] s = Some s"
| "failing_dispatches u ((re, e, rt, others) # fs) s =
     (case record_dispatch_failure re u e rt (others s) of
        (Inl _, _) \<Rightarrow> None | (Inr _, s') \<Rightarrow> failing_dispatches u fs s')"

definition forgives_nothing :: "uuid \<Rightarrow> (recovery_state \<Rightarrow> recovery_state) \<Rightarrow> bool" where
  "forgives_nothing u others \<longleftrightarrow>
     (\<forall>s i. get_recovery (rs_db s) u = Some i \<and> get_job s (ri_job i) \<noteq> None \<longrightarrow>
        (\<exists>i'. get_recovery (rs_db (others s)) u = Some i' \<and> ri_failures_consumed i \<le> ri_failures_consumed i' \<and>
              ri_retry_limit i' = ri_retry_limit i \<and> (item_terminal i \<longrightarrow> item_terminal i') \<and>
              get_job (others s) (ri_job i') \<noteq> None))"

lemma failing_dispatches_charge:
  assumes "failing_dispatches u fs s = Some s'" "get_recovery (rs_db s) u = Some i" "get_job s (ri_job i) \<noteq> None"
    and "\<forall>f\<in>set fs. forgives_nothing u (snd (snd (snd f)))"
  shows "\<exists>i'. get_recovery (rs_db s') u = Some i' \<and> ri_retry_limit i' = ri_retry_limit i \<and>
    (item_terminal i \<longrightarrow> item_terminal i') \<and>
    (item_terminal i' \<or> ri_failures_consumed i + int (length fs) \<le> ri_failures_consumed i' \<and>
       (fs = [] \<or> ri_failures_consumed i' < ri_retry_limit i'))"
  using assms
proof (induction fs arbitrary: s i)
  case Nil
  then show ?case by auto
next
  case (Cons f fs)
  obtain re e rt others where f: "f = (re, e, rt, others)" by (cases f)
  obtain i1 where i1: "get_recovery (rs_db (others s)) u = Some i1" "ri_failures_consumed i \<le> ri_failures_consumed i1"
    "ri_retry_limit i1 = ri_retry_limit i" "item_terminal i \<longrightarrow> item_terminal i1" "get_job (others s) (ri_job i1) \<noteq> None"
    using Cons.prems(2,3,4) f unfolding forgives_nothing_def by force
  obtain s1 where rec: "record_dispatch_failure re u e rt (others s) = (Inr (), s1)"
    and rest: "failing_dispatches u fs s1 = Some s'"
    using Cons.prems(1) f by (auto split: prod.splits sum.splits)
  obtain i2 where i2: "get_recovery (rs_db s1) u = Some i2" "get_job s1 (ri_job i2) \<noteq> None" "ri_retry_limit i2 = ri_retry_limit i1"
    "item_terminal i1 \<longrightarrow> item_terminal i2"
    "item_terminal i2 \<or> ri_failures_consumed i1 + 1 \<le> ri_failures_consumed i2 \<and> ri_failures_consumed i2 < ri_retry_limit i2"
  proof (cases "item_terminal i1")
    case True
    then have "s1 = others s" using rec i1 by (auto simp: record_dispatch_failure_def)
    with True i1 that show thesis by blast
  next
    case False
    from failure_recorded_cases [OF rec i1(1,5) this] that False show thesis by force
  qed
  obtain i' where "get_recovery (rs_db s') u = Some i'" "ri_retry_limit i' = ri_retry_limit i2"
    "item_terminal i2 \<longrightarrow> item_terminal i'"
    "item_terminal i' \<or> ri_failures_consumed i2 + int (length fs) \<le> ri_failures_consumed i' \<and>
       (fs = [] \<or> ri_failures_consumed i' < ri_retry_limit i')"
    using Cons.IH [OF rest i2(1,2)] Cons.prems(4) by auto
  with i1 i2 rest show ?case by (cases "fs = []") auto
qed

text \<open>
  C14. A recovery item whose dispatch keeps failing is closed: after as many recorded failures as its budget
  has left, and at least one, the item is failed or skipped, whatever other transactions do in between, as
  long as they reopen no closed item, forgive no failure and keep its job.
\<close>

theorem failing_dispatches_end:
  assumes "failing_dispatches u fs s = Some s'" "get_recovery (rs_db s) u = Some i" "get_job s (ri_job i) \<noteq> None"
    and "\<forall>f\<in>set fs. forgives_nothing u (snd (snd (snd f)))"
    and "fs \<noteq> []" "ri_retry_limit i \<le> ri_failures_consumed i + int (length fs)"
  shows "\<exists>i'. get_recovery (rs_db s') u = Some i' \<and> item_terminal i'"
  using failing_dispatches_charge [OF assms(1-4)] assms(5,6) by force

lemma get_work_Inl: "get_work re kind w s = Inl e \<Longrightarrow> is_recovery_not_found e"
  by (auto simp: get_work_def work_missing_def split: option.splits)

lemma dispatch_failure_is_recorded:
  "env_commit_ok (re_env re) \<Longrightarrow> \<exists>s'. record_dispatch_failure re u e rt s = (Inr (), s')"
  by (auto simp: record_dispatch_failure_def Let_def commit_session_def dest: get_work_Inl
      split: option.splits sum.splits)

theorem failing_dispatches_end_witness:
  "\<exists>s' i'. failing_dispatches 70
      (replicate 3 (sample_recovery_env, OtherFailure ''TimeoutError'' [], True, id))
      (sample_recovery_state [sample_scheduled_item]) = Some s' \<and>
    get_recovery (rs_db s') 70 = Some i' \<and> item_terminal i'"
proof -
  let ?f = "(sample_recovery_env, OtherFailure ''TimeoutError'' [], True, id :: recovery_state \<Rightarrow> recovery_state)"
  let ?s = "sample_recovery_state [sample_scheduled_item]"
  have recorded: "\<exists>s'. record_dispatch_failure sample_recovery_env u e rt s = (Inr (), s')" for u e rt s
    by (rule dispatch_failure_is_recorded) (simp_all add: sample_recovery_env_def sample_env_def)
  have "\<exists>s'. failing_dispatches 70 (replicate n ?f) s = Some s'" for n s
  proof (induction n arbitrary: s)
    case (Suc n)
    obtain s1 where "record_dispatch_failure sample_recovery_env 70 (OtherFailure ''TimeoutError'' []) True s = (Inr (), s1)"
      using recorded by blast
    with Suc [of s1] show ?case by simp
  qed simp
  then obtain s' where run: "failing_dispatches 70 (replicate 3 ?f) ?s = Some s'" by blast
  have item: "get_recovery (rs_db ?s) 70 = Some sample_scheduled_item"
    by (simp add: sample_recovery_state_def sample_scheduled_item_def sample_item_def get_recovery_def row_simps)
  have job: "get_job ?s (ri_job sample_scheduled_item) \<noteq> None"
    by (simp add: sample_recovery_state_def sample_scheduled_item_def sample_item_def sample_job_def get_job_def row_simps)
  have "\<forall>f\<in>set (replicate 3 ?f). forgives_nothing 70 (snd (snd (snd f)))"
    by (auto simp: forgives_nothing_def)
  moreover have "ri_retry_limit sample_scheduled_item \<le>
      ri_failures_consumed sample_scheduled_item + int (length (replicate 3 ?f))"
    by (simp add: sample_scheduled_item_def sample_item_def)
  ultimately have "\<exists>i'. get_recovery (rs_db s') 70 = Some i' \<and> item_terminal i'"
    using failing_dispatches_end [OF run item job] by force
  with run show ?thesis by blast
qed

end
