(* ===== verification/Recovery_Planning.thy ===== *)
theory Recovery_Planning
  imports Recovery_Lifecycle Recovery_Plans Recovery_Properties
begin

text \<open>
  What the plans of \<open>Recovery_Jobs\<close> promise: a replay with its dependents follows the pipeline, and is refused
  when a dependent is in other hands. Two plans the runtime cannot carry out are shown as well: dependents with
  an open dead letter, and cancelled items whose dead letter stays queued.
\<close>

section \<open>A plan follows the pipeline\<close>

text \<open>
  C10. A plan has one item for the root and, with its dependents, one for every stage behind it, in pipeline
  order. The root is ready at the version it was shown with; every other item waits for the planned item of its
  prerequisite stage. No dependent stage is in the hands of another job, in work or a duplicate, and a terminal
  failure among them was acknowledged.
\<close>

theorem cascade_plan_follows_the_pipeline:
  assumes "build_execution_items re q s = Inr items" "wr_stage (pq_work q) = Some st" "wr_file (pq_work q) = Some f"
  shows "map ri_stage items = map Some (execution_stages st (pq_scope q)) \<and>
    (\<forall>i\<in>set items. ri_file i = Some f \<and> ri_job i = rj_id (pq_job q)) \<and>
    (\<exists>root rest. items = root # rest \<and> ri_status root = ITEM_QUEUED \<and> ri_is_root root \<and> ri_parent root = None \<and>
       ri_expected_version root = wr_version (pq_work q) \<and>
       (\<forall>i\<in>set rest. ri_status i = ITEM_WAITING_DEPENDENCY \<and> \<not> ri_is_root i \<and> ri_action i = REPLAY_STAGE \<and>
          (\<exists>p\<in>set items. ri_parent i = Some (ri_id p) \<and> ri_stage p = Option.bind (ri_stage i) prerequisite_by_stage))) \<and>
    (\<forall>t\<in>set (tl (execution_stages st (pq_scope q))). \<not> stage_reserved s f t \<and>
       (\<forall>e. get_journal (rs_db s) f t = Some e \<longrightarrow>
          sj_status e \<notin> {STAGE_PENDING, STAGE_PROCESSING, STAGE_DUPLICATE} \<and>
          (sj_status e = STAGE_FAILED \<and> \<not> sj_is_retryable e \<longrightarrow> pq_acknowledged q)))"
proof -
  obtain mf rest where "get_file (rs_db s) f = Some mf" and mf: "mf_id mf = f" and
    free: "\<forall>t\<in>set (tl (execution_stages st (pq_scope q))). dependent_conflict s f (pq_acknowledged q) t = None" and
    items: "items = stage_item re q mf s st True None # rest" and
    rest: "list_all2 (\<lambda>t i. \<exists>p. i = stage_item re q mf s t False (Some (pq_ids q p)) \<and> prerequisite_by_stage t = Some p \<and>
       p \<in> set (execution_stages st (pq_scope q))) (tl (execution_stages st (pq_scope q))) rest"
    by (rule plan_items [OF assms])
  have "map ri_stage rest = map Some (tl (execution_stages st (pq_scope q)))" by (rule list_all2_map_eq [OF rest]) auto
  then have stages: "map ri_stage items = map Some (execution_stages st (pq_scope q))"
    by (subst execution_stages_Cons) (simp add: items)
  have later: "ri_file i = Some f \<and> ri_job i = rj_id (pq_job q) \<and> ri_status i = ITEM_WAITING_DEPENDENCY \<and> \<not> ri_is_root i \<and>
      ri_action i = REPLAY_STAGE \<and>
      (\<exists>p\<in>set items. ri_parent i = Some (ri_id p) \<and> ri_stage p = Option.bind (ri_stage i) prerequisite_by_stage)"
    if i: "i \<in> set rest" for i
  proof -
    from list_all2_source [OF rest i] obtain t p where t: "i = stage_item re q mf s t False (Some (pq_ids q p))"
      "prerequisite_by_stage t = Some p" "p \<in> set (execution_stages st (pq_scope q))" by auto
    from plan_item_of_stage [OF items rest t(3)] obtain b par where p: "stage_item re q mf s p b par \<in> set items" by auto
    show ?thesis using t mf by (simp, intro bexI [OF _ p]) simp
  qed
  have "\<not> stage_reserved s f t \<and> (\<forall>e. get_journal (rs_db s) f t = Some e \<longrightarrow>
      sj_status e \<notin> {STAGE_PENDING, STAGE_PROCESSING, STAGE_DUPLICATE} \<and>
      (sj_status e = STAGE_FAILED \<and> \<not> sj_is_retryable e \<longrightarrow> pq_acknowledged q))"
    if "t \<in> set (tl (execution_stages st (pq_scope q)))" for t
    using bspec [OF free that] by (auto simp: dependent_conflict_def split: if_splits)
  then show ?thesis using stages later items mf by auto
qed

definition sample_plan :: plan_request where
  "sample_plan =
     \<lparr>pq_job = sample_job,
      pq_work = stage_work sample_recovery_env None ((sample_journal CLASSIFY)\<lparr>sj_status := STAGE_FAILED\<rparr>) (Some sample_file)
        (sample_recovery_state []),
      pq_scope = STAGE_AND_DEPENDENTS, pq_limit = 3, pq_acknowledged = False, pq_reserve = True, pq_source = None,
      pq_ids = item_ids sample_recovery_env 0\<rparr>"

theorem cascade_plan_follows_the_pipeline_witness:
  "\<exists>items. build_execution_items sample_recovery_env sample_plan (sample_recovery_state []) = Inr items \<and>
     map ri_stage items = [Some CLASSIFY, Some SYNC_QDRANT, Some SYNC_MEILI]"
proof -
  let ?r = "build_execution_items sample_recovery_env sample_plan (sample_recovery_state [])"
  have "(case ?r of Inl e \<Rightarrow> False | Inr items \<Rightarrow> True)" by code_simp
  then obtain items where items: "?r = Inr items" by (cases ?r) simp_all
  have q: "wr_stage (pq_work sample_plan) = Some CLASSIFY" "wr_file (pq_work sample_plan) = Some 1"
    "pq_scope sample_plan = STAGE_AND_DEPENDENTS"
    by (simp_all add: sample_plan_def stage_work_def sample_journal_def Let_def)
  show ?thesis using cascade_plan_follows_the_pipeline [OF items q(1,2)] items q(3) by (simp add: execution_stages_def)
qed

section \<open>Dependents with an open dead letter\<close>

text \<open>The errors that close a claimed item as stale.\<close>

definition stale_error :: "recovery_exn \<Rightarrow> bool" where
  "stale_error e \<longleftrightarrow> (\<exists>t. e = AdminRecoveryNotFoundError t \<or> e = AdminRecoveryConflictError t)"

lemma stale_error_skips:
  assumes "claim_next_item re telegram excluded s = Some (i, s1)" "validate_claimed_item re i s1 = (Inl e, i1, s2)"
    "stale_error e" "env_commit_ok (re_env re)" "ri_id i1 = ri_id i"
  shows "\<exists>s' i'. dispatch_next re telegram excluded s = (Inr (Some (ri_id i, SkippedStale)), s') \<and>
    get_recovery (rs_db s') (ri_id i) = Some i' \<and> ri_status i' = ITEM_SKIPPED_STALE"
proof -
  obtain t where "invalid_item re e i1 = Some (finish_item re ITEM_SKIPPED_STALE (Some ''canonical_state_changed'') (Some t) i1, SkippedStale)"
    using assms(3) by (auto simp: stale_error_def invalid_item_def)
  then show ?thesis
    using assms by (simp add: dispatch_next_def commit_session_def put_item_def map_db_def get_recovery_def put_recovery_def finish_item_def)
qed

lemma lock_canonical_stale: "lock_canonical_work i s = Some e \<Longrightarrow> stale_error e"
  by (auto simp: lock_canonical_work_def stale_error_def missing_work_def split: option.splits if_splits)

lemma check_candidate_stale: "check_candidate_action i actions = Some e \<Longrightarrow> stale_error e"
  by (auto simp: check_candidate_action_def stale_error_def split: option.splits if_splits)

lemma load_stage_stale: "load_candidate_work re WORK_PIPELINE_STAGE w s = Inl e \<Longrightarrow> stale_error e"
  by (auto simp: load_candidate_work_def stale_error_def work_missing_def file_missing_def split: option.splits)

text \<open>A stage replay of an existing row is stale when its candidate shows another version.\<close>

lemma other_version_is_stale:
  assumes "ri_action i = REPLAY_STAGE" "ri_work_kind i = WORK_PIPELINE_STAGE" "ri_work_id i = WorkRow u"
    "ri_file i = Some f" "ri_stage i = Some st" "verify_recovery_item_source_object re i s = None"
    "\<And>work mf. load_candidate_work re WORK_PIPELINE_STAGE (WorkRow u) s = Inr (work, mf) \<Longrightarrow> wr_version work \<noteq> ri_expected_version i"
  shows "\<exists>e. validate_claimed_item re i s = (Inl e, i, s) \<and> stale_error e"
proof (cases "lock_canonical_work i s")
  case (Some e)
  with assms(6) lock_canonical_stale show ?thesis by (simp add: validate_claimed_item_def)
next
  case None
  have planned: "ensure_planned_stage_row re i s = (Inr False, i, s)"
    using assms(3-5) by (simp add: ensure_planned_stage_row_def work_uuid_def)
  have replays: "replays_stage i" "ri_action i \<noteq> RECOVER_DEAD_LETTER" using assms(1) by (simp_all add: replays_stage_def)
  show ?thesis
  proof (cases "load_candidate_work re WORK_PIPELINE_STAGE (WorkRow u) s")
    case (Inl e)
    then have "project_claimed_item re i s = (Inl e, i, s)"
      using planned replays assms(2,3) by (simp add: project_claimed_item_def get_candidate_def)
    with Inl None assms(6) load_stage_stale show ?thesis by (simp add: validate_claimed_item_def)
  next
    case (Inr p)
    obtain work mf where p: "p = (work, mf)" by (cases p)
    obtain actions where cand: "get_candidate re WORK_PIPELINE_STAGE (WorkRow u) (Some (ri_id i)) False s = Inr (work, actions)"
      using Inr p by (simp add: get_candidate_def)
    have version: "wr_version work \<noteq> ri_expected_version i" using assms(7) Inr p by simp
    show ?thesis
    proof (cases "check_candidate_action i actions")
      case (Some e)
      then have "project_claimed_item re i s = (Inl e, i, s)"
        using planned replays assms(2,3) cand by (simp add: project_claimed_item_def)
      with Some None assms(6) check_candidate_stale show ?thesis by (simp add: validate_claimed_item_def)
    next
      case free: None
      then have "project_claimed_item re i s = (Inr (False, work), i, s)"
        using planned replays assms(2,3) cand by (simp add: project_claimed_item_def)
      with version None assms(6) replays(2) show ?thesis
        by (simp add: validate_claimed_item_def relock_dead_letter_def stale_error_def)
    qed
  qed
qed

text \<open>The open dead letter of a stage row that the candidate shows: the oldest one.\<close>

definition oldest_open_letter :: "recovery_state \<Rightarrow> uuid \<Rightarrow> dead_letter option" where
  "oldest_open_letter s u =
     find (\<lambda>r. dl_work r = Some (WORK_PIPELINE_STAGE, u) \<and> open_dead_letter r) (sort_key dl_created_at (rs_ledger s))"

lemma linked_version:
  assumes "oldest_open_letter s u = Some r" "wr_kind w = WORK_PIPELINE_STAGE" "wr_id w = WorkRow u"
    "dead_letter_matches_work re r w"
  shows "\<exists>t. wr_version (with_linked_dead_letter re s w) = LinkedVersion (wr_version w) t"
proof -
  have "(\<lambda>r. (case dl_work r of None \<Rightarrow> False | Some (kind, v) \<Rightarrow> kind = wr_kind w \<and> WorkRow v = wr_id w) \<and> open_dead_letter r) =
      (\<lambda>r. dl_work r = Some (WORK_PIPELINE_STAGE, u) \<and> open_dead_letter r)"
    by (intro ext) (auto simp: assms(2,3) split: option.splits)
  then show ?thesis
    using assms(1,4) by (simp add: with_linked_dead_letter_def oldest_open_letter_def linked_work_def)
qed

text \<open>
  C28. A dependent of a plan is never replayed when the oldest open dead letter of its row, the one the candidate is
  linked to, is of the row's last event: the plan records the row's plain version, the candidate at dispatch shows the
  version linked to the dead letter, and the item is skipped as stale although nothing has changed.
\<close>

theorem dead_lettered_dependent_is_skipped:
  assumes plan: "build_execution_items re0 q s0 = Inr items" "wr_stage (pq_work q) = Some st" "wr_file (pq_work q) = Some f"
    and item: "i \<in> set (tl items)" "ri_work_id i = WorkRow u" "claim_next_item re False excluded s = Some (i, s1)"
    and usable: "verify_recovery_item_source_object re i s1 = None" "env_commit_ok (re_env re)"
    and row: "journal_by_id u s = Some e" "sj_id e = u" "sj_last_event_id e = Some ev"
    and letter: "oldest_open_letter s u = Some r"
      "parse_uuid (re_codecs re) (dict_get (dl_safe_payload r) ''event_id'') = Some ev"
  shows "\<exists>s' i'. dispatch_next re False excluded s = (Inr (Some (ri_id i, SkippedStale)), s') \<and>
    get_recovery (rs_db s') (ri_id i) = Some i' \<and> ri_status i' = ITEM_SKIPPED_STALE"
proof -
  obtain mf rest where "get_file (rs_db s0) f = Some mf" "mf_id mf = f"
    "\<forall>t\<in>set (tl (execution_stages st (pq_scope q))). dependent_conflict s0 f (pq_acknowledged q) t = None"
    and items: "items = stage_item re0 q mf s0 st True None # rest"
    and rest: "list_all2 (\<lambda>t i. \<exists>p. i = stage_item re0 q mf s0 t False (Some (pq_ids q p)) \<and> prerequisite_by_stage t = Some p \<and>
       p \<in> set (execution_stages st (pq_scope q))) (tl (execution_stages st (pq_scope q))) rest"
    by (rule plan_items [OF plan])
  from item(1) items have "i \<in> set rest" by simp
  from list_all2_source [OF rest this] obtain t p where i: "i = stage_item re0 q mf s0 t False (Some (pq_ids q p))" by auto
  have plain: "ri_expected_version i = row_version x y" if "get_journal (rs_db s0) (mf_id mf) t = Some e'"
    "x = sj_updated_at e'" "y = sj_last_event_id e'" for e' x y
    using i that by simp
  obtain e' where e': "get_journal (rs_db s0) (mf_id mf) t = Some e'"
    using item(2) i by (cases "get_journal (rs_db s0) (mf_id mf) t") simp_all
  have s1: "rs_db s1 = rs_db s" "rs_ledger s1 = rs_ledger s"
    using item(3) by (auto simp: claim_next_item_def Let_def put_job_def split: option.splits if_splits)
  have load: "wr_version work \<noteq> ri_expected_version i"
    if "load_candidate_work re WORK_PIPELINE_STAGE (WorkRow u) s1 = Inr (work, mf')" for work mf'
  proof -
    have journal: "journal_by_id u s1 = Some e" using row(1) s1 by (simp add: journal_by_id_def)
    define w where "w = stage_work re (candidate_blocked (sj_status e \<in> {STAGE_PENDING, STAGE_PROCESSING})) e mf' s1"
    have "work = with_linked_dead_letter re s1 w"
      using that journal by (auto simp: load_candidate_work_def work_uuid_def w_def split: option.splits)
    moreover have w: "wr_kind w = WORK_PIPELINE_STAGE" "wr_id w = WorkRow u" "wr_event w = Some ev"
      using row(2,3) by (simp_all add: w_def stage_work_def Let_def)
    moreover have "dl_work r = Some (WORK_PIPELINE_STAGE, u)"
      using letter(1) by (auto simp: oldest_open_letter_def dest: find_SomeD)
    then have "dead_letter_matches_work re r w"
      using letter(2) w by (simp add: dead_letter_matches_work_def)
    moreover have "oldest_open_letter s1 u = Some r" using letter(1) s1(2) by (simp add: oldest_open_letter_def)
    ultimately obtain x where "wr_version work = LinkedVersion (wr_version w) x"
      using linked_version [of s1 u r w re] by auto
    then show ?thesis using plain [OF e' refl refl] by (simp add: row_version_def)
  qed
  obtain e where "validate_claimed_item re i s1 = (Inl e, i, s1)" "stale_error e"
    using other_version_is_stale [of i u "mf_id mf" t re s1] i item(2) usable(1) load by auto
  from stale_error_skips [OF item(3) this usable(2) refl] show ?thesis .
qed

lemma first_two: "map g (take 2 xs) = [a, b] \<Longrightarrow> \<exists>x y zs. xs = x # y # zs \<and> g x = a \<and> g y = b"
  by (cases xs; cases "tl xs") (simp_all add: numeral_2_eq_2)

definition sample_letter :: dead_letter where
  "sample_letter =
     \<lparr>dl_id = 90, dl_deduplication_key = ''k'', dl_broker_message_id = None, dl_payload_hash = ''h'', dl_event_type = None,
      dl_work = Some (WORK_PIPELINE_STAGE, 51), dl_normalized_reason = ''embed_failed'', dl_death_count = 1,
      dl_safe_payload = [(''event_id'', PyStr (uuid_text 61))], dl_safe_headers = [], dl_status = DL_UNRESOLVED,
      dl_recovery_item = None, dl_resolved_at = None, dl_resolution_note = None, dl_created_at = 5, dl_updated_at = 5\<rparr>"

definition sample_cascade_state :: "recovery_item list \<Rightarrow> recovery_state" where
  "sample_cascade_state items =
     \<lparr>rs_db = empty_db\<lparr>db_files := [sample_file],
        db_journal := (\<lambda>k. if k = (1, OCR) then Some ((sample_journal OCR)\<lparr>sj_status := STAGE_SUCCEEDED\<rparr>)
          else if k = (1, EMBED)
          then Some ((sample_journal EMBED)\<lparr>sj_id := 51, sj_status := STAGE_FAILED, sj_last_event_id := Some 61\<rparr>) else None),
        db_recovery := items\<rparr>,
      rs_jobs = [sample_job], rs_requests = [], rs_backfills = [], rs_backfill_attempts = [], rs_posts = [],
      rs_channels = (\<lambda>_. None), rs_ledger = [sample_letter], rs_capacity = (\<lambda>_. None), rs_admins = [5], rs_audit = []\<rparr>"

definition sample_cascade :: plan_request where
  "sample_cascade = sample_plan\<lparr>pq_work := stage_work sample_recovery_env None ((sample_journal OCR)\<lparr>sj_status := STAGE_SUCCEEDED\<rparr>)
     (Some sample_file) (sample_recovery_state [])\<rparr>"

definition sample_cascade_items :: "recovery_item list" where
  "sample_cascade_items =
     (case build_execution_items sample_recovery_env sample_cascade (sample_cascade_state []) of Inl e \<Rightarrow> [] | Inr items \<Rightarrow> items)"

definition sample_half_done :: recovery_state where
  "sample_half_done = sample_cascade_state
     ((hd sample_cascade_items)\<lparr>ri_status := ITEM_SUCCEEDED\<rparr> # tl sample_cascade_items)"

theorem dead_lettered_dependent_is_skipped_witness:
  "\<exists>s' i'. dispatch_next sample_recovery_env False [] sample_half_done = (Inr (Some (913, SkippedStale)), s') \<and>
     get_recovery (rs_db s') 913 = Some i' \<and> ri_status i' = ITEM_SKIPPED_STALE"
proof -
  let ?r = "build_execution_items sample_recovery_env sample_cascade (sample_cascade_state [])"
  let ?c = "claim_next_item sample_recovery_env False [] sample_half_done"
  have "(case ?r of Inl e \<Rightarrow> False | Inr items \<Rightarrow> True)" by code_simp
  then have plan: "?r = Inr sample_cascade_items" by (cases ?r) (simp_all add: sample_cascade_items_def)
  have q: "wr_stage (pq_work sample_cascade) = Some OCR" "wr_file (pq_work sample_cascade) = Some 1"
    by (simp_all add: sample_cascade_def stage_work_def sample_journal_def Let_def)
  have ids: "map (\<lambda>i. (ri_id i, ri_file i, ri_work_id i)) (take 2 sample_cascade_items) =
      [(912, Some 1, WorkRow 50), (913, Some 1, WorkRow 51)]" "\<forall>i\<in>set (drop 2 sample_cascade_items). ri_id i > 913"
    by code_simp+
  have "map_option (ri_id \<circ> fst) ?c = Some 913" by code_simp
  then obtain i s1 where claim: "?c = Some (i, s1)" "ri_id i = 913" by auto
  obtain root j rest where rows: "sample_cascade_items = root # j # rest" "ri_id root = 912" "ri_work_id j = WorkRow 51"
    "ri_file j = Some 1" using first_two [OF ids(1)] by blast
  have "\<forall>i\<in>set rest. ri_id i > 913" using ids(2) unfolding rows(1) by (simp add: numeral_2_eq_2)
  note items = rows this
  from claimed_item(1) [OF claim(1)] claim(2) have i: "i = j"
    by (auto simp: sample_half_done_def sample_cascade_state_def items(1,2) dest!: bspec [OF items(5)])
  have i_mem: "i \<in> set (tl sample_cascade_items)" using i by (simp add: items(1))
  have w: "ri_work_id i = WorkRow 51" using i items(3) by simp
  have db: "rs_db s1 = rs_db sample_half_done" by (rule claimed_item(3) [OF claim(1)])
  have mf: "get_file (rs_db s1) 1 = Some sample_file"
    unfolding db by (simp add: sample_half_done_def sample_cascade_state_def get_file_def sample_file_def)
  have "probe_source_object sample_recovery_env (Some (mf_s3_original_key sample_file)) = PRESENT" by code_simp
  with mf i items(4) have source: "verify_recovery_item_source_object sample_recovery_env i s1 = None"
    by (simp add: verify_recovery_item_source_object_def assert_source_object_usable_def)
  have journal: "journal_by_id 51 sample_half_done = journal_by_id 51 (sample_cascade_state [])"
    by (simp add: sample_half_done_def sample_cascade_state_def journal_by_id_def journal_entries_def get_journal_def)
  have "map_option (\<lambda>e. (sj_id e, sj_last_event_id e)) (journal_by_id 51 (sample_cascade_state [])) = Some (51, Some 61)"
    by code_simp
  then obtain e where row: "journal_by_id 51 sample_half_done = Some e" "sj_id e = 51" "sj_last_event_id e = Some 61"
    using journal by auto
  have letter: "oldest_open_letter sample_half_done 51 = Some sample_letter"
    by (simp add: oldest_open_letter_def sample_half_done_def sample_cascade_state_def sample_letter_def open_dead_letter_def)
  have event: "parse_uuid (re_codecs sample_recovery_env) (dict_get (dl_safe_payload sample_letter) ''event_id'') = Some 61"
    by code_simp
  show ?thesis
    using dead_lettered_dependent_is_skipped [OF plan q i_mem w claim(1) source _ row letter event] claim(2)
    by (simp add: sample_recovery_env_def sample_env_def)
qed

end
