(* ===== verification/Recovery_Steps.thy ===== *)
theory Recovery_Steps
  imports Recovery_Lifecycle Recovery_Plans Recovery_Properties
begin

text \<open>
  The administrators' operations on the items and the transition system of everything that changes them: the
  refinement of the abstract item life, and the well-formedness of the plans in the database.
\<close>

section \<open>Operations on jobs\<close>

text \<open>What an operation may do to the items: let them evolve and append a fresh, well-formed plan.\<close>

definition items_grow :: "recovery_state \<Rightarrow> recovery_state \<Rightarrow> bool" where
  "items_grow s s' \<longleftrightarrow>
     (\<exists>rows new. db_recovery (rs_db s') = rows @ new \<and> list_all2 evolves (db_recovery (rs_db s)) rows \<and>
        items_typed new \<and> (\<forall>i\<in>set new. freshly_planned i) \<and> distinct (map ri_id new) \<and>
        ri_id ` set new \<inter> ri_id ` set (db_recovery (rs_db s)) = {})"

lemma grow_evolved: "state_evolves s s' \<Longrightarrow> items_grow s s'"
  unfolding items_grow_def by (rule exI [of _ "db_recovery (rs_db s')"], rule exI [of _ "[]"]) (simp add: items_typed_def)

lemma grow_same: "db_recovery (rs_db s') = db_recovery (rs_db s) \<Longrightarrow> items_grow s s'"
  by (rule grow_evolved) (simp add: item_table.table_refl)

lemma grow_wf: "items_wf s \<Longrightarrow> items_grow s s' \<Longrightarrow> items_wf s'"
proof -
  assume wf: "items_wf s" and "items_grow s s'"
  then obtain rows new where g: "db_recovery (rs_db s') = rows @ new" "list_all2 evolves (db_recovery (rs_db s)) rows"
    "distinct (map ri_id new)" "ri_id ` set new \<inter> ri_id ` set (db_recovery (rs_db s)) = {}"
    by (auto simp: items_grow_def)
  from item_table.table_keys [OF g(2)] have keys: "map ri_id rows = map ri_id (db_recovery (rs_db s))" .
  then have "ri_id ` set rows = ri_id ` set (db_recovery (rs_db s))" by (metis list.set_map)
  with g wf keys show ?thesis by (auto simp: recovery_wf_def)
qed

text \<open>What \<open>uuid7\<close> promises: new ids, different from each other and from the ids in use.\<close>

definition fresh_ids :: "recovery_env \<Rightarrow> recovery_state \<Rightarrow> bool" where
  "fresh_ids re s \<longleftrightarrow> inj (env_fresh (re_env re)) \<and> range (env_fresh (re_env re)) \<inter> ri_id ` set (db_recovery (rs_db s)) = {}"

lemma item_ids_inj: "inj (env_fresh (re_env re)) \<Longrightarrow> item_ids re n st = item_ids re m st' \<Longrightarrow> n = m \<and> st = st'"
proof -
  assume "inj (env_fresh (re_env re))" "item_ids re n st = item_ids re m st'"
  then have eq: "10 * n + 10 + STAGE_ORDER st = 10 * m + 10 + STAGE_ORDER st'"
    unfolding item_ids_def by (rule injD)
  have bound: "STAGE_ORDER t < 10" for t by (cases t) simp_all
  from eq bound [of st] bound [of st'] have "n = m" by arith
  with eq STAGE_ORDER_inj show ?thesis by simp
qed

text \<open>A list of plans for the roots from \<open>n\<close> on.\<close>

definition planned_from :: "recovery_env \<Rightarrow> nat \<Rightarrow> recovery_item list \<Rightarrow> bool" where
  "planned_from re n items \<longleftrightarrow>
     items_typed items \<and> (\<forall>i\<in>set items. freshly_planned i) \<and> distinct (map ri_id items) \<and>
     (\<forall>i\<in>set items. \<exists>m st. m < n \<and> ri_id i = item_ids re m st)"

lemma planned_from_Nil: "planned_from re n []"
  by (simp add: planned_from_def items_typed_def)

lemma planned_from_Suc: "planned_from re n items \<Longrightarrow> planned_from re (Suc n) items"
  unfolding planned_from_def by (meson less_SucI)

lemma planned_from_plan:
  assumes "planned_from re n items" "build_execution_items re q s = Inr built" "pq_ids q = item_ids re n"
    "inj (env_fresh (re_env re))"
  shows "planned_from re (Suc n) (items @ built)"
proof -
  have inj: "inj (pq_ids q)" unfolding assms(3) using item_ids_inj [OF assms(4)] by (auto simp: inj_def)
  note built = plan_typed [OF assms(2)]
  have ids: "\<exists>st. ri_id i = item_ids re n st" if "i \<in> set built" for i
    using built(3) that assms(3) by auto
  have "ri_id i \<noteq> ri_id j" if "i \<in> set items" "j \<in> set built" for i j
    using assms(1) that ids [OF that(2)] item_ids_inj [OF assms(4)] unfolding planned_from_def by (metis less_irrefl)
  then have "distinct (map ri_id (items @ built))"
    using assms(1) built(4) [OF inj] by (auto simp: planned_from_def)
  moreover have "\<exists>m st. m < Suc n \<and> ri_id i = item_ids re m st" if "i \<in> set (items @ built)" for i
    using that planned_from_Suc [OF assms(1)] ids by (auto simp: planned_from_def)
  ultimately show ?thesis
    using assms(1) built(1,2) unfolding planned_from_def by (auto simp: items_typed_append)
qed

lemma planned_grows:
  assumes "planned_from re n items" "fresh_ids re s" "db_recovery (rs_db s') = db_recovery (rs_db s) @ items"
  shows "items_grow s s'"
proof -
  have "ri_id ` set items \<subseteq> range (env_fresh (re_env re))"
    using assms(1) by (auto simp: planned_from_def item_ids_def)
  with assms show ?thesis
    unfolding items_grow_def planned_from_def fresh_ids_def
    by (intro exI [of _ "db_recovery (rs_db s)"] exI [of _ items]) (auto simp: item_table.table_refl)
qed

lemma commit_job_grows:
  assumes "commit_job re s0 job s = (r, s')" "items_grow s0 s"
  shows "items_grow s0 s'"
  using assms by (auto simp: commit_job_def commit_session_def grow_same split: if_splits)

lemma commit_reservations_grow:
  assumes "commit_reservations re clash s0 job s = (r, s')" "items_grow s0 s"
  shows "items_grow s0 s'"
  using assms by (auto simp: commit_reservations_def commit_session_def grow_same split: if_splits)

lemma audited_db [simp]: "rs_db (audited env admin request action kind target note s) = rs_db s"
  by (simp add: audited_def)

lemma perform_grows:
  assumes "perform_action re admin kind w rq s = (r, s')" "fresh_ids re s"
  shows "items_grow s s'"
proof -
  have inj: "inj (env_fresh (re_env re))" using assms(2) by (simp add: fresh_ids_def)
  have plan: "items_grow s s2"
    if "build_execution_items re q s = Inr items" "pq_ids q = item_ids re 0" "db_recovery (rs_db s2) = db_recovery (rs_db s) @ items"
    for q items s2
    using planned_grows [OF planned_from_plan [OF planned_from_Nil that(1,2) inj] assms(2)] that(3) by simp
  show ?thesis
    using assms(1) unfolding perform_action_def Let_def
    by (auto simp: grow_same add_items_def map_db_def split: option.splits sum.splits prod.splits if_splits
        elim!: commit_reservations_grow intro!: plan)
qed

lemma preview_roots_planned:
  assumes "preview_roots re bq job n refs items s = Inr items'" "planned_from re n items" "inj (env_fresh (re_env re))"
  shows "\<exists>m. planned_from re m items'"
  using assms
proof (induction refs arbitrary: n items)
  case Nil
  then show ?case by auto
next
  case (Cons x refs)
  obtain built where built: "preview_root re bq job n x s = Inr built"
    and rest: "preview_roots re bq job (n + 1) refs (items @ built) s = Inr items'"
    using Cons.prems(1) by (auto split: sum.splits if_splits)
  obtain q where "build_execution_items re q s = Inr built" "pq_ids q = item_ids re n"
    using built by (auto simp: preview_root_def Let_def split: prod.splits sum.splits if_splits option.splits)
  from planned_from_plan [OF Cons.prems(2) this Cons.prems(3)] Cons.IH [of "n + 1" "items @ built"] rest Cons.prems(3)
  show ?case by simp
qed

lemma preview_grows:
  assumes "preview_batch re admin bq s = (r, s')" "fresh_ids re s"
  shows "items_grow s s'"
proof -
  have inj: "inj (env_fresh (re_env re))" using assms(2) by (simp add: fresh_ids_def)
  have plan: "items_grow s s2" if "preview_roots re bq job 0 refs [] s = Inr items"
    "db_recovery (rs_db s2) = db_recovery (rs_db s) @ items" for job refs items s2
    using preview_roots_planned [OF that(1) planned_from_Nil inj] planned_grows [OF _ assms(2) that(2)] by blast
  show ?thesis
    using assms(1) unfolding preview_batch_def Let_def
    by (auto simp: grow_same add_items_def map_db_def split: option.splits selector.splits sum.splits if_splits
        elim!: commit_job_grows intro: plan)
qed

lemma retry_items_planned:
  assumes "retry_items re job scope n failed built excluded s = Inr (items, excluded')" "planned_from re n built"
    "inj (env_fresh (re_env re))"
  shows "\<exists>m. planned_from re m items"
  using assms
proof (induction failed arbitrary: n built excluded)
  case Nil
  then show ?case by auto
next
  case (Cons x failed)
  note IH = Cons.IH [OF _ _ Cons.prems(3)]
  note skip = planned_from_Suc [OF Cons.prems(2)]
  obtain y where y: "retry_item re job scope n x s = Inr y" using Cons.prems(1) by (auto split: sum.splits)
  show ?case
  proof (cases y)
    case (Inl reason)
    with Cons.prems(1) y skip show ?thesis by (auto intro: IH)
  next
    case (Inr planned)
    then obtain q where "build_execution_items re q s = Inr planned" "pq_ids q = item_ids re n"
      using y by (auto simp: retry_item_def Let_def split: prod.splits sum.splits if_splits option.splits)
    from planned_from_plan [OF Cons.prems(2) this Cons.prems(3)] Cons.prems(1) y Inr skip
    show ?thesis by (auto intro: IH split: if_splits)
  qed
qed

lemma retry_failed_grows:
  assumes "preview_failed_items re admin u request version reason limit s = (r, s')" "fresh_ids re s"
  shows "items_grow s s'"
proof -
  have inj: "inj (env_fresh (re_env re))" using assms(2) by (simp add: fresh_ids_def)
  have plan: "items_grow s s2" if "retry_items re job scope 0 failed [] [] s = Inr (items, excluded)"
    "db_recovery (rs_db s2) = db_recovery (rs_db s) @ items" for job scope failed items excluded s2
    using retry_items_planned [OF that(1) planned_from_Nil inj] planned_grows [OF _ assms(2) that(2)] by blast
  show ?thesis
    using assms(1) unfolding preview_failed_items_def Let_def
    by (auto simp: grow_same add_items_def map_db_def split: option.splits sum.splits prod.splits if_splits
        elim!: commit_job_grows intro: plan)
qed

lemma cancel_evolves:
  assumes "cancel_batch re admin u version reason s = (r, s')"
  shows "state_evolves s s'"
proof -
  have cancelled: "list_all2 evolves rows (map (\<lambda>i. if ri_job i = u then cancelled_by_admin now i else i) rows)" for rows now
    by (intro item_table.table_map) (simp add: evolves_cancelled item_table.evolve_refl)
  show ?thesis
    using assms unfolding cancel_batch_def Let_def commit_job_def commit_session_def
    by (auto simp: item_table.table_refl cancelled map_db_def split: sum.splits option.splits if_splits)
qed

lemma handoff_evolves: "handoff_job re admin u assignee version reason s = (r, s') \<Longrightarrow> state_evolves s s'"
  by (auto simp: handoff_job_def Let_def commit_job_def commit_session_def item_table.table_refl
      split: sum.splits option.splits if_splits)

text \<open>Scheduling reserves the items of the job.\<close>

lemma schedule_locked_evolves:
  assumes "schedule_locked re admin j reason s0 s = (r, s')" "items_wf s"
  shows "state_evolves s s'"
proof -
  define rows where "rows = item_list_order (items_of s (rj_id j))"
  have "distinct (map ri_id rows)"
    using assms(2) by (simp add: rows_def item_list_order_def items_of_def recovery_wf_def distinct_sort_filter)
  moreover have "set rows \<subseteq> set (db_recovery (rs_db s))" by (auto simp: rows_def item_list_order_def items_of_def)
  moreover have "evolves i (i\<lparr>ri_reservation_active := True\<rparr>)" for i
    by (auto simp: item_frame_def intro!: evolvesI)
  ultimately have rows: "list_all2 evolves (db_recovery (rs_db s))
      (fold (\<lambda>i. row_put ri_id (i\<lparr>ri_reservation_active := True\<rparr>)) rows (db_recovery (rs_db s)))"
    using assms(2) by (intro item_table.table_fold_put) (simp_all add: recovery_wf_def)
  have fold_db: "rs_db (fold put_item (map g xs) s1) = (rs_db s1)\<lparr>db_recovery := fold (\<lambda>i. row_put ri_id (g i)) xs (db_recovery (rs_db s1))\<rparr>"
    for g xs s1
    by (induction xs arbitrary: s1) (simp_all add: put_item_def map_db_def put_recovery_def)
  from rows have reserved: "state_evolves s (fold put_item (map (\<lambda>i. i\<lparr>ri_reservation_active := True\<rparr>) rows) s)"
    unfolding fold_db by simp
  show ?thesis
    using assms(1) reserved unfolding schedule_locked_def Let_def rows_def [symmetric] commit_reservations_def commit_session_def
    by (auto simp: item_table.table_refl split: sum.splits option.splits if_splits)
qed

lemma schedule_batch_cases:
  assumes "schedule_batch re admin u version reason others s0 = (r, s')"
  shows "s' = s0 \<or> s' = others s0 \<or> (\<exists>j. schedule_locked re admin j reason s0 (others s0) = (r, s'))"
  using assms by (auto simp: schedule_batch_def Let_def split: sum.splits option.splits)

section \<open>Everything that changes recovery items\<close>

text \<open>
  One operation of the runtime or of an administrator. What other transactions commit while a batch is being
  scheduled are operations too; a crawler that replays a post leaves the items alone, and new ids are fresh.
\<close>

inductive recovery_step :: "recovery_state \<Rightarrow> recovery_state \<Rightarrow> bool" where
  step_dispatching: "dispatch_next re telegram excluded s = (r1, s') \<Longrightarrow> crawler_keeps_items re \<Longrightarrow> recovery_step s s'"
| step_skipping: "skip_failed_dependencies re n s = (r2, s') \<Longrightarrow> recovery_step s s'"
| step_reconciling: "reconcile re0 re re' batch s = (r3, s') \<Longrightarrow> recovery_step s s'"
| step_reclaiming_stage: "reclaim_next_stuck_stage re s = (r4, s') \<Longrightarrow> recovery_step s s'"
| step_reclaiming_ingest: "reclaim_next_stuck_ingest re s = (r5, s') \<Longrightarrow> recovery_step s s'"
| step_performing: "perform_action re admin kind w rq s = (r6, s') \<Longrightarrow> fresh_ids re s \<Longrightarrow> recovery_step s s'"
| step_previewing: "preview_batch re admin bq s = (r7, s') \<Longrightarrow> fresh_ids re s \<Longrightarrow> recovery_step s s'"
| step_retrying: "preview_failed_items re admin u request version reason limit s = (r8, s') \<Longrightarrow> fresh_ids re s \<Longrightarrow>
    recovery_step s s'"
| step_scheduling: "schedule_batch re admin u version reason others s = (r9, s') \<Longrightarrow> recovery_step\<^sup>*\<^sup>* s (others s) \<Longrightarrow>
    recovery_step s s'"
| step_cancelling: "cancel_batch re admin u version reason s = (r10, s') \<Longrightarrow> recovery_step s s'"
| step_handing: "handoff_job re admin u assignee version reason s = (r11, s') \<Longrightarrow> recovery_step s s'"

text \<open>What every operation keeps.\<close>

definition keeps_items :: "recovery_state \<Rightarrow> recovery_state \<Rightarrow> bool" where
  "keeps_items s s' \<longleftrightarrow> (items_wf s \<longrightarrow>
     items_wf s' \<and>
     (\<forall>k i. get_recovery (rs_db s) k = Some i \<longrightarrow> (\<exists>i'. get_recovery (rs_db s') k = Some i' \<and> evolves i i')) \<and>
     (items_typed (db_recovery (rs_db s)) \<longrightarrow> items_typed (db_recovery (rs_db s'))))"

lemma keeps_refl: "keeps_items s s"
  by (auto simp: keeps_items_def item_table.evolve_refl)

lemma keeps_trans:
  assumes "keeps_items a b" "keeps_items b c"
  shows "keeps_items a c"
proof -
  have "\<exists>j. get_recovery (rs_db c) k = Some j \<and> evolves i j" if "items_wf a" "get_recovery (rs_db a) k = Some i" for k i
  proof -
    from assms(1) that obtain i' where "get_recovery (rs_db b) k = Some i'" "evolves i i'" "items_wf b"
      unfolding keeps_items_def by blast
    moreover from assms(2) this obtain j where "get_recovery (rs_db c) k = Some j" "evolves i' j"
      unfolding keeps_items_def by blast
    ultimately show ?thesis using item_table.evolve_trans by blast
  qed
  then show ?thesis using assms unfolding keeps_items_def by blast
qed

lemma evolves_typed: "list_all2 evolves xs ys \<Longrightarrow> items_typed xs \<Longrightarrow> items_typed ys"
proof -
  assume ev: "list_all2 evolves xs ys" and typed: "items_typed xs"
  have "item_typed ys i'" if i': "i' \<in> set ys" for i'
  proof -
    from item_table.table_set [OF ev i'] obtain i where i: "i \<in> set xs" "evolves i i'" by blast
    then have frame: "ri_parent i' = ri_parent i" "ri_job i' = ri_job i" "ri_file i' = ri_file i" "ri_stage i' = ri_stage i"
      by (simp_all add: evolves_def item_frame_def)
    have typed_i: "item_typed xs i" using typed i(1) by (simp add: items_typed_def)
    have "ri_parent i' \<noteq> None" if "ri_status i' = ITEM_WAITING_DEPENDENCY"
      using never_waits_again [of "ri_status i" "ri_status i'"] i(2) typed_i that frame(1)
      by (simp add: evolves_def item_typed_def)
    moreover have "\<exists>p\<in>set ys. ri_id p = u \<and> ri_job p = ri_job i' \<and> ri_file p = ri_file i' \<and> ri_stage i' \<noteq> None \<and>
        ri_stage p = Option.bind (ri_stage i') prerequisite_by_stage" if "ri_parent i' = Some u" for u
    proof -
      from typed_i that frame(1) obtain p where p: "p \<in> set xs" "ri_id p = u" "ri_job p = ri_job i" "ri_file p = ri_file i"
        "ri_stage i \<noteq> None" "ri_stage p = Option.bind (ri_stage i) prerequisite_by_stage"
        by (auto simp: item_typed_def)
      from list_all2_witness [OF ev p(1)] obtain p' where "p' \<in> set ys" "evolves p p'" by blast
      with p frame show ?thesis by (intro bexI [of _ p']) (auto simp: evolves_def item_frame_def)
    qed
    ultimately show ?thesis by (simp add: item_typed_def)
  qed
  then show ?thesis by (simp add: items_typed_def)
qed

lemma grow_keeps:
  assumes "items_wf s \<Longrightarrow> items_grow s s'"
  shows "keeps_items s s'"
  unfolding keeps_items_def
proof (intro impI conjI allI)
  assume wf: "items_wf s"
  note grow = assms [OF wf]
  show "items_wf s'" by (rule grow_wf [OF wf grow])
  from grow obtain rows new where g: "db_recovery (rs_db s') = rows @ new" "list_all2 evolves (db_recovery (rs_db s)) rows"
    "items_typed new" by (auto simp: items_grow_def)
  show "\<exists>i'. get_recovery (rs_db s') k = Some i' \<and> evolves i i'" if "get_recovery (rs_db s) k = Some i" for k i
    using item_table.table_get [OF g(2), of k i] that by (auto simp: get_recovery_def g(1))
  show "items_typed (db_recovery (rs_db s'))" if "items_typed (db_recovery (rs_db s))"
    using evolves_typed [OF g(2) that] g(1,3) by (simp add: items_typed_append)
qed

lemmas evolved_keeps = grow_keeps [OF grow_evolved]

lemma recovery_step_keeps: "recovery_step s s' \<Longrightarrow> keeps_items s s'"
proof (induction rule: recovery_step.induct)
  case (step_dispatching re telegram excluded s r1 s')
  then show ?case by (intro evolved_keeps dispatch_next_evolves)
next
  case (step_skipping re n s r2 s')
  then show ?case by (intro evolved_keeps skip_evolves)
next
  case (step_reconciling re0 re re' batch s r3 s')
  then show ?case by (intro evolved_keeps reconcile_evolves)
next
  case (step_reclaiming_stage re s r4 s')
  then show ?case by (intro evolved_keeps reclaim_stage_evolves)
next
  case (step_reclaiming_ingest re s r5 s')
  then show ?case by (intro evolved_keeps reclaim_ingest_evolves)
next
  case (step_performing re admin kind w rq s r6 s')
  then show ?case by (intro grow_keeps perform_grows)
next
  case (step_previewing re admin bq s r7 s')
  then show ?case by (intro grow_keeps preview_grows)
next
  case (step_retrying re admin u request version reason limit s r8 s')
  then show ?case by (intro grow_keeps retry_failed_grows)
next
  case (step_scheduling re admin u version reason others s r9 s')
  have others: "keeps_items s (others s)"
    using step_scheduling.IH by (induction rule: rtranclp_induct) (auto intro: keeps_refl keeps_trans)
  from schedule_batch_cases [OF step_scheduling.hyps(1)] show ?case
    using others keeps_refl evolved_keeps [OF schedule_locked_evolves] keeps_trans by metis
next
  case (step_cancelling re admin u version reason s r10 s')
  then show ?case by (intro evolved_keeps cancel_evolves)
next
  case (step_handing re admin u assignee version reason s r11 s')
  then show ?case by (intro evolved_keeps handoff_evolves)
qed

lemma recovery_run_keeps: "recovery_step\<^sup>*\<^sup>* s s' \<Longrightarrow> keeps_items s s'"
  by (induction rule: rtranclp_induct) (auto intro: keeps_refl keeps_trans recovery_step_keeps)

section \<open>The refinement and the plans in the database\<close>

text \<open>
  C4. The recovery services refine the abstract life of an item: along any run of dispatches, reconciliations,
  reclaims, previews, schedules, actions, cancellations, retries and handoffs, in any order, an item is never lost,
  keeps its job, parent, target, action and retry limit, never gets failures back, and changes its status only by
  steps of the machine; once closed, its status is final.
\<close>

theorem recovery_items_refine_lifecycle:
  assumes "recovery_step\<^sup>*\<^sup>* s s'" "items_wf s" "get_recovery (rs_db s) k = Some i"
  shows "\<exists>i'. get_recovery (rs_db s') k = Some i' \<and> item_frame i' = item_frame i \<and>
    ri_failures_consumed i \<le> ri_failures_consumed i' \<and> status_step\<^sup>*\<^sup>* (ri_status i) (ri_status i') \<and>
    (item_terminal i \<longrightarrow> ri_status i' = ri_status i)"
proof -
  from recovery_run_keeps [OF assms(1)] assms(2,3) obtain i' where i': "get_recovery (rs_db s') k = Some i'" "evolves i i'"
    by (auto simp: keeps_items_def)
  then show ?thesis using closed_is_final by (auto simp: evolves_def item_terminal_def)
qed

lemma sample_state_wf: "items_wf (sample_recovery_state [i])"
  by (simp add: recovery_wf_def sample_recovery_state_def)

lemma sample_get_item: "get_recovery (rs_db (sample_recovery_state [i])) (ri_id i) = Some i"
  by (simp add: sample_recovery_state_def get_recovery_def)

theorem recovery_items_refine_lifecycle_witness:
  "\<exists>i'. get_recovery (rs_db (snd (dispatch_next sample_recovery_env False [] (sample_recovery_state [sample_scheduled_item])))) 70 =
     Some i' \<and> item_frame i' = item_frame sample_scheduled_item \<and> status_step\<^sup>*\<^sup>* ITEM_QUEUED (ri_status i')"
proof -
  let ?s = "sample_recovery_state [sample_scheduled_item]"
  have "crawler_keeps_items sample_recovery_env" by (simp add: crawler_keeps_items_def sample_recovery_env_def)
  then have "recovery_step\<^sup>*\<^sup>* ?s (snd (dispatch_next sample_recovery_env False [] ?s))"
    by (intro r_into_rtranclp step_dispatching [OF prod.collapse [symmetric]])
  from recovery_items_refine_lifecycle [OF this sample_state_wf sample_get_item] show ?thesis
    by (auto simp: sample_scheduled_item_def sample_item_def)
qed

text \<open>
  C16. The plans in the database stay well formed: along any run, item ids stay unique, an item that waits for a
  dependency has a parent, and every parent is an item of the same job and file for the prerequisite stage of its
  child.
\<close>

theorem recovery_plans_stay_well_formed:
  assumes "recovery_step\<^sup>*\<^sup>* s s'" "distinct (map ri_id (db_recovery (rs_db s)))" "items_typed (db_recovery (rs_db s))"
  shows "distinct (map ri_id (db_recovery (rs_db s'))) \<and>
    (\<forall>i\<in>set (db_recovery (rs_db s')). ri_status i = ITEM_WAITING_DEPENDENCY \<longrightarrow> ri_parent i \<noteq> None) \<and>
    (\<forall>i\<in>set (db_recovery (rs_db s')). \<forall>u. ri_parent i = Some u \<longrightarrow>
       (\<exists>p st. get_recovery (rs_db s') u = Some p \<and> ri_job p = ri_job i \<and> ri_file p = ri_file i \<and>
          ri_stage i = Some st \<and> ri_stage p = prerequisite_by_stage st))"
proof -
  from recovery_run_keeps [OF assms(1)] assms(2,3) have wf: "items_wf s'" and typed: "items_typed (db_recovery (rs_db s'))"
    by (simp_all add: keeps_items_def recovery_wf_def)
  have "\<exists>p st. get_recovery (rs_db s') u = Some p \<and> ri_job p = ri_job i \<and> ri_file p = ri_file i \<and>
      ri_stage i = Some st \<and> ri_stage p = prerequisite_by_stage st"
    if i: "i \<in> set (db_recovery (rs_db s'))" "ri_parent i = Some u" for i u
  proof -
    have "item_typed (db_recovery (rs_db s')) i" using typed i(1) by (simp add: items_typed_def)
    with i(2) obtain p where p: "p \<in> set (db_recovery (rs_db s'))" "ri_id p = u" "ri_job p = ri_job i" "ri_file p = ri_file i"
      "ri_stage i \<noteq> None" "ri_stage p = Option.bind (ri_stage i) prerequisite_by_stage"
      unfolding item_typed_def by blast
    from wf p(1,2) have "get_recovery (rs_db s') u = Some p"
      using row_get_iff_mem [of ri_id "db_recovery (rs_db s')" p] by (simp add: recovery_wf_def get_recovery_def)
    with p show ?thesis by auto
  qed
  moreover have "\<forall>i\<in>set (db_recovery (rs_db s')). ri_status i = ITEM_WAITING_DEPENDENCY \<longrightarrow> ri_parent i \<noteq> None"
    using typed unfolding items_typed_def item_typed_def by blast
  ultimately show ?thesis using wf by (simp add: recovery_wf_def)
qed

theorem recovery_plans_stay_well_formed_witness:
  "\<exists>i'. db_recovery (rs_db (snd (cancel_batch sample_recovery_env 5 75 (job_version sample_job) ''stop''
     (sample_recovery_state [sample_item])))) = [i'] \<and> ri_status i' = ITEM_CANCELLED \<and>
   distinct (map ri_id (db_recovery (rs_db (snd (cancel_batch sample_recovery_env 5 75 (job_version sample_job) ''stop''
     (sample_recovery_state [sample_item]))))))"
proof -
  let ?s = "sample_recovery_state [sample_item]"
  let ?s' = "snd (cancel_batch sample_recovery_env 5 75 (job_version sample_job) ''stop'' ?s)"
  have "recovery_step\<^sup>*\<^sup>* ?s ?s'" by (intro r_into_rtranclp step_cancelling [OF prod.collapse [symmetric]])
  moreover have "items_typed (db_recovery (rs_db ?s))"
    by (simp add: sample_recovery_state_def items_typed_def item_typed_def sample_item_def)
  ultimately have d: "distinct (map ri_id (db_recovery (rs_db ?s')))"
    using recovery_plans_stay_well_formed [of ?s ?s'] sample_state_wf by (simp add: recovery_wf_def)
  have "map ri_status (db_recovery (rs_db ?s')) = [ITEM_CANCELLED]" by code_simp
  with d show ?thesis by auto
qed

end
