(* ===== verification/Recovery_Administration.thy ===== *)
theory Recovery_Administration
  imports Recovery_Jobs Recovery_Properties
begin

text \<open>
  What an administrator's action does, all or nothing and once per request, and two ends of recovery the code does
  not mean: a replay of a healthy stage that is never retried, and a dead letter left behind by a cancellation.
\<close>

section \<open>A single action\<close>

lemma find_append: "find P (xs @ ys) = (case find P xs of None \<Rightarrow> find P ys | Some x \<Rightarrow> Some x)"
  by (induction xs) simp_all

lemma fingerprint_same:
  "rj_action j = action \<Longrightarrow> rj_selection j = selection \<Longrightarrow> rj_reason j = reason \<Longrightarrow>
     assert_idempotency_fingerprint action selection reason j = Inr j"
  by (simp add: assert_idempotency_fingerprint_def)

lemma refresh_keeps [simp]:
  "rj_id (set_materialized_counts items n j) = rj_id j" "rj_action (set_materialized_counts items n j) = rj_action j"
  "rj_selection (set_materialized_counts items n j) = rj_selection j"
  "rj_reason (set_materialized_counts items n j) = rj_reason j"
  "rj_requested_by (set_materialized_counts items n j) = rj_requested_by j"
  "rj_request_id (set_materialized_counts items n j) = rj_request_id j"
  "rj_status (set_materialized_counts items n j) = rj_status j"
  "rj_total_count (set_materialized_counts items n j) = length items"
  "rj_queued_count (set_materialized_counts items n j) = count_status ITEM_QUEUED items"
  by (simp_all add: set_materialized_counts_def refresh_job_counts_def)

text \<open>What a performed action adds: one job, its reserved items and one audit entry.\<close>

definition action_performed ::
  "recovery_env \<Rightarrow> uuid \<Rightarrow> action_request \<Rightarrow> recovery_job \<Rightarrow> recovery_item list \<Rightarrow> recovery_state \<Rightarrow> recovery_state \<Rightarrow> bool" where
  "action_performed re admin rq j items s s' \<longleftrightarrow>
     rj_id j = env_fresh (re_env re) 0 \<and> rj_requested_by j = admin \<and> rj_request_id j = rq_request_id rq \<and>
     rj_status j = JOB_QUEUED \<and> rj_total_count j = length items \<and> rj_action j = rq_action rq \<and> rj_reason j = rq_reason rq \<and>
     rs_jobs s' = rs_jobs s @ [j] \<and> rs_db s' = (rs_db s)\<lparr>db_recovery := db_recovery (rs_db s) @ items\<rparr> \<and>
     reservations_unique (db_recovery (rs_db s')) \<and>
     (\<exists>entry. rs_audit s' = rs_audit s @ [entry] \<and> au_admin entry = admin \<and> au_request entry = rq_request_id rq \<and>
        au_note entry = rq_reason rq) \<and>
     rs_ledger s' = rs_ledger s"

lemma perform_cases:
  assumes "perform_action re admin kind w rq s = (r, s')" "get_job s (env_fresh (re_env re) 0) = None"
  shows "(\<exists>e. r = Inl e \<and> s' = s) \<or> (\<exists>j. r = Inr j \<and> s' = s \<and> idempotent_job admin (rq_request_id rq) s = Some j) \<or>
    (\<exists>j items work. r = Inr j \<and> idempotent_job admin (rq_request_id rq) s = None \<and> action_performed re admin rq j items s s' \<and>
       rj_selection j = ActionSelection (kind, w, rq_version rq) (rq_scope rq) (rq_retry_limit rq)
         (sorted_acknowledgements (rq_acknowledgements rq)) \<and> wr_version work = rq_version rq \<and>
       (\<exists>actions. get_candidate re kind w None True s = Inr (work, actions)))"
proof -
  define sel where "sel = ActionSelection (kind, w, rq_version rq) (rq_scope rq) (rq_retry_limit rq)
    (sorted_acknowledgements (rq_acknowledgements rq))"
  define job where "job = (new_job re admin (rq_request_id rq) (rq_action rq) (rq_scope rq) (rq_retry_limit rq)
    (rq_reason rq) sel JOB_QUEUED)\<lparr>rj_scheduled_at := Some (env_now (re_env re))\<rparr>"
  have job: "rj_id job = env_fresh (re_env re) 0" "rj_requested_by job = admin" "rj_request_id job = rq_request_id rq"
    "rj_status job = JOB_QUEUED" "rj_action job = rq_action rq" "rj_reason job = rq_reason rq" "rj_selection job = sel"
    by (simp_all add: job_def new_job_def)
  show ?thesis
  proof (cases "idempotent_job admin (rq_request_id rq) s")
    case (Some j)
    with assms(1) show ?thesis
      by (auto simp: perform_action_def assert_idempotency_fingerprint_def split: if_splits)
  next
    case None
    show ?thesis
    proof (cases r)
      case (Inl e)
      with assms(1) None show ?thesis
        by (auto simp: perform_action_def Let_def commit_reservations_def commit_session_def
            split: sum.splits prod.splits option.splits if_splits)
    next
      case (Inr j)
      obtain work actions items where cand: "get_candidate re kind w None True s = Inr (work, actions)" "wr_version work = rq_version rq"
        and run: "commit_reservations re ''This recovery work already has an active Replay & Repair job.'' s
          (set_materialized_counts items 1 job)
          (audited (re_env re) admin (rq_request_id rq) (capability_value (rq_action rq)) (work_kind_value kind) (work_id_text w)
             (rq_reason rq) (add_items items (s\<lparr>rs_jobs := rs_jobs s @ [set_materialized_counts items 1 job]\<rparr>))) = (Inr j, s')"
        using assms(1) None Inr
        by (auto simp: perform_action_def Let_def job_def sel_def split: sum.splits prod.splits option.splits if_splits)
      let ?j = "set_materialized_counts items 1 job"
      let ?s = "audited (re_env re) admin (rq_request_id rq) (capability_value (rq_action rq)) (work_kind_value kind)
        (work_id_text w) (rq_reason rq) (add_items items (s\<lparr>rs_jobs := rs_jobs s @ [?j]\<rparr>))"
      have s': "s' = ?s" "j = stored_job ?j ?s" "reservations_unique (db_recovery (rs_db s'))"
        using run by (auto simp: commit_reservations_def commit_session_def split: if_splits)
      have "get_job ?s (rj_id ?j) = Some ?j"
        using assms(2) by (simp add: get_job_def audited_def add_items_def map_db_def job(1))
      then have j: "j = ?j" using s'(2) by (simp add: stored_job_def)
      have "action_performed re admin rq j items s s'"
        using s'(3) job unfolding action_performed_def j s'(1) by (simp add: audited_def add_items_def map_db_def)
      with Inr None cand j job show ?thesis by (auto simp: sel_def)
    qed
  qed
qed

text \<open>
  C12. An administrator's action is all or nothing and happens once per request: a refusal changes nothing; a first
  success stores one job with its reserved items and one audit entry, at the version the administrator saw; and
  the same request again, whatever happened to the environment, answers that job and changes nothing.
\<close>

theorem perform_action_once:
  assumes "perform_action re admin kind w rq s = (r, s')" "get_job s (env_fresh (re_env re) 0) = None"
  shows "(\<forall>e. r = Inl e \<longrightarrow> s' = s) \<and>
    (\<forall>j. r = Inr j \<longrightarrow>
       idempotent_job admin (rq_request_id rq) s' = Some j \<and>
       (\<forall>re'. perform_action re' admin kind w rq s' = (Inr j, s')) \<and>
       (idempotent_job admin (rq_request_id rq) s = None \<longrightarrow>
          (\<exists>items. action_performed re admin rq j items s s') \<and>
          (\<exists>work actions. get_candidate re kind w None True s = Inr (work, actions) \<and> wr_version work = rq_version rq)))"
proof -
  define sel where "sel = ActionSelection (kind, w, rq_version rq) (rq_scope rq) (rq_retry_limit rq)
    (sorted_acknowledgements (rq_acknowledgements rq))"
  have again: "perform_action re' admin kind w rq s' = (assert_idempotency_fingerprint (rq_action rq) sel (rq_reason rq) j, s')"
    if "idempotent_job admin (rq_request_id rq) s' = Some j" for re' j
    using that by (simp add: perform_action_def sel_def)
  from perform_cases [OF assms] consider
    (refused) e where "r = Inl e" "s' = s"
  | (known) j where "r = Inr j" "s' = s" "idempotent_job admin (rq_request_id rq) s = Some j"
  | (first) j items work actions where "r = Inr j" "idempotent_job admin (rq_request_id rq) s = None"
      "action_performed re admin rq j items s s'" "rj_selection j = sel" "wr_version work = rq_version rq"
      "get_candidate re kind w None True s = Inr (work, actions)"
    unfolding sel_def by blast
  then show ?thesis
  proof cases
    case refused
    then show ?thesis by simp
  next
    case known
    from again [of j re] known assms(1)
    have "assert_idempotency_fingerprint (rq_action rq) sel (rq_reason rq) j = Inr j" by simp
    with again [of j] known show ?thesis by simp
  next
    case first
    have stored: "idempotent_job admin (rq_request_id rq) s' = Some j"
      using first(2,3) by (auto simp: action_performed_def idempotent_job_def find_append)
    have "assert_idempotency_fingerprint (rq_action rq) sel (rq_reason rq) j = Inr j"
      using first(3,4) by (intro fingerprint_same) (simp_all add: action_performed_def)
    with again [OF stored] stored first show ?thesis by auto
  qed
qed

definition sample_request :: action_request where
  "sample_request =
     \<lparr>rq_request_id = 8, rq_version = row_version 20 (Some 60), rq_reason = ''fix'', rq_action = REPLAY_STAGE,
      rq_scope = STAGE_ONLY, rq_retry_limit = 3, rq_acknowledgements = []\<rparr>"

text \<open>A stage the administrator replays for the first time.\<close>

definition sample_failed_stage :: recovery_state where
  "sample_failed_stage = (sample_recovery_state [])\<lparr>rs_db := (rs_db (sample_recovery_state []))\<lparr>db_journal :=
     (\<lambda>k. if k = (1, TRANSCODE) then Some ((sample_journal TRANSCODE)\<lparr>sj_status := STAGE_FAILED\<rparr>) else None)\<rparr>\<rparr>"

theorem perform_action_once_witness:
  "\<exists>j s'. perform_action sample_recovery_env 5 WORK_PIPELINE_STAGE (WorkRow 50) sample_request sample_failed_stage = (Inr j, s') \<and>
     perform_action sample_recovery_env 5 WORK_PIPELINE_STAGE (WorkRow 50) sample_request s' = (Inr j, s')"
proof -
  let ?run = "perform_action sample_recovery_env 5 WORK_PIPELINE_STAGE (WorkRow 50) sample_request sample_failed_stage"
  have "(case fst ?run of Inl e \<Rightarrow> False | Inr j \<Rightarrow> True)" by code_simp
  then obtain j s' where run: "?run = (Inr j, s')" by (cases ?run; cases "fst ?run") auto
  have "map_option rj_id (get_job sample_failed_stage (env_fresh (re_env sample_recovery_env) 0)) = None" by code_simp
  then have "get_job sample_failed_stage (env_fresh (re_env sample_recovery_env) 0) = None" by simp
  from perform_action_once [OF run this] run show ?thesis by blast
qed

section \<open>Replays of healthy stages\<close>

lemma stage_not_collected:
  assumes "\<forall>e\<in>set (journal_rows s). sj_id e = u \<longrightarrow> sj_status e = STAGE_SUCCEEDED"
  shows "row_get work_key (WORK_PIPELINE_STAGE, WorkRow u) (collect_work re now bound target s) = None"
proof -
  let ?k = "(WORK_PIPELINE_STAGE, WorkRow u)"
  have scan: "x \<in> set (scan bound stamp rows) \<Longrightarrow> x \<in> set rows" for x stamp and rows :: "'r list"
    by (auto simp: scan_def Let_def split: option.splits dest: in_set_takeD)
  have canonical: "work_key w \<noteq> ?k" if "w \<in> set (canonical_work re now bound target s)" for w
    using that assms
    by (auto simp: canonical_work_def work_key_def backfill_work_def post_work_def ingest_work_def listed_stage_work_def
        stage_work_def listed_sync_work_def sync_work_def outbox_work_def Let_def stage_listed_def dest!: scan split: prod.splits)
  have "row_get work_key ?k (fold (row_put work_key) ws acc) = None"
    if "\<forall>w\<in>set ws. work_key w \<noteq> ?k" "row_get work_key ?k acc = None" for ws acc
    using that by (induction ws arbitrary: acc) simp_all
  then have start: "row_get work_key ?k (fold (row_put work_key) (canonical_work re now bound target s) []) = None"
    using canonical by simp
  have letter: "row_get work_key ?k (add_dead_letter re r ws) = None" if "row_get work_key ?k ws = None" for r ws
  proof -
    have "work_key (dead_letter_work r) \<noteq> ?k" by (simp add: work_key_def dead_letter_work_def)
    moreover have linked: "work_key (linked_work r w) = work_key w" for w by (simp add: work_key_def linked_work_def)
    have found: "work_key w \<noteq> ?k" if "row_get work_key k ws = Some w" for k w
      using that \<open>row_get work_key ?k ws = None\<close> by (metis row_get_None_iff row_get_mem rev_image_eqI)
    moreover have "work_key w \<noteq> ?k" if "Option.bind (dl_work r) (\<lambda>(kind, u). row_get work_key (kind, WorkRow u) ws) = Some w" for w
      using that found by (cases "dl_work r") auto
    ultimately show ?thesis using that by (auto simp: add_dead_letter_def linked split: option.splits)
  qed
  have "row_get work_key ?k (fold (add_dead_letter re) rs ws) = None" if "row_get work_key ?k ws = None" for rs ws
    using that by (induction rs arbitrary: ws) (simp_all add: letter)
  with start show ?thesis by (simp add: collect_work_def)
qed

text \<open>
  C29. A replay of a healthy stage is not retried: when the dispatch of an item on a succeeded stage row fails and
  can be retried, the failure is charged, and then the item is closed as stale with budget left, because the work
  list the failure is measured against only has failed and stuck rows.
\<close>

theorem healthy_replay_is_not_retried:
  assumes "get_recovery (rs_db s) k = Some i" "get_job s (ri_job i) = Some job" "rj_status job \<in> {JOB_QUEUED, JOB_RUNNING}"
    and "\<not> item_terminal i" "ri_failures_consumed i + 1 < ri_retry_limit i" "env_commit_ok (re_env re)"
    and "ri_work_kind i = WORK_PIPELINE_STAGE" "ri_work_id i = WorkRow u"
    and "\<forall>e\<in>set (journal_rows s). sj_id e = u \<longrightarrow> sj_status e = STAGE_SUCCEEDED"
  shows "\<exists>s' i'. record_dispatch_failure re k exn True s = (Inr (), s') \<and> get_recovery (rs_db s') k = Some i' \<and>
    ri_status i' = ITEM_SKIPPED_STALE \<and> ri_failures_consumed i' = ri_failures_consumed i + 1 \<and>
    ri_failures_consumed i' < ri_retry_limit i'"
proof -
  have key: "ri_id i = k" using assms(1) by (auto simp: get_recovery_def dest: row_get_key)
  have none: "get_work re (ri_work_kind i) (ri_work_id i) s = Inl (work_missing WORK_PIPELINE_STAGE (WorkRow u))"
    using stage_not_collected [OF assms(9)] assms(7,8) by (simp add: get_work_def work_uuid_def)
  define stale where "stale = (\<lambda>e. (put_item (finish_item re ITEM_SKIPPED_STALE (Some ''canonical_state_changed'')
    (Some (recovery_exn_text e)) (charged_item True i)) s))"
  have missing: "is_recovery_not_found (work_missing WORK_PIPELINE_STAGE (WorkRow u))" by (simp add: work_missing_def)
  have closed: "record_dispatch_failure re k exn True s =
      (case lock_canonical_work (charged_item True i) s of
         Some e \<Rightarrow> commit_session (re_env re) s (reconcile_jobs (re_env re) (Some [rj_id job]) (stale e))
       | None \<Rightarrow> commit_session (re_env re) s (reconcile_jobs (re_env re) (Some [rj_id job])
           (stale (work_missing WORK_PIPELINE_STAGE (WorkRow u)))))"
    using assms(1-5,7,8) none missing
    by (auto simp: record_dispatch_failure_def Let_def stale_def charged_item_def split: option.splits)
  have "\<exists>e. record_dispatch_failure re k exn True s =
      commit_session (re_env re) s (reconcile_jobs (re_env re) (Some [rj_id job]) (stale e))"
    unfolding closed by (cases "lock_canonical_work (charged_item True i) s") auto
  then obtain e where run: "record_dispatch_failure re k exn True s =
      (Inr (), reconcile_jobs (re_env re) (Some [rj_id job]) (stale e))"
    using assms(6) by (auto simp: commit_session_def)
  have "rs_db (reconcile_jobs (re_env re) (Some [rj_id job]) (stale e)) = rs_db (stale e)" by (simp add: reconcile_jobs_def)
  then show ?thesis
    using run key assms(5)
    by (simp add: stale_def put_item_def map_db_def get_recovery_def put_recovery_def finish_item_def charged_item_def)
qed

theorem healthy_replay_is_not_retried_witness:
  "\<exists>s' i'. record_dispatch_failure sample_recovery_env 70 (OtherFailure ''TimeoutError'' ''timeout'') True
     ((sample_recovery_state [sample_scheduled_item])\<lparr>rs_db := (rs_db (sample_recovery_state [sample_scheduled_item]))\<lparr>db_journal :=
        (\<lambda>k. if k = (1, OCR) then Some ((sample_journal OCR)\<lparr>sj_status := STAGE_SUCCEEDED\<rparr>) else None)\<rparr>\<rparr>) = (Inr (), s') \<and>
   get_recovery (rs_db s') 70 = Some i' \<and> ri_status i' = ITEM_SKIPPED_STALE \<and> ri_failures_consumed i' = 1"
proof -
  let ?s = "(sample_recovery_state [sample_scheduled_item])\<lparr>rs_db := (rs_db (sample_recovery_state [sample_scheduled_item]))\<lparr>db_journal :=
        (\<lambda>k. if k = (1, OCR) then Some ((sample_journal OCR)\<lparr>sj_status := STAGE_SUCCEEDED\<rparr>) else None)\<rparr>\<rparr>"
  have item: "get_recovery (rs_db ?s) 70 = Some sample_scheduled_item"
    by (simp add: sample_recovery_state_def get_recovery_def sample_scheduled_item_def sample_item_def)
  have job: "get_job ?s (ri_job sample_scheduled_item) = Some sample_job"
    by (simp add: sample_recovery_state_def get_job_def sample_scheduled_item_def sample_item_def sample_job_def)
  have rows: "\<forall>e\<in>set (journal_rows ?s). sj_id e = 50 \<longrightarrow> sj_status e = STAGE_SUCCEEDED"
    by (auto simp: journal_rows_def journal_entries_def get_journal_def sample_recovery_state_def sample_journal_def
        List.map_filter_def split: if_splits)
  have facts: "rj_status sample_job \<in> {JOB_QUEUED, JOB_RUNNING}" "\<not> item_terminal sample_scheduled_item"
    "ri_failures_consumed sample_scheduled_item = 0"
    "ri_failures_consumed sample_scheduled_item + 1 < ri_retry_limit sample_scheduled_item"
    "ri_work_kind sample_scheduled_item = WORK_PIPELINE_STAGE" "ri_work_id sample_scheduled_item = WorkRow 50"
    by (simp_all add: sample_job_def sample_scheduled_item_def sample_item_def item_terminal_def TERMINAL_ITEM_STATUSES_def)
  have "env_commit_ok (re_env sample_recovery_env)" by (simp add: sample_recovery_env_def sample_env_def)
  from healthy_replay_is_not_retried [OF item job facts(1,2,4) this facts(5,6) rows,
      of "OtherFailure ''TimeoutError'' ''timeout''"]
  show ?thesis unfolding facts(3) by auto
qed

section \<open>Cancellation\<close>

text \<open>
  C30. Cancelling leaves a dead letter behind: when a recovery item that is cancelled has its dead letter queued
  (it was dispatched once and scheduled again), the dead letter stays queued for the closed item, and every other
  item that is to recover it is refused.
\<close>

theorem cancelled_recovery_strands_dead_letter:
  assumes "cancel_batch re admin u version reason s = (Inr j, s')" "get_job s u = Some j0" "rj_status j0 \<in> set ACTIVE_JOB_STATUSES"
    and "get_recovery (rs_db s) k = Some i" "ri_job i = u" "ri_status i \<in> set CANCELLABLE_ITEM_STATUSES"
    and "get_dead_letter s l = Some r" "dl_status r = DL_RECOVERY_QUEUED" "dl_recovery_item r = Some k"
  shows "(\<exists>i'. get_recovery (rs_db s') k = Some i' \<and> ri_status i' = ITEM_CANCELLED) \<and> get_dead_letter s' l = Some r \<and>
    (\<forall>re' i2 work. ri_id i2 \<noteq> k \<and> wr_dead_letter work = Some l \<longrightarrow>
       (\<exists>t. recover_dead_letter re' i2 work s' = (Inl (AdminRecoveryConflictError t), s')))"
proof -
  define now where "now = env_now (re_env re)"
  define f where "f = (\<lambda>i. if ri_job i = u then cancelled_by_admin now i else i)"
  have "rs_db s' = (rs_db s)\<lparr>db_recovery := map f (db_recovery (rs_db s))\<rparr> \<and> rs_ledger s' = rs_ledger s"
    using assms(1-3)
    by (auto simp: cancel_batch_def required_job_def Let_def commit_job_def commit_session_def audited_def put_job_def
        map_db_def ACTIVE_JOB_STATUSES_def f_def now_def split: option.splits if_splits)
  then have s': "db_recovery (rs_db s') = map f (db_recovery (rs_db s))" "rs_ledger s' = rs_ledger s" by simp_all
  have "row_get ri_id k (map f rows) = map_option f (row_get ri_id k rows)" for rows
    by (induction rows) (simp_all add: f_def cancelled_by_admin_def)
  then have item: "\<exists>i'. get_recovery (rs_db s') k = Some i' \<and> ri_status i' = ITEM_CANCELLED"
    using assms(4-6) s'(1) by (simp add: get_recovery_def f_def cancelled_by_admin_def)
  have letter: "get_dead_letter s' l = Some r" using assms(7) s'(2) by (simp add: get_dead_letter_def)
  have "\<exists>t. recover_dead_letter re' i2 work s' = (Inl (AdminRecoveryConflictError t), s')"
    if "ri_id i2 \<noteq> k" "wr_dead_letter work = Some l" for re' i2 work
    using that letter assms(8,9)
    by (simp add: recover_dead_letter_def load_linked_dead_letter_def loaded_def assert_dead_letter_recoverable_def)
  with item letter show ?thesis by blast
qed

text \<open>An item that was scheduled again while its dead letter stays queued for it, in a batch that is cancelled.\<close>

definition sample_queued_letter :: dead_letter where
  "sample_queued_letter =
     \<lparr>dl_id = 90, dl_deduplication_key = ''k'', dl_broker_message_id = None, dl_payload_hash = ''h'', dl_event_type = None,
      dl_work = Some (WORK_PIPELINE_STAGE, 50), dl_normalized_reason = ''ocr_failed'', dl_death_count = 1,
      dl_safe_payload = [], dl_safe_headers = [], dl_status = DL_RECOVERY_QUEUED, dl_recovery_item = Some 70,
      dl_resolved_at = None, dl_resolution_note = None, dl_created_at = 5, dl_updated_at = 5\<rparr>"

definition sample_queued_again :: recovery_state where
  "sample_queued_again = (sample_recovery_state [sample_item])\<lparr>rs_ledger := [sample_queued_letter]\<rparr>"

theorem cancelled_recovery_strands_dead_letter_witness:
  "\<exists>j s'. cancel_batch sample_recovery_env 5 75 (job_version sample_job) ''stop'' sample_queued_again = (Inr j, s') \<and>
     (\<exists>i'. get_recovery (rs_db s') 70 = Some i' \<and> ri_status i' = ITEM_CANCELLED) \<and>
     get_dead_letter s' 90 = Some sample_queued_letter"
proof -
  let ?run = "cancel_batch sample_recovery_env 5 75 (job_version sample_job) ''stop'' sample_queued_again"
  have "(case fst ?run of Inl e \<Rightarrow> False | Inr j \<Rightarrow> True)" by code_simp
  then obtain j s' where run: "?run = (Inr j, s')" by (cases ?run; cases "fst ?run") auto
  have job: "get_job sample_queued_again 75 = Some sample_job"
    by (simp add: sample_queued_again_def sample_recovery_state_def get_job_def sample_job_def)
  have item: "get_recovery (rs_db sample_queued_again) 70 = Some sample_item"
    by (simp add: sample_queued_again_def sample_recovery_state_def get_recovery_def sample_item_def)
  have letter: "get_dead_letter sample_queued_again 90 = Some sample_queued_letter"
    by (simp add: sample_queued_again_def get_dead_letter_def sample_queued_letter_def)
  show ?thesis
    using cancelled_recovery_strands_dead_letter [OF run job _ item _ _ letter] run
    by (simp add: sample_job_def sample_item_def sample_queued_letter_def ACTIVE_JOB_STATUSES_def CANCELLABLE_ITEM_STATUSES_def)
qed

end
