(* ===== verification/Outbox_Reconciliation.thy ===== *)
theory Outbox_Reconciliation
  imports Recovery_Runtime
begin

text \<open>
  The third writer of the outbox: when SHA reconciliation folds files or memes into one, it rewrites the ids the
  waiting messages carry (\<open>services/sha_reconciliation.py\<close>). With it, the history of the outbox: producers, relays, the
  lease sweep, the recovery runtime's redrive of a row and reconciliation in any interleaving.
\<close>

section \<open>Rewriting ids\<close>

text \<open>
  \<open>_rewrite_outbox_payload_id\<close>: \<open>jsonb_set\<close> on the payloads whose field names the source. A dispatch event has the two
  fields \<open>meme_file_id\<close> and \<open>meme_id\<close>, a media-inspect request has none of them; \<open>rewrite\<close> is the database's rewriting
  of the payload text of another producer.
\<close>

type_synonym json_rewrite = "text_value \<Rightarrow> uuid \<Rightarrow> uuid \<Rightarrow> text_value \<Rightarrow> text_value"

definition replaced_id :: "uuid \<Rightarrow> uuid \<Rightarrow> uuid \<Rightarrow> uuid" where
  "replaced_id source target u = (if u = source then target else u)"

definition rewritten_payload :: "json_rewrite \<Rightarrow> text_value \<Rightarrow> uuid \<Rightarrow> uuid \<Rightarrow> payload \<Rightarrow> payload" where
  "rewritten_payload rewrite field source target p =
     (case p of
        DispatchPayload e \<Rightarrow>
          DispatchPayload
            (if field = ''meme_file_id'' then e\<lparr>ev_file := replaced_id source target (ev_file e)\<rparr>
             else if field = ''meme_id'' then e\<lparr>ev_meme := replaced_id source target (ev_meme e)\<rparr> else e)
      | InspectPayload i \<Rightarrow> InspectPayload i
      | OtherPayload t \<Rightarrow> OtherPayload (rewrite field source target t))"

definition rewrite_outbox_payload_id :: "json_rewrite \<Rightarrow> uuid \<Rightarrow> uuid \<Rightarrow> text_value \<Rightarrow> db \<Rightarrow> db" where
  "rewrite_outbox_payload_id rewrite source target field d =
     d\<lparr>db_outbox := map (\<lambda>m. m\<lparr>ob_payload := rewritten_payload rewrite field source target (ob_payload m)\<rparr>) (db_outbox d)\<rparr>"

definition update_outbox_aggregate_id :: "text_value \<Rightarrow> text_value \<Rightarrow> text_value \<Rightarrow> db \<Rightarrow> db" where
  "update_outbox_aggregate_id kind source_id target_id d =
     d\<lparr>db_outbox := map (\<lambda>m. if ob_aggregate_type m = kind \<and> ob_aggregate_id m = source_id
                            then m\<lparr>ob_aggregate_id := target_id\<rparr> else m) (db_outbox d)\<rparr>"

definition update_outbox_ordering_key :: "text_value \<Rightarrow> text_value \<Rightarrow> db \<Rightarrow> db" where
  "update_outbox_ordering_key source_id target_id d =
     d\<lparr>db_outbox := map (\<lambda>m. if ob_ordering_key m = Some source_id
                            then m\<lparr>ob_ordering_key := Some target_id\<rparr> else m) (db_outbox d)\<rparr>"

definition transfer_file_outbox_references :: "json_rewrite \<Rightarrow> uuid \<Rightarrow> uuid \<Rightarrow> db \<Rightarrow> db" where
  "transfer_file_outbox_references rewrite source target d =
     (let source_id = uuid_text source;
          target_id = uuid_text target;
          d1 = update_outbox_aggregate_id ''meme_file'' source_id target_id d;
          d2 = update_outbox_ordering_key source_id target_id d1
      in fold (rewrite_outbox_payload_id rewrite source target)
           [''meme_file_id'', ''matched_meme_file_id'', ''materialized_meme_file_id''] d2)"

definition transfer_meme_outbox_references :: "json_rewrite \<Rightarrow> uuid \<Rightarrow> uuid \<Rightarrow> db \<Rightarrow> db" where
  "transfer_meme_outbox_references rewrite source target d =
     fold (rewrite_outbox_payload_id rewrite source target) [''meme_id'', ''duplicate_of_meme_id'', ''materialized_meme_id''] d"

section \<open>The rewriting of one content\<close>

definition rewritten_spec :: "json_rewrite \<Rightarrow> uuid \<Rightarrow> uuid \<Rightarrow> text_value \<Rightarrow> message_spec \<Rightarrow> message_spec" where
  "rewritten_spec rewrite source target field sp =
     sp\<lparr>sp_payload := rewritten_payload rewrite field source target (sp_payload sp)\<rparr>"

datatype reconciliation = FilesFolded uuid uuid | MemesFolded uuid uuid

text \<open>What a reconciliation makes of the content of a message: the source's id becomes the target's, nothing else.\<close>

fun reconciled_spec :: "json_rewrite \<Rightarrow> reconciliation \<Rightarrow> message_spec \<Rightarrow> message_spec" where
  "reconciled_spec rewrite (FilesFolded source target) sp =
     fold (rewritten_spec rewrite source target) [''meme_file_id'', ''matched_meme_file_id'', ''materialized_meme_file_id'']
       (sp\<lparr>sp_aggregate_id := (if sp_aggregate_type sp = ''meme_file'' \<and> sp_aggregate_id sp = uuid_text source
                               then uuid_text target else sp_aggregate_id sp),
           sp_ordering_key := (if sp_ordering_key sp = Some (uuid_text source) then Some (uuid_text target)
                               else sp_ordering_key sp)\<rparr>)"
| "reconciled_spec rewrite (MemesFolded source target) sp =
     fold (rewritten_spec rewrite source target) [''meme_id'', ''duplicate_of_meme_id'', ''materialized_meme_id''] sp"

fun reconciled :: "json_rewrite \<Rightarrow> reconciliation \<Rightarrow> db \<Rightarrow> db" where
  "reconciled rewrite (FilesFolded source target) d = transfer_file_outbox_references rewrite source target d"
| "reconciled rewrite (MemesFolded source target) d = transfer_meme_outbox_references rewrite source target d"

lemma reconciled_spec_frame [simp]:
  "sp_message_id (reconciled_spec rewrite r sp) = sp_message_id sp"
  "sp_exchange (reconciled_spec rewrite r sp) = sp_exchange sp"
  "sp_routing_key (reconciled_spec rewrite r sp) = sp_routing_key sp"
  "sp_event_type (reconciled_spec rewrite r sp) = sp_event_type sp"
  "sp_headers (reconciled_spec rewrite r sp) = sp_headers sp"
  by (cases r; simp add: rewritten_spec_def)+

lemma outbox_wf_map:
  "(\<And>m. ob_id (f m) = ob_id m) \<Longrightarrow> outbox_wf (d\<lparr>db_outbox := map f (db_outbox d)\<rparr>) = outbox_wf d"
  by (simp add: outbox_wf_def comp_def)

lemma contents_map:
  assumes "\<And>m. ob_id (f m) = ob_id m"
    and "\<And>m. message_spec_from_outbox_message (f m) = g (message_spec_from_outbox_message m)"
  shows "message_contents (d\<lparr>db_outbox := map f (db_outbox d)\<rparr>) i = map_option g (message_contents d i)"
proof -
  have "get_outbox (d\<lparr>db_outbox := map f (db_outbox d)\<rparr>) i = map_option f (get_outbox d i)"
    using row_get_map_if [of ob_id f i "\<lambda>_. True" "db_outbox d"] assms(1) by (simp add: get_outbox_def)
  then show ?thesis by (cases "get_outbox d i") (simp_all add: message_contents_def assms(2))
qed

lemma rewrite_contents:
  "message_contents (rewrite_outbox_payload_id rewrite source target field d) i =
     map_option (rewritten_spec rewrite source target field) (message_contents d i)"
  unfolding rewrite_outbox_payload_id_def
  by (rule contents_map) (simp_all add: message_spec_from_outbox_message_def rewritten_spec_def)

lemma rewrite_wf: "outbox_wf (rewrite_outbox_payload_id rewrite source target field d) = outbox_wf d"
  unfolding rewrite_outbox_payload_id_def by (rule outbox_wf_map) simp

lemma aggregate_contents:
  "message_contents (update_outbox_aggregate_id t x y d) i =
     map_option (\<lambda>sp. sp\<lparr>sp_aggregate_id := if sp_aggregate_type sp = t \<and> sp_aggregate_id sp = x then y
       else sp_aggregate_id sp\<rparr>) (message_contents d i)"
  unfolding update_outbox_aggregate_id_def
  by (rule contents_map) (simp_all add: message_spec_from_outbox_message_def)

lemma ordering_contents:
  "message_contents (update_outbox_ordering_key x y d) i =
     map_option (\<lambda>sp. sp\<lparr>sp_ordering_key := if sp_ordering_key sp = Some x then Some y else sp_ordering_key sp\<rparr>)
       (message_contents d i)"
  unfolding update_outbox_ordering_key_def
  by (rule contents_map) (simp_all add: message_spec_from_outbox_message_def)

lemma aggregate_wf: "outbox_wf (update_outbox_aggregate_id t x y d) = outbox_wf d"
  unfolding update_outbox_aggregate_id_def by (rule outbox_wf_map) simp

lemma ordering_wf: "outbox_wf (update_outbox_ordering_key x y d) = outbox_wf d"
  unfolding update_outbox_ordering_key_def by (rule outbox_wf_map) simp

lemma reconciled_contents:
  "message_contents (reconciled rewrite r d) i = map_option (reconciled_spec rewrite r) (message_contents d i)"
  "outbox_wf (reconciled rewrite r d) = outbox_wf d"
  by (cases r; cases "message_contents d i"; simp add: transfer_file_outbox_references_def
      transfer_meme_outbox_references_def Let_def rewrite_contents ordering_contents aggregate_contents)
    (cases r; simp add: transfer_file_outbox_references_def transfer_meme_outbox_references_def Let_def rewrite_wf
      aggregate_wf ordering_wf)

section \<open>The history of the outbox\<close>

text \<open>
  Everything the code does to the table, interleaved in any order: the steps of producers, relays and the lease sweep
  (\<open>outbox_step\<close>), the recovery runtime's redrive of a row, a reconciliation, and any change that leaves the table alone (a
  transaction that writes other rows and enqueues messages is a sequence of these). \<open>rs\<close> are the reconciliations among
  them, in the order of their commits.
\<close>

inductive outbox_history :: "json_rewrite \<Rightarrow> int \<Rightarrow> reconciliation list \<Rightarrow> db \<Rightarrow> db \<Rightarrow> bool"
  for rewrite :: json_rewrite and k :: int where
  begun: "outbox_history rewrite k [] d d"
| relayed: "outbox_history rewrite k rs d d' \<Longrightarrow> outbox_step k d' d'' \<Longrightarrow> outbox_history rewrite k rs d d''"
| elsewhere: "outbox_history rewrite k rs d d' \<Longrightarrow> db_outbox d'' = db_outbox d' \<Longrightarrow> outbox_history rewrite k rs d d''"
| rebuilt: "outbox_history rewrite k rs d (rs_db s) \<Longrightarrow> outbox_history rewrite k rs d (rs_db (snd (rebuild_outbox re w i s)))"
| folded: "outbox_history rewrite k rs d d' \<Longrightarrow> outbox_history rewrite k (rs @ [r]) d (reconciled rewrite r d')"

lemma rebuild_contents:
  "message_contents (rs_db (snd (rebuild_outbox re w i s))) j = message_contents (rs_db s) j"
  "outbox_wf (rs_db s) \<Longrightarrow> outbox_wf (rs_db (snd (rebuild_outbox re w i s)))"
proof -
  have spec: "message_spec_from_outbox_message (m\<lparr>ob_status := a, ob_next_retry_at := b, ob_locked_at := c, ob_lock_owner := e,
      ob_last_error := f\<rparr>) = message_spec_from_outbox_message m" for m a b c e f
    by (simp add: message_spec_from_outbox_message_def)
  have got: "Option.bind w (\<lambda>u. outbox_by_id u s) = Some m \<Longrightarrow> row_get ob_id (ob_id m) (db_outbox (rs_db s)) = Some m" for w m
    by (cases w) (auto simp: outbox_by_id_def dest: row_get_key)
  show "message_contents (rs_db (snd (rebuild_outbox re w i s))) j = message_contents (rs_db s) j"
    by (auto simp: rebuild_outbox_def loaded_def commit_session_def Let_def put_item_def map_db_def put_recovery_def
        message_contents_def get_outbox_def put_outbox_def row_get_put spec dest!: got split: option.splits)
  show "outbox_wf (rs_db s) \<Longrightarrow> outbox_wf (rs_db (snd (rebuild_outbox re w i s)))"
    by (auto simp: rebuild_outbox_def loaded_def commit_session_def Let_def put_item_def map_db_def put_recovery_def
        outbox_wf_def put_outbox_def row_put_distinct split: option.splits)
qed

lemma contents_outbox: "db_outbox d' = db_outbox d \<Longrightarrow> message_contents d' i = message_contents d i \<and> outbox_wf d' = outbox_wf d"
  by (simp add: message_contents_def get_outbox_def outbox_wf_def)

lemma history_keeps:
  assumes "outbox_history rewrite k rs d d'" "outbox_wf d" "message_contents d i = Some sp"
  shows "outbox_wf d' \<and> message_contents d' i = Some (fold (reconciled_spec rewrite) rs sp)"
  using assms
proof induction
  case (begun d)
  then show ?case by simp
next
  case (relayed rs d d' d'')
  then show ?case using outbox.step_ok outbox.step_keeps by blast
next
  case (elsewhere rs d d' d'')
  then show ?case using contents_outbox [of d'' d' i] by simp
next
  case (rebuilt rs d s re w j)
  then show ?case by (simp add: rebuild_contents)
next
  case (folded rs d d' r)
  then show ?case by (simp add: reconciled_contents)
qed

lemma fold_frame:
  "sp_message_id (fold (reconciled_spec rewrite) rs sp) = sp_message_id sp \<and>
   sp_exchange (fold (reconciled_spec rewrite) rs sp) = sp_exchange sp \<and>
   sp_routing_key (fold (reconciled_spec rewrite) rs sp) = sp_routing_key sp \<and>
   sp_event_type (fold (reconciled_spec rewrite) rs sp) = sp_event_type sp \<and>
   sp_headers (fold (reconciled_spec rewrite) rs sp) = sp_headers sp"
  by (induction rs arbitrary: sp) simp_all

text \<open>
  C3. No transaction of producers, relays, the lease sweep, the recovery runtime's redrive or SHA reconciliation, in any
  interleaving, loses an outbox message. Its content stays what its producer put into it, up to the ids that the reconciliations among the
  transactions replaced, in the order they committed; its message id, route, event type and headers never change.
\<close>

theorem outbox_never_loses_messages:
  assumes "outbox_wf d" "outbox_history rewrite k rs d d'" "message_contents d i = Some spec"
  shows "\<exists>spec'. message_contents d' i = Some spec' \<and> spec' = fold (reconciled_spec rewrite) rs spec \<and>
    sp_message_id spec' = sp_message_id spec \<and> sp_exchange spec' = sp_exchange spec \<and>
    sp_routing_key spec' = sp_routing_key spec \<and> sp_event_type spec' = sp_event_type spec \<and>
    sp_headers spec' = sp_headers spec"
  using history_keeps [OF assms(2,1,3)] fold_frame [of rewrite rs spec] by simp

lemma sample_history:
  "outbox_history (\<lambda>_ _ _ t. t) 5 [FilesFolded 1 2] sample_outbox_db
     (reconciled (\<lambda>_ _ _ t. t) (FilesFolded 1 2) (snd (claim_due sample_env 10 sample_outbox_db)))"
proof -
  have "outbox_step 5 sample_outbox_db (snd (claim_due sample_env 10 sample_outbox_db))"
    by (rule step_claim_due) (simp add: sample_env_def)
  from folded [OF relayed [OF begun this], of _ "FilesFolded 1 2"] show ?thesis by simp
qed

theorem outbox_never_loses_messages_witness:
  "map_option sp_message_id (message_contents
      (reconciled (\<lambda>_ _ _ t. t) (FilesFolded 1 2) (snd (claim_due sample_env 10 sample_outbox_db))) 60) = Some (MsgUuid 60)"
proof -
  have "message_contents sample_outbox_db 60 = Some (message_spec_from_outbox_message sample_message)"
    by (simp add: message_contents_def sample_outbox_get)
  from outbox_never_loses_messages [OF sample_outbox_wf(1) sample_history this] show ?thesis
    by (auto simp: message_spec_from_outbox_message_def sample_message_def)
qed

end
