(* ===== verification/Interaction_State.thy ===== *)
theory Interaction_State
  imports Pipeline_State
begin

text \<open>
  The recommendation state of a user (\<open>services/recommendations/interaction_state.py\<close>,
  \<open>models/recommendation.py\<close>): one row per user and meme with exact cooldown times, the dirty watermark of a
  profile, and the materialized profile, which any change of a durable preference invalidates.
\<close>

section \<open>Rows\<close>

datatype analytics_event =
    EV_ACCOUNT_MERGE | EV_AUTH_EVENT | EV_CHANNEL_SUGGEST | EV_CLICK | EV_COLLECTION_ACTION | EV_FAVORITE | EV_IMPRESSION
  | EV_INLINE_CHOSEN | EV_INLINE_QUERY | EV_INLINE_SENT | EV_INLINE_SERVED | EV_MEME_DETAIL_CLICK | EV_MEME_DOWNLOAD
  | EV_MEME_ENGAGED_VIEW | EV_MEME_IMPRESSION | EV_MEME_LIKE | EV_MEME_PIN | EV_MEME_REPORT | EV_MEME_SAVE | EV_MEME_SEND
  | EV_MEME_SHARE | EV_MEME_VIEW | EV_MINIAPP_OPEN | EV_PAGE_VIEW | EV_SAVE | EV_SEARCH_QUERY | EV_SHARE | EV_VIEW

record interest =
  in_first_seen :: time
  in_impression :: "time option"
  in_engaged_view :: "time option"
  in_strong_action :: "time option"
  in_impression_count :: int

text \<open>
  The tables: interest rows by user and meme, the \<open>dirty_since\<close> column of the status row of a user (the outer
  option is the row), the users with a materialized profile, and the signal rows behind the profiles.
\<close>

record interests =
  is_rows :: "uuid \<times> uuid \<Rightarrow> interest option"
  is_dirty :: "uuid \<Rightarrow> time option option"
  is_profiles :: "uuid list"
  is_signals :: "(uuid \<times> uuid) list"

section \<open>Which events count\<close>

definition IMPRESSION_EVENT_TYPES :: "analytics_event list" where
  "IMPRESSION_EVENT_TYPES = [EV_IMPRESSION, EV_INLINE_SERVED, EV_MEME_IMPRESSION]"

definition ENGAGED_VIEW_EVENT_TYPES :: "analytics_event list" where
  "ENGAGED_VIEW_EVENT_TYPES = [EV_MEME_ENGAGED_VIEW]"

definition DURABLE_PREFERENCE_EVENT_TYPES :: "analytics_event list" where
  "DURABLE_PREFERENCE_EVENT_TYPES = [EV_FAVORITE, EV_MEME_LIKE, EV_MEME_PIN, EV_MEME_SAVE, EV_SAVE]"

definition HIGH_INTENT_EVENT_TYPES :: "analytics_event list" where
  "HIGH_INTENT_EVENT_TYPES =
     [EV_INLINE_CHOSEN, EV_INLINE_SENT, EV_MEME_DOWNLOAD, EV_MEME_SEND, EV_MEME_SHARE, EV_SHARE]"

definition PROFILE_SIGNAL_EVENT_TYPES :: "analytics_event list" where
  "PROFILE_SIGNAL_EVENT_TYPES =
     DURABLE_PREFERENCE_EVENT_TYPES @ HIGH_INTENT_EVENT_TYPES @
     [EV_MEME_DETAIL_CLICK, EV_MEME_ENGAGED_VIEW, EV_MEME_VIEW, EV_VIEW]"

definition REMOVE_ACTIONS :: "text_value list" where
  "REMOVE_ACTIONS =
     [''delete'', ''deleted'', ''remove'', ''removed'', ''remove_save'', ''unfavorite'', ''unlike'', ''unpin'', ''unsave'']"

definition NEUTRAL_ACTIONS :: "text_value list" where
  "NEUTRAL_ACTIONS = [''reorder'', ''reorder_pin'']"

text \<open>The properties of an event are a JSON object; only a text under the key \<open>action\<close> is read.\<close>

definition normalized_action :: "json_object \<Rightarrow> text_value option" where
  "normalized_action properties =
     (case properties ''action'' of
        Some (JText t) \<Rightarrow> opt_text (map (\<lambda>c. if c = CHR ''-'' then CHR ''_'' else c) (py_lower (py_strip t)))
      | _ \<Rightarrow> None)"

definition is_profile_signal :: "analytics_event \<Rightarrow> json_object \<Rightarrow> bool" where
  "is_profile_signal e properties \<longleftrightarrow>
     (if e \<notin> set PROFILE_SIGNAL_EVENT_TYPES then False
      else if e \<notin> set DURABLE_PREFERENCE_EVENT_TYPES then True
      else (case normalized_action properties of None \<Rightarrow> True | Some a \<Rightarrow> a \<notin> set NEUTRAL_ACTIONS))"

definition is_strong_action :: "analytics_event \<Rightarrow> json_object \<Rightarrow> bool" where
  "is_strong_action e properties \<longleftrightarrow>
     (if e \<in> set HIGH_INTENT_EVENT_TYPES then True
      else if e \<notin> set DURABLE_PREFERENCE_EVENT_TYPES then False
      else (case normalized_action properties of
              None \<Rightarrow> True | Some a \<Rightarrow> a \<notin> set (REMOVE_ACTIONS @ NEUTRAL_ACTIONS)))"

section \<open>Projection\<close>

text \<open>\<open>greatest(coalesce(current, incoming), incoming)\<close>, where \<open>greatest\<close> ignores NULL.\<close>

definition latest_timestamp :: "time option \<Rightarrow> time option \<Rightarrow> time option" where
  "latest_timestamp current incoming =
     (case (current, incoming) of
        (Some a, Some b) \<Rightarrow> Some (max a b) | (Some a, None) \<Rightarrow> Some a | (None, x) \<Rightarrow> x)"

definition combine_interest :: "interest \<Rightarrow> interest \<Rightarrow> interest" where
  "combine_interest row new =
     \<lparr>in_first_seen = min (in_first_seen row) (in_first_seen new),
      in_impression = latest_timestamp (in_impression row) (in_impression new),
      in_engaged_view = latest_timestamp (in_engaged_view row) (in_engaged_view new),
      in_strong_action = latest_timestamp (in_strong_action row) (in_strong_action new),
      in_impression_count = in_impression_count row + in_impression_count new\<rparr>"

text \<open>\<open>INSERT ... ON CONFLICT DO UPDATE\<close>.\<close>

definition put_interest :: "uuid \<Rightarrow> uuid \<Rightarrow> interest \<Rightarrow> interests \<Rightarrow> interests" where
  "put_interest user meme new s =
     s\<lparr>is_rows := (is_rows s)((user, meme) \<mapsto>
          (case is_rows s (user, meme) of None \<Rightarrow> new | Some row \<Rightarrow> combine_interest row new))\<rparr>"

definition upsert_recommendation_state ::
  "uuid \<Rightarrow> uuid \<Rightarrow> time \<Rightarrow> bool \<Rightarrow> bool \<Rightarrow> bool \<Rightarrow> interests \<Rightarrow> interests" where
  "upsert_recommendation_state user meme occurred is_impression is_engaged_view is_strong s =
     put_interest user meme
       \<lparr>in_first_seen = occurred,
        in_impression = (if is_impression then Some occurred else None),
        in_engaged_view = (if is_engaged_view then Some occurred else None),
        in_strong_action = (if is_strong then Some occurred else None),
        in_impression_count = (if is_impression then 1 else 0)\<rparr> s"

definition mark_recommendation_profile_dirty :: "uuid \<Rightarrow> time \<Rightarrow> interests \<Rightarrow> interests" where
  "mark_recommendation_profile_dirty user at_time s =
     s\<lparr>is_dirty := (is_dirty s)(user \<mapsto>
          Some (case is_dirty s user of Some (Some t) \<Rightarrow> min t at_time | _ \<Rightarrow> at_time))\<rparr>"

definition invalidate_recommendation_profile :: "uuid \<Rightarrow> time \<Rightarrow> interests \<Rightarrow> interests" where
  "invalidate_recommendation_profile user at_time s =
     mark_recommendation_profile_dirty user at_time
       (s\<lparr>is_signals := filter (\<lambda>(u, m). u \<noteq> user) (is_signals s),
          is_profiles := filter (\<lambda>u. u \<noteq> user) (is_profiles s)\<rparr>)"

definition project_durable_preference_change :: "uuid \<Rightarrow> uuid \<Rightarrow> bool \<Rightarrow> time \<Rightarrow> interests \<Rightarrow> interests" where
  "project_durable_preference_change user meme is_add observed s =
     (let s1 = upsert_recommendation_state user meme observed False False is_add s
      in if is_add then mark_recommendation_profile_dirty user observed s1
         else invalidate_recommendation_profile user observed s1)"

text \<open>\<open>known\<close> says whether the meme has a row.\<close>

definition project_recommendation_interaction ::
  "(uuid \<Rightarrow> bool) \<Rightarrow> uuid option \<Rightarrow> uuid option \<Rightarrow> analytics_event \<Rightarrow> json_object \<Rightarrow> time \<Rightarrow> interests \<Rightarrow> interests" where
  "project_recommendation_interaction known user meme e properties occurred s =
     (case (user, meme) of
        (Some u, Some m) \<Rightarrow>
          if \<not> known m then s
          else
            (let is_impression = e \<in> set IMPRESSION_EVENT_TYPES;
                 is_engaged = e \<in> set ENGAGED_VIEW_EVENT_TYPES;
                 strong = is_strong_action e properties;
                 signal = is_profile_signal e properties
             in if \<not> (is_impression \<or> is_engaged \<or> strong \<or> signal) then s
                else
                  (let s1 = upsert_recommendation_state u m occurred is_impression is_engaged strong s
                   in if signal then mark_recommendation_profile_dirty u occurred s1 else s1))
      | _ \<Rightarrow> s)"

text \<open>\<open>merge_user_recommendation_state\<close>: every row of the source is combined into the target's.\<close>

definition merge_user_recommendation_state :: "uuid \<Rightarrow> uuid \<Rightarrow> time \<Rightarrow> interests \<Rightarrow> interests" where
  "merge_user_recommendation_state source target merged s =
     (if source = target then s
      else
        invalidate_recommendation_profile target merged
          (s\<lparr>is_rows := (\<lambda>(u, m).
               if u = source then None
               else if u = target
               then (case (is_rows s (target, m), is_rows s (source, m)) of
                       (Some row, Some new) \<Rightarrow> Some (combine_interest row new)
                     | (None, x) \<Rightarrow> x
                     | (Some row, None) \<Rightarrow> Some row)
               else is_rows s (u, m))\<rparr>))"

section \<open>Lemmas\<close>

lemma latest_timestamp_simps [simp]:
  "latest_timestamp None x = x" "latest_timestamp x None = x" "latest_timestamp (Some a) (Some b) = Some (max a b)"
  by (cases x; simp add: latest_timestamp_def)+

lemma latest_timestamp_assoc: "latest_timestamp (latest_timestamp a b) c = latest_timestamp a (latest_timestamp b c)"
  by (cases a; cases b; cases c) (simp_all add: max.assoc)

lemma latest_timestamp_commute: "latest_timestamp a b = latest_timestamp b a"
  by (cases a; cases b) (simp_all add: max.commute)

lemma combine_interest_assoc:
  "combine_interest (combine_interest a b) c = combine_interest a (combine_interest b c)"
  by (simp add: combine_interest_def latest_timestamp_assoc min.assoc)

lemma combine_interest_commute: "combine_interest a b = combine_interest b a"
  by (simp add: combine_interest_def latest_timestamp_commute min.commute)

interpretation interest: abel_semigroup combine_interest
  by unfold_locales (rule combine_interest_assoc combine_interest_commute)+

lemma put_interest_frame [simp]:
  "is_dirty (put_interest u m new s) = is_dirty s"
  "is_profiles (put_interest u m new s) = is_profiles s"
  "is_signals (put_interest u m new s) = is_signals s"
  by (simp_all add: put_interest_def)

text \<open>The order in which two observations of the same meme arrive does not matter.\<close>

lemma put_interest_commute:
  "put_interest u m a (put_interest u' m' b s) = put_interest u' m' b (put_interest u m a s)"
  by (auto simp: put_interest_def fun_eq_iff interest.commute interest.left_commute split: option.splits)

end
