(* ===== verification/Library_State.thy ===== *)
theory Library_State
  imports Content_Merge Interaction_State
begin

text \<open>
  The rows of accounts and libraries (\<open>models/user.py\<close>, \<open>models/collection.py\<close>): users, collections, members,
  invites, the saves and pins the pipeline's database already has, the constraints PostgreSQL checks when they are
  flushed, and the cascade of a deleted meme. \<open>library\<close> is the state of the collection and account services.
\<close>

section \<open>Enumerations\<close>

datatype account_type = GUEST | FULL
datatype account_status = ACCOUNT_ACTIVE | DELETION_PENDING | ACCOUNT_DELETED
datatype user_language = USER_ANY | USER_EN | USER_RU
datatype collection_kind = CUSTOM | FAVORITES
datatype collection_visibility = PRIVATE | UNLISTED | PUBLIC
datatype member_role = OWNER | EDITOR | VIEWER
datatype invite_status = INVITE_ACCEPTED | INVITE_EXPIRED | INVITE_PENDING | INVITE_REVOKED
datatype invite_channel = DIRECT_LINK | EMAIL | TELEGRAM_CHAT

text \<open>The classes of \<open>StrEnum\<close> read a text: \<open>None\<close> is \<open>ValueError\<close>.\<close>

definition visibility_of_text :: "text_value \<Rightarrow> collection_visibility option" where
  "visibility_of_text t = map_of [(''private'', PRIVATE), (''unlisted'', UNLISTED), (''public'', PUBLIC)] t"

definition role_of_text :: "text_value \<Rightarrow> member_role option" where
  "role_of_text t = map_of [(''owner'', OWNER), (''editor'', EDITOR), (''viewer'', VIEWER)] t"

definition channel_of_text :: "text_value \<Rightarrow> invite_channel option" where
  "channel_of_text t = map_of [(''direct_link'', DIRECT_LINK), (''email'', EMAIL), (''telegram'', TELEGRAM_CHAT)] t"

section \<open>Rows\<close>

record app_user =
  us_id :: uuid
  us_status :: account_status
  us_telegram :: "int option"
  us_google :: "text_value option"
  us_email :: "text_value option"
  us_email_verified_at :: "time option"
  us_password_hash :: "text_value option"
  us_active_save :: "uuid option"
  us_nsfw_enabled :: bool
  us_language :: user_language
  us_last_active_at :: "time option"
  us_guest_expires_at :: "time option"
  us_token_nonce :: int
  us_updated_at :: time

text \<open>The account type is derived from the login identities of the row.\<close>

definition has_linked_login_identity :: "app_user \<Rightarrow> bool" where
  "has_linked_login_identity u \<longleftrightarrow>
     us_telegram u \<noteq> None \<or> us_google u \<noteq> None \<or> us_email u \<noteq> None \<or>
     (case us_password_hash u of None \<Rightarrow> False | Some p \<Rightarrow> py_strip p \<noteq> [])"

definition us_type :: "app_user \<Rightarrow> account_type" where
  "us_type u = (if has_linked_login_identity u then FULL else GUEST)"

record collection =
  co_id :: uuid
  co_owner :: uuid
  co_title :: text_value
  co_description :: "text_value option"
  co_kind :: collection_kind
  co_visibility :: collection_visibility
  co_updated_at :: time

record member =
  cm_collection :: uuid
  cm_user :: uuid
  cm_role :: member_role

record invite =
  ci_id :: uuid
  ci_collection :: uuid
  ci_created_by :: "uuid option"
  ci_token_hash :: text_value
  ci_role :: member_role
  ci_channel :: invite_channel
  ci_label :: "text_value option"
  ci_status :: invite_status
  ci_max_uses :: "int option"
  ci_use_count :: int
  ci_expires_at :: "time option"
  ci_last_used_at :: "time option"
  ci_revoked_at :: "time option"
  ci_recipient_email :: "text_value option"

text \<open>The columns of a save and of a pin the pipeline's tables leave out.\<close>

record save_info =
  sv_added_by :: "uuid option"
  sv_added_at :: time

record link_code =
  lc_id :: uuid
  lc_guest :: uuid
  lc_hash :: text_value
  lc_expires_at :: time
  lc_redeemed_at :: "time option"
  lc_redeemed_by :: "int option"

record account_merge =
  am_id :: uuid
  am_guest :: uuid
  am_target :: uuid
  am_favorites :: nat
  am_views :: nat
  am_created_at :: time

text \<open>
  The database of the services. Analytics rows are the user and the type of each event, inline rows the user;
  \<open>lb_objects\<close> are the keys of the object store.
\<close>

record library =
  lb_db :: db
  lb_users :: "app_user list"
  lb_collections :: "collection list"
  lb_members :: "member list"
  lb_invites :: "invite list"
  lb_saves :: "uuid \<times> uuid \<Rightarrow> save_info option"
  lb_pinned_at :: "uuid \<times> uuid \<Rightarrow> time"
  lb_interests :: interests
  lb_analytics :: "(uuid option \<times> analytics_event) list"
  lb_inline :: "uuid option list"
  lb_link_codes :: "link_code list"
  lb_merges :: "account_merge list"
  lb_objects :: "text_value list"

record library_env =
  le_env :: env
  le_delete_ok :: "text_value \<Rightarrow> bool"
  le_sha256 :: "text_value \<Rightarrow> text_value"
  le_link_code :: text_value
  le_bot_username :: "text_value option"
  le_return_url :: "text_value option"
  le_link_ttl :: int

section \<open>Errors\<close>

datatype db_constraint =
    PK_PIN | UQ_PIN_POSITION | PIN_POSITION_RANGE | UQ_FAVORITES | PK_MEMBER | PK_SAVE | UQ_TOKEN_HASH | INVITE_USES
  | UQ_USER_TELEGRAM | UQ_USER_GOOGLE | UQ_USER_EMAIL | UQ_LINK_CODE

datatype library_error =
    UserNotFound uuid
  | CollectionNotFound uuid
  | MemeNotFound uuid
  | GuestCollectionAccess text_value
  | CollectionWriteAccess text_value
  | CollectionVerificationRequired
  | CollectionServiceFailure text_value
  | InvalidCollectionTitle text_value
  | InvalidCollectionMembership text_value
  | InvalidCollectionInvite text_value
  | DuplicateCollectionInvite
  | DuplicateFavorites uuid
  | PinLimitExceeded
  | InvalidPinnedMemeOrder text_value
  | InvalidIdentity text_value
  | DuplicateIdentity text_value
  | UserServiceFailure text_value
  | GuestAccountRequired
  | AccountUnavailable
  | AccountLinkInvariant text_value
  | AccountLinkAlreadyCompleted
  | ProviderNotConfigured
  | AuthConfiguration text_value
  | EmailAlreadyInUse
  | ProviderPayloadInvalid text_value
  | ProviderFailure text_value
  | StorageConfiguration text_value
  | Integrity db_constraint
  | DatabaseFailure

type_synonym 'a library_run = "(library_error + 'a) \<times> library"

text \<open>A step that raises leaves the library as it was; otherwise the rest runs on its value.\<close>

definition check :: "library \<Rightarrow> library_error + 'a \<Rightarrow> ('a \<Rightarrow> 'b library_run) \<Rightarrow> 'b library_run" where
  "check s r k = (case r of Inl e \<Rightarrow> (Inl e, s) | Inr x \<Rightarrow> k x)"

definition require :: "library_error \<Rightarrow> bool \<Rightarrow> library_error + unit" where
  "require e ok = (if ok then Inr () else Inl e)"

definition found :: "library_error \<Rightarrow> 'a option \<Rightarrow> library_error + 'a" where
  "found e r = (case r of None \<Rightarrow> Inl e | Some x \<Rightarrow> Inr x)"

section \<open>Row access\<close>

definition get_user :: "library \<Rightarrow> uuid \<Rightarrow> app_user option" where
  "get_user s u = row_get us_id u (lb_users s)"

definition put_user :: "env \<Rightarrow> app_user \<Rightarrow> library \<Rightarrow> library" where
  "put_user env r s = s\<lparr>lb_users := row_put us_id (r\<lparr>us_updated_at := env_now env\<rparr>) (lb_users s)\<rparr>"

definition get_collection :: "library \<Rightarrow> uuid \<Rightarrow> collection option" where
  "get_collection s c = row_get co_id c (lb_collections s)"

definition put_collection :: "env \<Rightarrow> collection \<Rightarrow> library \<Rightarrow> library" where
  "put_collection env r s = s\<lparr>lb_collections := row_put co_id (r\<lparr>co_updated_at := env_now env\<rparr>) (lb_collections s)\<rparr>"

definition member_key :: "member \<Rightarrow> uuid \<times> uuid" where
  "member_key r = (cm_collection r, cm_user r)"

definition get_member :: "library \<Rightarrow> uuid \<Rightarrow> uuid \<Rightarrow> member option" where
  "get_member s c u = row_get member_key (c, u) (lb_members s)"

definition put_member :: "member \<Rightarrow> library \<Rightarrow> library" where
  "put_member r s = s\<lparr>lb_members := row_put member_key r (lb_members s)\<rparr>"

definition put_invite :: "invite \<Rightarrow> library \<Rightarrow> library" where
  "put_invite r s = s\<lparr>lb_invites := row_put ci_id r (lb_invites s)\<rparr>"

definition map_lb_db :: "(db \<Rightarrow> db) \<Rightarrow> library \<Rightarrow> library" where
  "map_lb_db f s = s\<lparr>lb_db := f (lb_db s)\<rparr>"

definition map_interests :: "(interests \<Rightarrow> interests) \<Rightarrow> library \<Rightarrow> library" where
  "map_interests f s = s\<lparr>lb_interests := f (lb_interests s)\<rparr>"

definition saved :: "library \<Rightarrow> uuid \<Rightarrow> uuid \<Rightarrow> bool" where
  "saved s c m \<longleftrightarrow> (c, m) \<in> set (db_collection_memes (lb_db s))"

definition pins_of :: "db \<Rightarrow> uuid \<Rightarrow> pin list" where
  "pins_of d u = filter (\<lambda>p. pn_user p = u) (db_pins d)"

text \<open>\<open>SELECT ... WHERE owner_id = :user AND kind = 'favorites'\<close>, under the unique index at most one row.\<close>

definition favorites_of :: "library \<Rightarrow> uuid \<Rightarrow> collection option" where
  "favorites_of s u = find (\<lambda>c. co_owner c = u \<and> co_kind c = FAVORITES) (lb_collections s)"

section \<open>Constraints\<close>

definition pin_key :: "pin \<Rightarrow> uuid \<times> uuid" where "pin_key p = (pn_user p, pn_meme p)"
definition pin_slot :: "pin \<Rightarrow> uuid \<times> int" where "pin_slot p = (pn_user p, pn_position p)"

definition MAX_PINNED_MEMES :: nat where "MAX_PINNED_MEMES = 20"

definition pin_checks :: "library \<Rightarrow> (db_constraint \<times> bool) list" where
  "pin_checks s =
     [(PK_PIN, distinct (map pin_key (db_pins (lb_db s)))),
      (UQ_PIN_POSITION, distinct (map pin_slot (db_pins (lb_db s)))),
      (PIN_POSITION_RANGE, list_all (\<lambda>p. 1 \<le> pn_position p \<and> pn_position p \<le> 20) (db_pins (lb_db s)))]"

definition collection_checks :: "library \<Rightarrow> (db_constraint \<times> bool) list" where
  "collection_checks s =
     [(UQ_FAVORITES, distinct (map co_owner (filter (\<lambda>c. co_kind c = FAVORITES) (lb_collections s)))),
      (PK_MEMBER, distinct (map member_key (lb_members s)))]"

definition save_checks :: "library \<Rightarrow> (db_constraint \<times> bool) list" where
  "save_checks s = [(PK_SAVE, distinct (db_collection_memes (lb_db s)))]"

definition invite_checks :: "library \<Rightarrow> (db_constraint \<times> bool) list" where
  "invite_checks s =
     [(UQ_TOKEN_HASH, distinct (map ci_token_hash (lb_invites s))),
      (INVITE_USES, list_all (\<lambda>i. 0 \<le> ci_use_count i \<and> (case ci_max_uses i of None \<Rightarrow> True | Some n \<Rightarrow> 0 < n)) (lb_invites s))]"

definition user_checks :: "library \<Rightarrow> (db_constraint \<times> bool) list" where
  "user_checks s =
     [(UQ_USER_TELEGRAM, distinct (List.map_filter us_telegram (lb_users s))),
      (UQ_USER_GOOGLE, distinct (List.map_filter us_google (lb_users s))),
      (UQ_USER_EMAIL, distinct (List.map_filter us_email (lb_users s)))]"

definition link_code_checks :: "library \<Rightarrow> (db_constraint \<times> bool) list" where
  "link_code_checks s = [(UQ_LINK_CODE, distinct (map lc_hash (lb_link_codes s)))]"

definition constraint_checks :: "library \<Rightarrow> (db_constraint \<times> bool) list" where
  "constraint_checks s =
     pin_checks s @ collection_checks s @ save_checks s @ invite_checks s @ user_checks s @ link_code_checks s"

definition violated_constraint :: "library \<Rightarrow> db_constraint option" where
  "violated_constraint s = map_option fst (find (\<lambda>(c, ok). \<not> ok) (constraint_checks s))"

text \<open>
  A commit flushes what is pending: a violated constraint is an \<open>IntegrityError\<close>, which the services turn into
  \<open>on_integrity\<close>; any other failure leaves the service as it is. Either way the transaction is rolled back.
\<close>

definition commit_library :: "library_env \<Rightarrow> library \<Rightarrow> (db_constraint \<Rightarrow> library_error) \<Rightarrow> 'a \<Rightarrow> library \<Rightarrow> 'a library_run" where
  "commit_library le before on_integrity v s =
     (case violated_constraint s of
        Some c \<Rightarrow> (Inl (on_integrity c), before)
      | None \<Rightarrow> if env_commit_ok (le_env le) then (Inr v, s) else (Inl DatabaseFailure, before))"

text \<open>A flush outside a \<open>try\<close> block lets the \<open>IntegrityError\<close> through.\<close>

definition flush_library :: "(db_constraint \<Rightarrow> library_error) \<Rightarrow> library \<Rightarrow> library_error + library" where
  "flush_library on_integrity s =
     (case violated_constraint s of Some c \<Rightarrow> Inl (on_integrity c) | None \<Rightarrow> Inr s)"

section \<open>Deleting a meme\<close>

text \<open>The foreign keys of \<open>models/\<close>: rows of the meme and of its files go, other references to them become NULL.\<close>

definition unless_gone :: "uuid list \<Rightarrow> uuid option \<Rightarrow> uuid option" where
  "unless_gone gone r = (case r of Some u \<Rightarrow> if u \<in> set gone then None else Some u | None \<Rightarrow> None)"

definition delete_meme_rows :: "uuid \<Rightarrow> db \<Rightarrow> db" where
  "delete_meme_rows m d =
     (let gone = map mf_id (filter (\<lambda>f. mf_meme_id f = m) (db_files d))
      in d\<lparr>db_memes := filter (\<lambda>r. me_id r \<noteq> m) (db_memes d),
           db_files := filter (\<lambda>f. mf_meme_id f \<noteq> m) (db_files d),
           db_sources := map (\<lambda>r. r\<lparr>ms_matched_file := unless_gone gone (ms_matched_file r)\<rparr>)
             (filter (\<lambda>r. ms_file r \<notin> set gone) (db_sources d)),
           db_journal := (\<lambda>(f, st). if f \<in> set gone then None else db_journal d (f, st)),
           db_attempts := (\<lambda>(f, k). if f \<in> set gone then None else db_attempts d (f, k)),
           db_snapshots := (\<lambda>(f, t). if f \<in> set gone then None else db_snapshots d (f, t)),
           db_ocr := (\<lambda>f. if f \<in> set gone then None else db_ocr d f),
           db_generations := map (\<lambda>g. g\<lparr>mg_file := unless_gone gone (mg_file g)\<rparr>) (db_generations d),
           db_recovery := map (\<lambda>i. i\<lparr>ri_file := unless_gone gone (ri_file i)\<rparr>) (db_recovery d),
           db_collection_memes := filter (\<lambda>(c, k). k \<noteq> m) (db_collection_memes d),
           db_pins := filter (\<lambda>p. pn_meme p \<noteq> m) (db_pins d)\<rparr>)"

definition delete_meme_cascade :: "uuid \<Rightarrow> library \<Rightarrow> library" where
  "delete_meme_cascade m s =
     s\<lparr>lb_db := delete_meme_rows m (lb_db s),
       lb_saves := (\<lambda>(c, k). if k = m then None else lb_saves s (c, k)),
       lb_interests := (lb_interests s)
         \<lparr>is_rows := (\<lambda>(u, k). if k = m then None else is_rows (lb_interests s) (u, k)),
          is_signals := filter (\<lambda>(u, k). k \<noteq> m) (is_signals (lb_interests s))\<rparr>\<rparr>"

section \<open>Lemmas\<close>

lemma check_Inr: "check s r k = (Inr v, s') \<longleftrightarrow> (\<exists>x. r = Inr x \<and> k x = (Inr v, s'))"
  by (cases r) (simp_all add: check_def)

lemma check_simps [simp]: "check s (Inl e) k = (Inl e, s)" "check s (Inr x) k = k x"
  by (simp_all add: check_def)

lemma check_split: "P (check s r k) \<longleftrightarrow> (\<forall>e. r = Inl e \<longrightarrow> P (Inl e, s)) \<and> (\<forall>x. r = Inr x \<longrightarrow> P (k x))"
  by (cases r) simp_all

lemma found_Inr [simp]: "found e r = Inr x \<longleftrightarrow> r = Some x"
  by (cases r) (simp_all add: found_def)

lemma require_Inr [simp]: "require e ok = Inr x \<longleftrightarrow> ok"
  by (simp add: require_def)

lemma commit_library_Inr:
  "commit_library le before f v s = (Inr w, s') \<longleftrightarrow>
     violated_constraint s = None \<and> env_commit_ok (le_env le) \<and> w = v \<and> s' = s"
  by (auto simp: commit_library_def split: option.splits)

lemma commit_library_snd: "snd (commit_library le before f v s) \<in> {before, s}"
  by (auto simp: commit_library_def split: option.splits)

lemma no_violation:
  "violated_constraint s = None \<longleftrightarrow> (\<forall>x\<in>set (constraint_checks s). snd x)"
  by (auto simp: violated_constraint_def find_None_iff) blast

lemma delete_meme_rows_simps [simp]:
  "db_memes (delete_meme_rows m d) = filter (\<lambda>r. me_id r \<noteq> m) (db_memes d)"
  "db_collection_memes (delete_meme_rows m d) = filter (\<lambda>(c, k). k \<noteq> m) (db_collection_memes d)"
  "db_pins (delete_meme_rows m d) = filter (\<lambda>p. pn_meme p \<noteq> m) (db_pins d)"
  "db_files (delete_meme_rows m d) = filter (\<lambda>f. mf_meme_id f \<noteq> m) (db_files d)"
  by (simp_all add: delete_meme_rows_def Let_def)

lemma delete_meme_cascade_simps [simp]:
  "lb_db (delete_meme_cascade m s) = delete_meme_rows m (lb_db s)"
  "lb_users (delete_meme_cascade m s) = lb_users s"
  "lb_collections (delete_meme_cascade m s) = lb_collections s"
  "lb_members (delete_meme_cascade m s) = lb_members s"
  "lb_invites (delete_meme_cascade m s) = lb_invites s"
  "lb_objects (delete_meme_cascade m s) = lb_objects s"
  by (simp_all add: delete_meme_cascade_def)

end
