(* ===== verification/Collection_Service.thy ===== *)
theory Collection_Service
  imports Library_State
begin

text \<open>
  \<open>CollectionService\<close> (\<open>services/collection_service.py\<close>): Favorites and custom collections, saves and likes, the
  active save destination, pins, members and invites. One definition per method; the actor of a method is its
  \<open>user\<close> argument. A method is one step of the library, executed alone: the source locks only the media generations it retires,
  so calls that overlap are outside this model (\<open>Collection_Joins\<close> takes the join of an invite apart).
\<close>

section \<open>Normalisation\<close>

definition MAX_COLLECTION_TITLE_LENGTH :: nat where "MAX_COLLECTION_TITLE_LENGTH = 120"
definition MAX_COLLECTION_LABEL_LENGTH :: nat where "MAX_COLLECTION_LABEL_LENGTH = 120"
definition MAX_INVITE_TOKEN_HASH_LENGTH :: nat where "MAX_INVITE_TOKEN_HASH_LENGTH = 64"
definition FAVORITES_TITLE :: text_value where "FAVORITES_TITLE = ''Favorites''"
definition WRITE_ROLES :: "member_role list" where "WRITE_ROLES = [OWNER, EDITOR]"

definition normalize_collection_title :: "text_value \<Rightarrow> library_error + text_value" where
  "normalize_collection_title title =
     (let t = py_strip title
      in if t = [] then Inl (InvalidCollectionTitle ''Collection title cannot be blank.'')
         else if length t > MAX_COLLECTION_TITLE_LENGTH
         then Inl (InvalidCollectionTitle ''Collection title must be at most 120 characters long.'')
         else Inr t)"

definition normalize_optional_text :: "text_value option \<Rightarrow> text_value option" where
  "normalize_optional_text v = (case v of None \<Rightarrow> None | Some t \<Rightarrow> opt_text (py_strip t))"

definition normalize_optional_label :: "text_value option \<Rightarrow> library_error + text_value option" where
  "normalize_optional_label label =
     (case normalize_optional_text label of
        None \<Rightarrow> Inr None
      | Some t \<Rightarrow>
          if length t > MAX_COLLECTION_LABEL_LENGTH
          then Inl (InvalidCollectionInvite ''Invite label must be at most 120 characters long.'') else Inr (Some t))"

definition normalize_token_hash :: "text_value \<Rightarrow> library_error + text_value" where
  "normalize_token_hash token =
     (let t = py_strip token
      in if t = [] then Inl (InvalidCollectionInvite ''Invite token hash cannot be blank.'')
         else if length t > MAX_INVITE_TOKEN_HASH_LENGTH
         then Inl (InvalidCollectionInvite ''Invite token hash must be at most 64 characters long.'')
         else Inr t)"

definition normalize_max_uses :: "int option \<Rightarrow> library_error + int option" where
  "normalize_max_uses n =
     (case n of
        None \<Rightarrow> Inr None
      | Some k \<Rightarrow> if k \<le> 0 then Inl (InvalidCollectionInvite ''Invite max_uses must be greater than zero.'') else Inr (Some k))"

definition resolve_visibility :: "text_value \<Rightarrow> library_error + collection_visibility" where
  "resolve_visibility t =
     (case visibility_of_text t of
        None \<Rightarrow> Inl (InvalidCollectionTitle (''Unsupported collection visibility '' @ t))
      | Some v \<Rightarrow>
          if v = PUBLIC then Inl (InvalidCollectionTitle ''Public collections are not available at launch.'') else Inr v)"

definition resolve_membership_role :: "text_value \<Rightarrow> library_error + member_role" where
  "resolve_membership_role t =
     found (InvalidCollectionMembership (''Unsupported collection membership role '' @ t)) (role_of_text t)"

definition resolve_invite_channel :: "text_value \<Rightarrow> library_error + invite_channel" where
  "resolve_invite_channel t =
     found (InvalidCollectionInvite (''Unsupported collection invite channel '' @ t)) (channel_of_text t)"

text \<open>\<open>normalize_auth_email\<close>: one local part, a domain with an inner dot, no blanks.\<close>

definition MAX_EMAIL_LENGTH :: nat where "MAX_EMAIL_LENGTH = 320"

fun has_double_dot :: "text_value \<Rightarrow> bool" where
  "has_double_dot (a # b # t) = ((a = CHR ''.'' \<and> b = CHR ''.'') \<or> has_double_dot (b # t))"
| "has_double_dot _ = False"

definition normalize_auth_email :: "text_value \<Rightarrow> text_value option" where
  "normalize_auth_email email =
     (let t = py_lower (py_strip email);
          local = takeWhile (\<lambda>c. c \<noteq> CHR ''@'') t;
          rest = dropWhile (\<lambda>c. c \<noteq> CHR ''@'') t;
          domain = tl rest
      in if t = [] \<or> length t > MAX_EMAIL_LENGTH \<or> CHR '' '' \<in> set t then None
         else if rest = [] \<or> local = [] \<or> domain = [] \<or> CHR ''.'' \<notin> set domain then None
         else if hd domain = CHR ''.'' \<or> last domain = CHR ''.'' \<or> has_double_dot t then None
         else Some t)"

definition normalize_email :: "text_value option \<Rightarrow> library_error + text_value option" where
  "normalize_email email =
     (case email of
        None \<Rightarrow> Inr None
      | Some t \<Rightarrow>
          (case normalize_auth_email t of
             None \<Rightarrow> Inl (InvalidIdentity ''Email must be a valid address.'') | Some e \<Rightarrow> Inr (Some e)))"

section \<open>Who may do what\<close>

definition membership_role_for_user :: "library \<Rightarrow> uuid \<Rightarrow> collection \<Rightarrow> member_role option" where
  "membership_role_for_user s u c = map_option cm_role (get_member s (co_id c) u)"

definition user_can_write_collection :: "library \<Rightarrow> uuid \<Rightarrow> collection \<Rightarrow> bool" where
  "user_can_write_collection s u c \<longleftrightarrow>
     co_owner c = u \<or> (case membership_role_for_user s u c of None \<Rightarrow> False | Some r \<Rightarrow> r \<in> set WRITE_ROLES)"

definition user_can_read_collection :: "library \<Rightarrow> uuid \<Rightarrow> collection \<Rightarrow> bool" where
  "user_can_read_collection s u c \<longleftrightarrow> co_owner c = u \<or> membership_role_for_user s u c \<noteq> None"

definition load_user :: "library \<Rightarrow> uuid \<Rightarrow> library_error + app_user" where
  "load_user s u = found (UserNotFound u) (get_user s u)"

definition load_collection :: "library \<Rightarrow> uuid \<Rightarrow> library_error + collection" where
  "load_collection s c = found (CollectionNotFound c) (get_collection s c)"

definition get_collection_for_read :: "library \<Rightarrow> uuid \<Rightarrow> uuid \<Rightarrow> library_error + (app_user \<times> collection)" where
  "get_collection_for_read s c u =
     (case get_user s u of
        None \<Rightarrow> Inl (UserNotFound u)
      | Some user \<Rightarrow>
     (case get_collection s c of
        None \<Rightarrow> Inl (CollectionNotFound c)
      | Some col \<Rightarrow>
          if co_kind col \<noteq> FAVORITES \<and> us_type user = GUEST
          then Inl (GuestCollectionAccess ''A full account is required for custom collections.'')
          else if \<not> user_can_read_collection s u col then Inl (CollectionNotFound c)
          else Inr (user, col)))"

definition ensure_can_write_collection :: "library \<Rightarrow> app_user \<Rightarrow> collection \<Rightarrow> library_error + unit" where
  "ensure_can_write_collection s user col =
     (if us_type user = GUEST \<and> co_kind col \<noteq> FAVORITES
      then Inl (GuestCollectionAccess ''Guest accounts can only use Favorites as the active save collection.'')
      else if \<not> user_can_write_collection s (us_id user) col
      then Inl (CollectionWriteAccess ''cannot write to collection'') else Inr ())"

definition ensure_owner_can_manage_custom_collection :: "app_user \<Rightarrow> collection \<Rightarrow> library_error + unit" where
  "ensure_owner_can_manage_custom_collection user col =
     (if co_kind col \<noteq> CUSTOM then Inl (CollectionWriteAccess ''Favorites collection metadata cannot be changed.'')
      else if co_owner col \<noteq> us_id user then Inl (CollectionWriteAccess ''Only the owner can manage collection'')
      else Inr ())"

definition ensure_can_manage_invites :: "library \<Rightarrow> app_user \<Rightarrow> collection \<Rightarrow> library_error + unit" where
  "ensure_can_manage_invites s user col =
     (if co_kind col \<noteq> CUSTOM then Inl (CollectionWriteAccess ''Favorites collections cannot be shared by invite.'')
      else if \<not> user_can_write_collection s (us_id user) col
      then Inl (CollectionWriteAccess ''cannot manage invites for collection'') else Inr ())"

definition ensure_user_can_collaborate :: "app_user \<Rightarrow> library_error + unit" where
  "ensure_user_can_collaborate user =
     (if us_type user = GUEST then Inl (GuestCollectionAccess ''Guest accounts cannot create collection invites.'')
      else if us_telegram user \<noteq> None \<or> us_google user \<noteq> None \<or> us_email_verified_at user \<noteq> None then Inr ()
      else Inl CollectionVerificationRequired)"

text \<open>\<open>_get_visible_meme_model\<close>: a public meme, or one saved in a collection the viewer owns or belongs to.\<close>

definition accessible_collection :: "library \<Rightarrow> uuid \<Rightarrow> uuid \<Rightarrow> bool" where
  "accessible_collection s u c \<longleftrightarrow>
     (case get_collection s c of
        None \<Rightarrow> False | Some col \<Rightarrow> co_owner col = u \<or> get_member s c u \<noteq> None)"

definition get_visible_meme :: "library \<Rightarrow> uuid \<Rightarrow> uuid \<Rightarrow> meme option" where
  "get_visible_meme s m viewer =
     (case get_meme (lb_db s) m of
        None \<Rightarrow> None
      | Some r \<Rightarrow>
          if me_is_public r \<or> list_ex (\<lambda>(c, k). k = m \<and> accessible_collection s viewer c) (db_collection_memes (lb_db s))
          then Some r else None)"

definition visible_meme :: "library \<Rightarrow> uuid \<Rightarrow> uuid \<Rightarrow> library_error + meme" where
  "visible_meme s m viewer = found (MemeNotFound m) (get_visible_meme s m viewer)"

section \<open>Invite states\<close>

definition apply_invite_terminal_status :: "time \<Rightarrow> invite \<Rightarrow> invite \<times> bool" where
  "apply_invite_terminal_status now i =
     (if ci_revoked_at i \<noteq> None \<and> ci_status i \<noteq> INVITE_REVOKED then (i\<lparr>ci_status := INVITE_REVOKED\<rparr>, True)
      else if ci_status i \<noteq> INVITE_PENDING then (i, False)
      else if (case ci_expires_at i of None \<Rightarrow> False | Some t \<Rightarrow> t \<le> now) then (i\<lparr>ci_status := INVITE_EXPIRED\<rparr>, True)
      else if (case ci_max_uses i of None \<Rightarrow> False | Some n \<Rightarrow> n \<le> ci_use_count i)
      then (i\<lparr>ci_status := INVITE_ACCEPTED\<rparr>, True)
      else (i, False))"

text \<open>\<open>_persist_terminal_invite_statuses\<close> over the invites \<open>P\<close> selects: whether anything changed.\<close>

definition persist_terminal_invite_statuses :: "library_env \<Rightarrow> (invite \<Rightarrow> bool) \<Rightarrow> library \<Rightarrow> bool library_run" where
  "persist_terminal_invite_statuses le P s =
     (let now = env_now (le_env le);
          changed = list_ex (\<lambda>i. P i \<and> snd (apply_invite_terminal_status now i)) (lb_invites s)
      in if \<not> changed then (Inr False, s)
         else commit_library le s (\<lambda>_. CollectionServiceFailure ''Failed to refresh collection invite status.'') True
                (s\<lparr>lb_invites := map (\<lambda>i. if P i then fst (apply_invite_terminal_status now i) else i) (lb_invites s)\<rparr>))"

definition ensure_invite_can_be_used :: "time \<Rightarrow> invite \<Rightarrow> library_error + unit" where
  "ensure_invite_can_be_used now i =
     require (InvalidCollectionInvite ''Invite link is invalid or expired.'')
       (ci_channel i = DIRECT_LINK \<and> ci_status i = INVITE_PENDING \<and> ci_revoked_at i = None \<and>
        (case ci_expires_at i of None \<Rightarrow> True | Some t \<Rightarrow> now < t) \<and>
        (case ci_max_uses i of None \<Rightarrow> True | Some n \<Rightarrow> ci_use_count i < n))"

section \<open>Favorites\<close>

text \<open>
  \<open>ensure_favorites_collection\<close>; with \<open>commit = False\<close> it flushes into the transaction of its caller. The first
  flush, of the collection alone, stands outside the \<open>try\<close> block.
\<close>

definition favorites_error :: "uuid \<Rightarrow> db_constraint \<Rightarrow> library_error" where
  "favorites_error u c =
     (if c = UQ_FAVORITES then DuplicateFavorites u
      else CollectionServiceFailure ''Failed to bootstrap the Favorites collection.'')"

definition new_favorites :: "env \<Rightarrow> uuid \<Rightarrow> collection" where
  "new_favorites env u =
     \<lparr>co_id = env_fresh env 0, co_owner = u, co_title = FAVORITES_TITLE, co_description = None, co_kind = FAVORITES,
      co_visibility = PRIVATE, co_updated_at = env_now env\<rparr>"

definition ensured_favorites :: "library_env \<Rightarrow> uuid \<Rightarrow> library \<Rightarrow> library_error + (collection \<times> library)" where
  "ensured_favorites le u s =
     (case get_user s u of
        None \<Rightarrow> Inl (UserNotFound u)
      | Some user \<Rightarrow>
     (case favorites_of s u of
        Some c \<Rightarrow> Inr (c, s)
      | None \<Rightarrow>
          (let c = new_favorites (le_env le) u;
               s1 = s\<lparr>lb_collections := lb_collections s @ [c]\<rparr>
           in case flush_library Integrity s1 of
                Inl e \<Rightarrow> Inl e
              | Inr s2 \<Rightarrow>
                  (let s3 = put_member \<lparr>cm_collection = co_id c, cm_user = u, cm_role = OWNER\<rparr> s2;
                       s4 = (if us_active_save user = None
                             then put_user (le_env le) (user\<lparr>us_active_save := Some (co_id c)\<rparr>) s3 else s3)
                   in case flush_library (favorites_error u) s4 of Inl e \<Rightarrow> Inl e | Inr s5 \<Rightarrow> Inr (c, s5)))))"

definition ensure_favorites_collection :: "library_env \<Rightarrow> uuid \<Rightarrow> library \<Rightarrow> collection library_run" where
  "ensure_favorites_collection le u s =
     (case ensured_favorites le u s of
        Inl e \<Rightarrow> (Inl e, s)
      | Inr (c, s1) \<Rightarrow> if favorites_of s u \<noteq> None then (Inr c, s) else commit_library le s (favorites_error u) c s1)"

section \<open>Custom collections\<close>

definition custom_collection :: "env \<Rightarrow> uuid \<Rightarrow> text_value \<Rightarrow> text_value option \<Rightarrow> collection_visibility \<Rightarrow> collection" where
  "custom_collection env owner title description visibility =
     \<lparr>co_id = env_fresh env 0, co_owner = owner, co_title = title,
      co_description = normalize_optional_text description, co_kind = CUSTOM, co_visibility = visibility,
      co_updated_at = env_now env\<rparr>"

definition create_custom_collection ::
  "library_env \<Rightarrow> uuid \<Rightarrow> text_value \<Rightarrow> text_value option \<Rightarrow> text_value \<Rightarrow> library \<Rightarrow> collection library_run" where
  "create_custom_collection le owner title description visibility s =
     check s (load_user s owner) (\<lambda>user.
     check s (require (GuestCollectionAccess ''Guest accounts cannot create custom collections.'') (us_type user \<noteq> GUEST)) (\<lambda>_.
     check s (normalize_collection_title title) (\<lambda>t.
     check s (resolve_visibility visibility) (\<lambda>v.
       let c = custom_collection (le_env le) owner t description v
       in check s (flush_library Integrity (s\<lparr>lb_collections := lb_collections s @ [c]\<rparr>)) (\<lambda>s1.
            commit_library le s (\<lambda>_. CollectionServiceFailure ''Failed to persist the custom collection.'') c
              (put_member \<lparr>cm_collection = co_id c, cm_user = owner, cm_role = OWNER\<rparr> s1))))))"

definition update_custom_collection ::
  "library_env \<Rightarrow> uuid \<Rightarrow> uuid \<Rightarrow> text_value \<Rightarrow> text_value option \<Rightarrow> text_value \<Rightarrow> library \<Rightarrow> collection library_run" where
  "update_custom_collection le c u title description visibility s =
     check s (get_collection_for_read s c u) (\<lambda>(user, col).
     check s (ensure_owner_can_manage_custom_collection user col) (\<lambda>_.
     check s (normalize_collection_title title) (\<lambda>t.
     check s (resolve_visibility visibility) (\<lambda>v.
       let col' = col\<lparr>co_title := t, co_description := normalize_optional_text description, co_visibility := v\<rparr>
       in commit_library le s (\<lambda>_. CollectionServiceFailure ''Failed to update the collection.'') col'
            (if col' = col then s else put_collection (le_env le) col' s)))))"

text \<open>\<open>list_collections_for_user\<close>: latest save first; texts compare by code point.\<close>

definition latest_added :: "library \<Rightarrow> uuid \<Rightarrow> time option" where
  "latest_added s c =
     (let times = List.map_filter (\<lambda>(k, m). if k = c then map_option sv_added_at (lb_saves s (k, m)) else None)
                    (db_collection_memes (lb_db s))
      in max_by id times)"

definition text_codes :: "text_value \<Rightarrow> nat list" where
  "text_codes t = map of_char t"

definition comes_before :: "library \<Rightarrow> collection \<Rightarrow> collection \<Rightarrow> bool" where
  "comes_before s a b =
     (let x = latest_added s (co_id a); y = latest_added s (co_id b)
      in if x \<noteq> y then (case (x, y) of (Some p, Some q) \<Rightarrow> q < p | (Some p, None) \<Rightarrow> True | _ \<Rightarrow> False)
         else if co_updated_at a \<noteq> co_updated_at b then co_updated_at b < co_updated_at a
         else if co_title a \<noteq> co_title b then lexordp (<) (text_codes (co_title a)) (text_codes (co_title b))
         else co_id a < co_id b)"

fun insert_before :: "('a \<Rightarrow> 'a \<Rightarrow> bool) \<Rightarrow> 'a \<Rightarrow> 'a list \<Rightarrow> 'a list" where
  "insert_before before x [] = [x]"
| "insert_before before x (y # ys) = (if before x y then x # y # ys else y # insert_before before x ys)"

definition collections_for :: "library \<Rightarrow> uuid \<Rightarrow> collection list" where
  "collections_for s u =
     fold (insert_before (comes_before s)) (filter (\<lambda>c. get_member s (co_id c) u \<noteq> None) (lb_collections s)) []"

definition list_collections_for_user :: "library_env \<Rightarrow> uuid \<Rightarrow> library \<Rightarrow> collection list library_run" where
  "list_collections_for_user le u s =
     check s (load_user s u) (\<lambda>user.
       case ensure_favorites_collection le u s of
         (Inl e, s1) \<Rightarrow> (Inl e, s1)
       | (Inr _, s1) \<Rightarrow>
           (case persist_terminal_invite_statuses le
                   (\<lambda>i. list_ex (\<lambda>c. co_id c = ci_collection i) (collections_for s1 u)) s1 of
              (Inl e, s2) \<Rightarrow> (Inl e, s2)
            | (Inr _, s2) \<Rightarrow> (Inr (collections_for s2 u), s2)))"

definition get_collection_read :: "library_env \<Rightarrow> uuid \<Rightarrow> library \<Rightarrow> collection option library_run" where
  "get_collection_read le c s =
     (case get_collection s c of
        None \<Rightarrow> (Inr None, s)
      | Some col \<Rightarrow>
          (case persist_terminal_invite_statuses le (\<lambda>i. ci_collection i = c) s of
             (Inl e, s1) \<Rightarrow> (Inl e, s1) | (Inr _, s1) \<Rightarrow> (Inr (get_collection s1 c), s1)))"

definition get_collection_for_user :: "library_env \<Rightarrow> uuid \<Rightarrow> uuid \<Rightarrow> library \<Rightarrow> collection library_run" where
  "get_collection_for_user le c u s =
     check s (get_collection_for_read s c u) (\<lambda>(user, col).
       case persist_terminal_invite_statuses le (\<lambda>i. ci_collection i = co_id col) s of
         (Inl e, s1) \<Rightarrow> (Inl e, s1) | (Inr _, s1) \<Rightarrow> (Inr col, s1))"

section \<open>Saving and liking\<close>

definition insert_collection_meme :: "env \<Rightarrow> uuid \<Rightarrow> uuid \<Rightarrow> uuid option \<Rightarrow> library \<Rightarrow> bool \<times> library" where
  "insert_collection_meme env c m added_by s =
     (if saved s c m then (False, s)
      else (True,
            (map_lb_db (\<lambda>d. d\<lparr>db_collection_memes := db_collection_memes d @ [(c, m)]\<rparr>) s)
              \<lparr>lb_saves := (lb_saves s)((c, m) \<mapsto> \<lparr>sv_added_by = added_by, sv_added_at = env_now env\<rparr>)\<rparr>))"

text \<open>The deleted row's \<open>added_by_user_id\<close>; \<open>None\<close> when there is no row.\<close>

definition delete_collection_meme :: "uuid \<Rightarrow> uuid \<Rightarrow> library \<Rightarrow> uuid option option \<times> library" where
  "delete_collection_meme c m s =
     (if \<not> saved s c m then (None, s)
      else (Some (case lb_saves s (c, m) of None \<Rightarrow> None | Some i \<Rightarrow> sv_added_by i),
            (map_lb_db (\<lambda>d. d\<lparr>db_collection_memes := filter (\<lambda>x. x \<noteq> (c, m)) (db_collection_memes d)\<rparr>) s)
              \<lparr>lb_saves := (lb_saves s)((c, m) := None)\<rparr>))"

definition update_likes :: "(int \<Rightarrow> int) \<Rightarrow> uuid \<Rightarrow> library \<Rightarrow> library" where
  "update_likes f m = map_lb_db (\<lambda>d. d\<lparr>db_memes :=
     map (\<lambda>r. if me_id r = m then r\<lparr>me_like_count := f (me_like_count r)\<rparr> else r) (db_memes d)\<rparr>)"

definition increment_like_count :: "uuid \<Rightarrow> library \<Rightarrow> library" where
  "increment_like_count = update_likes (\<lambda>n. n + 1)"

definition decrement_like_count :: "uuid \<Rightarrow> library \<Rightarrow> library" where
  "decrement_like_count = update_likes (\<lambda>n. max (n - 1) 0)"

definition project_change :: "env \<Rightarrow> uuid \<Rightarrow> uuid \<Rightarrow> bool \<Rightarrow> library \<Rightarrow> library" where
  "project_change env u m is_add = map_interests (project_durable_preference_change u m is_add (env_now env))"

definition project_collection_meme_removal :: "env \<Rightarrow> uuid \<Rightarrow> uuid \<Rightarrow> uuid \<Rightarrow> library \<Rightarrow> library" where
  "project_collection_meme_removal env actor preference m s =
     (let s1 = project_change env actor m False s
      in if preference \<noteq> actor then project_change env preference m False s1 else s1)"

text \<open>What a save into \<open>col\<close> writes, and whether it inserted the row.\<close>

definition saved_into :: "env \<Rightarrow> uuid \<Rightarrow> collection \<Rightarrow> uuid \<Rightarrow> library \<Rightarrow> bool \<times> library" where
  "saved_into env u col m s =
     (let (inserted, s1) = insert_collection_meme env (co_id col) m (Some u) s;
          s2 = (if inserted \<and> co_kind col = FAVORITES then increment_like_count m s1 else s1);
          s3 = (if inserted then project_change env u m True s2 else s2)
      in (inserted, s3))"

definition save_meme_to_collection_result :: "library_env \<Rightarrow> uuid \<Rightarrow> uuid \<Rightarrow> uuid \<Rightarrow> library \<Rightarrow> bool library_run" where
  "save_meme_to_collection_result le c u m s =
     check s (get_collection_for_read s c u) (\<lambda>(user, col).
     check s (ensure_can_write_collection s user col) (\<lambda>_.
     check s (visible_meme s m u) (\<lambda>meme.
       let (inserted, s1) = saved_into (le_env le) u col m s
       in commit_library le s (\<lambda>_. CollectionServiceFailure ''Failed to save the meme to the collection.'') inserted s1)))"

definition favorite_meme_result :: "library_env \<Rightarrow> uuid \<Rightarrow> uuid \<Rightarrow> library \<Rightarrow> bool library_run" where
  "favorite_meme_result le u m s =
     check s (visible_meme s m u) (\<lambda>meme.
     check s (ensured_favorites le u s) (\<lambda>(col, s1).
       let (inserted, s2) = saved_into (le_env le) u col m s1
       in commit_library le s (\<lambda>_. CollectionServiceFailure ''Failed to favorite the meme.'') inserted s2))"

definition get_active_collection_for_write :: "library_env \<Rightarrow> uuid \<Rightarrow> library \<Rightarrow> library_error + (app_user \<times> collection \<times> library)" where
  "get_active_collection_for_write le u s =
     (case get_user s u of
        None \<Rightarrow> Inl (UserNotFound u)
      | Some user \<Rightarrow>
          (case (case us_active_save user of
                   None \<Rightarrow> ensured_favorites le u s
                 | Some c \<Rightarrow>
                     (case get_collection s c of None \<Rightarrow> Inl (CollectionNotFound c) | Some col \<Rightarrow> Inr (col, s))) of
             Inl e \<Rightarrow> Inl e
           | Inr (col, s1) \<Rightarrow>
               (case ensure_can_write_collection s1 user col of Inl e \<Rightarrow> Inl e | Inr _ \<Rightarrow> Inr (user, col, s1))))"

definition save_meme_to_active_collection_result :: "library_env \<Rightarrow> uuid \<Rightarrow> uuid \<Rightarrow> library \<Rightarrow> bool library_run" where
  "save_meme_to_active_collection_result le u m s =
     check s (get_active_collection_for_write le u s) (\<lambda>(user, col, s1).
     check s (visible_meme s1 m u) (\<lambda>meme.
       let (inserted, s2) = saved_into (le_env le) u col m s1
       in commit_library le s (\<lambda>_. CollectionServiceFailure ''Failed to save the meme to the active collection.'') inserted s2))"

section \<open>Removing, and memes nobody holds any more\<close>

text \<open>\<open>PurePosixPath\<close> of a key without outer slashes: its parts, without empty parts and dots.\<close>

fun path_parts :: "text_value \<Rightarrow> text_value \<Rightarrow> text_value list" where
  "path_parts part [] = (if part = [] \<or> part = ''.'' then [] else [part])"
| "path_parts part (c # cs) =
     (if c = CHR ''/'' then (if part = [] \<or> part = ''.'' then path_parts [] cs else part # path_parts [] cs)
      else path_parts (part @ [c]) cs)"

fun join_path :: "text_value list \<Rightarrow> text_value" where
  "join_path [] = ''.''"
| "join_path [p] = p"
| "join_path (p # ps) = p @ ''/'' @ join_path ps"

definition strip_outer_slashes :: "text_value \<Rightarrow> text_value" where
  "strip_outer_slashes t =
     (let cut = dropWhile (\<lambda>c. c = CHR ''/'') in rev (cut (rev (cut t))))"

definition build_preview_image_object_key :: "env \<Rightarrow> uuid \<Rightarrow> text_value" where
  "build_preview_image_object_key env f = env_derivative_prefix env @ ''/'' @ uuid_text f @ ''/preview.png''"

definition derive_preview_image_object_key :: "env \<Rightarrow> text_value \<Rightarrow> uuid \<Rightarrow> library_error + text_value" where
  "derive_preview_image_object_key env key f =
     (let k = strip_outer_slashes (py_strip key); parts = path_parts [] k
      in if k = [] then Inl (StorageConfiguration ''web_video_object_key must not be blank.'')
         else if parts \<noteq> [] \<and> last parts = ''web.mp4'' then Inr (join_path (butlast parts @ [''preview.png'']))
         else Inr (build_preview_image_object_key env f))"

fun file_object_keys :: "env \<Rightarrow> meme_file list \<Rightarrow> library_error + text_value list" where
  "file_object_keys env [] = Inr []"
| "file_object_keys env (f # fs) =
     (case (case mf_s3_web_video_key f of
              None \<Rightarrow> Inr []
            | Some k \<Rightarrow>
                (case derive_preview_image_object_key env k (mf_id f) of Inl e \<Rightarrow> Inl e | Inr p \<Rightarrow> Inr [p, k])) of
        Inl e \<Rightarrow> Inl e
      | Inr keys \<Rightarrow>
          (case file_object_keys env fs of Inl e \<Rightarrow> Inl e | Inr rest \<Rightarrow> Inr (mf_s3_original_key f # keys @ rest)))"

definition object_keys_for_meme_files :: "env \<Rightarrow> meme_file list \<Rightarrow> media_generation list \<Rightarrow> library_error + text_value list" where
  "object_keys_for_meme_files env fs gs =
     (case file_object_keys env fs of
        Inl e \<Rightarrow> Inl e
      | Inr keys \<Rightarrow> Inr (dedup (keys @ concat (map (\<lambda>g. [mg_preview_key g, mg_web_video_key g]) gs))))"

definition files_of_meme :: "db \<Rightarrow> uuid \<Rightarrow> meme_file list" where
  "files_of_meme d m = filter (\<lambda>f. mf_meme_id f = m) (db_files d)"

definition of_files :: "meme_file list \<Rightarrow> media_generation \<Rightarrow> bool" where
  "of_files fs g \<longleftrightarrow> (case mg_file g of None \<Rightarrow> False | Some f \<Rightarrow> f \<in> set (map mf_id fs))"

definition retired_generation :: "env \<Rightarrow> meme_file list \<Rightarrow> media_generation \<Rightarrow> media_generation" where
  "retired_generation env fs g =
     g\<lparr>mg_status := (if Some (mg_id g) \<in> set (map mf_active_generation fs) then SUPERSEDED else STALE),
       mg_superseded_at := (case mg_superseded_at g of Some t \<Rightarrow> Some t | None \<Rightarrow> Some (env_now env)),
       mg_cleanup_status := CLEANUP_PENDING\<rparr>"

definition prepare_media_generation_cleanup :: "env \<Rightarrow> meme_file list \<Rightarrow> db \<Rightarrow> media_generation list \<times> db" where
  "prepare_media_generation_cleanup env fs d =
     (map (retired_generation env fs) (filter (of_files fs) (db_generations d)),
      d\<lparr>db_generations := map (\<lambda>g. if of_files fs g then retired_generation env fs g else g) (db_generations d)\<rparr>)"

text \<open>A private meme goes with its rows; the keys of its objects are deleted after the commit.\<close>

definition retire_meme :: "env \<Rightarrow> uuid \<Rightarrow> library \<Rightarrow> library_error + (text_value list \<times> library)" where
  "retire_meme env m s =
     (let fs = files_of_meme (lb_db s) m;
          (gs, d1) = prepare_media_generation_cleanup env fs (lb_db s)
      in case object_keys_for_meme_files env fs gs of
           Inl e \<Rightarrow> Inl e
         | Inr keys \<Rightarrow> Inr (keys, delete_meme_cascade m (s\<lparr>lb_db := d1\<rparr>)))"

definition meme_has_collection_references :: "library \<Rightarrow> uuid \<Rightarrow> bool" where
  "meme_has_collection_references s m = list_ex (\<lambda>(c, k). k = m) (db_collection_memes (lb_db s))"

definition meme_has_other_collection_references :: "library \<Rightarrow> uuid \<Rightarrow> uuid \<Rightarrow> bool" where
  "meme_has_other_collection_references s m c0 =
     list_ex (\<lambda>(c, k). k = m \<and> c \<noteq> c0) (db_collection_memes (lb_db s))"

definition delete_orphan_private_meme_if_unreferenced ::
  "env \<Rightarrow> uuid \<Rightarrow> library \<Rightarrow> library_error + (text_value list \<times> library)" where
  "delete_orphan_private_meme_if_unreferenced env m s =
     (case get_meme (lb_db s) m of
        None \<Rightarrow> Inr ([], s)
      | Some r \<Rightarrow>
          if me_is_public r \<or> meme_has_collection_references s m then Inr ([], s) else retire_meme env m s)"

fun delete_storage_objects :: "(text_value \<Rightarrow> bool) \<Rightarrow> text_value list \<Rightarrow> text_value list \<Rightarrow> text_value list" where
  "delete_storage_objects ok [] objects = objects"
| "delete_storage_objects ok (k # ks) objects =
     (if ok k then delete_storage_objects ok ks (filter (\<lambda>x. x \<noteq> k) objects) else objects)"

definition delete_storage_objects_after_commit :: "library_env \<Rightarrow> text_value list \<Rightarrow> library \<Rightarrow> library" where
  "delete_storage_objects_after_commit le keys s =
     s\<lparr>lb_objects := delete_storage_objects (le_delete_ok le) keys (lb_objects s)\<rparr>"

text \<open>The common end of the methods that remove a save from \<open>col\<close>.\<close>

definition remove_from :: "library_env \<Rightarrow> uuid \<Rightarrow> collection \<Rightarrow> uuid \<Rightarrow> text_value \<Rightarrow> library \<Rightarrow> bool library_run" where
  "remove_from le actor col m failure s =
     (case delete_collection_meme (co_id col) m s of
        (None, s1) \<Rightarrow> (Inr False, s)
      | (Some added_by, s1) \<Rightarrow>
          (let s2 = (if co_kind col = FAVORITES then decrement_like_count m s1 else s1);
               s3 = project_collection_meme_removal (le_env le) actor
                      (case added_by of Some a \<Rightarrow> a | None \<Rightarrow> co_owner col) m s2
           in check s (delete_orphan_private_meme_if_unreferenced (le_env le) m s3) (\<lambda>(keys, s4).
                case commit_library le s (\<lambda>_. CollectionServiceFailure failure) True s4 of
                  (Inl e, s5) \<Rightarrow> (Inl e, s5)
                | (Inr b, s5) \<Rightarrow> (Inr b, delete_storage_objects_after_commit le keys s5))))"

definition remove_meme_from_collection :: "library_env \<Rightarrow> uuid \<Rightarrow> uuid \<Rightarrow> uuid \<Rightarrow> library \<Rightarrow> bool library_run" where
  "remove_meme_from_collection le c u m s =
     check s (get_collection_for_read s c u) (\<lambda>(user, col).
     check s (ensure_can_write_collection s user col) (\<lambda>_.
       remove_from le u col m ''Failed to remove the meme from the collection.'' s))"

definition unfavorite_meme :: "library_env \<Rightarrow> uuid \<Rightarrow> uuid \<Rightarrow> library \<Rightarrow> bool library_run" where
  "unfavorite_meme le u m s =
     (case favorites_of s u of
        None \<Rightarrow> (Inr False, s)
      | Some col \<Rightarrow> remove_from le (co_owner col) col m ''Failed to unfavorite the meme.'' s)"

definition remove_meme_from_active_collection :: "library_env \<Rightarrow> uuid \<Rightarrow> uuid \<Rightarrow> library \<Rightarrow> bool library_run" where
  "remove_meme_from_active_collection le u m s =
     check s (load_user s u) (\<lambda>user.
       case us_active_save user of
         None \<Rightarrow> (Inr False, s)
       | Some c \<Rightarrow>
           check s (load_collection s c) (\<lambda>col.
           check s (ensure_can_write_collection s user col) (\<lambda>_.
             remove_from le u col m ''Failed to remove the meme from the active collection.'' s)))"

fun retire_orphans :: "env \<Rightarrow> uuid \<Rightarrow> uuid list \<Rightarrow> text_value list \<Rightarrow> library \<Rightarrow> library_error + (text_value list \<times> library)" where
  "retire_orphans env c [] keys s = Inr (dedup keys, s)"
| "retire_orphans env c (m # ms) keys s =
     (if meme_has_other_collection_references s m c then retire_orphans env c ms keys s
      else (case retire_meme env m s of
              Inl e \<Rightarrow> Inl e | Inr (extra, s1) \<Rightarrow> retire_orphans env c ms (keys @ extra) s1))"

definition delete_private_memes_orphaned_by_collection_delete ::
  "env \<Rightarrow> uuid \<Rightarrow> library \<Rightarrow> library_error + (text_value list \<times> library)" where
  "delete_private_memes_orphaned_by_collection_delete env c s =
     retire_orphans env c
       (map me_id (filter (\<lambda>r. \<not> me_is_public r \<and> saved s c (me_id r)) (db_memes (lb_db s)))) [] s"

text \<open>Deleting the row of a collection takes its members, invites and saves with it.\<close>

definition delete_collection_row :: "uuid \<Rightarrow> library \<Rightarrow> library" where
  "delete_collection_row c s =
     (map_lb_db (\<lambda>d. d\<lparr>db_collection_memes := filter (\<lambda>(k, m). k \<noteq> c) (db_collection_memes d)\<rparr>) s)
       \<lparr>lb_collections := filter (\<lambda>r. co_id r \<noteq> c) (lb_collections s),
        lb_members := filter (\<lambda>r. cm_collection r \<noteq> c) (lb_members s),
        lb_invites := filter (\<lambda>r. ci_collection r \<noteq> c) (lb_invites s),
        lb_saves := (\<lambda>(k, m). if k = c then None else lb_saves s (k, m))\<rparr>"

definition clear_active_save :: "env \<Rightarrow> (app_user \<Rightarrow> bool) \<Rightarrow> uuid \<Rightarrow> library \<Rightarrow> library" where
  "clear_active_save env P c s =
     s\<lparr>lb_users := map (\<lambda>u. if P u \<and> us_active_save u = Some c
                            then u\<lparr>us_active_save := None, us_updated_at := env_now env\<rparr> else u) (lb_users s)\<rparr>"

definition contributors :: "library \<Rightarrow> collection \<Rightarrow> uuid list" where
  "contributors s col =
     remdups (List.map_filter
       (\<lambda>(c, m). if c = co_id col
                 then Some (case Option.bind (lb_saves s (c, m)) sv_added_by of Some a \<Rightarrow> a | None \<Rightarrow> co_owner col)
                 else None) (db_collection_memes (lb_db s)))"

definition delete_custom_collection :: "library_env \<Rightarrow> uuid \<Rightarrow> uuid \<Rightarrow> library \<Rightarrow> bool library_run" where
  "delete_custom_collection le c u s =
     check s (get_collection_for_read s c u) (\<lambda>(user, col).
     check s (ensure_owner_can_manage_custom_collection user col) (\<lambda>_.
     check s (delete_private_memes_orphaned_by_collection_delete (le_env le) (co_id col) s) (\<lambda>(keys, s1).
       let s2 = delete_collection_row (co_id col) (clear_active_save (le_env le) (\<lambda>_. True) (co_id col) s1);
           s3 = map_interests (fold (\<lambda>a. invalidate_recommendation_profile a (env_now (le_env le))) (contributors s col)) s2
       in case commit_library le s (\<lambda>_. CollectionServiceFailure ''Failed to delete the collection.'') True s3 of
            (Inl e, s4) \<Rightarrow> (Inl e, s4)
          | (Inr b, s4) \<Rightarrow> (Inr b, delete_storage_objects_after_commit le keys s4))))"

section \<open>Reading\<close>

text \<open>\<open>ORDER BY added_at DESC, meme_id ASC\<close>.\<close>

definition saves_of :: "library \<Rightarrow> uuid \<Rightarrow> uuid list" where
  "saves_of s c =
     sort_key (\<lambda>m. (- (case lb_saves s (c, m) of None \<Rightarrow> 0 | Some i \<Rightarrow> sv_added_at i), m))
       (map snd (filter (\<lambda>(k, m). k = c) (db_collection_memes (lb_db s))))"

definition list_collection_memes :: "library \<Rightarrow> uuid \<Rightarrow> uuid \<Rightarrow> library_error + uuid list" where
  "list_collection_memes s c u =
     (case get_collection_for_read s c u of Inl e \<Rightarrow> Inl e | Inr (user, col) \<Rightarrow> Inr (saves_of s (co_id col)))"

definition list_favorite_memes :: "library \<Rightarrow> uuid \<Rightarrow> uuid list" where
  "list_favorite_memes s u = (case favorites_of s u of None \<Rightarrow> [] | Some col \<Rightarrow> saves_of s (co_id col))"

definition list_accessible_collection_ids_containing_meme :: "library \<Rightarrow> uuid \<Rightarrow> uuid \<Rightarrow> library_error + uuid list" where
  "list_accessible_collection_ids_containing_meme s u m =
     (case load_user s u of
        Inl e \<Rightarrow> Inl e
      | Inr user \<Rightarrow>
          (case visible_meme s m u of
             Inl e \<Rightarrow> Inl e
           | Inr r \<Rightarrow> Inr (remdups (map fst (filter (\<lambda>(c, k). k = m \<and> accessible_collection s u c)
                                          (db_collection_memes (lb_db s)))))))"

definition get_meme_favorite_state :: "library \<Rightarrow> uuid \<Rightarrow> uuid \<Rightarrow> bool \<times> int" where
  "get_meme_favorite_state s u m =
     ((case favorites_of s u of None \<Rightarrow> False | Some col \<Rightarrow> saved s (co_id col) m),
      max 0 (case get_meme (lb_db s) m of None \<Rightarrow> 0 | Some r \<Rightarrow> me_like_count r))"

definition get_active_save_collection :: "library_env \<Rightarrow> uuid \<Rightarrow> library \<Rightarrow> collection library_run" where
  "get_active_save_collection le u s =
     check s (load_user s u) (\<lambda>user.
       case us_active_save user of
         None \<Rightarrow> ensure_favorites_collection le u s
       | Some c \<Rightarrow> (load_collection s c, s))"

section \<open>Pins\<close>

definition get_full_user :: "library \<Rightarrow> uuid \<Rightarrow> library_error + app_user" where
  "get_full_user s u =
     (case get_user s u of
        None \<Rightarrow> Inl (UserNotFound u)
      | Some user \<Rightarrow>
          if us_type user \<noteq> FULL then Inl (GuestCollectionAccess ''A full account is required for pins.'') else Inr user)"

definition list_pinned_memes :: "library \<Rightarrow> uuid \<Rightarrow> library_error + uuid list" where
  "list_pinned_memes s u =
     (case get_full_user s u of
        Inl e \<Rightarrow> Inl e
      | Inr user \<Rightarrow>
          Inr (map pn_meme (sort_key (\<lambda>p. (pn_position p, lb_pinned_at s (u, pn_meme p))) (pins_of (lb_db s) u))))"

definition add_pin :: "env \<Rightarrow> pin \<Rightarrow> library \<Rightarrow> library" where
  "add_pin env p s =
     (map_lb_db (\<lambda>d. d\<lparr>db_pins := db_pins d @ [p]\<rparr>) s)\<lparr>lb_pinned_at := (lb_pinned_at s)((pn_user p, pn_meme p) := env_now env)\<rparr>"

definition pin_meme_result :: "library_env \<Rightarrow> uuid \<Rightarrow> uuid \<Rightarrow> library \<Rightarrow> bool library_run" where
  "pin_meme_result le u m s =
     check s (get_full_user s u) (\<lambda>user.
     check s (visible_meme s m u) (\<lambda>meme.
       if list_ex (\<lambda>p. pn_meme p = m) (pins_of (lb_db s) u) then (Inr False, s)
       else
         (let count = length (pins_of (lb_db s) u)
          in if MAX_PINNED_MEMES \<le> count then (Inl PinLimitExceeded, s)
             else commit_library le s (\<lambda>_. CollectionServiceFailure ''Failed to pin the meme.'') True
                    (project_change (le_env le) u m True
                       (add_pin (le_env le) \<lparr>pn_user = u, pn_meme = m, pn_position = int count + 1\<rparr> s)))))"

text \<open>The rows of a user in the given order of memes, numbered from one.\<close>

definition renumbered :: "uuid \<Rightarrow> uuid list \<Rightarrow> pin list" where
  "renumbered u ms = map (\<lambda>(k, m). \<lparr>pn_user = u, pn_meme = m, pn_position = int k + 1\<rparr>) (enumerate 0 ms)"

definition replace_pins :: "uuid \<Rightarrow> uuid list \<Rightarrow> library \<Rightarrow> library" where
  "replace_pins u ms = map_lb_db (\<lambda>d. d\<lparr>db_pins := filter (\<lambda>p. pn_user p \<noteq> u) (db_pins d) @ renumbered u ms\<rparr>)"

definition pinned_in_order :: "library \<Rightarrow> uuid \<Rightarrow> uuid list" where
  "pinned_in_order s u = map pn_meme (sort_key pn_position (pins_of (lb_db s) u))"

definition unpin_meme :: "library_env \<Rightarrow> uuid \<Rightarrow> uuid \<Rightarrow> library \<Rightarrow> bool library_run" where
  "unpin_meme le u m s =
     check s (get_full_user s u) (\<lambda>user.
       if m \<notin> set (pinned_in_order s u) then (Inr False, s)
       else commit_library le s (\<lambda>_. CollectionServiceFailure ''Failed to unpin the meme.'') True
              (project_change (le_env le) u m False
                 (replace_pins u (filter (\<lambda>k. k \<noteq> m) (pinned_in_order s u)) s)))"

definition reorder_pins :: "library_env \<Rightarrow> uuid \<Rightarrow> uuid list \<Rightarrow> library \<Rightarrow> uuid list library_run" where
  "reorder_pins le u ms s =
     check s (get_full_user s u) (\<lambda>user.
     check s (require (InvalidPinnedMemeOrder ''Users can pin at most 20 memes.'') (length ms \<le> MAX_PINNED_MEMES)) (\<lambda>_.
     check s (require (InvalidPinnedMemeOrder ''Pin reorder payload cannot contain duplicate meme IDs.'') (distinct ms)) (\<lambda>_.
     check s (require (InvalidPinnedMemeOrder ''Pin reorder payload must contain exactly the currently pinned memes.'')
                (set (pinned_in_order s u) = set ms)) (\<lambda>_.
       commit_library le s (\<lambda>_. CollectionServiceFailure ''Failed to reorder pinned memes.'') ms (replace_pins u ms s)))))"

section \<open>Members\<close>

definition ensure_member :: "library_env \<Rightarrow> uuid \<Rightarrow> uuid \<Rightarrow> text_value \<Rightarrow> library \<Rightarrow> member library_run" where
  "ensure_member le c u role s =
     check s (load_collection s c) (\<lambda>col.
     check s (load_user s u) (\<lambda>user.
     check s (resolve_membership_role role) (\<lambda>r.
     check s (if co_owner col = u then Inr OWNER
              else if r = OWNER
              then Inl (InvalidCollectionMembership ''Only the collection owner can hold the owner membership role.'')
              else Inr r) (\<lambda>r'.
       let row = \<lparr>cm_collection = c, cm_user = u, cm_role = r'\<rparr>
       in commit_library le s (\<lambda>_. CollectionServiceFailure ''Failed to persist the collection membership.'') row
            (put_member row s)))))"

definition update_member_role ::
  "library_env \<Rightarrow> uuid \<Rightarrow> uuid \<Rightarrow> uuid \<Rightarrow> text_value \<Rightarrow> library \<Rightarrow> member library_run" where
  "update_member_role le c actor u role s =
     check s (get_collection_for_read s c actor) (\<lambda>(user, col).
     check s (ensure_owner_can_manage_custom_collection user col) (\<lambda>_.
     check s (resolve_membership_role role) (\<lambda>r.
     check s (require (InvalidCollectionMembership ''Collection ownership cannot be transferred through member roles.'')
                (r \<noteq> OWNER)) (\<lambda>_.
     check s (require (InvalidCollectionMembership ''The collection owner role cannot be changed.'') (co_owner col \<noteq> u)) (\<lambda>_.
     check s (found (InvalidCollectionMembership ''Collection membership does not exist.'') (get_member s c u)) (\<lambda>row.
     check s (require (InvalidCollectionMembership ''The collection owner role cannot be changed.'') (cm_role row \<noteq> OWNER)) (\<lambda>_.
       commit_library le s (\<lambda>_. CollectionServiceFailure ''Failed to update the collection membership.'')
         (row\<lparr>cm_role := r\<rparr>) (put_member (row\<lparr>cm_role := r\<rparr>) s))))))))"

definition remove_member :: "library_env \<Rightarrow> uuid \<Rightarrow> uuid \<Rightarrow> uuid \<Rightarrow> library \<Rightarrow> bool library_run" where
  "remove_member le c actor u s =
     check s (get_collection_for_read s c actor) (\<lambda>(user, col).
     check s (ensure_owner_can_manage_custom_collection user col) (\<lambda>_.
     check s (require (InvalidCollectionMembership ''The collection owner cannot be removed.'') (co_owner col \<noteq> u)) (\<lambda>_.
       case get_member s c u of
         None \<Rightarrow> (Inr False, s)
       | Some row \<Rightarrow>
           check s (require (InvalidCollectionMembership ''The collection owner cannot be removed.'') (cm_role row \<noteq> OWNER)) (\<lambda>_.
             let s1 = clear_active_save (le_env le) (\<lambda>r. us_id r = u) c s
             in commit_library le s (\<lambda>_. CollectionServiceFailure ''Failed to remove the collection membership.'') True
                  (s1\<lparr>lb_members := filter (\<lambda>r. member_key r \<noteq> (c, u)) (lb_members s1)\<rparr>)))))"

section \<open>Invites\<close>

record invite_request =
  ir_token_hash :: text_value
  ir_created_by :: "uuid option"
  ir_role :: text_value
  ir_channel :: text_value
  ir_label :: "text_value option"
  ir_max_uses :: "int option"
  ir_expires_at :: "time option"
  ir_recipient_email :: "text_value option"

definition invite_creator :: "library \<Rightarrow> collection \<Rightarrow> uuid option \<Rightarrow> library_error + uuid option" where
  "invite_creator s col by =
     (case by of
        None \<Rightarrow> Inr None
      | Some u \<Rightarrow>
          (case load_user s u of
             Inl e \<Rightarrow> Inl e
           | Inr user \<Rightarrow>
               (case ensure_user_can_collaborate user of
                  Inl e \<Rightarrow> Inl e
                | Inr _ \<Rightarrow>
                    if user_can_write_collection s u col then Inr (Some u)
                    else Inl (CollectionWriteAccess ''cannot create invites for collection''))))"

definition invite_error :: "db_constraint \<Rightarrow> library_error" where
  "invite_error c =
     (if c = UQ_TOKEN_HASH then DuplicateCollectionInvite
      else CollectionServiceFailure ''Failed to persist the collection invite.'')"

definition create_invite :: "library_env \<Rightarrow> uuid \<Rightarrow> invite_request \<Rightarrow> library \<Rightarrow> invite library_run" where
  "create_invite le c rq s =
     check s (load_collection s c) (\<lambda>col.
     check s (require (InvalidCollectionInvite ''Favorites collections cannot be shared by invite.'')
                (co_kind col \<noteq> FAVORITES)) (\<lambda>_.
     check s (invite_creator s col (ir_created_by rq)) (\<lambda>creator.
     check s (resolve_membership_role (ir_role rq)) (\<lambda>r.
     check s (require (InvalidCollectionInvite ''Invite links cannot grant the owner role.'') (r \<noteq> OWNER)) (\<lambda>_.
     check s (resolve_invite_channel (ir_channel rq)) (\<lambda>channel.
     check s (normalize_token_hash (ir_token_hash rq)) (\<lambda>token.
     check s (normalize_optional_label (ir_label rq)) (\<lambda>label.
     check s (normalize_max_uses (ir_max_uses rq)) (\<lambda>uses.
     check s (normalize_email (ir_recipient_email rq)) (\<lambda>email.
     check s (require (InvalidCollectionInvite ''Email invites require a recipient_email value.'')
                (channel \<noteq> EMAIL \<or> email \<noteq> None)) (\<lambda>_.
     check s (require (InvalidCollectionInvite ''Invite expiry must be in the future.'')
                (case ir_expires_at rq of None \<Rightarrow> True | Some t \<Rightarrow> env_now (le_env le) < t)) (\<lambda>_.
       let i = \<lparr>ci_id = env_fresh (le_env le) 0, ci_collection = c, ci_created_by = creator, ci_token_hash = token,
                ci_role = r, ci_channel = channel, ci_label = label, ci_status = INVITE_PENDING, ci_max_uses = uses,
                ci_use_count = 0, ci_expires_at = ir_expires_at rq, ci_last_used_at = None, ci_revoked_at = None,
                ci_recipient_email = email\<rparr>
       in commit_library le s invite_error i (s\<lparr>lb_invites := lb_invites s @ [i]\<rparr>)))))))))))))"

definition revoked_invite :: "time \<Rightarrow> invite \<Rightarrow> invite" where
  "revoked_invite now i =
     i\<lparr>ci_revoked_at := (case ci_revoked_at i of None \<Rightarrow> Some now | Some t \<Rightarrow> Some t), ci_status := INVITE_REVOKED\<rparr>"

definition revoke_invite :: "library_env \<Rightarrow> uuid \<Rightarrow> uuid \<Rightarrow> uuid \<Rightarrow> library \<Rightarrow> invite library_run" where
  "revoke_invite le c invite_id u s =
     check s (get_collection_for_read s c u) (\<lambda>(user, col).
     check s (ensure_can_manage_invites s user col) (\<lambda>_.
     check s (found (InvalidCollectionInvite ''Collection invite does not exist.'')
                (find (\<lambda>i. ci_collection i = c \<and> ci_id i = invite_id) (lb_invites s))) (\<lambda>i.
       let i' = revoked_invite (env_now (le_env le)) i
       in commit_library le s (\<lambda>_. CollectionServiceFailure ''Failed to revoke the collection invite.'') i' (put_invite i' s))))"

definition used_invite :: "time \<Rightarrow> invite \<Rightarrow> invite" where
  "used_invite now i =
     (let n = ci_use_count i + 1
      in i\<lparr>ci_use_count := n, ci_last_used_at := Some now,
           ci_status := (case ci_max_uses i of
                           None \<Rightarrow> ci_status i | Some k \<Rightarrow> if k \<le> n then INVITE_ACCEPTED else ci_status i)\<rparr>)"

definition invite_by_token :: "library \<Rightarrow> text_value \<Rightarrow> library_error + invite" where
  "invite_by_token s token =
     (case normalize_token_hash token of
        Inl e \<Rightarrow> Inl e
      | Inr t \<Rightarrow>
          found (InvalidCollectionInvite ''Invite link is invalid or expired.'')
            (find (\<lambda>i. ci_token_hash i = t) (lb_invites s)))"

definition join_invite :: "library_env \<Rightarrow> text_value \<Rightarrow> uuid \<Rightarrow> library \<Rightarrow> collection library_run" where
  "join_invite le token u s =
     check s (load_user s u) (\<lambda>user.
     check s (require (GuestCollectionAccess ''Guest accounts cannot join shared collections.'') (us_type user \<noteq> GUEST)) (\<lambda>_.
     check s (invite_by_token s token) (\<lambda>i.
       case persist_terminal_invite_statuses le (\<lambda>x. ci_id x = ci_id i) s of
         (Inl e, s1) \<Rightarrow> (Inl e, s1)
       | (Inr True, s1) \<Rightarrow> (Inl (InvalidCollectionInvite ''Invite link is invalid or expired.''), s1)
       | (Inr False, s1) \<Rightarrow>
           check s1 (ensure_invite_can_be_used (env_now (le_env le)) i) (\<lambda>_.
           check s1 (load_collection s1 (ci_collection i)) (\<lambda>col.
           check s1 (require (InvalidCollectionInvite ''Favorites collections cannot be joined by invite.'')
                       (co_kind col \<noteq> FAVORITES)) (\<lambda>_.
             let s2 = (if membership_role_for_user s1 u col = None
                       then put_invite (used_invite (env_now (le_env le)) i)
                              (put_member \<lparr>cm_collection = co_id col, cm_user = u, cm_role = ci_role i\<rparr> s1)
                       else s1)
             in commit_library le s1 (\<lambda>_. CollectionServiceFailure ''Failed to join the collection invite.'') col s2))))))"

definition update_active_save_collection :: "library_env \<Rightarrow> uuid \<Rightarrow> uuid \<Rightarrow> library \<Rightarrow> app_user library_run" where
  "update_active_save_collection le u c s =
     check s (load_user s u) (\<lambda>user.
     check s (load_collection s c) (\<lambda>col.
     check s (ensure_can_write_collection s user col) (\<lambda>_.
       let user' = user\<lparr>us_active_save := Some c\<rparr>
       in commit_library le s (\<lambda>_. CollectionServiceFailure ''Failed to update the active save collection.'') user'
            (if user' = user then s else put_user (le_env le) user' s))))"

section \<open>The service as a machine\<close>

text \<open>One request of an actor, at the time and with the fresh ids of its environment.\<close>

datatype library_call =
    EnsureFavorites uuid
  | CreateCustom uuid text_value "text_value option" text_value
  | UpdateCustom uuid uuid text_value "text_value option" text_value
  | DeleteCustom uuid uuid
  | ListCollections uuid
  | GetCollection uuid uuid
  | SaveTo uuid uuid uuid
  | RemoveFrom uuid uuid uuid
  | Favorite uuid uuid
  | Unfavorite uuid uuid
  | SaveActive uuid uuid
  | RemoveActive uuid uuid
  | Pin uuid uuid
  | Unpin uuid uuid
  | Reorder uuid "uuid list"
  | EnsureMember uuid uuid text_value
  | UpdateRole uuid uuid uuid text_value
  | RemoveMember uuid uuid uuid
  | CreateInvite uuid invite_request
  | RevokeInvite uuid uuid uuid
  | JoinInvite text_value uuid
  | UpdateActive uuid uuid

definition done_with :: "'a library_run \<Rightarrow> unit library_run" where
  "done_with r = (case fst r of Inl e \<Rightarrow> Inl e | Inr _ \<Rightarrow> Inr (), snd r)"

fun run_call :: "library_env \<Rightarrow> library_call \<Rightarrow> library \<Rightarrow> unit library_run" where
  "run_call le (EnsureFavorites u) s = done_with (ensure_favorites_collection le u s)"
| "run_call le (CreateCustom u t d v) s = done_with (create_custom_collection le u t d v s)"
| "run_call le (UpdateCustom u c t d v) s = done_with (update_custom_collection le c u t d v s)"
| "run_call le (DeleteCustom u c) s = done_with (delete_custom_collection le c u s)"
| "run_call le (ListCollections u) s = done_with (list_collections_for_user le u s)"
| "run_call le (GetCollection u c) s = done_with (get_collection_for_user le c u s)"
| "run_call le (SaveTo u c m) s = done_with (save_meme_to_collection_result le c u m s)"
| "run_call le (RemoveFrom u c m) s = done_with (remove_meme_from_collection le c u m s)"
| "run_call le (Favorite u m) s = done_with (favorite_meme_result le u m s)"
| "run_call le (Unfavorite u m) s = done_with (unfavorite_meme le u m s)"
| "run_call le (SaveActive u m) s = done_with (save_meme_to_active_collection_result le u m s)"
| "run_call le (RemoveActive u m) s = done_with (remove_meme_from_active_collection le u m s)"
| "run_call le (Pin u m) s = done_with (pin_meme_result le u m s)"
| "run_call le (Unpin u m) s = done_with (unpin_meme le u m s)"
| "run_call le (Reorder u ms) s = done_with (reorder_pins le u ms s)"
| "run_call le (EnsureMember c u r) s = done_with (ensure_member le c u r s)"
| "run_call le (UpdateRole a c u r) s = done_with (update_member_role le c a u r s)"
| "run_call le (RemoveMember a c u) s = done_with (remove_member le c a u s)"
| "run_call le (CreateInvite c rq) s = done_with (create_invite le c rq s)"
| "run_call le (RevokeInvite u c i) s = done_with (revoke_invite le c i u s)"
| "run_call le (JoinInvite t u) s = done_with (join_invite le t u s)"
| "run_call le (UpdateActive u c) s = done_with (update_active_save_collection le u c s)"

end
