(* ===== verification/Library_Shelf.thy ===== *)
theory Library_Shelf
  imports Library_State
begin

text \<open>
  An abstract specification of the collection service: a shelf knows the like counts of the memes, the saves, the
  collections with their owner and kind, the members and the invites, and changes only by the steps of
  \<open>shelf_step\<close>. The invariants of the service are the invariants of this machine.
\<close>

section \<open>The machine\<close>

record shelf =
  sh_likes :: "(uuid \<times> int) list"
  sh_saves :: "(uuid \<times> uuid) list"
  sh_collections :: "(uuid \<times> uuid \<times> collection_kind) list"
  sh_members :: "member list"
  sh_invites :: "invite list"

definition shelf_of :: "library \<Rightarrow> shelf" where
  "shelf_of s =
     \<lparr>sh_likes = map (\<lambda>r. (me_id r, me_like_count r)) (db_memes (lb_db s)),
      sh_saves = db_collection_memes (lb_db s),
      sh_collections = map (\<lambda>c. (co_id c, co_owner c, co_kind c)) (lb_collections s),
      sh_members = lb_members s,
      sh_invites = lb_invites s\<rparr>"

definition is_favorites :: "shelf \<Rightarrow> uuid \<Rightarrow> bool" where
  "is_favorites h c \<longleftrightarrow> list_ex (\<lambda>(k, owner, kind). k = c \<and> kind = FAVORITES) (sh_collections h)"

definition favorites_count :: "shelf \<Rightarrow> uuid \<Rightarrow> nat" where
  "favorites_count h m = length (filter (\<lambda>(c, k). k = m \<and> is_favorites h c) (sh_saves h))"

definition favorites_owners :: "shelf \<Rightarrow> uuid list" where
  "favorites_owners h = map (\<lambda>(c, owner, kind). owner) (filter (\<lambda>(c, owner, kind). kind = FAVORITES) (sh_collections h))"

definition count_like :: "(int \<Rightarrow> int) \<Rightarrow> uuid \<Rightarrow> (uuid \<times> int) list \<Rightarrow> (uuid \<times> int) list" where
  "count_like f m = map (\<lambda>(k, n). (k, if k = m then f n else n))"

definition owner_row :: "uuid \<Rightarrow> uuid \<Rightarrow> member" where
  "owner_row c u = \<lparr>cm_collection = c, cm_user = u, cm_role = OWNER\<rparr>"

definition invite_ok :: "invite \<Rightarrow> bool" where
  "invite_ok i \<longleftrightarrow>
     ci_role i \<noteq> OWNER \<and> 0 \<le> ci_use_count i \<and>
     (case ci_max_uses i of None \<Rightarrow> True | Some n \<Rightarrow> 0 < n \<and> ci_use_count i \<le> n)"

inductive shelf_step :: "shelf \<Rightarrow> shelf \<Rightarrow> bool" where
  create: "c \<notin> fst ` set (sh_collections h) \<Longrightarrow> kind = FAVORITES \<longrightarrow> owner \<notin> set (favorites_owners h) \<Longrightarrow>
    shelf_step h (h\<lparr>sh_collections := sh_collections h @ [(c, owner, kind)],
                    sh_members := row_put member_key (owner_row c owner) (sh_members h)\<rparr>)"
| save: "c \<in> fst ` set (sh_collections h) \<Longrightarrow> m \<in> fst ` set (sh_likes h) \<Longrightarrow> (c, m) \<notin> set (sh_saves h) \<Longrightarrow>
    shelf_step h (h\<lparr>sh_saves := sh_saves h @ [(c, m)],
                    sh_likes := (if is_favorites h c then count_like (\<lambda>n. n + 1) m (sh_likes h) else sh_likes h)\<rparr>)"
| unsave: "(c, m) \<in> set (sh_saves h) \<Longrightarrow>
    shelf_step h (h\<lparr>sh_saves := filter (\<lambda>x. x \<noteq> (c, m)) (sh_saves h),
                    sh_likes := (if is_favorites h c then count_like (\<lambda>n. max (n - 1) 0) m (sh_likes h)
                                 else sh_likes h)\<rparr>)"
| drop_meme:
    "shelf_step h (h\<lparr>sh_likes := filter (\<lambda>(k, n). k \<noteq> m) (sh_likes h),
                    sh_saves := filter (\<lambda>(c, k). k \<noteq> m) (sh_saves h)\<rparr>)"
| drop_collection: "\<not> is_favorites h c \<Longrightarrow>
    shelf_step h (h\<lparr>sh_collections := filter (\<lambda>(k, owner, kind). k \<noteq> c) (sh_collections h),
                    sh_saves := filter (\<lambda>(k, m). k \<noteq> c) (sh_saves h),
                    sh_members := filter (\<lambda>r. cm_collection r \<noteq> c) (sh_members h),
                    sh_invites := filter (\<lambda>i. ci_collection i \<noteq> c) (sh_invites h)\<rparr>)"
| enroll: "(cm_collection r, owner, kind) \<in> set (sh_collections h) \<Longrightarrow> cm_role r = OWNER \<longleftrightarrow> cm_user r = owner \<Longrightarrow>
    shelf_step h (h\<lparr>sh_members := row_put member_key r (sh_members h)\<rparr>)"
| expel: "(c, owner, kind) \<in> set (sh_collections h) \<Longrightarrow> u \<noteq> owner \<Longrightarrow>
    shelf_step h (h\<lparr>sh_members := filter (\<lambda>r. member_key r \<noteq> (c, u)) (sh_members h)\<rparr>)"
| invite: "invite_ok i \<Longrightarrow> ci_id i \<notin> ci_id ` set (sh_invites h) \<Longrightarrow>
    shelf_step h (h\<lparr>sh_invites := sh_invites h @ [i]\<rparr>)"
| advance: "(\<And>i. i \<in> set (sh_invites h) \<Longrightarrow> ci_id (f i) = ci_id i) \<Longrightarrow>
    (\<And>i. i \<in> set (sh_invites h) \<Longrightarrow> invite_ok i \<Longrightarrow> invite_ok (f i)) \<Longrightarrow>
    shelf_step h (h\<lparr>sh_invites := map f (sh_invites h)\<rparr>)"

section \<open>Its invariant\<close>

definition likes_ok :: "shelf \<Rightarrow> bool" where
  "likes_ok h \<longleftrightarrow>
     distinct (map fst (sh_likes h)) \<and> distinct (sh_saves h) \<and> distinct (map fst (sh_collections h)) \<and>
     (\<forall>(c, m)\<in>set (sh_saves h). c \<in> fst ` set (sh_collections h) \<and> m \<in> fst ` set (sh_likes h)) \<and>
     (\<forall>(m, n)\<in>set (sh_likes h). n = int (favorites_count h m))"

definition members_ok :: "shelf \<Rightarrow> bool" where
  "members_ok h \<longleftrightarrow>
     distinct (favorites_owners h) \<and> distinct (map member_key (sh_members h)) \<and>
     (\<forall>r\<in>set (sh_members h). \<exists>owner kind.
        (cm_collection r, owner, kind) \<in> set (sh_collections h) \<and> (cm_role r = OWNER \<longleftrightarrow> cm_user r = owner)) \<and>
     (\<forall>(c, owner, kind)\<in>set (sh_collections h). owner_row c owner \<in> set (sh_members h))"

definition invites_ok :: "shelf \<Rightarrow> bool" where
  "invites_ok h \<longleftrightarrow> distinct (map ci_id (sh_invites h)) \<and> (\<forall>i\<in>set (sh_invites h). invite_ok i)"

definition shelf_ok :: "shelf \<Rightarrow> bool" where
  "shelf_ok h \<longleftrightarrow> likes_ok h \<and> members_ok h \<and> invites_ok h"

section \<open>Preservation\<close>

lemma is_favorites_update [simp]:
  "is_favorites (h\<lparr>sh_likes := l\<rparr>) c = is_favorites h c"
  "is_favorites (h\<lparr>sh_saves := x\<rparr>) c = is_favorites h c"
  "is_favorites (h\<lparr>sh_members := r\<rparr>) c = is_favorites h c"
  "is_favorites (h\<lparr>sh_invites := i\<rparr>) c = is_favorites h c"
  by (simp_all add: is_favorites_def)

lemma is_favorites_iff: "is_favorites h c \<longleftrightarrow> (\<exists>owner. (c, owner, FAVORITES) \<in> set (sh_collections h))"
  by (auto simp: is_favorites_def list_ex_iff)

lemma map_fst_count_like [simp]: "map fst (count_like f m xs) = map fst xs"
  by (induction xs) (auto simp: count_like_def)

lemma set_count_like: "(k, n) \<in> set (count_like f m xs) \<longleftrightarrow> (\<exists>n0. (k, n0) \<in> set xs \<and> n = (if k = m then f n0 else n0))"
  by (induction xs) (auto simp: count_like_def)

lemma fst_count_like [simp]: "fst ` set (count_like f m xs) = fst ` set xs"
  by (metis map_fst_count_like set_map)

lemma count_filter_unique:
  "distinct xs \<Longrightarrow> x \<in> set xs \<Longrightarrow> P x \<Longrightarrow>
     length (filter P xs) = Suc (length (filter P (filter (\<lambda>y. y \<noteq> x) xs)))"
  by (induction xs) (auto simp: filter_id_conv intro!: arg_cong [where f = length] filter_cong)

lemma favorites_count_update:
  "favorites_count (h\<lparr>sh_likes := l\<rparr>) m = favorites_count h m"
  "favorites_count (h\<lparr>sh_members := r\<rparr>) m = favorites_count h m"
  "favorites_count (h\<lparr>sh_invites := i\<rparr>) m = favorites_count h m"
  by (simp_all add: favorites_count_def is_favorites_def)

lemma favorites_count_append:
  "favorites_count (h\<lparr>sh_saves := sh_saves h @ [(c, k)]\<rparr>) m =
     favorites_count h m + (if k = m \<and> is_favorites h c then 1 else 0)"
  by (simp add: favorites_count_def is_favorites_def)

lemma favorites_count_remove:
  assumes "distinct (sh_saves h)" "(c, k) \<in> set (sh_saves h)"
  shows "favorites_count h m =
    favorites_count (h\<lparr>sh_saves := filter (\<lambda>x. x \<noteq> (c, k)) (sh_saves h)\<rparr>) m + (if k = m \<and> is_favorites h c then 1 else 0)"
proof (cases "k = m \<and> is_favorites h c")
  case True
  then show ?thesis
    using count_filter_unique [OF assms, of "\<lambda>(c, k). k = m \<and> is_favorites h c"]
    by (simp add: favorites_count_def is_favorites_def)
next
  case False
  then have "filter (\<lambda>(c, k). k = m \<and> is_favorites h c) (filter (\<lambda>x. x \<noteq> (c, k)) (sh_saves h)) =
      filter (\<lambda>(c, k). k = m \<and> is_favorites h c) (sh_saves h)"
    by (auto intro!: filter_cong)
  with False show ?thesis by (simp add: favorites_count_def is_favorites_def)
qed

lemma likes_okI:
  "distinct (map fst (sh_likes h)) \<Longrightarrow> distinct (sh_saves h) \<Longrightarrow> distinct (map fst (sh_collections h)) \<Longrightarrow>
     (\<And>c m. (c, m) \<in> set (sh_saves h) \<Longrightarrow> c \<in> fst ` set (sh_collections h) \<and> m \<in> fst ` set (sh_likes h)) \<Longrightarrow>
     (\<And>m n. (m, n) \<in> set (sh_likes h) \<Longrightarrow> n = int (favorites_count h m)) \<Longrightarrow> likes_ok h"
  by (auto simp: likes_ok_def)

lemma likes_okD:
  assumes "likes_ok h"
  shows "distinct (map fst (sh_likes h))" "distinct (sh_saves h)" "distinct (map fst (sh_collections h))"
    "(c, m) \<in> set (sh_saves h) \<Longrightarrow> c \<in> fst ` set (sh_collections h) \<and> m \<in> fst ` set (sh_likes h)"
    "(m, n) \<in> set (sh_likes h) \<Longrightarrow> n = int (favorites_count h m)"
  using assms by (auto simp: likes_ok_def)

lemma favorites_count_cong:
  assumes "sh_saves h' = sh_saves h" "\<And>c. c \<in> fst ` set (sh_saves h) \<Longrightarrow> is_favorites h' c = is_favorites h c"
  shows "favorites_count h' m = favorites_count h m"
  unfolding favorites_count_def assms(1)
  by (rule arg_cong [where f = length], rule filter_cong) (use assms(2) in force)+

lemma distinct_fst_filter: "distinct (map fst xs) \<Longrightarrow> distinct (map fst (filter P xs))"
  by (rule distinct_map_filter)

lemma shelf_step_likes:
  assumes "shelf_step h h'" "likes_ok h"
  shows "likes_ok h'"
  using assms
proof (induction rule: shelf_step.induct)
  case (create c h kind owner)
  let ?h = "h\<lparr>sh_collections := sh_collections h @ [(c, owner, kind)],
    sh_members := row_put member_key (owner_row c owner) (sh_members h)\<rparr>"
  have "favorites_count ?h m = favorites_count h m" for m
  proof (rule favorites_count_cong)
    fix k assume "k \<in> fst ` set (sh_saves h)"
    then have "k \<noteq> c" using create.hyps(1) likes_okD(4) [OF create.prems] by auto
    then show "is_favorites ?h k = is_favorites h k" by (simp add: is_favorites_iff)
  qed simp
  then show ?case
    using create.hyps(1) likes_okD [OF create.prems] by (intro likes_okI) auto
next
  case (save c h m)
  let ?h = "h\<lparr>sh_saves := sh_saves h @ [(c, m)]\<rparr>"
  have "favorites_count (?h\<lparr>sh_likes := l\<rparr>) k = favorites_count h k + (if m = k \<and> is_favorites h c then 1 else 0)" for l k
    by (simp add: favorites_count_update(1) favorites_count_append)
  then show ?case
    using save.hyps likes_okD [OF save.prems]
    by (intro likes_okI; auto simp: set_count_like split: if_splits; metis)
next
  case (unsave c m h)
  let ?h = "h\<lparr>sh_saves := filter (\<lambda>x. x \<noteq> (c, m)) (sh_saves h)\<rparr>"
  have eq: "favorites_count h k = favorites_count ?h k + (if m = k \<and> is_favorites h c then 1 else 0)" for k
    using unsave likes_okD(2) favorites_count_remove [of h c m k] by simp
  have less: "favorites_count (?h\<lparr>sh_likes := l\<rparr>) k = favorites_count h k - (if m = k \<and> is_favorites h c then 1 else 0)" for l k
    using eq [of k] by (simp add: favorites_count_update(1))
  have "max (n - 1) 0 = n - 1 \<and> n \<noteq> 0" if "is_favorites h c" "(m, n) \<in> set (sh_likes h)" for n
    using eq [of m] that(1) likes_okD(5) [OF unsave.prems that(2)] by simp
  then show ?case
    using less unsave.hyps likes_okD [OF unsave.prems]
    by (intro likes_okI; auto simp: set_count_like split: if_splits; fastforce)
next
  case (drop_meme h m)
  let ?h = "h\<lparr>sh_likes := filter (\<lambda>(k, n). k \<noteq> m) (sh_likes h), sh_saves := filter (\<lambda>(c, k). k \<noteq> m) (sh_saves h)\<rparr>"
  have "favorites_count ?h k = favorites_count h k" if "k \<noteq> m" for k
    using that unfolding favorites_count_def
    by (auto intro!: arg_cong [where f = length] filter_cong)
  moreover have "k \<in> fst ` {x \<in> set (sh_likes h). fst x \<noteq> m}" if "k \<in> fst ` set (sh_likes h)" "k \<noteq> m" for k
    using that by auto
  ultimately show ?case
    using likes_okD [OF drop_meme] by (intro likes_okI) (auto simp: case_prod_beta' distinct_fst_filter)
next
  case (drop_collection h c)
  let ?h = "h\<lparr>sh_collections := filter (\<lambda>(k, owner, kind). k \<noteq> c) (sh_collections h),
    sh_saves := filter (\<lambda>(k, m). k \<noteq> c) (sh_saves h), sh_members := filter (\<lambda>r. cm_collection r \<noteq> c) (sh_members h),
    sh_invites := filter (\<lambda>i. ci_collection i \<noteq> c) (sh_invites h)\<rparr>"
  have fav: "is_favorites ?h k = is_favorites h k" for k
    using drop_collection.hyps by (auto simp: is_favorites_iff)
  have "favorites_count ?h k = favorites_count h k" for k
    unfolding favorites_count_def fav using drop_collection.hyps
    by (auto intro!: arg_cong [where f = length] filter_cong)
  moreover have "k \<in> fst ` {x \<in> set (sh_collections h). fst x \<noteq> c}"
    if "k \<in> fst ` set (sh_collections h)" "k \<noteq> c" for k
    using that by auto
  ultimately show ?case
    using likes_okD [OF drop_collection.prems] by (intro likes_okI) (auto simp: case_prod_beta' distinct_fst_filter)
qed (auto simp: likes_ok_def favorites_count_update)

lemma shelf_step_invites:
  assumes "shelf_step h h'" "invites_ok h"
  shows "invites_ok h'"
  using assms by (induction rule: shelf_step.induct)
    (auto simp: invites_ok_def distinct_map_filter comp_def cong: map_cong)

lemma shelf_step_members:
  assumes "shelf_step h h'" "members_ok h" "likes_ok h"
  shows "members_ok h'"
  using assms
proof (induction rule: shelf_step.induct)
  case (create c h kind owner)
  then have "row_get member_key (c, owner) (sh_members h) = None"
    by (force simp: members_ok_def row_get_None_iff member_key_def)
  then have "row_put member_key (owner_row c owner) (sh_members h) = sh_members h @ [owner_row c owner]"
    by (intro row_put_new) (simp add: owner_row_def member_key_def)
  moreover have "member_key (owner_row c owner) \<notin> member_key ` set (sh_members h)"
    using \<open>row_get member_key (c, owner) (sh_members h) = None\<close>
    by (simp add: row_get_None_iff member_key_def owner_row_def)
  moreover have "\<exists>o1 k1. (cm_collection r, o1, k1) \<in> set (sh_collections h @ [(c, owner, kind)]) \<and>
      (cm_role r = OWNER \<longleftrightarrow> cm_user r = o1)" if "r \<in> set (sh_members h @ [owner_row c owner])" for r
    using that create.prems(1) by (cases "r = owner_row c owner") (fastforce simp: members_ok_def owner_row_def)+
  moreover have "distinct (favorites_owners (h\<lparr>sh_collections := sh_collections h @ [(c, owner, kind)]\<rparr>))"
    using create.prems(1) create.hyps(2) by (auto simp: members_ok_def favorites_owners_def)
  ultimately show ?case
    using create.prems(1) by (simp add: members_ok_def favorites_owners_def) blast
next
  case (enroll r owner kind h)
  have keys: "distinct (map member_key (row_put member_key r (sh_members h)))"
    using enroll.prems by (intro row_put_distinct) (simp add: members_ok_def)
  have rows: "set (row_put member_key r (sh_members h)) = insert r {x \<in> set (sh_members h). member_key x \<noteq> member_key r}"
    using enroll.prems by (intro row_put_set) (simp add: members_ok_def)
  have unique: "o1 = owner" if "(cm_collection r, o1, k1) \<in> set (sh_collections h)" for o1 k1
    using that enroll.hyps(1) enroll.prems(2) by (auto simp: likes_ok_def dest: eq_key_imp_eq_value)
  have "owner_row c o1 \<in> insert r {x \<in> set (sh_members h). member_key x \<noteq> member_key r}"
    if "(c, o1, k1) \<in> set (sh_collections h)" for c o1 k1
  proof (cases "member_key (owner_row c o1) = member_key r")
    case True
    then have "cm_collection r = c" "cm_user r = o1" by (auto simp: member_key_def owner_row_def)
    with unique that enroll.hyps(2) have "cm_role r = OWNER" by auto
    with \<open>cm_collection r = c\<close> \<open>cm_user r = o1\<close> have "r = owner_row c o1" by (cases r) (simp add: owner_row_def)
    then show ?thesis by simp
  next
    case False
    with that enroll.prems(1) show ?thesis by (auto simp: members_ok_def)
  qed
  with enroll keys rows show ?case by (auto simp: members_ok_def favorites_owners_def)
next
  case (expel c owner kind h u)
  have unique: "o1 = owner" if "(c, o1, k1) \<in> set (sh_collections h)" for o1 k1
    using that expel.hyps(1) expel.prems(2) by (auto simp: likes_ok_def dest: eq_key_imp_eq_value)
  have kept: "member_key (owner_row k o1) \<noteq> (c, u)" if "(k, o1, k1) \<in> set (sh_collections h)" for k o1 k1
    using that unique expel.hyps(2) by (auto simp: member_key_def owner_row_def)
  show ?case
    using expel.prems(1) kept
    by (auto simp: members_ok_def favorites_owners_def distinct_map_filter)
next
  case (drop_collection h c)
  have "filter (\<lambda>(k, owner, kind). kind = FAVORITES \<and> k \<noteq> c) (sh_collections h) =
      filter (\<lambda>(k, owner, kind). kind = FAVORITES) (sh_collections h)"
    using drop_collection.hyps by (auto simp: is_favorites_iff intro!: filter_cong)
  then have "favorites_owners (h\<lparr>sh_collections := filter (\<lambda>(k, owner, kind). k \<noteq> c) (sh_collections h)\<rparr>) = favorites_owners h"
    by (simp add: favorites_owners_def case_prod_beta' conj_commute)
  moreover have "cm_collection (owner_row k o1) = k" for k o1 by (simp add: owner_row_def)
  moreover have "\<exists>o1 k1. (cm_collection r, o1, k1) \<in> set (filter (\<lambda>(k, owner, kind). k \<noteq> c) (sh_collections h)) \<and>
      (cm_role r = OWNER \<longleftrightarrow> cm_user r = o1)" if "r \<in> set (sh_members h)" "cm_collection r \<noteq> c" for r
    using that drop_collection.prems(1) by (fastforce simp: members_ok_def)
  ultimately show ?case
    using drop_collection.prems(1)
    by (auto simp: members_ok_def favorites_owners_def distinct_map_filter)
qed (auto simp: members_ok_def favorites_owners_def)

lemma shelf_step_ok: "shelf_step h h' \<Longrightarrow> shelf_ok h \<Longrightarrow> shelf_ok h'"
  unfolding shelf_ok_def using shelf_step_likes shelf_step_members shelf_step_invites by blast

lemma shelf_run_ok: "shelf_step\<^sup>*\<^sup>* h h' \<Longrightarrow> shelf_ok h \<Longrightarrow> shelf_ok h'"
  by (induction rule: rtranclp_induct) (auto intro: shelf_step_ok)

end
