(* ===== verification/Collection_Properties.thy ===== *)
theory Collection_Properties
  imports Collection_Service Library_Shelf
begin

text \<open>
  What the calls of \<open>Collection_Service\<close> keep: each moves the shelf of \<open>Library_Shelf\<close> by its steps, so its invariants hold
  along any run of calls, and they change the saves of a collection only for an actor who may write it.
\<close>

section \<open>The abstraction\<close>

definition shelf_reach :: "library \<Rightarrow> library \<Rightarrow> bool" where
  "shelf_reach s s' \<longleftrightarrow> shelf_step\<^sup>*\<^sup>* (shelf_of s) (shelf_of s')"

definition fresh_library_ids :: "library_env \<Rightarrow> library \<Rightarrow> bool" where
  "fresh_library_ids le s \<longleftrightarrow>
     env_fresh (le_env le) 0 \<notin> set (map co_id (lb_collections s)) \<and>
     env_fresh (le_env le) 0 \<notin> set (map ci_id (lb_invites s))"

lemma shelf_reach_refl [simp, intro]: "shelf_reach s s"
  by (simp add: shelf_reach_def)

lemma shelf_reach_trans [trans]: "shelf_reach s t \<Longrightarrow> shelf_reach t u \<Longrightarrow> shelf_reach s u"
  unfolding shelf_reach_def by (rule rtranclp_trans)

lemma shelf_reach_eq: "shelf_of s' = shelf_of s \<Longrightarrow> shelf_reach s s'"
  by (simp add: shelf_reach_def)

lemma shelf_reach_step: "shelf_step (shelf_of s) h \<Longrightarrow> shelf_of s' = h \<Longrightarrow> shelf_reach s s'"
  by (auto simp: shelf_reach_def)

lemma shelf_reach_ok: "shelf_reach s s' \<Longrightarrow> shelf_ok (shelf_of s) \<Longrightarrow> shelf_ok (shelf_of s')"
  unfolding shelf_reach_def by (rule shelf_run_ok)

lemma reach_check:
  "(\<And>x. r = Inr x \<Longrightarrow> shelf_reach s (snd (k x))) \<Longrightarrow> shelf_reach s (snd (check s r k))"
  by (cases r) simp_all

lemma reach_commit:
  "shelf_reach s s' \<Longrightarrow> shelf_reach s (snd (commit_library le s f v s'))"
  using commit_library_snd [of le s f v s'] by auto

text \<open>A commit, and the deletion of the objects once it stands.\<close>

lemma reach_commit_objects:
  assumes "shelf_reach s s'"
  shows "shelf_reach s (snd (case commit_library le s f v s' of
      (Inl e, t) \<Rightarrow> (Inl e, t) | (Inr b, t) \<Rightarrow> (Inr b, delete_storage_objects_after_commit le keys t)))"
proof (cases "commit_library le s f v s'")
  case (Pair r t)
  then have "shelf_reach s t" using reach_commit [OF assms, of le f v] by simp
  moreover have "shelf_of (delete_storage_objects_after_commit le keys t) = shelf_of t"
    by (simp add: shelf_of_def delete_storage_objects_after_commit_def)
  ultimately show ?thesis using Pair by (cases r) (simp_all add: shelf_reach_def)
qed

lemma shelf_of_simps [simp]:
  "sh_likes (shelf_of s) = map (\<lambda>r. (me_id r, me_like_count r)) (db_memes (lb_db s))"
  "sh_saves (shelf_of s) = db_collection_memes (lb_db s)"
  "sh_collections (shelf_of s) = map (\<lambda>c. (co_id c, co_owner c, co_kind c)) (lb_collections s)"
  "sh_members (shelf_of s) = lb_members s"
  "sh_invites (shelf_of s) = lb_invites s"
  by (simp_all add: shelf_of_def)

lemma shelf_of_update [simp]:
  "shelf_of (s\<lparr>lb_users := us\<rparr>) = shelf_of s"
  "shelf_of (s\<lparr>lb_saves := sv\<rparr>) = shelf_of s"
  "shelf_of (s\<lparr>lb_interests := ir\<rparr>) = shelf_of s"
  "shelf_of (s\<lparr>lb_objects := os\<rparr>) = shelf_of s"
  "shelf_of (s\<lparr>lb_pinned_at := pa\<rparr>) = shelf_of s"
  "shelf_of (put_user env r s) = shelf_of s"
  "shelf_of (map_interests f s) = shelf_of s"
  "shelf_of (project_change env u m b s) = shelf_of s"
  "shelf_of (delete_storage_objects_after_commit le ks s) = shelf_of s"
  "shelf_of (clear_active_save env P c s) = shelf_of s"
  by (simp_all add: shelf_of_def put_user_def map_interests_def project_change_def
      delete_storage_objects_after_commit_def clear_active_save_def)

lemma shelf_of_removal [simp]: "shelf_of (project_collection_meme_removal env a p m s) = shelf_of s"
  by (simp add: project_collection_meme_removal_def Let_def)

lemma shelf_eqI:
  "sh_likes h = sh_likes h' \<Longrightarrow> sh_saves h = sh_saves h' \<Longrightarrow> sh_collections h = sh_collections h' \<Longrightarrow>
     sh_members h = sh_members h' \<Longrightarrow> sh_invites h = sh_invites h' \<Longrightarrow> h = (h' :: shelf)"
  by (cases h, cases h') simp

lemma row_put_map:
  "distinct (map key xs) \<Longrightarrow> key r \<in> key ` set xs \<Longrightarrow>
     row_put key r xs = map (\<lambda>x. if key x = key r then r else x) xs"
proof (induction xs)
  case (Cons x xs)
  show ?case
  proof (cases "key x = key r")
    case True
    with Cons.prems(1) have "map (\<lambda>x. if key x = key r then r else x) xs = xs"
      by (intro map_idI) (auto simp: image_iff)
    with True show ?thesis by simp
  next
    case False
    with Cons show ?thesis by (simp add: image_iff)
  qed
qed simp

lemma get_collection_mem: "get_collection s c = Some col \<Longrightarrow> col \<in> set (lb_collections s) \<and> co_id col = c"
  by (auto simp: get_collection_def dest: row_get_mem row_get_key)

lemma favorites_of_mem:
  "favorites_of s u = Some col \<Longrightarrow> col \<in> set (lb_collections s) \<and> co_owner col = u \<and> co_kind col = FAVORITES"
  by (auto simp: favorites_of_def dest: find_SomeD)

lemma shelf_favorites_iff:
  assumes "shelf_ok (shelf_of s)" "col \<in> set (lb_collections s)"
  shows "is_favorites (shelf_of s) (co_id col) \<longleftrightarrow> co_kind col = FAVORITES"
proof -
  have "distinct (map co_id (lb_collections s))"
    using assms(1) by (simp add: shelf_ok_def likes_ok_def comp_def)
  then have "col' = col" if "col' \<in> set (lb_collections s)" "co_id col' = co_id col" for col'
    using that assms(2) by (metis distinct_map inj_on_eq_iff)
  then show ?thesis using assms(2) by (auto simp: is_favorites_iff image_iff) metis
qed

lemma get_visible_meme_mem: "get_visible_meme s m u = Some r \<Longrightarrow> r \<in> set (db_memes (lb_db s)) \<and> me_id r = m"
  by (auto simp: get_visible_meme_def get_meme_def split: option.splits if_splits dest: row_get_mem row_get_key)

lemma update_likes_shelf:
  "map (\<lambda>r. (me_id r, me_like_count r)) (db_memes (lb_db (update_likes f m s))) =
     count_like f m (map (\<lambda>r. (me_id r, me_like_count r)) (db_memes (lb_db s)))"
  "db_collection_memes (lb_db (update_likes f m s)) = db_collection_memes (lb_db s)"
  "db_pins (lb_db (update_likes f m s)) = db_pins (lb_db s)"
  "lb_collections (update_likes f m s) = lb_collections s"
  "lb_members (update_likes f m s) = lb_members s"
  "lb_invites (update_likes f m s) = lb_invites s"
  by (simp_all add: update_likes_def map_lb_db_def count_like_def)

section \<open>Each write is a step\<close>

lemma reach_saved_into:
  assumes "shelf_ok (shelf_of s)" "col \<in> set (lb_collections s)" "m \<in> me_id ` set (db_memes (lb_db s))"
  shows "shelf_reach s (snd (saved_into env u col m s))"
proof (cases "saved s (co_id col) m")
  case True
  then show ?thesis by (simp add: saved_into_def insert_collection_meme_def)
next
  case False
  let ?h = "shelf_of s"
  have fav: "is_favorites ?h (co_id col) \<longleftrightarrow> co_kind col = FAVORITES"
    using assms(1,2) by (rule shelf_favorites_iff)
  have step: "shelf_step ?h (?h\<lparr>sh_saves := sh_saves ?h @ [(co_id col, m)],
      sh_likes := (if is_favorites ?h (co_id col) then count_like (\<lambda>n. n + 1) m (sh_likes ?h) else sh_likes ?h)\<rparr>)"
    by (rule shelf_step.save) (use assms False in \<open>force simp: saved_def\<close>)+
  show ?thesis
    using False fav
    by (intro shelf_reach_step [OF step])
      (auto simp: saved_into_def insert_collection_meme_def increment_like_count_def Let_def map_lb_db_def
         update_likes_shelf intro!: shelf_eqI)
qed

lemma reach_removed:
  assumes "shelf_ok (shelf_of s)" "col \<in> set (lb_collections s)" "delete_collection_meme (co_id col) m s = (Some a, s1)"
  shows "shelf_reach s (if co_kind col = FAVORITES then decrement_like_count m s1 else s1)"
proof -
  let ?h = "shelf_of s"
  have sv: "saved s (co_id col) m"
    and s1: "s1 = (map_lb_db (\<lambda>d. d\<lparr>db_collection_memes := filter (\<lambda>x. x \<noteq> (co_id col, m)) (db_collection_memes d)\<rparr>) s)
      \<lparr>lb_saves := (lb_saves s)((co_id col, m) := None)\<rparr>"
    using assms(3) by (auto simp: delete_collection_meme_def split: if_splits)
  have fav: "is_favorites ?h (co_id col) \<longleftrightarrow> co_kind col = FAVORITES"
    using assms(1,2) by (rule shelf_favorites_iff)
  have step: "shelf_step ?h (?h\<lparr>sh_saves := filter (\<lambda>x. x \<noteq> (co_id col, m)) (sh_saves ?h),
      sh_likes := (if is_favorites ?h (co_id col) then count_like (\<lambda>n. max (n - 1) 0) m (sh_likes ?h) else sh_likes ?h)\<rparr>)"
    by (rule shelf_step.unsave) (use sv in \<open>simp add: saved_def\<close>)
  show ?thesis
    using fav s1
    by (intro shelf_reach_step [OF step])
      (auto simp: decrement_like_count_def map_lb_db_def update_likes_shelf intro!: shelf_eqI)
qed

lemma reach_retire:
  assumes "retire_meme env m s = Inr (keys, s')"
  shows "shelf_reach s s'"
proof -
  let ?h = "shelf_of s"
  have "shelf_step ?h (?h\<lparr>sh_likes := filter (\<lambda>(k, n). k \<noteq> m) (sh_likes ?h),
      sh_saves := filter (\<lambda>(c, k). k \<noteq> m) (sh_saves ?h)\<rparr>)"
    by (rule shelf_step.drop_meme)
  moreover have "shelf_of s' = ?h\<lparr>sh_likes := filter (\<lambda>(k, n). k \<noteq> m) (sh_likes ?h),
      sh_saves := filter (\<lambda>(c, k). k \<noteq> m) (sh_saves ?h)\<rparr>"
    using assms
    by (auto simp: retire_meme_def prepare_media_generation_cleanup_def Let_def filter_map comp_def
        split: sum.splits intro!: shelf_eqI)
  ultimately show ?thesis by (rule shelf_reach_step)
qed

lemma reach_orphan:
  "delete_orphan_private_meme_if_unreferenced env m s = Inr (keys, s') \<Longrightarrow> shelf_reach s s'"
  by (auto simp: delete_orphan_private_meme_if_unreferenced_def split: option.splits if_splits dest: reach_retire)

lemma reach_retire_orphans:
  "retire_orphans env c ms keys s = Inr (keys', s') \<Longrightarrow> shelf_reach s s'"
proof (induction env c ms keys s rule: retire_orphans.induct)
  case (2 env c m ms keys s)
  show ?case
  proof (cases "meme_has_other_collection_references s m c")
    case True
    with 2 show ?thesis by simp
  next
    case False
    with 2(3) obtain extra s1 where s1: "retire_meme env m s = Inr (extra, s1)"
      and rest: "retire_orphans env c ms (keys @ extra) s1 = Inr (keys', s')"
      by (auto split: sum.splits)
    from 2(2) [OF False s1 refl rest] reach_retire [OF s1] show ?thesis by (blast intro: shelf_reach_trans)
  qed
qed simp

lemma retire_meme_collections: "retire_meme env m s = Inr (keys, s') \<Longrightarrow> lb_collections s' = lb_collections s"
  by (auto simp: retire_meme_def prepare_media_generation_cleanup_def Let_def split: sum.splits)

lemma retire_orphans_collections:
  "retire_orphans env c ms keys s = Inr (keys', s') \<Longrightarrow> lb_collections s' = lb_collections s"
proof (induction env c ms keys s rule: retire_orphans.induct)
  case (2 env c m ms keys s)
  then show ?case
    by (cases "retire_meme env m s") (auto split: if_splits dest: retire_meme_collections)
qed simp

lemma reach_remove_from:
  assumes "shelf_ok (shelf_of s)" "col \<in> set (lb_collections s)"
  shows "shelf_reach s (snd (remove_from le actor col m failure s))"
proof (cases "delete_collection_meme (co_id col) m s")
  case (Pair added s1)
  show ?thesis
  proof (cases added)
    case None
    with Pair show ?thesis by (simp add: remove_from_def)
  next
    case (Some a)
    let ?s2 = "if co_kind col = FAVORITES then decrement_like_count m s1 else s1"
    let ?s3 = "project_collection_meme_removal (le_env le) actor (case a of Some a \<Rightarrow> a | None \<Rightarrow> co_owner col) m ?s2"
    have r3: "shelf_reach s ?s3"
      using reach_removed [OF assms, of m a s1] Pair Some by (simp add: shelf_reach_def)
    have "shelf_reach s (snd (check s (delete_orphan_private_meme_if_unreferenced (le_env le) m ?s3) (\<lambda>(keys, s4).
        case commit_library le s (\<lambda>_. CollectionServiceFailure failure) True s4 of
          (Inl e, t) \<Rightarrow> (Inl e, t) | (Inr b, t) \<Rightarrow> (Inr b, delete_storage_objects_after_commit le keys t))))"
    proof (rule reach_check)
      fix x assume x: "delete_orphan_private_meme_if_unreferenced (le_env le) m ?s3 = Inr x"
      obtain keys s4 where kx: "x = (keys, s4)" by (cases x)
      with x have "shelf_reach ?s3 s4" by (simp add: reach_orphan)
      then have "shelf_reach s s4" using r3 by (rule shelf_reach_trans [rotated])
      then show "shelf_reach s (snd (case x of (keys, s4) \<Rightarrow>
          case commit_library le s (\<lambda>_. CollectionServiceFailure failure) True s4 of
            (Inl e, t) \<Rightarrow> (Inl e, t) | (Inr b, t) \<Rightarrow> (Inr b, delete_storage_objects_after_commit le keys t)))"
        unfolding kx by (simp only: prod.case reach_commit_objects)
    qed
    then show ?thesis
      using Pair Some unfolding remove_from_def by (simp only: Let_def prod.case option.case)
  qed
qed

lemma flush_library_Inr: "flush_library f s = Inr s' \<longleftrightarrow> violated_constraint s = None \<and> s' = s"
  by (auto simp: flush_library_def split: option.splits)

lemma reach_new_collection:
  assumes "co_id col \<notin> co_id ` set (lb_collections s)"
    and "co_kind col = FAVORITES \<longrightarrow> favorites_of s (co_owner col) = None"
    and "shelf_of s' = (shelf_of s)\<lparr>sh_collections := sh_collections (shelf_of s) @ [(co_id col, co_owner col, co_kind col)],
      sh_members := row_put member_key (owner_row (co_id col) (co_owner col)) (sh_members (shelf_of s))\<rparr>"
  shows "shelf_reach s s'"
proof (rule shelf_reach_step [OF _ assms(3)], rule shelf_step.create)
  show "co_id col \<notin> fst ` set (sh_collections (shelf_of s))" using assms(1) by auto
  show "co_kind col = FAVORITES \<longrightarrow> co_owner col \<notin> set (favorites_owners (shelf_of s))"
    using assms(2) by (auto simp: favorites_owners_def favorites_of_def find_None_iff)
qed

lemma shelf_of_new_collection:
  "shelf_of (put_member r (s\<lparr>lb_collections := lb_collections s @ [col]\<rparr>)) =
     (shelf_of s)\<lparr>sh_collections := sh_collections (shelf_of s) @ [(co_id col, co_owner col, co_kind col)],
       sh_members := row_put member_key r (sh_members (shelf_of s))\<rparr>"
  by (auto simp: put_member_def intro!: shelf_eqI)

lemma ensured_favorites_reach:
  assumes "ensured_favorites le u s = Inr (col, s')" "fresh_library_ids le s"
  shows "shelf_reach s s'" "col \<in> set (lb_collections s')" "lb_db s' = lb_db s" "co_owner col = u"
proof -
  have "shelf_reach s s' \<and> col \<in> set (lb_collections s') \<and> lb_db s' = lb_db s \<and> co_owner col = u"
  proof (cases "favorites_of s u")
    case (Some c)
    with assms(1) have "col = c" "s' = s" by (auto simp: ensured_favorites_def split: option.splits)
    with favorites_of_mem [OF Some] show ?thesis by simp
  next
    case None
    let ?c = "new_favorites (le_env le) u"
    let ?t = "put_member \<lparr>cm_collection = co_id ?c, cm_user = u, cm_role = OWNER\<rparr> (s\<lparr>lb_collections := lb_collections s @ [?c]\<rparr>)"
    from None assms(1) have col: "col = ?c" and s': "s' = ?t \<or> (\<exists>r. s' = put_user (le_env le) r ?t)"
      by (auto simp: ensured_favorites_def Let_def flush_library_Inr split: option.splits sum.splits if_splits)
    from s' have "shelf_of s' = shelf_of ?t" "lb_collections s' = lb_collections s @ [?c]" "lb_db s' = lb_db s"
      by (auto simp: put_user_def put_member_def)
    moreover have "shelf_reach s s'"
      by (rule reach_new_collection [of ?c])
        (use None assms(2) \<open>shelf_of s' = shelf_of ?t\<close> in
          \<open>auto simp: fresh_library_ids_def new_favorites_def shelf_of_new_collection owner_row_def\<close>)
    moreover have "co_owner ?c = u" by (simp add: new_favorites_def)
    ultimately show ?thesis using col by simp
  qed
  then show "shelf_reach s s'" "col \<in> set (lb_collections s')" "lb_db s' = lb_db s" "co_owner col = u" by auto
qed

lemma reach_ensure_favorites:
  assumes "fresh_library_ids le s"
  shows "shelf_reach s (snd (ensure_favorites_collection le u s))"
  unfolding ensure_favorites_collection_def
  by (auto split: sum.splits intro!: reach_commit dest: ensured_favorites_reach(1) [OF _ assms])

lemma terminal_status_fields [simp]:
  "ci_id (fst (apply_invite_terminal_status now i)) = ci_id i"
  "ci_role (fst (apply_invite_terminal_status now i)) = ci_role i"
  "ci_use_count (fst (apply_invite_terminal_status now i)) = ci_use_count i"
  "ci_max_uses (fst (apply_invite_terminal_status now i)) = ci_max_uses i"
  by (simp_all add: apply_invite_terminal_status_def)

lemma reach_persist:
  "shelf_reach s (snd (persist_terminal_invite_statuses le P s))"
proof -
  let ?f = "\<lambda>i. if P i then fst (apply_invite_terminal_status (env_now (le_env le)) i) else i"
  have "shelf_step (shelf_of s) ((shelf_of s)\<lparr>sh_invites := map ?f (sh_invites (shelf_of s))\<rparr>)"
    by (rule shelf_step.advance) (auto simp: invite_ok_def split: option.splits)
  then have "shelf_reach s (s\<lparr>lb_invites := map ?f (lb_invites s)\<rparr>)"
    by (rule shelf_reach_step) (simp add: shelf_of_def)
  then show ?thesis
    by (auto simp: persist_terminal_invite_statuses_def Let_def intro: reach_commit)
qed

lemma persist_unchanged:
  "persist_terminal_invite_statuses le P s = (Inr False, s') \<Longrightarrow> s' = s"
  by (auto simp: persist_terminal_invite_statuses_def commit_library_def Let_def split: if_splits option.splits)

section \<open>The calls\<close>

lemma read_collection_mem:
  "get_collection_for_read s c u = Inr (user, col) \<Longrightarrow>
     col \<in> set (lb_collections s) \<and> co_id col = c \<and> get_user s u = Some user"
  by (auto simp: get_collection_for_read_def split: option.splits if_splits dest: get_collection_mem)

lemma load_collection_mem: "load_collection s c = Inr col \<Longrightarrow> col \<in> set (lb_collections s) \<and> co_id col = c"
  by (auto simp: load_collection_def dest: get_collection_mem)

lemma visible_meme_mem: "visible_meme s m u = Inr r \<Longrightarrow> m \<in> me_id ` set (db_memes (lb_db s))"
  by (auto simp: visible_meme_def dest: get_visible_meme_mem)

lemma reach_create_custom:
  assumes "fresh_library_ids le s"
  shows "shelf_reach s (snd (create_custom_collection le u t d v s))"
proof -
  have "shelf_reach s (snd (let c = custom_collection (le_env le) u t d v
      in check s (flush_library Integrity (s\<lparr>lb_collections := lb_collections s @ [c]\<rparr>)) (\<lambda>s1.
           commit_library le s f c (put_member \<lparr>cm_collection = co_id c, cm_user = u, cm_role = OWNER\<rparr> s1))))" for t v f
    unfolding Let_def
  proof (rule reach_check, rule reach_commit)
    fix s1 assume "flush_library Integrity (s\<lparr>lb_collections := lb_collections s @ [custom_collection (le_env le) u t d v]\<rparr>) = Inr s1"
    then show "shelf_reach s (put_member \<lparr>cm_collection = co_id (custom_collection (le_env le) u t d v), cm_user = u, cm_role = OWNER\<rparr> s1)"
      using assms
      by (intro reach_new_collection [of "custom_collection (le_env le) u t d v"])
        (auto simp: flush_library_Inr shelf_of_new_collection fresh_library_ids_def custom_collection_def owner_row_def)
  qed
  then show ?thesis unfolding create_custom_collection_def by (intro reach_check)
qed

lemma shelf_of_put_collection:
  assumes "shelf_ok (shelf_of s)" "col \<in> set (lb_collections s)" "co_id r = co_id col" "co_owner r = co_owner col" "co_kind r = co_kind col"
  shows "shelf_of (put_collection env r s) = shelf_of s"
proof -
  have "distinct (map co_id (lb_collections s))"
    using assms(1) by (simp add: shelf_ok_def likes_ok_def comp_def)
  then have "row_get co_id (co_id col) (lb_collections s) = Some col" using assms(2) by (simp add: row_get_iff_mem)
  then have "map (\<lambda>c. (co_id c, co_owner c, co_kind c)) (row_put co_id (r\<lparr>co_updated_at := env_now env\<rparr>) (lb_collections s)) =
      map (\<lambda>c. (co_id c, co_owner c, co_kind c)) (lb_collections s)"
    using assms(3-5) by (intro map_row_put_same) auto
  then show ?thesis by (simp add: shelf_of_def put_collection_def)
qed

lemma reach_update_custom:
  assumes "shelf_ok (shelf_of s)"
  shows "shelf_reach s (snd (update_custom_collection le c u t d v s))"
  unfolding update_custom_collection_def
  by (auto simp: Let_def split: prod.splits intro!: reach_check reach_commit
      dest!: read_collection_mem)
    (rule shelf_reach_eq, erule shelf_of_put_collection [OF assms], simp_all)

lemma shelf_of_delete_collection:
  "shelf_of (delete_collection_row c s) =
     (shelf_of s)\<lparr>sh_collections := filter (\<lambda>(k, owner, kind). k \<noteq> c) (sh_collections (shelf_of s)),
       sh_saves := filter (\<lambda>(k, m). k \<noteq> c) (sh_saves (shelf_of s)),
       sh_members := filter (\<lambda>r. cm_collection r \<noteq> c) (sh_members (shelf_of s)),
       sh_invites := filter (\<lambda>i. ci_collection i \<noteq> c) (sh_invites (shelf_of s))\<rparr>"
  by (auto simp: delete_collection_row_def map_lb_db_def filter_map comp_def intro!: shelf_eqI)

lemma is_favorites_same: "lb_collections s' = lb_collections s \<Longrightarrow> is_favorites (shelf_of s') c = is_favorites (shelf_of s) c"
  by (simp add: is_favorites_def)

lemma reach_delete_custom:
  assumes "shelf_ok (shelf_of s)"
  shows "shelf_reach s (snd (delete_custom_collection le c u s))"
proof -
  have "shelf_reach s (map_interests f (delete_collection_row (co_id col) (clear_active_save env P (co_id col) s1)))"
    if "col \<in> set (lb_collections s)" "co_kind col = CUSTOM"
      "delete_private_memes_orphaned_by_collection_delete env (co_id col) s = Inr (keys, s1)" for col f env P s1 keys
  proof -
    have r1: "shelf_reach s s1" and cs: "lb_collections s1 = lb_collections s"
      using that(3) by (auto simp: delete_private_memes_orphaned_by_collection_delete_def
          dest: reach_retire_orphans retire_orphans_collections)
    have "\<not> is_favorites (shelf_of s1) (co_id col)"
      using shelf_favorites_iff [OF assms that(1)] that(2) is_favorites_same [OF cs] by simp
    then have "shelf_reach s1 (map_interests f (delete_collection_row (co_id col) (clear_active_save env P (co_id col) s1)))"
      by (intro shelf_reach_step [OF shelf_step.drop_collection]) (simp_all add: shelf_of_delete_collection)
    with r1 show ?thesis by (rule shelf_reach_trans)
  qed
  then show ?thesis
    unfolding delete_custom_collection_def
    by (auto simp: Let_def ensure_owner_can_manage_custom_collection_def split: if_splits
        intro!: reach_check reach_commit_objects dest!: read_collection_mem)
qed

lemma reach_save:
  assumes "shelf_ok (shelf_of s)"
  shows "shelf_reach s (snd (save_meme_to_collection_result le c u m s))"
  unfolding save_meme_to_collection_result_def
proof (rule reach_check)
  fix x assume x: "get_collection_for_read s c u = Inr x"
  obtain user col where ux: "x = (user, col)" by (cases x)
  have "shelf_reach s (snd (saved_into (le_env le) u col m s))" if "m \<in> me_id ` set (db_memes (lb_db s))"
    using assms x ux that by (intro reach_saved_into) (auto dest: read_collection_mem)
  then show "shelf_reach s (snd (case x of (user, col) \<Rightarrow>
      check s (ensure_can_write_collection s user col) (\<lambda>_.
      check s (visible_meme s m u) (\<lambda>meme.
        let (inserted, s1) = saved_into (le_env le) u col m s
        in commit_library le s (\<lambda>_. CollectionServiceFailure ''Failed to save the meme to the collection.'') inserted s1))))"
    unfolding ux
    by (auto simp: Let_def case_prod_beta' intro!: reach_check reach_commit dest!: visible_meme_mem)
qed

lemma reach_save_after_ensure:
  assumes "shelf_ok (shelf_of s)" "shelf_reach s s1" "col \<in> set (lb_collections s1)" "m \<in> me_id ` set (db_memes (lb_db s1))"
  shows "shelf_reach s (snd (saved_into env u col m s1))"
  using assms reach_saved_into [of s1 col m env u] shelf_reach_ok shelf_reach_trans by blast

lemma reach_favorite:
  assumes "shelf_ok (shelf_of s)" "fresh_library_ids le s"
  shows "shelf_reach s (snd (favorite_meme_result le u m s))"
proof -
  have "shelf_reach s (snd (saved_into env u col m s1))"
    if "ensured_favorites le u s = Inr (col, s1)" "m \<in> me_id ` set (db_memes (lb_db s))" for col s1 env
    using that ensured_favorites_reach [OF that(1) assms(2)] assms(1) by (intro reach_save_after_ensure) auto
  then show ?thesis
    unfolding favorite_meme_result_def
    by (auto simp: Let_def case_prod_beta' intro!: reach_check reach_commit dest!: visible_meme_mem)
qed

lemma active_collection_reach:
  assumes "get_active_collection_for_write le u s = Inr (user, col, s1)" "fresh_library_ids le s"
  shows "shelf_reach s s1 \<and> col \<in> set (lb_collections s1) \<and> lb_db s1 = lb_db s"
proof -
  from assms(1) obtain r where user: "get_user s u = Some r"
    by (auto simp: get_active_collection_for_write_def split: option.splits)
  show ?thesis
  proof (cases "us_active_save r")
    case None
    with user assms(1) have "ensured_favorites le u s = Inr (col, s1)"
      by (auto simp: get_active_collection_for_write_def split: sum.splits)
    from ensured_favorites_reach [OF this assms(2)] show ?thesis by simp
  next
    case (Some c)
    with user assms(1) have "get_collection s c = Some col" "s1 = s"
      by (auto simp: get_active_collection_for_write_def split: sum.splits option.splits)
    with get_collection_mem show ?thesis by blast
  qed
qed

lemma reach_save_active:
  assumes "shelf_ok (shelf_of s)" "fresh_library_ids le s"
  shows "shelf_reach s (snd (save_meme_to_active_collection_result le u m s))"
proof -
  have "shelf_reach s (snd (saved_into env u col m s1))"
    if "get_active_collection_for_write le u s = Inr (user, col, s1)" "m \<in> me_id ` set (db_memes (lb_db s1))" for user col s1 env
    using that active_collection_reach [OF that(1) assms(2)] assms(1) by (intro reach_save_after_ensure) auto
  then show ?thesis
    unfolding save_meme_to_active_collection_result_def
    by (auto simp: Let_def case_prod_beta' intro!: reach_check reach_commit dest!: visible_meme_mem)
qed

lemma reach_removals:
  assumes "shelf_ok (shelf_of s)"
  shows "shelf_reach s (snd (remove_meme_from_collection le c u m s))"
    and "shelf_reach s (snd (unfavorite_meme le u m s))"
    and "shelf_reach s (snd (remove_meme_from_active_collection le u m s))"
proof -
  show "shelf_reach s (snd (remove_meme_from_collection le c u m s))"
    unfolding remove_meme_from_collection_def
    by (auto intro!: reach_check reach_remove_from assms dest!: read_collection_mem)
  show "shelf_reach s (snd (unfavorite_meme le u m s))"
    unfolding unfavorite_meme_def
    by (auto split: option.splits intro!: reach_remove_from assms dest!: favorites_of_mem)
  show "shelf_reach s (snd (remove_meme_from_active_collection le u m s))"
    unfolding remove_meme_from_active_collection_def
    by (auto split: option.splits intro!: reach_check reach_remove_from assms dest!: load_collection_mem)
qed

lemma shelf_of_pins [simp]:
  "shelf_of (add_pin env p s) = shelf_of s"
  "shelf_of (replace_pins u ms s) = shelf_of s"
  by (simp_all add: shelf_of_def add_pin_def replace_pins_def map_lb_db_def)

lemma reach_pin_calls:
  "shelf_reach s (snd (pin_meme_result le u m s))"
  "shelf_reach s (snd (unpin_meme le u m s))"
  "shelf_reach s (snd (reorder_pins le u ms s))"
  "shelf_reach s (snd (update_active_save_collection le u c s))"
  unfolding pin_meme_result_def unpin_meme_def reorder_pins_def update_active_save_collection_def
  by (auto simp: Let_def intro!: reach_check reach_commit intro: shelf_reach_eq)

lemma reach_put_member:
  assumes "col \<in> set (lb_collections s)" "cm_collection r = co_id col" "cm_role r = OWNER \<longleftrightarrow> cm_user r = co_owner col"
  shows "shelf_reach s (put_member r s)"
  by (rule shelf_reach_step [OF shelf_step.enroll [of r "co_owner col" "co_kind col"]])
    (use assms in \<open>force simp: put_member_def intro!: shelf_eqI\<close>)+

lemma reach_ensure_member: "shelf_reach s (snd (ensure_member le c u role s))"
  unfolding ensure_member_def Let_def
  by (auto split: if_splits intro!: reach_check reach_commit reach_put_member dest!: load_collection_mem)

lemma reach_update_role: "shelf_reach s (snd (update_member_role le c actor u role s))"
  unfolding update_member_role_def
  by (auto simp: get_member_def member_key_def intro!: reach_check reach_commit reach_put_member
      dest!: read_collection_mem row_get_key)

lemma reach_remove_member: "shelf_reach s (snd (remove_member le c actor u s))"
proof -
  have "shelf_reach s ((clear_active_save env P c s)\<lparr>lb_members := filter (\<lambda>r. member_key r \<noteq> (c, u)) (lb_members (clear_active_save env P c s))\<rparr>)"
    if "col \<in> set (lb_collections s)" "co_id col = c" "co_owner col \<noteq> u" for col env P
    by (rule shelf_reach_step [OF shelf_step.expel [of c "co_owner col" "co_kind col" _ u]])
      (use that in \<open>force simp: clear_active_save_def intro!: shelf_eqI\<close>)+
  then show ?thesis
    unfolding remove_member_def Let_def
    by (auto split: option.splits intro!: reach_check reach_commit dest!: read_collection_mem)
qed

lemma reach_create_invite:
  assumes "fresh_library_ids le s"
  shows "shelf_reach s (snd (create_invite le c rq s))"
proof -
  have "shelf_reach s (s\<lparr>lb_invites := lb_invites s @ [i]\<rparr>)"
    if "ci_id i = env_fresh (le_env le) 0" "invite_ok i" for i
    by (rule shelf_reach_step [OF shelf_step.invite [of i]])
      (use that assms in \<open>auto simp: fresh_library_ids_def intro!: shelf_eqI\<close>)
  then show ?thesis
    unfolding create_invite_def Let_def
    by (auto simp: normalize_max_uses_def invite_ok_def split: option.splits if_splits intro!: reach_check reach_commit)
qed

lemma reach_put_invite:
  assumes "distinct (map ci_id (lb_invites s))" "i \<in> set (lb_invites s)" "ci_id i' = ci_id i" "invite_ok i \<Longrightarrow> invite_ok i'"
  shows "shelf_reach s (put_invite i' s)"
proof -
  let ?f = "\<lambda>x. if ci_id x = ci_id i' then i' else x"
  have same: "x = i" if "x \<in> set (lb_invites s)" "ci_id x = ci_id i'" for x
    using that assms(1-3) by (metis distinct_map inj_on_eq_iff)
  have step: "shelf_step (shelf_of s) ((shelf_of s)\<lparr>sh_invites := map ?f (sh_invites (shelf_of s))\<rparr>)"
    by (rule shelf_step.advance) (use same assms(4) in auto)
  have "row_put ci_id i' (lb_invites s) = map ?f (lb_invites s)"
    using assms(1-3) by (intro row_put_map) auto
  then show ?thesis
    by (intro shelf_reach_step [OF step]) (auto simp: put_invite_def intro!: shelf_eqI)
qed

lemma shelf_invites:
  "shelf_ok (shelf_of s) \<Longrightarrow> distinct (map ci_id (lb_invites s))"
  "shelf_ok (shelf_of s) \<Longrightarrow> i \<in> set (lb_invites s) \<Longrightarrow> invite_ok i"
  by (auto simp: shelf_ok_def invites_ok_def)

lemma invite_ok_revoked: "invite_ok i \<Longrightarrow> invite_ok (revoked_invite now i)"
  by (auto simp: invite_ok_def revoked_invite_def split: option.splits)

lemma revoked_invite_id [simp]: "ci_id (revoked_invite now i) = ci_id i"
  by (simp add: revoked_invite_def)

lemma reach_revoke:
  assumes "shelf_ok (shelf_of s)"
  shows "shelf_reach s (snd (revoke_invite le c i u s))"
  unfolding revoke_invite_def Let_def
  by (auto simp: shelf_invites(1) [OF assms] intro!: reach_check reach_commit reach_put_invite
      intro: invite_ok_revoked dest!: find_SomeD)

lemma reach_use_invite:
  assumes "shelf_ok (shelf_of s)" "i \<in> set (lb_invites s)" "col \<in> set (lb_collections s)"
    and "membership_role_for_user s u col = None" "ensure_invite_can_be_used now i = Inr ()"
  shows "shelf_reach s (put_invite (used_invite now i) (put_member \<lparr>cm_collection = co_id col, cm_user = u, cm_role = ci_role i\<rparr> s))"
proof -
  let ?s1 = "put_member \<lparr>cm_collection = co_id col, cm_user = u, cm_role = ci_role i\<rparr> s"
  have ok: "invite_ok i" using assms(1,2) by (rule shelf_invites(2))
  have "owner_row (co_id col) (co_owner col) \<in> set (lb_members s)"
    using assms(1,3) by (auto simp: shelf_ok_def members_ok_def)
  then have "co_owner col \<noteq> u"
    using assms(4) by (auto simp: membership_role_for_user_def get_member_def row_get_None_iff owner_row_def member_key_def image_iff)
  then have "shelf_reach s ?s1"
    using ok assms(3) by (intro reach_put_member [of col]) (auto simp: invite_ok_def)
  moreover have "shelf_reach ?s1 (put_invite (used_invite now i) ?s1)"
  proof (rule reach_put_invite)
    show "distinct (map ci_id (lb_invites ?s1))" using shelf_invites(1) [OF assms(1)] by (simp add: put_member_def)
    show "i \<in> set (lb_invites ?s1)" using assms(2) by (simp add: put_member_def)
    show "ci_id (used_invite now i) = ci_id i" by (simp add: used_invite_def Let_def)
    show "invite_ok (used_invite now i)"
      using ok assms(5) by (auto simp: invite_ok_def used_invite_def ensure_invite_can_be_used_def Let_def split: option.splits)
  qed
  ultimately show ?thesis by (rule shelf_reach_trans)
qed

lemma reach_join:
  assumes "shelf_ok (shelf_of s)"
  shows "shelf_reach s (snd (join_invite le token u s))"
  unfolding join_invite_def
proof (intro reach_check)
  fix user x i
  assume "load_user s u = Inr user" and i: "invite_by_token s token = Inr i"
  let ?P = "\<lambda>x. ci_id x = ci_id i"
  let ?r = "persist_terminal_invite_statuses le ?P s"
  have mem: "i \<in> set (lb_invites s)"
    using i by (auto simp: invite_by_token_def split: sum.splits dest!: find_SomeD)
  have persisted: "shelf_reach s (snd ?r)" by (rule reach_persist)
  show "shelf_reach s (snd (case ?r of
         (Inl e, s1) \<Rightarrow> (Inl e, s1)
       | (Inr True, s1) \<Rightarrow> (Inl (InvalidCollectionInvite ''Invite link is invalid or expired.''), s1)
       | (Inr False, s1) \<Rightarrow>
           check s1 (ensure_invite_can_be_used (env_now (le_env le)) i) (\<lambda>_.
           check s1 (load_collection s1 (ci_collection i)) (\<lambda>col.
           check s1 (require (InvalidCollectionInvite ''Favorites collections cannot be joined by invite.'')
                       (co_kind col \<noteq> FAVORITES)) (\<lambda>_.
             let s2 = (if membership_role_for_user s1 u col = None
                       then put_invite (used_invite (env_now (le_env le)) i)
                              (put_member \<lparr>cm_collection = co_id col, cm_user = u, cm_role = ci_role i\<rparr> s1)
                       else s1)
             in commit_library le s1 (\<lambda>_. CollectionServiceFailure ''Failed to join the collection invite.'') col s2)))))"
  proof (cases "fst ?r = Inr False")
    case True
    then have r: "?r = (Inr False, s)" using persist_unchanged [of le ?P s "snd ?r"] by (cases ?r) auto
    show ?thesis
      unfolding r using mem
      by (auto simp: Let_def intro!: reach_check reach_commit reach_use_invite [OF assms] dest: load_collection_mem)
  next
    case False
    then show ?thesis using persisted by (cases ?r) (auto split: sum.splits bool.splits)
  qed
qed

lemma reach_list_collections:
  assumes "fresh_library_ids le s"
  shows "shelf_reach s (snd (list_collections_for_user le u s))"
  unfolding list_collections_for_user_def
proof (rule reach_check)
  fix user
  obtain r1 s1 where r1: "ensure_favorites_collection le u s = (r1, s1)" by fastforce
  with reach_ensure_favorites [OF assms, of u] have s1: "shelf_reach s s1" by simp
  let ?P = "\<lambda>i. list_ex (\<lambda>c. co_id c = ci_collection i) (collections_for s1 u)"
  obtain r2 s2 where r2: "persist_terminal_invite_statuses le ?P s1 = (r2, s2)" by fastforce
  with reach_persist [of s1 le ?P] have "shelf_reach s1 s2" by simp
  with s1 r1 r2 show "shelf_reach s (snd (case ensure_favorites_collection le u s of
         (Inl e, s1) \<Rightarrow> (Inl e, s1)
       | (Inr _, s1) \<Rightarrow>
           (case persist_terminal_invite_statuses le
                   (\<lambda>i. list_ex (\<lambda>c. co_id c = ci_collection i) (collections_for s1 u)) s1 of
              (Inl e, s2) \<Rightarrow> (Inl e, s2)
            | (Inr _, s2) \<Rightarrow> (Inr (collections_for s2 u), s2))))"
    by (auto split: sum.splits intro: shelf_reach_trans)
qed

lemma reach_get_collection: "shelf_reach s (snd (get_collection_for_user le c u s))"
  unfolding get_collection_for_user_def
proof (rule reach_check)
  fix x :: "app_user \<times> collection"
  let ?r = "persist_terminal_invite_statuses le (\<lambda>i. ci_collection i = co_id (snd x)) s"
  obtain r s1 where r: "?r = (r, s1)" by fastforce
  with reach_persist [of s le "\<lambda>i. ci_collection i = co_id (snd x)"] have "shelf_reach s s1" by simp
  with r show "shelf_reach s (snd (case x of (user, col) \<Rightarrow>
      case persist_terminal_invite_statuses le (\<lambda>i. ci_collection i = co_id col) s of
         (Inl e, s1) \<Rightarrow> (Inl e, s1) | (Inr _, s1) \<Rightarrow> (Inr col, s1)))"
    by (cases x) (auto split: sum.splits)
qed

lemmas reach_calls =
  reach_ensure_favorites reach_create_custom reach_update_custom reach_delete_custom reach_list_collections
  reach_get_collection reach_save reach_removals reach_favorite reach_save_active reach_pin_calls reach_ensure_member
  reach_update_role reach_remove_member reach_create_invite reach_revoke reach_join

lemma snd_done_with [simp]: "snd (done_with r) = snd r"
  by (simp add: done_with_def)

lemma run_call_reach:
  assumes "shelf_ok (shelf_of s)" "fresh_library_ids le s"
  shows "shelf_reach s (snd (run_call le call s))"
  by (cases call) (simp_all add: reach_calls assms)

section \<open>A sample library\<close>

definition sample_user :: app_user where
  "sample_user =
     \<lparr>us_id = 1, us_status = ACCOUNT_ACTIVE, us_telegram = Some 111, us_google = None, us_email = None,
      us_email_verified_at = None, us_password_hash = None, us_active_save = Some 20, us_nsfw_enabled = False,
      us_language = USER_ANY, us_last_active_at = None, us_guest_expires_at = None, us_token_nonce = 0, us_updated_at = 0\<rparr>"

definition sample_favorites :: collection where
  "sample_favorites =
     \<lparr>co_id = 20, co_owner = 1, co_title = FAVORITES_TITLE, co_description = None, co_kind = FAVORITES,
      co_visibility = PRIVATE, co_updated_at = 0\<rparr>"

text \<open>One user, whose Favorites holds a private meme; it and a public one are pinned, another public one is not.\<close>

definition sample_library :: library where
  "sample_library =
     \<lparr>lb_db = empty_db
        \<lparr>db_memes := [sample_meme\<lparr>me_like_count := 1\<rparr>, sample_meme\<lparr>me_id := 8, me_is_public := True\<rparr>,
                      sample_meme\<lparr>me_id := 9, me_is_public := True\<rparr>],
         db_collection_memes := [(20, 7)],
         db_pins := [\<lparr>pn_user = 1, pn_meme = 7, pn_position = 1\<rparr>, \<lparr>pn_user = 1, pn_meme = 8, pn_position = 2\<rparr>]\<rparr>,
      lb_users = [sample_user], lb_collections = [sample_favorites], lb_members = [owner_row 20 1], lb_invites = [],
      lb_saves = (\<lambda>_. None), lb_pinned_at = (\<lambda>_. 0),
      lb_interests = \<lparr>is_rows = (\<lambda>_. None), is_dirty = (\<lambda>_. None), is_profiles = [], is_signals = []\<rparr>,
      lb_analytics = [], lb_inline = [], lb_link_codes = [], lb_merges = [], lb_objects = []\<rparr>"

definition sample_library_env :: library_env where
  "sample_library_env =
     \<lparr>le_env = sample_env, le_delete_ok = (\<lambda>_. True), le_sha256 = (\<lambda>t. t), le_link_code = ''code'',
      le_bot_username = None, le_return_url = None, le_link_ttl = 600\<rparr>"

lemma sample_shelf: "shelf_of sample_library =
   \<lparr>sh_likes = [(7, 1), (8, 0), (9, 0)], sh_saves = [(20, 7)], sh_collections = [(20, 1, FAVORITES)],
    sh_members = [owner_row 20 1], sh_invites = []\<rparr>"
  by (simp add: shelf_of_def sample_library_def sample_meme_def sample_favorites_def empty_db_def)

lemma sample_shelf_ok: "shelf_ok (shelf_of sample_library)"
  by (simp add: sample_shelf shelf_ok_def likes_ok_def members_ok_def invites_ok_def favorites_count_def is_favorites_def
      favorites_owners_def owner_row_def)

lemma sample_fresh_library_ids: "fresh_library_ids sample_library_env sample_library"
  by (simp add: fresh_library_ids_def sample_library_env_def sample_env_def sample_library_def sample_favorites_def)

section \<open>Runs of calls\<close>

lemma filter_single:
  assumes "distinct xs" "x \<in> set xs" "P x" "\<And>y. y \<in> set xs \<Longrightarrow> P y \<Longrightarrow> y = x"
  shows "filter P xs = [x]"
proof -
  obtain ys zs where xs: "xs = ys @ x # zs" using assms(2) by (meson split_list)
  have "filter P ys = []" using assms(1,4) unfolding xs filter_empty_conv by fastforce
  moreover have "filter P zs = []" using assms(1,4) unfolding xs filter_empty_conv by fastforce
  ultimately show ?thesis using assms(3) by (simp add: xs)
qed

text \<open>Calls follow one another, each with fresh ids, whatever they answer.\<close>

inductive library_run_step :: "library \<Rightarrow> library \<Rightarrow> bool" where
  "fresh_library_ids le s \<Longrightarrow> library_run_step s (snd (run_call le call s))"

lemma library_runs_ok:
  assumes "library_run_step\<^sup>*\<^sup>* s s'" "shelf_ok (shelf_of s)"
  shows "shelf_ok (shelf_of s')"
  using assms
proof (induction rule: rtranclp_induct)
  case (step t u)
  then show ?case by (auto elim!: library_run_step.cases intro: shelf_reach_ok run_call_reach)
qed

text \<open>
  C32. Along any run of calls the like count of every meme is the number of Favorites collections that hold it, no save
  is doubled, and every save is of an existing meme in an existing collection.
\<close>

theorem like_counts_follow_favorites:
  assumes "library_run_step\<^sup>*\<^sup>* s s'" "shelf_ok (shelf_of s)"
  shows "list_all (\<lambda>r. me_like_count r = int (favorites_count (shelf_of s') (me_id r))) (db_memes (lb_db s')) \<and>
    distinct (db_collection_memes (lb_db s')) \<and>
    set (db_collection_memes (lb_db s')) \<subseteq> set (map co_id (lb_collections s')) \<times> set (map me_id (db_memes (lb_db s')))"
proof -
  have ok: "likes_ok (shelf_of s')" using library_runs_ok [OF assms] by (simp add: shelf_ok_def)
  have "list_all (\<lambda>r. me_like_count r = int (favorites_count (shelf_of s') (me_id r))) (db_memes (lb_db s'))"
    using likes_okD(5) [OF ok] by (auto simp: list_all_iff)
  moreover have "set (db_collection_memes (lb_db s')) \<subseteq> set (map co_id (lb_collections s')) \<times> set (map me_id (db_memes (lb_db s')))"
    using likes_okD(4) [OF ok] by (force simp: image_iff)
  ultimately show ?thesis using likes_okD(2) [OF ok] by simp
qed

lemma sample_run: "library_run_step\<^sup>*\<^sup>* sample_library (snd (run_call sample_library_env (Favorite 1 8) sample_library))"
  by (intro r_into_rtranclp library_run_step.intros sample_fresh_library_ids)

theorem like_counts_follow_favorites_witness:
  "distinct (db_collection_memes (lb_db (snd (run_call sample_library_env (Favorite 1 8) sample_library)))) \<and>
     db_collection_memes (lb_db (snd (run_call sample_library_env (Favorite 1 8) sample_library))) = [(20, 7), (20, 8)]"
proof
  show "distinct (db_collection_memes (lb_db (snd (run_call sample_library_env (Favorite 1 8) sample_library))))"
    using like_counts_follow_favorites [OF sample_run sample_shelf_ok] by blast
qed code_simp

text \<open>
  Along any run of calls, one after another, a user has at most one Favorites collection, and every collection has
  its owner as its one member with the owner role.
\<close>

theorem collections_keep_one_owner:
  assumes "library_run_step\<^sup>*\<^sup>* s s'" "shelf_ok (shelf_of s)"
  shows "distinct (map co_owner (filter (\<lambda>c. co_kind c = FAVORITES) (lb_collections s'))) \<and>
    list_all (\<lambda>c. filter (\<lambda>r. cm_collection r = co_id c \<and> cm_role r = OWNER) (lb_members s') =
        [\<lparr>cm_collection = co_id c, cm_user = co_owner c, cm_role = OWNER\<rparr>]) (lb_collections s')"
proof -
  let ?h = "shelf_of s'"
  have ok: "likes_ok ?h" "members_ok ?h" using library_runs_ok [OF assms] by (simp_all add: shelf_ok_def)
  have "filter (\<lambda>r. cm_collection r = co_id c \<and> cm_role r = OWNER) (lb_members s') =
      [\<lparr>cm_collection = co_id c, cm_user = co_owner c, cm_role = OWNER\<rparr>]" if "c \<in> set (lb_collections s')" for c
  proof (rule filter_single)
    show "distinct (lb_members s')" using ok(2) by (auto simp: members_ok_def distinct_map)
    show "\<lparr>cm_collection = co_id c, cm_user = co_owner c, cm_role = OWNER\<rparr> \<in> set (lb_members s')"
      using ok(2) that by (auto simp: members_ok_def owner_row_def)
    fix r assume r: "r \<in> set (lb_members s')" "cm_collection r = co_id c \<and> cm_role r = OWNER"
    have "\<exists>owner kind. (cm_collection r, owner, kind) \<in> set (sh_collections ?h) \<and> (cm_role r = OWNER \<longleftrightarrow> cm_user r = owner)"
      using ok(2) r(1) by (simp only: members_ok_def shelf_of_simps)
    with r(2) obtain kind where "(co_id c, cm_user r, kind) \<in> set (sh_collections ?h)" by auto
    moreover have "(co_id c, co_owner c, co_kind c) \<in> set (sh_collections ?h)" using that by auto
    ultimately have "(cm_user r, kind) = (co_owner c, co_kind c)"
      by (rule eq_key_imp_eq_value [OF likes_okD(3) [OF ok(1)]])
    then show "r = \<lparr>cm_collection = co_id c, cm_user = co_owner c, cm_role = OWNER\<rparr>" using r(2) by (cases r) simp
  qed simp
  moreover have "distinct (map co_owner (filter (\<lambda>c. co_kind c = FAVORITES) (lb_collections s')))"
    using ok(2) by (simp add: members_ok_def favorites_owners_def filter_map comp_def)
  ultimately show ?thesis by (simp add: list_all_iff)
qed

theorem collections_keep_one_owner_witness:
  "distinct (map co_owner (filter (\<lambda>c. co_kind c = FAVORITES)
     (lb_collections (snd (run_call sample_library_env (Favorite 1 8) sample_library)))))"
  using collections_keep_one_owner [OF sample_run sample_shelf_ok] by blast

section \<open>Who changes the saves of a collection\<close>

definition saves_in :: "library \<Rightarrow> uuid \<Rightarrow> uuid list" where
  "saves_in s c = map snd (filter (\<lambda>(k, m). k = c) (db_collection_memes (lb_db s)))"

fun save_actor :: "library_call \<Rightarrow> uuid option" where
  "save_actor (SaveTo u c m) = Some u"
| "save_actor (RemoveFrom u c m) = Some u"
| "save_actor (Favorite u m) = Some u"
| "save_actor (Unfavorite u m) = Some u"
| "save_actor (SaveActive u m) = Some u"
| "save_actor (RemoveActive u m) = Some u"
| "save_actor (DeleteCustom u c) = Some u"
| "save_actor _ = None"

text \<open>\<open>u\<close> may write \<open>c\<close>: its owner or an editor, and in Favorites when a guest.\<close>

definition may_write :: "library \<Rightarrow> uuid \<Rightarrow> uuid \<Rightarrow> bool" where
  "may_write s u c \<longleftrightarrow>
     (case get_collection s c of
        None \<Rightarrow> True
      | Some col \<Rightarrow>
          user_can_write_collection s u col \<and>
          (case get_user s u of None \<Rightarrow> True | Some user \<Rightarrow> us_type user = GUEST \<longrightarrow> co_kind col = FAVORITES))"

definition saves_kept :: "library \<Rightarrow> uuid \<Rightarrow> library \<Rightarrow> bool" where
  "saves_kept s c s' \<longleftrightarrow> saves_in s' c = saves_in s c"

lemma saves_kept_refl [simp, intro]: "saves_kept s c s"
  by (simp add: saves_kept_def)

lemma saves_kept_trans: "saves_kept s c t \<Longrightarrow> saves_kept t c u \<Longrightarrow> saves_kept s c u"
  by (simp add: saves_kept_def)

lemma kept_check: "(\<And>x. r = Inr x \<Longrightarrow> saves_kept s c (snd (k x))) \<Longrightarrow> saves_kept s c (snd (check s r k))"
  by (cases r) simp_all

lemma kept_commit: "saves_kept s c s' \<Longrightarrow> saves_kept s c (snd (commit_library le s f v s'))"
  using commit_library_snd [of le s f v s'] by auto

lemma kept_commit_objects:
  assumes "saves_kept s c s'"
  shows "saves_kept s c (snd (case commit_library le s f v s' of
      (Inl e, t) \<Rightarrow> (Inl e, t) | (Inr b, t) \<Rightarrow> (Inr b, delete_storage_objects_after_commit le keys t)))"
proof (cases "commit_library le s f v s'")
  case (Pair r t)
  then have "saves_kept s c t" using kept_commit [OF assms, of le f v] by simp
  with Pair show ?thesis by (cases r) (simp_all add: saves_kept_def saves_in_def delete_storage_objects_after_commit_def)
qed

lemma saves_kept_same: "db_collection_memes (lb_db s') = db_collection_memes (lb_db s) \<Longrightarrow> saves_kept s c s'"
  by (simp add: saves_kept_def saves_in_def)

lemma saves_unchanged [simp]:
  "lb_db (put_user env r s) = lb_db s"
  "lb_db (put_collection env col s) = lb_db s"
  "lb_db (put_member mr s) = lb_db s"
  "lb_db (put_invite i s) = lb_db s"
  "lb_db (map_interests f s) = lb_db s"
  "lb_db (project_change env u m b s) = lb_db s"
  "lb_db (project_collection_meme_removal env u p m s) = lb_db s"
  "lb_db (clear_active_save env P c s) = lb_db s"
  "db_collection_memes (lb_db (add_pin env q s)) = db_collection_memes (lb_db s)"
  "db_collection_memes (lb_db (replace_pins u ms s)) = db_collection_memes (lb_db s)"
  by (simp_all add: put_user_def put_collection_def put_member_def put_invite_def map_interests_def project_change_def
      project_collection_meme_removal_def clear_active_save_def add_pin_def replace_pins_def map_lb_db_def Let_def)

lemma kept_saved_into: "co_id col \<noteq> c \<Longrightarrow> saves_kept s c (snd (saved_into env u col m s))"
  by (auto simp: saved_into_def insert_collection_meme_def increment_like_count_def Let_def map_lb_db_def update_likes_shelf
      saves_kept_def saves_in_def)

lemma retire_meme_saves:
  "retire_meme env m s = Inr (keys, s') \<Longrightarrow>
     db_collection_memes (lb_db s') = filter (\<lambda>(c, k). k \<noteq> m) (db_collection_memes (lb_db s))"
  by (auto simp: retire_meme_def prepare_media_generation_cleanup_def Let_def split: sum.splits)

lemma kept_orphan:
  assumes "delete_orphan_private_meme_if_unreferenced env m s = Inr (keys, s')"
  shows "saves_kept s c s'"
proof (cases "meme_has_collection_references s m")
  case True
  with assms have "s' = s"
    by (auto simp: delete_orphan_private_meme_if_unreferenced_def split: option.splits)
  then show ?thesis by simp
next
  case False
  then have "filter (\<lambda>(c, k). k \<noteq> m) (db_collection_memes (lb_db s)) = db_collection_memes (lb_db s)"
    by (auto simp: meme_has_collection_references_def list_ex_iff intro!: filter_True)
  with assms show ?thesis
    by (auto simp: delete_orphan_private_meme_if_unreferenced_def split: option.splits if_splits
        simp: saves_kept_def saves_in_def retire_meme_saves)
qed

lemma kept_retire_orphans:
  "retire_orphans env c ms keys s = Inr (keys', s') \<Longrightarrow> k \<noteq> c \<Longrightarrow> saves_kept s k s'"
proof (induction env c ms keys s rule: retire_orphans.induct)
  case (2 env c m ms keys s)
  show ?case
  proof (cases "meme_has_other_collection_references s m c")
    case True
    with 2 show ?thesis by simp
  next
    case False
    with 2(3) obtain extra s1 where s1: "retire_meme env m s = Inr (extra, s1)"
      and rest: "retire_orphans env c ms (keys @ extra) s1 = Inr (keys', s')"
      by (auto split: sum.splits)
    have "saves_kept s1 k s'" using 2(2) [OF False s1 refl rest] 2(4) by simp
    moreover have "saves_kept s k s1"
      unfolding saves_kept_def saves_in_def retire_meme_saves [OF s1] filter_filter
      using False 2(4)
      by (intro arg_cong [where f = "map snd"] filter_cong)
        (auto simp: meme_has_other_collection_references_def list_ex_iff)
    ultimately show ?thesis by (blast intro: saves_kept_trans)
  qed
qed simp

lemma kept_remove_from:
  assumes "co_id col \<noteq> c"
  shows "saves_kept s c (snd (remove_from le u col m failure s))"
proof (cases "delete_collection_meme (co_id col) m s")
  case (Pair added s1)
  show ?thesis
  proof (cases added)
    case None
    with Pair show ?thesis by (simp add: remove_from_def)
  next
    case (Some a)
    let ?s2 = "if co_kind col = FAVORITES then decrement_like_count m s1 else s1"
    let ?s3 = "project_collection_meme_removal (le_env le) u (case a of Some a \<Rightarrow> a | None \<Rightarrow> co_owner col) m ?s2"
    have "filter (\<lambda>(k, m). k = c) (filter (\<lambda>x. x \<noteq> (co_id col, m)) xs) = filter (\<lambda>(k, m). k = c) xs" for xs
      using assms unfolding filter_filter by (intro filter_cong) auto
    then have "saves_kept s c s1"
      using Pair Some by (auto simp: delete_collection_meme_def map_lb_db_def saves_kept_def saves_in_def split: if_splits)
    then have r3: "saves_kept s c ?s3"
      by (simp add: saves_kept_def saves_in_def decrement_like_count_def update_likes_shelf)
    have "saves_kept s c (snd (check s (delete_orphan_private_meme_if_unreferenced (le_env le) m ?s3) (\<lambda>(keys, s4).
        case commit_library le s (\<lambda>_. CollectionServiceFailure failure) True s4 of
          (Inl e, t) \<Rightarrow> (Inl e, t) | (Inr b, t) \<Rightarrow> (Inr b, delete_storage_objects_after_commit le keys t))))"
    proof (rule kept_check)
      fix x assume x: "delete_orphan_private_meme_if_unreferenced (le_env le) m ?s3 = Inr x"
      obtain keys s4 where kx: "x = (keys, s4)" by (cases x)
      with x r3 have "saves_kept s c s4" by (blast intro: saves_kept_trans kept_orphan)
      then show "saves_kept s c (snd (case x of (keys, s4) \<Rightarrow>
          case commit_library le s (\<lambda>_. CollectionServiceFailure failure) True s4 of
            (Inl e, t) \<Rightarrow> (Inl e, t) | (Inr b, t) \<Rightarrow> (Inr b, delete_storage_objects_after_commit le keys t)))"
        unfolding kx by (simp only: prod.case kept_commit_objects)
    qed
    then show ?thesis
      using Pair Some unfolding remove_from_def by (simp only: Let_def prod.case option.case)
  qed
qed

lemma get_user_id: "get_user s u = Some user \<Longrightarrow> us_id user = u"
  unfolding get_user_def by (rule row_get_key)

lemma may_writeI:
  "get_collection s c = Some col \<Longrightarrow> get_user s u = Some user \<Longrightarrow> ensure_can_write_collection s user col = Inr () \<Longrightarrow>
     may_write s u c"
  by (auto simp: may_write_def ensure_can_write_collection_def dest: get_user_id split: if_splits)

lemma read_may_write:
  assumes "get_collection_for_read s c u = Inr (user, col)"
  shows "ensure_can_write_collection s user col = Inr () \<Longrightarrow> may_write s u c"
    and "ensure_owner_can_manage_custom_collection user col = Inr () \<Longrightarrow> may_write s u c"
proof -
  from assms have rows: "get_collection s c = Some col" "get_user s u = Some user"
    and guest: "us_type user = GUEST \<longrightarrow> co_kind col = FAVORITES"
    by (auto simp: get_collection_for_read_def split: option.splits if_splits)
  show "ensure_can_write_collection s user col = Inr () \<Longrightarrow> may_write s u c"
    using rows by (rule may_writeI)
  show "ensure_owner_can_manage_custom_collection user col = Inr () \<Longrightarrow> may_write s u c"
    using rows guest get_user_id [OF rows(2)]
    by (auto simp: may_write_def user_can_write_collection_def ensure_owner_can_manage_custom_collection_def split: if_splits)
qed

lemma owned_favorites_may_write:
  assumes "shelf_ok (shelf_of s)" "favorites_of s u = Some col"
  shows "may_write s u (co_id col)"
proof -
  have "distinct (map co_id (lb_collections s))"
    using assms(1) by (simp add: shelf_ok_def likes_ok_def comp_def)
  then have "get_collection s (co_id col) = Some col"
    using favorites_of_mem [OF assms(2)] by (simp add: get_collection_def row_get_iff_mem)
  with favorites_of_mem [OF assms(2)] show ?thesis
    by (auto simp: may_write_def user_can_write_collection_def split: option.splits)
qed

lemma ensured_favorites_may_write:
  assumes "ensured_favorites le u s = Inr (col, s')" "shelf_ok (shelf_of s)" "fresh_library_ids le s"
  shows "may_write s u (co_id col)"
proof (cases "favorites_of s u")
  case (Some c)
  with assms(1) have "col = c" by (auto simp: ensured_favorites_def split: option.splits)
  with owned_favorites_may_write [OF assms(2) Some] show ?thesis by simp
next
  case None
  with assms(1) have "co_id col = env_fresh (le_env le) 0"
    by (auto simp: ensured_favorites_def new_favorites_def Let_def split: option.splits sum.splits)
  with assms(3) have "get_collection s (co_id col) = None"
    by (auto simp: get_collection_def row_get_None_iff fresh_library_ids_def)
  then show ?thesis by (simp add: may_write_def)
qed

lemma kept_saved_into_after:
  assumes "lb_db s1 = lb_db s" "co_id col \<noteq> c"
  shows "saves_kept s c (snd (saved_into env u col m s1))"
  using kept_saved_into [OF assms(2), of s1 env u m] assms(1) by (simp add: saves_kept_def saves_in_def)

lemma kept_saving:
  assumes "shelf_ok (shelf_of s)" "fresh_library_ids le s" "\<not> may_write s u c"
  shows "saves_kept s c (snd (save_meme_to_collection_result le k u m s))"
    and "saves_kept s c (snd (favorite_meme_result le u m s))"
    and "saves_kept s c (snd (save_meme_to_active_collection_result le u m s))"
proof -
  have "co_id col \<noteq> c" if "get_collection_for_read s k u = Inr (user, col)" "ensure_can_write_collection s user col = Inr ()" for user col
    using read_may_write(1) [OF that] read_collection_mem [OF that(1)] assms(3) by auto
  then show "saves_kept s c (snd (save_meme_to_collection_result le k u m s))"
    unfolding save_meme_to_collection_result_def
    by (auto simp: Let_def case_prod_beta' intro!: kept_check kept_commit kept_saved_into)
  have fav: "co_id col \<noteq> c \<and> lb_db s1 = lb_db s" if "ensured_favorites le u s = Inr (col, s1)" for col s1
    using ensured_favorites_may_write [OF that assms(1,2)] ensured_favorites_reach(3) [OF that assms(2)] assms(3) by auto
  then show "saves_kept s c (snd (favorite_meme_result le u m s))"
    unfolding favorite_meme_result_def
    by (auto simp: Let_def case_prod_beta' intro!: kept_check kept_commit kept_saved_into_after)
  have "co_id col \<noteq> c \<and> lb_db s1 = lb_db s" if "get_active_collection_for_write le u s = Inr (user, col, s1)" for user col s1
  proof (cases "us_active_save user")
    case None
    with that have "ensured_favorites le u s = Inr (col, s1)"
      by (auto simp: get_active_collection_for_write_def split: option.splits sum.splits)
    then show ?thesis by (rule fav)
  next
    case (Some k)
    with that have "get_collection s k = Some col" "s1 = s" "get_user s u = Some user" "ensure_can_write_collection s user col = Inr ()"
      by (auto simp: get_active_collection_for_write_def split: option.splits sum.splits)
    then show ?thesis using may_writeI [of s k col u user] get_collection_mem [of s k col] assms(3) by auto
  qed
  then show "saves_kept s c (snd (save_meme_to_active_collection_result le u m s))"
    unfolding save_meme_to_active_collection_result_def
    by (auto simp: Let_def case_prod_beta' intro!: kept_check kept_commit kept_saved_into_after)
qed

lemma kept_removals:
  assumes "shelf_ok (shelf_of s)" "\<not> may_write s u c"
  shows "saves_kept s c (snd (remove_meme_from_collection le k u m s))"
    and "saves_kept s c (snd (unfavorite_meme le u m s))"
    and "saves_kept s c (snd (remove_meme_from_active_collection le u m s))"
proof -
  have "co_id col \<noteq> c" if "get_collection_for_read s k u = Inr (user, col)" "ensure_can_write_collection s user col = Inr ()" for user col
    using read_may_write(1) [OF that] read_collection_mem [OF that(1)] assms(2) by auto
  then show "saves_kept s c (snd (remove_meme_from_collection le k u m s))"
    unfolding remove_meme_from_collection_def by (auto intro!: kept_check kept_remove_from)
  have "co_id col \<noteq> c" if "favorites_of s u = Some col" for col
    using owned_favorites_may_write [OF assms(1) that] assms(2) by auto
  then show "saves_kept s c (snd (unfavorite_meme le u m s))"
    unfolding unfavorite_meme_def by (auto split: option.splits intro!: kept_remove_from)
  have "co_id col \<noteq> c" if "load_user s u = Inr user" "load_collection s k = Inr col" "ensure_can_write_collection s user col = Inr ()"
    for user col k
    using that may_writeI [of s k col u user] load_collection_mem [OF that(2)] assms(2)
    by (auto simp: load_user_def load_collection_def)
  then show "saves_kept s c (snd (remove_meme_from_active_collection le u m s))"
    unfolding remove_meme_from_active_collection_def
    by (auto split: option.splits intro!: kept_check kept_remove_from) blast
qed

lemma kept_delete_custom:
  assumes "\<not> may_write s u c"
  shows "saves_kept s c (snd (delete_custom_collection le k u s))"
proof -
  have "saves_kept s c (map_interests f (delete_collection_row k (clear_active_save env P k s1)))"
    if "delete_private_memes_orphaned_by_collection_delete env k s = Inr (keys, s1)" "k \<noteq> c" for f env P s1 keys k
  proof -
    have "saves_kept s c s1"
      using that by (auto simp: delete_private_memes_orphaned_by_collection_delete_def intro: kept_retire_orphans)
    moreover have "filter (\<lambda>(x, m). x = c) (filter (\<lambda>(x, m). x \<noteq> k) xs) = filter (\<lambda>(x, m). x = c) xs" for xs :: "(uuid \<times> uuid) list"
      using that(2) unfolding filter_filter by (intro filter_cong) auto
    ultimately show ?thesis by (simp add: saves_kept_def saves_in_def delete_collection_row_def map_lb_db_def)
  qed
  moreover have "co_id col \<noteq> c"
    if "get_collection_for_read s k u = Inr (user, col)" "ensure_owner_can_manage_custom_collection user col = Inr ()" for user col
    using read_may_write(2) [OF that] read_collection_mem [OF that(1)] assms by auto
  ultimately show ?thesis
    unfolding delete_custom_collection_def
    by (auto simp: Let_def intro!: kept_check kept_commit_objects)
qed

lemma kept_members:
  "saves_kept s c (snd (ensure_member le k u role s))"
  "saves_kept s c (snd (update_member_role le k a u role s))"
  "saves_kept s c (snd (remove_member le k a u s))"
  "saves_kept s c (snd (create_invite le k rq s))"
  "saves_kept s c (snd (revoke_invite le k i u s))"
  "saves_kept s c (snd (update_active_save_collection le u k s))"
  unfolding ensure_member_def update_member_role_def remove_member_def create_invite_def revoke_invite_def
    update_active_save_collection_def Let_def
  by (auto split: option.splits intro!: kept_check kept_commit intro: saves_kept_same)

lemma kept_pins:
  "saves_kept s c (snd (pin_meme_result le u m s))"
  "saves_kept s c (snd (unpin_meme le u m s))"
  "saves_kept s c (snd (reorder_pins le u ms s))"
  unfolding pin_meme_result_def unpin_meme_def reorder_pins_def Let_def
  by (auto intro!: kept_check kept_commit intro: saves_kept_same)

lemma kept_persist: "saves_kept s c (snd (persist_terminal_invite_statuses le P s))"
  by (auto simp: persist_terminal_invite_statuses_def Let_def intro!: kept_commit intro: saves_kept_same)

lemma kept_join: "saves_kept s c (snd (join_invite le token u s))"
  unfolding join_invite_def
proof (intro kept_check)
  fix user x and i :: invite
  let ?P = "\<lambda>x. ci_id x = ci_id i"
  obtain r s1 where r: "persist_terminal_invite_statuses le ?P s = (r, s1)" by fastforce
  with kept_persist [of s c le ?P] have s1: "saves_kept s c s1" by simp
  have "saves_kept s1 c (snd (check s1 (ensure_invite_can_be_used (env_now (le_env le)) i) (\<lambda>_.
           check s1 (load_collection s1 (ci_collection i)) (\<lambda>col.
           check s1 (require (InvalidCollectionInvite ''Favorites collections cannot be joined by invite.'')
                       (co_kind col \<noteq> FAVORITES)) (\<lambda>_.
             let s2 = (if membership_role_for_user s1 u col = None
                       then put_invite (used_invite (env_now (le_env le)) i)
                              (put_member \<lparr>cm_collection = co_id col, cm_user = u, cm_role = ci_role i\<rparr> s1)
                       else s1)
             in commit_library le s1 (\<lambda>_. CollectionServiceFailure ''Failed to join the collection invite.'') col s2)))))"
    by (auto simp: Let_def intro!: kept_check kept_commit intro: saves_kept_same)
  with s1 r show "saves_kept s c (snd (case persist_terminal_invite_statuses le ?P s of
         (Inl e, s1) \<Rightarrow> (Inl e, s1)
       | (Inr True, s1) \<Rightarrow> (Inl (InvalidCollectionInvite ''Invite link is invalid or expired.''), s1)
       | (Inr False, s1) \<Rightarrow>
           check s1 (ensure_invite_can_be_used (env_now (le_env le)) i) (\<lambda>_.
           check s1 (load_collection s1 (ci_collection i)) (\<lambda>col.
           check s1 (require (InvalidCollectionInvite ''Favorites collections cannot be joined by invite.'')
                       (co_kind col \<noteq> FAVORITES)) (\<lambda>_.
             let s2 = (if membership_role_for_user s1 u col = None
                       then put_invite (used_invite (env_now (le_env le)) i)
                              (put_member \<lparr>cm_collection = co_id col, cm_user = u, cm_role = ci_role i\<rparr> s1)
                       else s1)
             in commit_library le s1 (\<lambda>_. CollectionServiceFailure ''Failed to join the collection invite.'') col s2)))))"
    by (cases r rule: sum.exhaust) (auto split: bool.splits intro: saves_kept_trans)
qed

lemma kept_collections:
  assumes "fresh_library_ids le s"
  shows "saves_kept s c (snd (ensure_favorites_collection le u s))"
    and "saves_kept s c (snd (create_custom_collection le u t d v s))"
    and "saves_kept s c (snd (update_custom_collection le k u t d v s))"
proof -
  show "saves_kept s c (snd (ensure_favorites_collection le u s))"
    unfolding ensure_favorites_collection_def
    by (auto split: sum.splits intro!: kept_commit intro: saves_kept_same simp: ensured_favorites_reach(3) [OF _ assms])
  show "saves_kept s c (snd (create_custom_collection le u t d v s))"
    unfolding create_custom_collection_def Let_def
    by (auto simp: flush_library_Inr intro!: kept_check kept_commit intro: saves_kept_same)
  show "saves_kept s c (snd (update_custom_collection le k u t d v s))"
    unfolding update_custom_collection_def Let_def
    by (auto intro!: kept_check kept_commit intro: saves_kept_same)
qed

lemma kept_get_collection: "saves_kept s c (snd (get_collection_for_user le k u s))"
  unfolding get_collection_for_user_def
proof (rule kept_check)
  fix x :: "app_user \<times> collection"
  obtain r s1 where r: "persist_terminal_invite_statuses le (\<lambda>i. ci_collection i = co_id (snd x)) s = (r, s1)" by fastforce
  with kept_persist [of s c le "\<lambda>i. ci_collection i = co_id (snd x)"] have "saves_kept s c s1" by simp
  with r show "saves_kept s c (snd (case x of (user, col) \<Rightarrow>
      case persist_terminal_invite_statuses le (\<lambda>i. ci_collection i = co_id col) s of
         (Inl e, s1) \<Rightarrow> (Inl e, s1) | (Inr _, s1) \<Rightarrow> (Inr col, s1)))"
    by (cases x) (auto split: sum.splits)
qed

lemma kept_list_collections:
  assumes "fresh_library_ids le s"
  shows "saves_kept s c (snd (list_collections_for_user le u s))"
  unfolding list_collections_for_user_def
proof (rule kept_check)
  fix user
  obtain r1 s1 where r1: "ensure_favorites_collection le u s = (r1, s1)" by fastforce
  with kept_collections(1) [OF assms, of c u] have s1: "saves_kept s c s1" by simp
  let ?P = "\<lambda>i. list_ex (\<lambda>c. co_id c = ci_collection i) (collections_for s1 u)"
  obtain r2 s2 where r2: "persist_terminal_invite_statuses le ?P s1 = (r2, s2)" by fastforce
  with kept_persist [of s1 c le ?P] have "saves_kept s1 c s2" by simp
  with s1 r1 r2 show "saves_kept s c (snd (case ensure_favorites_collection le u s of
         (Inl e, s1) \<Rightarrow> (Inl e, s1)
       | (Inr _, s1) \<Rightarrow>
           (case persist_terminal_invite_statuses le
                   (\<lambda>i. list_ex (\<lambda>c. co_id c = ci_collection i) (collections_for s1 u)) s1 of
              (Inl e, s2) \<Rightarrow> (Inl e, s2)
            | (Inr _, s2) \<Rightarrow> (Inr (collections_for s2 u), s2))))"
    by (auto split: sum.splits intro: saves_kept_trans)
qed

lemmas kept_calls =
  kept_collections kept_list_collections kept_get_collection kept_saving kept_removals kept_delete_custom kept_pins
  kept_members kept_join

text \<open>
  C33. The saves of a collection change only by a call of an actor who may write it: its owner or an editor, who is no
  guest unless the collection is a Favorites.
\<close>

theorem only_writers_change_saves:
  assumes "shelf_ok (shelf_of s)" "fresh_library_ids le s"
    and "get_collection s c = Some col" "saves_in (snd (run_call le call s)) c \<noteq> saves_in s c"
  shows "\<exists>u. save_actor call = Some u \<and> user_can_write_collection s u col \<and>
    \<not> (\<exists>user. get_user s u = Some user \<and> us_type user = GUEST \<and> co_kind col \<noteq> FAVORITES)"
proof -
  have "saves_kept s c (snd (run_call le call s))" if "\<not> (\<exists>u. save_actor call = Some u \<and> may_write s u c)"
    using that by (cases call) (simp_all add: assms(1,2) kept_calls)
  with assms(4) obtain u where "save_actor call = Some u" "may_write s u c" unfolding saves_kept_def by blast
  with assms(3) show ?thesis by (auto simp: may_write_def split: option.splits)
qed

theorem only_writers_change_saves_witness:
  "\<exists>u. save_actor (Favorite 1 8) = Some u \<and> user_can_write_collection sample_library u sample_favorites"
proof -
  have "get_collection sample_library 20 = Some sample_favorites"
    by (simp add: get_collection_def sample_library_def sample_favorites_def)
  moreover have "saves_in (snd (run_call sample_library_env (Favorite 1 8) sample_library)) 20 = [7, 8]"
    "saves_in sample_library 20 = [7]" by code_simp+
  ultimately show ?thesis
    using only_writers_change_saves [OF sample_shelf_ok sample_fresh_library_ids, of 20 sample_favorites "Favorite 1 8"] by auto
qed

end
