(* ===== verification/Collection_Pins.thy ===== *)
theory Collection_Pins
  imports Collection_Properties "HOL-Library.Multiset"
begin

text \<open>
  The pins of a user are numbered from one without gaps by the calls that pin, unpin and reorder; a private meme that
  goes with its last save leaves a gap behind, and then no meme can be pinned. A favorite that is taken back restores
  the database.
\<close>

section \<open>Numbered pins\<close>

definition pins_dense :: "library \<Rightarrow> uuid \<Rightarrow> bool" where
  "pins_dense s u \<longleftrightarrow>
     (let ps = pins_of (lb_db s) u
      in sort (map pn_position ps) = map (\<lambda>n. int n + 1) [0..<length ps] \<and> length ps \<le> MAX_PINNED_MEMES \<and>
         distinct (map pn_meme ps))"

lemma pins_of_add_pin:
  "pins_of (lb_db (add_pin env p s)) u = pins_of (lb_db s) u @ (if pn_user p = u then [p] else [])"
  by (simp add: add_pin_def map_lb_db_def pins_of_def)

lemma renumbered_user [simp]: "p \<in> set (renumbered u ms) \<Longrightarrow> pn_user p = u"
  by (auto simp: renumbered_def)

lemma pins_of_replace_pins:
  "pins_of (lb_db (replace_pins u ms s)) v = (if v = u then renumbered u ms else pins_of (lb_db s) v)"
  by (auto simp: replace_pins_def map_lb_db_def pins_of_def filter_empty_conv
      intro!: filter_True filter_cong dest: renumbered_user)

lemma renumbered_columns:
  "map pn_position (renumbered u ms) = map (\<lambda>n. int n + 1) [0..<length ms]"
  "map pn_meme (renumbered u ms) = ms"
  "length (renumbered u ms) = length ms"
  by (auto simp: renumbered_def case_prod_beta' nth_enumerate_eq intro!: nth_equalityI)

lemma sorted_numbers: "sorted (map (\<lambda>n. int n + 1) [0..<k])"
  by (simp add: sorted_wrt_map sorted_wrt_iff_nth_less)

lemma pins_dense_replaced:
  assumes "distinct ms" "length ms \<le> MAX_PINNED_MEMES" "v \<noteq> u \<Longrightarrow> pins_dense s v"
  shows "pins_dense (replace_pins u ms s) v"
  using assms sorted_numbers [of "length ms"]
  by (simp add: pins_dense_def pins_of_replace_pins renumbered_columns sorted_sort_id Let_def)

lemma pins_dense_added:
  assumes "pins_dense s v" "length (pins_of (lb_db s) u) < MAX_PINNED_MEMES" "\<not> list_ex (\<lambda>p. pn_meme p = m) (pins_of (lb_db s) u)"
  shows "pins_dense (add_pin env \<lparr>pn_user = u, pn_meme = m, pn_position = int (length (pins_of (lb_db s) u)) + 1\<rparr> s) v"
proof (cases "v = u")
  case True
  let ?ps = "pins_of (lb_db s) u" and ?p = "\<lparr>pn_user = u, pn_meme = m, pn_position = int (length (pins_of (lb_db s) u)) + 1\<rparr>"
  have "mset (sort (map pn_position ?ps)) = mset (map (\<lambda>n. int n + 1) [0..<length ?ps])"
    using assms(1) True unfolding pins_dense_def Let_def by (elim conjE) (simp only:)
  then have "mset (map (\<lambda>n. int n + 1) [0..<length ?ps]) = mset (map pn_position ?ps)" by simp
  then have "sort (map pn_position (?ps @ [?p])) = map (\<lambda>n. int n + 1) [0..<length (?ps @ [?p])]"
    by (intro properties_for_sort sorted_numbers) simp
  moreover have "distinct (map pn_meme (?ps @ [?p]))"
    using assms(1,3) True by (auto simp: pins_dense_def Let_def list_ex_iff)
  ultimately show ?thesis
    using assms(2) True by (simp add: pins_dense_def pins_of_add_pin Let_def)
next
  case False
  with assms(1) show ?thesis by (simp add: pins_dense_def pins_of_add_pin Let_def)
qed

lemma pins_dense_same: "lb_db s' = lb_db s \<Longrightarrow> pins_dense s' v = pins_dense s v"
  by (simp add: pins_dense_def)

lemma dense_check: "(\<And>x. r = Inr x \<Longrightarrow> pins_dense (snd (k x)) v) \<Longrightarrow> pins_dense s v \<Longrightarrow> pins_dense (snd (check s r k)) v"
  by (cases r) simp_all

lemma dense_commit: "pins_dense s v \<Longrightarrow> pins_dense s' v \<Longrightarrow> pins_dense (snd (commit_library le s f x s')) v"
  using commit_library_snd [of le s f x s'] by auto

lemma pins_dense_unpin:
  assumes "pins_dense s u" "v \<noteq> u \<Longrightarrow> pins_dense s v"
  shows "pins_dense (replace_pins u (filter (\<lambda>k. k \<noteq> m) (pinned_in_order s u)) s) v"
proof (rule pins_dense_replaced)
  have "length (pinned_in_order s u) = length (pins_of (lb_db s) u)" by (simp add: pinned_in_order_def)
  moreover have "mset (pinned_in_order s u) = mset (map pn_meme (pins_of (lb_db s) u))"
    by (simp add: pinned_in_order_def)
  then have "distinct (pinned_in_order s u) = distinct (map pn_meme (pins_of (lb_db s) u))"
    by (rule mset_eq_imp_distinct_iff)
  ultimately have "distinct (pinned_in_order s u)" "length (pinned_in_order s u) \<le> MAX_PINNED_MEMES"
    using assms(1) by (simp_all add: pins_dense_def Let_def)
  then show "distinct (filter (\<lambda>k. k \<noteq> m) (pinned_in_order s u))"
    "length (filter (\<lambda>k. k \<noteq> m) (pinned_in_order s u)) \<le> MAX_PINNED_MEMES"
    by (auto intro: le_trans [OF length_filter_le])
qed (rule assms(2))

text \<open>
  C37. Pinning, unpinning and reordering, whether they succeed or fail, keep the pins of every user numbered from one
  without gaps, at most twenty, and each of another meme.
\<close>

theorem pin_calls_keep_pins_dense:
  assumes "pins_dense s u" "pins_dense s v" "call \<in> {Pin u m, Unpin u m, Reorder u ms}"
  shows "pins_dense (snd (run_call le call s)) v"
proof -
  have "pins_dense (snd (pin_meme_result le u m s)) v"
    unfolding pin_meme_result_def
    using assms(2)
    by (auto simp: Let_def pins_dense_same [of "project_change env u m b t" t for env b t]
        intro!: dense_check dense_commit pins_dense_added)
  moreover have "pins_dense (snd (unpin_meme le u m s)) v"
    unfolding unpin_meme_def
    using assms(1,2)
    by (auto simp: pins_dense_same [of "project_change env u m b t" t for env b t]
        intro!: dense_check dense_commit pins_dense_unpin)
  moreover have "pins_dense (snd (reorder_pins le u ms s)) v"
    unfolding reorder_pins_def
    using assms(2) by (auto intro!: dense_check dense_commit pins_dense_replaced)
  ultimately show ?thesis using assms(3) by auto
qed

theorem pin_calls_keep_pins_dense_witness:
  "pins_dense (snd (run_call sample_library_env (Pin 1 9) sample_library)) 1 \<and>
     pinned_in_order (snd (run_call sample_library_env (Pin 1 9) sample_library)) 1 = [7, 8, 9]"
proof
  have "pins_dense sample_library 1" by code_simp
  from pin_calls_keep_pins_dense [OF this this, of "Pin 1 9" 9 "[]"]
  show "pins_dense (snd (run_call sample_library_env (Pin 1 9) sample_library)) 1" by simp
qed code_simp

text \<open>
  A reorder that succeeds lists the pins in the order it was asked for.
\<close>

theorem reordered_pins_are_listed:
  assumes "reorder_pins le u ms s = (Inr x, s')"
  shows "list_pinned_memes s' u = Inr ms"
proof -
  let ?t = "\<lambda>p. (pn_position p, lb_pinned_at s' (u, pn_meme p))"
  from assms obtain user where user: "get_full_user s u = Inr user" and s': "s' = replace_pins u ms s"
    by (auto simp: reorder_pins_def check_Inr commit_library_Inr)
  have "get_full_user s' u = Inr user"
    using user by (simp add: s' replace_pins_def map_lb_db_def get_full_user_def get_user_def)
  moreover have "sorted (map ?t (renumbered u ms))"
    by (auto simp: sorted_wrt_iff_nth_less renumbered_def nth_enumerate_eq)
  ultimately show ?thesis
    by (simp add: list_pinned_memes_def s' pins_of_replace_pins sort_key_id_if_sorted renumbered_columns)
qed

theorem reordered_pins_are_listed_witness:
  "list_pinned_memes (snd (reorder_pins sample_library_env 1 [8, 7] sample_library)) 1 = Inr [8, 7]"
proof -
  have "fst (reorder_pins sample_library_env 1 [8, 7] sample_library) = Inr [8, 7]" by code_simp
  then show ?thesis by (intro reordered_pins_are_listed [where x = "[8, 7]"]) (simp add: prod_eq_iff)
qed

section \<open>A gap blocks every further pin\<close>

lemma not_distinct_violates: "\<not> distinct (map pin_slot (db_pins (lb_db s))) \<Longrightarrow> violated_constraint s \<noteq> None"
  by (auto simp: no_violation constraint_checks_def pin_checks_def)

text \<open>
  C38. When the pins of a user have a gap, so that one stands one past their number, every pin of another meme fails:
  the new row takes the position that is already taken. (Deleting an orphaned private meme leaves such a gap, because
  its pins go with it and nobody renumbers the others.)
\<close>

theorem pin_gap_blocks_pinning:
  assumes "get_full_user s u = Inr user" "visible_meme s m u = Inr r"
    and "\<not> list_ex (\<lambda>p. pn_meme p = m) (pins_of (lb_db s) u)" "length (pins_of (lb_db s) u) < MAX_PINNED_MEMES"
    and "p \<in> set (pins_of (lb_db s) u)" "pn_position p = int (length (pins_of (lb_db s) u)) + 1"
  shows "run_call le (Pin u m) s = (Inl (CollectionServiceFailure ''Failed to pin the meme.''), s)"
proof -
  let ?p = "\<lparr>pn_user = u, pn_meme = m, pn_position = int (length (pins_of (lb_db s) u)) + 1\<rparr>"
  have "p \<in> set (db_pins (lb_db s))" "pn_user p = u" using assms(5) by (auto simp: pins_of_def)
  then have "pin_slot ?p \<in> pin_slot ` set (db_pins (lb_db s))"
    using assms(6) by (auto simp: pin_slot_def intro!: image_eqI [of _ _ p])
  then have "\<not> distinct (map pin_slot (db_pins (lb_db (project_change (le_env le) u m True (add_pin (le_env le) ?p s)))))"
    by (simp add: add_pin_def map_lb_db_def)
  then obtain c where "violated_constraint (project_change (le_env le) u m True (add_pin (le_env le) ?p s)) = Some c"
    using not_distinct_violates by blast
  then show ?thesis
    using assms(1-4) by (simp add: pin_meme_result_def done_with_def commit_library_def Let_def)
qed

text \<open>The private meme of the sample is unfavorited: its pin goes, the other one stays at position two.\<close>

lemma sample_gap:
  defines "s \<equiv> snd (run_call sample_library_env (Unfavorite 1 7) sample_library)"
  shows "pins_dense sample_library 1" "\<not> pins_dense s 1"
    "pins_of (lb_db s) 1 = [\<lparr>pn_user = 1, pn_meme = 8, pn_position = 2\<rparr>]"
    "\<exists>user. get_full_user s 1 = Inr user" "\<exists>r. visible_meme s 9 1 = Inr r"
proof -
  show "pins_dense sample_library 1" by code_simp
  have 1: "map (\<lambda>p. (pn_user p, pn_meme p, pn_position p)) (pins_of (lb_db s) 1) = [(1, 8, 2)]"
    unfolding s_def by code_simp
  then show pins: "pins_of (lb_db s) 1 = [\<lparr>pn_user = 1, pn_meme = 8, pn_position = 2\<rparr>]"
    by (cases "pins_of (lb_db s) 1" rule: list.exhaust) (auto intro: pin.equality)
  then show "\<not> pins_dense s 1" by (simp add: pins_dense_def)
  have "\<not> (case get_full_user s 1 of Inl e \<Rightarrow> True | Inr x \<Rightarrow> False)" unfolding s_def by code_simp
  then show "\<exists>user. get_full_user s 1 = Inr user" by (cases "get_full_user s 1") auto
  have "\<not> (case visible_meme s 9 1 of Inl e \<Rightarrow> True | Inr x \<Rightarrow> False)" unfolding s_def by code_simp
  then show "\<exists>r. visible_meme s 9 1 = Inr r" by (cases "visible_meme s 9 1") auto
qed

theorem pin_gap_blocks_pinning_witness:
  "fst (run_call sample_library_env (Pin 1 9) (snd (run_call sample_library_env (Unfavorite 1 7) sample_library))) =
     Inl (CollectionServiceFailure ''Failed to pin the meme.'')"
proof -
  let ?s = "snd (run_call sample_library_env (Unfavorite 1 7) sample_library)"
  obtain user r where "get_full_user ?s 1 = Inr user" "visible_meme ?s 9 1 = Inr r" using sample_gap(4,5) by blast
  then have "run_call sample_library_env (Pin 1 9) ?s = (Inl (CollectionServiceFailure ''Failed to pin the meme.''), ?s)"
    by (rule pin_gap_blocks_pinning [where p = "\<lparr>pn_user = 1, pn_meme = 8, pn_position = 2\<rparr>"])
      (simp_all only: sample_gap(3), simp_all add: MAX_PINNED_MEMES_def)
  then show ?thesis by (simp only: fst_conv)
qed

section \<open>A favorite taken back\<close>

lemma row_map_inverse:
  "(\<And>r. r \<in> set rs \<Longrightarrow> P r \<Longrightarrow> g (f r) = r) \<Longrightarrow> (\<And>r. P (f r) = P r) \<Longrightarrow>
     map (\<lambda>r. if P r then g r else r) (map (\<lambda>r. if P r then f r else r) rs) = rs"
  by (induction rs) auto

lemma find_appended: "find P (xs @ ys) = (case find P xs of None \<Rightarrow> find P ys | Some x \<Rightarrow> Some x)"
  by (induction xs) auto

lemma ensured_is_favorites:
  assumes "ensured_favorites le u s = Inr (col, t)"
  shows "favorites_of t u = Some col"
proof (cases "favorites_of s u")
  case (Some c)
  with assms show ?thesis by (auto simp: ensured_favorites_def split: option.splits)
next
  case None
  with assms have "col = new_favorites (le_env le) u" "lb_collections t = lb_collections s @ [col]"
    by (auto simp: ensured_favorites_def Let_def flush_library_Inr put_member_def put_user_def
        split: option.splits sum.splits if_splits)
  with None show ?thesis by (simp add: favorites_of_def find_appended new_favorites_def)
qed

lemma map_lb_db_db [simp]: "lb_db (map_lb_db f s) = f (lb_db s)"
  by (simp add: map_lb_db_def)

lemma update_likes_db: "lb_db (update_likes f m s) = (lb_db s)\<lparr>db_memes :=
    map (\<lambda>r. if me_id r = m then r\<lparr>me_like_count := f (me_like_count r)\<rparr> else r) (db_memes (lb_db s))\<rparr>"
  by (simp add: update_likes_def)

lemma saved_into_favorites_db:
  assumes "saved_into env u col m s = (True, s1)" "co_kind col = FAVORITES"
  shows "\<not> saved s (co_id col) m" "lb_collections s1 = lb_collections s"
    "lb_db s1 = (lb_db s)\<lparr>db_collection_memes := db_collection_memes (lb_db s) @ [(co_id col, m)],
      db_memes := map (\<lambda>r. if me_id r = m then r\<lparr>me_like_count := me_like_count r + 1\<rparr> else r) (db_memes (lb_db s))\<rparr>"
  using assms
  by (auto simp: saved_into_def insert_collection_meme_def increment_like_count_def update_likes_db update_likes_shelf
      project_change_def map_interests_def map_lb_db_def Let_def split: if_splits)

lemma remove_from_referenced:
  assumes "delete_collection_meme (co_id col) m s = (Some a, s1)" "co_kind col = FAVORITES"
    and "lb_db (decrement_like_count m s1) = d" "get_meme d m = Some r"
    and "me_is_public r \<or> list_ex (\<lambda>(c, k). k = m) (db_collection_memes d)"
    and "remove_from le u col m failure s = (Inr b, s2)"
  shows "b \<and> lb_db s2 = d"
  using assms
  by (auto simp: remove_from_def delete_orphan_private_meme_if_unreferenced_def meme_has_collection_references_def Let_def
      commit_library_def delete_storage_objects_after_commit_def split: option.splits if_splits)

text \<open>
  C36. A favorite that was inserted and is then taken back leaves the tables of memes, saves and pins as they were.
\<close>

theorem unfavorite_restores_favorite:
  assumes "shelf_ok (shelf_of s)" "fresh_library_ids le s"
    and "favorite_meme_result le u m s = (Inr True, s1)" "unfavorite_meme le' u m s1 = (Inr b, s2)"
  shows "b \<and> lb_db s2 = lb_db s"
proof -
  from assms(3) obtain r col t where r: "visible_meme s m u = Inr r" and t: "ensured_favorites le u s = Inr (col, t)"
    and c: "(let (inserted, s2) = saved_into (le_env le) u col m t
      in commit_library le s (\<lambda>_. CollectionServiceFailure ''Failed to favorite the meme.'') inserted s2) = (Inr True, s1)"
    by (auto simp: favorite_meme_result_def check_Inr)
  from c have s1: "saved_into (le_env le) u col m t = (True, s1)"
    by (cases "saved_into (le_env le) u col m t") (auto simp: Let_def commit_library_Inr)
  have col: "favorites_of t u = Some col" using t by (rule ensured_is_favorites)
  then have kind: "co_kind col = FAVORITES" "co_owner col = u" by (auto dest: favorites_of_mem)
  have db: "lb_db t = lb_db s" using ensured_favorites_reach(3) [OF t assms(2)] .
  note saved = saved_into_favorites_db [OF s1 kind(1)]
  have fav: "favorites_of s1 u = Some col" using col saved(2) by (simp add: favorites_of_def)
  let ?xs = "db_collection_memes (lb_db s)"
  have new: "(co_id col, m) \<notin> set ?xs" using saved(1) by (simp add: saved_def db)
  obtain a s2' where del: "delete_collection_meme (co_id col) m s1 = (Some a, s2')"
    and s2': "lb_db s2' = (lb_db s1)\<lparr>db_collection_memes := filter (\<lambda>x. x \<noteq> (co_id col, m)) (db_collection_memes (lb_db s1))\<rparr>"
    by (auto simp: delete_collection_meme_def saved_def saved(3) map_lb_db_def)
  have "0 \<le> me_like_count x" if "x \<in> set (db_memes (lb_db s))" for x
    using assms(1) that likes_okD(5) [of "shelf_of s" "me_id x" "me_like_count x"] by (auto simp: shelf_ok_def)
  then have likes: "map (\<lambda>r. if me_id r = m then r\<lparr>me_like_count := max (me_like_count r - 1) 0\<rparr> else r)
      (map (\<lambda>r. if me_id r = m then r\<lparr>me_like_count := me_like_count r + 1\<rparr> else r) (db_memes (lb_db s))) = db_memes (lb_db s)"
    by (intro row_map_inverse) auto
  have saves: "filter (\<lambda>x. x \<noteq> (co_id col, m)) (?xs @ [(co_id col, m)]) = ?xs"
    using new by (auto intro: filter_True)
  have restored: "lb_db (decrement_like_count m s2') = lb_db s"
    by (simp add: decrement_like_count_def update_likes_db s2' saved(3) db likes saves del: map_map filter_append)
  have "get_meme (lb_db s) m = Some r" "me_is_public r \<or> list_ex (\<lambda>(c, k). k = m) ?xs"
    using r by (auto simp: visible_meme_def get_visible_meme_def list_ex_iff split: option.splits if_splits)
  moreover have "remove_from le' u col m ''Failed to unfavorite the meme.'' s1 = (Inr b, s2)"
    using assms(4) fav kind(2) by (simp add: unfavorite_meme_def)
  ultimately show ?thesis by (rule remove_from_referenced [OF del kind(1) restored])
qed

theorem unfavorite_restores_favorite_witness:
  "fst (unfavorite_meme sample_library_env 1 8 (snd (favorite_meme_result sample_library_env 1 8 sample_library))) = Inr True \<and>
     lb_db (snd (unfavorite_meme sample_library_env 1 8 (snd (favorite_meme_result sample_library_env 1 8 sample_library)))) =
       lb_db sample_library"
proof -
  let ?f = "favorite_meme_result sample_library_env 1 8 sample_library"
  let ?g = "unfavorite_meme sample_library_env 1 8 (snd ?f)"
  have f: "fst ?f = Inr True" and g: "fst ?g = Inr True" by code_simp+
  have "?f = (Inr True, snd ?f)" "?g = (Inr True, snd ?g)" using f g by (simp_all add: prod_eq_iff)
  from unfavorite_restores_favorite [OF sample_shelf_ok sample_fresh_library_ids this] g show ?thesis by simp
qed

end
