(* ===== verification/Collection_Refinement.thy ===== *)
theory Collection_Refinement
  imports Collection_Properties
begin

text \<open>
  The saving calls of \<open>CollectionService\<close> as functions on the shelf of \<open>Library_Shelf\<close>: which collection a call is for,
  and what it does to the saves, the like counts and the memes of the shelf, exactly.
\<close>

section \<open>The operations of the shelf\<close>

definition shelf_put :: "uuid \<Rightarrow> uuid \<Rightarrow> shelf \<Rightarrow> shelf" where
  "shelf_put c m h =
     (if (c, m) \<in> set (sh_saves h) then h
      else h\<lparr>sh_saves := sh_saves h @ [(c, m)],
             sh_likes := (if is_favorites h c then count_like (\<lambda>n. n + 1) m (sh_likes h) else sh_likes h)\<rparr>)"

text \<open>The user's Favorites, created under the id \<open>fresh\<close> unless there are some.\<close>

definition shelf_favorites :: "uuid \<Rightarrow> uuid \<Rightarrow> shelf \<Rightarrow> shelf" where
  "shelf_favorites fresh u h =
     (if u \<in> set (favorites_owners h) then h
      else h\<lparr>sh_collections := sh_collections h @ [(fresh, u, FAVORITES)],
             sh_members := row_put member_key (owner_row fresh u) (sh_members h)\<rparr>)"

text \<open>A private meme that nobody holds any more goes with its like count.\<close>

definition shelf_take :: "bool \<Rightarrow> uuid \<Rightarrow> uuid \<Rightarrow> shelf \<Rightarrow> shelf" where
  "shelf_take private c m h =
     (if (c, m) \<notin> set (sh_saves h) then h
      else
        (let saves = filter (\<lambda>x. x \<noteq> (c, m)) (sh_saves h);
             likes = (if is_favorites h c then count_like (\<lambda>n. max (n - 1) 0) m (sh_likes h) else sh_likes h)
         in h\<lparr>sh_saves := saves,
              sh_likes := (if private \<and> m \<notin> snd ` set saves then filter (\<lambda>(k, n). k \<noteq> m) likes else likes)\<rparr>))"

section \<open>What a call is for\<close>

definition favorites_destination :: "library_env \<Rightarrow> library \<Rightarrow> uuid \<Rightarrow> uuid" where
  "favorites_destination le s u = (case favorites_of s u of Some col \<Rightarrow> co_id col | None \<Rightarrow> env_fresh (le_env le) 0)"

definition active_save :: "library \<Rightarrow> uuid \<Rightarrow> uuid option" where
  "active_save s u = Option.bind (get_user s u) us_active_save"

definition private_meme :: "library \<Rightarrow> uuid \<Rightarrow> bool" where
  "private_meme s m \<longleftrightarrow> (case get_meme (lb_db s) m of None \<Rightarrow> False | Some r \<Rightarrow> \<not> me_is_public r)"

text \<open>The actor, the collection and the meme of a saving call, and whether it saves or removes; \<open>None\<close> for the others.\<close>

fun saving_call :: "library_env \<Rightarrow> library \<Rightarrow> library_call \<Rightarrow> (uuid \<times> uuid option \<times> uuid \<times> bool) option" where
  "saving_call le s (SaveTo u c m) = Some (u, Some c, m, True)"
| "saving_call le s (Favorite u m) = Some (u, Some (favorites_destination le s u), m, True)"
| "saving_call le s (SaveActive u m) =
     Some (u, Some (case active_save s u of Some c \<Rightarrow> c | None \<Rightarrow> favorites_destination le s u), m, True)"
| "saving_call le s (RemoveFrom u c m) = Some (u, Some c, m, False)"
| "saving_call le s (Unfavorite u m) = Some (u, map_option co_id (favorites_of s u), m, False)"
| "saving_call le s (RemoveActive u m) = Some (u, active_save s u, m, False)"
| "saving_call le s _ = None"

fun makes_favorites :: "library \<Rightarrow> library_call \<Rightarrow> bool" where
  "makes_favorites s (Favorite u m) = True"
| "makes_favorites s (SaveActive u m) = (active_save s u = None)"
| "makes_favorites s _ = False"

text \<open>What the shelf is after a successful call.\<close>

definition call_on_shelf :: "library_env \<Rightarrow> library \<Rightarrow> library_call \<Rightarrow> shelf \<Rightarrow> shelf" where
  "call_on_shelf le s call h =
     (case saving_call le s call of
        None \<Rightarrow> h
      | Some (u, dest, m, saving) \<Rightarrow>
          (case dest of
             None \<Rightarrow> h
           | Some c \<Rightarrow>
               if saving
               then shelf_put c m (if makes_favorites s call then shelf_favorites (env_fresh (le_env le) 0) u h else h)
               else shelf_take (private_meme s m) c m h))"

section \<open>The writes on the shelf\<close>

lemma saved_into_shelf:
  assumes "shelf_ok (shelf_of s)" "col \<in> set (lb_collections s)"
  shows "shelf_of (snd (saved_into env u col m s)) = shelf_put (co_id col) m (shelf_of s)"
  using shelf_favorites_iff [OF assms]
  by (auto simp: saved_into_def insert_collection_meme_def increment_like_count_def Let_def map_lb_db_def
      update_likes_shelf saved_def shelf_put_def intro!: shelf_eqI)

lemma favorites_owner_iff: "u \<in> set (favorites_owners (shelf_of s)) \<longleftrightarrow> favorites_of s u \<noteq> None"
  by (force simp: favorites_owners_def favorites_of_def find_None_iff)

lemma ensured_favorites_shelf:
  assumes "ensured_favorites le u s = Inr (col, s')"
  shows "shelf_of s' = shelf_favorites (env_fresh (le_env le) 0) u (shelf_of s)" "co_id col = favorites_destination le s u"
proof -
  have "shelf_of s' = shelf_favorites (env_fresh (le_env le) 0) u (shelf_of s) \<and> co_id col = favorites_destination le s u"
  proof (cases "favorites_of s u")
    case (Some c)
    with assms have "col = c" "s' = s" by (auto simp: ensured_favorites_def split: option.splits)
    with Some show ?thesis using favorites_owner_iff [of u s] by (simp add: shelf_favorites_def favorites_destination_def)
  next
    case None
    let ?c = "new_favorites (le_env le) u"
    let ?t = "put_member \<lparr>cm_collection = co_id ?c, cm_user = u, cm_role = OWNER\<rparr> (s\<lparr>lb_collections := lb_collections s @ [?c]\<rparr>)"
    from None assms have col: "col = ?c" and s': "s' = ?t \<or> (\<exists>r. s' = put_user (le_env le) r ?t)"
      by (auto simp: ensured_favorites_def Let_def flush_library_Inr split: option.splits sum.splits if_splits)
    from s' have "shelf_of s' = shelf_of ?t" by auto
    with None col show ?thesis using favorites_owner_iff [of u s]
      by (simp add: shelf_favorites_def favorites_destination_def shelf_of_new_collection new_favorites_def owner_row_def)
  qed
  then show "shelf_of s' = shelf_favorites (env_fresh (le_env le) 0) u (shelf_of s)" "co_id col = favorites_destination le s u"
    by simp_all
qed

lemma retire_meme_shelf:
  "retire_meme env m s = Inr (keys, s') \<Longrightarrow>
     shelf_of s' = (shelf_of s)\<lparr>sh_likes := filter (\<lambda>(k, n). k \<noteq> m) (sh_likes (shelf_of s)),
       sh_saves := filter (\<lambda>(c, k). k \<noteq> m) (sh_saves (shelf_of s))\<rparr>"
  by (auto simp: retire_meme_def prepare_media_generation_cleanup_def Let_def filter_map comp_def
      split: sum.splits intro!: shelf_eqI)

lemma references_iff: "meme_has_collection_references s m \<longleftrightarrow> m \<in> snd ` set (sh_saves (shelf_of s))"
  by (force simp: meme_has_collection_references_def list_ex_iff)

lemma private_meme_kept:
  "db_memes (lb_db s') = map (\<lambda>r. if me_id r = k then r\<lparr>me_like_count := g (me_like_count r)\<rparr> else r) (db_memes (lb_db s)) \<Longrightarrow>
     private_meme s' m = private_meme s m"
  using row_get_map_if [of me_id "\<lambda>r. r\<lparr>me_like_count := g (me_like_count r)\<rparr>" m "\<lambda>r. me_id r = k" "db_memes (lb_db s)"]
  by (auto simp: private_meme_def get_meme_def split: option.splits)

lemma orphan_shelf:
  assumes "delete_orphan_private_meme_if_unreferenced env m s = Inr (keys, s')"
  shows "shelf_of s' = (shelf_of s)\<lparr>sh_likes :=
    (if private_meme s m \<and> m \<notin> snd ` set (sh_saves (shelf_of s)) then filter (\<lambda>(k, n). k \<noteq> m) (sh_likes (shelf_of s))
     else sh_likes (shelf_of s))\<rparr>"
proof (cases "private_meme s m \<and> \<not> meme_has_collection_references s m")
  case True
  then have "retire_meme env m s = Inr (keys, s')"
    using assms by (auto simp: delete_orphan_private_meme_if_unreferenced_def private_meme_def split: option.splits if_splits)
  moreover have "filter (\<lambda>(c, k). k \<noteq> m) (sh_saves (shelf_of s)) = sh_saves (shelf_of s)"
    using True by (force simp: references_iff intro!: filter_True)
  ultimately show ?thesis using True retire_meme_shelf [of env m s keys s'] by (simp add: references_iff)
next
  case False
  then have "s' = s"
    using assms by (auto simp: delete_orphan_private_meme_if_unreferenced_def private_meme_def split: option.splits if_splits)
  with False show ?thesis by (auto simp: references_iff)
qed

lemma commit_objects_Inr:
  "(case commit_library le s f v s' of
      (Inl e, t) \<Rightarrow> (Inl e, t) | (Inr b, t) \<Rightarrow> (Inr b, delete_storage_objects_after_commit le keys t)) = (r, s'') \<Longrightarrow>
    (case r of Inl e \<Rightarrow> s'' = s | Inr b \<Rightarrow> b = v \<and> s'' = delete_storage_objects_after_commit le keys s')"
  by (auto simp: commit_library_def split: option.splits if_splits)

lemma remove_from_shelf:
  assumes "shelf_ok (shelf_of s)" "col \<in> set (lb_collections s)" "remove_from le actor col m failure s = (r, s')"
  shows "case r of Inl e \<Rightarrow> s' = s | Inr b \<Rightarrow> shelf_of s' = shelf_take (private_meme s m) (co_id col) m (shelf_of s)"
proof (cases "saved s (co_id col) m")
  case False
  with assms(3) show ?thesis by (auto simp: remove_from_def delete_collection_meme_def saved_def shelf_take_def)
next
  case True
  let ?h = "shelf_of s"
  define s1 where "s1 = (map_lb_db (\<lambda>d. d\<lparr>db_collection_memes := filter (\<lambda>x. x \<noteq> (co_id col, m)) (db_collection_memes d)\<rparr>) s)
      \<lparr>lb_saves := (lb_saves s)((co_id col, m) := None)\<rparr>"
  define a where "a = (case lb_saves s (co_id col, m) of None \<Rightarrow> None | Some i \<Rightarrow> sv_added_by i)"
  define s3 where "s3 = project_collection_meme_removal (le_env le) actor (case a of Some a \<Rightarrow> a | None \<Rightarrow> co_owner col) m
      (if co_kind col = FAVORITES then decrement_like_count m s1 else s1)"
  have del: "delete_collection_meme (co_id col) m s = (Some a, s1)"
    using True by (simp add: delete_collection_meme_def s1_def a_def)
  have fav: "is_favorites ?h (co_id col) \<longleftrightarrow> co_kind col = FAVORITES" using assms(1,2) by (rule shelf_favorites_iff)
  have h3: "shelf_of s3 = ?h\<lparr>sh_saves := filter (\<lambda>x. x \<noteq> (co_id col, m)) (sh_saves ?h),
      sh_likes := (if is_favorites ?h (co_id col) then count_like (\<lambda>n. max (n - 1) 0) m (sh_likes ?h) else sh_likes ?h)\<rparr>"
    using fav by (auto simp: s3_def s1_def decrement_like_count_def map_lb_db_def update_likes_shelf intro!: shelf_eqI)
  have p3: "private_meme s3 m = private_meme s m"
  proof (cases "co_kind col = FAVORITES")
    case True
    then show ?thesis
      by (intro private_meme_kept [of s3 m "\<lambda>n. max (n - 1) 0" s])
        (simp add: s3_def s1_def decrement_like_count_def update_likes_def map_lb_db_def)
  next
    case False
    then show ?thesis by (simp add: s3_def s1_def private_meme_def map_lb_db_def get_meme_def)
  qed
  have run: "check s (delete_orphan_private_meme_if_unreferenced (le_env le) m s3) (\<lambda>(keys, s4).
      case commit_library le s (\<lambda>_. CollectionServiceFailure failure) True s4 of
        (Inl e, t) \<Rightarrow> (Inl e, t) | (Inr b, t) \<Rightarrow> (Inr b, delete_storage_objects_after_commit le keys t)) = (r, s')"
    using assms(3) unfolding remove_from_def del by (simp only: Let_def prod.case option.case s3_def)
  show ?thesis
  proof (cases "delete_orphan_private_meme_if_unreferenced (le_env le) m s3")
    case (Inl e)
    with run show ?thesis by auto
  next
    case (Inr x)
    obtain keys s4 where x: "x = (keys, s4)" by (cases x)
    with run Inr have "(case commit_library le s (\<lambda>_. CollectionServiceFailure failure) True s4 of
        (Inl e, t) \<Rightarrow> (Inl e, t) | (Inr b, t) \<Rightarrow> (Inr b, delete_storage_objects_after_commit le keys t)) = (r, s')" by simp
    from commit_objects_Inr [OF this] orphan_shelf [of "le_env le" m s3 keys s4] Inr x True show ?thesis
      by (auto simp: h3 p3 shelf_take_def Let_def saved_def split: sum.splits)
  qed
qed

section \<open>The calls\<close>

lemma commit_outcome:
  "commit_library le s f v s1 = (r, s') \<Longrightarrow> (case r of Inl e \<Rightarrow> s' = s | Inr b \<Rightarrow> b = v \<and> s' = s1)"
  by (auto simp: commit_library_def split: option.splits if_splits)

text \<open>What a successful call needs: the actor may write the collection, and a meme to save is visible to the actor.\<close>

definition saving_allowed :: "library \<Rightarrow> uuid \<Rightarrow> uuid \<Rightarrow> uuid \<Rightarrow> bool \<Rightarrow> bool" where
  "saving_allowed s u c m saving \<longleftrightarrow> may_write s u c \<and> (saving \<longrightarrow> get_visible_meme s m u \<noteq> None)"

definition refines_call :: "library_env \<Rightarrow> library \<Rightarrow> library_call \<Rightarrow> (library_error + 'a) \<times> library \<Rightarrow> bool" where
  "refines_call le s call out \<longleftrightarrow>
     (case fst out of
        Inl e \<Rightarrow> snd out = s
      | Inr b \<Rightarrow>
          shelf_of (snd out) = call_on_shelf le s call (shelf_of s) \<and>
          (case saving_call le s call of
             Some (u, Some c, m, saving) \<Rightarrow> saving_allowed s u c m saving | _ \<Rightarrow> True))"

lemma refines_check: "(\<And>x. r = Inr x \<Longrightarrow> refines_call le s call (k x)) \<Longrightarrow> refines_call le s call (check s r k)"
  by (cases r) (simp_all add: refines_call_def)

lemma refines_saved:
  assumes "saving_call le s call = Some (u, Some (co_id col), m, True)" "may_write s u (co_id col)" "get_visible_meme s m u \<noteq> None"
    and "shelf_of s1 = (if makes_favorites s call then shelf_favorites (env_fresh (le_env le) 0) u (shelf_of s) else shelf_of s)"
    and "shelf_ok (shelf_of s1)" "col \<in> set (lb_collections s1)"
  shows "refines_call le s call
    (let (inserted, s2) = saved_into (le_env le) u col m s1 in commit_library le s f inserted s2)"
proof -
  obtain b s2 where sv: "saved_into (le_env le) u col m s1 = (b, s2)" by fastforce
  obtain r s' where run: "commit_library le s f b s2 = (r, s')" by fastforce
  have "shelf_of s2 = shelf_put (co_id col) m (shelf_of s1)" using saved_into_shelf [OF assms(5,6), of "le_env le" u m] sv by simp
  with commit_outcome [OF run] run sv assms(1-4) show ?thesis
    by (auto simp: refines_call_def call_on_shelf_def saving_allowed_def split: sum.splits)
qed

lemma refines_removed:
  assumes "saving_call le s call = Some (u, Some (co_id col), m, False)" "may_write s u (co_id col)"
    and "shelf_ok (shelf_of s)" "col \<in> set (lb_collections s)"
  shows "refines_call le s call (remove_from le a col m failure s)"
proof -
  obtain r s' where run: "remove_from le a col m failure s = (r, s')" by fastforce
  from remove_from_shelf [OF assms(3,4) run] run assms(1,2) show ?thesis
    by (auto simp: refines_call_def call_on_shelf_def saving_allowed_def split: sum.splits)
qed

lemma ensured_favorites_ok:
  assumes "ensured_favorites le u s = Inr (col, s1)" "shelf_ok (shelf_of s)" "fresh_library_ids le s"
  shows "shelf_ok (shelf_of s1)" "col \<in> set (lb_collections s1)" "may_write s u (co_id col)" "lb_db s1 = lb_db s"
  using ensured_favorites_reach [OF assms(1,3)] shelf_reach_ok assms(2) ensured_favorites_may_write [OF assms] by auto

lemma visible_Inr: "visible_meme s m u = Inr x \<Longrightarrow> get_visible_meme s m u \<noteq> None"
  by (auto simp: visible_meme_def)

lemma refines_save:
  assumes "shelf_ok (shelf_of s)"
  shows "refines_call le s (SaveTo u c m) (save_meme_to_collection_result le c u m s)"
  unfolding save_meme_to_collection_result_def
proof (rule refines_check)
  fix x assume x: "get_collection_for_read s c u = Inr x"
  obtain user col where ux: "x = (user, col)" by (cases x)
  note col = read_collection_mem [OF x [unfolded ux]]
  show "refines_call le s (SaveTo u c m) (case x of (user, col) \<Rightarrow>
      check s (ensure_can_write_collection s user col) (\<lambda>_.
      check s (visible_meme s m u) (\<lambda>meme.
        let (inserted, s1) = saved_into (le_env le) u col m s
        in commit_library le s (\<lambda>_. CollectionServiceFailure ''Failed to save the meme to the collection.'') inserted s1)))"
    unfolding ux prod.case
    by (intro refines_check refines_saved)
      (use col read_may_write(1) [OF x [unfolded ux]] visible_Inr assms in simp_all)
qed

lemma refines_favorite:
  assumes "shelf_ok (shelf_of s)" "fresh_library_ids le s"
  shows "refines_call le s (Favorite u m) (favorite_meme_result le u m s)"
  unfolding favorite_meme_result_def
proof (intro refines_check)
  fix meme x assume v: "visible_meme s m u = Inr meme" and x: "ensured_favorites le u s = Inr x"
  obtain col s1 where ux: "x = (col, s1)" by (cases x)
  note fav = ensured_favorites_ok [OF x [unfolded ux] assms] ensured_favorites_shelf [OF x [unfolded ux]]
  show "refines_call le s (Favorite u m) (case x of (col, s1) \<Rightarrow>
      let (inserted, s2) = saved_into (le_env le) u col m s1
      in commit_library le s (\<lambda>_. CollectionServiceFailure ''Failed to favorite the meme.'') inserted s2)"
    unfolding ux prod.case by (rule refines_saved) (use fav visible_Inr [OF v] in simp_all)
qed

lemma active_collection_shelf:
  assumes "get_active_collection_for_write le u s = Inr (user, col, s1)" "shelf_ok (shelf_of s)" "fresh_library_ids le s"
  shows "co_id col = (case active_save s u of Some c \<Rightarrow> c | None \<Rightarrow> favorites_destination le s u)"
    and "shelf_of s1 = (if active_save s u = None then shelf_favorites (env_fresh (le_env le) 0) u (shelf_of s) else shelf_of s)"
    and "shelf_ok (shelf_of s1)" "col \<in> set (lb_collections s1)" "may_write s u (co_id col)"
proof -
  from assms(1) obtain r where user: "get_user s u = Some r"
    by (auto simp: get_active_collection_for_write_def split: option.splits)
  have "co_id col = (case active_save s u of Some c \<Rightarrow> c | None \<Rightarrow> favorites_destination le s u) \<and>
    shelf_of s1 = (if active_save s u = None then shelf_favorites (env_fresh (le_env le) 0) u (shelf_of s) else shelf_of s) \<and>
    shelf_ok (shelf_of s1) \<and> col \<in> set (lb_collections s1) \<and> may_write s u (co_id col)"
  proof (cases "us_active_save r")
    case None
    with user assms(1) have e: "ensured_favorites le u s = Inr (col, s1)"
      by (auto simp: get_active_collection_for_write_def split: sum.splits)
    from ensured_favorites_ok [OF e assms(2,3)] ensured_favorites_shelf [OF e] None user show ?thesis
      by (simp add: active_save_def)
  next
    case (Some c)
    with user assms(1) have c: "get_collection s c = Some col" "s1 = s" "ensure_can_write_collection s r col = Inr ()"
      by (auto simp: get_active_collection_for_write_def split: sum.splits option.splits)
    from get_collection_mem [OF c(1)] may_writeI [OF c(1) user c(3)] c(2) Some user assms(2) show ?thesis
      by (auto simp: active_save_def)
  qed
  then show "co_id col = (case active_save s u of Some c \<Rightarrow> c | None \<Rightarrow> favorites_destination le s u)"
    and "shelf_of s1 = (if active_save s u = None then shelf_favorites (env_fresh (le_env le) 0) u (shelf_of s) else shelf_of s)"
    and "shelf_ok (shelf_of s1)" "col \<in> set (lb_collections s1)" "may_write s u (co_id col)" by blast+
qed

text \<open>Creating the Favorites shows the user no meme that was hidden: the new collection holds nothing.\<close>

lemma visible_ensured:
  assumes "ensured_favorites le u s = Inr (col, s1)" "shelf_ok (shelf_of s)" "fresh_library_ids le s"
  shows "get_visible_meme s1 m v = get_visible_meme s m v"
proof (cases "favorites_of s u")
  case (Some c)
  with assms(1) have "s1 = s" by (auto simp: ensured_favorites_def split: option.splits)
  then show ?thesis by simp
next
  case None
  let ?i = "env_fresh (le_env le) 0"
  let ?c = "new_favorites (le_env le) u"
  let ?t = "put_member \<lparr>cm_collection = co_id ?c, cm_user = u, cm_role = OWNER\<rparr> (s\<lparr>lb_collections := lb_collections s @ [?c]\<rparr>)"
  from None assms(1) have "s1 = ?t \<or> (\<exists>r. s1 = put_user (le_env le) r ?t)"
    by (auto simp: ensured_favorites_def Let_def flush_library_Inr split: option.splits sum.splits if_splits)
  then have rows: "lb_collections s1 = lb_collections s @ [?c]"
    "lb_members s1 = row_put member_key \<lparr>cm_collection = ?i, cm_user = u, cm_role = OWNER\<rparr> (lb_members s)" "lb_db s1 = lb_db s"
    by (auto simp: put_member_def put_user_def new_favorites_def)
  have same: "accessible_collection s1 v c = accessible_collection s v c" if "(c, k) \<in> set (db_collection_memes (lb_db s))" for c k
  proof -
    have "c \<in> co_id ` set (lb_collections s)"
      using likes_okD(4) [of "shelf_of s" c k] assms(2) that by (force simp: shelf_ok_def)
    then have "c \<noteq> ?i" "row_get co_id c (lb_collections s) \<noteq> None"
      using assms(3) by (force simp: fresh_library_ids_def row_get_None_iff)+
    then show ?thesis
      by (auto simp: accessible_collection_def get_collection_def get_member_def rows row_get_append member_key_def
          split: option.splits)
  qed
  have ex: "list_ex (\<lambda>(c, k). k = m \<and> accessible_collection s1 v c) (db_collection_memes (lb_db s)) =
      list_ex (\<lambda>(c, k). k = m \<and> accessible_collection s v c) (db_collection_memes (lb_db s))"
    unfolding list_ex_iff using same by fastforce
  show ?thesis unfolding get_visible_meme_def rows(3) ex ..
qed

lemma refines_save_active:
  assumes "shelf_ok (shelf_of s)" "fresh_library_ids le s"
  shows "refines_call le s (SaveActive u m) (save_meme_to_active_collection_result le u m s)"
  unfolding save_meme_to_active_collection_result_def
proof (rule refines_check)
  fix x assume x: "get_active_collection_for_write le u s = Inr x"
  obtain user col s1 where ux: "x = (user, col, s1)" by (cases x)
  note act = active_collection_shelf [OF x [unfolded ux] assms]
  have vis: "get_visible_meme s1 m u = get_visible_meme s m u"
  proof (cases "active_save s u")
    case None
    then have "ensured_favorites le u s = Inr (col, s1)"
      using x by (auto simp: ux active_save_def get_active_collection_for_write_def split: option.splits sum.splits)
    then show ?thesis by (rule visible_ensured [OF _ assms])
  next
    case (Some c)
    then have "s1 = s"
      using x by (auto simp: ux active_save_def get_active_collection_for_write_def split: option.splits sum.splits)
    then show ?thesis by simp
  qed
  show "refines_call le s (SaveActive u m) (case x of (user, col, s1) \<Rightarrow>
      check s (visible_meme s1 m u) (\<lambda>meme.
        let (inserted, s2) = saved_into (le_env le) u col m s1
        in commit_library le s (\<lambda>_. CollectionServiceFailure ''Failed to save the meme to the active collection.'') inserted s2))"
    unfolding ux prod.case
    by (intro refines_check refines_saved) (use act vis visible_Inr [of s1 m u] in \<open>auto simp: act\<close>)
qed

lemma refines_nothing: "call_on_shelf le s call = (\<lambda>h. h) \<Longrightarrow> shelf_of s' = shelf_of s \<Longrightarrow>
    (case saving_call le s call of Some (u, Some c, m, saving) \<Rightarrow> saving_allowed s u c m saving | _ \<Rightarrow> True) \<Longrightarrow>
    refines_call le s call (Inr b, s')"
  by (simp add: refines_call_def)

lemma refines_removals:
  assumes "shelf_ok (shelf_of s)"
  shows "refines_call le s (RemoveFrom u c m) (remove_meme_from_collection le c u m s)"
    and "refines_call le s (Unfavorite u m) (unfavorite_meme le u m s)"
    and "refines_call le s (RemoveActive u m) (remove_meme_from_active_collection le u m s)"
proof -
  show "refines_call le s (RemoveFrom u c m) (remove_meme_from_collection le c u m s)"
    unfolding remove_meme_from_collection_def
  proof (rule refines_check)
    fix x assume x: "get_collection_for_read s c u = Inr x"
    obtain user col where ux: "x = (user, col)" by (cases x)
    note col = read_collection_mem [OF x [unfolded ux]]
    show "refines_call le s (RemoveFrom u c m) (case x of (user, col) \<Rightarrow>
        check s (ensure_can_write_collection s user col) (\<lambda>_.
          remove_from le u col m ''Failed to remove the meme from the collection.'' s))"
      unfolding ux prod.case
      by (intro refines_check refines_removed) (use col read_may_write(1) [OF x [unfolded ux]] assms in simp_all)
  qed
  show "refines_call le s (Unfavorite u m) (unfavorite_meme le u m s)"
  proof (cases "favorites_of s u")
    case None
    then show ?thesis by (simp add: unfavorite_meme_def refines_call_def call_on_shelf_def)
  next
    case (Some col)
    with owned_favorites_may_write [OF assms Some] favorites_of_mem [OF Some] assms show ?thesis
      by (simp add: unfavorite_meme_def refines_removed)
  qed
  show "refines_call le s (RemoveActive u m) (remove_meme_from_active_collection le u m s)"
    unfolding remove_meme_from_active_collection_def
  proof (rule refines_check)
    fix user assume "load_user s u = Inr user"
    then have user: "get_user s u = Some user" by (simp add: load_user_def)
    show "refines_call le s (RemoveActive u m) (case us_active_save user of
         None \<Rightarrow> (Inr False, s)
       | Some c \<Rightarrow>
           check s (load_collection s c) (\<lambda>col.
           check s (ensure_can_write_collection s user col) (\<lambda>_.
             remove_from le u col m ''Failed to remove the meme from the active collection.'' s)))"
    proof (cases "us_active_save user")
      case None
      with user show ?thesis by (simp add: refines_call_def call_on_shelf_def active_save_def)
    next
      case (Some c)
      have "refines_call le s (RemoveActive u m) (remove_from le u col m ''Failed to remove the meme from the active collection.'' s)"
        if "load_collection s c = Inr col" "ensure_can_write_collection s user col = Inr ()" for col
        using load_collection_mem [OF that(1)] that user Some assms may_writeI [of s c col u user]
        by (intro refines_removed) (auto simp: active_save_def load_collection_def)
      with Some show ?thesis by (auto intro!: refines_check)
    qed
  qed
qed

lemma refines_done_with: "refines_call le s call r \<Longrightarrow> refines_call le s call (done_with r)"
  by (cases "fst r") (simp_all add: refines_call_def done_with_def)

lemma saving_calls:
  assumes "saving_call le s call = Some x" "shelf_ok (shelf_of s)" "fresh_library_ids le s"
  shows "refines_call le s call (run_call le call s)"
  using assms
  by (cases call) (simp_all add: refines_done_with refines_save refines_favorite refines_save_active refines_removals)

text \<open>
  C31. A saving call is one operation of the abstract shelf, on the collection it is for: the one it names, the actor's
  Favorites (created when there are none) or the actor's active destination. When it succeeds, the actor may write that
  collection, a saved meme is visible to the actor, and the shelf it leaves is exactly the shelf it found with that one
  save added or taken, the like count of the meme moved with a Favorites, and a private meme that nobody holds any more
  gone. When it fails, nothing of the library has changed. (Each call is one step executed alone.)
\<close>

theorem saving_calls_refine_shelf:
  assumes "shelf_ok (shelf_of s)" "fresh_library_ids le s" "saving_call le s call = Some (u, dest, m, saving)"
  shows "case run_call le call s of
      (Inl e, s') \<Rightarrow> s' = s
    | (Inr _, s') \<Rightarrow>
        shelf_of s' = (case dest of
           None \<Rightarrow> shelf_of s
         | Some c \<Rightarrow>
             if saving
             then shelf_put c m (if makes_favorites s call then shelf_favorites (env_fresh (le_env le) 0) u (shelf_of s)
                                 else shelf_of s)
             else shelf_take (private_meme s m) c m (shelf_of s)) \<and>
        (case dest of None \<Rightarrow> True
         | Some c \<Rightarrow> may_write s u c \<and> (saving \<longrightarrow> get_visible_meme s m u \<noteq> None))"
  using saving_calls [OF assms(3,1,2)] assms(3)
  by (auto simp: refines_call_def call_on_shelf_def saving_allowed_def split: prod.splits sum.splits option.splits)

theorem saving_calls_refine_shelf_witness:
  "sh_likes (shelf_of (snd (run_call sample_library_env (Unfavorite 1 7) sample_library))) = [(8, 0), (9, 0)] \<and>
   may_write sample_library 1 20"
proof -
  let ?out = "run_call sample_library_env (Unfavorite 1 7) sample_library"
  have "fst ?out = Inr ()" by code_simp
  then have out: "?out = (Inr (), snd ?out)" by (metis prod.collapse)
  have fav: "favorites_of sample_library 1 = Some sample_favorites"
    by (simp add: favorites_of_def sample_library_def sample_favorites_def)
  then have call: "saving_call sample_library_env sample_library (Unfavorite 1 7) = Some (1, Some 20, 7, False)"
    by (simp add: sample_favorites_def)
  have "private_meme sample_library 7"
    by (simp add: private_meme_def get_meme_def sample_library_def sample_meme_def empty_db_def)
  with saving_calls_refine_shelf [OF sample_shelf_ok sample_fresh_library_ids call] show ?thesis
    by (subst (asm) out) (simp add: sample_shelf shelf_take_def is_favorites_def count_like_def)
qed

end
