(* ===== verification/Collection_Joins.thy ===== *)
theory Collection_Joins
  imports Collection_Properties
begin

text \<open>
  Redeeming an invite (\<open>CollectionService.join_invite\<close>): what a join that is executed alone does, and what two joins do
  whose reads both come before their writes. The method reads the invite and the members without a lock and writes the
  count it read plus one.
\<close>

section \<open>The two halves of a join\<close>

text \<open>
  The reads and checks, up to the commit: the invite, its collection, and whether the user is new to it. The refresh of
  terminal statuses (\<open>_persist_terminal_invite_statuses\<close>) is the step before it.
\<close>

definition read_join :: "library_env \<Rightarrow> text_value \<Rightarrow> uuid \<Rightarrow> library \<Rightarrow> library_error + (invite \<times> collection \<times> bool)" where
  "read_join le token u s =
     (case load_user s u of
        Inl e \<Rightarrow> Inl e
      | Inr user \<Rightarrow>
     (case require (GuestCollectionAccess ''Guest accounts cannot join shared collections.'') (us_type user \<noteq> GUEST) of
        Inl e \<Rightarrow> Inl e
      | Inr _ \<Rightarrow>
     (case invite_by_token s token of
        Inl e \<Rightarrow> Inl e
      | Inr i \<Rightarrow>
     (case ensure_invite_can_be_used (env_now (le_env le)) i of
        Inl e \<Rightarrow> Inl e
      | Inr _ \<Rightarrow>
     (case load_collection s (ci_collection i) of
        Inl e \<Rightarrow> Inl e
      | Inr col \<Rightarrow>
     (case require (InvalidCollectionInvite ''Favorites collections cannot be joined by invite.'') (co_kind col \<noteq> FAVORITES) of
        Inl e \<Rightarrow> Inl e
      | Inr _ \<Rightarrow> Inr (i, col, membership_role_for_user s u col = None)))))))"

text \<open>The invite's columns a join writes, from the count it read.\<close>

definition counted_use :: "time \<Rightarrow> invite \<Rightarrow> invite \<Rightarrow> invite" where
  "counted_use now read i =
     (let n = ci_use_count read + 1
      in i\<lparr>ci_use_count := n, ci_last_used_at := Some now,
           ci_status := (case ci_max_uses read of None \<Rightarrow> ci_status i | Some k \<Rightarrow> if k \<le> n then INVITE_ACCEPTED else ci_status i)\<rparr>)"

definition write_join :: "library_env \<Rightarrow> uuid \<Rightarrow> invite \<times> collection \<times> bool \<Rightarrow> library \<Rightarrow> collection library_run" where
  "write_join le u p s =
     (case p of (i, col, joins) \<Rightarrow>
        commit_library le s (\<lambda>_. CollectionServiceFailure ''Failed to join the collection invite.'') col
          (if joins
           then s\<lparr>lb_members := lb_members s @ [\<lparr>cm_collection = co_id col, cm_user = u, cm_role = ci_role i\<rparr>],
                  lb_invites := map (\<lambda>x. if ci_id x = ci_id i then counted_use (env_now (le_env le)) i x else x) (lb_invites s)\<rparr>
           else s))"

lemma counted_use_self: "counted_use now i i = used_invite now i"
  by (simp add: counted_use_def used_invite_def Let_def)

lemma invite_by_token_mem: "invite_by_token s token = Inr i \<Longrightarrow> i \<in> set (lb_invites s)"
  by (auto simp: invite_by_token_def split: sum.splits dest!: find_SomeD)

text \<open>The join executed alone is the two halves in a row, once the statuses are fresh.\<close>

lemma put_invite_map:
  assumes "distinct (map ci_id xs)" "i \<in> set xs"
  shows "row_put ci_id (used_invite now i) xs = map (\<lambda>x. if ci_id x = ci_id i then counted_use now i x else x) xs"
proof -
  have "counted_use now i x = used_invite now i" if "x \<in> set xs" "ci_id x = ci_id i" for x
    using that assms counted_use_self by (metis distinct_map inj_on_eq_iff)
  moreover have "ci_id (used_invite now i) = ci_id i" by (simp add: used_invite_def Let_def)
  moreover have "row_put ci_id (used_invite now i) xs = map (\<lambda>x. if ci_id x = ci_id (used_invite now i) then used_invite now i else x) xs"
    using assms by (intro row_put_map) (auto simp: used_invite_def Let_def)
  ultimately show ?thesis by auto
qed

lemma case_check:
  "(case (case r of Inl e \<Rightarrow> Inl e | Inr x \<Rightarrow> f x) of Inl e \<Rightarrow> (Inl e, s) | Inr p \<Rightarrow> k p) =
     check s r (\<lambda>x. case f x of Inl e \<Rightarrow> (Inl e, s) | Inr p \<Rightarrow> k p)"
  by (cases r) simp_all

lemma join_in_halves:
  assumes "shelf_ok (shelf_of s)" "invite_by_token s token = Inr i"
    and "persist_terminal_invite_statuses le (\<lambda>x. ci_id x = ci_id i) s = (Inr False, s)"
  shows "join_invite le token u s =
    (case read_join le token u s of Inl e \<Rightarrow> (Inl e, s) | Inr p \<Rightarrow> write_join le u p s)"
proof -
  have mem: "i \<in> set (lb_invites s)" using assms(2) by (rule invite_by_token_mem)
  note put = put_invite_map [OF shelf_invites(1) [OF assms(1)] mem]
  have new: "row_put member_key \<lparr>cm_collection = co_id col, cm_user = u, cm_role = ci_role i\<rparr> (lb_members s) =
      lb_members s @ [\<lparr>cm_collection = co_id col, cm_user = u, cm_role = ci_role i\<rparr>]"
    if "membership_role_for_user s u col = None" for col
    using that by (intro row_put_new) (simp add: membership_role_for_user_def get_member_def member_key_def)
  show ?thesis
    unfolding join_invite_def read_join_def case_check
    by (simp add: assms(2,3) write_join_def put_member_def put_invite_def put new Let_def cong: if_cong)
qed

section \<open>A join alone\<close>

lemma read_join_Inr:
  assumes "read_join le token u s = Inr (i, col, joins)"
  shows "invite_by_token s token = Inr i" "get_collection s (ci_collection i) = Some col" "co_kind col \<noteq> FAVORITES"
    "ensure_invite_can_be_used (env_now (le_env le)) i = Inr ()" "joins \<longleftrightarrow> get_member s (co_id col) u = None"
    "\<exists>user. get_user s u = Some user \<and> us_type user \<noteq> GUEST"
  using assms
  by (auto simp: read_join_def load_user_def load_collection_def membership_role_for_user_def split: sum.splits)

text \<open>What a join leaves that used the invite, or found its user among the members.\<close>

definition join_effect :: "time \<Rightarrow> uuid \<Rightarrow> invite \<Rightarrow> collection \<Rightarrow> library \<Rightarrow> library" where
  "join_effect now u i col s =
     (if get_member s (co_id col) u \<noteq> None then s
      else s\<lparr>lb_members := lb_members s @ [\<lparr>cm_collection = co_id col, cm_user = u, cm_role = ci_role i\<rparr>],
             lb_invites := map (\<lambda>x. if ci_id x \<noteq> ci_id i then x
               else x\<lparr>ci_use_count := ci_use_count x + 1, ci_last_used_at := Some now,
                      ci_status := (if ci_max_uses x = Some (ci_use_count x + 1) then INVITE_ACCEPTED else ci_status x)\<rparr>)
               (lb_invites s)\<rparr>)"

lemma counted_use_joined:
  assumes "invite_ok i" "ensure_invite_can_be_used now i = Inr ()"
  shows "counted_use now i i = i\<lparr>ci_use_count := ci_use_count i + 1, ci_last_used_at := Some now,
    ci_status := (if ci_max_uses i = Some (ci_use_count i + 1) then INVITE_ACCEPTED else ci_status i)\<rparr>"
  using assms by (auto simp: counted_use_def Let_def ensure_invite_can_be_used_def invite_ok_def split: option.splits)

lemma write_join_alone:
  assumes "shelf_ok (shelf_of s)" "read_join le token u s = Inr (i, col, joins)"
  shows "write_join le u (i, col, joins) s =
    commit_library le s (\<lambda>_. CollectionServiceFailure ''Failed to join the collection invite.'') col
      (join_effect (env_now (le_env le)) u i col s)"
proof -
  note rd = read_join_Inr [OF assms(2)]
  have mem: "i \<in> set (lb_invites s)" using rd(1) by (rule invite_by_token_mem)
  have same: "x = i" if "x \<in> set (lb_invites s)" "ci_id x = ci_id i" for x
    using that mem shelf_invites(1) [OF assms(1)] by (metis distinct_map inj_on_eq_iff)
  have "counted_use (env_now (le_env le)) i x =
      x\<lparr>ci_use_count := ci_use_count x + 1, ci_last_used_at := Some (env_now (le_env le)),
        ci_status := (if ci_max_uses x = Some (ci_use_count x + 1) then INVITE_ACCEPTED else ci_status x)\<rparr>"
    if "x \<in> set (lb_invites s)" "ci_id x = ci_id i" for x
    unfolding same [OF that] by (rule counted_use_joined [OF shelf_invites(2) [OF assms(1) mem] rd(4)])
  then have rows: "map (\<lambda>x. if ci_id x = ci_id i then counted_use (env_now (le_env le)) i x else x) (lb_invites s) =
      map (\<lambda>x. if ci_id x \<noteq> ci_id i then x
               else x\<lparr>ci_use_count := ci_use_count x + 1, ci_last_used_at := Some (env_now (le_env le)),
                      ci_status := (if ci_max_uses x = Some (ci_use_count x + 1) then INVITE_ACCEPTED else ci_status x)\<rparr>)
               (lb_invites s)"
    by (intro map_cong) simp_all
  show ?thesis unfolding write_join_def join_effect_def prod.case rd(5) rows by (simp only: if_distrib if_not_P not_not if_cancel) simp
qed

lemma persist_counts:
  "persist_terminal_invite_statuses le P s = (x, s') \<Longrightarrow>
     lb_members s' = lb_members s \<and> map ci_use_count (lb_invites s') = map ci_use_count (lb_invites s)"
  by (auto simp: persist_terminal_invite_statuses_def Let_def commit_library_def split: if_splits option.splits)

lemma join_failed:
  assumes "commit_library le s f col s1 = (Inl e, s')"
  shows "s' = s"
  using assms by (auto simp: commit_library_def split: option.splits if_splits)

text \<open>
  C34. A join that is executed alone succeeds only on a pending, unexpired, unrevoked direct link with a use left and of
  no Favorites, for a full account. A user who is no member yet is added with the invite's role and the invite counts one
  use more, accepted exactly when that was the last one; a member uses nothing; and nothing else changes. A join that
  fails adds no member and counts no use.
\<close>

theorem join_spends_one_use:
  assumes "join_invite le token u s = (r, s')" "shelf_ok (shelf_of s)"
  shows "case r of
      Inr col \<Rightarrow>
        (\<exists>i. invite_by_token s token = Inr i \<and> get_collection s (ci_collection i) = Some col \<and> co_kind col \<noteq> FAVORITES \<and>
           ci_channel i = DIRECT_LINK \<and> ci_status i = INVITE_PENDING \<and> ci_revoked_at i = None \<and>
           (case ci_expires_at i of None \<Rightarrow> True | Some t \<Rightarrow> env_now (le_env le) < t) \<and>
           (case ci_max_uses i of None \<Rightarrow> True | Some n \<Rightarrow> ci_use_count i < n) \<and>
           (\<exists>user. get_user s u = Some user \<and> us_type user \<noteq> GUEST) \<and>
           s' = join_effect (env_now (le_env le)) u i col s)
    | Inl e \<Rightarrow> lb_members s' = lb_members s \<and> map ci_use_count (lb_invites s') = map ci_use_count (lb_invites s)"
proof (cases "invite_by_token s token")
  case (Inl e)
  with assms(1) have "(\<exists>e. r = Inl e) \<and> s' = s"
    by (cases "load_user s u"; cases "us_type (projr (load_user s u)) = GUEST") (auto simp: join_invite_def require_def)
  then show ?thesis by auto
next
  case (Inr i)
  let ?P = "\<lambda>x. ci_id x = ci_id i"
  obtain q s1 where q: "persist_terminal_invite_statuses le ?P s = (q, s1)" by fastforce
  show ?thesis
  proof (cases "q = Inr False")
    case True
    then have "s1 = s" using q persist_unchanged by blast
    with q True have run: "(case read_join le token u s of Inl e \<Rightarrow> (Inl e, s) | Inr p \<Rightarrow> write_join le u p s) = (r, s')"
      using join_in_halves [OF assms(2) Inr, of le u] assms(1) by simp
    show ?thesis
    proof (cases "read_join le token u s")
      case (Inl e)
      with run show ?thesis by auto
    next
      case (Inr p)
      obtain i' col joins where p: "p = (i', col, joins)" by (cases p)
      note rd = read_join_Inr [OF Inr [unfolded p]]
      have w: "commit_library le s (\<lambda>_. CollectionServiceFailure ''Failed to join the collection invite.'') col
          (join_effect (env_now (le_env le)) u i' col s) = (r, s')"
        using run Inr p write_join_alone [OF assms(2) Inr [unfolded p]] by simp
      show ?thesis
      proof (cases r)
        case (Inl e)
        with w show ?thesis using join_failed by fastforce
      next
        case (Inr x)
        with w have "x = col" "s' = join_effect (env_now (le_env le)) u i' col s" by (simp_all add: commit_library_Inr)
        with Inr rd show ?thesis by (auto simp: ensure_invite_can_be_used_def)
      qed
    qed
  next
    case False
    then have "(\<exists>e. r = Inl e) \<and> (s' = s1 \<or> s' = s)"
      using assms(1) q Inr by (auto simp: join_invite_def check_def require_def split: sum.splits bool.splits if_splits)
    with persist_counts [OF q] show ?thesis by auto
  qed
qed

section \<open>Two joins at once\<close>

lemma counted_use_simps [simp]:
  "ci_id (counted_use now i x) = ci_id x" "ci_token_hash (counted_use now i x) = ci_token_hash x"
  "ci_max_uses (counted_use now i x) = ci_max_uses x" "ci_use_count (counted_use now i x) = ci_use_count i + 1"
  by (simp_all add: counted_use_def Let_def)

text \<open>The constraints that a join may break: the key of the members, the hashes and the counts of the invites.\<close>

lemma join_violates_nothing:
  assumes "violated_constraint s = None" "get_member s c u = None" "0 \<le> ci_use_count i"
  shows "violated_constraint (s\<lparr>lb_members := lb_members s @ [\<lparr>cm_collection = c, cm_user = u, cm_role = role\<rparr>],
    lb_invites := map (\<lambda>x. if ci_id x = ci_id i then counted_use now i x else x) (lb_invites s)\<rparr>) = None"
proof -
  have hashes: "map ci_token_hash (map (\<lambda>x. if ci_id x = ci_id i then counted_use now i x else x) (lb_invites s)) =
      map ci_token_hash (lb_invites s)" by simp
  have "(c, u) \<notin> member_key ` set (lb_members s)"
    using assms(2) by (simp add: get_member_def row_get_None_iff)
  then show ?thesis
    using assms(1,3) unfolding no_violation
    by (auto simp: constraint_checks_def pin_checks_def collection_checks_def save_checks_def invite_checks_def user_checks_def
        link_code_checks_def member_key_def hashes list_all_iff simp del: map_map)
qed

text \<open>
  C35. Two users who read an invite before either has joined both become members, while the invite counts one use: with one
  use left, it ends accepted and full with one member too many.
\<close>

theorem concurrent_joins_share_one_use:
  assumes "shelf_ok (shelf_of s)" "violated_constraint s = None" "u \<noteq> v"
    and "read_join le token u s = Inr (i, col, True)" "read_join le' token v s = Inr (i, col, True)"
    and "env_commit_ok (le_env le)" "env_commit_ok (le_env le')"
  shows "\<exists>s1 s2. write_join le u (i, col, True) s = (Inr col, s1) \<and> write_join le' v (i, col, True) s1 = (Inr col, s2) \<and>
    lb_members s2 = lb_members s @ [\<lparr>cm_collection = co_id col, cm_user = u, cm_role = ci_role i\<rparr>,
      \<lparr>cm_collection = co_id col, cm_user = v, cm_role = ci_role i\<rparr>] \<and>
    (\<exists>i'. row_get ci_id (ci_id i) (lb_invites s2) = Some i' \<and> ci_use_count i' = ci_use_count i + 1 \<and>
       (ci_max_uses i = Some (ci_use_count i + 1) \<longrightarrow> ci_status i' = INVITE_ACCEPTED))"
proof -
  note rd = read_join_Inr [OF assms(4)]
  have new: "get_member s (co_id col) u = None" "get_member s (co_id col) v = None"
    using read_join_Inr(5) [OF assms(4)] read_join_Inr(5) [OF assms(5)] by simp_all
  have mem: "i \<in> set (lb_invites s)" using rd(1) by (rule invite_by_token_mem)
  have ok: "invite_ok i" by (rule shelf_invites(2) [OF assms(1) mem])
  then have n: "0 \<le> ci_use_count i" by (simp add: invite_ok_def)
  define s1 where "s1 = s\<lparr>lb_members := lb_members s @ [\<lparr>cm_collection = co_id col, cm_user = u, cm_role = ci_role i\<rparr>],
    lb_invites := map (\<lambda>x. if ci_id x = ci_id i then counted_use (env_now (le_env le)) i x else x) (lb_invites s)\<rparr>"
  define s2 where "s2 = s1\<lparr>lb_members := lb_members s1 @ [\<lparr>cm_collection = co_id col, cm_user = v, cm_role = ci_role i\<rparr>],
    lb_invites := map (\<lambda>x. if ci_id x = ci_id i then counted_use (env_now (le_env le')) i x else x) (lb_invites s1)\<rparr>"
  have v1: "violated_constraint s1 = None" unfolding s1_def by (rule join_violates_nothing [OF assms(2) new(1) n])
  have "get_member s1 (co_id col) v = None"
    using new(2) assms(3) by (simp add: s1_def get_member_def row_get_append member_key_def)
  then have v2: "violated_constraint s2 = None" unfolding s2_def by (rule join_violates_nothing [OF v1 _ n])
  have w1: "write_join le u (i, col, True) s = (Inr col, s1)"
    using v1 assms(6) by (simp add: write_join_def s1_def commit_library_def)
  have w2: "write_join le' v (i, col, True) s1 = (Inr col, s2)"
    using v2 assms(7) by (simp add: write_join_def s2_def commit_library_def)
  have "row_get ci_id (ci_id i) (lb_invites s) = Some i"
    using mem shelf_invites(1) [OF assms(1)] by (simp add: row_get_iff_mem)
  then have "row_get ci_id (ci_id i) (lb_invites s2) =
      Some (counted_use (env_now (le_env le')) i (counted_use (env_now (le_env le)) i i))"
    by (simp add: s2_def s1_def row_get_map_if del: map_map)
  moreover have "ci_max_uses i = Some (ci_use_count i + 1) \<longrightarrow>
      ci_status (counted_use (env_now (le_env le')) i (counted_use (env_now (le_env le)) i i)) = INVITE_ACCEPTED"
    by (simp add: counted_use_def Let_def)
  ultimately show ?thesis using w1 w2 by (intro exI [of _ s1] exI [of _ s2]) (simp add: s2_def s1_def)
qed

section \<open>Samples\<close>

text \<open>A shared collection of user 1, with an invite that has one use left; users 2 and 3 have full accounts.\<close>

definition sample_invite :: invite where
  "sample_invite =
     \<lparr>ci_id = 30, ci_collection = 21, ci_created_by = Some 1, ci_token_hash = ''hash'', ci_role = EDITOR,
      ci_channel = DIRECT_LINK, ci_label = None, ci_status = INVITE_PENDING, ci_max_uses = Some 1, ci_use_count = 0,
      ci_expires_at = None, ci_last_used_at = None, ci_revoked_at = None, ci_recipient_email = None\<rparr>"

definition sample_shared :: collection where
  "sample_shared =
     \<lparr>co_id = 21, co_owner = 1, co_title = ''Cats'', co_description = None, co_kind = CUSTOM, co_visibility = PRIVATE,
      co_updated_at = 0\<rparr>"

definition sample_shared_library :: library where
  "sample_shared_library = sample_library
     \<lparr>lb_users := [sample_user, sample_user\<lparr>us_id := 2, us_telegram := Some 112\<rparr>, sample_user\<lparr>us_id := 3, us_telegram := Some 113\<rparr>],
      lb_collections := [sample_favorites, sample_shared], lb_members := [owner_row 20 1, owner_row 21 1],
      lb_invites := [sample_invite]\<rparr>"

lemma sample_shared_shelf: "shelf_of sample_shared_library =
   \<lparr>sh_likes = [(7, 1), (8, 0), (9, 0)], sh_saves = [(20, 7)],
    sh_collections = [(20, 1, FAVORITES), (21, 1, CUSTOM)], sh_members = [owner_row 20 1, owner_row 21 1],
    sh_invites = [sample_invite]\<rparr>"
  by (simp add: shelf_of_def sample_shared_library_def sample_library_def sample_meme_def sample_favorites_def
      sample_shared_def empty_db_def)

lemma sample_shared_ok: "shelf_ok (shelf_of sample_shared_library)"
  by (simp add: sample_shared_shelf shelf_ok_def likes_ok_def members_ok_def invites_ok_def favorites_count_def
      is_favorites_def favorites_owners_def owner_row_def member_key_def invite_ok_def sample_invite_def)

lemma sample_token: "normalize_token_hash ''hash'' = Inr ''hash''"
  by code_simp

theorem join_spends_one_use_witness:
  "lb_members (snd (join_invite sample_library_env ''hash'' 2 sample_shared_library)) =
     [owner_row 20 1, owner_row 21 1, \<lparr>cm_collection = 21, cm_user = 2, cm_role = EDITOR\<rparr>] \<and>
   map ci_use_count (lb_invites (snd (join_invite sample_library_env ''hash'' 2 sample_shared_library))) = [1]"
proof -
  let ?out = "join_invite sample_library_env ''hash'' 2 sample_shared_library"
  have ok: "map_sum id co_id (fst ?out) = Inr 21" by code_simp
  then obtain col where "fst ?out = Inr col" by (cases "fst ?out") auto
  then have out: "?out = (Inr col, snd ?out)" by (metis prod.collapse)
  have t: "invite_by_token sample_shared_library ''hash'' = Inr sample_invite"
    by (simp add: invite_by_token_def sample_token sample_shared_library_def sample_invite_def found_def)
  have c: "get_collection sample_shared_library 21 = Some sample_shared"
    by (simp add: get_collection_def sample_shared_library_def sample_favorites_def sample_shared_def)
  from join_spends_one_use [OF out sample_shared_ok] t c have
    "snd ?out = join_effect 1000 2 sample_invite sample_shared sample_shared_library"
    by (simp add: sample_invite_def sample_library_env_def sample_env_def)
  then show ?thesis
    by (simp add: join_effect_def get_member_def sample_shared_library_def sample_library_def sample_shared_def sample_invite_def
        owner_row_def member_key_def)
qed

lemma sample_reads:
  "u \<in> {2, 3} \<Longrightarrow> read_join sample_library_env ''hash'' u sample_shared_library = Inr (sample_invite, sample_shared, True)"
  by (auto simp: read_join_def load_user_def get_user_def sample_shared_library_def sample_user_def us_type_def
      has_linked_login_identity_def require_def invite_by_token_def sample_token sample_invite_def found_def ensure_invite_can_be_used_def load_collection_def
      get_collection_def sample_favorites_def sample_shared_def membership_role_for_user_def get_member_def owner_row_def
      member_key_def sample_library_env_def)

theorem concurrent_joins_share_one_use_witness:
  "\<exists>s1 s2. write_join sample_library_env 2 (sample_invite, sample_shared, True) sample_shared_library = (Inr sample_shared, s1) \<and>
    write_join sample_library_env 3 (sample_invite, sample_shared, True) s1 = (Inr sample_shared, s2) \<and>
    map cm_user (lb_members s2) = [1, 1, 2, 3]"
proof -
  have fresh: "violated_constraint sample_shared_library = None" by code_simp
  have commit: "env_commit_ok (le_env sample_library_env)" by (simp add: sample_library_env_def sample_env_def)
  have two: "(2::uuid) \<noteq> 3" by simp
  from concurrent_joins_share_one_use [OF sample_shared_ok fresh two sample_reads sample_reads commit commit] show ?thesis
    by (auto simp: sample_shared_library_def owner_row_def)
qed

end
