(* ===== verification/Account_Service.thy ===== *)
theory Account_Service
  imports Collection_Properties
begin

text \<open>
  \<open>UserService\<close> (\<open>services/user_service.py\<close>) and \<open>AccountLinkService\<close> (\<open>services/account_link_service.py\<close>): identities
  of an account, the upgrade of a guest in place, the merge of a guest into a full account, and the Telegram link codes.
  Verifying a provider payload, hashing and checking a password are the work of the provider: the verified identity, the
  signup identity and the account a login resolved to are arguments. \<open>others\<close> is what other requests committed
  between the start of a link and its rollback. The Redis caches dropped after a merge hold no state of the library.
\<close>

section \<open>Identities\<close>

definition MAX_GOOGLE_ID_LENGTH :: nat where "MAX_GOOGLE_ID_LENGTH = 255"

definition normalize_google_id :: "text_value option \<Rightarrow> library_error + text_value option" where
  "normalize_google_id g =
     (case g of
        None \<Rightarrow> Inr None
      | Some t \<Rightarrow>
          (let n = py_strip t
           in if n = [] then Inl (InvalidIdentity ''Google subject cannot be blank.'')
              else if length n > MAX_GOOGLE_ID_LENGTH
              then Inl (InvalidIdentity ''Google subject must be at most 255 characters long.'') else Inr (Some n)))"

definition normalize_telegram_id :: "int option \<Rightarrow> library_error + int option" where
  "normalize_telegram_id t =
     (case t of
        None \<Rightarrow> Inr None
      | Some n \<Rightarrow> if n \<le> 0 then Inl (InvalidIdentity ''Telegram ID must be a positive integer.'') else Inr (Some n))"

definition normalize_password_hash :: "text_value option \<Rightarrow> library_error + text_value option" where
  "normalize_password_hash p =
     (case p of
        None \<Rightarrow> Inr None
      | Some t \<Rightarrow>
          (let n = py_strip t
           in if n = [] then Inl (InvalidIdentity ''Password hash cannot be blank when provided.'') else Inr (Some n)))"

definition get_by_telegram_id :: "library \<Rightarrow> int \<Rightarrow> library_error + app_user option" where
  "get_by_telegram_id s t =
     (case normalize_telegram_id (Some t) of
        Inl e \<Rightarrow> Inl e | Inr n \<Rightarrow> Inr (find (\<lambda>u. us_telegram u = n) (lb_users s)))"

definition get_by_google_id :: "library \<Rightarrow> text_value \<Rightarrow> library_error + app_user option" where
  "get_by_google_id s g =
     (case normalize_google_id (Some g) of
        Inl e \<Rightarrow> Inl e | Inr n \<Rightarrow> Inr (find (\<lambda>u. us_google u = n) (lb_users s)))"

definition get_by_email :: "library \<Rightarrow> text_value \<Rightarrow> library_error + app_user option" where
  "get_by_email s t =
     (case normalize_email (Some t) of
        Inl e \<Rightarrow> Inl e | Inr n \<Rightarrow> Inr (find (\<lambda>u. us_email u = n) (lb_users s)))"

text \<open>The rows of other accounts that hold one of the identities; the first of them, and its first match, is reported.\<close>

definition identity_of ::
  "int option \<Rightarrow> text_value option \<Rightarrow> text_value option \<Rightarrow> app_user \<Rightarrow> text_value option" where
  "identity_of telegram google email u =
     (if telegram \<noteq> None \<and> us_telegram u = telegram then Some ''Telegram ID is already linked to another user.''
      else if google \<noteq> None \<and> us_google u = google then Some ''Google subject is already linked to another user.''
      else if email \<noteq> None \<and> us_email u = email then Some ''Email is already linked to another user.''
      else None)"

definition ensure_identity_is_available ::
  "library \<Rightarrow> int option \<Rightarrow> text_value option \<Rightarrow> text_value option \<Rightarrow> library_error + unit" where
  "ensure_identity_is_available s telegram google email =
     (case List.map_filter (identity_of telegram google email) (lb_users s) of
        [] \<Rightarrow> Inr () | t # _ \<Rightarrow> Inl (DuplicateIdentity t))"

definition unless_set :: "'a option \<Rightarrow> 'a option \<Rightarrow> 'a option" where
  "unless_set current new = (case current of None \<Rightarrow> new | Some _ \<Rightarrow> None)"

definition or_keep :: "'a option \<Rightarrow> 'a option \<Rightarrow> 'a option" where
  "or_keep new current = (case new of None \<Rightarrow> current | Some x \<Rightarrow> Some x)"

definition differs :: "'a option \<Rightarrow> 'a option \<Rightarrow> bool" where
  "differs current new \<longleftrightarrow> current \<noteq> None \<and> current \<noteq> new"

section \<open>The account row\<close>

definition DEFAULT_GUEST_LIFETIME :: time where "DEFAULT_GUEST_LIFETIME = 90 * 86400 * 1000000"

definition new_guest :: "env \<Rightarrow> user_language \<Rightarrow> bool \<Rightarrow> app_user" where
  "new_guest env language nsfw =
     \<lparr>us_id = env_fresh env 1, us_status = ACCOUNT_ACTIVE, us_telegram = None, us_google = None, us_email = None,
      us_email_verified_at = None, us_password_hash = None, us_active_save = None, us_nsfw_enabled = nsfw,
      us_language = language, us_last_active_at = Some (env_now env),
      us_guest_expires_at = Some (env_now env + DEFAULT_GUEST_LIFETIME), us_token_nonce = 0, us_updated_at = env_now env\<rparr>"

text \<open>With \<open>commit = False\<close> the row is flushed into the caller's transaction.\<close>

definition created_guest :: "library_env \<Rightarrow> user_language \<Rightarrow> bool \<Rightarrow> library \<Rightarrow> library_error + (uuid \<times> library)" where
  "created_guest le language nsfw s =
     (let u = new_guest (le_env le) language nsfw
      in case flush_library (\<lambda>_. UserServiceFailure ''Failed to create the guest user row.'')
                (s\<lparr>lb_users := lb_users s @ [u]\<rparr>) of
           Inl e \<Rightarrow> Inl e | Inr s1 \<Rightarrow> Inr (us_id u, s1))"

definition create_guest_user :: "library_env \<Rightarrow> user_language \<Rightarrow> bool \<Rightarrow> library \<Rightarrow> uuid library_run" where
  "create_guest_user le language nsfw s =
     check s (created_guest le language nsfw s) (\<lambda>(u, s1).
       commit_library le s (\<lambda>_. UserServiceFailure ''Failed to create the guest user row.'') u s1)"

definition google_error :: "db_constraint \<Rightarrow> library_error" where
  "google_error c =
     (if c = UQ_USER_GOOGLE then DuplicateIdentity ''Google subject is already linked to another account.''
      else UserServiceFailure ''Failed to attach the Google identity to the user.'')"

definition attached_google ::
  "library_env \<Rightarrow> uuid \<Rightarrow> text_value \<Rightarrow> time option \<Rightarrow> library \<Rightarrow> library_error + library" where
  "attached_google le u google verified s =
     (case normalize_google_id (Some google) of
        Inl e \<Rightarrow> Inl e
      | Inr g \<Rightarrow>
     (case get_user s u of
        None \<Rightarrow> Inl (UserNotFound u)
      | Some user \<Rightarrow>
          if differs (us_google user) g then Inl (DuplicateIdentity ''User is already linked to another Google subject.'')
          else (case (if us_google user = None then ensure_identity_is_available s None g None else Inr ()) of
                  Inl e \<Rightarrow> Inl e
                | Inr _ \<Rightarrow>
                    flush_library google_error
                      (put_user (le_env le)
                        (user\<lparr>us_google := g, us_email_verified_at := or_keep verified (us_email_verified_at user)\<rparr>) s))))"

definition attach_google_identity :: "library_env \<Rightarrow> uuid \<Rightarrow> text_value \<Rightarrow> time option \<Rightarrow> library \<Rightarrow> unit library_run" where
  "attach_google_identity le u google verified s =
     check s (attached_google le u google verified s) (\<lambda>s1. commit_library le s google_error () s1)"

definition telegram_error :: "db_constraint \<Rightarrow> library_error" where
  "telegram_error c =
     (if c = UQ_USER_TELEGRAM then DuplicateIdentity ''Telegram ID is already linked to another account.''
      else UserServiceFailure ''Failed to attach the Telegram identity to the user.'')"

definition attach_telegram_identity :: "library_env \<Rightarrow> uuid \<Rightarrow> int \<Rightarrow> library \<Rightarrow> unit library_run" where
  "attach_telegram_identity le u telegram s =
     check s (normalize_telegram_id (Some telegram)) (\<lambda>t.
     check s (found (UserNotFound u) (get_user s u)) (\<lambda>user.
     check s (require (DuplicateIdentity ''User is already linked to another Telegram ID.'') (\<not> differs (us_telegram user) t)) (\<lambda>_.
     check s (if us_telegram user = None then ensure_identity_is_available s t None None else Inr ()) (\<lambda>_.
       commit_library le s telegram_error () (put_user (le_env le) (user\<lparr>us_telegram := t\<rparr>) s)))))"

record upgrade =
  up_telegram :: "int option"
  up_google :: "text_value option"
  up_email :: "text_value option"
  up_verified_at :: "time option"
  up_password_hash :: "text_value option"

definition upgrade_error :: "db_constraint \<Rightarrow> library_error" where
  "upgrade_error c =
     (if c = UQ_USER_EMAIL then DuplicateIdentity ''Email is already linked to another account.''
      else if c = UQ_USER_GOOGLE then DuplicateIdentity ''Google subject is already linked to another account.''
      else if c = UQ_USER_TELEGRAM then DuplicateIdentity ''Telegram ID is already linked to another account.''
      else UserServiceFailure ''Failed to upgrade the guest account in place.'')"

definition normalized_upgrade :: "upgrade \<Rightarrow> library_error + upgrade" where
  "normalized_upgrade up =
     (case normalize_telegram_id (up_telegram up) of
        Inl e \<Rightarrow> Inl e
      | Inr t \<Rightarrow>
     (case normalize_google_id (up_google up) of
        Inl e \<Rightarrow> Inl e
      | Inr g \<Rightarrow>
     (case normalize_email (up_email up) of
        Inl e \<Rightarrow> Inl e
      | Inr m \<Rightarrow>
     (case normalize_password_hash (up_password_hash up) of
        Inl e \<Rightarrow> Inl e
      | Inr p \<Rightarrow>
          if t = None \<and> g = None \<and> m = None
          then Inl (InvalidIdentity ''Full accounts require at least one identity: telegram_id, google_id, or email.'')
          else if m = None \<and> up_verified_at up \<noteq> None
          then Inl (InvalidIdentity ''email_verified_at requires an email address.'')
          else if m = None \<and> p \<noteq> None then Inl (InvalidIdentity ''password_hash requires an email identity.'')
          else Inr \<lparr>up_telegram = t, up_google = g, up_email = m, up_verified_at = up_verified_at up, up_password_hash = p\<rparr>))))"

definition upgrade_conflict :: "app_user \<Rightarrow> upgrade \<Rightarrow> library_error + unit" where
  "upgrade_conflict user up =
     (if differs (us_telegram user) (up_telegram up) then Inl (DuplicateIdentity ''User is already linked to another Telegram ID.'')
      else if differs (us_google user) (up_google up)
      then Inl (DuplicateIdentity ''User is already linked to another Google subject.'')
      else if differs (us_email user) (up_email up) then Inl (DuplicateIdentity ''User is already linked to another email.'')
      else if up_password_hash up \<noteq> None \<and> differs (us_password_hash user) (up_password_hash up)
      then Inl (DuplicateIdentity ''User already has a different password hash attached.'')
      else Inr ())"

definition upgraded_user :: "upgrade \<Rightarrow> app_user \<Rightarrow> app_user" where
  "upgraded_user up user =
     user\<lparr>us_guest_expires_at := None, us_telegram := or_keep (up_telegram up) (us_telegram user),
          us_google := or_keep (up_google up) (us_google user), us_email := or_keep (up_email up) (us_email user),
          us_email_verified_at := or_keep (up_verified_at up) (us_email_verified_at user),
          us_password_hash := or_keep (up_password_hash up) (us_password_hash user)\<rparr>"

definition upgraded_guest :: "library_env \<Rightarrow> uuid \<Rightarrow> upgrade \<Rightarrow> library \<Rightarrow> library_error + library" where
  "upgraded_guest le u up0 s =
     (case normalized_upgrade up0 of
        Inl e \<Rightarrow> Inl e
      | Inr up \<Rightarrow>
     (case get_user s u of
        None \<Rightarrow> Inl (UserNotFound u)
      | Some user \<Rightarrow>
          if us_type user \<noteq> GUEST then Inl (UserServiceFailure ''User is not a guest account.'')
          else (case upgrade_conflict user up of
                  Inl e \<Rightarrow> Inl e
                | Inr _ \<Rightarrow>
               (case ensure_identity_is_available s (unless_set (us_telegram user) (up_telegram up))
                       (unless_set (us_google user) (up_google up)) (unless_set (us_email user) (up_email up)) of
                  Inl e \<Rightarrow> Inl e
                | Inr _ \<Rightarrow> flush_library upgrade_error (put_user (le_env le) (upgraded_user up user) s)))))"

definition upgrade_guest_to_full_account :: "library_env \<Rightarrow> uuid \<Rightarrow> upgrade \<Rightarrow> library \<Rightarrow> unit library_run" where
  "upgrade_guest_to_full_account le u up s =
     check s (upgraded_guest le u up s) (\<lambda>s1. commit_library le s upgrade_error () s1)"

definition touch_last_active :: "library_env \<Rightarrow> uuid \<Rightarrow> time option \<Rightarrow> library \<Rightarrow> unit library_run" where
  "touch_last_active le u occurred s =
     check s (found (UserNotFound u) (get_user s u)) (\<lambda>user.
       commit_library le s (\<lambda>_. UserServiceFailure ''Failed to persist the user's activity timestamp.'') ()
         (put_user (le_env le)
           (user\<lparr>us_last_active_at := Some (case occurred of Some t \<Rightarrow> t | None \<Rightarrow> env_now (le_env le))\<rparr>) s))"

definition update_preferences ::
  "library_env \<Rightarrow> uuid \<Rightarrow> bool option \<Rightarrow> user_language option \<Rightarrow> library \<Rightarrow> unit library_run" where
  "update_preferences le u nsfw language s =
     check s (found (UserNotFound u) (get_user s u)) (\<lambda>user.
       let user' = user\<lparr>us_nsfw_enabled := (case nsfw of Some b \<Rightarrow> b | None \<Rightarrow> us_nsfw_enabled user),
                        us_language := (case language of Some l \<Rightarrow> l | None \<Rightarrow> us_language user)\<rparr>
       in commit_library le s (\<lambda>_. UserServiceFailure ''Failed to persist the user's preferences.'') ()
            (if user' = user then s else put_user (le_env le) user' s))"

definition bump_token_nonce :: "library_env \<Rightarrow> uuid \<Rightarrow> library \<Rightarrow> int library_run" where
  "bump_token_nonce le u s =
     check s (found (UserNotFound u) (get_user s u)) (\<lambda>user.
       commit_library le s (\<lambda>_. UserServiceFailure ''Failed to rotate the token nonce.'') (us_token_nonce user + 1)
         (put_user (le_env le) (user\<lparr>us_token_nonce := us_token_nonce user + 1\<rparr>) s))"

end
