(* ===== verification/Account_Links.thy ===== *)
theory Account_Links
  imports Account_Service
begin

text \<open>
  \<open>AccountLinkService\<close> (\<open>services/account_link_service.py\<close>): the upgrade of a guest in place, the merge of a guest into
  a full account, the flows that choose between the two, and the Telegram link codes.
\<close>

section \<open>Checks\<close>

record google_identity =
  gi_google :: text_value
  gi_email :: "text_value option"
  gi_verified_at :: "time option"

datatype matched_by = BY_GOOGLE_ID | BY_VERIFIED_EMAIL | BY_NOTHING

record link_result =
  lr_canonical :: uuid
  lr_merged :: bool
  lr_merge_log :: "uuid option"
  lr_deleted_guest :: "uuid option"
  lr_favorites :: nat
  lr_duplicates :: nat
  lr_analytics :: nat
  lr_inline :: nat
  lr_views :: nat

definition ensure_guest_can_link :: "app_user \<Rightarrow> library_error + unit" where
  "ensure_guest_can_link u =
     (if us_type u \<noteq> GUEST then Inl GuestAccountRequired
      else if us_status u \<noteq> ACCOUNT_ACTIVE then Inl AccountUnavailable
      else if us_telegram u \<noteq> None \<or> us_google u \<noteq> None \<or> us_email u \<noteq> None \<or> us_password_hash u \<noteq> None
      then Inl (AccountLinkInvariant ''Guest account already carries linked identities.'') else Inr ())"

definition ensure_canonical_target :: "app_user \<Rightarrow> library_error + unit" where
  "ensure_canonical_target u =
     (if us_type u \<noteq> FULL then Inl (AccountLinkInvariant ''Canonical merge targets must be full accounts.'')
      else if us_status u \<noteq> ACCOUNT_ACTIVE then Inl AccountUnavailable else Inr ())"

definition require_guest_has_no_custom_collections :: "library \<Rightarrow> uuid \<Rightarrow> library_error + collection option" where
  "require_guest_has_no_custom_collections s g =
     (let owned = filter (\<lambda>c. co_owner c = g) (lb_collections s);
          favorites = filter (\<lambda>c. co_kind c = FAVORITES) owned
      in if filter (\<lambda>c. co_kind c \<noteq> FAVORITES) owned \<noteq> []
         then Inl (AccountLinkInvariant ''Guest user owns unexpected non-Favorites collections.'')
         else if length favorites > 1
         then Inl (AccountLinkInvariant ''Guest user owns more than one Favorites collection.'')
         else Inr (case favorites of [] \<Rightarrow> None | c # _ \<Rightarrow> Some c))"

section \<open>Upgrade in place\<close>

definition upgrade_guest_in_place :: "library_env \<Rightarrow> uuid \<Rightarrow> upgrade \<Rightarrow> library \<Rightarrow> link_result library_run" where
  "upgrade_guest_in_place le g up s =
     check s (found (UserNotFound g) (get_user s g)) (\<lambda>guest.
     check s (ensure_guest_can_link guest) (\<lambda>_.
     check s (require_guest_has_no_custom_collections s g) (\<lambda>_.
     check s (upgraded_guest le g up s) (\<lambda>s1.
       commit_library le s Integrity
         \<lparr>lr_canonical = g, lr_merged = False, lr_merge_log = None, lr_deleted_guest = None, lr_favorites = 0,
          lr_duplicates = 0, lr_analytics = 0, lr_inline = 0, lr_views = 0\<rparr> s1))))"

section \<open>Merge\<close>

text \<open>\<open>_transfer_favorites\<close>: an insert that does nothing where the target already holds the meme.\<close>

definition transferred_memes :: "library \<Rightarrow> uuid \<Rightarrow> uuid \<Rightarrow> uuid list" where
  "transferred_memes s from to =
     filter (\<lambda>m. \<not> saved s to m) (map snd (filter (\<lambda>(c, m). c = from) (db_collection_memes (lb_db s))))"

definition transfer_favorites :: "uuid \<Rightarrow> uuid \<Rightarrow> uuid \<Rightarrow> library \<Rightarrow> nat \<times> library" where
  "transfer_favorites from to u s =
     (let ms = transferred_memes s from to
      in (length ms,
          (map_lb_db (\<lambda>d. d\<lparr>db_collection_memes := db_collection_memes d @ map (Pair to) ms\<rparr>) s)
            \<lparr>lb_saves := (\<lambda>(c, m). if c = to \<and> m \<in> set ms
               then Some \<lparr>sv_added_by = Some u,
                          sv_added_at = (case lb_saves s (from, m) of Some i \<Rightarrow> sv_added_at i | None \<Rightarrow> 0)\<rparr>
               else lb_saves s (c, m))\<rparr>))"

definition reassigned :: "uuid \<Rightarrow> uuid \<Rightarrow> uuid option \<Rightarrow> uuid option" where
  "reassigned source target u = (if u = Some source then Some target else u)"

definition reassign_analytics_events :: "uuid \<Rightarrow> uuid \<Rightarrow> library \<Rightarrow> nat \<times> library" where
  "reassign_analytics_events source target s =
     (length (filter (\<lambda>(u, e). u = Some source) (lb_analytics s)),
      s\<lparr>lb_analytics := map (\<lambda>(u, e). (reassigned source target u, e)) (lb_analytics s)\<rparr>)"

definition reassign_inline_usage_events :: "uuid \<Rightarrow> uuid \<Rightarrow> library \<Rightarrow> nat \<times> library" where
  "reassign_inline_usage_events source target s =
     (length (filter (\<lambda>u. u = Some source) (lb_inline s)),
      s\<lparr>lb_inline := map (reassigned source target) (lb_inline s)\<rparr>)"

definition count_meme_views :: "library \<Rightarrow> uuid \<Rightarrow> nat" where
  "count_meme_views s u = length (filter (\<lambda>(v, e). v = Some u \<and> e = EV_MEME_VIEW) (lb_analytics s))"

text \<open>The foreign keys of a deleted account: its rows go, references to it become NULL.\<close>

definition unless_user :: "uuid \<Rightarrow> uuid option \<Rightarrow> uuid option" where
  "unless_user g u = (if u = Some g then None else u)"

definition delete_user :: "uuid \<Rightarrow> library \<Rightarrow> library" where
  "delete_user g s =
     (map_lb_db (\<lambda>d. d\<lparr>db_pins := filter (\<lambda>p. pn_user p \<noteq> g) (db_pins d),
          db_sources := map (\<lambda>r. r\<lparr>ms_uploader := unless_user g (ms_uploader r)\<rparr>) (db_sources d)\<rparr>) s)
       \<lparr>lb_users := filter (\<lambda>u. us_id u \<noteq> g) (lb_users s),
        lb_members := filter (\<lambda>r. cm_user r \<noteq> g) (lb_members s),
        lb_invites := map (\<lambda>i. i\<lparr>ci_created_by := unless_user g (ci_created_by i)\<rparr>) (lb_invites s),
        lb_saves := (\<lambda>k. map_option (\<lambda>i. i\<lparr>sv_added_by := unless_user g (sv_added_by i)\<rparr>) (lb_saves s k)),
        lb_analytics := map (\<lambda>(u, e). (unless_user g u, e)) (lb_analytics s),
        lb_inline := map (unless_user g) (lb_inline s),
        lb_interests := (lb_interests s)
          \<lparr>is_rows := (\<lambda>(u, m). if u = g then None else is_rows (lb_interests s) (u, m)),
           is_dirty := (is_dirty (lb_interests s))(g := None),
           is_profiles := filter (\<lambda>u. u \<noteq> g) (is_profiles (lb_interests s)),
           is_signals := filter (\<lambda>(u, m). u \<noteq> g) (is_signals (lb_interests s))\<rparr>\<rparr>"

definition clear_save_pointers :: "uuid \<Rightarrow> library \<Rightarrow> library" where
  "clear_save_pointers c s =
     s\<lparr>lb_users := map (\<lambda>u. if us_active_save u = Some c then u\<lparr>us_active_save := None\<rparr> else u) (lb_users s)\<rparr>"

text \<open>What a merge writes once its checks have passed.\<close>

definition merge_favorites ::
  "library_env \<Rightarrow> collection option \<Rightarrow> uuid \<Rightarrow> library \<Rightarrow> library_error + (nat \<times> nat \<times> library)" where
  "merge_favorites le guest_favorites t s =
     (case guest_favorites of
        None \<Rightarrow> Inr (0, 0, s)
      | Some f \<Rightarrow>
          (let rows = length (filter (\<lambda>(c, m). c = co_id f) (db_collection_memes (lb_db s)))
           in if rows = 0 then Inr (0, 0, s)
              else (case ensured_favorites le t s of
                      Inl e \<Rightarrow> Inl e
                    | Inr (target, s1) \<Rightarrow>
                        (let (n, s2) = transfer_favorites (co_id f) (co_id target) t s1 in Inr (n, rows - n, s2)))))"

definition merged_history :: "library_env \<Rightarrow> uuid \<Rightarrow> uuid \<Rightarrow> library \<Rightarrow> nat \<times> nat \<times> nat \<times> library" where
  "merged_history le g t s =
     (let views = count_meme_views s g;
          (analytics, s1) = reassign_analytics_events g t s;
          (inline, s2) = reassign_inline_usage_events g t s1
      in (views, analytics, inline, map_interests (merge_user_recommendation_state g t (env_now (le_env le))) s2))"

definition removed_guest :: "collection option \<Rightarrow> uuid \<Rightarrow> library \<Rightarrow> library" where
  "removed_guest guest_favorites g s =
     delete_user g
       (case guest_favorites of
          None \<Rightarrow> s | Some f \<Rightarrow> clear_save_pointers (co_id f) (delete_collection_row (co_id f) s))"

definition merge_log_row :: "env \<Rightarrow> uuid \<Rightarrow> uuid \<Rightarrow> nat \<Rightarrow> nat \<Rightarrow> account_merge" where
  "merge_log_row env g t favorites views =
     \<lparr>am_id = env_fresh env 2, am_guest = g, am_target = t, am_favorites = favorites, am_views = views,
      am_created_at = env_now env\<rparr>"

definition merge_guest_into_existing_full ::
  "library_env \<Rightarrow> uuid \<Rightarrow> uuid \<Rightarrow> google_identity option \<Rightarrow> library \<Rightarrow> link_result library_run" where
  "merge_guest_into_existing_full le g t google s =
     check s (require (AccountLinkInvariant ''Guest account cannot merge into itself.'') (g \<noteq> t)) (\<lambda>_.
     check s (found (UserNotFound g) (get_user s g)) (\<lambda>guest.
     check s (found (UserNotFound t) (get_user s t)) (\<lambda>target.
     check s (ensure_guest_can_link guest) (\<lambda>_.
     check s (ensure_canonical_target target) (\<lambda>_.
     check s (require_guest_has_no_custom_collections s g) (\<lambda>favorites.
     check s (case google of
                None \<Rightarrow> Inr s | Some i \<Rightarrow> attached_google le t (gi_google i) (gi_verified_at i) s) (\<lambda>s1.
     check s (merge_favorites le favorites t s1) (\<lambda>(transferred, duplicates, s2).
       let (views, analytics, inline, s3) = merged_history le g t s2;
           log = merge_log_row (le_env le) g t transferred views;
           s4 = removed_guest favorites g (s3\<lparr>lb_merges := lb_merges s3 @ [log]\<rparr>)
       in commit_library le s Integrity
            \<lparr>lr_canonical = t, lr_merged = True, lr_merge_log = Some (am_id log), lr_deleted_guest = Some g,
             lr_favorites = transferred, lr_duplicates = duplicates, lr_analytics = analytics, lr_inline = inline,
             lr_views = views\<rparr> s4))))))))"

section \<open>The flows\<close>

text \<open>
  A failed link is rolled back; when the identity had been resolved, a link that another request finished meanwhile is
  reported instead of the error. A database error that is no \<open>IntegrityError\<close> passes through.
\<close>

definition link_completed_elsewhere :: "uuid \<Rightarrow> time \<Rightarrow> app_user option \<Rightarrow> library \<Rightarrow> bool" where
  "link_completed_elsewhere g started snapshot s \<longleftrightarrow>
     (case snapshot of
        None \<Rightarrow> False
      | Some before \<Rightarrow>
          us_type before = GUEST \<and> us_status before = ACCOUNT_ACTIVE \<and>
          (list_ex (\<lambda>l. am_guest l = g \<and> started \<le> am_created_at l) (lb_merges s) \<or>
           (case get_user s g of
              None \<Rightarrow> False
            | Some u \<Rightarrow>
                us_type u = FULL \<and> us_status u = ACCOUNT_ACTIVE \<and> us_guest_expires_at u = None \<and>
                started \<le> us_updated_at u \<and> has_linked_login_identity u)))"

definition link_failure ::
  "uuid \<Rightarrow> time \<Rightarrow> app_user option \<Rightarrow> bool \<Rightarrow> library_error \<Rightarrow> library \<Rightarrow> library_error" where
  "link_failure g started snapshot resolved e s =
     (if resolved \<and> link_completed_elsewhere g started snapshot s then AccountLinkAlreadyCompleted else e)"

definition is_duplicate_identity :: "library_error \<Rightarrow> bool" where
  "is_duplicate_identity e = (case e of DuplicateIdentity _ \<Rightarrow> True | _ \<Rightarrow> False)"

text \<open>
  The frame of a flow: bootstrap the guest when there is none, run \<open>body\<close> (whether the identity was resolved, and the
  outcome); after a failure, \<open>others\<close> is what the rolled-back session finds, and \<open>recover\<close> handles a duplicate identity.
\<close>

definition translated :: "text_value \<Rightarrow> library_error \<Rightarrow> library_error" where
  "translated message e = (case e of Integrity _ \<Rightarrow> AccountLinkInvariant message | _ \<Rightarrow> e)"

definition link_flow ::
  "library_env \<Rightarrow> uuid option \<Rightarrow> (library \<Rightarrow> library) \<Rightarrow> text_value \<Rightarrow>
   (uuid \<Rightarrow> library \<Rightarrow> bool \<times> link_result library_run) \<Rightarrow>
   (uuid \<Rightarrow> library_error \<Rightarrow> library \<Rightarrow> link_result library_run) \<Rightarrow> library \<Rightarrow> link_result library_run" where
  "link_flow le guest others message body recover s =
     (case (case guest of Some g \<Rightarrow> Inr (g, s) | None \<Rightarrow> created_guest le USER_ANY False s) of
        Inl e \<Rightarrow> (Inl e, s)
      | Inr (g, s1) \<Rightarrow>
          (case body g s1 of
             (_, (Inr r, s2)) \<Rightarrow> (Inr r, s2)
           | (resolved, (Inl e, _)) \<Rightarrow>
               (let s2 = others s;
                    e' = link_failure g (env_now (le_env le)) (get_user s1 g) resolved e s2
                in if e = DatabaseFailure then (Inl e, s2)
                   else if e' \<noteq> e then (Inl e', s2)
                   else if is_duplicate_identity e then recover g e s2
                   else (Inl (translated message e), s2))))"

definition ensure_account_is_available :: "app_user \<Rightarrow> library_error + unit" where
  "ensure_account_is_available u = (if us_status u \<noteq> ACCOUNT_ACTIVE then Inl AccountUnavailable else Inr ())"

definition ensure_google_reuse_is_allowed :: "app_user \<Rightarrow> library_error + unit" where
  "ensure_google_reuse_is_allowed u =
     (case ensure_account_is_available u of
        Inl e \<Rightarrow> Inl e
      | Inr _ \<Rightarrow> if us_telegram u \<noteq> None \<or> us_google u \<noteq> None then Inl EmailAlreadyInUse else Inr ())"

definition resolve_google_identity :: "library \<Rightarrow> google_identity \<Rightarrow> library_error + (uuid option \<times> matched_by)" where
  "resolve_google_identity s i =
     (case get_by_google_id s (gi_google i) of
        Inl e \<Rightarrow> Inl e
      | Inr (Some u) \<Rightarrow>
          (case ensure_account_is_available u of Inl e \<Rightarrow> Inl e | Inr _ \<Rightarrow> Inr (Some (us_id u), BY_GOOGLE_ID))
      | Inr None \<Rightarrow>
          (case (gi_email i, gi_verified_at i) of
             (Some m, Some _) \<Rightarrow>
               (case get_by_email s m of
                  Inl e \<Rightarrow> Inl e
                | Inr (Some u) \<Rightarrow>
                    (case ensure_google_reuse_is_allowed u of
                       Inl e \<Rightarrow> Inl e | Inr _ \<Rightarrow> Inr (Some (us_id u), BY_VERIFIED_EMAIL))
                | Inr None \<Rightarrow> Inr (None, BY_NOTHING))
           | _ \<Rightarrow> Inr (None, BY_NOTHING)))"

definition merge_google ::
  "library_env \<Rightarrow> uuid \<Rightarrow> google_identity \<Rightarrow> uuid \<Rightarrow> matched_by \<Rightarrow> library \<Rightarrow> link_result library_run" where
  "merge_google le g i t how s =
     merge_guest_into_existing_full le g t (if how = BY_VERIFIED_EMAIL then Some i else None) s"

definition google_upgrade :: "google_identity \<Rightarrow> upgrade" where
  "google_upgrade i =
     \<lparr>up_telegram = None, up_google = Some (gi_google i), up_email = gi_email i, up_verified_at = gi_verified_at i,
      up_password_hash = None\<rparr>"

definition link_guest_with_google_identity ::
  "library_env \<Rightarrow> uuid option \<Rightarrow> (library \<Rightarrow> library) \<Rightarrow> google_identity \<Rightarrow> library \<Rightarrow> link_result library_run" where
  "link_guest_with_google_identity le guest others i =
     link_flow le guest others ''Failed to link the guest account with Google.''
       (\<lambda>g s. case resolve_google_identity s i of
          Inl e \<Rightarrow> (False, (Inl e, s))
        | Inr (None, how) \<Rightarrow> (True, upgrade_guest_in_place le g (google_upgrade i) s)
        | Inr (Some t, how) \<Rightarrow> (True, merge_google le g i t how s))
       (\<lambda>g e s. case resolve_google_identity s i of
          Inl e' \<Rightarrow> (Inl e', s)
        | Inr (None, how) \<Rightarrow> (Inl (ProviderPayloadInvalid ''Google identity could not be resolved safely.''), s)
        | Inr (Some t, how) \<Rightarrow> merge_google le g i t how s)"

definition telegram_upgrade :: "int \<Rightarrow> upgrade" where
  "telegram_upgrade telegram =
     \<lparr>up_telegram = Some telegram, up_google = None, up_email = None, up_verified_at = None, up_password_hash = None\<rparr>"

definition link_guest_with_telegram_identity ::
  "library_env \<Rightarrow> uuid option \<Rightarrow> (library \<Rightarrow> library) \<Rightarrow> int \<Rightarrow> library \<Rightarrow> link_result library_run" where
  "link_guest_with_telegram_identity le guest others telegram =
     link_flow le guest others ''Failed to link the guest account with Telegram.''
       (\<lambda>g s. case get_by_telegram_id s telegram of
          Inl e \<Rightarrow> (False, (Inl e, s))
        | Inr None \<Rightarrow> (True, upgrade_guest_in_place le g (telegram_upgrade telegram) s)
        | Inr (Some u) \<Rightarrow> (True, merge_guest_into_existing_full le g (us_id u) None s))
       (\<lambda>g e s. case get_by_telegram_id s telegram of
          Inl e' \<Rightarrow> (Inl e', s)
        | Inr None \<Rightarrow> (Inl (ProviderPayloadInvalid ''Telegram identity could not be resolved safely.''), s)
        | Inr (Some u) \<Rightarrow> merge_guest_into_existing_full le g (us_id u) None s)"

text \<open>\<open>signup\<close> is what the provider prepared: the normalized email and the password hash.\<close>

definition link_guest_with_email_signup ::
  "library_env \<Rightarrow> uuid option \<Rightarrow> (library \<Rightarrow> library) \<Rightarrow> library_error + (text_value \<times> text_value) \<Rightarrow> library \<Rightarrow>
   link_result library_run" where
  "link_guest_with_email_signup le guest others signup =
     link_flow le guest others ''Failed to link the guest account with email signup.''
       (\<lambda>g s. case signup of
          Inl e \<Rightarrow> (False, (Inl e, s))
        | Inr (email, hash) \<Rightarrow>
            (True, upgrade_guest_in_place le g
               \<lparr>up_telegram = None, up_google = None, up_email = Some email, up_verified_at = None,
                up_password_hash = Some hash\<rparr> s))
       (\<lambda>g e s. (Inl EmailAlreadyInUse, s))"

text \<open>\<open>login\<close> is the account the provider resolved, or its error.\<close>

definition link_guest_with_email_login ::
  "library_env \<Rightarrow> uuid option \<Rightarrow> (library \<Rightarrow> library) \<Rightarrow> (library \<Rightarrow> library_error + uuid) \<Rightarrow> library \<Rightarrow>
   link_result library_run" where
  "link_guest_with_email_login le guest others login =
     link_flow le guest others ''Failed to merge the guest account into the email account.''
       (\<lambda>g s. case login s of
          Inl e \<Rightarrow> (False, (Inl e, s))
        | Inr t \<Rightarrow> (True, merge_guest_into_existing_full le g t None s))
       (\<lambda>g e s. (Inl e, s))"

section \<open>Telegram link codes\<close>

definition TELEGRAM_LINK_START_PREFIX :: text_value where "TELEGRAM_LINK_START_PREFIX = ''link_''"
definition TELEGRAM_MAX_START_PARAMETER_LENGTH :: nat where "TELEGRAM_MAX_START_PARAMETER_LENGTH = 64"

definition MAX_TELEGRAM_LINK_CODE_LENGTH :: nat where
  "MAX_TELEGRAM_LINK_CODE_LENGTH = TELEGRAM_MAX_START_PARAMETER_LENGTH - length TELEGRAM_LINK_START_PREFIX"

definition link_code_char :: "char \<Rightarrow> bool" where
  "link_code_char c \<longleftrightarrow>
     (let n = of_char c :: nat
      in (48 \<le> n \<and> n \<le> 57) \<or> (65 \<le> n \<and> n \<le> 90) \<or> (97 \<le> n \<and> n \<le> 122) \<or> c = CHR ''_'' \<or> c = CHR ''-'')"

definition normalize_telegram_link_code :: "text_value \<Rightarrow> library_error + text_value" where
  "normalize_telegram_link_code code =
     (let t = py_strip code
      in if t = [] \<or> length t > MAX_TELEGRAM_LINK_CODE_LENGTH \<or> \<not> list_all link_code_char t
         then Inl (AccountLinkInvariant ''Telegram link code is invalid.'') else Inr t)"

definition require_telegram_link_configuration :: "library_env \<Rightarrow> library_error + (text_value \<times> text_value)" where
  "require_telegram_link_configuration le =
     (case le_bot_username le of
        None \<Rightarrow> Inl ProviderNotConfigured
      | Some name \<Rightarrow>
          (case le_return_url le of
             None \<Rightarrow> Inl (AuthConfiguration ''Telegram link return URL is not configured.'')
           | Some url \<Rightarrow> Inr (name, url)))"

definition build_telegram_deep_link :: "text_value \<Rightarrow> text_value \<Rightarrow> text_value" where
  "build_telegram_deep_link name code = ''https://t.me/'' @ name @ ''?start='' @ TELEGRAM_LINK_START_PREFIX @ code"

definition expire_active_telegram_link_codes :: "env \<Rightarrow> uuid \<Rightarrow> library \<Rightarrow> library" where
  "expire_active_telegram_link_codes env g s =
     s\<lparr>lb_link_codes := map (\<lambda>l. if lc_guest l = g \<and> lc_redeemed_at l = None \<and> env_now env < lc_expires_at l
          then l\<lparr>lc_expires_at := env_now env\<rparr> else l) (lb_link_codes s)\<rparr>"

definition link_code_error :: "db_constraint \<Rightarrow> library_error" where
  "link_code_error c =
     (if c = UQ_LINK_CODE then AccountLinkInvariant ''Telegram link code collision detected; please retry.''
      else AccountLinkInvariant ''Failed to issue the Telegram link code.'')"

definition issue_telegram_link_code :: "library_env \<Rightarrow> uuid \<Rightarrow> library \<Rightarrow> (text_value \<times> text_value \<times> time) library_run" where
  "issue_telegram_link_code le g s =
     check s (require_telegram_link_configuration le) (\<lambda>(name, url).
     check s (normalize_telegram_link_code (le_link_code le)) (\<lambda>code.
     check s (found (UserNotFound g) (get_user s g)) (\<lambda>guest.
     check s (ensure_guest_can_link guest) (\<lambda>_.
     check s (require_guest_has_no_custom_collections s g) (\<lambda>_.
       let expires = env_now (le_env le) + le_link_ttl le;
           s1 = expire_active_telegram_link_codes (le_env le) g s;
           l = \<lparr>lc_id = env_fresh (le_env le) 0, lc_guest = g, lc_hash = le_sha256 le code, lc_expires_at = expires,
                lc_redeemed_at = None, lc_redeemed_by = None\<rparr>
       in commit_library le s link_code_error (code, build_telegram_deep_link name code, expires)
            (s1\<lparr>lb_link_codes := lb_link_codes s1 @ [l]\<rparr>))))))"

definition lock_telegram_link_code :: "library_env \<Rightarrow> text_value \<Rightarrow> library \<Rightarrow> library_error + link_code" where
  "lock_telegram_link_code le code s =
     (case filter (\<lambda>l. lc_hash l = le_sha256 le code) (lb_link_codes s) of
        [] \<Rightarrow> Inl (AccountLinkInvariant ''Telegram link code is invalid.'')
      | [l] \<Rightarrow> Inr l
      | _ \<Rightarrow> Inl (AccountLinkInvariant ''Telegram link code state is invalid.''))"

definition redeemed_code :: "env \<Rightarrow> int \<Rightarrow> link_code \<Rightarrow> link_code" where
  "redeemed_code env telegram l = l\<lparr>lc_redeemed_at := Some (env_now env), lc_redeemed_by := Some telegram\<rparr>"

text \<open>
  The mark on the code is pending in the session of the link: it is committed with it, and gone once the link has
  rolled its session back.
\<close>

definition redeem_telegram_link_code ::
  "library_env \<Rightarrow> (library \<Rightarrow> library) \<Rightarrow> text_value \<Rightarrow> int \<Rightarrow> library \<Rightarrow> link_result library_run" where
  "redeem_telegram_link_code le others code0 telegram s =
     check s (normalize_telegram_link_code code0) (\<lambda>code.
     check s (lock_telegram_link_code le code s) (\<lambda>l.
     check s (require (AccountLinkInvariant ''Telegram link code has already been redeemed.'') (lc_redeemed_at l = None)) (\<lambda>_.
     check s (require (AccountLinkInvariant ''Telegram link code has expired.'') (env_now (le_env le) < lc_expires_at l)) (\<lambda>_.
       case link_guest_with_telegram_identity le (Some (lc_guest l)) (\<lambda>_. others s) telegram
              (s\<lparr>lb_link_codes := row_put lc_id (redeemed_code (le_env le) telegram l) (lb_link_codes s)\<rparr>) of
         (Inl e, s') \<Rightarrow> (Inl (translated ''Failed to redeem the Telegram link code.'' e), s')
       | (Inr r, s') \<Rightarrow> (Inr r, s')))))"

end
