(* ===== verification/Account_Properties.thy ===== *)
theory Account_Properties
  imports Account_Links
begin

text \<open>
  What linking an account does: a merge hands the guest's favorites and history to the account and leaves no trace of
  the guest, one account holds an identity, a failed link changes nothing, a link code works once. A favorite that
  guest and account shared keeps its second like.
\<close>

section \<open>Inversion\<close>

lemma merge_success:
  assumes "merge_guest_into_existing_full le g t google s = (Inr r, s')"
  obtains guest target favorites s1 n dup s2 views analytics inline s3 where
    "g \<noteq> t" "get_user s g = Some guest" "get_user s t = Some target" "ensure_canonical_target target = Inr ()"
    "ensure_guest_can_link guest = Inr ()" "require_guest_has_no_custom_collections s g = Inr favorites"
    "(case google of None \<Rightarrow> Inr s | Some i \<Rightarrow> attached_google le t (gi_google i) (gi_verified_at i) s) = Inr s1"
    "merge_favorites le favorites t s1 = Inr (n, dup, s2)"
    "merged_history le g t s2 = (views, analytics, inline, s3)"
    "s' = removed_guest favorites g (s3\<lparr>lb_merges := lb_merges s3 @ [merge_log_row (le_env le) g t n views]\<rparr>)"
    "violated_constraint s' = None" "lr_canonical r = t" "lr_favorites r = n" "lr_duplicates r = dup"
    "lr_analytics r = analytics"
proof -
  from assms obtain guest target favorites s1 n dup s2 where 1:
    "g \<noteq> t" "get_user s g = Some guest" "get_user s t = Some target" "ensure_canonical_target target = Inr ()"
    "ensure_guest_can_link guest = Inr ()" "require_guest_has_no_custom_collections s g = Inr favorites"
    "(case google of None \<Rightarrow> Inr s | Some i \<Rightarrow> attached_google le t (gi_google i) (gi_verified_at i) s) = Inr s1"
    "merge_favorites le favorites t s1 = Inr (n, dup, s2)"
    and 2: "(let (views, analytics, inline, s3) = merged_history le g t s2;
           log = merge_log_row (le_env le) g t n views;
           s4 = removed_guest favorites g (s3\<lparr>lb_merges := lb_merges s3 @ [log]\<rparr>)
       in commit_library le s Integrity
            \<lparr>lr_canonical = t, lr_merged = True, lr_merge_log = Some (am_id log), lr_deleted_guest = Some g,
             lr_favorites = n, lr_duplicates = dup, lr_analytics = analytics, lr_inline = inline,
             lr_views = views\<rparr> s4) = (Inr r, s')"
    unfolding merge_guest_into_existing_full_def check_Inr by auto
  obtain views analytics inline s3 where h: "merged_history le g t s2 = (views, analytics, inline, s3)"
    by (cases "merged_history le g t s2")
  from 2 show ?thesis
    unfolding h Let_def by (intro that [OF 1 h]) (auto simp: commit_library_Inr)
qed

lemma merged_history_frame:
  assumes "merged_history le g t s = (views, analytics, inline, s')"
  shows "lb_db s' = lb_db s" "lb_users s' = lb_users s" "lb_collections s' = lb_collections s" "lb_members s' = lb_members s"
    "lb_invites s' = lb_invites s" "lb_saves s' = lb_saves s" "lb_link_codes s' = lb_link_codes s"
    "lb_analytics s' = map (\<lambda>(u, e). (reassigned g t u, e)) (lb_analytics s)"
    "analytics = length (filter (\<lambda>(u, e). u = Some g) (lb_analytics s))"
  using assms
  by (auto simp: merged_history_def reassign_analytics_events_def reassign_inline_usage_events_def map_interests_def Let_def)

lemma attached_google_frame:
  assumes "attached_google le t i v s = Inr s1"
  shows "lb_db s1 = lb_db s" "lb_collections s1 = lb_collections s" "lb_members s1 = lb_members s"
    "lb_analytics s1 = lb_analytics s" "lb_link_codes s1 = lb_link_codes s" "lb_invites s1 = lb_invites s"
  using assms
  by (auto simp: attached_google_def flush_library_Inr put_user_def split: sum.splits option.splits if_splits)

lemma google_step_frame:
  assumes "(case google of None \<Rightarrow> Inr s | Some i \<Rightarrow> attached_google le t (gi_google i) (gi_verified_at i) s) = Inr s1"
  shows "lb_db s1 = lb_db s" "lb_collections s1 = lb_collections s" "lb_members s1 = lb_members s"
    "lb_analytics s1 = lb_analytics s" "lb_link_codes s1 = lb_link_codes s" "lb_invites s1 = lb_invites s"
  using assms attached_google_frame by (auto split: option.splits)

lemma removed_guest_frame:
  "db_memes (lb_db (removed_guest f g s)) = db_memes (lb_db s)"
  "lb_collections (removed_guest f g s) =
     filter (\<lambda>c. case f of None \<Rightarrow> True | Some x \<Rightarrow> co_id c \<noteq> co_id x) (lb_collections s)"
  "db_collection_memes (lb_db (removed_guest f g s)) =
     filter (\<lambda>(c, m). case f of None \<Rightarrow> True | Some x \<Rightarrow> c \<noteq> co_id x) (db_collection_memes (lb_db s))"
  "lb_analytics (removed_guest f g s) = map (\<lambda>(u, e). (unless_user g u, e)) (lb_analytics s)"
  "lb_link_codes (removed_guest f g s) = lb_link_codes s"
  by (auto simp: removed_guest_def delete_user_def delete_collection_row_def clear_save_pointers_def map_lb_db_def
      split: option.splits)

lemma removed_guest_users: "get_user (removed_guest f g s) g = None"
  by (auto simp: removed_guest_def delete_user_def get_user_def row_get_None_iff)

section \<open>Favorites\<close>

definition favorite_memes :: "library \<Rightarrow> uuid \<Rightarrow> uuid list" where
  "favorite_memes s u = (case favorites_of s u of None \<Rightarrow> [] | Some c \<Rightarrow> saves_in s (co_id c))"

lemma mem_saves_in: "m \<in> set (saves_in s c) \<longleftrightarrow> (c, m) \<in> set (db_collection_memes (lb_db s))"
  by (force simp: saves_in_def)

lemma find_filter_hd: "find P xs = (case filter P xs of [] \<Rightarrow> None | x # _ \<Rightarrow> Some x)"
  by (induction xs) auto

lemma guest_favorites:
  assumes "require_guest_has_no_custom_collections s g = Inr f"
  shows "favorites_of s g = f"
proof -
  have "filter (\<lambda>c. co_kind c = FAVORITES) (filter (\<lambda>c. co_owner c = g) (lb_collections s)) =
      filter (\<lambda>c. co_owner c = g \<and> co_kind c = FAVORITES) (lb_collections s)"
    by (simp add: conj_commute)
  with assms show ?thesis
    by (auto simp: require_guest_has_no_custom_collections_def favorites_of_def find_filter_hd Let_def
        split: if_splits list.splits)
qed

lemma favorites_count_card:
  assumes "distinct (sh_saves h)"
  shows "favorites_count h m = card {c. (c, m) \<in> set (sh_saves h) \<and> is_favorites h c}"
proof -
  have "favorites_count h m = card (set (filter (\<lambda>(c, k). k = m \<and> is_favorites h c) (sh_saves h)))"
    unfolding favorites_count_def by (rule distinct_card [symmetric]) (simp add: assms)
  also have "set (filter (\<lambda>(c, k). k = m \<and> is_favorites h c) (sh_saves h)) =
      (\<lambda>c. (c, m)) ` {c. (c, m) \<in> set (sh_saves h) \<and> is_favorites h c}" by auto
  also have "card \<dots> = card {c. (c, m) \<in> set (sh_saves h) \<and> is_favorites h c}"
    by (rule card_image) (simp add: inj_on_def)
  finally show ?thesis .
qed

lemma find_append_case: "find P (xs @ ys) = (case find P xs of None \<Rightarrow> find P ys | Some x \<Rightarrow> Some x)"
  by (induction xs) auto

lemma find_filter_same: "(\<And>x. x \<in> set xs \<Longrightarrow> P x \<Longrightarrow> Q x) \<Longrightarrow> find P (filter Q xs) = find P xs"
  by (induction xs) auto

lemma favorites_of_iff:
  assumes "distinct (map co_owner (filter (\<lambda>c. co_kind c = FAVORITES) (lb_collections s)))"
  shows "favorites_of s u = Some c \<longleftrightarrow> c \<in> set (lb_collections s) \<and> co_owner c = u \<and> co_kind c = FAVORITES"
proof
  assume "favorites_of s u = Some c"
  then show "c \<in> set (lb_collections s) \<and> co_owner c = u \<and> co_kind c = FAVORITES" by (rule favorites_of_mem)
next
  assume c: "c \<in> set (lb_collections s) \<and> co_owner c = u \<and> co_kind c = FAVORITES"
  then obtain d where d: "favorites_of s u = Some d"
    by (cases "favorites_of s u") (auto simp: favorites_of_def find_None_iff)
  have "d = c"
    using c favorites_of_mem [OF d] assms
    by (intro inj_onD [of co_owner "set (filter (\<lambda>c. co_kind c = FAVORITES) (lb_collections s))"]) (auto simp: distinct_map)
  with d show "favorites_of s u = Some c" by simp
qed

text \<open>The accounts that have a meme among their favorites; there are as many as Favorites that hold it.\<close>

definition likers :: "library \<Rightarrow> uuid \<Rightarrow> uuid set" where
  "likers s m = {u. m \<in> set (favorite_memes s u)}"

lemma favorites_count_likers:
  assumes saves: "distinct (db_collection_memes (lb_db s))" and ids: "distinct (map co_id (lb_collections s))"
    and favs: "distinct (map co_owner (filter (\<lambda>c. co_kind c = FAVORITES) (lb_collections s)))"
  shows "favorites_count (shelf_of s) m = card (likers s m)"
proof -
  let ?C = "{c \<in> set (lb_collections s). co_kind c = FAVORITES \<and> (co_id c, m) \<in> set (db_collection_memes (lb_db s))}"
  have "{k. (k, m) \<in> set (sh_saves (shelf_of s)) \<and> is_favorites (shelf_of s) k} = co_id ` ?C"
    by (auto simp: is_favorites_iff image_iff) metis
  moreover have "inj_on co_id ?C" using ids by (auto simp: distinct_map inj_on_def)
  ultimately have "favorites_count (shelf_of s) m = card ?C"
    using favorites_count_card [of "shelf_of s" m] saves by (simp add: card_image)
  moreover have "likers s m = co_owner ` ?C"
    using favorites_of_iff [OF favs]
    by (force simp: likers_def favorite_memes_def mem_saves_in split: option.splits)
  moreover have "inj_on co_owner ?C" using favs by (auto simp: distinct_map inj_on_def)
  ultimately show ?thesis by (simp add: card_image)
qed

section \<open>What a merge does\<close>

lemma ensured_favorites_collections:
  assumes "ensured_favorites le u s = Inr (col, t)"
  shows "(favorites_of s u = Some col \<and> t = s) \<or>
    (favorites_of s u = None \<and> col = new_favorites (le_env le) u \<and> lb_collections t = lb_collections s @ [col] \<and>
     lb_db t = lb_db s \<and> lb_analytics t = lb_analytics s \<and> lb_link_codes t = lb_link_codes s)"
  using assms
  by (auto simp: ensured_favorites_def Let_def flush_library_Inr put_member_def put_user_def
      split: option.splits sum.splits if_splits)

lemma transferred_saves:
  "db_collection_memes (lb_db (snd (transfer_favorites from to u s))) =
     db_collection_memes (lb_db s) @ map (Pair to) (transferred_memes s from to)"
  "set (transferred_memes s from to) = set (saves_in s from) - set (saves_in s to)"
  "lb_collections (snd (transfer_favorites from to u s)) = lb_collections s"
  "db_memes (lb_db (snd (transfer_favorites from to u s))) = db_memes (lb_db s)"
  "lb_analytics (snd (transfer_favorites from to u s)) = lb_analytics s"
  "lb_link_codes (snd (transfer_favorites from to u s)) = lb_link_codes s"
  "lb_users (snd (transfer_favorites from to u s)) = lb_users s"
  "lb_members (snd (transfer_favorites from to u s)) = lb_members s"
  "lb_invites (snd (transfer_favorites from to u s)) = lb_invites s"
  "db_pins (lb_db (snd (transfer_favorites from to u s))) = db_pins (lb_db s)"
proof -
  show "set (transferred_memes s from to) = set (saves_in s from) - set (saves_in s to)"
    unfolding transferred_memes_def saves_in_def saved_def by force
qed (simp_all add: transfer_favorites_def saved_def map_lb_db_def Let_def)

text \<open>The favorites of every account after the favorites of \<open>g\<close> have gone to \<open>t\<close> and the collection of \<open>g\<close> is deleted.\<close>

definition one_favorites :: "library \<Rightarrow> bool" where
  "one_favorites s \<longleftrightarrow> distinct (map co_owner (filter (\<lambda>c. co_kind c = FAVORITES) (lb_collections s)))"

lemma one_favorites_ensured:
  assumes "one_favorites s" "ensured_favorites le u s = Inr (col, t)"
  shows "one_favorites t"
  using ensured_favorites_collections [OF assms(2)]
proof
  assume "favorites_of s u = Some col \<and> t = s"
  with assms(1) show ?thesis by simp
next
  assume t: "favorites_of s u = None \<and> col = new_favorites (le_env le) u \<and> lb_collections t = lb_collections s @ [col] \<and>
     lb_db t = lb_db s \<and> lb_analytics t = lb_analytics s \<and> lb_link_codes t = lb_link_codes s"
  then have "u \<notin> co_owner ` set (filter (\<lambda>c. co_kind c = FAVORITES) (lb_collections s))"
    by (auto simp: favorites_of_def find_None_iff)
  with t assms(1) show ?thesis by (simp add: one_favorites_def new_favorites_def)
qed

lemma merge_favorites_cases:
  assumes "merge_favorites le f t s = Inr (n, dup, s2)"
  obtains (unchanged) "s2 = s" "n = 0" "dup = 0" "f = None \<or> (\<exists>x. f = Some x \<and> saves_in s (co_id x) = [])"
  | (moved) x col s1 where "f = Some x" "ensured_favorites le t s = Inr (col, s1)"
      "s2 = snd (transfer_favorites (co_id x) (co_id col) t s1)" "n = length (transferred_memes s1 (co_id x) (co_id col))"
      "dup = length (saves_in s (co_id x)) - n"
proof (cases f)
  case None
  with assms show ?thesis by (intro unchanged) (auto simp: merge_favorites_def)
next
  case (Some x)
  show ?thesis
  proof (cases "saves_in s (co_id x) = []")
    case True
    with assms Some show ?thesis by (intro unchanged) (auto simp: merge_favorites_def saves_in_def)
  next
    case False
    then have "length (filter (\<lambda>(c, m). c = co_id x) (db_collection_memes (lb_db s))) \<noteq> 0" by (auto simp: saves_in_def)
    with assms Some obtain col s1 where e: "ensured_favorites le t s = Inr (col, s1)"
      by (auto simp: merge_favorites_def Let_def split: sum.splits)
    with False assms Some show ?thesis
      by (intro moved [OF Some e]) (auto simp: merge_favorites_def saves_in_def transfer_favorites_def Let_def)
  qed
qed

lemma favorites_without:
  assumes ids: "distinct (map co_id (lb_collections s))" and one: "one_favorites s" and f: "favorites_of s g = f"
    and cols: "lb_collections s' = filter (\<lambda>c. case f of None \<Rightarrow> True | Some x \<Rightarrow> co_id c \<noteq> co_id x) (lb_collections s)"
    and saves: "db_collection_memes (lb_db s') =
         filter (\<lambda>(c, m). case f of None \<Rightarrow> True | Some x \<Rightarrow> c \<noteq> co_id x) (db_collection_memes (lb_db s))"
  shows "favorite_memes s' u = (if u = g then [] else favorite_memes s u)"
proof (cases f)
  case None
  have "saves_in s' c = saves_in s c" for c using saves None by (simp add: saves_in_def)
  moreover have "favorites_of s' u = favorites_of s u" using cols None by (simp add: favorites_of_def)
  ultimately show ?thesis using f None by (auto simp: favorite_memes_def split: option.splits)
next
  case (Some x)
  have x: "x \<in> set (lb_collections s)" "co_owner x = g" "co_kind x = FAVORITES"
    using favorites_of_mem [of s g x] f Some by auto
  have same: "c = x" if "c \<in> set (lb_collections s)" "co_id c = co_id x" for c
    using ids x that by (auto simp: distinct_map inj_on_def)
  have other: "co_id c \<noteq> co_id x" if "favorites_of s u = Some c" "u \<noteq> g" for c
    using favorites_of_mem [OF that(1)] that(2) same x by auto
  have "favorites_of s' u = (if u = g then None else favorites_of s u)"
  proof (cases "u = g")
    case True
    have "c = x" if "c \<in> set (lb_collections s)" "co_owner c = g" "co_kind c = FAVORITES" for c
      using favorites_of_iff [of s g c] one f Some that by (simp add: one_favorites_def)
    with True Some cols show ?thesis by (auto simp: favorites_of_def find_None_iff)
  next
    case False
    with x same show ?thesis
      unfolding favorites_of_def cols Some option.case by (auto intro!: find_filter_same)
  qed
  moreover have "saves_in s' c = saves_in s c" if "c \<noteq> co_id x" for c
    unfolding saves_in_def saves Some option.case filter_filter
    by (rule arg_cong [where f = "map snd"], rule filter_cong) (use that in auto)
  ultimately show ?thesis using other by (auto simp: favorite_memes_def split: option.splits)
qed

lemma ensured_favorite_memes:
  assumes "ensured_favorites le t s = Inr (col, s1)"
    and "env_fresh (le_env le) 0 \<notin> fst ` set (db_collection_memes (lb_db s))"
  shows "favorites_of s1 t = Some col" "favorite_memes s1 u = favorite_memes s u"
proof -
  note e = ensured_favorites_collections [OF assms(1)]
  show "favorites_of s1 t = Some col"
    using e by (auto simp: favorites_of_def new_favorites_def find_append_case)
  have "saves_in s (env_fresh (le_env le) 0) = []" using assms(2) by (force simp: saves_in_def filter_empty_conv)
  with e show "favorite_memes s1 u = favorite_memes s u"
    by (auto simp: favorite_memes_def favorites_of_def new_favorites_def find_append_case saves_in_def split: option.splits if_splits)
qed

lemma transferred_favorite_memes:
  assumes ids: "distinct (map co_id (lb_collections s))" and one: "one_favorites s"
    and x: "favorites_of s g = Some x" and col: "favorites_of s t = Some col"
  shows "m \<in> set (favorite_memes (snd (transfer_favorites (co_id x) (co_id col) t s)) u) \<longleftrightarrow>
    m \<in> set (favorite_memes s u) \<or> (u = t \<and> m \<in> set (favorite_memes s g))"
proof -
  have same: "co_id c = co_id col \<longleftrightarrow> u = t" if c: "favorites_of s u = Some c" for c
  proof
    assume "co_id c = co_id col"
    moreover have "c \<in> set (lb_collections s)" "col \<in> set (lb_collections s)" "co_owner c = u" "co_owner col = t"
      using favorites_of_mem [OF c] favorites_of_mem [OF col] by auto
    ultimately have "c = col" using ids by (meson distinct_map inj_onD)
    with \<open>co_owner c = u\<close> \<open>co_owner col = t\<close> show "u = t" by simp
  qed (use c col in simp)
  let ?s = "snd (transfer_favorites (co_id x) (co_id col) t s)"
  have f: "favorites_of ?s v = favorites_of s v" for v by (simp add: favorites_of_def transferred_saves)
  have m: "m \<in> set (saves_in ?s c) \<longleftrightarrow>
      m \<in> set (saves_in s c) \<or> (c = co_id col \<and> m \<in> set (saves_in s (co_id x)))" for c
    using transferred_saves(2) [of s "co_id x" "co_id col"] by (auto simp: mem_saves_in transferred_saves(1))
  show "m \<in> set (favorite_memes ?s u) \<longleftrightarrow> m \<in> set (favorite_memes s u) \<or> (u = t \<and> m \<in> set (favorite_memes s g))"
  proof (cases "favorites_of s u")
    case None
    with col show ?thesis by (auto simp: favorite_memes_def f)
  next
    case (Some c)
    with same [OF Some] x show ?thesis by (simp add: favorite_memes_def f m)
  qed
qed

lemma merged_favorites:
  assumes f: "favorites_of s g = f" and "g \<noteq> t" and merge: "merge_favorites le f t s = Inr (n, dup, s2)"
    and ids: "distinct (map co_id (lb_collections s))" and fresh: "env_fresh (le_env le) 0 \<notin> set (map co_id (lb_collections s))"
    and known: "\<And>c m. (c, m) \<in> set (db_collection_memes (lb_db s)) \<Longrightarrow> c \<in> co_id ` set (lb_collections s)"
    and s': "lb_collections s' = filter (\<lambda>c. case f of None \<Rightarrow> True | Some x \<Rightarrow> co_id c \<noteq> co_id x) (lb_collections s2)"
      "db_collection_memes (lb_db s') =
         filter (\<lambda>(c, m). case f of None \<Rightarrow> True | Some x \<Rightarrow> c \<noteq> co_id x) (db_collection_memes (lb_db s2))"
    and one: "one_favorites s"
  shows "m \<in> set (favorite_memes s' u) \<longleftrightarrow>
      u \<noteq> g \<and> (m \<in> set (favorite_memes s u) \<or> u = t \<and> m \<in> set (favorite_memes s g))"
  using merge
proof (cases rule: merge_favorites_cases)
  case unchanged
  have g: "favorite_memes s g = []" using unchanged f by (auto simp: favorite_memes_def)
  show ?thesis using favorites_without [OF ids one f, of s' u] s' unchanged(1) g by simp
next
  case (moved x col s1)
  have fresh': "env_fresh (le_env le) 0 \<notin> fst ` set (db_collection_memes (lb_db s))" using fresh known by auto
  note e = ensured_favorite_memes [OF moved(2) fresh']
  have "distinct (map co_id (lb_collections s1))"
    using ensured_favorites_collections [OF moved(2)] ids fresh by (auto simp: new_favorites_def)
  then have ids2: "distinct (map co_id (lb_collections s2))" by (simp add: moved(3) transferred_saves)
  have one1: "one_favorites s1" by (rule one_favorites_ensured [OF one moved(2)])
  then have one2: "one_favorites s2" by (simp add: one_favorites_def moved(3) transferred_saves)
  have x: "favorites_of s1 g = Some x"
    using ensured_favorites_collections [OF moved(2)] f moved(1) by (auto simp: favorites_of_def find_append_case)
  have x2: "favorites_of s2 g = f" using x moved(1) by (simp add: favorites_of_def moved(3) transferred_saves)
  show ?thesis
    unfolding favorites_without [OF ids2 one2 x2 s']
    using transferred_favorite_memes [OF \<open>distinct (map co_id (lb_collections s1))\<close> one1 x e(1), of m u] moved(3)
    by (auto simp: e(2))
qed

lemma merge_favorites_frame:
  assumes "merge_favorites le f t s = Inr (n, dup, s2)"
  shows "db_memes (lb_db s2) = db_memes (lb_db s) \<and> lb_analytics s2 = lb_analytics s"
  using assms
proof (cases rule: merge_favorites_cases)
  case (moved x col s1)
  have "lb_db s1 = lb_db s" "lb_analytics s1 = lb_analytics s" using ensured_favorites_collections [OF moved(2)] by auto
  then show ?thesis by (simp add: moved(3) transferred_saves)
qed simp

lemma merge_favorites_accounts:
  assumes "merge_favorites le f t s = Inr (n, dup, s2)" "favorites_of s g = f"
  shows "n + dup = length (favorite_memes s g)"
  using assms(1)
proof (cases rule: merge_favorites_cases)
  case unchanged
  with assms(2) show ?thesis by (auto simp: favorite_memes_def)
next
  case (moved x col s1)
  have "lb_db s1 = lb_db s" using ensured_favorites_collections [OF moved(2)] by auto
  then have "transferred_memes s1 (co_id x) (co_id col) = filter (\<lambda>m. \<not> saved s1 (co_id col) m) (saves_in s (co_id x))"
    by (simp add: transferred_memes_def saves_in_def)
  then have "n \<le> length (saves_in s (co_id x))" using moved(4) by simp
  with moved assms(2) show ?thesis by (simp add: favorite_memes_def)
qed

lemma merge_favorites_ids:
  assumes "merge_favorites le f t s = Inr (n, dup, s2)" "distinct (map co_id (lb_collections s))"
    "env_fresh (le_env le) 0 \<notin> set (map co_id (lb_collections s))"
  shows "distinct (map co_id (lb_collections s2))"
  using assms(1)
proof (cases rule: merge_favorites_cases)
  case unchanged
  with assms(2) show ?thesis by simp
next
  case (moved x col s1)
  with ensured_favorites_collections [OF moved(2)] assms(2,3) show ?thesis
    by (auto simp: transferred_saves new_favorites_def)
qed

lemma merged_library:
  assumes ok: "shelf_ok (shelf_of s)" "fresh_library_ids le s"
    and merge: "merge_guest_into_existing_full le g t google s = (Inr r, s')"
  shows "db_memes (lb_db s') = db_memes (lb_db s)" "lr_favorites r + lr_duplicates r = length (favorite_memes s g)"
    "lb_analytics s' = map (\<lambda>(u, e). (reassigned g t u, e)) (lb_analytics s)" "get_user s' g = None" "g \<noteq> t"
    "lr_canonical r = t" "violated_constraint s' = None" "distinct (map co_id (lb_collections s'))"
    "m \<in> set (favorite_memes s' u) \<longleftrightarrow>
      u \<noteq> g \<and> (m \<in> set (favorite_memes s u) \<or> u = t \<and> m \<in> set (favorite_memes s g))"
proof -
  obtain guest target favorites s1 n dup s2 views analytics inline s3 where "g \<noteq> t"
    and guest: "require_guest_has_no_custom_collections s g = Inr favorites"
    and google: "(case google of None \<Rightarrow> Inr s | Some i \<Rightarrow> attached_google le t (gi_google i) (gi_verified_at i) s) = Inr s1"
    and fav: "merge_favorites le favorites t s1 = Inr (n, dup, s2)"
    and history: "merged_history le g t s2 = (views, analytics, inline, s3)"
    and s': "s' = removed_guest favorites g (s3\<lparr>lb_merges := lb_merges s3 @ [merge_log_row (le_env le) g t n views]\<rparr>)"
    and fin: "violated_constraint s' = None" "lr_canonical r = t" "lr_favorites r = n" "lr_duplicates r = dup"
    by (rule merge_success [OF merge])
  note a = google_step_frame [OF google] and b = merge_favorites_frame [OF fav] and h = merged_history_frame [OF history]
  note cleanup = removed_guest_frame [of favorites g "s3\<lparr>lb_merges := lb_merges s3 @ [merge_log_row (le_env le) g t n views]\<rparr>"]
  have "saves_in s1 = saves_in s" by (rule ext) (simp add: saves_in_def a)
  then have f: "favorites_of s1 v = favorites_of s v" "favorite_memes s1 v = favorite_memes s v" for v
    by (simp_all add: favorites_of_def favorite_memes_def a split: option.splits)
  have g: "favorites_of s1 g = favorites" using guest_favorites [OF guest] f by simp
  have ids: "distinct (map co_id (lb_collections s1))" and one: "one_favorites s1"
    and known: "(c, k) \<in> set (db_collection_memes (lb_db s1)) \<Longrightarrow> c \<in> co_id ` set (lb_collections s1)" for c k
    using ok(1) by (force simp: shelf_ok_def likes_ok_def members_ok_def favorites_owners_def one_favorites_def shelf_of_def
        a comp_def case_prod_beta filter_map)+
  have fresh: "env_fresh (le_env le) 0 \<notin> set (map co_id (lb_collections s1))"
    using ok(2) by (simp add: fresh_library_ids_def a)
  show "db_memes (lb_db s') = db_memes (lb_db s)" by (simp add: s' cleanup h a b)
  show "lr_favorites r + lr_duplicates r = length (favorite_memes s g)"
    using merge_favorites_accounts [OF fav g] f fin by simp
  show "lb_analytics s' = map (\<lambda>(u, e). (reassigned g t u, e)) (lb_analytics s)"
    using \<open>g \<noteq> t\<close> by (auto simp: s' cleanup h a b reassigned_def unless_user_def)
  show "get_user s' g = None" by (simp add: s' removed_guest_users)
  show "g \<noteq> t" "lr_canonical r = t" "violated_constraint s' = None" by fact+
  show "distinct (map co_id (lb_collections s'))"
    using merge_favorites_ids [OF fav ids fresh] by (simp add: s' cleanup h distinct_map_filter)
  show "m \<in> set (favorite_memes s' u) \<longleftrightarrow>
      u \<noteq> g \<and> (m \<in> set (favorite_memes s u) \<or> u = t \<and> m \<in> set (favorite_memes s g))"
    using merged_favorites [OF g \<open>g \<noteq> t\<close> fav ids fresh known _ _ one, where s' = s' and m = m and u = u] by (simp add: s' cleanup h f)
qed

lemma likers_finite: "finite (likers s m)"
proof (rule finite_subset)
  show "likers s m \<subseteq> co_owner ` set (lb_collections s)"
  proof
    fix u assume "u \<in> likers s m"
    then obtain c where "favorites_of s u = Some c" by (cases "favorites_of s u") (auto simp: likers_def favorite_memes_def)
    then show "u \<in> co_owner ` set (lb_collections s)" using favorites_of_mem by blast
  qed
qed simp

lemma merged_favorites_count:
  assumes ok: "shelf_ok (shelf_of s)" "fresh_library_ids le s"
    and merge: "merge_guest_into_existing_full le g t google s = (Inr r, s')"
  shows "favorites_count (shelf_of s) m =
    favorites_count (shelf_of s') m + (if m \<in> set (favorite_memes s g) \<inter> set (favorite_memes s t) then 1 else 0)"
proof -
  note merged = merged_library [OF ok merge]
  have "distinct (db_collection_memes (lb_db s'))"
    and "distinct (map co_owner (filter (\<lambda>c. co_kind c = FAVORITES) (lb_collections s')))"
    using merged(7) by (auto simp: no_violation constraint_checks_def collection_checks_def save_checks_def)
  then have after: "favorites_count (shelf_of s') m = card (likers s' m)"
    by (rule favorites_count_likers [OF _ merged(8)])
  have before: "favorites_count (shelf_of s) m = card (likers s m)"
    using ok(1) by (intro favorites_count_likers)
      (auto simp: shelf_ok_def likes_ok_def members_ok_def favorites_owners_def shelf_of_def comp_def case_prod_beta filter_map)
  have "likers s' m = (if g \<in> likers s m then insert t (likers s m - {g}) else likers s m)"
    using merged(9) \<open>g \<noteq> t\<close> by (auto simp: likers_def)
  moreover have "card (likers s m - {g}) + 1 = card (likers s m)" if "g \<in> likers s m"
    using card_Suc_Diff1 [OF likers_finite that] by simp
  ultimately show ?thesis
    using after before likers_finite \<open>g \<noteq> t\<close>
    by (auto simp: likers_def card_insert_if)
qed
section \<open>A merge\<close>


text \<open>
  A merge leaves the like count of every meme as it is, although the two Favorites become one: a meme that guest and
  account had both favorited keeps two likes with one Favorites left that holds it.
\<close>

theorem shared_favorite_keeps_second_like:
  assumes ok: "shelf_ok (shelf_of s)" "fresh_library_ids le s"
    and merge: "merge_guest_into_existing_full le g t google s = (Inr r, s')"
  shows "list_all (\<lambda>k. me_like_count k = int (favorites_count (shelf_of s') (me_id k)) +
      (if me_id k \<in> set (favorite_memes s g) \<inter> set (favorite_memes s t) then 1 else 0)) (db_memes (lb_db s'))"
proof -
  have "me_like_count k = int (favorites_count (shelf_of s) (me_id k))" if "k \<in> set (db_memes (lb_db s))" for k
    using ok(1) that by (intro likes_okD(5)) (auto simp: shelf_ok_def shelf_of_def)
  then show ?thesis
    using merged_library(1) [OF assms] merged_favorites_count [OF assms] by (auto simp: list_all_iff)
qed

definition sample_merge :: library where
  "sample_merge = sample_library
     \<lparr>lb_db := (lb_db sample_library)
        \<lparr>db_memes := [sample_meme\<lparr>me_like_count := 2\<rparr>, sample_meme\<lparr>me_id := 8, me_is_public := True, me_like_count := 1\<rparr>],
         db_collection_memes := [(20, 7), (21, 7), (21, 8)]\<rparr>,
      lb_users := [sample_user, (new_guest sample_env USER_ANY False)\<lparr>us_id := 2\<rparr>],
      lb_collections := [sample_favorites, sample_favorites\<lparr>co_id := 21, co_owner := 2\<rparr>],
      lb_members := [owner_row 20 1, owner_row 21 2], lb_analytics := [(Some 2, EV_MEME_VIEW)]\<rparr>"

lemma sample_merge_ok: "shelf_ok (shelf_of sample_merge)" "fresh_library_ids sample_library_env sample_merge"
proof -
  have "shelf_of sample_merge =
     \<lparr>sh_likes = [(7, 2), (8, 1)], sh_saves = [(20, 7), (21, 7), (21, 8)],
      sh_collections = [(20, 1, FAVORITES), (21, 2, FAVORITES)],
      sh_members = [owner_row 20 1, owner_row 21 2], sh_invites = []\<rparr>"
    by (simp add: shelf_of_def sample_merge_def sample_library_def sample_meme_def sample_favorites_def empty_db_def)
  then show "shelf_ok (shelf_of sample_merge)"
    by (simp add: shelf_ok_def likes_ok_def members_ok_def invites_ok_def favorites_count_def is_favorites_def
        favorites_owners_def owner_row_def member_key_def)
  show "fresh_library_ids sample_library_env sample_merge"
    by (simp add: fresh_library_ids_def sample_library_env_def sample_env_def sample_merge_def sample_library_def sample_favorites_def)
qed

definition sample_merged :: "link_result library_run" where
  "sample_merged = merge_guest_into_existing_full sample_library_env 2 1 None sample_merge"

lemma sample_merge_favorites:
  "merge_favorites sample_library_env (Some (sample_favorites\<lparr>co_id := 21, co_owner := 2\<rparr>)) 1 sample_merge =
     Inr (1, 1, snd (transfer_favorites 21 20 1 sample_merge))"
proof -
  have "ensured_favorites sample_library_env 1 sample_merge = Inr (sample_favorites, sample_merge)"
    by (simp add: ensured_favorites_def get_user_def favorites_of_def sample_merge_def sample_library_def sample_user_def
        sample_favorites_def)
  moreover have "transferred_memes sample_merge 21 20 = [8]" by code_simp
  ultimately show ?thesis
    by (simp add: merge_favorites_def transfer_favorites_def Let_def sample_favorites_def)
      (simp add: sample_merge_def)
qed

lemma merge_commits:
  assumes "get_user s g = Some guest" "get_user s t = Some target" "g \<noteq> t" "ensure_guest_can_link guest = Inr ()"
    "ensure_canonical_target target = Inr ()" "require_guest_has_no_custom_collections s g = Inr favorites"
    "merge_favorites le favorites t s = Inr (n, dup, s2)" "merged_history le g t s2 = (views, analytics, inline, s3)"
    "violated_constraint (removed_guest favorites g
       (s3\<lparr>lb_merges := lb_merges s3 @ [merge_log_row (le_env le) g t n views]\<rparr>)) = None"
    "env_commit_ok (le_env le)"
  shows "\<exists>r. fst (merge_guest_into_existing_full le g t None s) = Inr r \<and> lr_favorites r = n \<and> lr_duplicates r = dup"
  by (simp add: merge_guest_into_existing_full_def assms found_def require_def commit_library_def Let_def)

lemma sample_merged_run: "\<exists>r. fst sample_merged = Inr r \<and> lr_favorites r = 1 \<and> lr_duplicates r = 1"
proof -
  have checks: "get_user sample_merge 2 = Some ((new_guest sample_env USER_ANY False)\<lparr>us_id := 2\<rparr>)"
    "get_user sample_merge 1 = Some sample_user"
    "ensure_guest_can_link ((new_guest sample_env USER_ANY False)\<lparr>us_id := 2\<rparr>) = Inr ()"
    "ensure_canonical_target sample_user = Inr ()"
    "require_guest_has_no_custom_collections sample_merge 2 = Inr (Some (sample_favorites\<lparr>co_id := 21, co_owner := 2\<rparr>))"
    by code_simp+
  obtain v a i s3 where h: "merged_history sample_library_env 2 1 (snd (transfer_favorites 21 20 1 sample_merge)) = (v, a, i, s3)"
    using prod_cases4 by blast
  let ?x = "removed_guest (Some (sample_favorites\<lparr>co_id := 21, co_owner := 2\<rparr>)) 2
    (s3\<lparr>lb_merges := lb_merges s3 @ [merge_log_row (le_env sample_library_env) 2 1 1 v]\<rparr>)"
  have new: "transferred_memes sample_merge 21 20 = [8]" by code_simp
  note [simp] = removed_guest_def delete_user_def delete_collection_row_def clear_save_pointers_def map_lb_db_def
  have "db_pins (lb_db ?x) = db_pins (lb_db sample_library)"
    by (simp add: merged_history_frame [OF h] transferred_saves) (simp add: sample_merge_def sample_library_def)
  moreover have "db_collection_memes (lb_db ?x) = [(20, 7), (20, 8)]"
    by (simp add: merged_history_frame [OF h] transferred_saves new sample_favorites_def) (simp add: sample_merge_def)
  moreover have "lb_collections ?x = [sample_favorites]"
    by (simp add: merged_history_frame [OF h] transferred_saves) (simp add: sample_merge_def sample_favorites_def)
  moreover have "lb_users ?x = [sample_user]"
    by (simp add: merged_history_frame [OF h] transferred_saves) (simp add: sample_merge_def sample_user_def sample_favorites_def)
  moreover have "lb_members ?x = [owner_row 20 1]"
    by (simp add: merged_history_frame [OF h] transferred_saves) (simp add: sample_merge_def owner_row_def sample_favorites_def)
  moreover have "lb_invites ?x = []" "lb_link_codes ?x = []"
    by (simp_all add: merged_history_frame [OF h] transferred_saves) (simp_all add: sample_merge_def sample_library_def)
  ultimately have "violated_constraint ?x = None"
    by (simp add: no_violation constraint_checks_def pin_checks_def collection_checks_def save_checks_def invite_checks_def
        user_checks_def link_code_checks_def sample_library_def pin_key_def pin_slot_def member_key_def owner_row_def
        List.map_filter_def)
  moreover have "env_commit_ok (le_env sample_library_env)" by (simp add: sample_library_env_def sample_env_def)
  ultimately show ?thesis
    unfolding sample_merged_def
    using merge_commits [OF checks(1-2) _ checks(3-5) sample_merge_favorites h] by fastforce
qed


theorem shared_favorite_keeps_second_like_witness:
  "list_all (\<lambda>k. me_like_count k = int (favorites_count (shelf_of (snd sample_merged)) (me_id k)) +
     (if me_id k = 7 then 1 else 0)) (db_memes (lb_db (snd sample_merged)))"
proof -
  obtain r where "merge_guest_into_existing_full sample_library_env 2 1 None sample_merge = (Inr r, snd sample_merged)"
    using sample_merged_run by (metis sample_merged_def prod.collapse)
  moreover have "set (favorite_memes sample_merge 2) \<inter> set (favorite_memes sample_merge 1) = {7}" by code_simp
  ultimately show ?thesis
    using shared_favorite_keeps_second_like [OF sample_merge_ok, of 2 1 None r "snd sample_merged"] by simp
qed
section \<open>The flows\<close>

lemma link_flow_Inr:
  assumes "link_flow le guest others message body recover s = (Inr r, s')"
  obtains (direct) g s1 resolved where
    "guest = Some g \<and> s1 = s \<or> guest = None \<and> created_guest le USER_ANY False s = Inr (g, s1)"
    "body g s1 = (resolved, (Inr r, s'))"
  | (recovered) g s1 e resolved s2 where
    "guest = Some g \<and> s1 = s \<or> guest = None \<and> created_guest le USER_ANY False s = Inr (g, s1)"
    "body g s1 = (resolved, (Inl e, s2))" "is_duplicate_identity e" "recover g e (others s) = (Inr r, s')"
proof -
  obtain g s1 where g: "guest = Some g \<and> s1 = s \<or> guest = None \<and> created_guest le USER_ANY False s = Inr (g, s1)"
    and start: "(case guest of Some g \<Rightarrow> Inr (g, s) | None \<Rightarrow> created_guest le USER_ANY False s) = Inr (g, s1)"
    using assms by (auto simp: link_flow_def split: option.splits sum.splits)
  obtain resolved out s2 where body: "body g s1 = (resolved, (out, s2))" by (metis prod.collapse)
  show ?thesis
  proof (cases out)
    case (Inr x)
    with assms start body show ?thesis by (intro direct [OF g]) (simp add: link_flow_def)
  next
    case (Inl e)
    with assms start body show ?thesis
      by (intro recovered [OF g]) (auto simp: link_flow_def Let_def split: if_splits)
  qed
qed

lemma link_flow_Inl:
  assumes "link_flow le guest others message body recover s = (Inl e, s')"
    and "\<And>g e' t x t'. recover g e' t = (Inl x, t') \<Longrightarrow> t' = t"
  shows "s' \<in> {s, others s}"
proof (cases "case guest of Some g \<Rightarrow> Inr (g, s) | None \<Rightarrow> created_guest le USER_ANY False s")
  case (Inl x)
  with assms(1) show ?thesis by (simp add: link_flow_def)
next
  case (Inr y)
  obtain g s1 where y: "y = (g, s1)" by (cases y)
  obtain resolved out s2 where body: "body g s1 = (resolved, (out, s2))" by (metis prod.collapse)
  from assms(1) Inr y body obtain x where "out = Inl x" by (cases out) (auto simp: link_flow_def)
  with assms Inr y body show ?thesis by (auto simp: link_flow_def Let_def split: if_splits)
qed

lemma commit_library_Inl: "commit_library le before f v s = (Inl e, s') \<Longrightarrow> s' = before"
  by (auto simp: commit_library_def split: option.splits if_splits)

lemma merge_Inl: "merge_guest_into_existing_full le g t google s = (Inl e, s') \<Longrightarrow> s' = s"
  by (auto simp: merge_guest_into_existing_full_def check_def Let_def dest: commit_library_Inl split: sum.splits prod.splits)

lemma upgrade_Inl: "upgrade_guest_in_place le g up s = (Inl e, s') \<Longrightarrow> s' = s"
  by (auto simp: upgrade_guest_in_place_def check_def dest: commit_library_Inl split: sum.splits)

lemma merge_google_Inl: "merge_google le g i t how s = (Inl e, s') \<Longrightarrow> s' = s"
  unfolding merge_google_def by (rule merge_Inl)

lemma google_link_Inl: "link_guest_with_google_identity le guest others i s = (Inl e, s') \<Longrightarrow> s' \<in> {s, others s}"
  unfolding link_guest_with_google_identity_def
  by (erule link_flow_Inl) (auto dest: merge_google_Inl split: sum.splits option.splits)

lemma telegram_link_Inl: "link_guest_with_telegram_identity le guest others n s = (Inl e, s') \<Longrightarrow> s' \<in> {s, others s}"
  unfolding link_guest_with_telegram_identity_def
  by (erule link_flow_Inl) (auto dest: merge_Inl split: sum.splits option.splits)

lemma signup_link_Inl: "link_guest_with_email_signup le guest others signup s = (Inl e, s') \<Longrightarrow> s' \<in> {s, others s}"
  unfolding link_guest_with_email_signup_def by (erule link_flow_Inl) simp

lemma login_link_Inl: "link_guest_with_email_login le guest others login s = (Inl e, s') \<Longrightarrow> s' \<in> {s, others s}"
  unfolding link_guest_with_email_login_def by (erule link_flow_Inl) simp

lemma started_link_Inl:
  assumes "link_guest_with_telegram_identity le (Some g) others n s = (Inl e, s')"
  shows "s' = others s"
proof -
  obtain resolved out s2 where body: "(case get_by_telegram_id s n of
          Inl e \<Rightarrow> (False, (Inl e, s))
        | Inr None \<Rightarrow> (True, upgrade_guest_in_place le g (telegram_upgrade n) s)
        | Inr (Some u) \<Rightarrow> (True, merge_guest_into_existing_full le g (us_id u) None s)) = (resolved, (out, s2))"
    by (metis prod.collapse)
  from assms body obtain x where "out = Inl x"
    by (cases out) (auto simp: link_guest_with_telegram_identity_def link_flow_def)
  with assms body show ?thesis
    by (auto simp: link_guest_with_telegram_identity_def link_flow_def Let_def dest: merge_Inl
        split: if_splits sum.splits option.splits)
qed

lemma redeem_Inl: "redeem_telegram_link_code le others code n s = (Inl e, s') \<Longrightarrow> s' \<in> {s, others s}"
  by (auto simp: redeem_telegram_link_code_def check_def dest: started_link_Inl split: sum.splits prod.splits)

text \<open>
  A link that fails, whichever of the ways to link an identity it took, leaves the library as it found it or as the
  requests that ran meanwhile left it.
\<close>

theorem failed_links_change_nothing:
  assumes "run \<in> {link_guest_with_google_identity le guest others i s, link_guest_with_telegram_identity le guest others n s,
      link_guest_with_email_signup le guest others signup s, link_guest_with_email_login le guest others login s,
      redeem_telegram_link_code le others code n s}"
    and "fst run = Inl e"
  shows "snd run \<in> {s, others s}"
proof -
  have "run = (Inl e, snd run)" using assms(2) by (metis prod.collapse)
  with assms(1) show ?thesis
    by (elim insertE emptyE) (metis google_link_Inl, metis telegram_link_Inl, metis signup_link_Inl, metis login_link_Inl,
        metis redeem_Inl)
qed

theorem failed_links_change_nothing_witness:
  "snd (link_guest_with_email_signup sample_library_env (Some 2) (\<lambda>s. s) (Inl EmailAlreadyInUse) sample_merge)
    \<in> {sample_merge, sample_merge}"
proof -
  have "fst (link_guest_with_email_signup sample_library_env (Some 2) (\<lambda>s. s) (Inl EmailAlreadyInUse) sample_merge) =
      Inl EmailAlreadyInUse" by code_simp
  then show ?thesis by (intro failed_links_change_nothing [where others = "\<lambda>s. s" and le = sample_library_env and guest = "Some 2" and
          signup = "Inl EmailAlreadyInUse"]) simp_all
qed
section \<open>Who holds a Telegram identity\<close>

definition holds_telegram :: "library \<Rightarrow> uuid \<Rightarrow> int \<Rightarrow> bool" where
  "holds_telegram s t n \<longleftrightarrow> (\<exists>u. get_user s t = Some u \<and> us_telegram u = Some n)"

lemma holds_telegram_users: "lb_users s' = lb_users s \<Longrightarrow> holds_telegram s' t n = holds_telegram s t n"
  by (simp add: holds_telegram_def get_user_def)

lemma only_holder:
  assumes "distinct (List.map_filter f xs)" "u \<in> set xs" "f u = Some n"
  shows "filter (\<lambda>v. f v = Some n) xs = [u]"
  using assms
proof (induction xs)
  case (Cons x xs)
  show ?case
  proof (cases "x = u")
    case True
    with Cons.prems have "f v \<noteq> Some n" if "v \<in> set xs" for v
      using that by (force simp: List.map_filter_def image_iff)
    with True Cons.prems show ?thesis by (auto simp: filter_empty_conv)
  next
    case False
    with Cons.prems have u: "u \<in> set xs" by simp
    with Cons.prems have "f x \<noteq> Some n" by (force simp: List.map_filter_def image_iff)
    moreover have "distinct (List.map_filter f xs)" using Cons.prems(1) by (cases "f x") (simp_all add: List.map_filter_simps)
    ultimately show ?thesis using Cons.IH u Cons.prems(3) by simp
  qed
qed simp

lemma only_telegram_holder:
  assumes "violated_constraint s = None" "holds_telegram s t n"
  shows "map us_id (filter (\<lambda>u. us_telegram u = Some n) (lb_users s)) = [t]"
proof -
  from assms(2) obtain u where u: "get_user s t = Some u" "us_telegram u = Some n" by (auto simp: holds_telegram_def)
  then have "u \<in> set (lb_users s)" "us_id u = t" by (auto simp: get_user_def dest: row_get_mem row_get_key)
  moreover have "distinct (List.map_filter us_telegram (lb_users s))"
    using assms(1) by (simp add: no_violation constraint_checks_def user_checks_def)
  ultimately show ?thesis using only_holder [of us_telegram "lb_users s" u n] u(2) by simp
qed

lemma ensured_keeps_telegram:
  assumes "ensured_favorites le u s = Inr (c, s1)" "holds_telegram s t n"
  shows "holds_telegram s1 t n"
  using assms
  by (auto simp: ensured_favorites_def holds_telegram_def get_user_def put_user_def put_member_def Let_def flush_library_Inr
      split: option.splits sum.splits if_splits) (metis option.inject row_get_key)

lemma merge_favorites_keeps_telegram:
  assumes "merge_favorites le f t s = Inr (k, dup, s2)" "holds_telegram s u n"
  shows "holds_telegram s2 u n"
  using assms(1)
proof (cases rule: merge_favorites_cases)
  case unchanged
  with assms(2) show ?thesis by simp
next
  case (moved x col s1)
  then have "lb_users s2 = lb_users s1" by (simp add: transferred_saves)
  then have "holds_telegram s2 u n = holds_telegram s1 u n" by (rule holds_telegram_users)
  with ensured_keeps_telegram [OF moved(2) assms(2)] show ?thesis by simp
qed

lemma row_get_filter_key:
  "row_get key k (filter (\<lambda>r. key r \<noteq> g) rows) = (if k = g then None else row_get key k rows)"
proof (induction rows)
  case (Cons r rows)
  then show ?case by (cases "key r = k"; cases "key r = g") simp_all
qed simp

lemma removed_guest_keeps_telegram:
  assumes "holds_telegram s t n" "g \<noteq> t"
  shows "holds_telegram (removed_guest f g s) t n"
proof -
  have "get_user (delete_user g s1) t = get_user s1 t" for s1
    using assms(2) by (simp add: delete_user_def get_user_def map_lb_db_def row_get_filter_key)
  moreover have "get_user (clear_save_pointers c (delete_collection_row c s)) t =
      map_option (\<lambda>u. if us_active_save u = Some c then u\<lparr>us_active_save := None\<rparr> else u) (get_user s t)" for c
    by (simp add: get_user_def clear_save_pointers_def delete_collection_row_def map_lb_db_def row_get_map_if)
  moreover from this have "holds_telegram (clear_save_pointers c (delete_collection_row c s)) t n" for c
    using assms(1) by (cases "get_user s t") (auto simp: holds_telegram_def)
  ultimately show ?thesis
    using assms(1) by (auto simp: removed_guest_def holds_telegram_def split: option.splits)
qed

lemma merge_keeps_telegram:
  assumes "merge_guest_into_existing_full le g t None s = (Inr r, s')" "holds_telegram s t n"
  shows "holds_telegram s' t n \<and> violated_constraint s' = None \<and> lr_canonical r = t"
proof -
  obtain favorites k dup s2 views analytics inline s3 where "g \<noteq> t"
    and fav: "merge_favorites le favorites t s = Inr (k, dup, s2)"
    and history: "merged_history le g t s2 = (views, analytics, inline, s3)"
    and s': "s' = removed_guest favorites g (s3\<lparr>lb_merges := lb_merges s3 @ [merge_log_row (le_env le) g t k views]\<rparr>)"
    and fin: "violated_constraint s' = None" "lr_canonical r = t"
    by (rule merge_success [OF assms(1)]) auto
  have "holds_telegram s2 t n" by (rule merge_favorites_keeps_telegram [OF fav assms(2)])
  then have "holds_telegram (s3\<lparr>lb_merges := lb_merges s3 @ [merge_log_row (le_env le) g t k views]\<rparr>) t n"
    by (simp add: holds_telegram_def get_user_def merged_history_frame [OF history])
  with removed_guest_keeps_telegram [OF _ \<open>g \<noteq> t\<close>] fin show ?thesis by (simp add: s')
qed

lemma upgrade_holds_telegram:
  assumes "upgrade_guest_in_place le g (telegram_upgrade n) s = (Inr r, s')"
  shows "holds_telegram s' g n \<and> violated_constraint s' = None \<and> lr_canonical r = g"
proof -
  obtain s1 where up: "upgraded_guest le g (telegram_upgrade n) s = Inr s1"
    and fin: "s' = s1" "violated_constraint s1 = None" "lr_canonical r = g"
    using assms by (auto simp: upgrade_guest_in_place_def check_def commit_library_Inr split: sum.splits)
  obtain u user where norm: "normalized_upgrade (telegram_upgrade n) = Inr u" and user: "get_user s g = Some user"
    and s1: "s1 = put_user (le_env le) (upgraded_user u user) s"
    using up by (auto simp: upgraded_guest_def flush_library_Inr split: sum.splits option.splits if_splits)
  have "up_telegram u = Some n"
    using norm by (auto simp: normalized_upgrade_def telegram_upgrade_def normalize_telegram_id_def normalize_google_id_def
        normalize_email_def normalize_password_hash_def split: if_splits)
  moreover have "us_id user = g" using user by (auto simp: get_user_def dest: row_get_key)
  ultimately have "holds_telegram s1 g n"
    by (simp add: s1 holds_telegram_def get_user_def put_user_def upgraded_user_def or_keep_def)
  with fin show ?thesis by simp
qed

lemma telegram_owner:
  assumes "get_by_telegram_id s n = Inr (Some u)" "distinct (map us_id (lb_users s))"
  shows "holds_telegram s (us_id u) n"
proof -
  from assms(1) have "u \<in> set (lb_users s)" "us_telegram u = Some n"
    by (auto simp: get_by_telegram_id_def normalize_telegram_id_def dest: find_SomeD split: if_splits)
  then show ?thesis using row_get_iff_mem [OF assms(2)] by (auto simp: holds_telegram_def get_user_def)
qed

lemma created_guest_ids:
  assumes "created_guest le l b s = Inr (g, s1)" "distinct (map us_id (lb_users s))"
    "env_fresh (le_env le) 1 \<notin> set (map us_id (lb_users s))"
  shows "distinct (map us_id (lb_users s1))"
  using assms by (auto simp: created_guest_def new_guest_def flush_library_Inr Let_def split: sum.splits)

text \<open>
  Once a Telegram link has succeeded, by an upgrade in place, by a merge or after a race that another request won,
  exactly one account holds the Telegram id, and it is the canonical account the link reports.
\<close>

theorem telegram_link_has_one_holder:
  assumes "link_guest_with_telegram_identity le guest others n s = (Inr r, s')"
    and "distinct (map us_id (lb_users s))" "distinct (map us_id (lb_users (others s)))"
    and "env_fresh (le_env le) 1 \<notin> set (map us_id (lb_users s))"
  shows "map us_id (filter (\<lambda>u. us_telegram u = Some n) (lb_users s')) = [lr_canonical r]"
proof -
  have "holds_telegram s' (lr_canonical r) n \<and> violated_constraint s' = None"
    using assms(1) unfolding link_guest_with_telegram_identity_def
  proof (cases rule: link_flow_Inr)
    case (direct g s1 resolved)
    have "distinct (map us_id (lb_users s1))" using direct(1) created_guest_ids assms(2,4) by auto
    with direct(2) show ?thesis
      by (auto dest: upgrade_holds_telegram telegram_owner merge_keeps_telegram split: sum.splits option.splits)
  next
    case (recovered g s1 e resolved s2)
    from recovered(4) assms(3) show ?thesis
      by (auto dest: telegram_owner merge_keeps_telegram split: sum.splits option.splits)
  qed
  then show ?thesis using only_telegram_holder by blast
qed

definition sample_telegram_link :: "link_result library_run" where
  "sample_telegram_link = link_guest_with_telegram_identity sample_library_env (Some 2) (\<lambda>s. s) 222 sample_merge"

theorem telegram_link_has_one_holder_witness:
  "map us_id (filter (\<lambda>u. us_telegram u = Some 222) (lb_users (snd sample_telegram_link))) = [2]"
proof -
  have "(case fst sample_telegram_link of Inr r \<Rightarrow> lr_canonical r = 2 | Inl e \<Rightarrow> False)" by code_simp
  then obtain r where "link_guest_with_telegram_identity sample_library_env (Some 2) (\<lambda>s. s) 222 sample_merge =
      (Inr r, snd sample_telegram_link)" "lr_canonical r = 2"
    by (cases "fst sample_telegram_link") (auto simp: sample_telegram_link_def prod_eq_iff)
  moreover have "distinct (map us_id (lb_users sample_merge))"
    "env_fresh (le_env sample_library_env) 1 \<notin> set (map us_id (lb_users sample_merge))" by code_simp+
  ultimately show ?thesis using telegram_link_has_one_holder by metis
qed

end
