(* ===== verification/Interaction_Merge.thy ===== *)
theory Interaction_Merge
  imports Interaction_State
begin

text \<open>
  Merging a guest's recommendation state into an account is the same as having observed the guest's whole history as
  the account's: the interests of the pair are those of one observer.
\<close>

text \<open>One event of a user on a meme.\<close>

type_synonym observation = "uuid \<times> uuid \<times> analytics_event \<times> json_object \<times> time"

definition observe :: "(uuid \<Rightarrow> bool) \<Rightarrow> observation \<Rightarrow> interests \<Rightarrow> interests" where
  "observe known ob s =
     (case ob of (u, m, e, properties, t) \<Rightarrow> project_recommendation_interaction known (Some u) (Some m) e properties t s)"

definition renamed :: "uuid \<Rightarrow> uuid \<Rightarrow> uuid \<Rightarrow> uuid" where
  "renamed source target u = (if u = source then target else u)"

definition observed_as :: "uuid \<Rightarrow> uuid \<Rightarrow> observation \<Rightarrow> observation" where
  "observed_as source target ob = (case ob of (u, rest) \<Rightarrow> (renamed source target u, rest))"

text \<open>What an event adds to the row of its user and meme.\<close>

definition interest_of :: "analytics_event \<Rightarrow> json_object \<Rightarrow> time \<Rightarrow> interest" where
  "interest_of e properties t =
     \<lparr>in_first_seen = t, in_impression = (if e \<in> set IMPRESSION_EVENT_TYPES then Some t else None),
      in_engaged_view = (if e \<in> set ENGAGED_VIEW_EVENT_TYPES then Some t else None),
      in_strong_action = (if is_strong_action e properties then Some t else None),
      in_impression_count = (if e \<in> set IMPRESSION_EVENT_TYPES then 1 else 0)\<rparr>"

definition counts :: "(uuid \<Rightarrow> bool) \<Rightarrow> uuid \<Rightarrow> analytics_event \<Rightarrow> json_object \<Rightarrow> bool" where
  "counts known m e properties \<longleftrightarrow>
     known m \<and> (e \<in> set IMPRESSION_EVENT_TYPES \<or> e \<in> set ENGAGED_VIEW_EVENT_TYPES \<or>
                is_strong_action e properties \<or> is_profile_signal e properties)"

lemma observe_rows:
  "is_rows (observe known (u, m, e, p, t) s) =
     (if counts known m e p then is_rows (put_interest u m (interest_of e p t) s) else is_rows s)"
  by (auto simp: observe_def project_recommendation_interaction_def counts_def interest_of_def Let_def
      upsert_recommendation_state_def mark_recommendation_profile_dirty_def)

lemma put_interest_rows:
  "is_rows s = is_rows s' \<Longrightarrow> is_rows (put_interest u m x s) = is_rows (put_interest u m x s')"
  by (simp add: put_interest_def)

lemma merge_rows:
  "source \<noteq> target \<Longrightarrow> is_rows (merge_user_recommendation_state source target merged s) =
     (\<lambda>(u, m). if u = source then None
        else if u = target
        then (case (is_rows s (target, m), is_rows s (source, m)) of
                (Some row, Some new) \<Rightarrow> Some (combine_interest row new)
              | (None, x) \<Rightarrow> x
              | (Some row, None) \<Rightarrow> Some row)
        else is_rows s (u, m))"
  by (simp add: merge_user_recommendation_state_def invalidate_recommendation_profile_def
      mark_recommendation_profile_dirty_def)

lemma merge_put_interest:
  assumes "source \<noteq> target"
  shows "is_rows (merge_user_recommendation_state source target merged (put_interest u m x s)) =
    is_rows (put_interest (renamed source target u) m x (merge_user_recommendation_state source target merged s))"
proof
  fix k :: "uuid \<times> uuid"
  obtain v n where k: "k = (v, n)" by (cases k)
  show "is_rows (merge_user_recommendation_state source target merged (put_interest u m x s)) k =
      is_rows (put_interest (renamed source target u) m x (merge_user_recommendation_state source target merged s)) k"
    using assms
    by (cases "is_rows s (target, n)"; cases "is_rows s (source, n)")
      (auto simp: k merge_rows put_interest_def renamed_def interest.commute interest.left_commute interest.assoc
        split: option.splits)
qed

lemma merge_observe:
  assumes "source \<noteq> target"
  shows "is_rows (merge_user_recommendation_state source target merged (observe known ob s)) =
    is_rows (observe known (observed_as source target ob) (merge_user_recommendation_state source target merged s))"
proof -
  obtain u m e p t where ob: "ob = (u, m, e, p, t)" by (cases ob)
  have "is_rows (merge_user_recommendation_state source target merged a) = is_rows (merge_user_recommendation_state source target merged b)"
    if "is_rows a = is_rows b" for a b
    by (simp only: merge_rows [OF assms] that)
  from this [of "observe known ob s" "put_interest u m (interest_of e p t) s"] this [of "observe known ob s" s]
  show ?thesis
    using merge_put_interest [OF assms] by (cases "counts known m e p") (simp_all add: ob observed_as_def observe_rows)
qed

lemma observe_same_rows: "is_rows a = is_rows b \<Longrightarrow> is_rows (observe known ob a) = is_rows (observe known ob b)"
  by (cases ob) (simp only: observe_rows put_interest_rows [of a b] split: if_splits)

lemma observe_all_same_rows:
  "is_rows a = is_rows b \<Longrightarrow> is_rows (fold (observe known) obs a) = is_rows (fold (observe known) obs b)"
proof (induction obs arbitrary: a b)
  case (Cons ob obs)
  from Cons.IH [OF observe_same_rows [OF Cons.prems]] show ?case by (simp only: fold.simps comp_def)
qed simp

text \<open>
  C40. Observing a history and then merging the guest \<open>source\<close> into \<open>target\<close> leaves the same interest rows as merging
  first and observing the guest's events as the target's: first and latest times and impression counts are those of one
  observer of the whole history.
\<close>

theorem merged_interests_are_one_history:
  assumes "source \<noteq> target"
  shows "is_rows (merge_user_recommendation_state source target merged (fold (observe known) obs s)) =
    is_rows (fold (observe known) (map (observed_as source target) obs) (merge_user_recommendation_state source target merged s))"
proof (induction obs arbitrary: s)
  case (Cons ob obs)
  have "is_rows (merge_user_recommendation_state source target merged (fold (observe known) (ob # obs) s)) =
      is_rows (fold (observe known) (map (observed_as source target) obs)
        (merge_user_recommendation_state source target merged (observe known ob s)))"
    using Cons.IH [of "observe known ob s"] by (simp only: fold.simps comp_def id_apply)
  also have "\<dots> = is_rows (fold (observe known) (map (observed_as source target) obs)
      (observe known (observed_as source target ob) (merge_user_recommendation_state source target merged s)))"
    by (rule observe_all_same_rows) (rule merge_observe [OF assms])
  finally show ?case by (simp only: list.map fold.simps comp_def id_apply)
qed simp

theorem merged_interests_are_one_history_witness:
  "is_rows (merge_user_recommendation_state 1 2 50
       (fold (observe (\<lambda>_. True)) [(1, 7, EV_IMPRESSION, (\<lambda>_. None), 10), (2, 7, EV_IMPRESSION, (\<lambda>_. None), 20)]
         \<lparr>is_rows = (\<lambda>_. None), is_dirty = (\<lambda>_. None), is_profiles = [], is_signals = []\<rparr>)) (2, 7) =
     Some \<lparr>in_first_seen = 10, in_impression = Some 20, in_engaged_view = None, in_strong_action = None, in_impression_count = 2\<rparr>"
proof -
  let ?s = "\<lparr>is_rows = (\<lambda>_. None), is_dirty = (\<lambda>_. None), is_profiles = [], is_signals = []\<rparr>"
  let ?obs = "[(1, 7, EV_IMPRESSION, (\<lambda>_. None), 10), (2, 7, EV_IMPRESSION, (\<lambda>_. None), 20)]"
  have "is_rows (fold (observe (\<lambda>_. True)) (map (observed_as 1 2) ?obs) (merge_user_recommendation_state 1 2 50 ?s)) (2, 7) =
      Some \<lparr>in_first_seen = 10, in_impression = Some 20, in_engaged_view = None, in_strong_action = None, in_impression_count = 2\<rparr>"
    by code_simp
  then show ?thesis
    by (subst merged_interests_are_one_history) simp_all
qed

end
