(* ===== verification/Spec2Isabelle.thy ===== *)
theory Spec2Isabelle
  imports Stage_Recovery Media_Lifecycle Replay Worker_Delivery Recovery_Planning Recovery_Steps Recovery_Administration
    Outbox_Reconciliation Collection_Pins Collection_Refinement Collection_Joins Account_Properties Interaction_Merge
begin

text \<open>
  A verification library for memexpert, the Python service that ingests memes, runs every file through a
  pipeline of asynchronous workers and serves the result.

  \<^bold>\<open>The program and the theories.\<close> The core of the program is the durable content pipeline. A file moves through
  the stages TRANSCODE, OCR, EMBED, CLASSIFY and then to the sync targets Qdrant and Meilisearch. Each
  stage has one journal row per file. A worker takes a delivery from RabbitMQ, calls
  \<open>start_stage_processing\<close>, does its work and calls a completion or failure handler; the handler writes the
  journal, the output, the next stage's row and the outbox message of the next delivery in one database
  transaction, and the outbox relay publishes committed messages at least once. Recovery items drive
  replays with a shared retry budget.

  \<^item> \<open>Prelude\<close>: text, integers and UUIDs as Python has them, \<open>max(key=...)\<close>, keyed row lists.
  \<^item> \<open>Enums\<close> (\<open>models/enums.py\<close>, \<open>schemas/pipeline_base.py\<close>, \<open>pipeline/constants.py\<close>): enumerations and stage tables.
  \<^item> \<open>Pipeline_State\<close> (\<open>models/content.py\<close>, \<open>models/operations.py\<close>, \<open>pipeline/helpers.py\<close>, \<open>pipeline/state.py\<close>,
    \<open>pipeline/items.py\<close>): the rows as records, the database \<open>db\<close> as a record of tables, the environment
    \<open>env\<close> of a handler (clock, fresh ids, settings, whether a commit succeeds, what the broker answers).
  \<^item> \<open>Outbox\<close> (\<open>messaging/rabbitmq_outbox.py\<close>): enqueue, claim, publish, settle, lease recovery, the recovery
    budget; the relay as the transition system \<open>outbox_step\<close> and the locale \<open>durable_outbox\<close> interpreted on it.
  \<^item> \<open>Outbox_Reconciliation\<close> (of \<open>services/sha_reconciliation.py\<close> the rewriting of outbox rows): the ids in waiting messages
    after files or memes were folded into one, and the history of the outbox under all its writers (\<open>outbox_history\<close>).
  \<^item> \<open>Dispatch\<close> (\<open>core/broker.py\<close>, \<open>pipeline/dispatch.py\<close>, \<open>pipeline/sync_status.py\<close>): routing keys, message
    specifications, hand-over to the next stages, sync snapshots.
  \<^item> \<open>Content_Merge\<close> (\<open>ingest/policy.py\<close>, \<open>services/content_merge.py\<close>): visibility policy and merging of memes.
  \<^item> \<open>Media_Generation\<close> (\<open>services/media_generation.py\<close>, \<open>core/storage.py\<close>, \<open>media/contracts.py\<close>): the life of an
    immutable web-video generation, its object keys, cleanup and garbage collection.
  \<^item> \<open>Stage_Completion\<close> (\<open>pipeline/stage_completion.py\<close>, \<open>pipeline/embedding_cache.py\<close>): every stage handler.
  \<^item> \<open>Stage_Properties\<close>, \<open>Stage_Invariants\<close>, \<open>Stage_Recovery\<close>: what the handlers guarantee, per delivery
    (\<open>run_action\<close>) and along runs of deliveries: \<open>stage_step\<close>, and \<open>row_step\<close>, which leaves out only the failures of
    derivative regenerations of one row, because these put an earlier state of that row back.
  \<^item> \<open>Replay\<close> (\<open>pipeline/replay.py\<close>): how operators, administrators and recovery items reserve a stage again.
  \<^item> \<open>Reliability\<close> (\<open>services/pipeline_reliability.py\<close>): admission by backlog, the circuits of the providers, the
    dead-letter ledger; the locale \<open>dead_letter_ledger\<close> interpreted on it.
  \<^item> \<open>Recovery_State\<close>, \<open>Recovery_Projection\<close>, \<open>Recovery_Jobs\<close> (\<open>services/admin_recovery.py\<close>): the rows of recovery, the work
    list an administrator sees (\<open>collect_work\<close>), the candidates with their actions, blocks and acknowledgements,
    and jobs: single actions, plans with dependents, previews, batches, schedules, cancellation, retry, handoff.
  \<^item> \<open>Recovery_Runtime\<close>, \<open>Recovery_Properties\<close> (\<open>services/recovery_runtime.py\<close>): claiming items, fencing by version,
    the actions, recorded failures, reclaiming stuck work, and the verdict on every dispatched item. The object store
    (\<open>re_presence\<close>), the Telegram manager (\<open>re_replay_post\<close>), redaction, the digest of media versions
    (\<open>re_media_version\<close>) and the update times of snapshot and outbox rows are functions of \<open>recovery_env\<close>.
  \<^item> \<open>Recovery_Lifecycle\<close>, \<open>Recovery_Steps\<close>: the abstract life of an item and its refinement by every operation of
    recovery (locale \<open>evolving_rows\<close>); \<open>Recovery_Plans\<close>, \<open>Recovery_Planning\<close>, \<open>Recovery_Administration\<close>: what plans and
    single actions guarantee, and where recovery does not do what it means to.
  \<^item> \<open>Worker_Errors\<close>, \<open>Worker_Stages\<close>, \<open>Worker_Delivery\<close> (\<open>workers/pipeline_runtime/errors.py\<close>, \<open>stages/*.py\<close>,
    \<open>runtime.py\<close>): the failure taxonomy, the stage handlers over the clients as a record of functions
    \<open>providers\<close>, and one delivery from the broker's headers to the settlement.
  \<^item> \<open>Media_Lifecycle\<close>: the media pointer of a file under every interleaving (\<open>media_step\<close>).

  Beside the pipeline stands the library of saved memes, which people edit:

  \<^item> \<open>Interaction_State\<close>, \<open>Interaction_Merge\<close> (\<open>recommendations/interaction_state.py\<close>): what a user has shown interest
    in, from events and saves; merging two histories.
  \<^item> \<open>Library_State\<close> (\<open>models/user.py\<close>, \<open>models/collection.py\<close>): the state \<open>library\<close>, its constraints and the commit
    that checks them; \<open>Collection_Service\<close> (\<open>services/collection_service.py\<close>): every operation of the service.
  \<^item> \<open>Library_Shelf\<close>: the abstract shelf of saves, like counts, members and invites with its steps and invariant;
    \<open>Collection_Properties\<close>: every call is a run of these steps, and what follows from it; \<open>Collection_Refinement\<close>: the
    saving calls as exact functions on the shelf; \<open>Collection_Joins\<close>: joins by invite, executed alone and interleaved;
    \<open>Collection_Pins\<close>: the pins of a user.
  \<^item> \<open>Account_Service\<close> (\<open>services/user_service.py\<close>), \<open>Account_Links\<close> (\<open>services/account_link_service.py\<close> and the
    resolution of identities of \<open>services/provider_auth_service.py\<close>): identities, the upgrade of a guest in place, its merge into a
    full account, the link flows and Telegram codes; \<open>Account_Properties\<close>: what they guarantee. Payload verification and
    password hashing are the provider's and arguments of the flows.

  \<^bold>\<open>Reading the model.\<close> A handler is a function from environment, arguments and database to an outcome, a pair of
  \<open>Inl error\<close> or \<open>Inr value\<close> and the database it leaves committed. A raise before any commit leaves the database
  unchanged; a failed commit rolls back. A call is one step; where its reads hold no row lock and interleave with another
  call, the two halves are modelled apart (\<open>read_join\<close>, \<open>write_join\<close>). Tables that queries scan are row lists in insertion order, tables read
  by a unique key are maps. Functions of the environment stand for what the code cannot decide: the broker's
  answer to a publication, row locks held by others, the outcome of a commit. Scores are exact rationals.

  \<^bold>\<open>What the lemmas show.\<close> Journal and outbox properties: superseded deliveries are inert, redeliveries are absorbed,
  success hands over atomically, messages are never lost and change by the ids reconciliation replaces only, their
  attempts stay within budget, a file becomes
  ready only through classification. Recovery: preserved files keep their status, a failed derivative restores
  the journal row, failures are charged to the budget, cancelled deliveries yield to later truth,
  plans follow the pipeline, requests are idempotent, and items only move along their life cycle. Media: the
  active pointer always names an active generation of the file, conflicting activations are fenced, collection
  deletes only closed, unreferenced objects older than the configured retention, keys parse back. Merging conserves files, memberships, pins
  and the sum of likes. Replay: one reservation and one message per replay, earlier attempts fenced, refusals without a
  trace. Reliability: hysteresis of admission, one probe per open circuit until the next report, redacted and
  unique dead letters (malformed text apart). Workers: an acknowledged, retried or parked delivery is recorded in the
  committed rows as a completion or a failure of its own attempt, retries end, and a superseded delivery is
  never settled. Collections: a saving call is one exact operation of the abstract shelf, a join uses an invite once and
  concurrent joins share a use, like counts follow the Favorites, only writers
  change saves, pins stay dense until an orphan's deletion leaves a gap, favoriting is undone by unfavoriting.
  Accounts: a merge hands over the favorites and events of the guest, a shared favorite keeps its second like, a link
  that fails changes nothing. Interests: a merged guest's history is the one history of both.

  \<^bold>\<open>Bounds and fuel.\<close> The garbage collector's loop runs at most the clamped batch size, which is its bound in the code;
  no other loop needs fuel.

  \<^bold>\<open>Not modelled.\<close> HTTP routes, the Telegram bot, crawlers, ranking of recommendations and search, the media, OCR and embedding clients, Redis, Qdrant and
  Meilisearch access, administration and analytics read models: they are I/O, or queries over tables the
  library does not carry. Of the administration of recovery, the capture of a query's selection and its
  materialization, and the listings of jobs.
\<close>

section \<open>Routing across components\<close>

lemma append_neq_suffix: "x @ ''.succeeded'' \<noteq> stage_value s"
proof
  assume "x @ ''.succeeded'' = stage_value s"
  then have "CHR ''.'' \<in> set (stage_value s)" by (metis in_set_conv_decomp append_Cons)
  then show False by (cases s) simp_all
qed

text \<open>
  An event is routed to the queue of some stage exactly when it is work: the success notifications of
  the two sync targets reach no worker queue, so no worker consumes its own success.
\<close>

theorem only_work_reaches_stage_queues:
  "(\<exists>s. resolve_routing_key_for_event env e = routing_key_for_stage env s) \<longleftrightarrow>
     ev_type e \<notin> {MEME_QDRANT_SYNCED, MEME_MEILI_SYNCED}"
proof (cases "ev_type e \<in> {MEME_QDRANT_SYNCED, MEME_MEILI_SYNCED}")
  case True
  then have "\<exists>u. resolve_routing_key_for_event env e = synced_routing_key env u"
    by (auto simp: resolve_routing_key_for_event_def)
  then show ?thesis
    using True by (auto simp: synced_routing_key_def routing_key_for_stage_def) (metis append_neq_suffix)+
next
  case False
  then show ?thesis by (auto simp: resolve_routing_key_for_event_def)
qed

end
